(* ===== verification/Prelude.thy ===== *)
theory Prelude
  imports Main "HOL-Library.Word" "HOL-Library.List_Lexorder" "HOL-Library.Char_ord"
begin

text \<open>
  Shared vocabulary of the development: the result and polling types of Rust's standard
  library, the machine integers, the pieces of \<open>std\<close> that the crates use on text (decimal
  printing and parsing of unsigned integers, trimming, ASCII case), and the generic lemmas the
  component theories rely on. Text is a \<^typ>\<open>string\<close>, read as its UTF-8 bytes, which is what
  \<open>str::len\<close> counts.
\<close>

named_theorems rpc_defs \<open>unfolding lemmas of the message types\<close>
named_theorems mgr_defs \<open>unfolding lemmas of the request manager operations\<close>
named_theorems mgr_inv \<open>preservation lemmas of the request manager invariant\<close>

section \<open>Results, panics and polling\<close>

type_synonym ('a, 'e) result = "'e + 'a"

abbreviation Ok :: "'a \<Rightarrow> ('a, 'e) result" where "Ok \<equiv> Inr"
abbreviation Err :: "'e \<Rightarrow> ('a, 'e) result" where "Err \<equiv> Inl"

definition is_ok :: "('a, 'e) result \<Rightarrow> bool" where
  "is_ok r = (case r of Inr _ \<Rightarrow> True | Inl _ \<Rightarrow> False)"

lemma is_ok_simps [simp]: "is_ok (Inr a)" "\<not> is_ok (Inl e)"
  by (simp_all add: is_ok_def)

text \<open>A call that may panic: \<open>expect\<close>, \<open>unreachable!\<close>, \<open>assert!\<close>.\<close>

datatype 'a outcome = Done 'a | Panicked

text \<open>\<open>std::task::Poll\<close>.\<close>

datatype 'a poll = Ready 'a | Pending

text \<open>The outcome of \<open>mpsc::Sender::try_send\<close>.\<close>

datatype try_send_result = SendOk | SendClosed | SendFull

section \<open>Machine integers\<close>

type_synonym u16 = "16 word"
type_synonym u32 = "32 word"
type_synonym u64 = "64 word"
type_synonym i32 = int

text \<open>\<open>usize\<close> is 64 bits wide on the supported targets; sizes of buffers are naturals.\<close>

definition usize_MAX :: nat where "usize_MAX = 2 ^ 64 - 1"

text \<open>The default limit of messages, \<open>core/src/lib.rs\<close>.\<close>

definition TEN_MB_SIZE_BYTES :: u32 where "TEN_MB_SIZE_BYTES = 10 * 1024 * 1024"

definition checked_add_u64 :: "u64 \<Rightarrow> u64 \<Rightarrow> u64 option" where
  "checked_add_u64 a b = (if unat a + unat b < 2 ^ 64 then Some (a + b) else None)"

definition checked_sub_u64 :: "u64 \<Rightarrow> u64 \<Rightarrow> u64 option" where
  "checked_sub_u64 a b = (if b \<le> a then Some (a - b) else None)"

lemma checked_add_u64_Some:
  "checked_add_u64 a b = Some c \<longleftrightarrow> unat a + unat b < 2 ^ 64 \<and> c = a + b"
  by (auto simp: checked_add_u64_def)

lemma checked_add_u64_unat: "checked_add_u64 a b = Some c \<Longrightarrow> unat c = unat a + unat b"
  by (auto simp: checked_add_u64_def unat_word_ariths split: if_splits)

lemma checked_sub_u64_unat:
  "checked_sub_u64 a b = Some c \<Longrightarrow> unat c = unat a - unat b \<and> unat b \<le> unat a"
  by (auto simp: checked_sub_u64_def unat_sub word_le_nat_alt split: if_splits)

lemma checked_sub_u64_None: "checked_sub_u64 a b = None \<longleftrightarrow> unat a < unat b"
  by (auto simp: checked_sub_u64_def word_le_nat_alt)

section \<open>Decimal text\<close>

definition digit_char :: "nat \<Rightarrow> char" where
  "digit_char d = char_of (48 + d)"

definition char_digit :: "char \<Rightarrow> nat option" where
  "char_digit c = (let n = of_char c in if 48 \<le> n \<and> n \<le> 57 then Some (n - 48) else None)"

lemma char_digit_digit_char [simp]: "d < 10 \<Longrightarrow> char_digit (digit_char d) = Some d"
  by (simp add: char_digit_def digit_char_def Let_def of_char_of)

text \<open>\<open>ToString\<close> of an unsigned integer.\<close>

fun nat_to_string :: "nat \<Rightarrow> string" where
  "nat_to_string n = (if n < 10 then [digit_char n]
     else nat_to_string (n div 10) @ [digit_char (n mod 10)])"

declare nat_to_string.simps [simp del]

text \<open>The digits of \<open>str::parse\<close>, most significant first.\<close>

fun digits_value :: "nat \<Rightarrow> string \<Rightarrow> nat option" where
  "digits_value acc [] = Some acc"
| "digits_value acc (c # cs) =
     (case char_digit c of None \<Rightarrow> None | Some d \<Rightarrow> digits_value (10 * acc + d) cs)"

text \<open>
  \<open>FromStr\<close> of an unsigned integer with values below \<open>bound\<close>: an optional leading \<open>+\<close>, at
  least one digit, and an error on overflow.
\<close>

definition parse_unsigned :: "nat \<Rightarrow> string \<Rightarrow> nat option" where
  "parse_unsigned bound s =
     (let body = (case s of [] \<Rightarrow> [] | c # cs \<Rightarrow> if c = CHR ''+'' then cs else s)
      in if body = [] then None
         else case digits_value 0 body of
           None \<Rightarrow> None
         | Some v \<Rightarrow> if v < bound then Some v else None)"

definition parse_u64 :: "string \<Rightarrow> u64 option" where
  "parse_u64 s = map_option of_nat (parse_unsigned (2 ^ 64) s)"

definition u64_to_string :: "u64 \<Rightarrow> string" where
  "u64_to_string n = nat_to_string (unat n)"

lemma digits_value_append:
  "digits_value acc (xs @ ys) =
     (case digits_value acc xs of None \<Rightarrow> None | Some v \<Rightarrow> digits_value v ys)"
  by (induction acc xs rule: digits_value.induct) (auto split: option.splits)

lemma digits_value_nat_to_string: "digits_value 0 (nat_to_string n) = Some n"
proof (induction n rule: nat_to_string.induct)
  case (1 n)
  show ?case
  proof (cases "n < 10")
    case True
    then show ?thesis by (simp add: nat_to_string.simps [of n])
  next
    case False
    with 1 have "digits_value 0 (nat_to_string (n div 10)) = Some (n div 10)" by simp
    with False show ?thesis
      by (simp add: nat_to_string.simps [of n] digits_value_append)
  qed
qed

lemma nat_to_string_ne [simp]: "nat_to_string n \<noteq> []"
  by (subst nat_to_string.simps) simp

lemma digits_value_head:
  assumes "digits_value acc (c # cs) = Some v"
  shows "c \<noteq> CHR ''+''"
  using assms by (auto simp: char_digit_def Let_def split: option.splits if_splits)

lemma parse_unsigned_nat_to_string:
  assumes "n < bound"
  shows "parse_unsigned bound (nat_to_string n) = Some n"
proof -
  obtain c cs where s: "nat_to_string n = c # cs"
    by (meson list.exhaust nat_to_string_ne)
  with digits_value_nat_to_string [of n] have v: "digits_value 0 (c # cs) = Some n" by simp
  then have "c \<noteq> CHR ''+''" by (rule digits_value_head)
  with s v assms show ?thesis by (simp add: parse_unsigned_def)
qed

lemma parse_u64_to_string [simp]: "parse_u64 (u64_to_string n) = Some n"
  using unsigned_less [where 'a = nat, of n]
  by (simp add: parse_u64_def u64_to_string_def parse_unsigned_nat_to_string)

lemma u64_to_string_inject [simp]: "u64_to_string a = u64_to_string b \<longleftrightarrow> a = b"
  by (metis option.inject parse_u64_to_string)

section \<open>Whitespace and ASCII case\<close>

text \<open>\<open>u8::is_ascii_whitespace\<close>: tab, line feed, form feed, carriage return and space.\<close>

definition is_ascii_whitespace :: "char \<Rightarrow> bool" where
  "is_ascii_whitespace c = (of_char c \<in> {9, 10, 12, 13, 32::nat})"

text \<open>
  The UTF-8 encodings of Unicode's \<open>White_Space\<close> characters, which \<open>str::trim\<close> removes.
\<close>

definition unicode_whitespace :: "nat list list" where
  "unicode_whitespace =
     [[9], [10], [11], [12], [13], [32], [0xC2, 0x85], [0xC2, 0xA0], [0xE1, 0x9A, 0x80],
      [0xE2, 0x80, 0x80], [0xE2, 0x80, 0x81], [0xE2, 0x80, 0x82], [0xE2, 0x80, 0x83],
      [0xE2, 0x80, 0x84], [0xE2, 0x80, 0x85], [0xE2, 0x80, 0x86], [0xE2, 0x80, 0x87],
      [0xE2, 0x80, 0x88], [0xE2, 0x80, 0x89], [0xE2, 0x80, 0x8A], [0xE2, 0x80, 0xA8],
      [0xE2, 0x80, 0xA9], [0xE2, 0x80, 0xAF], [0xE2, 0x81, 0x9F], [0xE3, 0x80, 0x80]]"

fun strip_prefixes :: "nat list list \<Rightarrow> string \<Rightarrow> string option" where
  "strip_prefixes [] s = None"
| "strip_prefixes (p # ps) s =
     (if p \<noteq> [] \<and> map of_char (take (length p) s) = p then Some (drop (length p) s)
      else strip_prefixes ps s)"

lemma strip_prefixes_shorter: "strip_prefixes ps s = Some t \<Longrightarrow> length t < length s"
proof (induction ps)
  case (Cons p ps)
  show ?case
  proof (cases "p \<noteq> [] \<and> map of_char (take (length p) s) = p")
    case True
    then have "length p \<le> length s"
      by (metis length_map length_take min.cobounded1)
    with True Cons.prems show ?thesis by (cases s) auto
  next
    case False
    with Cons show ?thesis by (simp split: if_splits)
  qed
qed simp

function trim_with :: "nat list list \<Rightarrow> string \<Rightarrow> string" where
  "trim_with ps s = (case strip_prefixes ps s of None \<Rightarrow> s | Some t \<Rightarrow> trim_with ps t)"
  by pat_completeness auto
termination
  by (relation "measure (\<lambda>(ps, s). length s)") (auto dest: strip_prefixes_shorter)

declare trim_with.simps [simp del]

definition trim_start :: "string \<Rightarrow> string" where
  "trim_start s = trim_with unicode_whitespace s"

definition trim_end :: "string \<Rightarrow> string" where
  "trim_end s = rev (trim_with (map rev unicode_whitespace) (rev s))"

definition trim :: "string \<Rightarrow> string" where
  "trim s = trim_end (trim_start s)"

lemma trim_with_stops: "strip_prefixes ps (trim_with ps s) = None"
proof (induction ps s rule: trim_with.induct)
  case (1 ps s)
  then show ?case by (subst trim_with.simps) (simp split: option.split)
qed

lemma trim_with_id: "strip_prefixes ps s = None \<Longrightarrow> trim_with ps s = s"
  by (subst trim_with.simps) simp

lemma trim_start_idem [simp]: "trim_start (trim_start s) = trim_start s"
  by (simp add: trim_start_def trim_with_id trim_with_stops)

text \<open>\<open>str::eq_ignore_ascii_case\<close>.\<close>

definition ascii_lower :: "char \<Rightarrow> char" where
  "ascii_lower c = (let n = of_char c :: nat in
     if 65 \<le> n \<and> n \<le> 90 then char_of (n + 32) else c)"

definition eq_ignore_ascii_case :: "string \<Rightarrow> string \<Rightarrow> bool" where
  "eq_ignore_ascii_case a b = (map ascii_lower a = map ascii_lower b)"

text \<open>
  The index and value of the first byte among the first \<open>n\<close> that is not ASCII whitespace:
  \<open>iter().enumerate().take(n).find(|(_, b)| !b.is_ascii_whitespace())\<close>.
\<close>

fun first_non_whitespace :: "nat \<Rightarrow> nat \<Rightarrow> string \<Rightarrow> (nat \<times> char) option" where
  "first_non_whitespace 0 i s = None"
| "first_non_whitespace (Suc n) i [] = None"
| "first_non_whitespace (Suc n) i (c # cs) =
     (if is_ascii_whitespace c then first_non_whitespace n (Suc i) cs else Some (i, c))"

lemma first_non_whitespace_nth:
  "first_non_whitespace n i s = Some (j, c) \<Longrightarrow>
     i \<le> j \<and> j - i < length s \<and> j - i < n \<and> s ! (j - i) = c \<and> \<not> is_ascii_whitespace c"
proof (induction n i s rule: first_non_whitespace.induct)
  case (3 n i c' cs)
  show ?case
  proof (cases "is_ascii_whitespace c'")
    case True
    with 3 have "Suc i \<le> j \<and> j - Suc i < length cs \<and> j - Suc i < n \<and>
      cs ! (j - Suc i) = c \<and> \<not> is_ascii_whitespace c" by simp
    moreover from this have "j - i = Suc (j - Suc i)" by linarith
    ultimately show ?thesis by simp
  qed (use 3 in auto)
qed simp_all

section \<open>Generic lemmas\<close>

lemma fold_append_concat: "fold (\<lambda>x acc. acc @ f x) xs a = a @ concat (map f xs)"
  by (induction xs arbitrary: a) simp_all

lemma dom_upd_None: "m k = None \<Longrightarrow> m(k := None) = m"
  by (simp add: fun_upd_idem)

section \<open>Tables that refuse to overwrite\<close>

text \<open>
  The contract shared by every registry of the program (pending calls and batches of a client,
  its notification handlers, the methods of a server): inserting under an occupied key gives the
  caller an error and changes nothing. \<open>view\<close> is what the table holds for this kind of entry, \<open>free\<close>
  says which keys can be inserted.
\<close>

locale insert_table =
  fixes insert :: "'k \<Rightarrow> 'v \<Rightarrow> 's \<Rightarrow> (unit, 'e) result \<times> 's"
    and view :: "'s \<Rightarrow> 'k \<rightharpoonup> 'v"
    and free :: "'s \<Rightarrow> 'k \<Rightarrow> bool"
    and refuse :: "'k \<Rightarrow> 'v \<Rightarrow> 'e"
  assumes insert_free: "free s k \<Longrightarrow> fst (insert k v s) = Inr ()"
    and insert_view: "free s k \<Longrightarrow> view (snd (insert k v s)) = (view s)(k \<mapsto> v)"
    and insert_taken: "free s k \<Longrightarrow> free (snd (insert k v s)) j \<longleftrightarrow> j \<noteq> k \<and> free s j"
    and insert_occupied: "\<not> free s k \<Longrightarrow> insert k v s = (Inl (refuse k v), s)"
    and view_taken: "view s k = Some v \<Longrightarrow> \<not> free s k"
begin

lemma insert_ok_iff: "fst (insert k v s) = Inr () \<longleftrightarrow> free s k"
  by (cases "free s k") (simp_all add: insert_free insert_occupied)

lemma insert_twice:
  assumes "free s k"
  shows "insert k w (snd (insert k v s)) = (Inl (refuse k w), snd (insert k v s))"
  using assms by (simp add: insert_occupied insert_taken)

lemma insert_keeps: "view s j = Some w \<Longrightarrow> view (snd (insert k v s)) j = Some w"
proof (cases "free s k")
  case True
  assume "view s j = Some w"
  with True view_taken have "j \<noteq> k" by blast
  with True \<open>view s j = Some w\<close> show ?thesis by (simp add: insert_view)
qed (simp add: insert_occupied)

end

text \<open>A table whose entries are taken out again when their answer arrives.\<close>

locale pending_table = insert_table insert view free refuse
  for insert :: "'k \<Rightarrow> 'v \<Rightarrow> 's \<Rightarrow> (unit, 'e) result \<times> 's"
    and view :: "'s \<Rightarrow> 'k \<rightharpoonup> 'v" and free :: "'s \<Rightarrow> 'k \<Rightarrow> bool" and refuse :: "'k \<Rightarrow> 'v \<Rightarrow> 'e" +
  fixes complete :: "'k \<Rightarrow> 's \<Rightarrow> 'v option \<times> 's"
  assumes complete_result: "fst (complete k s) = view s k"
    and complete_view: "view (snd (complete k s)) = (view s)(k := None)"
    and complete_free: "free (snd (complete k s)) j \<longleftrightarrow> free s j \<or> (j = k \<and> view s k \<noteq> None)"
    and complete_none: "view s k = None \<Longrightarrow> snd (complete k s) = s"
begin

text \<open>An inserted entry is given back by the first completion and by no later one.\<close>

lemma insert_complete_once:
  assumes "free s k"
  shows "fst (complete k (snd (insert k v s))) = Some v \<and>
    fst (complete k (snd (complete k (snd (insert k v s))))) = None"
  using assms by (simp add: complete_result complete_view insert_view)

lemma complete_other: "j \<noteq> k \<Longrightarrow> view (snd (complete k s)) j = view s j"
  by (simp add: complete_view)

lemma reinsert_after_complete:
  assumes "view s k = Some v"
  shows "fst (insert k w (snd (complete k s))) = Inr ()"
  using assms by (simp add: insert_free complete_free)

end

end
