(* ===== verification/Rpc_Types.thy ===== *)
theory Rpc_Types
  imports Prelude
begin

text \<open>
  The message types of \<open>types/src\<close>: error objects and codes (\<open>error.rs\<close>), request and
  subscription identifiers (\<open>params.rs\<close>), requests and notifications (\<open>request.rs\<close>) and
  responses (\<open>response.rs\<close>), with the hand-written \<open>Serialize\<close> and \<open>Deserialize\<close>
  implementations.

  The crates \<open>serde\<close> and \<open>serde_json\<close> are not part of the repository. What a \<open>Serialize\<close>
  implementation hands to a serializer is a value of type \<open>ser\<close>; the printer behind
  \<open>serde_json::to_writer\<close> and \<open>to_raw_value\<close> is a parameter of type \<open>emitter\<close>, which gives the
  pieces written to the output in order and whether serialization succeeded. What a
  \<open>Deserialize\<close> implementation receives is the list of members of the object being read.
\<close>

section \<open>The serde interface\<close>

datatype ser =
    SNull
  | SBool bool
  | SU64 u64
  | SI32 i32
  | SStr string
  | SRaw string
  | SSeq "ser list"
  | SStruct "(string \<times> ser) list"

type_synonym emitter = "ser \<Rightarrow> string list \<times> bool"

text \<open>\<open>serde_json::value::to_raw_value\<close> (and \<open>to_string\<close>): the whole text, or nothing.\<close>

definition to_raw_value :: "emitter \<Rightarrow> ser \<Rightarrow> string option" where
  "to_raw_value emit v = (case emit v of (chunks, ok) \<Rightarrow> if ok then Some (concat chunks) else None)"

datatype de_error = DuplicateField string | MissingField string | InvalidValue string | DeCustom string

text \<open>
  What \<open>MapAccess::next_key\<close> yields, in order: a key with its raw value, or the error of the
  underlying parser.
\<close>

type_synonym 'v map_access = "(string \<times> 'v, de_error) result list"

section \<open>Error codes and error objects (error.rs)\<close>

definition PARSE_ERROR_CODE :: i32 where [rpc_defs]: "PARSE_ERROR_CODE = -32700"
definition INVALID_REQUEST_CODE :: i32 where [rpc_defs]: "INVALID_REQUEST_CODE = -32600"
definition METHOD_NOT_FOUND_CODE :: i32 where [rpc_defs]: "METHOD_NOT_FOUND_CODE = -32601"
definition INVALID_PARAMS_CODE :: i32 where [rpc_defs]: "INVALID_PARAMS_CODE = -32602"
definition INTERNAL_ERROR_CODE :: i32 where [rpc_defs]: "INTERNAL_ERROR_CODE = -32603"
definition CALL_EXECUTION_FAILED_CODE :: i32 where [rpc_defs]: "CALL_EXECUTION_FAILED_CODE = -32000"
definition UNKNOWN_ERROR_CODE :: i32 where [rpc_defs]: "UNKNOWN_ERROR_CODE = -32001"
definition BATCHES_NOT_SUPPORTED_CODE :: i32 where [rpc_defs]: "BATCHES_NOT_SUPPORTED_CODE = -32005"
definition TOO_MANY_SUBSCRIPTIONS_CODE :: i32 where [rpc_defs]: "TOO_MANY_SUBSCRIPTIONS_CODE = -32006"
definition OVERSIZED_REQUEST_CODE :: i32 where [rpc_defs]: "OVERSIZED_REQUEST_CODE = -32007"
definition OVERSIZED_RESPONSE_CODE :: i32 where [rpc_defs]: "OVERSIZED_RESPONSE_CODE = -32008"
definition SERVER_IS_BUSY_CODE :: i32 where [rpc_defs]: "SERVER_IS_BUSY_CODE = -32009"
definition TOO_BIG_BATCH_REQUEST_CODE :: i32 where [rpc_defs]: "TOO_BIG_BATCH_REQUEST_CODE = -32010"
definition TOO_BIG_BATCH_RESPONSE_CODE :: i32 where [rpc_defs]: "TOO_BIG_BATCH_RESPONSE_CODE = -32011"
definition ENCRYPTION_ERROR_CODE :: i32 where [rpc_defs]: "ENCRYPTION_ERROR_CODE = -32012"
definition DECRYPTION_ERROR_CODE :: i32 where [rpc_defs]: "DECRYPTION_ERROR_CODE = -32013"

definition PARSE_ERROR_MSG :: string where "PARSE_ERROR_MSG = ''Parse error''"
definition OVERSIZED_REQUEST_MSG :: string where "OVERSIZED_REQUEST_MSG = ''Request is too big''"
definition OVERSIZED_RESPONSE_MSG :: string where "OVERSIZED_RESPONSE_MSG = ''Response is too big''"
definition INTERNAL_ERROR_MSG :: string where "INTERNAL_ERROR_MSG = ''Internal error''"
definition INVALID_PARAMS_MSG :: string where "INVALID_PARAMS_MSG = ''Invalid params''"
definition INVALID_REQUEST_MSG :: string where "INVALID_REQUEST_MSG = ''Invalid request''"
definition METHOD_NOT_FOUND_MSG :: string where "METHOD_NOT_FOUND_MSG = ''Method not found''"
definition SERVER_IS_BUSY_MSG :: string where
  "SERVER_IS_BUSY_MSG = ''Server is busy, try again later''"
definition SERVER_ERROR_MSG :: string where "SERVER_ERROR_MSG = ''Server error''"
definition BATCHES_NOT_SUPPORTED_MSG :: string where
  "BATCHES_NOT_SUPPORTED_MSG = ''Batched requests are not supported by this server''"
definition TOO_MANY_SUBSCRIPTIONS_MSG :: string where
  "TOO_MANY_SUBSCRIPTIONS_MSG = ''Too many subscriptions on the connection''"
definition TOO_BIG_BATCH_REQUEST_MSG :: string where
  "TOO_BIG_BATCH_REQUEST_MSG = ''The batch request was too large''"
definition TOO_BIG_BATCH_RESPONSE_MSG :: string where
  "TOO_BIG_BATCH_RESPONSE_MSG = ''The batch response was too large''"
definition ENCRYPTION_ERROR_MSG :: string where
  "ENCRYPTION_ERROR_MSG = ''Message encryption failed''"
definition DECRYPTION_ERROR_MSG :: string where
  "DECRYPTION_ERROR_MSG = ''Message decryption failed''"

datatype ErrorCode =
    ParseError
  | OversizedRequest
  | InvalidRequest
  | MethodNotFound
  | ServerIsBusy
  | InvalidParams
  | InternalError
  | ServerError i32

fun ErrorCode_code :: "ErrorCode \<Rightarrow> i32" where
  "ErrorCode_code ParseError = PARSE_ERROR_CODE"
| "ErrorCode_code OversizedRequest = OVERSIZED_REQUEST_CODE"
| "ErrorCode_code InvalidRequest = INVALID_REQUEST_CODE"
| "ErrorCode_code MethodNotFound = METHOD_NOT_FOUND_CODE"
| "ErrorCode_code ServerIsBusy = SERVER_IS_BUSY_CODE"
| "ErrorCode_code InvalidParams = INVALID_PARAMS_CODE"
| "ErrorCode_code InternalError = INTERNAL_ERROR_CODE"
| "ErrorCode_code (ServerError c) = c"

fun ErrorCode_message :: "ErrorCode \<Rightarrow> string" where
  "ErrorCode_message ParseError = PARSE_ERROR_MSG"
| "ErrorCode_message OversizedRequest = OVERSIZED_REQUEST_MSG"
| "ErrorCode_message InvalidRequest = INVALID_REQUEST_MSG"
| "ErrorCode_message MethodNotFound = METHOD_NOT_FOUND_MSG"
| "ErrorCode_message ServerIsBusy = SERVER_IS_BUSY_MSG"
| "ErrorCode_message InvalidParams = INVALID_PARAMS_MSG"
| "ErrorCode_message InternalError = INTERNAL_ERROR_MSG"
| "ErrorCode_message (ServerError c) = SERVER_ERROR_MSG"

definition ErrorCode_from :: "i32 \<Rightarrow> ErrorCode" where
  "ErrorCode_from c =
     (if c = PARSE_ERROR_CODE then ParseError
      else if c = OVERSIZED_REQUEST_CODE then OversizedRequest
      else if c = INVALID_REQUEST_CODE then InvalidRequest
      else if c = METHOD_NOT_FOUND_CODE then MethodNotFound
      else if c = INVALID_PARAMS_CODE then InvalidParams
      else if c = INTERNAL_ERROR_CODE then InternalError
      else ServerError c)"

definition ErrorCode_serialize :: "ErrorCode \<Rightarrow> ser" where
  "ErrorCode_serialize c = SI32 (ErrorCode_code c)"

text \<open>\<open>Deserialize for ErrorCode\<close> reads an \<open>i32\<close> first; \<open>de_i32\<close> is that reader.\<close>

definition ErrorCode_deserialize ::
  "('v \<Rightarrow> (i32, de_error) result) \<Rightarrow> 'v \<Rightarrow> (ErrorCode, de_error) result" where
  "ErrorCode_deserialize de_i32 v =
     (case de_i32 v of Inl e \<Rightarrow> Err e | Inr c \<Rightarrow> Ok (ErrorCode_from c))"

record ErrorObject =
  eo_code :: ErrorCode
  eo_message :: string
  eo_data :: "string option"

definition ErrorObject_code :: "ErrorObject \<Rightarrow> i32" where
  "ErrorObject_code e = ErrorCode_code (eo_code e)"

definition ErrorObject_owned :: "emitter \<Rightarrow> i32 \<Rightarrow> string \<Rightarrow> ser option \<Rightarrow> ErrorObject" where
  "ErrorObject_owned emit c msg d =
     \<lparr>eo_code = ErrorCode_from c, eo_message = msg,
      eo_data = (case d of None \<Rightarrow> None | Some v \<Rightarrow> to_raw_value emit v)\<rparr>"

definition ErrorObject_borrowed :: "i32 \<Rightarrow> string \<Rightarrow> string option \<Rightarrow> ErrorObject" where
  "ErrorObject_borrowed c msg d = \<lparr>eo_code = ErrorCode_from c, eo_message = msg, eo_data = d\<rparr>"

definition ErrorObject_from :: "ErrorCode \<Rightarrow> ErrorObject" where
  "ErrorObject_from c = \<lparr>eo_code = c, eo_message = ErrorCode_message c, eo_data = None\<rparr>"

definition ErrorObject_eq :: "ErrorObject \<Rightarrow> ErrorObject \<Rightarrow> bool" where
  "ErrorObject_eq a b \<longleftrightarrow>
     eo_code a = eo_code b \<and> eo_message a = eo_message b \<and> eo_data a = eo_data b"

text \<open>The derived \<open>Serialize\<close>: \<open>data\<close> is skipped when absent.\<close>

definition ErrorObject_serialize :: "ErrorObject \<Rightarrow> ser" where
  "ErrorObject_serialize e = SStruct
     ([(''code'', ErrorCode_serialize (eo_code e)), (''message'', SStr (eo_message e))] @
      (case eo_data e of None \<Rightarrow> [] | Some d \<Rightarrow> [(''data'', SRaw d)]))"

definition exceeded_limit :: "nat \<Rightarrow> ser" where
  "exceeded_limit limit = SStr (''Exceeded max limit of '' @ nat_to_string limit)"

definition reject_too_many_subscriptions :: "emitter \<Rightarrow> u32 \<Rightarrow> ErrorObject" where
  "reject_too_many_subscriptions emit limit =
     ErrorObject_owned emit TOO_MANY_SUBSCRIPTIONS_CODE TOO_MANY_SUBSCRIPTIONS_MSG
       (Some (exceeded_limit (unat limit)))"

definition reject_too_big_request :: "emitter \<Rightarrow> u32 \<Rightarrow> ErrorObject" where
  "reject_too_big_request emit limit =
     ErrorObject_owned emit OVERSIZED_REQUEST_CODE OVERSIZED_REQUEST_MSG
       (Some (exceeded_limit (unat limit)))"

definition reject_too_big_batch_request :: "emitter \<Rightarrow> nat \<Rightarrow> ErrorObject" where
  "reject_too_big_batch_request emit limit =
     ErrorObject_owned emit TOO_BIG_BATCH_REQUEST_CODE TOO_BIG_BATCH_REQUEST_MSG
       (Some (exceeded_limit limit))"

definition reject_too_big_batch_response :: "emitter \<Rightarrow> nat \<Rightarrow> ErrorObject" where
  "reject_too_big_batch_response emit limit =
     ErrorObject_owned emit TOO_BIG_BATCH_RESPONSE_CODE TOO_BIG_BATCH_RESPONSE_MSG
       (Some (exceeded_limit limit))"

text \<open>\<open>RegisterMethodError\<close> of \<open>core/src/error.rs\<close>.\<close>

datatype RegisterMethodError =
    AlreadyRegistered string
  | SubscriptionNameConflict string
  | RegMethodNotFound string

section \<open>Identifiers (params.rs)\<close>

datatype TwoPointZero = TwoPointZero

definition TwoPointZero_visit_str :: "string \<Rightarrow> (TwoPointZero, de_error) result" where
  "TwoPointZero_visit_str s = (if s = ''2.0'' then Ok TwoPointZero else Err (InvalidValue s))"

definition TwoPointZero_serialize :: "TwoPointZero \<Rightarrow> ser" where
  "TwoPointZero_serialize _ = SStr ''2.0''"

datatype SubscriptionId = Num u64 | SubStr string

fun SubscriptionId_serialize :: "SubscriptionId \<Rightarrow> ser" where
  "SubscriptionId_serialize (Num n) = SU64 n"
| "SubscriptionId_serialize (SubStr s) = SStr s"

text \<open>
  \<open>serde_json::Value\<close> with its number type \<open>'n\<close> left abstract; \<open>as_u64\<close> and \<open>from_u64\<close> are the
  conversions of \<open>serde_json::Number\<close>.
\<close>

datatype 'n JsonValue =
    JNull
  | JBool bool
  | JNumber 'n
  | JString string
  | JArray "'n JsonValue list"
  | JObject "(string \<times> 'n JsonValue) list"

fun JsonValue_from_subscription_id :: "(u64 \<Rightarrow> 'n) \<Rightarrow> SubscriptionId \<Rightarrow> 'n JsonValue" where
  "JsonValue_from_subscription_id from_u64 (Num n) = JNumber (from_u64 n)"
| "JsonValue_from_subscription_id from_u64 (SubStr s) = JString s"

fun SubscriptionId_try_from :: "('n \<Rightarrow> u64 option) \<Rightarrow> 'n JsonValue \<Rightarrow> SubscriptionId option" where
  "SubscriptionId_try_from as_u64 (JString s) = Some (SubStr s)"
| "SubscriptionId_try_from as_u64 (JNumber n) =
     (case as_u64 n of Some k \<Rightarrow> Some (Num k) | None \<Rightarrow> None)"
| "SubscriptionId_try_from as_u64 _ = None"

datatype InvalidRequestId = NotPendingRequest string | Occupied string | Invalid string

datatype Id = Null | Number u64 | Str string

text \<open>The derived \<open>Ord\<close>: variants in declaration order, then their contents.\<close>

instantiation Id :: linorder
begin

fun less_eq_Id :: "Id \<Rightarrow> Id \<Rightarrow> bool" where
  "less_eq_Id Null _ = True"
| "less_eq_Id (Number a) Null = False"
| "less_eq_Id (Number a) (Number b) = (a \<le> b)"
| "less_eq_Id (Number a) (Str b) = True"
| "less_eq_Id (Str a) (Str b) = (a \<le> b)"
| "less_eq_Id (Str a) _ = False"

definition less_Id :: "Id \<Rightarrow> Id \<Rightarrow> bool" where
  "less_Id a b = (a \<le> b \<and> \<not> b \<le> a)"

instance
proof
  fix x y z :: Id
  show "x < y \<longleftrightarrow> x \<le> y \<and> \<not> y \<le> x" by (rule less_Id_def)
  show "x \<le> x" by (cases x) simp_all
  show "x \<le> y \<Longrightarrow> y \<le> z \<Longrightarrow> x \<le> z" by (cases x; cases y; cases z) simp_all
  show "x \<le> y \<Longrightarrow> y \<le> x \<Longrightarrow> x = y" by (cases x; cases y) simp_all
  show "x \<le> y \<or> y \<le> x" by (cases x; cases y) (simp_all add: linear)
qed

end

fun as_number :: "Id \<Rightarrow> u64 option" where
  "as_number (Number n) = Some n"
| "as_number _ = None"

fun as_str :: "Id \<Rightarrow> string option" where
  "as_str (Str s) = Some s"
| "as_str _ = None"

fun as_null :: "Id \<Rightarrow> unit option" where
  "as_null Null = Some ()"
| "as_null _ = None"

fun Id_into_owned :: "Id \<Rightarrow> Id" where
  "Id_into_owned Null = Null"
| "Id_into_owned (Number n) = Number n"
| "Id_into_owned (Str s) = Str s"

fun try_parse_inner_as_number :: "Id \<Rightarrow> (u64, InvalidRequestId) result" where
  "try_parse_inner_as_number Null = Err (Invalid ''null'')"
| "try_parse_inner_as_number (Number n) = Ok n"
| "try_parse_inner_as_number (Str s) =
     (case parse_u64 s of Some n \<Rightarrow> Ok n | None \<Rightarrow> Err (Invalid s))"

fun Id_to_string :: "Id \<Rightarrow> string" where
  "Id_to_string Null = ''null''"
| "Id_to_string (Number n) = u64_to_string n"
| "Id_to_string (Str s) = s"

fun Id_serialize :: "Id \<Rightarrow> ser" where
  "Id_serialize Null = SNull"
| "Id_serialize (Number n) = SU64 n"
| "Id_serialize (Str s) = SStr s"

definition invalid_params :: "emitter \<Rightarrow> string \<Rightarrow> ErrorObject" where
  "invalid_params emit e =
     ErrorObject_owned emit (ErrorCode_code InvalidParams) INVALID_PARAMS_MSG (Some (SStr e))"

section \<open>Requests and notifications (request.rs)\<close>

text \<open>\<open>http::Extensions\<close>: a map from types to values; a type is its name.\<close>

type_synonym extensions = "string \<rightharpoonup> string"

record Request =
  req_jsonrpc :: TwoPointZero
  req_id :: Id
  req_method :: string
  req_params :: "string option"
  req_extensions :: extensions

definition Request_owned :: "string \<Rightarrow> string option \<Rightarrow> Id \<Rightarrow> Request" where
  "Request_owned m p i =
     \<lparr>req_jsonrpc = TwoPointZero, req_id = i, req_method = m, req_params = p,
      req_extensions = Map.empty\<rparr>"

definition Request_borrowed :: "string \<Rightarrow> string option \<Rightarrow> Id \<Rightarrow> Request" where
  "Request_borrowed m p i =
     \<lparr>req_jsonrpc = TwoPointZero, req_id = i, req_method = m, req_params = p,
      req_extensions = Map.empty\<rparr>"

definition Request_serialize :: "Request \<Rightarrow> ser" where
  "Request_serialize r = SStruct
     ([(''jsonrpc'', TwoPointZero_serialize (req_jsonrpc r)), (''id'', Id_serialize (req_id r)),
       (''method'', SStr (req_method r))] @
      (case req_params r of None \<Rightarrow> [] | Some p \<Rightarrow> [(''params'', SRaw p)]))"

record InvalidRequest_t = ivr_id :: Id

record 't Notification =
  ntf_jsonrpc :: TwoPointZero
  ntf_method :: string
  ntf_params :: 't
  ntf_extensions :: extensions

definition Notification_new :: "string \<Rightarrow> 't \<Rightarrow> 't Notification" where
  "Notification_new m p =
     \<lparr>ntf_jsonrpc = TwoPointZero, ntf_method = m, ntf_params = p, ntf_extensions = Map.empty\<rparr>"

definition Notification_serialize :: "('t \<Rightarrow> ser) \<Rightarrow> 't Notification \<Rightarrow> ser" where
  "Notification_serialize ser_t n = SStruct
     [(''jsonrpc'', TwoPointZero_serialize (ntf_jsonrpc n)), (''method'', SStr (ntf_method n)),
      (''params'', ser_t (ntf_params n))]"

section \<open>Responses (response.rs)\<close>

datatype 't ResponsePayload = Success 't | RpError ErrorObject

record 't Response =
  rp_jsonrpc :: "TwoPointZero option"
  rp_payload :: "'t ResponsePayload"
  rp_id :: Id
  rp_extensions :: extensions

definition Response_new :: "'t ResponsePayload \<Rightarrow> Id \<Rightarrow> 't Response" where
  "Response_new p i =
     \<lparr>rp_jsonrpc = Some TwoPointZero, rp_payload = p, rp_id = i, rp_extensions = Map.empty\<rparr>"

definition Response_new_with_extensions ::
  "'t ResponsePayload \<Rightarrow> Id \<Rightarrow> extensions \<Rightarrow> 't Response" where
  "Response_new_with_extensions p i ext =
     \<lparr>rp_jsonrpc = Some TwoPointZero, rp_payload = p, rp_id = i, rp_extensions = ext\<rparr>"

definition ResponsePayload_from :: "ErrorCode \<Rightarrow> 't ResponsePayload" where
  "ResponsePayload_from c = RpError (ErrorObject_from c)"

record 't Success_t =
  ok_jsonrpc :: "TwoPointZero option"
  ok_result :: 't
  ok_id :: Id

definition Success_try_from :: "'t Response \<Rightarrow> ('t Success_t, ErrorObject) result" where
  "Success_try_from rp = (case rp_payload rp of
       RpError e \<Rightarrow> Err e
     | Success r \<Rightarrow> Ok \<lparr>ok_jsonrpc = rp_jsonrpc rp, ok_result = r, ok_id = rp_id rp\<rparr>)"

record 't SubscriptionPayload =
  sp_subscription :: SubscriptionId
  sp_result :: 't

record 't SubscriptionPayloadError =
  spe_subscription :: SubscriptionId
  spe_error :: 't

definition SubscriptionPayload_serialize :: "('t \<Rightarrow> ser) \<Rightarrow> 't SubscriptionPayload \<Rightarrow> ser" where
  "SubscriptionPayload_serialize ser_t p = SStruct
     [(''subscription'', SubscriptionId_serialize (sp_subscription p)),
      (''result'', ser_t (sp_result p))]"

definition SubscriptionPayloadError_serialize ::
  "('t \<Rightarrow> ser) \<Rightarrow> 't SubscriptionPayloadError \<Rightarrow> ser" where
  "SubscriptionPayloadError_serialize ser_t p = SStruct
     [(''subscription'', SubscriptionId_serialize (spe_subscription p)),
      (''error'', ser_t (spe_error p))]"

definition Response_serialize :: "('t \<Rightarrow> ser) \<Rightarrow> 't Response \<Rightarrow> ser" where
  "Response_serialize ser_t rp = SStruct
     ((case rp_jsonrpc rp of None \<Rightarrow> [] | Some v \<Rightarrow> [(''jsonrpc'', TwoPointZero_serialize v)]) @
      [(''id'', Id_serialize (rp_id rp))] @
      (case rp_payload rp of
         RpError e \<Rightarrow> [(''error'', ErrorObject_serialize e)]
       | Success r \<Rightarrow> [(''result'', ser_t r)]))"

datatype Field = FJsonrpc | FResult | FError | FId | FIgnore

definition Field_visit_str :: "string \<Rightarrow> Field" where
  "Field_visit_str v =
     (if v = ''jsonrpc'' then FJsonrpc else if v = ''result'' then FResult
      else if v = ''error'' then FError else if v = ''id'' then FId else FIgnore)"

text \<open>
  The value readers of the members (\<open>next_value\<close> at the four member types and at
  \<open>IgnoredAny\<close>).
\<close>

record ('v, 't) response_readers =
  rd_jsonrpc :: "'v \<Rightarrow> (TwoPointZero option, de_error) result"
  rd_result :: "'v \<Rightarrow> ('t, de_error) result"
  rd_error :: "'v \<Rightarrow> (ErrorObject, de_error) result"
  rd_id :: "'v \<Rightarrow> (Id, de_error) result"
  rd_ignored :: "'v \<Rightarrow> (unit, de_error) result"

text \<open>The four locals of \<open>visit_map\<close>.\<close>

record 't visit_state =
  vs_jsonrpc :: "TwoPointZero option option"
  vs_result :: "'t option"
  vs_error :: "ErrorObject option"
  vs_id :: "Id option"

definition visit_entry ::
  "('v, 't) response_readers \<Rightarrow> string \<Rightarrow> 'v \<Rightarrow> 't visit_state \<Rightarrow> ('t visit_state, de_error) result"
where
  "visit_entry rd key v st = (case Field_visit_str key of
       FResult \<Rightarrow>
         if vs_result st \<noteq> None then Err (DuplicateField ''result'')
         else (case rd_result rd v of Inl e \<Rightarrow> Err e | Inr x \<Rightarrow> Ok (st\<lparr>vs_result := Some x\<rparr>))
     | FError \<Rightarrow>
         if vs_error st \<noteq> None then Err (DuplicateField ''error'')
         else (case rd_error rd v of Inl e \<Rightarrow> Err e | Inr x \<Rightarrow> Ok (st\<lparr>vs_error := Some x\<rparr>))
     | FId \<Rightarrow>
         if vs_id st \<noteq> None then Err (DuplicateField ''id'')
         else (case rd_id rd v of Inl e \<Rightarrow> Err e | Inr x \<Rightarrow> Ok (st\<lparr>vs_id := Some x\<rparr>))
     | FJsonrpc \<Rightarrow>
         if vs_jsonrpc st \<noteq> None then Err (DuplicateField ''jsonrpc'')
         else (case rd_jsonrpc rd v of Inl e \<Rightarrow> Err e | Inr x \<Rightarrow> Ok (st\<lparr>vs_jsonrpc := Some x\<rparr>))
     | FIgnore \<Rightarrow> (case rd_ignored rd v of Inl e \<Rightarrow> Err e | Inr _ \<Rightarrow> Ok st))"

fun visit_entries ::
  "('v, 't) response_readers \<Rightarrow> 'v map_access \<Rightarrow> 't visit_state \<Rightarrow> ('t visit_state, de_error) result"
where
  "visit_entries rd [] st = Ok st"
| "visit_entries rd (Inl e # es) st = Err e"
| "visit_entries rd (Inr (key, v) # es) st =
     (case visit_entry rd key v st of Inl e \<Rightarrow> Err e | Inr st' \<Rightarrow> visit_entries rd es st')"

definition visit_init :: "'t visit_state" where
  "visit_init = \<lparr>vs_jsonrpc = None, vs_result = None, vs_error = None, vs_id = None\<rparr>"

definition visit_finish :: "'t visit_state \<Rightarrow> ('t Response, de_error) result" where
  "visit_finish st = (case vs_id st of
       None \<Rightarrow> Err (MissingField ''id'')
     | Some i \<Rightarrow> (case (vs_jsonrpc st, vs_result st, vs_error st) of
         (_, Some _, Some _) \<Rightarrow> Err (DuplicateField ''result and error are mutually exclusive'')
       | (Some j, Some r, None) \<Rightarrow>
           Ok \<lparr>rp_jsonrpc = j, rp_payload = Success r, rp_id = i, rp_extensions = Map.empty\<rparr>
       | (Some j, None, Some e) \<Rightarrow>
           Ok \<lparr>rp_jsonrpc = j, rp_payload = RpError e, rp_id = i, rp_extensions = Map.empty\<rparr>
       | (None, Some r, _) \<Rightarrow>
           Ok \<lparr>rp_jsonrpc = None, rp_payload = Success r, rp_id = i, rp_extensions = Map.empty\<rparr>
       | (None, None, Some e) \<Rightarrow>
           Ok \<lparr>rp_jsonrpc = None, rp_payload = RpError e, rp_id = i, rp_extensions = Map.empty\<rparr>
       | (_, None, None) \<Rightarrow> Err (MissingField ''result/error'')))"

definition Response_visit_map ::
  "('v, 't) response_readers \<Rightarrow> 'v map_access \<Rightarrow> ('t Response, de_error) result" where
  "Response_visit_map rd es =
     (case visit_entries rd es visit_init of Inl e \<Rightarrow> Err e | Inr st \<Rightarrow> visit_finish st)"

section \<open>Readers on the serde data model\<close>

text \<open>
  The derived \<open>Deserialize\<close> implementations, on values of the serde data model: what they make of
  the values the \<open>Serialize\<close> implementations above produce.
\<close>

fun Id_deserialize :: "ser \<Rightarrow> (Id, de_error) result" where
  "Id_deserialize SNull = Ok Null"
| "Id_deserialize (SU64 n) = Ok (Number n)"
| "Id_deserialize (SStr s) = Ok (Str s)"
| "Id_deserialize _ = Err (DeCustom ''data did not match any variant of untagged enum Id'')"

fun jsonrpc_deserialize :: "ser \<Rightarrow> (TwoPointZero option, de_error) result" where
  "jsonrpc_deserialize SNull = Ok None"
| "jsonrpc_deserialize (SStr s) =
     (case TwoPointZero_visit_str s of Inl e \<Rightarrow> Err e | Inr v \<Rightarrow> Ok (Some v))"
| "jsonrpc_deserialize _ = Err (DeCustom ''expected a string'')"

fun de_i32 :: "ser \<Rightarrow> (i32, de_error) result" where
  "de_i32 (SI32 n) = Ok n"
| "de_i32 _ = Err (DeCustom ''expected i32'')"

fun de_raw :: "ser \<Rightarrow> (string, de_error) result" where
  "de_raw (SRaw s) = Ok s"
| "de_raw _ = Err (DeCustom ''any valid JSON value'')"

fun ErrorObject_deserialize :: "ser \<Rightarrow> (ErrorObject, de_error) result" where
  "ErrorObject_deserialize (SStruct fs) =
     (if \<exists>k \<in> set (map fst fs). k \<notin> {''code'', ''message'', ''data''}
      then Err (DeCustom ''unknown field'')
      else case map_of fs ''code'' of
        None \<Rightarrow> Err (MissingField ''code'')
      | Some c \<Rightarrow> (case ErrorCode_deserialize de_i32 c of
          Inl e \<Rightarrow> Err e
        | Inr code \<Rightarrow> (case map_of fs ''message'' of
            Some (SStr m) \<Rightarrow> (case map_of fs ''data'' of
                None \<Rightarrow> Ok \<lparr>eo_code = code, eo_message = m, eo_data = None\<rparr>
              | Some d \<Rightarrow> (case de_raw d of
                    Inl e \<Rightarrow> Err e
                  | Inr r \<Rightarrow> Ok \<lparr>eo_code = code, eo_message = m, eo_data = Some r\<rparr>))
          | _ \<Rightarrow> Err (MissingField ''message''))))"
| "ErrorObject_deserialize _ = Err (DeCustom ''expected struct ErrorObject'')"

definition ser_readers :: "(ser, string) response_readers" where
  "ser_readers = \<lparr>rd_jsonrpc = jsonrpc_deserialize, rd_result = de_raw,
     rd_error = ErrorObject_deserialize, rd_id = Id_deserialize, rd_ignored = (\<lambda>_. Ok ())\<rparr>"

fun ser_members :: "ser \<Rightarrow> ser map_access" where
  "ser_members (SStruct fs) = map Inr fs"
| "ser_members _ = [Inl (DeCustom ''expected struct Response'')]"

text \<open>
  A compact JSON printer: the emitter used to run the definitions on concrete input.
\<close>

definition hex_digit :: "nat \<Rightarrow> char" where
  "hex_digit d = (if d < 10 then char_of (48 + d) else char_of (87 + d))"

definition escape_char :: "char \<Rightarrow> string" where
  "escape_char c = (let n = of_char c :: nat in
     if n = 34 then [char_of (92::nat), char_of (34::nat)]
     else if n = 92 then [char_of (92::nat), char_of (92::nat)]
     else if n < 32 then [char_of (92::nat)] @ ''u00'' @ [hex_digit (n div 16), hex_digit (n mod 16)]
     else [c])"

definition json_string :: "string \<Rightarrow> string" where
  "json_string s = char_of (34::nat) # concat (map escape_char s) @ [char_of (34::nat)]"

definition int_to_string :: "int \<Rightarrow> string" where
  "int_to_string n = (if n < 0 then ''-'' @ nat_to_string (nat (- n)) else nat_to_string (nat n))"

fun join_comma :: "string list \<Rightarrow> string" where
  "join_comma [] = []"
| "join_comma [x] = x"
| "join_comma (x # y # ys) = x @ '','' @ join_comma (y # ys)"

fun json_text :: "ser \<Rightarrow> string" and json_member :: "string \<times> ser \<Rightarrow> string" where
  "json_text SNull = ''null''"
| "json_text (SBool b) = (if b then ''true'' else ''false'')"
| "json_text (SU64 n) = u64_to_string n"
| "json_text (SI32 n) = int_to_string n"
| "json_text (SStr s) = json_string s"
| "json_text (SRaw s) = s"
| "json_text (SSeq xs) = ''['' @ join_comma (map json_text xs) @ '']''"
| "json_text (SStruct fs) = ''{'' @ join_comma (map json_member fs) @ ''}''"
| "json_member (k, v) = json_string k @ '':'' @ json_text v"

definition json_emit :: emitter where
  "json_emit v = ([json_text v], True)"

text \<open>Facts that evaluate the text of an example.\<close>

lemmas char_eval = char_of_def bit_iff_odd

lemmas json_eval = char_eval json_string_def escape_char_def u64_to_string_def nat_to_string.simps digit_char_def
  Request_serialize_def Request_borrowed_def Request_owned_def Response_serialize_def Response_new_def TwoPointZero_serialize_def
  Notification_serialize_def Notification_new_def SubscriptionPayload_serialize_def

section \<open>Lemmas\<close>

lemma ErrorCode_code_from [simp]: "ErrorCode_code (ErrorCode_from c) = c"
  by (simp add: ErrorCode_from_def)

lemma ErrorObject_owned_code [simp]: "ErrorObject_code (ErrorObject_owned emit c m d) = c"
  by (simp add: ErrorObject_code_def ErrorObject_owned_def)

lemma ErrorObject_from_code [simp]: "ErrorObject_code (ErrorObject_from c) = ErrorCode_code c"
  by (simp add: ErrorObject_code_def ErrorObject_from_def)

lemma Id_into_owned_id [simp]: "Id_into_owned i = i"
  by (cases i) simp_all

text \<open>The members that name a field, and the count each one leaves in the locals.\<close>

fun field_count :: "Field \<Rightarrow> 'v map_access \<Rightarrow> nat" where
  "field_count f [] = 0"
| "field_count f (Inl e # es) = field_count f es"
| "field_count f (Inr (k, v) # es) = (if Field_visit_str k = f then 1 else 0) + field_count f es"

definition is_set :: "'a option \<Rightarrow> nat" where
  "is_set x = (if x = None then 0 else 1)"

lemma is_set_simps [simp]: "is_set None = 0" "is_set (Some x) = Suc 0"
  by (simp_all add: is_set_def)

lemma visit_entries_count:
  "visit_entries rd es st = Inr st' \<Longrightarrow>
     field_count FId es + is_set (vs_id st) = is_set (vs_id st') \<and>
     field_count FResult es + is_set (vs_result st) = is_set (vs_result st') \<and>
     field_count FError es + is_set (vs_error st) = is_set (vs_error st') \<and>
     field_count FJsonrpc es + is_set (vs_jsonrpc st) = is_set (vs_jsonrpc st')"
proof (induction rd es st rule: visit_entries.induct)
  case (3 rd key v es st)
  then obtain st1 where s: "visit_entry rd key v st = Inr st1" "visit_entries rd es st1 = Inr st'"
    by (auto split: sum.splits)
  note IH = "3.IH" [OF s]
  from s(1) IH show ?case
    by (cases "Field_visit_str key") (auto simp: visit_entry_def split: if_splits sum.splits)
qed simp_all

lemma visit_entries_no_error: "visit_entries rd es st = Inr st' \<Longrightarrow> Inl e \<notin> set es"
  by (induction rd es st rule: visit_entries.induct) (auto split: sum.splits)

lemma visit_finish_set:
  "visit_finish st = Inr rp \<Longrightarrow>
     vs_id st = Some (rp_id rp) \<and> (vs_result st = None \<longleftrightarrow> vs_error st \<noteq> None) \<and>
     (case rp_payload rp of Success r \<Rightarrow> vs_result st = Some r | RpError e \<Rightarrow> vs_error st = Some e)"
  by (auto simp: visit_finish_def split: option.splits)

lemma Field_visit_str_simps [simp]:
  "Field_visit_str ''jsonrpc'' = FJsonrpc" "Field_visit_str ''result'' = FResult"
  "Field_visit_str ''error'' = FError" "Field_visit_str ''id'' = FId"
  by (simp_all add: Field_visit_str_def)

text \<open>What reading does to a payload: an error code passes through its number.\<close>

fun reread_payload :: "'t ResponsePayload \<Rightarrow> 't ResponsePayload" where
  "reread_payload (Success r) = Success r"
| "reread_payload (RpError e) = RpError (e\<lparr>eo_code := ErrorCode_from (ErrorCode_code (eo_code e))\<rparr>)"

text \<open>
  The contract between the serializers and the readers, and what it gives for the hand-written
  implementations of \<open>Response\<close>.
\<close>

locale response_codec =
  fixes rd :: "(ser, 't) response_readers" and ser_t :: "'t \<Rightarrow> ser"
  assumes jsonrpc_read: "rd_jsonrpc rd (TwoPointZero_serialize v) = Inr (Some v)"
    and id_read: "rd_id rd (Id_serialize i) = Inr i"
    and result_read: "rd_result rd (ser_t t) = Inr t"
    and error_read: "rd_error rd (ErrorObject_serialize e) =
          Inr (e\<lparr>eo_code := ErrorCode_from (ErrorCode_code (eo_code e))\<rparr>)"
begin

lemma response_read_back:
  "Response_visit_map rd (ser_members (Response_serialize ser_t rp)) =
     Inr \<lparr>rp_jsonrpc = rp_jsonrpc rp, rp_payload = reread_payload (rp_payload rp),
          rp_id = rp_id rp, rp_extensions = Map.empty\<rparr>"
  by (cases "rp_jsonrpc rp"; cases "rp_payload rp")
     (simp_all add: Response_visit_map_def Response_serialize_def visit_entry_def visit_init_def
        visit_finish_def jsonrpc_read id_read result_read error_read)

end

interpretation ser_codec: response_codec ser_readers SRaw
proof
  show "rd_error ser_readers (ErrorObject_serialize e) =
      Inr (e\<lparr>eo_code := ErrorCode_from (ErrorCode_code (eo_code e))\<rparr>)" for e
    by (cases e; cases "eo_data e")
       (auto simp: ser_readers_def ErrorObject_serialize_def ErrorCode_deserialize_def
         ErrorCode_serialize_def)
  show "rd_id ser_readers (Id_serialize i) = Inr i" for i
    by (cases i) (simp_all add: ser_readers_def)
  show "rd_jsonrpc ser_readers (TwoPointZero_serialize v) = Inr (Some v)" for v
    by (cases v) (simp add: ser_readers_def TwoPointZero_serialize_def TwoPointZero_visit_str_def)
qed (simp add: ser_readers_def)

section \<open>Properties\<close>


text \<open>A response object is accepted only if it has \<open>id\<close> exactly once, exactly one member among
  \<open>result\<close> and \<open>error\<close>, and \<open>jsonrpc\<close> at most once, whatever the order of the members and whatever
  the readers of the values do.\<close>

lemma response_members_unique:
  assumes "Response_visit_map rd es = Inr rp"
  shows "field_count FId es = 1 \<and> field_count FResult es + field_count FError es = 1 \<and>
    field_count FJsonrpc es \<le> 1 \<and> Inl e \<notin> set es \<and>
    (case rp_payload rp of Success _ \<Rightarrow> field_count FResult es = 1 | RpError _ \<Rightarrow> field_count FError es = 1)"
proof -
  from assms obtain st where st: "visit_entries rd es visit_init = Inr st" "visit_finish st = Inr rp"
    by (auto simp: Response_visit_map_def split: sum.splits)
  from visit_entries_count [OF st(1)] visit_finish_set [OF st(2)] visit_entries_no_error [OF st(1)]
  show ?thesis
    by (auto simp: visit_init_def is_set_def split: ResponsePayload.splits if_splits)
qed

text \<open>An error code survives its integer form exactly when it is one of the six codes that
  \<open>From<i32>\<close> recognises, or a \<open>ServerError\<close> whose number is none of them: \<open>ServerIsBusy\<close> comes back
  as \<open>ServerError(-32009)\<close>.\<close>

lemma error_code_roundtrip:
  "ErrorCode_from (ErrorCode_code c) = c \<longleftrightarrow>
     c \<noteq> ServerIsBusy \<and>
     c \<notin> ServerError ` ErrorCode_code `
       {ParseError, OversizedRequest, InvalidRequest, MethodNotFound, InvalidParams, InternalError}"
  by (cases c) (auto simp: ErrorCode_from_def rpc_defs)

end
