(* ===== verification/Request_Manager.thy ===== *)
theory Request_Manager
  imports Rpc_Types
begin

text \<open>
  \<open>core/src/client/async_client/manager.rs\<close>: the table in which a client tracks its pending calls,
  pending and active subscriptions, pending batches and notification handlers.

  A oneshot sender is a number that names the waiting caller, a subscription sink is the number of
  its channel. Every operation returns its result and the changed manager. An \<open>unreachable!\<close> of the
  source follows a \<open>matches!\<close> guard on the same entry: guard and match are one pattern here.
\<close>

section \<open>State\<close>

type_synonym oneshot = nat
type_synonym sink = nat
type_synonym RequestId = Id

datatype Kind =
    PendingMethodCall "oneshot option"
  | PendingSubscription RequestId oneshot string
  | Subscription RequestId sink string

datatype RequestStatus = StPendingMethodCall | StPendingSubscription | StSubscription | StInvalid

record BatchState = bs_send_back :: oneshot

type_synonym range = "u64 \<times> u64"

record RequestManager =
  requests :: "RequestId \<rightharpoonup> Kind"
  subscriptions :: "SubscriptionId \<rightharpoonup> RequestId"
  batches :: "range \<rightharpoonup> BatchState"
  notification_handlers :: "string \<rightharpoonup> sink"

section \<open>Operations\<close>

definition RequestManager_new :: RequestManager where
  "RequestManager_new = \<lparr>requests = Map.empty, subscriptions = Map.empty, batches = Map.empty,
     notification_handlers = Map.empty\<rparr>"

definition insert_pending_call ::
  "RequestId \<Rightarrow> oneshot option \<Rightarrow> RequestManager \<Rightarrow> (unit, oneshot option) result \<times> RequestManager" where
  "insert_pending_call i send_back m =
     (if requests m i = None
      then (Ok (), m\<lparr>requests := (requests m)(i \<mapsto> PendingMethodCall send_back)\<rparr>)
      else (Err send_back, m))"

definition insert_pending_batch ::
  "range \<Rightarrow> oneshot \<Rightarrow> RequestManager \<Rightarrow> (unit, oneshot) result \<times> RequestManager" where
  "insert_pending_batch batch send_back m =
     (if batches m batch = None
      then (Ok (), m\<lparr>batches := (batches m)(batch \<mapsto> \<lparr>bs_send_back = send_back\<rparr>)\<rparr>)
      else (Err send_back, m))"

definition insert_pending_subscription ::
  "RequestId \<Rightarrow> RequestId \<Rightarrow> oneshot \<Rightarrow> string \<Rightarrow> RequestManager \<Rightarrow> (unit, oneshot) result \<times> RequestManager"
where
  "insert_pending_subscription sub_req_id unsub_req_id send_back unsubscribe_method m =
     (if requests m sub_req_id = None \<and> requests m unsub_req_id = None \<and> sub_req_id \<noteq> unsub_req_id
      then (Ok (), m\<lparr>requests := (requests m)
              (sub_req_id \<mapsto> PendingSubscription unsub_req_id send_back unsubscribe_method,
               unsub_req_id \<mapsto> PendingMethodCall None)\<rparr>)
      else (Err send_back, m))"

definition insert_subscription ::
  "RequestId \<Rightarrow> RequestId \<Rightarrow> SubscriptionId \<Rightarrow> sink \<Rightarrow> string \<Rightarrow> RequestManager \<Rightarrow>
     (unit, sink) result \<times> RequestManager"
where
  "insert_subscription sub_req_id unsub_req_id subscription_id send_back unsubscribe_method m =
     (if requests m sub_req_id = None \<and> subscriptions m subscription_id = None
      then (Ok (), m\<lparr>requests := (requests m)(sub_req_id \<mapsto> Subscription unsub_req_id send_back unsubscribe_method),
              subscriptions := (subscriptions m)(subscription_id \<mapsto> sub_req_id)\<rparr>)
      else (Err send_back, m))"

definition insert_notification_handler ::
  "string \<Rightarrow> sink \<Rightarrow> RequestManager \<Rightarrow> (unit, RegisterMethodError) result \<times> RequestManager" where
  "insert_notification_handler meth send_back m =
     (if notification_handlers m meth = None
      then (Ok (), m\<lparr>notification_handlers := (notification_handlers m)(meth \<mapsto> send_back)\<rparr>)
      else (Err (AlreadyRegistered meth), m))"

definition remove_notification_handler ::
  "string \<Rightarrow> RequestManager \<Rightarrow> sink option \<times> RequestManager" where
  "remove_notification_handler meth m =
     (notification_handlers m meth,
      m\<lparr>notification_handlers := (notification_handlers m)(meth := None)\<rparr>)"

definition complete_pending_subscription ::
  "RequestId \<Rightarrow> RequestManager \<Rightarrow> (RequestId \<times> oneshot \<times> string) option \<times> RequestManager" where
  "complete_pending_subscription request_id m = (case requests m request_id of
       Some (PendingSubscription unsub_id send_back unsub) \<Rightarrow>
         (Some (unsub_id, send_back, unsub), m\<lparr>requests := (requests m)(request_id := None)\<rparr>)
     | _ \<Rightarrow> (None, m))"

definition complete_pending_batch ::
  "range \<Rightarrow> RequestManager \<Rightarrow> BatchState option \<times> RequestManager" where
  "complete_pending_batch batch m = (case batches m batch of
       Some state \<Rightarrow> (Some state, m\<lparr>batches := (batches m)(batch := None)\<rparr>)
     | None \<Rightarrow> (None, m))"

definition complete_pending_call ::
  "RequestId \<Rightarrow> RequestManager \<Rightarrow> oneshot option option \<times> RequestManager" where
  "complete_pending_call request_id m = (case requests m request_id of
       Some (PendingMethodCall send_back) \<Rightarrow>
         (Some send_back, m\<lparr>requests := (requests m)(request_id := None)\<rparr>)
     | _ \<Rightarrow> (None, m))"

definition remove_subscription ::
  "RequestId \<Rightarrow> SubscriptionId \<Rightarrow> RequestManager \<Rightarrow>
     (RequestId \<times> sink \<times> string \<times> SubscriptionId) option \<times> RequestManager"
where
  "remove_subscription request_id subscription_id m =
     (case (requests m request_id, subscriptions m subscription_id) of
       (Some (Subscription unsub_req_id send_back unsub), Some _) \<Rightarrow>
         (Some (unsub_req_id, send_back, unsub, subscription_id),
          m\<lparr>requests := (requests m)(request_id := None),
            subscriptions := (subscriptions m)(subscription_id := None)\<rparr>)
     | _ \<Rightarrow> (None, m))"

definition unsubscribe ::
  "RequestId \<Rightarrow> SubscriptionId \<Rightarrow> RequestManager \<Rightarrow>
     (RequestId \<times> sink \<times> string \<times> SubscriptionId) option \<times> RequestManager"
where
  "unsubscribe request_id subscription_id m =
     (case (requests m request_id, subscriptions m subscription_id) of
       (Some (Subscription unsub_req_id send_back unsub), Some _) \<Rightarrow>
         (Some (unsub_req_id, send_back, unsub, subscription_id),
          m\<lparr>requests := (requests m)(request_id \<mapsto> PendingMethodCall None),
            subscriptions := (subscriptions m)(subscription_id := None)\<rparr>)
     | _ \<Rightarrow> (None, m))"

definition request_status :: "RequestId \<Rightarrow> RequestManager \<Rightarrow> RequestStatus" where
  "request_status i m = (case requests m i of
       None \<Rightarrow> StInvalid
     | Some (PendingMethodCall _) \<Rightarrow> StPendingMethodCall
     | Some (PendingSubscription _ _ _) \<Rightarrow> StPendingSubscription
     | Some (Subscription _ _ _) \<Rightarrow> StSubscription)"

definition as_subscription_mut :: "RequestId \<Rightarrow> RequestManager \<Rightarrow> sink option" where
  "as_subscription_mut request_id m = (case requests m request_id of
       Some (Subscription _ s _) \<Rightarrow> Some s
     | _ \<Rightarrow> None)"

definition as_notification_handler_mut :: "string \<Rightarrow> RequestManager \<Rightarrow> sink option" where
  "as_notification_handler_mut meth m = notification_handlers m meth"

definition get_request_id_by_subscription_id :: "SubscriptionId \<Rightarrow> RequestManager \<Rightarrow> RequestId option" where
  "get_request_id_by_subscription_id sub_id m = subscriptions m sub_id"

lemmas manager_ops [mgr_defs] =
  insert_pending_call_def insert_pending_batch_def insert_pending_subscription_def
  insert_subscription_def insert_notification_handler_def remove_notification_handler_def
  complete_pending_subscription_def complete_pending_batch_def complete_pending_call_def
  remove_subscription_def unsubscribe_def request_status_def as_subscription_mut_def
  as_notification_handler_mut_def get_request_id_by_subscription_id_def

section \<open>The tables behind the manager\<close>

definition call_view :: "RequestManager \<Rightarrow> RequestId \<rightharpoonup> oneshot option" where
  "call_view m i = (case requests m i of Some (PendingMethodCall s) \<Rightarrow> Some s | _ \<Rightarrow> None)"

definition batch_view :: "RequestManager \<Rightarrow> range \<rightharpoonup> oneshot" where
  "batch_view m r = map_option bs_send_back (batches m r)"

definition complete_batch_send_back :: "range \<Rightarrow> RequestManager \<Rightarrow> oneshot option \<times> RequestManager" where
  "complete_batch_send_back r m =
     (case complete_pending_batch r m of (st, m') \<Rightarrow> (map_option bs_send_back st, m'))"

interpretation calls: pending_table insert_pending_call call_view "\<lambda>m i. requests m i = None"
    "\<lambda>i s. s" complete_pending_call
  by unfold_locales
     (auto simp: mgr_defs call_view_def fun_eq_iff split: option.splits Kind.splits)

interpretation batch_calls: pending_table insert_pending_batch batch_view "\<lambda>m r. batches m r = None"
    "\<lambda>r s. s" complete_batch_send_back
  by unfold_locales
     (auto simp: mgr_defs batch_view_def complete_batch_send_back_def fun_eq_iff split: option.splits)

interpretation handlers: pending_table insert_notification_handler notification_handlers
    "\<lambda>m k. notification_handlers m k = None" "\<lambda>k s. AlreadyRegistered k" remove_notification_handler
  by unfold_locales (auto simp: mgr_defs dom_upd_None split: option.splits)

section \<open>The invariant\<close>

text \<open>
  The reverse index \<open>subscriptions\<close> is a bijection between the active subscription ids and the
  request ids of kind \<open>Subscription\<close>, and no batch range is empty.
\<close>

definition is_subscription :: "RequestManager \<Rightarrow> RequestId \<Rightarrow> bool" where
  "is_subscription m r = (case requests m r of Some (Subscription _ _ _) \<Rightarrow> True | _ \<Rightarrow> False)"

definition manager_inv :: "RequestManager \<Rightarrow> bool" where
  "manager_inv m \<longleftrightarrow>
     (\<forall>s r. subscriptions m s = Some r \<longrightarrow> is_subscription m r) \<and>
     (\<forall>s t r. subscriptions m s = Some r \<longrightarrow> subscriptions m t = Some r \<longrightarrow> s = t) \<and>
     (\<forall>r. is_subscription m r \<longrightarrow> (\<exists>s. subscriptions m s = Some r)) \<and>
     (\<forall>a b. batches m (a, b) \<noteq> None \<longrightarrow> a < b)"

lemma is_subscription_obtain:
  assumes "is_subscription m r"
  obtains u k f where "requests m r = Some (Subscription u k f)"
  using assms by (auto simp: is_subscription_def split: option.splits Kind.splits)

lemma manager_inv_request:
  assumes "manager_inv m" "subscriptions m sid = Some r"
  obtains u k f where "requests m r = Some (Subscription u k f)"
  using assms is_subscription_obtain by (metis manager_inv_def)

lemma manager_inv_unique:
  "manager_inv m \<Longrightarrow> subscriptions m s = Some r \<Longrightarrow> subscriptions m t = Some r \<Longrightarrow> s = t"
  unfolding manager_inv_def by blast

lemma manager_inv_new: "manager_inv RequestManager_new"
  by (simp add: manager_inv_def RequestManager_new_def is_subscription_def)

lemma manager_inv_insert_pending_call [mgr_inv]:
  assumes "manager_inv m"
  shows "manager_inv (snd (insert_pending_call i s m))"
proof -
  have "is_subscription (snd (insert_pending_call i s m)) r = is_subscription m r" for r
    by (auto simp: insert_pending_call_def is_subscription_def split: option.splits)
  with assms show ?thesis by (auto simp: manager_inv_def insert_pending_call_def)
qed

lemma manager_inv_insert_pending_batch [mgr_inv]:
  assumes "manager_inv m" "a < b"
  shows "manager_inv (snd (insert_pending_batch (a, b) s m))"
  using assms by (auto simp: manager_inv_def insert_pending_batch_def is_subscription_def)

lemma manager_inv_insert_pending_subscription [mgr_inv]:
  assumes "manager_inv m"
  shows "manager_inv (snd (insert_pending_subscription i j s u m))"
proof -
  have "is_subscription (snd (insert_pending_subscription i j s u m)) r = is_subscription m r" for r
    by (auto simp: insert_pending_subscription_def is_subscription_def split: option.splits)
  with assms show ?thesis by (auto simp: manager_inv_def insert_pending_subscription_def)
qed

lemma manager_inv_insert_subscription [mgr_inv]:
  assumes "manager_inv m"
  shows "manager_inv (snd (insert_subscription i j sid s u m))"
proof (cases "requests m i = None \<and> subscriptions m sid = None")
  case True
  let ?m = "snd (insert_subscription i j sid s u m)"
  have issub: "is_subscription ?m r = (r = i \<or> is_subscription m r)" for r
    using True by (auto simp: insert_subscription_def is_subscription_def)
  have fresh: "subscriptions m t \<noteq> Some i" for t
    using manager_inv_request [OF assms] True by fastforce
  from True have subs: "subscriptions ?m = (subscriptions m)(sid \<mapsto> i)" "batches ?m = batches m"
    by (simp_all add: insert_subscription_def)
  have "\<exists>t. subscriptions ?m t = Some r" if "is_subscription ?m r" for r
  proof (cases "r = i")
    case False
    with that issub assms obtain t where "subscriptions m t = Some r" by (auto simp: manager_inv_def)
    with True have "subscriptions ?m t = Some r" by (auto simp: subs)
    then show ?thesis ..
  qed (auto simp: subs)
  with assms fresh issub subs show ?thesis by (auto simp: manager_inv_def)
next
  case False
  with assms show ?thesis by (auto simp: insert_subscription_def)
qed

lemma manager_inv_handlers [mgr_inv]:
  assumes "manager_inv m"
  shows "manager_inv (snd (insert_notification_handler k s m))"
    and "manager_inv (snd (remove_notification_handler k m))"
  using assms by (simp_all add: manager_inv_def is_subscription_def mgr_defs)

lemma manager_inv_complete [mgr_inv]:
  assumes "manager_inv m"
  shows "manager_inv (snd (complete_pending_call i m))"
    and "manager_inv (snd (complete_pending_subscription i m))"
    and "manager_inv (snd (complete_pending_batch b m))"
proof -
  have "is_subscription (snd (complete_pending_call i m)) r = is_subscription m r"
    and "is_subscription (snd (complete_pending_subscription i m)) r = is_subscription m r" for r
    by (auto simp: mgr_defs is_subscription_def split: option.splits Kind.splits)
  moreover have "subscriptions (snd (complete_pending_call i m)) = subscriptions m"
    "batches (snd (complete_pending_call i m)) = batches m"
    "subscriptions (snd (complete_pending_subscription i m)) = subscriptions m"
    "batches (snd (complete_pending_subscription i m)) = batches m"
    by (auto simp: mgr_defs split: option.splits Kind.splits)
  ultimately show "manager_inv (snd (complete_pending_call i m))"
    "manager_inv (snd (complete_pending_subscription i m))"
    using assms by (simp_all add: manager_inv_def)
  show "manager_inv (snd (complete_pending_batch b m))"
    using assms by (auto simp: manager_inv_def is_subscription_def mgr_defs split: option.splits)
qed

text \<open>
  \<open>remove_subscription\<close> and \<open>unsubscribe\<close> take the two keys apart, so they keep the bijection only
  for keys that belong together, which is how the client calls them.
\<close>

lemma manager_inv_drop_subscription [mgr_inv]:
  assumes inv: "manager_inv m" and sid: "subscriptions m sid = Some r"
  shows "manager_inv (snd (remove_subscription r sid m))"
    and "manager_inv (snd (unsubscribe r sid m))"
proof -
  have inj: "subscriptions m t = Some r \<Longrightarrow> t = sid" for t
    using manager_inv_unique [OF inv _ sid] .
  obtain u k f where req: "requests m r = Some (Subscription u k f)"
    using manager_inv_request [OF inv sid] .
  have issub: "is_subscription (snd (remove_subscription r sid m)) q = (q \<noteq> r \<and> is_subscription m q)"
    "is_subscription (snd (unsubscribe r sid m)) q = (q \<noteq> r \<and> is_subscription m q)" for q
    using sid req by (auto simp: mgr_defs is_subscription_def)
  have subs: "subscriptions (snd (remove_subscription r sid m)) = (subscriptions m)(sid := None)"
    "subscriptions (snd (unsubscribe r sid m)) = (subscriptions m)(sid := None)"
    "batches (snd (remove_subscription r sid m)) = batches m"
    "batches (snd (unsubscribe r sid m)) = batches m"
    using sid req by (simp_all add: mgr_defs)
  have dom: "\<exists>t. subscriptions m t = Some q \<and> t \<noteq> sid" if "is_subscription m q" "q \<noteq> r" for q
    using inv sid that unfolding manager_inv_def by (metis option.inject)
  show "manager_inv (snd (remove_subscription r sid m))"
    unfolding manager_inv_def issub subs
    using inv inj dom unfolding manager_inv_def by (auto; metis)
  show "manager_inv (snd (unsubscribe r sid m))"
    unfolding manager_inv_def issub subs
    using inv inj dom unfolding manager_inv_def by (auto; metis)
qed

section \<open>Specification: one table of requests\<close>

text \<open>
  What the manager promises, without the reverse index: each request id is free, a pending call, a
  pending subscription, or an active subscription that knows its subscription id. The operations of
  the client are steps with an observation.
\<close>

datatype entry =
    ACall "oneshot option"
  | APending RequestId oneshot string
  | AActive SubscriptionId RequestId sink string

datatype mgr_op =
    OpCall RequestId "oneshot option"
  | OpAnswer RequestId
  | OpSubscribe RequestId RequestId oneshot string
  | OpAccept RequestId
  | OpActivate RequestId RequestId SubscriptionId sink string
  | OpUnsubscribe SubscriptionId
  | OpClose SubscriptionId

datatype mgr_obs =
    Refused
  | Accepted
  | Answered "oneshot option option"
  | Confirmed "(RequestId \<times> oneshot \<times> string) option"
  | Dropped "(RequestId \<times> sink \<times> string \<times> SubscriptionId) option"

definition ins_obs :: "(unit, 'e) result \<times> RequestManager \<Rightarrow> mgr_obs \<times> RequestManager" where
  "ins_obs p = (case p of (Inr _, m) \<Rightarrow> (Accepted, m) | (Inl _, m) \<Rightarrow> (Refused, m))"

text \<open>The operations as the client composes them: a subscription is looked up by its id first.\<close>

fun run_op :: "mgr_op \<Rightarrow> RequestManager \<Rightarrow> mgr_obs \<times> RequestManager" where
  "run_op (OpCall i s) m = ins_obs (insert_pending_call i s m)"
| "run_op (OpAnswer i) m = (case complete_pending_call i m of (r, m') \<Rightarrow> (Answered r, m'))"
| "run_op (OpSubscribe i j s u) m = ins_obs (insert_pending_subscription i j s u m)"
| "run_op (OpAccept i) m = (case complete_pending_subscription i m of (r, m') \<Rightarrow> (Confirmed r, m'))"
| "run_op (OpActivate i j sid k f) m = ins_obs (insert_subscription i j sid k f m)"
| "run_op (OpUnsubscribe sid) m = (case get_request_id_by_subscription_id sid m of
     None \<Rightarrow> (Dropped None, m)
   | Some r \<Rightarrow> (case unsubscribe r sid m of (d, m') \<Rightarrow> (Dropped d, m')))"
| "run_op (OpClose sid) m = (case get_request_id_by_subscription_id sid m of
     None \<Rightarrow> (Dropped None, m)
   | Some r \<Rightarrow> (case remove_subscription r sid m of (d, m') \<Rightarrow> (Dropped d, m')))"

inductive spec_op :: "mgr_op \<Rightarrow> (RequestId \<rightharpoonup> entry) \<Rightarrow> mgr_obs \<Rightarrow> (RequestId \<rightharpoonup> entry) \<Rightarrow> bool" where
  call: "a i = None \<Longrightarrow> spec_op (OpCall i s) a Accepted (a(i \<mapsto> ACall s))"
| call_occupied: "a i \<noteq> None \<Longrightarrow> spec_op (OpCall i s) a Refused a"
| answer: "a i = Some (ACall s) \<Longrightarrow> spec_op (OpAnswer i) a (Answered (Some s)) (a(i := None))"
| answer_unknown: "(\<forall>s. a i \<noteq> Some (ACall s)) \<Longrightarrow> spec_op (OpAnswer i) a (Answered None) a"
| sub: "a i = None \<Longrightarrow> a j = None \<Longrightarrow> i \<noteq> j \<Longrightarrow>
    spec_op (OpSubscribe i j s u) a Accepted (a(i \<mapsto> APending j s u, j \<mapsto> ACall None))"
| sub_occupied: "a i \<noteq> None \<or> a j \<noteq> None \<or> i = j \<Longrightarrow> spec_op (OpSubscribe i j s u) a Refused a"
| accept: "a i = Some (APending j s u) \<Longrightarrow>
    spec_op (OpAccept i) a (Confirmed (Some (j, s, u))) (a(i := None))"
| accept_unknown: "(\<forall>j s u. a i \<noteq> Some (APending j s u)) \<Longrightarrow> spec_op (OpAccept i) a (Confirmed None) a"
| activate: "a i = None \<Longrightarrow> (\<forall>r j k f. a r \<noteq> Some (AActive sid j k f)) \<Longrightarrow>
    spec_op (OpActivate i j sid k f) a Accepted (a(i \<mapsto> AActive sid j k f))"
| activate_taken: "a i \<noteq> None \<or> a r = Some (AActive sid j' k' f') \<Longrightarrow>
    spec_op (OpActivate i j sid k f) a Refused a"
| unsubscribe: "a r = Some (AActive sid j k f) \<Longrightarrow>
    spec_op (OpUnsubscribe sid) a (Dropped (Some (j, k, f, sid))) (a(r \<mapsto> ACall None))"
| unsubscribe_unknown: "(\<forall>r j k f. a r \<noteq> Some (AActive sid j k f)) \<Longrightarrow>
    spec_op (OpUnsubscribe sid) a (Dropped None) a"
| close: "a r = Some (AActive sid j k f) \<Longrightarrow>
    spec_op (OpClose sid) a (Dropped (Some (j, k, f, sid))) (a(r := None))"
| close_unknown: "(\<forall>r j k f. a r \<noteq> Some (AActive sid j k f)) \<Longrightarrow>
    spec_op (OpClose sid) a (Dropped None) a"

text \<open>The abstraction: the entry of a request id, with the subscription id the index has for it.\<close>

definition abs_entry :: "RequestManager \<Rightarrow> RequestId \<Rightarrow> entry option \<Rightarrow> bool" where
  "abs_entry m r e = (case requests m r of
       None \<Rightarrow> e = None
     | Some (PendingMethodCall s) \<Rightarrow> e = Some (ACall s)
     | Some (PendingSubscription j s u) \<Rightarrow> e = Some (APending j s u)
     | Some (Subscription j k f) \<Rightarrow> (\<exists>sid. e = Some (AActive sid j k f) \<and> subscriptions m sid = Some r))"

definition refines :: "RequestManager \<Rightarrow> (RequestId \<rightharpoonup> entry) \<Rightarrow> bool" where
  "refines m a \<longleftrightarrow> (\<forall>r. abs_entry m r (a r)) \<and>
     (\<forall>sid r. subscriptions m sid = Some r \<longrightarrow> (\<exists>j k f. a r = Some (AActive sid j k f)))"

lemma refinesD: "refines m a \<Longrightarrow> abs_entry m r (a r)"
  by (simp add: refines_def)

lemma refines_free: "refines m a \<Longrightarrow> requests m r = None \<longleftrightarrow> a r = None"
  by (drule refinesD [where r = r]) (auto simp: abs_entry_def split: option.splits Kind.splits)

lemma refines_active:
  assumes "refines m a" "subscriptions m sid = Some r"
  obtains j k f where "a r = Some (AActive sid j k f)" "requests m r = Some (Subscription j k f)"
proof -
  from assms obtain j k f where "a r = Some (AActive sid j k f)"
    unfolding refines_def by blast
  with refinesD [OF assms(1), of r] that show ?thesis
    by (auto simp: abs_entry_def split: option.splits Kind.splits)
qed

lemma refines_sub_iff: "refines m a \<Longrightarrow>
    subscriptions m sid = None \<longleftrightarrow> (\<forall>r j k f. a r \<noteq> Some (AActive sid j k f))"
proof -
  assume R: "refines m a"
  have "subscriptions m sid = Some r" if "a r = Some (AActive sid j k f)" for r j k f
    using refinesD [OF R, of r] that
    by (auto simp: abs_entry_def split: option.splits Kind.splits)
  with R show ?thesis unfolding refines_def
    by (metis not_None_eq)
qed

text \<open>Changes of the index that leave the entry of another request alone.\<close>

lemma abs_entry_frame:
  assumes "abs_entry m q e" "requests m' q = requests m q"
    and "\<And>sid. subscriptions m sid = Some q \<Longrightarrow> subscriptions m' sid = Some q"
  shows "abs_entry m' q e"
  using assms by (auto simp: abs_entry_def split: option.splits Kind.splits)

lemma refines_upd:
  assumes R: "refines m a"
    and m': "requests m' = (requests m)(r := x)" "subscriptions m' = subscriptions m"
    and e: "abs_entry m' r e"
    and old: "\<And>sid j k f. a r = Some (AActive sid j k f) \<Longrightarrow> False"
    and new: "\<And>sid j k f. e = Some (AActive sid j k f) \<Longrightarrow> False"
  shows "refines m' (a(r := e))"
proof -
  have "abs_entry m' q (a q)" if "q \<noteq> r" for q
    by (rule abs_entry_frame [OF refinesD [OF R]]) (simp_all add: m' that)
  moreover have "\<exists>j k f. (a(r := e)) q = Some (AActive sid j k f)"
    if "subscriptions m' sid = Some q" for sid q
    using refines_active [OF R, of sid q] that old by (metis fun_upd_apply m'(2))
  ultimately show ?thesis using e by (simp add: refines_def)
qed

lemma refines_new: "refines RequestManager_new Map.empty"
  by (simp add: refines_def RequestManager_new_def abs_entry_def)

definition simulated :: "mgr_op \<Rightarrow> RequestManager \<Rightarrow> (RequestId \<rightharpoonup> entry) \<Rightarrow> bool" where
  "simulated op m a \<longleftrightarrow>
     (\<exists>a'. spec_op op a (fst (run_op op m)) a' \<and> refines (snd (run_op op m)) a')"

lemma simulatedI:
  "run_op op m = (obs, m') \<Longrightarrow> spec_op op a obs a' \<Longrightarrow> refines m' a' \<Longrightarrow> simulated op m a"
  by (auto simp: simulated_def)

lemma refines_call:
  assumes R: "refines m a"
  shows "simulated (OpCall i s) m a"
proof (cases "requests m i = None")
  case True
  with refines_free [OF R, of i] have a: "a i = None" by simp
  have "refines (m\<lparr>requests := (requests m)(i \<mapsto> PendingMethodCall s)\<rparr>) (a(i \<mapsto> ACall s))"
    by (rule refines_upd [OF R]) (auto simp: abs_entry_def a)
  with True show ?thesis
    by (intro simulatedI [OF _ spec_op.call [of a i, OF a]]) (auto simp: mgr_defs ins_obs_def)
next
  case False
  with refines_free [OF R, of i] have a: "a i \<noteq> None" by simp
  from False R show ?thesis
    by (intro simulatedI [OF _ spec_op.call_occupied [of a i, OF a]]) (auto simp: mgr_defs ins_obs_def)
qed

lemma refines_answer:
  assumes R: "refines m a"
  shows "simulated (OpAnswer i) m a"
proof (cases "\<exists>s. requests m i = Some (PendingMethodCall s)")
  case True
  then obtain s where s: "requests m i = Some (PendingMethodCall s)" ..
  with refinesD [OF R, of i] have a: "a i = Some (ACall s)" by (simp add: abs_entry_def)
  have "refines (m\<lparr>requests := (requests m)(i := None)\<rparr>) (a(i := None))"
    by (rule refines_upd [OF R]) (auto simp: abs_entry_def a)
  with s show ?thesis
    by (intro simulatedI [OF _ spec_op.answer [of a i, OF a]]) (auto simp: mgr_defs)
next
  case False
  with refinesD [OF R, of i] have a: "\<forall>s. a i \<noteq> Some (ACall s)"
    by (auto simp: abs_entry_def split: option.splits Kind.splits)
  from False have "complete_pending_call i m = (None, m)"
    by (auto simp: complete_pending_call_def split: option.splits Kind.splits)
  with R show ?thesis by (intro simulatedI [OF _ spec_op.answer_unknown [of a i, OF a]]) auto
qed

lemma refines_subscribe:
  assumes R: "refines m a"
  shows "simulated (OpSubscribe i j s u) m a"
proof (cases "requests m i = None \<and> requests m j = None \<and> i \<noteq> j")
  case True
  with refines_free [OF R] have a: "a i = None" "a j = None" "i \<noteq> j" by auto
  let ?m1 = "m\<lparr>requests := (requests m)(i \<mapsto> PendingSubscription j s u)\<rparr>"
  let ?m2 = "m\<lparr>requests := (requests m)(i \<mapsto> PendingSubscription j s u, j \<mapsto> PendingMethodCall None)\<rparr>"
  have 1: "refines ?m1 (a(i \<mapsto> APending j s u))"
    by (rule refines_upd [OF R]) (auto simp: abs_entry_def a)
  have "refines ?m2 (a(i \<mapsto> APending j s u, j \<mapsto> ACall None))"
    by (rule refines_upd [OF 1]) (use a in \<open>auto simp: abs_entry_def\<close>)
  with True show ?thesis
    by (intro simulatedI [OF _ spec_op.sub [of a i j, OF a]]) (auto simp: mgr_defs ins_obs_def)
next
  case False
  with refines_free [OF R] have a: "a i \<noteq> None \<or> a j \<noteq> None \<or> i = j" by auto
  from False R show ?thesis
    by (intro simulatedI [OF _ spec_op.sub_occupied [of a i j, OF a]]) (auto simp: mgr_defs ins_obs_def)
qed

lemma refines_accept:
  assumes R: "refines m a"
  shows "simulated (OpAccept i) m a"
proof (cases "\<exists>j s u. requests m i = Some (PendingSubscription j s u)")
  case True
  then obtain j s u where s: "requests m i = Some (PendingSubscription j s u)" by blast
  with refinesD [OF R, of i] have a: "a i = Some (APending j s u)" by (simp add: abs_entry_def)
  have "refines (m\<lparr>requests := (requests m)(i := None)\<rparr>) (a(i := None))"
    by (rule refines_upd [OF R]) (auto simp: abs_entry_def a)
  with s show ?thesis
    by (intro simulatedI [OF _ spec_op.accept [of a i, OF a]]) (auto simp: mgr_defs)
next
  case False
  with refinesD [OF R, of i] have a: "\<forall>j s u. a i \<noteq> Some (APending j s u)"
    by (auto simp: abs_entry_def split: option.splits Kind.splits)
  from False have "complete_pending_subscription i m = (None, m)"
    by (auto simp: complete_pending_subscription_def split: option.splits Kind.splits)
  with R show ?thesis by (intro simulatedI [OF _ spec_op.accept_unknown [of a i, OF a]]) auto
qed

lemma refines_activate:
  assumes R: "refines m a"
  shows "simulated (OpActivate i j sid k f) m a"
proof (cases "requests m i = None \<and> subscriptions m sid = None")
  case True
  with refines_free [OF R] refines_sub_iff [OF R] have a: "a i = None"
    "\<forall>r j k f. a r \<noteq> Some (AActive sid j k f)" by auto
  let ?m = "m\<lparr>requests := (requests m)(i \<mapsto> Subscription j k f),
              subscriptions := (subscriptions m)(sid \<mapsto> i)\<rparr>"
  have "abs_entry ?m r (a r)" if "r \<noteq> i" for r
    by (rule abs_entry_frame [OF refinesD [OF R]]) (use that True in auto)
  then have "abs_entry ?m r ((a(i \<mapsto> AActive sid j k f)) r)" for r
    by (cases "r = i") (simp_all add: abs_entry_def)
  moreover have "\<exists>j' k' f'. (a(i \<mapsto> AActive sid j k f)) r = Some (AActive s j' k' f')"
    if "subscriptions ?m s = Some r" for s r
  proof (cases "s = sid")
    case False
    with that have "subscriptions m s = Some r" by simp
    from refines_active [OF R this] True show ?thesis by (metis fun_upd_apply option.distinct(1))
  qed (use that in simp)
  ultimately have "refines ?m (a(i \<mapsto> AActive sid j k f))" by (simp add: refines_def)
  with True show ?thesis
    by (intro simulatedI [OF _ spec_op.activate [of a i sid, OF a]]) (auto simp: mgr_defs ins_obs_def)
next
  case False
  with refines_free [OF R] refines_sub_iff [OF R, of sid]
  obtain r j' k' f' where a: "a i \<noteq> None \<or> a r = Some (AActive sid j' k' f')" by auto
  from False R show ?thesis
    by (intro simulatedI [OF _ spec_op.activate_taken [of a i r sid, OF a]]) (auto simp: mgr_defs ins_obs_def)
qed

lemma refines_drop:
  assumes R: "refines m a" and sid: "subscriptions m sid = Some r"
    and x: "x = None \<or> x = Some (PendingMethodCall None)"
  shows "refines (m\<lparr>requests := (requests m)(r := x), subscriptions := (subscriptions m)(sid := None)\<rparr>)
    (a(r := map_option (\<lambda>_. ACall None) x))"
proof -
  let ?m = "m\<lparr>requests := (requests m)(r := x), subscriptions := (subscriptions m)(sid := None)\<rparr>"
  obtain j k f where a: "a r = Some (AActive sid j k f)"
    using refines_active [OF R sid] by blast
  have "abs_entry ?m q (a q)" if "q \<noteq> r" for q
    by (rule abs_entry_frame [OF refinesD [OF R]]) (use that sid in auto)
  then have "abs_entry ?m q ((a(r := map_option (\<lambda>_. ACall None) x)) q)" for q
    using x by (cases "q = r") (auto simp: abs_entry_def)
  moreover have "\<exists>j k f. (a(r := map_option (\<lambda>_. ACall None) x)) q = Some (AActive s j k f)"
    if "subscriptions ?m s = Some q" for s q
  proof -
    from that have s: "s \<noteq> sid" "subscriptions m s = Some q" by (auto split: if_splits)
    obtain j' k' f' where "a q = Some (AActive s j' k' f')" using refines_active [OF R s(2)] by blast
    with s(1) a show ?thesis by auto
  qed
  ultimately show ?thesis by (simp add: refines_def)
qed

lemma refines_unsubscribe:
  assumes R: "refines m a"
  shows "simulated (OpUnsubscribe sid) m a"
proof (cases "subscriptions m sid")
  case None
  then have a: "\<forall>r j k f. a r \<noteq> Some (AActive sid j k f)" using refines_sub_iff [OF R] by blast
  from R None show ?thesis
    by (intro simulatedI [OF _ spec_op.unsubscribe_unknown [OF a]]) (auto simp: mgr_defs)
next
  case (Some r)
  obtain j k f where a: "a r = Some (AActive sid j k f)" "requests m r = Some (Subscription j k f)"
    using refines_active [OF R Some] .
  from refines_drop [OF R Some, of "Some (PendingMethodCall None)"] a Some show ?thesis
    by (intro simulatedI [OF _ spec_op.unsubscribe [of a r, OF a(1)]]) (auto simp: mgr_defs)
qed

lemma refines_close:
  assumes R: "refines m a"
  shows "simulated (OpClose sid) m a"
proof (cases "subscriptions m sid")
  case None
  then have a: "\<forall>r j k f. a r \<noteq> Some (AActive sid j k f)" using refines_sub_iff [OF R] by blast
  from R None show ?thesis
    by (intro simulatedI [OF _ spec_op.close_unknown [OF a]]) (auto simp: mgr_defs)
next
  case (Some r)
  obtain j k f where a: "a r = Some (AActive sid j k f)" "requests m r = Some (Subscription j k f)"
    using refines_active [OF R Some] .
  from refines_drop [OF R Some, of "None"] a Some show ?thesis
    by (intro simulatedI [OF _ spec_op.close [of a r, OF a(1)]]) (auto simp: mgr_defs)
qed

lemmas refines_ops = refines_call refines_answer refines_subscribe refines_accept refines_activate
  refines_unsubscribe refines_close

text \<open>Sequences of operations with their observations.\<close>

fun run_ops :: "mgr_op list \<Rightarrow> RequestManager \<Rightarrow> mgr_obs list" where
  "run_ops [] m = []"
| "run_ops (op # ops) m = (case run_op op m of (obs, m') \<Rightarrow> obs # run_ops ops m')"

inductive spec_ops :: "mgr_op list \<Rightarrow> (RequestId \<rightharpoonup> entry) \<Rightarrow> mgr_obs list \<Rightarrow> bool" where
  stop: "spec_ops [] a []"
| step: "spec_op op a obs a' \<Longrightarrow> spec_ops ops a' os \<Longrightarrow> spec_ops (op # ops) a (obs # os)"

lemma refines_run: "refines m a \<Longrightarrow> spec_ops ops a (run_ops ops m)"
proof (induction ops arbitrary: m a)
  case (Cons op ops)
  have "simulated op m a" by (cases op) (simp_all add: refines_ops [OF Cons.prems])
  then obtain a' where "spec_op op a (fst (run_op op m)) a'" "refines (snd (run_op op m)) a'"
    by (auto simp: simulated_def)
  with Cons.IH show ?case by (auto simp: split_beta intro: spec_ops.step)
qed (simp add: spec_ops.stop)

section \<open>Properties\<close>

text \<open>C7. The manager with its two maps behaves, for every sequence of operations the client
  performs on it, like the specification with a single table in which every active subscription
  carries its own id: each operation is accepted or refused, and returns the same senders, sinks
  and method names, as the specification allows.\<close>

theorem manager_refines_spec: "spec_ops ops Map.empty (run_ops ops RequestManager_new)"
  by (rule refines_run [OF refines_new])

text \<open>A call inserted under a free request id is handed back by the first answer and by no later
  one, a second insertion under the same id is refused without a change, and once answered the id
  can be used again.\<close>

lemma pending_call_lifecycle:
  assumes "requests m i = None"
  shows "insert_pending_call i t (snd (insert_pending_call i s m)) =
           (Inl t, snd (insert_pending_call i s m)) \<and>
    fst (complete_pending_call i (snd (insert_pending_call i s m))) = Some s \<and>
    fst (complete_pending_call i (snd (complete_pending_call i (snd (insert_pending_call i s m))))) = None \<and>
    fst (insert_pending_call i t (snd (complete_pending_call i (snd (insert_pending_call i s m))))) = Inr ()"
  using assms calls.insert_twice calls.insert_complete_once calls.insert_view
  by (simp add: calls.reinsert_after_complete)

end
