(* ===== verification/Params_Seq.thy ===== *)
theory Params_Seq
  imports Rpc_Types
begin

text \<open>
  Parameters of calls on both sides: the builders of \<open>core/src/params.rs\<close> that a client uses to
  write them, and \<open>Params\<close> and \<open>ParamsSequence\<close> of \<open>types/src/params.rs\<close> that a server uses to read
  them. The JSON printer is an \<open>emitter\<close>; the streaming reader of \<open>serde_json\<close> is a parameter that
  gives, on a text, nothing at its end, an error, or a value with the number of bytes it consumed.
\<close>

section \<open>Builders (core/src/params.rs)\<close>

record ParamsBuilder =
  pb_bytes :: string
  pb_start :: char
  pb_end :: char

definition ParamsBuilder_new :: "char \<Rightarrow> char \<Rightarrow> ParamsBuilder" where
  "ParamsBuilder_new s e = \<lparr>pb_bytes = [], pb_start = s, pb_end = e\<rparr>"

definition positional :: ParamsBuilder where
  "positional = ParamsBuilder_new (CHR ''['') (CHR '']'')"

definition named :: ParamsBuilder where
  "named = ParamsBuilder_new (CHR ''{'') (CHR ''}'')"

definition maybe_initialize :: "ParamsBuilder \<Rightarrow> ParamsBuilder" where
  "maybe_initialize b =
     (if pb_bytes b = [] then b\<lparr>pb_bytes := [pb_start b]\<rparr> else b)"

definition push_bytes :: "string \<Rightarrow> ParamsBuilder \<Rightarrow> ParamsBuilder" where
  "push_bytes s b = b\<lparr>pb_bytes := pb_bytes b @ s\<rparr>"

text \<open>
  \<open>serde_json::to_writer(&mut self.bytes, value)\<close>: what was written before an error stays in the
  buffer.
\<close>

definition write_value :: "emitter \<Rightarrow> ser \<Rightarrow> ParamsBuilder \<Rightarrow> bool \<times> ParamsBuilder" where
  "write_value emit v b = (case emit v of (chunks, ok) \<Rightarrow> (ok, push_bytes (concat chunks) b))"

definition insert_named :: "emitter \<Rightarrow> string \<Rightarrow> ser \<Rightarrow> ParamsBuilder \<Rightarrow> bool \<times> ParamsBuilder" where
  "insert_named emit name v b =
     (case write_value emit (SStr name) (maybe_initialize b) of
       (False, b1) \<Rightarrow> (False, b1)
     | (True, b1) \<Rightarrow> (case write_value emit v (push_bytes '':'' b1) of
         (False, b2) \<Rightarrow> (False, b2)
       | (True, b2) \<Rightarrow> (True, push_bytes '','' b2)))"

definition ParamsBuilder_insert :: "emitter \<Rightarrow> ser \<Rightarrow> ParamsBuilder \<Rightarrow> bool \<times> ParamsBuilder" where
  "ParamsBuilder_insert emit v b =
     (case write_value emit v (maybe_initialize b) of
       (False, b1) \<Rightarrow> (False, b1)
     | (True, b1) \<Rightarrow> (True, push_bytes '','' b1))"

text \<open>
  \<open>build\<close>; \<open>valid_json\<close> is the test of \<open>RawValue::from_string\<close>, whose failure the source turns into
  a panic.
\<close>

definition ParamsBuilder_text :: "ParamsBuilder \<Rightarrow> string" where
  "ParamsBuilder_text b =
     (if last (pb_bytes b) = CHR '','' then butlast (pb_bytes b) @ [pb_end b]
      else pb_bytes b @ [pb_end b])"

definition ParamsBuilder_build :: "(string \<Rightarrow> bool) \<Rightarrow> ParamsBuilder \<Rightarrow> string option outcome" where
  "ParamsBuilder_build valid_json b =
     (if pb_bytes b = [] then Done None
      else if valid_json (ParamsBuilder_text b) then Done (Some (ParamsBuilder_text b))
      else Panicked)"

text \<open>\<open>ArrayParams\<close> and \<open>ObjectParams\<close>; building them can panic but does not fail.\<close>

datatype ArrayParams = ArrayParams ParamsBuilder

definition ArrayParams_new :: ArrayParams where
  "ArrayParams_new = ArrayParams positional"

fun ArrayParams_insert :: "emitter \<Rightarrow> ser \<Rightarrow> ArrayParams \<Rightarrow> bool \<times> ArrayParams" where
  "ArrayParams_insert emit v (ArrayParams b) = apsnd ArrayParams (ParamsBuilder_insert emit v b)"

fun ArrayParams_to_rpc_params :: "(string \<Rightarrow> bool) \<Rightarrow> ArrayParams \<Rightarrow> (string option, de_error) result outcome" where
  "ArrayParams_to_rpc_params valid_json (ArrayParams b) = (case ParamsBuilder_build valid_json b of
       Done raw \<Rightarrow> Done (Ok raw)
     | Panicked \<Rightarrow> Panicked)"

datatype ObjectParams = ObjectParams ParamsBuilder

definition ObjectParams_new :: ObjectParams where
  "ObjectParams_new = ObjectParams named"

fun ObjectParams_insert :: "emitter \<Rightarrow> string \<Rightarrow> ser \<Rightarrow> ObjectParams \<Rightarrow> bool \<times> ObjectParams" where
  "ObjectParams_insert emit name v (ObjectParams b) = apsnd ObjectParams (insert_named emit name v b)"

fun ObjectParams_to_rpc_params :: "(string \<Rightarrow> bool) \<Rightarrow> ObjectParams \<Rightarrow> (string option, de_error) result outcome" where
  "ObjectParams_to_rpc_params valid_json (ObjectParams b) = (case ParamsBuilder_build valid_json b of
       Done raw \<Rightarrow> Done (Ok raw)
     | Panicked \<Rightarrow> Panicked)"

datatype EmptyBatchRequest = EmptyBatchRequest

type_synonym BatchRequestBuilder = "(string \<times> string option) list"

definition BatchRequestBuilder_insert ::
  "string \<Rightarrow> (string option, de_error) result \<Rightarrow> BatchRequestBuilder \<Rightarrow>
     (unit, de_error) result \<times> BatchRequestBuilder"
where
  "BatchRequestBuilder_insert meth params b = (case params of
       Inl e \<Rightarrow> (Err e, b)
     | Inr p \<Rightarrow> (Ok (), b @ [(meth, p)]))"

definition BatchRequestBuilder_build ::
  "BatchRequestBuilder \<Rightarrow> ((string \<times> string option) list, EmptyBatchRequest) result" where
  "BatchRequestBuilder_build b = (if b = [] then Err EmptyBatchRequest else Ok b)"

text \<open>\<open>to_rpc_params\<close> of slices, vectors, arrays and tuples (\<open>core/src/traits.rs\<close>).\<close>

definition to_rpc_params :: "emitter \<Rightarrow> ser \<Rightarrow> string option option" where
  "to_rpc_params emit v = (case to_raw_value emit v of None \<Rightarrow> None | Some j \<Rightarrow> Some (Some j))"

section \<open>Reading (types/src/params.rs)\<close>

type_synonym Params = "string option"

definition Params_new :: "string option \<Rightarrow> Params" where
  "Params_new raw = map_option trim raw"

definition is_object :: "Params \<Rightarrow> bool" where
  "is_object p = (case p of Some (c # _) \<Rightarrow> c = CHR ''{'' | _ \<Rightarrow> False)"

type_synonym ParamsSequence = string

definition Params_sequence :: "Params \<Rightarrow> ParamsSequence" where
  "Params_sequence p = (case p of
       Some json \<Rightarrow> if json = ''[]'' then '''' else json
     | None \<Rightarrow> '''')"

definition Params_parse ::
  "emitter \<Rightarrow> (string \<Rightarrow> ('t, string) result) \<Rightarrow> Params \<Rightarrow> ('t, ErrorObject) result" where
  "Params_parse emit from_str p =
     (case from_str (case p of Some json \<Rightarrow> json | None \<Rightarrow> ''null'') of
       Inl e \<Rightarrow> Err (invalid_params emit e)
     | Inr v \<Rightarrow> Ok v)"

text \<open>\<open>one\<close> parses at the type \<open>[T; 1]\<close>, whose reader accepts only arrays with one element.\<close>

definition Params_one ::
  "emitter \<Rightarrow> (string \<Rightarrow> ('t list, string) result) \<Rightarrow> Params \<Rightarrow> ('t, ErrorObject) result" where
  "Params_one emit from_str_array1 p =
     (case Params_parse emit from_str_array1 p of Inl e \<Rightarrow> Err e | Inr res \<Rightarrow> Ok (hd res))"

definition len_bytes :: "Params \<Rightarrow> nat" where
  "len_bytes p = (case p of Some json \<Rightarrow> length json | None \<Rightarrow> 0)"

text \<open>\<open>Debug\<close> of a \<open>str\<close>; characters outside ASCII are printed as they are.\<close>

definition debug_char :: "char \<Rightarrow> string" where
  "debug_char c = (let n = of_char c :: nat; bs = char_of (92::nat) in
     if n = 34 \<or> n = 92 then [bs, c]
     else if n = 0 then [bs, CHR ''0''] else if n = 9 then [bs, CHR ''t'']
     else if n = 10 then [bs, CHR ''n''] else if n = 13 then [bs, CHR ''r'']
     else if n < 32 \<or> n = 127 then
       [bs] @ ''u{'' @ (if n < 16 then [hex_digit n] else [hex_digit (n div 16), hex_digit (n mod 16)]) @ ''}''
     else [c])"

definition debug_str :: "string \<Rightarrow> string" where
  "debug_str s = char_of (34::nat) # concat (map debug_char s) @ [char_of (34::nat)]"

text \<open>
  The stream \<open>serde_json::Deserializer::from_str(json).into_iter::<T>()\<close>: \<open>None\<close> at the end of the
  input, otherwise the first item with \<open>byte_offset()\<close> after it.
\<close>

type_synonym 't stream_reader = "string \<Rightarrow> (('t, string) result \<times> nat) option"

definition next_inner ::
  "emitter \<Rightarrow> 't stream_reader \<Rightarrow> ParamsSequence \<Rightarrow> ('t, ErrorObject) result option \<times> ParamsSequence"
where
  "next_inner emit reader s = (case s of
       [] \<Rightarrow> (None, s)
     | c # json \<Rightarrow>
         if c = CHR '']'' then (None, '''')
         else if c = CHR ''['' \<or> c = CHR '','' then
           (case reader json of
             None \<Rightarrow> (None, s)
           | Some (Inr v, off) \<Rightarrow> (Some (Ok v), trim_start (drop off json))
           | Some (Inl e, off) \<Rightarrow> (Some (Err (invalid_params emit e)), ''''))
         else (Some (Err (invalid_params emit
                (''Invalid params. Expected one of '' @ [char_of (39::nat)] @ ''['' @ [char_of (39::nat)] @
                 '', '' @ [char_of (39::nat)] @ '']'' @ [char_of (39::nat)] @ '' or '' @ [char_of (39::nat)] @
                 '','' @ [char_of (39::nat)] @ '' but found '' @ debug_str s))), s))"

definition ParamsSequence_next ::
  "emitter \<Rightarrow> 't stream_reader \<Rightarrow> ParamsSequence \<Rightarrow> ('t, ErrorObject) result \<times> ParamsSequence" where
  "ParamsSequence_next emit reader s = (case next_inner emit reader s of
       (Some r, s') \<Rightarrow> (r, s')
     | (None, s') \<Rightarrow> (Err (invalid_params emit ''No more params''), s'))"

definition optional_next ::
  "emitter \<Rightarrow> 't option stream_reader \<Rightarrow> ParamsSequence \<Rightarrow> ('t option, ErrorObject) result \<times> ParamsSequence"
where
  "optional_next emit reader s = (case next_inner emit reader s of
       (Some r, s') \<Rightarrow> (r, s')
     | (None, s') \<Rightarrow> (Ok None, s'))"

section \<open>Sequences of calls\<close>

fun insert_values :: "emitter \<Rightarrow> ser list \<Rightarrow> ParamsBuilder \<Rightarrow> ParamsBuilder" where
  "insert_values emit [] b = b"
| "insert_values emit (v # vs) b = insert_values emit vs (snd (ParamsBuilder_insert emit v b))"

fun read_next ::
  "nat \<Rightarrow> emitter \<Rightarrow> 't stream_reader \<Rightarrow> ParamsSequence \<Rightarrow> ('t, ErrorObject) result list \<times> ParamsSequence"
where
  "read_next 0 emit reader s = ([], s)"
| "read_next (Suc n) emit reader s = (case ParamsSequence_next emit reader s of
     (r, s1) \<Rightarrow> (case read_next n emit reader s1 of (rs, s2) \<Rightarrow> (r # rs, s2)))"

abbreviation no_more :: "emitter \<Rightarrow> ('t, ErrorObject) result" where
  "no_more emit \<equiv> Inl (invalid_params emit ''No more params'')"

lemma read_next_empty [simp]: "read_next n emit reader [] = (replicate n (no_more emit), [])"
  by (induction n) (simp_all add: ParamsSequence_next_def next_inner_def)

lemma strip_prefixes_head:
  "of_char c \<notin> hd ` set ps \<Longrightarrow> strip_prefixes ps (c # s) = None"
proof (induction ps)
  case (Cons p ps)
  then show ?case by (cases p) auto
qed simp

lemma delim_not_whitespace:
  assumes "c \<in> {CHR ''['', CHR '']'', CHR '','', CHR ''{''}"
  shows "of_char c \<notin> hd ` set unicode_whitespace"
    and "of_char c \<notin> hd ` set (map rev unicode_whitespace)"
proof -
  from assms have "of_char c \<in> {91, 93, 44, 123 :: nat}" by auto
  then show "of_char c \<notin> hd ` set unicode_whitespace"
    and "of_char c \<notin> hd ` set (map rev unicode_whitespace)"
    by (auto simp: unicode_whitespace_def)
qed

lemma trim_start_delim [simp]:
  "c \<in> {CHR ''['', CHR '']'', CHR '','', CHR ''{''} \<Longrightarrow> trim_start (c # s) = c # s"
  unfolding trim_start_def by (intro trim_with_id strip_prefixes_head delim_not_whitespace)

lemma trim_end_bracket [simp]: "trim_end (s @ '']'') = s @ '']''"
  using strip_prefixes_head [OF delim_not_whitespace(2), of "CHR '']''" "rev s"]
  by (simp add: trim_end_def trim_with_id)

text \<open>A text that starts and ends with a printable character is not trimmed.\<close>

lemma trim_solid:
  assumes "s \<noteq> []" and "of_char (hd s) \<in> {33..127::nat}" and "of_char (last s) \<in> {33..127::nat}"
  shows "trim s = s"
proof -
  have w: "n \<notin> hd ` set unicode_whitespace \<and> n \<notin> hd ` set (map rev unicode_whitespace)" if "n \<in> {33..127::nat}" for n
    using that by (auto simp: unicode_whitespace_def)
  obtain c t where s: "s = c # t" using assms(1) by (cases s) auto
  obtain u d where s': "s = u @ [d]" using assms(1) by (cases s rule: rev_cases) auto
  have "trim_start s = s"
    using strip_prefixes_head [of c unicode_whitespace t] w [OF assms(2)] s by (simp add: trim_start_def trim_with_id)
  moreover have "trim_end s = s"
    using strip_prefixes_head [of d "map rev unicode_whitespace" "rev u"] w [OF assms(3)] s'
    by (simp add: trim_end_def trim_with_id)
  ultimately show ?thesis by (simp add: trim_def)
qed

lemma trim_brackets: "trim (''['' @ s @ '']'') = ''['' @ s @ '']''"
  by (rule trim_solid) simp_all

lemma trim_braces: "trim (''{'' @ s @ ''}'') = ''{'' @ s @ ''}''"
  by (rule trim_solid) simp_all

lemma join_comma_concat:
  "vs \<noteq> [] \<Longrightarrow> concat (map (\<lambda>v. f v @ '','') vs) = join_comma (map f vs) @ '',''"
proof (induction vs)
  case (Cons v vs)
  then show ?case by (cases vs) simp_all
qed simp

text \<open>
  The contract between the printer and the reader of \<open>serde_json\<close> on a type \<open>'t\<close>: a printed value is
  read back from the front of a text in which a delimiter follows it, and arrays of printed values
  are valid.
\<close>

locale value_stream =
  fixes emit :: emitter and ser_t :: "'t \<Rightarrow> ser" and reader :: "'t stream_reader"
    and valid_json :: "string \<Rightarrow> bool" and printed :: "'t \<Rightarrow> string"
  assumes emit_printed: "emit (ser_t v) = (cs, ok) \<Longrightarrow> ok \<and> concat cs = printed v"
    and printed_ne: "printed v \<noteq> []"
    and reader_printed: "d \<in> {CHR '','', CHR '']''} \<Longrightarrow>
      reader (printed v @ d # rest) = Some (Inr v, length (printed v))"
    and valid_array: "vs \<noteq> [] \<Longrightarrow> valid_json (''['' @ join_comma (map printed vs) @ '']'')"
begin

lemma insert_bytes:
  "pb_bytes (snd (ParamsBuilder_insert emit (ser_t v) b)) =
     pb_bytes (maybe_initialize b) @ printed v @ '',''"
  "pb_start (snd (ParamsBuilder_insert emit (ser_t v) b)) = pb_start b"
  "pb_end (snd (ParamsBuilder_insert emit (ser_t v) b)) = pb_end b"
  "fst (ParamsBuilder_insert emit (ser_t v) b)"
  using emit_printed [of v "fst (emit (ser_t v))" "snd (emit (ser_t v))"]
  by (simp_all add: ParamsBuilder_insert_def write_value_def push_bytes_def maybe_initialize_def
        split_beta)

lemma insert_values_bytes:
  "pb_bytes b \<noteq> [] \<Longrightarrow>
     pb_bytes (insert_values emit (map ser_t vs) b) =
       pb_bytes b @ concat (map (\<lambda>v. printed v @ '','') vs) \<and>
     pb_end (insert_values emit (map ser_t vs) b) = pb_end b"
  by (induction vs arbitrary: b) (simp_all add: insert_bytes maybe_initialize_def)

lemma build_array:
  assumes "vs \<noteq> []"
  shows "ParamsBuilder_build valid_json (insert_values emit (map ser_t vs) positional) =
    Done (Some (''['' @ join_comma (map printed vs) @ '']''))"
proof -
  obtain w ws where vs: "vs = w # ws" using assms by (cases vs) auto
  let ?b = "insert_values emit (map ser_t vs) positional"
  have "pb_bytes ?b = ''['' @ concat (map (\<lambda>v. printed v @ '','') vs) \<and> pb_end ?b = CHR '']''"
    by (simp add: vs insert_values_bytes insert_bytes maybe_initialize_def positional_def
          ParamsBuilder_new_def)
  with valid_array [OF assms] show ?thesis
    by (simp add: ParamsBuilder_build_def ParamsBuilder_text_def join_comma_concat [OF assms]
          butlast_append)
qed

lemma next_value:
  assumes "c \<in> {CHR ''['', CHR '',''}" "d \<in> {CHR '','', CHR '']''}"
  shows "ParamsSequence_next emit reader (c # printed v @ d # rest) = (Inr v, d # rest)"
proof -
  have "trim_start (d # rest) = d # rest" using assms(2) by auto
  with assms reader_printed [OF assms(2), of v rest] show ?thesis
    by (auto simp: ParamsSequence_next_def next_inner_def)
qed

lemma read_array:
  assumes "vs \<noteq> []" "c \<in> {CHR ''['', CHR '',''}"
  shows "read_next (length vs + k) emit reader (c # join_comma (map printed vs) @ '']'') =
    (map Inr vs @ replicate k (no_more emit), if k = 0 then '']'' else '''')"
  using assms
proof (induction vs arbitrary: c rule: induct_list012)
  case (2 v)
  have "read_next k emit reader '']'' = (replicate k (no_more emit), if k = 0 then '']'' else '''')"
    by (cases k) (simp_all add: ParamsSequence_next_def next_inner_def)
  with 2 show ?case by (simp add: next_value)
next
  case (3 v w vs)
  from 3(2) [of "CHR '',''"] 3(4) show ?case by (simp add: next_value)
qed simp

lemma array_no_brackets: "vs \<noteq> [] \<Longrightarrow> ''['' @ join_comma (map printed vs) @ '']'' \<noteq> ''[]''"
  using printed_ne by (cases vs rule: remdups_adj.cases) auto

lemma build_then_read:
  "\<exists>raw. ParamsBuilder_build valid_json (insert_values emit (map ser_t vs) positional) = Done raw \<and>
     fst (read_next (length vs + k) emit reader (Params_sequence (Params_new raw))) =
       map Inr vs @ replicate k (no_more emit)"
proof (cases "vs = []")
  case True
  then show ?thesis
    by (simp add: ParamsBuilder_build_def positional_def ParamsBuilder_new_def Params_new_def
          Params_sequence_def)
next
  case False
  have "trim (''['' @ join_comma (map printed vs) @ '']'') = ''['' @ join_comma (map printed vs) @ '']''"
    using trim_end_bracket [of "''['' @ join_comma (map printed vs)"] by (simp add: trim_def)
  with array_no_brackets [OF False] read_array [OF False, of "CHR ''[''" k] build_array [OF False]
  show ?thesis by (simp add: Params_new_def Params_sequence_def)
qed

end

section \<open>An instance: unsigned integers\<close>

text \<open>The contract holds for \<open>u64\<close> with the compact printer and a reader of decimal digits.\<close>

definition json_space :: "char \<Rightarrow> bool" where
  "json_space c = (of_char c \<in> {9, 10, 13, 32::nat})"

definition is_digit_char :: "char \<Rightarrow> bool" where
  "is_digit_char c = (char_digit c \<noteq> None)"

definition u64_reader :: "u64 stream_reader" where
  "u64_reader s = (let ws = takeWhile json_space s; r = dropWhile json_space s;
       ds = takeWhile is_digit_char r
     in if r = [] then None
        else case parse_u64 ds of
          None \<Rightarrow> Some (Inl ''invalid number'', length ws)
        | Some n \<Rightarrow> Some (Inr n, length ws + length ds))"

definition array_text :: "string \<Rightarrow> bool" where
  "array_text s = (hd s = CHR ''['' \<and> last s = CHR '']'')"

lemma digit_char_is_digit: "d < 10 \<Longrightarrow> is_digit_char (digit_char d)"
  by (simp add: is_digit_char_def)

lemma nat_to_string_digits: "\<forall>c \<in> set (nat_to_string n). is_digit_char c"
proof (induction n rule: nat_to_string.induct)
  case (1 n)
  then show ?case by (subst nat_to_string.simps) (auto simp: digit_char_is_digit)
qed

lemma digit_not_space: "is_digit_char c \<Longrightarrow> \<not> json_space c"
  by (auto simp: is_digit_char_def char_digit_def json_space_def Let_def split: if_splits)

lemma u64_to_string_ne: "u64_to_string n \<noteq> []"
  by (simp add: u64_to_string_def)

lemma u64_reader_printed:
  assumes "d \<in> {CHR '','', CHR '']''}"
  shows "u64_reader (u64_to_string n @ d # rest) = Some (Inr n, length (u64_to_string n))"
proof -
  let ?t = "u64_to_string n"
  have dig: "\<forall>c \<in> set ?t. is_digit_char c" and ne: "?t \<noteq> []"
    by (simp_all add: u64_to_string_def nat_to_string_digits)
  from assms have nd: "\<not> is_digit_char d" by (auto simp: is_digit_char_def char_digit_def)
  from dig ne digit_not_space have sp: "takeWhile json_space (?t @ d # rest) = []"
    "dropWhile json_space (?t @ d # rest) = ?t @ d # rest"
    by (cases ?t; auto)+
  from dig nd have "takeWhile is_digit_char (?t @ d # rest) = ?t"
    by (simp add: takeWhile_append2)
  with sp show ?thesis by (simp add: u64_reader_def)
qed

interpretation u64_stream: value_stream json_emit SU64 u64_reader array_text u64_to_string
  by unfold_locales (simp_all add: json_emit_def u64_reader_printed array_text_def u64_to_string_ne)

section \<open>Properties\<close>


text \<open>After a parameter that cannot be parsed the sequence is exhausted: the failing call reports
  the error with code \<open>-32602\<close>, every later \<open>next\<close> reports that there are no more parameters and
  every later \<open>optional_next\<close> is \<open>None\<close>.\<close>

lemma params_error_exhausts:
  assumes "c \<in> {CHR ''['', CHR '',''}" and "reader json = Some (Inl e, off)"
  shows "ParamsSequence_next emit reader (c # json) = (Inl (invalid_params emit e), []) \<and>
    ErrorObject_code (invalid_params emit e) = -32602 \<and>
    fst (read_next n emit reader []) = replicate n (Inl (invalid_params emit ''No more params'')) \<and>
    optional_next emit reader' [] = (Inr None, [])"
  using assms
  by (auto simp: ParamsSequence_next_def next_inner_def optional_next_def invalid_params_def rpc_defs)

text \<open>An insertion that fails half way leaves what was already written in the buffer: the next
  \<open>build\<close> closes the partial text, and panics when that is not valid JSON.\<close>

lemma params_partial_insert:
  assumes "emit v = (chunks, False)" and "concat chunks \<noteq> []" and "last (concat chunks) \<noteq> CHR '',''"
  shows "fst (ParamsBuilder_insert emit v positional) = False \<and>
    ParamsBuilder_build valid_json (snd (ParamsBuilder_insert emit v positional)) =
      (if valid_json (''['' @ concat chunks @ '']'') then Done (Some (''['' @ concat chunks @ '']''))
       else Panicked)"
  using assms
  by (simp add: ParamsBuilder_insert_def write_value_def push_bytes_def maybe_initialize_def
        positional_def ParamsBuilder_new_def ParamsBuilder_build_def ParamsBuilder_text_def)

end
