(* ===== verification/Client_Helpers.thy ===== *)
theory Client_Helpers
  imports Request_Manager Params_Seq
begin

text \<open>
  \<open>core/src/client/async_client/helpers.rs\<close>: what the background task of a client does with each
  kind of incoming message, together with the subscription channels and the error type of
  \<open>core/src/client\<close>.

  The channels of tokio are a parameter of type \<open>'c chan_ops\<close> on an abstract store \<open>'c\<close>; the values
  handed to oneshot senders are collected in order in \<open>cl_outbox\<close>, and \<open>alive\<close> says whether the
  receiver of a oneshot still exists. Functions that can panic return an \<open>outcome\<close>.
\<close>

section \<open>Channels, errors and messages\<close>

record 'c chan_ops =
  ch_new :: "nat \<Rightarrow> 'c \<Rightarrow> sink \<times> 'c"
  ch_try_send :: "sink \<Rightarrow> string \<Rightarrow> 'c \<Rightarrow> try_send_result \<times> 'c"

datatype Error =
    ECall ErrorObject
  | ETransport string
  | ERestartNeeded Error
  | EParseError string
  | EInvalidSubscriptionId
  | EInvalidRequestId InvalidRequestId
  | ERequestTimeout
  | ECustom string
  | EHttpNotImplemented
  | EEmptyBatchRequest EmptyBatchRequest
  | ERegisterMethod RegisterMethodError
  | EServiceDisconnect

type_synonym RawResponse = "string Response"

text \<open>What is sent over the oneshots.\<close>

datatype delivery =
    ToCall oneshot "(RawResponse, InvalidRequestId) result"
  | ToBatch oneshot "(RawResponse list, InvalidRequestId) result"
  | ToSubscription oneshot "(sink \<times> SubscriptionId, Error) result"
  | ToNotification oneshot "(sink \<times> string, Error) result"

record 'c client =
  cl_manager :: RequestManager
  cl_chans :: 'c
  cl_lagged :: "sink \<Rightarrow> bool"
  cl_outbox :: "delivery list"

definition deliver :: "delivery \<Rightarrow> 'c client \<Rightarrow> 'c client" where
  "deliver d c = c\<lparr>cl_outbox := cl_outbox c @ [d]\<rparr>"

text \<open>Apply an operation of the manager to the client that holds it.\<close>

definition on_manager :: "(RequestManager \<Rightarrow> 'r \<times> RequestManager) \<Rightarrow> 'c client \<Rightarrow> 'r \<times> 'c client" where
  "on_manager f c = (case f (cl_manager c) of (r, m) \<Rightarrow> (r, c\<lparr>cl_manager := m\<rparr>))"

datatype TrySubscriptionSendError = SubClosed | TooSlow string

definition SubscriptionSender_send ::
  "'c chan_ops \<Rightarrow> sink \<Rightarrow> string \<Rightarrow> 'c client \<Rightarrow> (unit, TrySubscriptionSendError) result \<times> 'c client"
where
  "SubscriptionSender_send ops k msg c = (case ch_try_send ops k msg (cl_chans c) of
       (SendOk, ch) \<Rightarrow> (Ok (), c\<lparr>cl_chans := ch\<rparr>)
     | (SendClosed, ch) \<Rightarrow> (Err SubClosed, c\<lparr>cl_chans := ch\<rparr>)
     | (SendFull, ch) \<Rightarrow>
         (Err (TooSlow msg), c\<lparr>cl_chans := ch, cl_lagged := (cl_lagged c)(k := True)\<rparr>))"

definition subscription_channel :: "'c chan_ops \<Rightarrow> nat \<Rightarrow> 'c client \<Rightarrow> sink \<times> 'c client" where
  "subscription_channel ops max_buf_size c = (case ch_new ops max_buf_size (cl_chans c) of
       (k, ch) \<Rightarrow> (k, c\<lparr>cl_chans := ch, cl_lagged := (cl_lagged c)(k := False)\<rparr>))"

record RequestMessage =
  rm_raw :: string
  rm_id :: Id
  rm_send_back :: "oneshot option"

definition range_debug :: "range \<Rightarrow> string" where
  "range_debug r = u64_to_string (fst r) @ ''..'' @ u64_to_string (snd r)"

definition range_len :: "range \<Rightarrow> nat" where
  "range_len r = unat (snd r) - unat (fst r)"

section \<open>Batches\<close>

definition batch_placeholder :: RawResponse where
  "batch_placeholder = Response_new (RpError (ErrorObject_borrowed 0 '''' None)) Null"

fun place_responses ::
  "u64 \<Rightarrow> RawResponse list \<Rightarrow> RawResponse list \<Rightarrow> (RawResponse list, InvalidRequestId) result" where
  "place_responses start_idx [] responses = Ok responses"
| "place_responses start_idx (rp # rps) responses =
     (case try_parse_inner_as_number (rp_id rp) of
       Inl e \<Rightarrow> Err e
     | Inr i \<Rightarrow> (case checked_sub_u64 i start_idx of
         None \<Rightarrow> Err (NotPendingRequest (Id_to_string (rp_id rp)))
       | Some p \<Rightarrow>
           if unat p < length responses
           then place_responses start_idx rps (responses[unat p := rp])
           else Err (NotPendingRequest (Id_to_string (rp_id rp)))))"

definition process_batch_response ::
  "RawResponse list \<Rightarrow> range \<Rightarrow> 'c client \<Rightarrow> (unit, InvalidRequestId) result \<times> 'c client" where
  "process_batch_response rps rng c =
     (case on_manager (complete_pending_batch rng) c of
       (None, c1) \<Rightarrow> (Err (NotPendingRequest (range_debug rng)), c1)
     | (Some batch_state, c1) \<Rightarrow>
         (case place_responses (fst rng) rps (replicate (range_len rng) batch_placeholder) of
           Inl e \<Rightarrow> (Err e, c1)
         | Inr responses \<Rightarrow> (Ok (), deliver (ToBatch (bs_send_back batch_state) (Ok responses)) c1)))"

section \<open>Subscriptions and notifications\<close>

definition process_subscription_response ::
  "'c chan_ops \<Rightarrow> string SubscriptionPayload Notification \<Rightarrow> 'c client \<Rightarrow> SubscriptionId option \<times> 'c client"
where
  "process_subscription_response ops response c =
     (let sub_id = sp_subscription (ntf_params response) in
      case get_request_id_by_subscription_id sub_id (cl_manager c) of
        None \<Rightarrow> (None, c)
      | Some request_id \<Rightarrow> (case as_subscription_mut request_id (cl_manager c) of
          Some k \<Rightarrow> (case SubscriptionSender_send ops k (sp_result (ntf_params response)) c of
              (Inr _, c1) \<Rightarrow> (None, c1)
            | (Inl SubClosed, c1) \<Rightarrow> (Some sub_id, c1)
            | (Inl (TooSlow m), c1) \<Rightarrow> (Some sub_id, c1))
        | None \<Rightarrow> (None, c)))"

definition process_subscription_close_response ::
  "string SubscriptionPayloadError Notification \<Rightarrow> 'c client \<Rightarrow> unit outcome \<times> 'c client" where
  "process_subscription_close_response response c =
     (let sub_id = spe_subscription (ntf_params response) in
      case get_request_id_by_subscription_id sub_id (cl_manager c) of
        Some request_id \<Rightarrow> (case on_manager (remove_subscription request_id sub_id) c of
            (Some _, c1) \<Rightarrow> (Done (), c1)
          | (None, c1) \<Rightarrow> (Panicked, c1))
      | None \<Rightarrow> (Done (), c))"

text \<open>\<open>unwrap_or_default\<close> on \<open>Option<Box<RawValue>>\<close> gives the JSON value \<open>null\<close>.\<close>

definition process_notification ::
  "'c chan_ops \<Rightarrow> string option Notification \<Rightarrow> 'c client \<Rightarrow> 'c client" where
  "process_notification ops notif c =
     (case as_notification_handler_mut (ntf_method notif) (cl_manager c) of
       Some k \<Rightarrow>
         (case SubscriptionSender_send ops k
                 (case ntf_params notif of Some p \<Rightarrow> p | None \<Rightarrow> ''null'') c of
           (Inr _, c1) \<Rightarrow> c1
         | (Inl SubClosed, c1) \<Rightarrow> snd (on_manager (remove_notification_handler (ntf_method notif)) c1)
         | (Inl (TooSlow m), c1) \<Rightarrow> snd (on_manager (remove_notification_handler (ntf_method notif)) c1))
     | None \<Rightarrow> c)"

section \<open>Unsubscribing\<close>

definition build_unsubscribe_message ::
  "emitter \<Rightarrow> (string \<Rightarrow> bool) \<Rightarrow> Id \<Rightarrow> SubscriptionId \<Rightarrow> 'c client \<Rightarrow>
     RequestMessage option outcome \<times> 'c client"
where
  "build_unsubscribe_message emit valid_json sub_req_id sub_id c =
     (case on_manager (unsubscribe sub_req_id sub_id) c of
       (None, c1) \<Rightarrow> (Done None, c1)
     | (Some (unsub_req_id, k, unsub, sid), c1) \<Rightarrow>
         (case ParamsBuilder_insert emit (SubscriptionId_serialize sid) positional of
           (False, _) \<Rightarrow> (Done None, c1)
         | (True, b) \<Rightarrow> (case ParamsBuilder_build valid_json b of
             Panicked \<Rightarrow> (Panicked, c1)
           | Done params \<Rightarrow>
               (case to_raw_value emit (Request_serialize (Request_owned unsub params unsub_req_id)) of
                 None \<Rightarrow> (Done None, c1)
               | Some raw \<Rightarrow>
                   (Done (Some \<lparr>rm_raw = raw, rm_id = unsub_req_id, rm_send_back = None\<rparr>), c1)))))"

section \<open>Responses\<close>

text \<open>The part of \<open>process_single_response\<close> after a subscription id was received.\<close>

definition activate_subscription ::
  "emitter \<Rightarrow> (string \<Rightarrow> bool) \<Rightarrow> 'c chan_ops \<Rightarrow> (oneshot \<Rightarrow> bool) \<Rightarrow> Id \<Rightarrow> Id \<Rightarrow> oneshot \<Rightarrow> string \<Rightarrow>
     SubscriptionId \<Rightarrow> nat \<Rightarrow> 'c client \<Rightarrow> (RequestMessage option, InvalidRequestId) result outcome \<times> 'c client"
where
  "activate_subscription emit valid_json ops alive response_id unsub_id send_back unsubscribe_method
       sub_id max_capacity c1 =
     (let (k, c2) = subscription_channel ops max_capacity c1;
          (res, c3) = on_manager (insert_subscription response_id unsub_id sub_id k unsubscribe_method) c2
      in case res of
        Inr _ \<Rightarrow>
          if alive send_back
          then (Done (Ok None), deliver (ToSubscription send_back (Ok (k, sub_id))) c3)
          else (case build_unsubscribe_message emit valid_json response_id sub_id c3 of
            (Done msg, c4) \<Rightarrow> (Done (Ok msg), c4)
          | (Panicked, c4) \<Rightarrow> (Panicked, c4))
      | Inl _ \<Rightarrow>
          (Done (Ok None), deliver (ToSubscription send_back (Err EInvalidSubscriptionId)) c3))"

text \<open>\<open>de_sub_id\<close> is \<open>serde_json::from_str::<SubscriptionId>\<close>.\<close>

definition process_single_response ::
  "emitter \<Rightarrow> (string \<Rightarrow> bool) \<Rightarrow> 'c chan_ops \<Rightarrow> (oneshot \<Rightarrow> bool) \<Rightarrow> (string \<Rightarrow> (SubscriptionId, string) result) \<Rightarrow>
     RawResponse \<Rightarrow> nat \<Rightarrow> 'c client \<Rightarrow>
     (RequestMessage option, InvalidRequestId) result outcome \<times> 'c client"
where
  "process_single_response emit valid_json ops alive de_sub_id response max_capacity c =
     (let response_id = Id_into_owned (rp_id response) in
      case request_status response_id (cl_manager c) of
        StPendingMethodCall \<Rightarrow>
          (let (completed, c1) = on_manager (complete_pending_call response_id) c in
           case completed of
             Some (Some send) \<Rightarrow> (Done (Ok None), deliver (ToCall send (Ok response)) c1)
           | Some None \<Rightarrow> (Done (Ok None), c1)
           | None \<Rightarrow> (Done (Err (NotPendingRequest (Id_to_string response_id))), c1))
      | StPendingSubscription \<Rightarrow>
          (let (completed, c1) = on_manager (complete_pending_subscription response_id) c in
           case completed of
             None \<Rightarrow> (Done (Err (NotPendingRequest (Id_to_string response_id))), c1)
           | Some (unsub_id, send_back, unsubscribe_method) \<Rightarrow>
               (case Success_try_from response of
                 Inl e \<Rightarrow> (Done (Ok None), deliver (ToSubscription send_back (Err (ECall e))) c1)
               | Inr s \<Rightarrow> (case de_sub_id (ok_result s) of
                   Inl e \<Rightarrow> (Done (Ok None), deliver (ToSubscription send_back (Err (EParseError e))) c1)
                 | Inr sub_id \<Rightarrow>
                     activate_subscription emit valid_json ops alive response_id unsub_id send_back
                       unsubscribe_method sub_id max_capacity c1)))
      | StSubscription \<Rightarrow> (Done (Err (NotPendingRequest (Id_to_string response_id))), c)
      | StInvalid \<Rightarrow> (Done (Err (NotPendingRequest (Id_to_string response_id))), c))"

definition stop_subscription :: "(string \<Rightarrow> (unit, 'e) result) \<Rightarrow> RequestMessage \<Rightarrow> (unit, 'e) result" where
  "stop_subscription send unsub = (case send (rm_raw unsub) of Inl e \<Rightarrow> Err e | Inr _ \<Rightarrow> Ok ())"

datatype 'a race = Left 'a | Right

text \<open>
  \<open>call_with_timeout\<close>: the receiver and the timer race; \<open>first\<close> is what \<open>future::select\<close> yielded, a
  received value or the error of a dropped sender on the left, the timer on the right.
\<close>

definition call_with_timeout ::
  "(('t, Error) result, unit) result race \<Rightarrow> (('t, Error) result, unit) result" where
  "call_with_timeout first = (case first of Left res \<Rightarrow> res | Right \<Rightarrow> Ok (Err ERequestTimeout))"

section \<open>Bookkeeping lemmas\<close>

lemma on_manager_simps [simp]:
  "fst (on_manager f c) = fst (f (cl_manager c))"
  "cl_manager (snd (on_manager f c)) = snd (f (cl_manager c))"
  "cl_chans (snd (on_manager f c)) = cl_chans c"
  "cl_outbox (snd (on_manager f c)) = cl_outbox c"
  "cl_lagged (snd (on_manager f c)) = cl_lagged c"
  by (simp_all add: on_manager_def split_beta)

lemma on_manager_eq: "on_manager f c = (r, c') \<longleftrightarrow>
    r = fst (f (cl_manager c)) \<and> c' = c\<lparr>cl_manager := snd (f (cl_manager c))\<rparr>"
  by (auto simp: on_manager_def split_beta)

lemma deliver_simps [simp]:
  "cl_manager (deliver d c) = cl_manager c" "cl_chans (deliver d c) = cl_chans c"
  "cl_lagged (deliver d c) = cl_lagged c" "cl_outbox (deliver d c) = cl_outbox c @ [d]"
  by (simp_all add: deliver_def)

lemma sender_send_manager [simp]:
  "cl_manager (snd (SubscriptionSender_send ops k msg c)) = cl_manager c"
  "cl_outbox (snd (SubscriptionSender_send ops k msg c)) = cl_outbox c"
  by (simp_all add: SubscriptionSender_send_def split: prod.splits try_send_result.splits)

lemma subscription_channel_manager [simp]:
  "cl_manager (snd (subscription_channel ops n c)) = cl_manager c"
  "cl_outbox (snd (subscription_channel ops n c)) = cl_outbox c"
  by (simp_all add: subscription_channel_def split: prod.splits)

abbreviation client_inv :: "'c client \<Rightarrow> bool" where
  "client_inv c \<equiv> manager_inv (cl_manager c)"

section \<open>The handlers keep the manager's invariant\<close>

lemma process_batch_response_inv [mgr_inv]:
  assumes "client_inv c"
  shows "client_inv (snd (process_batch_response rps rng c))"
  using assms manager_inv_complete(3) [OF assms, of rng]
  by (auto simp: process_batch_response_def on_manager_def split: prod.splits option.splits sum.splits)

lemma process_subscription_response_manager [simp]:
  "cl_manager (snd (process_subscription_response ops r c)) = cl_manager c"
proof -
  have "cl_manager c' = cl_manager c" if "SubscriptionSender_send ops k m c = (res, c')" for k m res c'
    using sender_send_manager(1) [of ops k m c] that by simp
  then show ?thesis
    by (auto simp: process_subscription_response_def Let_def
        split: option.splits prod.splits sum.splits TrySubscriptionSendError.splits)
qed

lemma process_notification_inv [mgr_inv]:
  assumes "client_inv c"
  shows "client_inv (process_notification ops n c)"
proof -
  have "cl_manager c' = cl_manager c" if "SubscriptionSender_send ops k m c = (res, c')" for k m res c'
    using sender_send_manager(1) [of ops k m c] that by simp
  with assms manager_inv_handlers(2) [OF assms] show ?thesis
    by (auto simp: process_notification_def
        split: option.splits prod.splits sum.splits TrySubscriptionSendError.splits)
qed

lemma remove_active_subscription:
  assumes "manager_inv m" "subscriptions m sid = Some r"
  shows "fst (remove_subscription r sid m) \<noteq> None" and "fst (unsubscribe r sid m) \<noteq> None"
proof -
  obtain u k f where "requests m r = Some (Subscription u k f)"
    using manager_inv_request [OF assms] .
  with assms(2) show "fst (remove_subscription r sid m) \<noteq> None" "fst (unsubscribe r sid m) \<noteq> None"
    by (simp_all add: mgr_defs)
qed

lemma process_close_inv [mgr_inv]:
  assumes "client_inv c"
  shows "client_inv (snd (process_subscription_close_response r c))"
    and "fst (process_subscription_close_response r c) = Done ()"
proof -
  let ?sid = "spe_subscription (ntf_params r)"
  show "client_inv (snd (process_subscription_close_response r c))"
    and "fst (process_subscription_close_response r c) = Done ()"
    using assms manager_inv_drop_subscription(1) [OF assms, of ?sid]
      remove_active_subscription(1) [OF assms, of ?sid]
    by (auto simp: process_subscription_close_response_def Let_def on_manager_def
        get_request_id_by_subscription_id_def split: option.splits prod.splits)
qed

lemma build_unsubscribe_manager:
  "cl_manager (snd (build_unsubscribe_message emit valid r sid c)) = snd (unsubscribe r sid (cl_manager c))"
  "cl_outbox (snd (build_unsubscribe_message emit valid r sid c)) = cl_outbox c"
  by (simp_all add: build_unsubscribe_message_def on_manager_def split: prod.splits option.splits
        bool.splits outcome.splits)

lemma insert_subscription_ok:
  "insert_subscription i j sid k f m = (Inr u, m') \<Longrightarrow> subscriptions m' sid = Some i"
  by (auto simp: insert_subscription_def split: if_splits)

lemma activate_subscription_inv:
  assumes "client_inv c"
  shows "client_inv (snd (activate_subscription emit valid ops alive i j s f sid n c))"
proof -
  obtain k c2 where c2: "subscription_channel ops n c = (k, c2)" by fastforce
  with assms subscription_channel_manager(1) [of ops n c] have i2: "client_inv c2" by simp
  obtain res m3 where ins: "insert_subscription i j sid k f (cl_manager c2) = (res, m3)" by fastforce
  with manager_inv_insert_subscription [OF i2, of i j sid k f] have i3: "manager_inv m3" by simp
  show ?thesis
  proof (cases res)
    case (Inr u)
    with ins have "subscriptions m3 sid = Some i" by (auto dest: insert_subscription_ok)
    from manager_inv_drop_subscription(2) [OF i3 this]
    have "client_inv (snd (build_unsubscribe_message emit valid i sid (c2\<lparr>cl_manager := m3\<rparr>)))"
      by (simp add: build_unsubscribe_manager)
    with Inr ins c2 i3 show ?thesis
      by (auto simp: activate_subscription_def on_manager_def split: prod.splits outcome.splits)
  qed (use ins c2 i3 in \<open>simp add: activate_subscription_def on_manager_def\<close>)
qed

lemma process_single_response_inv [mgr_inv]:
  assumes "client_inv c"
  shows "client_inv (snd (process_single_response emit valid ops alive de rp n c))"
proof (cases "request_status (rp_id rp) (cl_manager c)")
  case StPendingMethodCall
  with assms manager_inv_complete(1) [OF assms, of "rp_id rp"] show ?thesis
    by (simp add: process_single_response_def split_beta Let_def split: option.splits)
next
  case StPendingSubscription
  have i1: "client_inv (snd (on_manager (complete_pending_subscription (rp_id rp)) c))"
    using manager_inv_complete(2) [OF assms, of "rp_id rp"] by simp
  with StPendingSubscription activate_subscription_inv [OF i1] show ?thesis
    by (simp add: process_single_response_def split_beta Let_def split: option.splits sum.splits)
qed (use assms in \<open>simp_all add: process_single_response_def\<close>)

section \<open>Order of batch responses\<close>

text \<open>The position of a response in the batch that starts at \<open>start\<close>.\<close>

definition batch_pos :: "u64 \<Rightarrow> RawResponse \<Rightarrow> nat option" where
  "batch_pos start rp = (case try_parse_inner_as_number (rp_id rp) of
       Inl _ \<Rightarrow> None
     | Inr i \<Rightarrow> map_option unat (checked_sub_u64 i start))"

lemma place_responses_total:
  "(\<And>rp. rp \<in> set rps \<Longrightarrow> \<exists>p < length acc. batch_pos start rp = Some p) \<Longrightarrow>
     place_responses start rps acc = Inr (fold (\<lambda>rp acc. acc[the (batch_pos start rp) := rp]) rps acc)"
proof (induction start rps acc rule: place_responses.induct)
  case (2 start rp rps acc)
  from "2.prems" [of rp] obtain i p where
    "try_parse_inner_as_number (rp_id rp) = Inr i" "checked_sub_u64 i start = Some p" "unat p < length acc"
    by (auto simp: batch_pos_def split: sum.splits)
  moreover from this "2.prems"
  have "place_responses start rps (acc[unat p := rp]) =
      Inr (fold (\<lambda>rp acc. acc[the (batch_pos start rp) := rp]) rps (acc[unat p := rp]))"
    by (intro "2.IH") auto
  ultimately show ?case by (simp add: batch_pos_def)
qed simp

lemma place_responses_length: "place_responses start rps acc = Inr out \<Longrightarrow> length out = length acc"
  by (induction start rps acc rule: place_responses.induct)
     (auto split: sum.splits option.splits if_splits)

lemma place_responses_keep:
  "place_responses start rps acc = Inr out \<Longrightarrow> q < length acc \<Longrightarrow>
   (\<And>rp. rp \<in> set rps \<Longrightarrow> batch_pos start rp \<noteq> Some q) \<Longrightarrow> out ! q = acc ! q"
proof (induction start rps acc rule: place_responses.induct)
  case (2 start rp rps acc)
  from "2.prems"(1) obtain i p where *:
    "try_parse_inner_as_number (rp_id rp) = Inr i" "checked_sub_u64 i start = Some p" "unat p < length acc"
    "place_responses start rps (acc[unat p := rp]) = Inr out"
    by (auto split: sum.splits option.splits if_splits)
  with "2.prems"(3) [of rp] have "unat p \<noteq> q" by (simp add: batch_pos_def)
  with * 2 show ?case by simp
qed simp

lemma place_responses_nth:
  assumes "place_responses start rps acc = Inr out" "distinct (map (batch_pos start) rps)"
    and "rp \<in> set rps" "batch_pos start rp = Some p"
  shows "out ! p = rp"
  using assms
proof (induction start rps acc rule: place_responses.induct)
  case (2 start r rps acc)
  from "2.prems"(1) obtain i p' where *:
    "try_parse_inner_as_number (rp_id r) = Inr i" "checked_sub_u64 i start = Some p'" "unat p' < length acc"
    "place_responses start rps (acc[unat p' := r]) = Inr out"
    by (auto split: sum.splits option.splits if_splits)
  show ?case
  proof (cases "rp \<in> set rps")
    case True
    with * "2.IH" "2.prems" show ?thesis by simp
  next
    case False
    with "2.prems" have rp: "rp = r" by simp
    with * "2.prems"(4) have p: "p = unat p'" by (simp add: batch_pos_def)
    have "\<And>q. q \<in> set rps \<Longrightarrow> batch_pos start q \<noteq> Some p"
      using "2.prems"(2) "2.prems"(4) unfolding rp by (metis distinct.simps(2) image_eqI list.simps(9) list.set_map)
    from place_responses_keep [OF *(4) _ this] * p rp show ?thesis by simp
  qed
qed simp

lemma batch_placeholder_pos: "place_responses start rps (replicate n batch_placeholder) = Inr out \<Longrightarrow>
    q < n \<Longrightarrow> (\<And>rp. rp \<in> set rps \<Longrightarrow> batch_pos start rp \<noteq> Some q) \<Longrightarrow> out ! q = batch_placeholder"
  by (drule place_responses_keep) auto

section \<open>Channels\<close>

text \<open>The notifications for one subscription, in the order in which they arrive.\<close>

fun push_all :: "'c chan_ops \<Rightarrow> SubscriptionId \<Rightarrow> string list \<Rightarrow> 'c client \<Rightarrow> SubscriptionId option list \<times> 'c client" where
  "push_all ops sid [] c = ([], c)"
| "push_all ops sid (x # xs) c =
     (case process_subscription_response ops
             (Notification_new ''m'' \<lparr>sp_subscription = sid, sp_result = x\<rparr>) c of
       (r, c1) \<Rightarrow> (case push_all ops sid xs c1 of (rs, c2) \<Rightarrow> (r # rs, c2)))"

definition notification_text :: "string option Notification \<Rightarrow> string" where
  "notification_text n = (case ntf_params n of Some p \<Rightarrow> p | None \<Rightarrow> ''null'')"

text \<open>
  What the client relies on of \<open>tokio::sync::mpsc\<close>: a bounded FIFO per channel. \<open>try_send\<close> appends,
  refuses when the buffer is full, and reports a receiver that is gone.
\<close>

locale bounded_channels =
  fixes ops :: "'c chan_ops"
    and queue :: "'c \<Rightarrow> sink \<Rightarrow> string list"
    and capacity :: "'c \<Rightarrow> sink \<Rightarrow> nat"
    and listening :: "'c \<Rightarrow> sink \<Rightarrow> bool"
  assumes try_send_closed: "\<not> listening ch k \<Longrightarrow> ch_try_send ops k m ch = (SendClosed, ch)"
    and try_send_full: "listening ch k \<Longrightarrow> capacity ch k \<le> length (queue ch k) \<Longrightarrow>
          ch_try_send ops k m ch = (SendFull, ch)"
    and try_send_ok: "listening ch k \<Longrightarrow> length (queue ch k) < capacity ch k \<Longrightarrow>
          ch_try_send ops k m ch = (r, ch') \<Longrightarrow>
          r = SendOk \<and> queue ch' = (queue ch)(k := queue ch k @ [m]) \<and>
          capacity ch' = capacity ch \<and> listening ch' = listening ch"
    and new_channel: "ch_new ops n ch = (k, ch') \<Longrightarrow> queue ch' k = [] \<and> capacity ch' k = n \<and> listening ch' k"
begin

lemma push_one:
  assumes "listening (cl_chans c) k" "length (queue (cl_chans c) k) < capacity (cl_chans c) k"
    and "subscriptions (cl_manager c) sid = Some r" "requests (cl_manager c) r = Some (Subscription u k f)"
    and "sp_subscription (ntf_params n) = sid"
  obtains ch' where
    "process_subscription_response ops n c = (None, c\<lparr>cl_chans := ch'\<rparr>)"
    "queue ch' = (queue (cl_chans c))(k := queue (cl_chans c) k @ [sp_result (ntf_params n)])"
    "capacity ch' = capacity (cl_chans c)" "listening ch' = listening (cl_chans c)"
proof -
  obtain res ch' where s: "ch_try_send ops k (sp_result (ntf_params n)) (cl_chans c) = (res, ch')"
    by fastforce
  from try_send_ok [OF assms(1,2) this] s assms(3-5) show ?thesis
    by (intro that [of ch']) (auto simp: process_subscription_response_def SubscriptionSender_send_def mgr_defs)
qed

lemma push_all_queue:
  assumes "listening (cl_chans c) k"
    and "length (queue (cl_chans c) k) + length xs \<le> capacity (cl_chans c) k"
    and "subscriptions (cl_manager c) sid = Some r" "requests (cl_manager c) r = Some (Subscription u k f)"
  shows "fst (push_all ops sid xs c) = replicate (length xs) None \<and>
    queue (cl_chans (snd (push_all ops sid xs c))) =
      (queue (cl_chans c))(k := queue (cl_chans c) k @ xs) \<and>
    cl_manager (snd (push_all ops sid xs c)) = cl_manager c"
  using assms
proof (induction xs arbitrary: c)
  case (Cons x xs)
  let ?n = "Notification_new ''m'' \<lparr>sp_subscription = sid, sp_result = x\<rparr>"
  obtain ch' where c1: "process_subscription_response ops ?n c = (None, c\<lparr>cl_chans := ch'\<rparr>)"
    "queue ch' = (queue (cl_chans c))(k := queue (cl_chans c) k @ [x])"
    "capacity ch' = capacity (cl_chans c)" "listening ch' = listening (cl_chans c)"
    using push_one [of c k sid r u f ?n] Cons.prems by (auto simp: Notification_new_def)
  from Cons.IH [of "c\<lparr>cl_chans := ch'\<rparr>"] Cons.prems c1 show ?case by (simp add: split_beta fun_eq_iff)
qed simp

lemma push_full:
  assumes "listening (cl_chans c) k" "capacity (cl_chans c) k \<le> length (queue (cl_chans c) k)"
    and "subscriptions (cl_manager c) sid = Some r" "requests (cl_manager c) r = Some (Subscription u k f)"
    and "sp_subscription (ntf_params n) = sid"
  shows "process_subscription_response ops n c =
    (Some sid, c\<lparr>cl_lagged := (cl_lagged c)(k := True)\<rparr>)"
  using try_send_full [OF assms(1,2)] assms(3-5)
  by (simp add: process_subscription_response_def SubscriptionSender_send_def mgr_defs)

lemma notify_one:
  assumes "listening (cl_chans c) k" "length (queue (cl_chans c) k) < capacity (cl_chans c) k"
    and "notification_handlers (cl_manager c) (ntf_method n) = Some k"
  obtains ch' where "process_notification ops n c = c\<lparr>cl_chans := ch'\<rparr>"
    "queue ch' = (queue (cl_chans c))(k := queue (cl_chans c) k @ [notification_text n])"
    "capacity ch' = capacity (cl_chans c)" "listening ch' = listening (cl_chans c)"
proof -
  obtain res ch' where s: "ch_try_send ops k (notification_text n) (cl_chans c) = (res, ch')"
    by fastforce
  from try_send_ok [OF assms(1,2) this] s assms(3) show ?thesis
    by (intro that [of ch'])
       (auto simp: process_notification_def SubscriptionSender_send_def notification_text_def mgr_defs)
qed

lemma notify_all_queue:
  assumes "listening (cl_chans c) k"
    and "length (queue (cl_chans c) k) + length ns \<le> capacity (cl_chans c) k"
    and "notification_handlers (cl_manager c) meth = Some k" "\<forall>n \<in> set ns. ntf_method n = meth"
  shows "queue (cl_chans (fold (process_notification ops) ns c)) =
      (queue (cl_chans c))(k := queue (cl_chans c) k @ map notification_text ns) \<and>
    cl_manager (fold (process_notification ops) ns c) = cl_manager c"
  using assms
proof (induction ns arbitrary: c)
  case (Cons n ns)
  obtain ch' where c1: "process_notification ops n c = c\<lparr>cl_chans := ch'\<rparr>"
    "queue ch' = (queue (cl_chans c))(k := queue (cl_chans c) k @ [notification_text n])"
    "capacity ch' = capacity (cl_chans c)" "listening ch' = listening (cl_chans c)"
    using notify_one [of c k n] Cons.prems by auto
  from Cons.IH [of "c\<lparr>cl_chans := ch'\<rparr>"] Cons.prems c1 show ?case by (simp add: fun_eq_iff)
qed simp

end

text \<open>A store of bounded queues that satisfies the contract.\<close>

record chan_store =
  cs_queue :: "sink \<Rightarrow> string list"
  cs_capacity :: "sink \<Rightarrow> nat"
  cs_listening :: "sink \<Rightarrow> bool"
  cs_next :: nat

definition fifo_ops :: "chan_store chan_ops" where
  "fifo_ops = \<lparr>
     ch_new = (\<lambda>n s. (cs_next s, s\<lparr>cs_queue := (cs_queue s)(cs_next s := []),
        cs_capacity := (cs_capacity s)(cs_next s := n),
        cs_listening := (cs_listening s)(cs_next s := True), cs_next := Suc (cs_next s)\<rparr>)),
     ch_try_send = (\<lambda>k m s.
        if \<not> cs_listening s k then (SendClosed, s)
        else if cs_capacity s k \<le> length (cs_queue s k) then (SendFull, s)
        else (SendOk, s\<lparr>cs_queue := (cs_queue s)(k := cs_queue s k @ [m])\<rparr>))\<rparr>"

interpretation fifo: bounded_channels fifo_ops cs_queue cs_capacity cs_listening
  by unfold_locales (auto simp: fifo_ops_def)

definition client_new :: "'c \<Rightarrow> 'c client" where
  "client_new ch = \<lparr>cl_manager = RequestManager_new, cl_chans = ch, cl_lagged = (\<lambda>_. False), cl_outbox = []\<rparr>"

definition store_new :: chan_store where
  "store_new = \<lparr>cs_queue = (\<lambda>_. []), cs_capacity = (\<lambda>_. 0), cs_listening = (\<lambda>_. False), cs_next = 0\<rparr>"

lemma batch_placed:
  assumes "batches (cl_manager c) (a, b) = Some bs"
    and ids: "\<And>rp. rp \<in> set rps \<Longrightarrow>
          \<exists>i. try_parse_inner_as_number (rp_id rp) = Inr i \<and> a \<le> i \<and> i < b"
    and dist: "distinct (map (batch_pos a) rps)"
  shows "\<exists>out c'. process_batch_response rps (a, b) c = (Inr (), c') \<and>
    cl_outbox c' = cl_outbox c @ [ToBatch (bs_send_back bs) (Inr out)] \<and>
    batches (cl_manager c') (a, b) = None \<and> length out = unat b - unat a \<and>
    (\<forall>rp i. rp \<in> set rps \<longrightarrow> try_parse_inner_as_number (rp_id rp) = Inr i \<longrightarrow>
       out ! (unat i - unat a) = rp) \<and>
    (\<forall>q < unat b - unat a. Some q \<notin> batch_pos a ` set rps \<longrightarrow> out ! q = batch_placeholder)"
proof -
  have pos: "batch_pos a rp = Some (unat i - unat a) \<and> unat i - unat a < unat b - unat a"
    if "rp \<in> set rps" "try_parse_inner_as_number (rp_id rp) = Inr i" for rp i
    using ids [OF that(1)] that(2)
    by (auto simp: batch_pos_def checked_sub_u64_def unat_sub word_le_nat_alt word_less_nat_alt)
  have "\<exists>p < length (replicate (unat b - unat a) batch_placeholder). batch_pos a rp = Some p"
    if "rp \<in> set rps" for rp
    using ids [OF that] pos [OF that] by auto
  from place_responses_total [OF this] obtain out
    where out: "place_responses a rps (replicate (unat b - unat a) batch_placeholder) = Inr out" by blast
  have nth: "out ! (unat i - unat a) = rp"
    if "rp \<in> set rps" "try_parse_inner_as_number (rp_id rp) = Inr i" for rp i
    using place_responses_nth [OF out dist that(1)] pos [OF that] by blast
  have hole: "out ! q = batch_placeholder" if "q < unat b - unat a" "Some q \<notin> batch_pos a ` set rps" for q
    using batch_placeholder_pos [OF out that(1)] that(2) by (metis image_eqI)
  from out assms(1) nth hole place_responses_length [OF out] show ?thesis
    by (auto simp: process_batch_response_def range_len_def on_manager_def complete_pending_batch_def)
qed

section \<open>Properties\<close>

text \<open>The answer to a pending batch is delivered in the order of the requests, whatever the order
  in which the server sent the responses: each response is at the offset of its id in the range, the
  positions without a response hold the placeholder error, and the batch is no longer pending.\<close>

lemma batch_in_request_order:
  assumes "batches (cl_manager c) (a, b) = Some bs"
    and ids: "\<And>rp. rp \<in> set rps \<Longrightarrow>
          \<exists>i. try_parse_inner_as_number (rp_id rp) = Inr i \<and> a \<le> i \<and> i < b"
    and dist: "distinct (map (batch_pos a) rps)"
  shows "\<exists>out c'. process_batch_response rps (a, b) c = (Inr (), c') \<and>
    cl_outbox c' = cl_outbox c @ [ToBatch (bs_send_back bs) (Inr out)] \<and>
    batches (cl_manager c') (a, b) = None \<and> length out = unat b - unat a \<and>
    (\<forall>rp i. rp \<in> set rps \<longrightarrow> try_parse_inner_as_number (rp_id rp) = Inr i \<longrightarrow>
       out ! (unat i - unat a) = rp) \<and>
    (\<forall>q < unat b - unat a. Some q \<notin> batch_pos a ` set rps \<longrightarrow> out ! q = batch_placeholder)"
  by (rule batch_placed [OF assms])

definition example_response :: "u64 \<Rightarrow> string \<Rightarrow> RawResponse" where
  "example_response i s = Response_new (Success s) (Number i)"

text \<open>The notifications of an active subscription reach its channel in the order in which they
  arrive, as long as the buffer has room for them, and no other channel changes; the first one that
  finds the buffer full is dropped, marks the subscription as lagged and asks to close it.\<close>

lemma subscription_in_order:
  assumes "cs_listening (cl_chans c) k"
    and "length (cs_queue (cl_chans c) k) + length xs = cs_capacity (cl_chans c) k"
    and "subscriptions (cl_manager c) sid = Some r" "requests (cl_manager c) r = Some (Subscription u k f)"
  shows "fst (push_all fifo_ops sid xs c) = replicate (length xs) None \<and>
    cs_queue (cl_chans (snd (push_all fifo_ops sid xs c))) =
      (cs_queue (cl_chans c))(k := cs_queue (cl_chans c) k @ xs) \<and>
    (length (cs_queue (cl_chans c) k) = cs_capacity (cl_chans c) k \<longrightarrow>
     process_subscription_response fifo_ops (Notification_new m \<lparr>sp_subscription = sid, sp_result = x\<rparr>) c =
       (Some sid, c\<lparr>cl_lagged := (cl_lagged c)(k := True)\<rparr>))"
proof -
  from fifo.push_all_queue [OF assms(1) _ assms(3,4), of xs] assms(2)
    fifo.push_full [OF assms(1) _ assms(3,4)]
  show ?thesis by (simp add: Notification_new_def)
qed

text \<open>A response to a pending call is handed to the caller that waits for it, exactly once, and
  frees the request id; any later response with the same id is an error and changes nothing.\<close>

lemma call_answered_once:
  assumes "requests (cl_manager c) i = Some (PendingMethodCall (Some s))" and "rp_id rp = i"
  shows "\<exists>c'. process_single_response emit valid ops alive de rp n c = (Done (Inr None), c') \<and>
    cl_outbox c' = cl_outbox c @ [ToCall s (Inr rp)] \<and>
    requests (cl_manager c') = (requests (cl_manager c))(i := None) \<and>
    (rp_id rp' = i \<longrightarrow> process_single_response emit valid ops alive de rp' n' c' =
       (Done (Inl (NotPendingRequest (Id_to_string i))), c'))"
  using assms
  by (simp add: process_single_response_def on_manager_def mgr_defs deliver_def)

end
