(* ===== verification/Async_Client.thy ===== *)
theory Async_Client
  imports Client_Helpers
begin

text \<open>
  The asynchronous client of \<open>core/src/client\<close>: request ids and batch ranges (\<open>client/mod.rs\<close>),
  the messages between the front end and the background task, the handlers of the background task
  (\<open>async_client/mod.rs\<close>), the front-end calls (\<open>async_client/rpc_service.rs\<close>), and the tasks as a
  step relation.

  The readers of \<open>serde_json\<close> at the message types, the JSON printer, the channels and the state of
  the oneshot receivers are the fields of \<open>'c client_env\<close>.
\<close>

section \<open>Request ids (client/mod.rs)\<close>

datatype IdKind = IdString | IdNumber

fun into_id :: "IdKind \<Rightarrow> u64 \<Rightarrow> Id" where
  "into_id IdNumber i = Number i"
| "into_id IdString i = Str (u64_to_string i)"

text \<open>\<open>CurrentId\<close> is an atomic \<open>usize\<close>; \<open>fetch_add\<close> wraps around.\<close>

record RequestIdManager =
  current_id :: u64
  id_kind :: IdKind

definition RequestIdManager_new :: "IdKind \<Rightarrow> RequestIdManager" where
  "RequestIdManager_new k = \<lparr>current_id = 0, id_kind = k\<rparr>"

definition CurrentId_next :: "u64 \<Rightarrow> u64 \<times> u64" where
  "CurrentId_next n = (n, n + 1)"

definition next_request_id :: "RequestIdManager \<Rightarrow> Id \<times> RequestIdManager" where
  "next_request_id im = (case CurrentId_next (current_id im) of
     (i, n) \<Rightarrow> (into_id (id_kind im) i, im\<lparr>current_id := n\<rparr>))"

definition generate_batch_id_range :: "Id \<Rightarrow> u64 \<Rightarrow> (range, Error) result" where
  "generate_batch_id_range i len = (case try_parse_inner_as_number i of
       Inl e \<Rightarrow> Err (EInvalidRequestId e)
     | Inr id_start \<Rightarrow> (case checked_add_u64 id_start len of
         None \<Rightarrow> Err (ECustom ''BatchID range wrapped; restart the client or try again later'')
       | Some id_end \<Rightarrow> Ok (id_start, id_end)))"

record 'r BatchResponse =
  br_successful_calls :: nat
  br_failed_calls :: nat
  br_responses :: "('r, ErrorObject) result list"

definition BatchResponse_into_ok :: "'r BatchResponse \<Rightarrow> ('r list, ErrorObject list) result" where
  "BatchResponse_into_ok b =
     (if br_failed_calls b > 0
      then Err (List.map_filter (\<lambda>r. case r of Inl e \<Rightarrow> Some e | Inr _ \<Rightarrow> None) (br_responses b))
      else Ok (List.map_filter (\<lambda>r. case r of Inl _ \<Rightarrow> None | Inr v \<Rightarrow> Some v) (br_responses b)))"

section \<open>Messages to the background task\<close>

record BatchMessage =
  bm_raw :: string
  bm_ids :: range
  bm_send_back :: oneshot

record SubscriptionMessage =
  sm_raw :: string
  sm_subscribe_id :: Id
  sm_unsubscribe_id :: Id
  sm_unsubscribe_method :: string
  sm_send_back :: oneshot

record RegisterNotificationMessage =
  rn_method :: string
  rn_send_back :: oneshot

datatype FrontToBack =
    FBatch BatchMessage
  | FNotification string
  | FRequest RequestMessage
  | FSubscribe SubscriptionMessage
  | FRegisterNotification RegisterNotificationMessage
  | FUnregisterNotification string
  | FSubscriptionClosed SubscriptionId

datatype ReceivedMessage = Text string | Bytes string | Pong

record 'c client_env =
  ce_emit :: emitter
  ce_valid_json :: "string \<Rightarrow> bool"
  ce_ops :: "'c chan_ops"
  ce_alive :: "oneshot \<Rightarrow> bool"
  ce_de_sub_id :: "string \<Rightarrow> (SubscriptionId, string) result"
  ce_de_response :: "string \<Rightarrow> RawResponse option"
  ce_de_sub_response :: "string \<Rightarrow> string SubscriptionPayload Notification option"
  ce_de_sub_error :: "string \<Rightarrow> string SubscriptionPayloadError Notification option"
  ce_de_notif :: "string \<Rightarrow> string option Notification option"
  ce_de_array :: "string \<Rightarrow> string list option"
  ce_unparsed :: "string \<Rightarrow> string"
  ce_max_buffer :: nat

section \<open>Messages from the server\<close>

text \<open>\<open>ce_unparsed\<close> is the text of the value, or of the parse error, that \<open>unparse_error\<close> reports.\<close>

definition unparse_error :: "'c client_env \<Rightarrow> string \<Rightarrow> Error" where
  "unparse_error env raw = ECustom (''Unparseable message: '' @ ce_unparsed env raw)"

definition handle_object ::
  "'c client_env \<Rightarrow> string \<Rightarrow> 'c client \<Rightarrow> (FrontToBack list, Error) result outcome \<times> 'c client" where
  "handle_object env raw c = (case ce_de_response env raw of
       Some single \<Rightarrow>
         (case process_single_response (ce_emit env) (ce_valid_json env) (ce_ops env) (ce_alive env)
                 (ce_de_sub_id env) single (ce_max_buffer env) c of
           (Panicked, c1) \<Rightarrow> (Panicked, c1)
         | (Done (Inl e), c1) \<Rightarrow> (Done (Err (EInvalidRequestId e)), c1)
         | (Done (Inr (Some unsub)), c1) \<Rightarrow> (Done (Ok [FRequest unsub]), c1)
         | (Done (Inr None), c1) \<Rightarrow> (Done (Ok []), c1))
     | None \<Rightarrow> (case ce_de_sub_response env raw of
         Some response \<Rightarrow> (case process_subscription_response (ce_ops env) response c of
             (Some sub_id, c1) \<Rightarrow> (Done (Ok [FSubscriptionClosed sub_id]), c1)
           | (None, c1) \<Rightarrow> (Done (Ok []), c1))
       | None \<Rightarrow> (case ce_de_sub_error env raw of
           Some response \<Rightarrow> (case process_subscription_close_response response c of
               (Done _, c1) \<Rightarrow> (Done (Ok []), c1)
             | (Panicked, c1) \<Rightarrow> (Panicked, c1))
         | None \<Rightarrow> (case ce_de_notif env raw of
             Some notif \<Rightarrow> (Done (Ok []), process_notification (ce_ops env) notif c)
           | None \<Rightarrow> (Done (Err (unparse_error env raw)), c)))))"

text \<open>The range of ids seen so far in a batch.\<close>

definition extend_range :: "u64 \<Rightarrow> range option \<Rightarrow> range" where
  "extend_range i rng = (let r = (case rng of None \<Rightarrow> (i, i) | Some r \<Rightarrow> r);
       r1 = (if i < fst r then (i, snd r) else r)
     in if i > snd r1 then (fst r1, i) else r1)"

record 'c batch_loop =
  bl_batch :: "RawResponse list"
  bl_range :: "range option"
  bl_got_notif :: bool
  bl_messages :: "FrontToBack list"
  bl_client :: "'c client"

text \<open>One element of an array; \<open>raw\<close> is the whole array.\<close>

definition handle_element ::
  "'c client_env \<Rightarrow> string \<Rightarrow> string \<Rightarrow> 'c batch_loop \<Rightarrow> (unit, Error) result outcome \<times> 'c batch_loop" where
  "handle_element env raw r st = (case ce_de_response env r of
       Some response \<Rightarrow> (case try_parse_inner_as_number (rp_id response) of
           Inl e \<Rightarrow> (Done (Err (EInvalidRequestId e)), st)
         | Inr i \<Rightarrow> (Done (Ok ()), st\<lparr>bl_batch := bl_batch st @ [response],
                                     bl_range := Some (extend_range i (bl_range st))\<rparr>))
     | None \<Rightarrow> (case ce_de_sub_response env r of
         Some response \<Rightarrow> (case process_subscription_response (ce_ops env) response (bl_client st) of
             (Some sub_id, c1) \<Rightarrow> (Done (Ok ()), st\<lparr>bl_got_notif := True,
                bl_messages := bl_messages st @ [FSubscriptionClosed sub_id], bl_client := c1\<rparr>)
           | (None, c1) \<Rightarrow> (Done (Ok ()), st\<lparr>bl_got_notif := True, bl_client := c1\<rparr>))
       | None \<Rightarrow> (case ce_de_sub_error env raw of
           Some response \<Rightarrow> (case process_subscription_close_response response (bl_client st) of
               (Done _, c1) \<Rightarrow> (Done (Ok ()), st\<lparr>bl_got_notif := True, bl_client := c1\<rparr>)
             | (Panicked, c1) \<Rightarrow> (Panicked, st\<lparr>bl_client := c1\<rparr>))
         | None \<Rightarrow> (case ce_de_notif env r of
             Some notif \<Rightarrow> (Done (Ok ()), st\<lparr>bl_got_notif := True,
                bl_client := process_notification (ce_ops env) notif (bl_client st)\<rparr>)
           | None \<Rightarrow> (Done (Err (unparse_error env raw)), st)))))"

fun handle_elements ::
  "'c client_env \<Rightarrow> string \<Rightarrow> string list \<Rightarrow> 'c batch_loop \<Rightarrow> (unit, Error) result outcome \<times> 'c batch_loop"
where
  "handle_elements env raw [] st = (Done (Ok ()), st)"
| "handle_elements env raw (r # rs) st = (case handle_element env raw r st of
     (Done (Inr _), st1) \<Rightarrow> handle_elements env raw rs st1
   | (Done (Inl e), st1) \<Rightarrow> (Done (Err e), st1)
   | (Panicked, st1) \<Rightarrow> (Panicked, st1))"

definition handle_array ::
  "'c client_env \<Rightarrow> string \<Rightarrow> 'c client \<Rightarrow> (FrontToBack list, Error) result outcome \<times> 'c client" where
  "handle_array env raw c = (case ce_de_array env raw of
       None \<Rightarrow> (Done (Err (unparse_error env raw)), c)
     | Some raw_responses \<Rightarrow>
         (case handle_elements env raw raw_responses
                 \<lparr>bl_batch = [], bl_range = None, bl_got_notif = False, bl_messages = [], bl_client = c\<rparr> of
           (Panicked, st) \<Rightarrow> (Panicked, bl_client st)
         | (Done (Inl e), st) \<Rightarrow> (Done (Err e), bl_client st)
         | (Done (Inr _), st) \<Rightarrow> (case bl_range st of
             Some r \<Rightarrow>
               (case process_batch_response (bl_batch st) (fst r, snd r + 1) (bl_client st) of
                 (Inl e, c1) \<Rightarrow> (Done (Err (EInvalidRequestId e)), c1)
               | (Inr _, c1) \<Rightarrow> (Done (Ok (bl_messages st)), c1))
           | None \<Rightarrow>
               if \<not> bl_got_notif st then (Done (Err (EEmptyBatchRequest EmptyBatchRequest)), bl_client st)
               else (Done (Ok (bl_messages st)), bl_client st))))"

definition handle_recv_message ::
  "'c client_env \<Rightarrow> string \<Rightarrow> 'c client \<Rightarrow> (FrontToBack list, Error) result outcome \<times> 'c client" where
  "handle_recv_message env raw c = (case find (\<lambda>b. \<not> is_ascii_whitespace b) raw of
       None \<Rightarrow> (Done (Err (unparse_error env raw)), c)
     | Some b \<Rightarrow>
         if b = CHR ''{'' then handle_object env raw c
         else if b = CHR ''['' then handle_array env raw c
         else (Done (Err (unparse_error env raw)), c))"

definition handle_backend_messages ::
  "'c client_env \<Rightarrow> (ReceivedMessage, string) result option \<Rightarrow> 'c client \<Rightarrow>
     (FrontToBack list, Error) result outcome \<times> 'c client"
where
  "handle_backend_messages env message c = (case message of
       Some (Inr Pong) \<Rightarrow> (Done (Ok []), c)
     | Some (Inr (Bytes raw)) \<Rightarrow> handle_recv_message env raw c
     | Some (Inr (Text raw)) \<Rightarrow> handle_recv_message env raw c
     | Some (Inl e) \<Rightarrow> (Done (Err (ETransport e)), c)
     | None \<Rightarrow> (Done (Err (ECustom ''TransportReceiver dropped'')), c))"

section \<open>Messages from the front end\<close>

text \<open>
  \<open>send\<close> is the result of \<open>TransportSenderT::send\<close> for this message. The second component is what was
  handed to the transport.
\<close>

definition send_raw ::
  "(string \<Rightarrow> (unit, string) result) \<Rightarrow> string \<Rightarrow> 'c client \<Rightarrow> (unit, string) result outcome \<times> string option \<times> 'c client"
where
  "send_raw send raw c = (Done (send raw), Some raw, c)"

definition handle_frontend_messages ::
  "'c client_env \<Rightarrow> (string \<Rightarrow> (unit, string) result) \<Rightarrow> FrontToBack \<Rightarrow> 'c client \<Rightarrow>
     (unit, string) result outcome \<times> string option \<times> 'c client"
where
  "handle_frontend_messages env send message c = (case message of
       FBatch batch \<Rightarrow> (case on_manager (insert_pending_batch (bm_ids batch) (bm_send_back batch)) c of
           (Inl send_back, c1) \<Rightarrow>
             (Done (Ok ()), None, deliver (ToBatch send_back (Err (Occupied (range_debug (bm_ids batch))))) c1)
         | (Inr _, c1) \<Rightarrow> send_raw send (bm_raw batch) c1)
     | FNotification notif \<Rightarrow> send_raw send notif c
     | FRequest request \<Rightarrow> (case on_manager (insert_pending_call (rm_id request) (rm_send_back request)) c of
           (Inl (Some s), c1) \<Rightarrow>
             (Done (Ok ()), None, deliver (ToCall s (Err (Occupied (Id_to_string (rm_id request))))) c1)
         | (Inl None, c1) \<Rightarrow> (Done (Ok ()), None, c1)
         | (Inr _, c1) \<Rightarrow> send_raw send (rm_raw request) c1)
     | FSubscribe sub \<Rightarrow>
         (case on_manager (insert_pending_subscription (sm_subscribe_id sub) (sm_unsubscribe_id sub)
                 (sm_send_back sub) (sm_unsubscribe_method sub)) c of
           (Inl send_back, c1) \<Rightarrow>
             (Done (Ok ()), None, deliver (ToSubscription send_back (Err (EInvalidRequestId (Occupied
                (''sub_id='' @ Id_to_string (sm_subscribe_id sub) @ '':req_id='' @
                 Id_to_string (sm_unsubscribe_id sub)))))) c1)
         | (Inr _, c1) \<Rightarrow> send_raw send (sm_raw sub) c1)
     | FSubscriptionClosed sub_id \<Rightarrow> (case get_request_id_by_subscription_id sub_id (cl_manager c) of
           None \<Rightarrow> (Done (Ok ()), None, c)
         | Some request_id \<Rightarrow>
             (case build_unsubscribe_message (ce_emit env) (ce_valid_json env) request_id sub_id c of
               (Panicked, c1) \<Rightarrow> (Panicked, None, c1)
             | (Done None, c1) \<Rightarrow> (Done (Ok ()), None, c1)
             | (Done (Some unsub), c1) \<Rightarrow> (Done (stop_subscription send unsub), Some (rm_raw unsub), c1)))
     | FRegisterNotification reg \<Rightarrow>
         (let (k, c1) = subscription_channel (ce_ops env) (ce_max_buffer env) c in
          case on_manager (insert_notification_handler (rn_method reg) k) c1 of
            (Inr _, c2) \<Rightarrow> (Done (Ok ()), None, deliver (ToNotification (rn_send_back reg) (Ok (k, rn_method reg))) c2)
          | (Inl _, c2) \<Rightarrow> (Done (Ok ()), None, deliver (ToNotification (rn_send_back reg)
              (Err (ERegisterMethod (AlreadyRegistered (rn_method reg))))) c2))
     | FUnregisterNotification meth \<Rightarrow>
         (Done (Ok ()), None, snd (on_manager (remove_notification_handler meth) c)))"

section \<open>The background tasks\<close>

text \<open>
  \<open>InactivityCheck\<close> of \<open>utils.rs\<close>; instants and durations are numbers of time units and \<open>now\<close> is the
  clock.
\<close>

datatype InactivityCheck =
    Disabled
  | Enabled (inactive_dur: nat) (last_active: nat) (check_count: nat) (max_count: nat)

definition InactivityCheck_new :: "nat \<Rightarrow> nat \<Rightarrow> nat \<Rightarrow> InactivityCheck" where
  "InactivityCheck_new now dur n = Enabled dur now 0 n"

fun is_inactive :: "nat \<Rightarrow> InactivityCheck \<Rightarrow> bool \<times> InactivityCheck" where
  "is_inactive now Disabled = (False, Disabled)"
| "is_inactive now (Enabled dur since n mx) =
     (let n' = (if now - since \<ge> dur then n + 1 else n) in (n' \<ge> mx, Enabled dur since n' mx))"

fun mark_as_active :: "nat \<Rightarrow> InactivityCheck \<Rightarrow> InactivityCheck" where
  "mark_as_active now Disabled = Disabled"
| "mark_as_active now (Enabled dur since n mx) = Enabled dur now n mx"

text \<open>
  The state of the two tasks. \<open>bg_queue\<close> is the channel from the front end, in which the read task
  puts its own messages too; \<open>bg_to_send\<close> are the messages of the read task that wait for room in
  it; \<open>bg_closed\<close> holds the results that the tasks sent over \<open>close_tx\<close> when they ended.
\<close>

record 'c background =
  bg_client :: "'c client"
  bg_queue :: "FrontToBack list"
  bg_to_send :: "FrontToBack list"
  bg_to_server :: "string list"
  bg_check :: InactivityCheck
  bg_send_done :: bool
  bg_read_done :: bool
  bg_closed :: "(unit, Error) result list"
  bg_panicked :: bool

text \<open>Ranges of batches come from \<open>generate_batch_id_range\<close> with a non-empty batch.\<close>

fun front_ok :: "FrontToBack \<Rightarrow> bool" where
  "front_ok (FBatch b) = (fst (bm_ids b) < snd (bm_ids b))"
| "front_ok _ = True"

definition send_task_end :: "(unit, Error) result \<Rightarrow> 'c background \<Rightarrow> 'c background" where
  "send_task_end res b = b\<lparr>bg_send_done := True, bg_closed := bg_closed b @ [res]\<rparr>"

definition read_task_end :: "(unit, Error) result \<Rightarrow> 'c background \<Rightarrow> 'c background" where
  "read_task_end res b = b\<lparr>bg_read_done := True, bg_closed := bg_closed b @ [res]\<rparr>"

definition send_task_message ::
  "'c client_env \<Rightarrow> (string \<Rightarrow> (unit, string) result) \<Rightarrow> FrontToBack \<Rightarrow> 'c background \<Rightarrow> 'c background" where
  "send_task_message env send msg b =
     (case handle_frontend_messages env send msg (bg_client b) of (res, out, c) \<Rightarrow>
       let b1 = b\<lparr>bg_client := c, bg_to_server := bg_to_server b @ (case out of None \<Rightarrow> [] | Some r \<Rightarrow> [r])\<rparr>
       in case res of
            Done (Inr _) \<Rightarrow> b1
          | Done (Inl e) \<Rightarrow> send_task_end (Err (ETransport e)) b1
          | Panicked \<Rightarrow> b1\<lparr>bg_panicked := True\<rparr>)"

definition read_task_message ::
  "'c client_env \<Rightarrow> nat \<Rightarrow> (ReceivedMessage, string) result \<Rightarrow> 'c background \<Rightarrow> 'c background" where
  "read_task_message env now msg b =
     (case handle_backend_messages env (Some msg) (bg_client b) of (res, c) \<Rightarrow>
       let b1 = b\<lparr>bg_client := c, bg_check := mark_as_active now (bg_check b)\<rparr>
       in case res of
            Done (Inr messages) \<Rightarrow> b1\<lparr>bg_to_send := bg_to_send b @ messages\<rparr>
          | Done (Inl e) \<Rightarrow> read_task_end (Err e) b1
          | Panicked \<Rightarrow> b1\<lparr>bg_panicked := True\<rparr>)"

definition read_task_tick :: "nat \<Rightarrow> 'c background \<Rightarrow> 'c background" where
  "read_task_tick now b = (case is_inactive now (bg_check b) of
       (True, chk) \<Rightarrow> read_task_end (Err (ETransport ''WebSocket ping/pong inactive'')) (b\<lparr>bg_check := chk\<rparr>)
     | (False, chk) \<Rightarrow> b\<lparr>bg_check := chk\<rparr>)"

text \<open>
  The tasks interleave. A task ends without an error (\<open>send_closed\<close>, \<open>read_end\<close>) when \<open>wait_for_shutdown\<close> has
  dropped the receiver of \<open>close_tx\<close>: the other task has ended or the client was dropped. A message of the
  read task is refused once the send task has closed its queue.
\<close>

inductive bg_step :: "'c client_env \<Rightarrow> 'c background \<Rightarrow> 'c background \<Rightarrow> bool" for env where
  enqueue: "front_ok msg \<Longrightarrow> bg_step env b (b\<lparr>bg_queue := bg_queue b @ [msg]\<rparr>)"
| pending_unsubscribe: "bg_to_send b = msgs @ msg # msgs' \<Longrightarrow> \<not> bg_read_done b \<Longrightarrow> \<not> bg_send_done b \<Longrightarrow>
    bg_step env b (b\<lparr>bg_to_send := msgs @ msgs', bg_queue := bg_queue b @ [msg]\<rparr>)"
| pending_refused: "bg_to_send b = msgs @ msg # msgs' \<Longrightarrow> \<not> bg_read_done b \<Longrightarrow> bg_send_done b \<Longrightarrow>
    bg_step env b (b\<lparr>bg_to_send := msgs @ msgs'\<rparr>)"
| send_message: "bg_queue b = msg # msgs \<Longrightarrow> \<not> bg_send_done b \<Longrightarrow> \<not> bg_panicked b \<Longrightarrow>
    bg_step env b (send_task_message env send msg (b\<lparr>bg_queue := msgs\<rparr>))"
| send_frontend_dropped: "bg_queue b = [] \<Longrightarrow> \<not> bg_send_done b \<Longrightarrow> bg_step env b (send_task_end (Ok ()) b)"
| send_ping_failed: "\<not> bg_send_done b \<Longrightarrow> bg_step env b (send_task_end (Err (ETransport e)) b)"
| send_closed: "\<not> bg_send_done b \<Longrightarrow> bg_step env b (send_task_end (Ok ()) b)"
| read_message: "\<not> bg_read_done b \<Longrightarrow> \<not> bg_panicked b \<Longrightarrow> bg_step env b (read_task_message env now msg b)"
| read_tick: "\<not> bg_read_done b \<Longrightarrow> bg_step env b (read_task_tick now b)"
| read_end: "\<not> bg_read_done b \<Longrightarrow> bg_step env b (read_task_end (Ok ()) b)"

definition bg_new :: "'c \<Rightarrow> InactivityCheck \<Rightarrow> 'c background" where
  "bg_new ch chk = \<lparr>bg_client = client_new ch, bg_queue = [], bg_to_send = [], bg_to_server = [],
     bg_check = chk, bg_send_done = False, bg_read_done = False, bg_closed = [], bg_panicked = False\<rparr>"

inductive bg_reachable :: "'c client_env \<Rightarrow> 'c background \<Rightarrow> bool" for env where
  start: "bg_reachable env (bg_new ch chk)"
| step: "bg_reachable env b \<Longrightarrow> bg_step env b b' \<Longrightarrow> bg_reachable env b'"

text \<open>\<open>wait_for_shutdown\<close>: the first result of the tasks, unless the client was dropped before.\<close>

definition wait_for_shutdown :: "(unit, Error) result option race \<Rightarrow> Error option \<Rightarrow> Error option" where
  "wait_for_shutdown first reason = (case first of
       Left (Some (Inl err)) \<Rightarrow> Some err
     | _ \<Rightarrow> reason)"

definition read_error :: "Error option \<Rightarrow> Error" where
  "read_error disconnect_reason = (case disconnect_reason of
       Some err \<Rightarrow> ERestartNeeded err
     | None \<Rightarrow> ECustom ''Error reason could not be found. This is a bug. Please open an issue.'')"

section \<open>The invariant of the background task\<close>

text \<open>
  The one fact about JSON that the client relies on when it builds an unsubscribe call: an array
  with a subscription id in it is valid.
\<close>

definition unsub_params_valid :: "'c client_env \<Rightarrow> bool" where
  "unsub_params_valid env \<longleftrightarrow> (\<forall>sid cs. ce_emit env (SubscriptionId_serialize sid) = (cs, True) \<longrightarrow>
     ce_valid_json env (''['' @ concat cs @ '']''))"

lemma unsub_params_build:
  assumes "unsub_params_valid env"
    and "ParamsBuilder_insert (ce_emit env) (SubscriptionId_serialize s) positional = (True, b)"
  shows "ParamsBuilder_build (ce_valid_json env) b \<noteq> Panicked"
proof -
  obtain cs where e: "ce_emit env (SubscriptionId_serialize s) = (cs, True)"
    and b: "b = \<lparr>pb_bytes = ''['' @ concat cs @ '','', pb_start = CHR ''['', pb_end = CHR '']''\<rparr>"
    using assms(2)
    by (auto simp: ParamsBuilder_insert_def write_value_def push_bytes_def maybe_initialize_def
        positional_def ParamsBuilder_new_def split: prod.splits bool.splits)
  from e assms(1) have "ce_valid_json env (''['' @ concat cs @ '']'')" by (simp add: unsub_params_valid_def)
  then show ?thesis by (simp add: b ParamsBuilder_build_def ParamsBuilder_text_def butlast_append)
qed

lemma build_unsubscribe_done:
  assumes "unsub_params_valid env"
  shows "build_unsubscribe_message (ce_emit env) (ce_valid_json env) i sid c \<noteq> (Panicked, c')"
  using unsub_params_build [OF assms]
  by (auto simp: build_unsubscribe_message_def split: prod.splits option.splits bool.splits outcome.splits)

lemma single_response_done:
  assumes "unsub_params_valid env"
  shows "fst (process_single_response (ce_emit env) (ce_valid_json env) ops alive de rp n c) \<noteq> Panicked"
proof -
  have "fst (activate_subscription (ce_emit env) (ce_valid_json env) ops alive i j s f sid n c') \<noteq> Panicked"
    for i j s f sid c'
    using build_unsubscribe_done [OF assms]
    by (auto simp: activate_subscription_def Let_def split: prod.splits sum.splits outcome.splits)
  then show ?thesis
    by (auto simp: process_single_response_def Let_def split_beta
        split: RequestStatus.splits option.splits sum.splits)
qed

text \<open>The handlers as equations, for the case analyses below.\<close>

lemma subscription_response_eqD:
  "process_subscription_response ops n c = (r, c') \<Longrightarrow> cl_manager c' = cl_manager c"
  using process_subscription_response_manager [of ops n c] by simp

lemma close_response_eqD:
  "process_subscription_close_response n c = (r, c') \<Longrightarrow> client_inv c \<Longrightarrow> client_inv c' \<and> r = Done ()"
  using process_close_inv [of c n] by simp

lemma batch_response_eqD:
  "process_batch_response rps rng c = (r, c') \<Longrightarrow> client_inv c \<Longrightarrow> client_inv c'"
  using process_batch_response_inv [of c rps rng] by simp

lemmas handler_eqDs = subscription_response_eqD close_response_eqD batch_response_eqD

lemma handle_object_inv:
  assumes "client_inv c" "unsub_params_valid env"
  shows "client_inv (snd (handle_object env raw c)) \<and> fst (handle_object env raw c) \<noteq> Panicked"
proof (cases "ce_de_response env raw")
  case (Some rp)
  obtain res c1 where p: "process_single_response (ce_emit env) (ce_valid_json env) (ce_ops env)
    (ce_alive env) (ce_de_sub_id env) rp (ce_max_buffer env) c = (res, c1)" by fastforce
  with process_single_response_inv [OF assms(1), of "ce_emit env" "ce_valid_json env" "ce_ops env"
      "ce_alive env" "ce_de_sub_id env" rp "ce_max_buffer env"]
    single_response_done [OF assms(2), of "ce_ops env" "ce_alive env" "ce_de_sub_id env" rp "ce_max_buffer env" c]
  have "client_inv c1" "res \<noteq> Panicked" by simp_all
  with Some p show ?thesis
    by (auto simp: handle_object_def split: outcome.splits sum.splits option.splits)
next
  case None
  with assms(1) process_notification_inv [OF assms(1)] show ?thesis
    by (auto simp: handle_object_def dest!: handler_eqDs split: prod.splits outcome.splits option.splits)
qed

lemma handle_element_inv:
  assumes "client_inv (bl_client st)"
  shows "client_inv (bl_client (snd (handle_element env raw r st))) \<and>
    fst (handle_element env raw r st) \<noteq> Panicked"
  using assms process_notification_inv [OF assms]
  by (auto simp: handle_element_def dest!: handler_eqDs
      split: prod.splits outcome.splits option.splits sum.splits)

lemma handle_elements_inv:
  assumes "client_inv (bl_client st)"
  shows "client_inv (bl_client (snd (handle_elements env raw rs st))) \<and>
    fst (handle_elements env raw rs st) \<noteq> Panicked"
  using assms
proof (induction rs arbitrary: st)
  case (Cons r rs)
  obtain res st1 where h: "handle_element env raw r st = (res, st1)" by fastforce
  with handle_element_inv [OF Cons.prems, of env raw r] have "client_inv (bl_client st1)" "res \<noteq> Panicked"
    by simp_all
  with Cons.IH h show ?case by (auto split: outcome.splits sum.splits)
qed simp

lemma handle_array_inv:
  assumes "client_inv c"
  shows "client_inv (snd (handle_array env raw c)) \<and> fst (handle_array env raw c) \<noteq> Panicked"
proof (cases "ce_de_array env raw")
  case (Some rs)
  let ?st0 = "\<lparr>bl_batch = [], bl_range = None, bl_got_notif = False, bl_messages = [], bl_client = c\<rparr>"
  obtain res st where h: "handle_elements env raw rs ?st0 = (res, st)" by fastforce
  with handle_elements_inv [of ?st0 env raw rs] assms have i: "client_inv (bl_client st)" "res \<noteq> Panicked"
    by simp_all
  with Some h show ?thesis
    by (auto simp: handle_array_def dest!: handler_eqDs
        split: prod.splits outcome.splits sum.splits option.splits)
qed (use assms in \<open>simp add: handle_array_def\<close>)

lemma handle_backend_inv:
  assumes "client_inv c" "unsub_params_valid env"
  shows "client_inv (snd (handle_backend_messages env msg c)) \<and>
    fst (handle_backend_messages env msg c) \<noteq> Panicked"
  using assms handle_object_inv [OF assms] handle_array_inv [OF assms(1)]
  by (auto simp: handle_backend_messages_def handle_recv_message_def
      split: option.splits sum.splits ReceivedMessage.splits)

lemma handle_frontend_inv:
  assumes "client_inv c" "unsub_params_valid env" "front_ok msg"
  shows "client_inv (snd (snd (handle_frontend_messages env send msg c))) \<and>
    fst (handle_frontend_messages env send msg c) \<noteq> Panicked"
proof (cases msg)
  case (FBatch b)
  with assms manager_inv_insert_pending_batch [OF assms(1), of "fst (bm_ids b)" "snd (bm_ids b)" "bm_send_back b"]
  show ?thesis
    by (auto simp: handle_frontend_messages_def send_raw_def on_manager_def split: prod.splits sum.splits)
next
  case (FRequest r)
  with manager_inv_insert_pending_call [OF assms(1), of "rm_id r" "rm_send_back r"] show ?thesis
    by (auto simp: handle_frontend_messages_def send_raw_def on_manager_def
        split: prod.splits sum.splits option.splits)
next
  case (FSubscribe s)
  with manager_inv_insert_pending_subscription [OF assms(1), of "sm_subscribe_id s" "sm_unsubscribe_id s"
      "sm_send_back s" "sm_unsubscribe_method s"] show ?thesis
    by (auto simp: handle_frontend_messages_def send_raw_def on_manager_def split: prod.splits sum.splits)
next
  case (FRegisterNotification r)
  have i1: "client_inv (snd (subscription_channel (ce_ops env) (ce_max_buffer env) c))" using assms by simp
  from FRegisterNotification manager_inv_handlers(1) [OF i1] show ?thesis
    by (auto simp: handle_frontend_messages_def on_manager_def split_beta split: sum.splits)
next
  case (FSubscriptionClosed sid)
  show ?thesis
  proof (cases "subscriptions (cl_manager c) sid")
    case None
    with assms FSubscriptionClosed show ?thesis by (simp add: handle_frontend_messages_def mgr_defs)
  next
    case (Some r)
    have "client_inv (snd (build_unsubscribe_message (ce_emit env) (ce_valid_json env) r sid c))"
      using manager_inv_drop_subscription(2) [OF assms(1) Some] by (simp add: build_unsubscribe_manager)
    with build_unsubscribe_done [OF assms(2)] FSubscriptionClosed Some show ?thesis
      by (auto simp: handle_frontend_messages_def get_request_id_by_subscription_id_def
          split: prod.splits outcome.splits option.splits)
  qed
qed (use assms manager_inv_handlers(2) [OF assms(1)] in
  \<open>simp_all add: handle_frontend_messages_def send_raw_def\<close>)

definition bg_inv :: "'c background \<Rightarrow> bool" where
  "bg_inv b \<longleftrightarrow> client_inv (bg_client b) \<and> \<not> bg_panicked b \<and>
     list_all front_ok (bg_queue b) \<and> list_all front_ok (bg_to_send b)"

lemma backend_messages_front_ok:
  "fst (handle_backend_messages env msg c) = Done (Inr msgs) \<Longrightarrow> list_all front_ok msgs"
proof -
  have el: "list_all front_ok (bl_messages (snd (handle_elements env raw rs st)))"
    if "list_all front_ok (bl_messages st)" for raw rs st
    using that
  proof (induction rs arbitrary: st)
    case (Cons r rs)
    have "list_all front_ok (bl_messages (snd (handle_element env raw r st)))"
      using Cons.prems
      by (auto simp: handle_element_def split: prod.splits option.splits sum.splits outcome.splits)
    with Cons.IH show ?case by (auto split: prod.splits outcome.splits sum.splits)
  qed simp
  have arr: "list_all front_ok msgs" if "fst (handle_array env raw c) = Done (Inr msgs)" for raw
  proof -
    let ?st0 = "\<lparr>bl_batch = [], bl_range = None, bl_got_notif = False, bl_messages = [], bl_client = c\<rparr>"
    have "list_all front_ok (bl_messages (snd (handle_elements env raw rs ?st0)))" for rs
      by (rule el) simp
    with that show ?thesis
      by (auto simp: handle_array_def split: option.splits prod.splits outcome.splits sum.splits if_splits)
         (metis snd_conv)+
  qed
  assume "fst (handle_backend_messages env msg c) = Done (Inr msgs)"
  with arr show ?thesis
    by (auto simp: handle_backend_messages_def handle_recv_message_def handle_object_def
        split: option.splits sum.splits ReceivedMessage.splits prod.splits outcome.splits if_splits)
qed

lemma send_task_message_inv:
  assumes "bg_inv b" "unsub_params_valid env" "front_ok msg"
  shows "bg_inv (send_task_message env send msg b)"
proof -
  obtain res out c where h: "handle_frontend_messages env send msg (bg_client b) = (res, out, c)"
    by (metis prod_cases3)
  with handle_frontend_inv [of "bg_client b" env msg send] assms have "client_inv c" "res \<noteq> Panicked"
    by (simp_all add: bg_inv_def)
  with h assms show ?thesis
    by (auto simp: send_task_message_def send_task_end_def bg_inv_def Let_def split: outcome.splits sum.splits)
qed

lemma read_task_message_inv:
  assumes "bg_inv b" "unsub_params_valid env"
  shows "bg_inv (read_task_message env now msg b)"
proof -
  obtain res c where h: "handle_backend_messages env (Some msg) (bg_client b) = (res, c)" by fastforce
  with handle_backend_inv [of "bg_client b" env "Some msg"] assms have "client_inv c" "res \<noteq> Panicked"
    by (simp_all add: bg_inv_def)
  moreover have "list_all front_ok msgs" if "res = Done (Inr msgs)" for msgs
    using backend_messages_front_ok [of env "Some msg" "bg_client b"] h that by simp
  ultimately show ?thesis using h assms
    by (auto simp: read_task_message_def read_task_end_def bg_inv_def Let_def split: outcome.splits sum.splits)
qed

lemma bg_step_inv: "bg_step env b b' \<Longrightarrow> bg_inv b \<Longrightarrow> unsub_params_valid env \<Longrightarrow> bg_inv b'"
proof (induction rule: bg_step.induct)
  case (send_message b msg msgs send)
  then have "bg_inv (b\<lparr>bg_queue := msgs\<rparr>)" "front_ok msg" by (simp_all add: bg_inv_def)
  with send_message.prems show ?case by (intro send_task_message_inv)
next
  case (read_message b now msg)
  then show ?case by (intro read_task_message_inv)
next
  case (read_tick b now)
  then show ?case by (simp add: read_task_tick_def read_task_end_def bg_inv_def split: prod.splits bool.splits)
qed (auto simp: bg_inv_def send_task_end_def read_task_end_def)

lemma bg_reachable_inv: "bg_reachable env b \<Longrightarrow> unsub_params_valid env \<Longrightarrow> bg_inv b"
proof (induction rule: bg_reachable.induct)
  case (start ch chk)
  show ?case by (simp add: bg_inv_def bg_new_def client_new_def manager_inv_new)
next
  case (step b b')
  then show ?case using bg_step_inv by blast
qed

section \<open>Batches from the wire\<close>

lemma handle_elements_responses:
  assumes "list_all2 (\<lambda>r rp. ce_de_response env r = Some rp) rs rps"
    and "list_all2 (\<lambda>rp i. try_parse_inner_as_number (rp_id rp) = Inr i) rps ids"
  shows "handle_elements env raw rs st =
    (Done (Inr ()), st\<lparr>bl_batch := bl_batch st @ rps,
       bl_range := fold (\<lambda>i r. Some (extend_range i r)) ids (bl_range st)\<rparr>)"
  using assms
proof (induction rs rps arbitrary: ids st rule: list_all2_induct)
  case (Cons r rs rp rps)
  then show ?case by (cases ids) (auto simp: handle_element_def)
qed simp

lemma extend_range_fold:
  assumes "lo \<le> hi"
  obtains lo' hi' where "fold (\<lambda>i r. Some (extend_range i r)) ids (Some (lo, hi)) = Some (lo', hi')"
    "lo' \<in> insert lo (set ids)" "hi' \<in> insert hi (set ids)" "lo' \<le> lo" "hi \<le> hi'"
    "\<forall>i \<in> set ids. lo' \<le> i \<and> i \<le> hi'"
  using assms
proof (induction ids arbitrary: lo hi thesis)
  case (Cons i ids)
  let ?lo = "min lo i" and ?hi = "max hi i"
  have e: "extend_range i (Some (lo, hi)) = (?lo, ?hi)"
    using Cons.prems(2) by (auto simp: extend_range_def Let_def min_def max_def)
  have le: "?lo \<le> ?hi" using Cons.prems(2) by (simp add: min_le_iff_disj)
  obtain lo' hi' where h: "fold (\<lambda>i r. Some (extend_range i r)) ids (Some (?lo, ?hi)) = Some (lo', hi')"
    "lo' \<in> insert ?lo (set ids)" "hi' \<in> insert ?hi (set ids)" "lo' \<le> ?lo" "?hi \<le> hi'"
    "\<forall>i \<in> set ids. lo' \<le> i \<and> i \<le> hi'"
    using Cons.IH [OF _ le] by blast
  show ?case
    by (rule Cons.prems(1) [of lo' hi']) (use h e in \<open>auto simp: min_def max_def split: if_splits\<close>)
qed simp

lemma extend_range_interval:
  assumes "set ids = {a..<b}" "a < b"
  shows "fold (\<lambda>i r. Some (extend_range i r)) ids None = Some (a, b - 1)"
proof -
  have ne: "a \<in> set ids" using assms by simp
  have b1: "b - 1 \<in> set ids"
    using assms by (simp add: word_le_nat_alt word_less_nat_alt unat_sub_if_size; unat_arith)
  obtain i js where ids: "ids = i # js" using ne by (cases ids) auto
  have e: "extend_range i None = (i, i)" by (simp add: extend_range_def Let_def)
  obtain lo hi where h: "fold (\<lambda>i r. Some (extend_range i r)) js (Some (i, i)) = Some (lo, hi)"
    "lo \<in> insert i (set js)" "hi \<in> insert i (set js)" "lo \<le> i" "i \<le> hi" "\<forall>j \<in> set js. lo \<le> j \<and> j \<le> hi"
    using extend_range_fold [of i i js] by blast
  have sub: "insert i (set js) = {a..<b}" using ids assms(1) by simp
  have "lo \<in> {a..<b}" "hi \<in> {a..<b}" using h(2,3) unfolding sub .
  moreover from h ids ne b1 have "lo \<le> a" "b - 1 \<le> hi" by auto
  ultimately have "lo = a" "hi = b - 1"
    using assms(2) by (auto simp: word_le_nat_alt word_less_nat_alt; unat_arith)+
  with h e ids show ?thesis by simp
qed

lemma batch_pos_number:
  "try_parse_inner_as_number (rp_id rp) = Inr i \<Longrightarrow> a \<le> i \<Longrightarrow> batch_pos a rp = Some (unat i - unat a)"
  by (auto simp: batch_pos_def checked_sub_u64_def unat_sub word_le_nat_alt)

lemma handle_array_batch:
  assumes arr: "ce_de_array env raw = Some rs"
    and rps: "list_all2 (\<lambda>r rp. ce_de_response env r = Some rp) rs rps"
    and ids: "list_all2 (\<lambda>rp i. try_parse_inner_as_number (rp_id rp) = Inr i) rps ids"
    and perm: "distinct ids" "set ids = {a..<b}" "a < b"
    and pend: "batches (cl_manager c) (a, b) = Some bs"
  obtains out c' where "handle_array env raw c = (Done (Inr []), c')"
    "cl_outbox c' = cl_outbox c @ [ToBatch (bs_send_back bs) (Inr out)]" "length out = unat b - unat a"
    "\<And>k. k < length ids \<Longrightarrow> out ! (unat (ids ! k) - unat a) = rps ! k"
proof -
  have len: "length rps = length ids" using ids by (rule list_all2_lengthD)
  have num: "try_parse_inner_as_number (rp_id (rps ! k)) = Inr (ids ! k)" if "k < length ids" for k
    using ids that len by (simp add: list_all2_conv_all_nth)
  have inr: "a \<le> ids ! k \<and> ids ! k < b" if "k < length ids" for k
    using nth_mem [OF that] perm(2) by auto
  have pos: "map (batch_pos a) rps = map (\<lambda>i. Some (unat i - unat a)) ids"
    by (rule nth_equalityI) (use len num inr batch_pos_number in auto)
  have "inj_on (\<lambda>i. Some (unat i - unat a)) (set ids)"
    by (rule inj_onI) (use perm(2) in \<open>auto simp: word_le_nat_alt intro!: unsigned_word_eqI [where 'a = nat]\<close>)
  with perm(1) have dist: "distinct (map (batch_pos a) rps)" by (simp add: pos distinct_map)
  have all: "\<exists>i. try_parse_inner_as_number (rp_id rp) = Inr i \<and> a \<le> i \<and> i < b" if "rp \<in> set rps" for rp
    using that num inr len by (metis in_set_conv_nth)
  obtain out c' where p: "process_batch_response rps (a, b) c = (Inr (), c')"
    "cl_outbox c' = cl_outbox c @ [ToBatch (bs_send_back bs) (Inr out)]" "length out = unat b - unat a"
    "\<forall>rp i. rp \<in> set rps \<longrightarrow> try_parse_inner_as_number (rp_id rp) = Inr i \<longrightarrow> out ! (unat i - unat a) = rp"
    using batch_placed [OF pend all dist] by blast
  have "handle_array env raw c = (Done (Inr []), c')"
    using arr p(1) extend_range_interval [OF perm(2,3)]
    by (simp add: handle_array_def handle_elements_responses [OF rps ids])
  with p num len that show ?thesis by simp
qed

section \<open>Properties\<close>


definition example_env :: "chan_store client_env" where
  "example_env = \<lparr>ce_emit = json_emit, ce_valid_json = array_text, ce_ops = fifo_ops,
     ce_alive = (\<lambda>s. s \<noteq> 13), ce_de_sub_id = (\<lambda>s. case parse_u64 s of Some n \<Rightarrow> Inr (Num n) | None \<Rightarrow> Inl ''invalid''),
     ce_de_response = (\<lambda>s. if s = ''[5]'' \<or> s = '' [5] '' then Some (example_response 5 ''a'')
       else if s = ''[6]'' then Some (example_response 6 ''b'')
       else if s = ''{0}'' then Some (example_response 0 ''42'') else None),
     ce_de_sub_response = (\<lambda>_. None),
     ce_de_sub_error = (\<lambda>s. if s = ''{close}'' then Some (Notification_new ''n''
       \<lparr>spe_subscription = Num 42, spe_error = ''null''\<rparr>) else None),
     ce_de_notif = (\<lambda>s. if s = ''{close}'' then Some (Notification_new ''n'' (Some ''null'')) else None),
     ce_de_array = (\<lambda>s. if s = ''[[6],[5]]'' then Some [''[6]'', ''[5]'']
       else if s = ''[{close}]'' then Some [''{close}''] else None),
     ce_unparsed = id, ce_max_buffer = 4\<rparr>"

lemma example_env_valid: "unsub_params_valid example_env"
  by (auto simp: unsub_params_valid_def example_env_def json_emit_def array_text_def)


text \<open>C3. When the server answers a batch with one response for each of its requests, in any order,
  the caller gets them in the order of the requests and nothing else happens; this is from the text
  of the message to the oneshot of the caller, through the range that the client reconstructs from
  the smallest and the largest id.\<close>

theorem batch_message_delivered_in_order:
  assumes "find (\<lambda>b. \<not> is_ascii_whitespace b) raw = Some (CHR ''['')"
    and "ce_de_array env raw = Some rs"
    and "list_all2 (\<lambda>r rp. ce_de_response env r = Some rp) rs rps"
    and "list_all2 (\<lambda>rp i. try_parse_inner_as_number (rp_id rp) = Inr i) rps ids"
    and "distinct ids" "set ids = {a..<b}" "a < b"
    and "batches (cl_manager c) (a, b) = Some bs"
  shows "\<exists>out c'. handle_backend_messages env (Some (Inr (Text raw))) c = (Done (Inr []), c') \<and>
    cl_outbox c' = cl_outbox c @ [ToBatch (bs_send_back bs) (Inr out)] \<and>
    length out = unat b - unat a \<and>
    (\<forall>k < length ids. out ! (unat (ids ! k) - unat a) = rps ! k)"
proof -
  obtain out c' where "handle_array env raw c = (Done (Inr []), c')"
    "cl_outbox c' = cl_outbox c @ [ToBatch (bs_send_back bs) (Inr out)]" "length out = unat b - unat a"
    "\<And>k. k < length ids \<Longrightarrow> out ! (unat (ids ! k) - unat a) = rps ! k"
    by (rule handle_array_batch [OF assms(2-8)], rule that)
  with assms(1) show ?thesis
    by (intro exI [of _ out] exI [of _ c']) (simp add: handle_backend_messages_def handle_recv_message_def)
qed

definition example_batch_client :: "chan_store client" where
  "example_batch_client =
     (client_new store_new)\<lparr>cl_manager := snd (insert_pending_batch (5, 7) 9 RequestManager_new)\<rparr>"

theorem batch_message_delivered_in_order_witness:
  "\<exists>out c'. handle_backend_messages example_env (Some (Inr (Text ''[[6],[5]]''))) example_batch_client =
       (Done (Inr []), c') \<and> cl_outbox c' = [ToBatch 9 (Inr out)] \<and>
     out ! 0 = example_response 5 ''a'' \<and> out ! 1 = example_response 6 ''b''"
proof -
  have p: "find (\<lambda>b. \<not> is_ascii_whitespace b) ''[[6],[5]]'' = Some (CHR ''['')"
    "ce_de_array example_env ''[[6],[5]]'' = Some [''[6]'', ''[5]'']"
    "list_all2 (\<lambda>r rp. ce_de_response example_env r = Some rp) [''[6]'', ''[5]'']
       [example_response 6 ''b'', example_response 5 ''a'']"
    "list_all2 (\<lambda>rp i. try_parse_inner_as_number (rp_id rp) = Inr i)
       [example_response 6 ''b'', example_response 5 ''a''] [6, 5]"
    "distinct [6, 5 :: u64]" "(5 :: u64) < 7"
    "batches (cl_manager example_batch_client) (5, 7) = Some \<lparr>bs_send_back = 9\<rparr>"
    by (simp_all add: is_ascii_whitespace_def example_env_def example_response_def Response_new_def
        example_batch_client_def insert_pending_batch_def RequestManager_new_def)
  have s: "set [6, 5 :: u64] = {5..<7}"
  proof (rule set_eqI)
    fix x :: u64
    show "x \<in> set [6, 5] \<longleftrightarrow> x \<in> {5..<7}" by (simp; unat_arith; auto)
  qed
  from batch_message_delivered_in_order [OF p(1-5) s p(6,7)] obtain out c' where
    r: "handle_backend_messages example_env (Some (Inr (Text ''[[6],[5]]''))) example_batch_client =
       (Done (Inr []), c')"
    "cl_outbox c' = cl_outbox example_batch_client @ [ToBatch (bs_send_back \<lparr>bs_send_back = 9\<rparr>) (Inr out)]"
    and out: "\<forall>k < length [6, 5 :: u64]. out ! (unat ([6, 5 :: u64] ! k) - unat (5 :: u64)) =
       [example_response 6 ''b'', example_response 5 ''a''] ! k" by blast
  from out [rule_format, of 0] out [rule_format, of 1] r show ?thesis
    by (intro exI [of _ out] exI [of _ c']) (simp add: example_batch_client_def client_new_def)
qed

text \<open>C40. A subscription whose caller went away before the server confirmed it is never unsubscribed:
  the read task builds the unsubscribe call and hands it to the send task as an ordinary request, but
  its id is the slot that \<open>insert_pending_subscription\<close> reserved, so the send task refuses it as a
  duplicate and sends nothing.\<close>

theorem unsubscribe_before_ack_not_sent:
  assumes "requests (cl_manager c) i = None" "requests (cl_manager c) j = None" "i \<noteq> j"
    and "subscriptions (cl_manager c) sid = None" "\<not> ce_alive env s"
    and "ce_de_response env raw = Some rp" "rp_id rp = i" "rp_payload rp = Success t"
    and "ce_de_sub_id env t = Inr sid"
    and "unsub_params_valid env" "\<And>v. snd (ce_emit env v)"
    and "sub = \<lparr>sm_raw = raw0, sm_subscribe_id = i, sm_unsubscribe_id = j, sm_unsubscribe_method = f, sm_send_back = s\<rparr>"
    and "handle_frontend_messages env send (FSubscribe sub) c = (r0, sent0, c1)"
  shows "\<exists>msg c2. handle_object env raw c1 = (Done (Inr [FRequest msg]), c2) \<and> rm_id msg = j \<and>
    handle_frontend_messages env send (FRequest msg) c2 = (Done (Inr ()), None, c2)"
proof -
  have m1: "cl_manager c1 = (cl_manager c)\<lparr>requests := (requests (cl_manager c))
      (i \<mapsto> PendingSubscription j s f, j \<mapsto> PendingMethodCall None)\<rparr>"
    using assms by (auto simp: handle_frontend_messages_def on_manager_def send_raw_def
        insert_pending_subscription_def)
  obtain k c2 where ch: "subscription_channel (ce_ops env) (ce_max_buffer env)
      (c1\<lparr>cl_manager := (cl_manager c1)\<lparr>requests := (requests (cl_manager c1))(i := None)\<rparr>\<rparr>) = (k, c2)"
    by fastforce
  then have m2: "cl_manager c2 = (cl_manager c)\<lparr>requests := (requests (cl_manager c))(i := None, j \<mapsto> PendingMethodCall None)\<rparr>"
    using subscription_channel_manager(1) [of "ce_ops env" "ce_max_buffer env"
      "c1\<lparr>cl_manager := (cl_manager c1)\<lparr>requests := (requests (cl_manager c1))(i := None)\<rparr>\<rparr>"] m1 assms(3)
    by (simp add: fun_upd_twist)
  obtain b where b: "ParamsBuilder_insert (ce_emit env) (SubscriptionId_serialize sid) positional = (True, b)"
    using assms(11) [of "SubscriptionId_serialize sid"]
    by (cases "ce_emit env (SubscriptionId_serialize sid)")
       (auto simp: ParamsBuilder_insert_def write_value_def)
  obtain p where p: "ParamsBuilder_build (ce_valid_json env) b = Done p"
    using unsub_params_build [OF assms(10) b] by (cases "ParamsBuilder_build (ce_valid_json env) b") auto
  let ?raw = "concat (fst (ce_emit env (Request_serialize (Request_owned f p j))))"
  have raw: "to_raw_value (ce_emit env) (Request_serialize (Request_owned f p j)) = Some ?raw"
    using assms(11) by (simp add: to_raw_value_def split_beta)
  let ?m3 = "(cl_manager c)\<lparr>requests := (requests (cl_manager c))(i \<mapsto> PendingMethodCall None, j \<mapsto> PendingMethodCall None),
     subscriptions := (subscriptions (cl_manager c))(sid := None)\<rparr>"
  let ?c3 = "c2\<lparr>cl_manager := ?m3\<rparr>"
  let ?msg = "\<lparr>rm_raw = ?raw, rm_id = j, rm_send_back = None\<rparr>"
  have "activate_subscription (ce_emit env) (ce_valid_json env) (ce_ops env) (ce_alive env) i j s f sid
      (ce_max_buffer env) (c1\<lparr>cl_manager := (cl_manager c1)\<lparr>requests := (requests (cl_manager c1))(i := None)\<rparr>\<rparr>) =
      (Done (Inr (Some ?msg)), ?c3)"
    using ch m2 assms(1-5) b p raw
    by (simp add: activate_subscription_def on_manager_def insert_subscription_def
        build_unsubscribe_message_def unsubscribe_def fun_upd_twist)
  then have "handle_object env raw c1 = (Done (Inr [FRequest ?msg]), ?c3)"
    using assms(1-9) m1
    by (simp add: handle_object_def process_single_response_def request_status_def on_manager_def
        complete_pending_subscription_def Success_try_from_def)
  moreover have "handle_frontend_messages env send (FRequest ?msg) ?c3 = (Done (Inr ()), None, ?c3)"
    by (simp add: handle_frontend_messages_def on_manager_def insert_pending_call_def)
  ultimately show ?thesis by (intro exI [of _ ?msg] exI [of _ ?c3]) simp
qed

definition example_sub :: SubscriptionMessage where
  "example_sub = \<lparr>sm_raw = ''sub'', sm_subscribe_id = Number 0, sm_unsubscribe_id = Number 1,
     sm_unsubscribe_method = ''unsub'', sm_send_back = 13\<rparr>"

lemma parse_u64_42: "parse_u64 ''42'' = Some 42"
  by (simp add: parse_u64_def parse_unsigned_def char_digit_def)

theorem unsubscribe_before_ack_not_sent_witness:
  "\<exists>msg c2. handle_object example_env ''{0}''
       (snd (snd (handle_frontend_messages example_env (\<lambda>_. Inr ()) (FSubscribe example_sub) (client_new store_new)))) =
       (Done (Inr [FRequest msg]), c2) \<and> rm_id msg = Number 1 \<and>
     handle_frontend_messages example_env (\<lambda>_. Inr ()) (FRequest msg) c2 = (Done (Inr ()), None, c2)"
proof -
  let ?c = "client_new store_new"
  let ?h = "handle_frontend_messages example_env (\<lambda>_. Inr ()) (FSubscribe example_sub) ?c"
  have p: "requests (cl_manager ?c) (Number 0) = None" "requests (cl_manager ?c) (Number 1) = None"
    "Number 0 \<noteq> Number 1" "subscriptions (cl_manager ?c) (Num 42) = None" "\<not> ce_alive example_env 13"
    "ce_de_response example_env ''{0}'' = Some (example_response 0 ''42'')"
    "rp_id (example_response 0 ''42'') = Number 0" "rp_payload (example_response 0 ''42'') = Success ''42''"
    "ce_de_sub_id example_env ''42'' = Inr (Num 42)"
    and e: "snd (ce_emit example_env v)" and h: "?h = (fst ?h, fst (snd ?h), snd (snd ?h))" for v
    by (simp_all add: example_env_def example_response_def Response_new_def client_new_def
        RequestManager_new_def json_emit_def parse_u64_42)
  from unsubscribe_before_ack_not_sent [OF p example_env_valid e example_sub_def h] show ?thesis .
qed

text \<open>A close notification inside an array does not close its subscription: the element is looked
  for in the text of the whole array, so it is taken for an ordinary notification, and the table of
  subscriptions stays as it was.\<close>

lemma close_in_batch_ignored:
  assumes "ce_de_array env raw = Some [r]"
    and "ce_de_response env r = None" "ce_de_sub_response env r = None"
    and "ce_de_sub_error env r = Some close" "ce_de_sub_error env raw = None" "ce_de_notif env r = Some notif"
  shows "\<exists>c'. handle_array env raw c = (Done (Inr []), c') \<and>
    c' = process_notification (ce_ops env) notif c \<and>
    subscriptions (cl_manager c') = subscriptions (cl_manager c) \<and>
    requests (cl_manager c') = requests (cl_manager c)"
proof -
  have "cl_manager c' = cl_manager c" if "SubscriptionSender_send ops k m c = (res, c')" for ops k m res c'
    using sender_send_manager(1) [of ops k m c] that by simp
  then have "subscriptions (cl_manager (process_notification (ce_ops env) notif c)) = subscriptions (cl_manager c) \<and>
    requests (cl_manager (process_notification (ce_ops env) notif c)) = requests (cl_manager c)"
    by (auto simp: process_notification_def remove_notification_handler_def
        split: option.splits prod.splits sum.splits TrySubscriptionSendError.splits)
  with assms show ?thesis by (simp add: handle_array_def handle_element_def)
qed

lemma try_parse_into_id [simp]: "try_parse_inner_as_number (into_id k n) = Inr n"
  by (cases k) simp_all

text \<open>The ids of a batch that starts at the request id \<open>n\<close> (in either format) are the \<open>len\<close> numbers
  from \<open>n\<close> on; when they would pass \<open>u64::MAX\<close> the client reports an error instead of wrapping.\<close>

lemma batch_id_range_spec:
  "generate_batch_id_range (into_id k n) len =
     (if unat n + unat len < 2 ^ 64 then Inr (n, n + len)
      else Inl (ECustom ''BatchID range wrapped; restart the client or try again later'')) \<and>
   (unat n + unat len < 2 ^ 64 \<and> 0 < len \<longrightarrow> n < n + len \<and> range_len (n, n + len) = unat len)"
proof -
  have "unat (n + len) = unat n + unat len" if "unat n + unat len < 2 ^ 64"
    using that checked_add_u64_unat [of n len "n + len"] by (simp add: checked_add_u64_def)
  then show ?thesis
    by (auto simp: generate_batch_id_range_def checked_add_u64_def range_len_def word_less_nat_alt)
qed

fun take_ids :: "nat \<Rightarrow> RequestIdManager \<Rightarrow> Id list" where
  "take_ids 0 im = []"
| "take_ids (Suc n) im = (case next_request_id im of (i, im') \<Rightarrow> i # take_ids n im')"

lemma take_ids_eq: "take_ids n im = map (\<lambda>k. into_id (id_kind im) (current_id im + of_nat k)) [0..<n]"
proof (induction n arbitrary: im)
  case (Suc n)
  have "[0..<Suc n] = 0 # map Suc [0..<n]" by (simp add: upt_conv_Cons map_Suc_upt)
  with Suc show ?case by (simp add: next_request_id_def CurrentId_next_def algebra_simps)
qed simp

lemma into_id_inject [simp]: "into_id k a = into_id k b \<longleftrightarrow> a = b"
  by (cases k) simp_all

text \<open>A client does not reuse a request id within its first \<open>2^64\<close> requests, in either id format;
  the counter then starts again.\<close>

lemma request_ids_distinct:
  assumes "n \<le> 2 ^ 64"
  shows "distinct (take_ids n im) \<and> take_ids (Suc (2 ^ 64)) im ! (2 ^ 64) = take_ids 1 im ! 0"
proof -
  have "inj_on (\<lambda>k. into_id (id_kind im) (current_id im + of_nat k)) {0..<n}"
  proof (rule inj_onI)
    fix x y assume xy: "x \<in> {0..<n}" "y \<in> {0..<n}"
      and eq: "into_id (id_kind im) (current_id im + of_nat x) = into_id (id_kind im) (current_id im + of_nat y)"
    from eq have "(of_nat x :: u64) = of_nat y" by simp
    then have "unat (of_nat x :: u64) = unat (of_nat y :: u64)" by simp
    with xy assms show "x = y" by (simp add: unat_of_nat take_bit_eq_mod)
  qed
  moreover have "(of_nat (2 ^ 64) :: u64) = 0" by simp
  ultimately show ?thesis by (simp add: take_ids_eq distinct_map del: upt_Suc)
qed

text \<open>A connection seen by the inactivity check: messages received and ticks of the timer.\<close>

datatype conn_event = Received nat | TimerTick nat

fun run_check :: "InactivityCheck \<Rightarrow> conn_event list \<Rightarrow> bool" where
  "run_check chk [] = False"
| "run_check chk (Received now # es) = run_check (mark_as_active now chk) es"
| "run_check chk (TimerTick now # es) = (case is_inactive now chk of
     (inactive, chk') \<Rightarrow> inactive \<or> run_check chk' es)"

fun late_ticks :: "nat \<Rightarrow> nat \<Rightarrow> conn_event list \<Rightarrow> nat" where
  "late_ticks dur since [] = 0"
| "late_ticks dur since (Received now # es) = late_ticks dur now es"
| "late_ticks dur since (TimerTick now # es) =
     (if now - since \<ge> dur then 1 else 0) + late_ticks dur since es"

lemma run_check_enabled:
  "n < mx \<Longrightarrow> run_check (Enabled dur since n mx) es \<longleftrightarrow> mx \<le> n + late_ticks dur since es"
proof (induction es arbitrary: since n)
  case (Cons e es)
  then show ?case by (cases e; cases "Suc n < mx") (auto simp: Let_def)
qed simp

text \<open>The inactivity check ends the connection exactly when the number of late ticks over the
  whole life of the connection reaches the configured maximum: a message in between restarts the
  clock but not the count. A disabled check never ends it.\<close>

lemma inactivity_is_cumulative:
  "(0 < mx \<longrightarrow> run_check (InactivityCheck_new now dur mx) es = (mx \<le> late_ticks dur now es)) \<and>
   \<not> run_check Disabled es"
proof -
  have "\<not> run_check Disabled es"
  proof (induction es)
    case (Cons e es)
    then show ?case by (cases e) simp_all
  qed simp
  then show ?thesis by (simp add: InactivityCheck_new_def run_check_enabled)
qed

lemma register_notification_free:
  assumes "subscription_channel (ce_ops env) (ce_max_buffer env) c = (k, c0)"
    and "notification_handlers (cl_manager c0) (rn_method reg) = None"
  shows "handle_frontend_messages env send (FRegisterNotification reg) c = (Done (Ok ()), None,
    deliver (ToNotification (rn_send_back reg) (Ok (k, rn_method reg)))
      (c0\<lparr>cl_manager := snd (insert_notification_handler (rn_method reg) k (cl_manager c0))\<rparr>))"
proof -
  have "on_manager (insert_notification_handler (rn_method reg) k) c0 =
      (Inr (), c0\<lparr>cl_manager := snd (insert_notification_handler (rn_method reg) k (cl_manager c0))\<rparr>)"
    using handlers.insert_free [OF assms(2), of k] by (simp add: on_manager_eq)
  with assms(1) show ?thesis by (simp add: handle_frontend_messages_def)
qed

lemma register_notification_occupied:
  assumes "subscription_channel (ce_ops env) (ce_max_buffer env) c = (k, c0)"
    and "notification_handlers (cl_manager c0) (rn_method reg) = Some k0"
  shows "handle_frontend_messages env send (FRegisterNotification reg) c = (Done (Ok ()), None,
    deliver (ToNotification (rn_send_back reg) (Err (ERegisterMethod (AlreadyRegistered (rn_method reg))))) c0)"
proof -
  have "on_manager (insert_notification_handler (rn_method reg) k) c0 = (Inl (AlreadyRegistered (rn_method reg)), c0)"
    using handlers.insert_occupied [of "cl_manager c0" "rn_method reg" k] assms(2) by (simp add: on_manager_eq)
  with assms(1) show ?thesis by (simp add: handle_frontend_messages_def)
qed

text \<open>C35. Life of a notification handler: registering a method that has none gives the caller a new
  channel, and the notifications of that method reach this channel in order while its buffer has room,
  and no other channel; a second registration of the method is refused and leaves the handler in
  place; unregistering gives the table of handlers back as it was. Nothing is sent to the server.\<close>

theorem notification_handler_life:
  assumes env: "ce_ops env = fifo_ops" and free: "notification_handlers (cl_manager c) (rn_method reg) = None"
    and r1: "handle_frontend_messages env send (FRegisterNotification reg) c = (x1, o1, c1)"
    and r2: "handle_frontend_messages env send (FRegisterNotification reg') c1 = (x2, o2, c2)"
    and same: "rn_method reg' = rn_method reg"
    and r3: "handle_frontend_messages env send (FUnregisterNotification (rn_method reg)) c2 = (x3, o3, c3)"
    and ns: "\<forall>n \<in> set ns. ntf_method n = rn_method reg" "length ns \<le> ce_max_buffer env"
  shows "(\<exists>k. cl_outbox c1 = cl_outbox c @ [ToNotification (rn_send_back reg) (Inr (k, rn_method reg))] \<and>
        cs_queue (cl_chans (fold (process_notification fifo_ops) ns c1)) =
          (cs_queue (cl_chans c1))(k := map notification_text ns)) \<and>
      cl_manager c2 = cl_manager c1 \<and> cl_outbox c2 = cl_outbox c1 @
        [ToNotification (rn_send_back reg') (Inl (ERegisterMethod (AlreadyRegistered (rn_method reg))))] \<and>
      notification_handlers (cl_manager c3) = notification_handlers (cl_manager c) \<and>
      (x1, o1) = (Done (Inr ()), None) \<and> (x2, o2) = (Done (Inr ()), None) \<and> (x3, o3) = (Done (Inr ()), None)"
proof -
  obtain k c0 where new: "subscription_channel fifo_ops (ce_max_buffer env) c = (k, c0)" by fastforce
  have c0: "cl_manager c0 = cl_manager c" "cl_outbox c0 = cl_outbox c"
    using subscription_channel_manager [of fifo_ops "ce_max_buffer env" c] new by simp_all
  have free0: "notification_handlers (cl_manager c0) (rn_method reg) = None" using free c0 by simp
  have reg1: "x1 = Done (Inr ())" "o1 = None"
    "c1 = deliver (ToNotification (rn_send_back reg) (Inr (k, rn_method reg)))
      (c0\<lparr>cl_manager := snd (insert_notification_handler (rn_method reg) k (cl_manager c0))\<rparr>)"
    using r1 register_notification_free [OF new [folded env] free0] by simp_all
  have hs: "notification_handlers (cl_manager c1) = (notification_handlers (cl_manager c))(rn_method reg \<mapsto> k)"
    using handlers.insert_view [OF free0, of k] by (simp add: reg1 c0)
  obtain k' c0' where new': "subscription_channel fifo_ops (ce_max_buffer env) c1 = (k', c0')" by fastforce
  have c0': "cl_manager c0' = cl_manager c1" "cl_outbox c0' = cl_outbox c1"
    using subscription_channel_manager [of fifo_ops "ce_max_buffer env" c1] new' by simp_all
  have reg2: "x2 = Done (Inr ())" "o2 = None" "cl_manager c2 = cl_manager c1" "cl_outbox c2 = cl_outbox c1 @
      [ToNotification (rn_send_back reg') (Inl (ERegisterMethod (AlreadyRegistered (rn_method reg))))]"
    using r2 register_notification_occupied [OF new' [folded env], of reg' k] same hs by (auto simp: c0')
  have "notification_handlers (cl_manager c3) = notification_handlers (cl_manager c)" "x3 = Done (Inr ())" "o3 = None"
    using r3 handlers.complete_view [of "rn_method reg" "cl_manager c1"] hs free
    by (auto simp: handle_frontend_messages_def reg2 fun_upd_idem)
  moreover
  have "cl_chans c1 = cl_chans c0" by (simp add: reg1)
  then have "cs_queue (cl_chans c1) k = []" "cs_capacity (cl_chans c1) k = ce_max_buffer env"
    "cs_listening (cl_chans c1) k"
    using new fifo.new_channel [of "ce_max_buffer env" "cl_chans c"]
    by (auto simp: subscription_channel_def split: prod.splits)
  then have "cs_queue (cl_chans (fold (process_notification fifo_ops) ns c1)) =
      (cs_queue (cl_chans c1))(k := map notification_text ns)"
    using fifo.notify_all_queue [of c1 k ns "rn_method reg"] hs ns by simp
  moreover have "cl_outbox c1 = cl_outbox c @ [ToNotification (rn_send_back reg) (Inr (k, rn_method reg))]"
    by (simp add: reg1 c0)
  ultimately show ?thesis using reg1(1,2) reg2 by blast
qed

theorem notification_handler_life_witness:
  "\<exists>c1. handle_frontend_messages example_env (\<lambda>_. Inr ()) (FRegisterNotification \<lparr>rn_method = ''n'', rn_send_back = 3\<rparr>)
       (client_new store_new) = (Done (Inr ()), None, c1) \<and>
     cs_queue (cl_chans (fold (process_notification fifo_ops) [Notification_new ''n'' (Some ''1''), Notification_new ''n'' None] c1)) 0 =
       [''1'', ''null'']"
proof -
  let ?reg = "\<lparr>rn_method = ''n'', rn_send_back = 3\<rparr>"
  let ?h = "\<lambda>m c. handle_frontend_messages example_env (\<lambda>_. Inr ()) m c"
  let ?ns = "[Notification_new ''n'' (Some ''1''), Notification_new ''n'' (None :: string option)]"
  obtain x1 o1 c1 where r1: "?h (FRegisterNotification ?reg) (client_new store_new) = (x1, o1, c1)" by (metis prod.exhaust)
  obtain x2 o2 c2 where r2: "?h (FRegisterNotification ?reg) c1 = (x2, o2, c2)" by (metis prod.exhaust)
  obtain x3 o3 c3 where r3: "?h (FUnregisterNotification (rn_method ?reg)) c2 = (x3, o3, c3)" by (metis prod.exhaust)
  have pre: "ce_ops example_env = fifo_ops" "notification_handlers (cl_manager (client_new store_new)) (rn_method ?reg) = None"
    "\<forall>n \<in> set ?ns. ntf_method n = rn_method ?reg" "length ?ns \<le> ce_max_buffer example_env"
    by (simp_all add: example_env_def client_new_def RequestManager_new_def Notification_new_def)
  have out: "cl_outbox c1 = [ToNotification 3 (Inr (0, ''n''))]"
    using r1 by (auto simp: handle_frontend_messages_def example_env_def client_new_def store_new_def fifo_ops_def
        subscription_channel_def on_manager_def insert_notification_handler_def RequestManager_new_def deliver_def)
  have "cl_outbox (client_new store_new) = []" by (simp add: client_new_def)
  with notification_handler_life [OF pre(1,2) r1 r2 refl r3 pre(3,4)] out r1 show ?thesis
    by (auto simp: notification_text_def Notification_new_def)
qed

end
