(* ===== verification/Client_Frontend.thy ===== *)
theory Client_Frontend
  imports Async_Client
begin

text \<open>
  The front end of a client: \<open>RpcService\<close> (\<open>async_client/rpc_service.rs\<close>), which turns calls into
  messages for the background task, the \<open>ClientT\<close> and \<open>SubscriptionClientT\<close> operations of
  \<open>async_client/mod.rs\<close>, the client's \<open>Subscription\<close> (\<open>client/mod.rs\<close>) and the configuration of the
  builder. An \<open>await\<close> on a oneshot is an argument: the value that was sent, or \<open>None\<close> when the sender
  was dropped. The races with the timer are arguments of type \<open>race\<close>.
\<close>

section \<open>Configuration\<close>

record PingConfig =
  pc_ping_interval :: nat
  pc_inactive_limit :: nat
  pc_max_failures :: nat

definition PingConfig_default :: PingConfig where
  "PingConfig_default = \<lparr>pc_ping_interval = 30, pc_inactive_limit = 40, pc_max_failures = 1\<rparr>"

definition PingConfig_max_failures :: "nat \<Rightarrow> PingConfig \<Rightarrow> PingConfig outcome" where
  "PingConfig_max_failures n cfg = (if n > 0 then Done (cfg\<lparr>pc_max_failures := n\<rparr>) else Panicked)"

record ClientBuilder =
  cb_request_timeout :: nat
  cb_max_concurrent_requests :: nat
  cb_max_buffer_capacity_per_subscription :: nat
  cb_id_kind :: IdKind
  cb_ping_config :: "PingConfig option"
  cb_tcp_no_delay :: bool

definition ClientBuilder_default :: ClientBuilder where
  "ClientBuilder_default = \<lparr>cb_request_timeout = 60, cb_max_concurrent_requests = 256,
     cb_max_buffer_capacity_per_subscription = 1024, cb_id_kind = IdNumber, cb_ping_config = None,
     cb_tcp_no_delay = True\<rparr>"

definition ClientBuilder_max_buffer :: "nat \<Rightarrow> ClientBuilder \<Rightarrow> ClientBuilder outcome" where
  "ClientBuilder_max_buffer n b =
     (if n > 0 then Done (b\<lparr>cb_max_buffer_capacity_per_subscription := n\<rparr>) else Panicked)"

text \<open>\<open>build_with_tokio\<close>: \<open>mpsc::channel\<close> panics on a capacity of zero.\<close>

definition build_with_tokio ::
  "nat \<Rightarrow> 'c \<Rightarrow> ClientBuilder \<Rightarrow> ('c background \<times> RequestIdManager) outcome" where
  "build_with_tokio now ch b =
     (if cb_max_concurrent_requests b = 0 then Panicked
      else Done (bg_new ch (case cb_ping_config b of
             None \<Rightarrow> Disabled
           | Some p \<Rightarrow> InactivityCheck_new now (pc_inactive_limit p) (pc_max_failures p)),
           RequestIdManager_new (cb_id_kind b)))"

section \<open>RpcService\<close>

record IsSubscription =
  is_sub_req_id :: Id
  is_unsub_req_id :: Id
  is_unsubscribe_method :: string

text \<open>
  The message that \<open>call\<close> sends to the background task; \<open>sub\<close> is the entry \<open>IsSubscription\<close> of the
  request's extensions and \<open>tx\<close> the sender of the new oneshot.
\<close>

definition call_message ::
  "emitter \<Rightarrow> IsSubscription option \<Rightarrow> oneshot \<Rightarrow> Request \<Rightarrow> FrontToBack option" where
  "call_message emit sub tx request = (case to_raw_value emit (Request_serialize request) of
       None \<Rightarrow> None
     | Some raw \<Rightarrow> (case sub of
         Some s \<Rightarrow> Some (FSubscribe \<lparr>sm_raw = raw, sm_subscribe_id = is_sub_req_id s,
            sm_unsubscribe_id = is_unsub_req_id s, sm_unsubscribe_method = is_unsubscribe_method s,
            sm_send_back = tx\<rparr>)
       | None \<Rightarrow> Some (FRequest \<lparr>rm_raw = raw, rm_id = Id_into_owned (req_id request), rm_send_back = Some tx\<rparr>)))"

record MiddlewareMethodResponse =
  mm_rp :: RawResponse
  mm_subscription :: "(sink \<times> SubscriptionId) option"

text \<open>What \<open>call\<close> returns once the oneshot is answered; a dropped sender is \<open>ServiceDisconnect\<close>.\<close>

definition call_finish ::
  "Request \<Rightarrow> (RawResponse, InvalidRequestId) result option \<Rightarrow> (MiddlewareMethodResponse, Error) result" where
  "call_finish request answer = (case answer of
       None \<Rightarrow> Err EServiceDisconnect
     | Some (Inl e) \<Rightarrow> Err (EInvalidRequestId e)
     | Some (Inr rp) \<Rightarrow> Ok \<lparr>mm_rp = rp\<lparr>rp_extensions := req_extensions request\<rparr>, mm_subscription = None\<rparr>)"

definition call_finish_subscription ::
  "emitter \<Rightarrow> Request \<Rightarrow> (sink \<times> SubscriptionId, Error) result option \<Rightarrow> (MiddlewareMethodResponse, Error) result"
where
  "call_finish_subscription emit request answer = (case answer of
       None \<Rightarrow> Err EServiceDisconnect
     | Some (Inl e) \<Rightarrow> Err e
     | Some (Inr (rx, sub_id)) \<Rightarrow> (case to_raw_value emit (SubscriptionId_serialize sub_id) of
         None \<Rightarrow> Err (EParseError ''serialize'')
       | Some rp \<Rightarrow> Ok \<lparr>mm_rp = Response_new (Success rp) (Id_into_owned (req_id request)),
                        mm_subscription = Some (rx, sub_id)\<rparr>))"

text \<open>\<open>batch\<close>; \<open>ids\<close> is the entry \<open>IsBatch\<close> of the batch's extensions, whose absence is a panic.\<close>

definition batch_message ::
  "emitter \<Rightarrow> range option \<Rightarrow> oneshot \<Rightarrow> Request list \<Rightarrow> FrontToBack option outcome" where
  "batch_message emit ids tx batch = (case to_raw_value emit (SSeq (map Request_serialize batch)) of
       None \<Rightarrow> Done None
     | Some raw \<Rightarrow> (case ids of
         None \<Rightarrow> Panicked
       | Some r \<Rightarrow> Done (Some (FBatch \<lparr>bm_raw = raw, bm_ids = r, bm_send_back = tx\<rparr>))))"

section \<open>The client's operations\<close>

definition run_future_until_timeout :: "Error option \<Rightarrow> ('t, Error) result race \<Rightarrow> ('t, Error) result" where
  "run_future_until_timeout disconnect_reason first = (case first of
       Left (Inr r) \<Rightarrow> Ok r
     | Left (Inl EServiceDisconnect) \<Rightarrow> Err (read_error disconnect_reason)
     | Left (Inl e) \<Rightarrow> Err e
     | Right \<Rightarrow> Err ERequestTimeout)"

text \<open>\<open>request\<close> after the service answered; \<open>de\<close> is \<open>serde_json::from_str\<close> at the result type.\<close>

definition request_result ::
  "(string \<Rightarrow> ('r, string) result) \<Rightarrow> (MiddlewareMethodResponse, Error) result \<Rightarrow> ('r, Error) result" where
  "request_result de answer = (case answer of
       Inl e \<Rightarrow> Err e
     | Inr m \<Rightarrow> (case Success_try_from (mm_rp m) of
         Inl e \<Rightarrow> Err (ECall e)
       | Inr success \<Rightarrow> (case de (ok_result success) of Inl e \<Rightarrow> Err (EParseError e) | Inr v \<Rightarrow> Ok v)))"

text \<open>The requests of a batch: the entries of the builder zipped with the ids of the range.\<close>

fun batch_requests :: "IdKind \<Rightarrow> (string \<times> string option) list \<Rightarrow> u64 \<Rightarrow> Request list" where
  "batch_requests k [] i = []"
| "batch_requests k ((meth, params) # rest) i =
     Request_owned meth params (into_id k i) # batch_requests k rest (i + 1)"

definition batch_prepare ::
  "BatchRequestBuilder \<Rightarrow> RequestIdManager \<Rightarrow> (Request list \<times> range, Error) result \<times> RequestIdManager" where
  "batch_prepare b im = (case BatchRequestBuilder_build b of
       Inl e \<Rightarrow> (Err (EEmptyBatchRequest e), im)
     | Inr batch \<Rightarrow> (case next_request_id im of (i, im') \<Rightarrow>
         (case generate_batch_id_range i (of_nat (length batch)) of
           Inl e \<Rightarrow> (Err e, im')
         | Inr r \<Rightarrow> (Ok (batch_requests (id_kind im) batch (fst r), r), im'))))"

fun batch_decode ::
  "(string \<Rightarrow> ('r, string) result) \<Rightarrow> RawResponse list \<Rightarrow> 'r BatchResponse \<Rightarrow> ('r BatchResponse, Error) result" where
  "batch_decode de [] acc = Ok acc"
| "batch_decode de (rp # rps) acc = (case Success_try_from rp of
     Inr val \<Rightarrow> (case de (ok_result val) of
         Inl e \<Rightarrow> Err (EParseError e)
       | Inr r \<Rightarrow> batch_decode de rps (acc\<lparr>br_responses := br_responses acc @ [Inr r],
                    br_successful_calls := br_successful_calls acc + 1\<rparr>))
   | Inl err \<Rightarrow> batch_decode de rps (acc\<lparr>br_responses := br_responses acc @ [Inl err],
                    br_failed_calls := br_failed_calls acc + 1\<rparr>))"

definition batch_result ::
  "(string \<Rightarrow> ('r, string) result) \<Rightarrow> (RawResponse list, Error) result \<Rightarrow> ('r BatchResponse, Error) result" where
  "batch_result de answer = (case answer of
       Inl e \<Rightarrow> Err e
     | Inr rps \<Rightarrow> batch_decode de rps \<lparr>br_successful_calls = 0, br_failed_calls = 0, br_responses = []\<rparr>)"

definition subscribe_prepare ::
  "string \<Rightarrow> string option \<Rightarrow> string \<Rightarrow> RequestIdManager \<Rightarrow> (Request \<times> IsSubscription, Error) result \<times> RequestIdManager"
where
  "subscribe_prepare subscribe_method params unsubscribe_method im =
     (if subscribe_method = unsubscribe_method
      then (Err (ERegisterMethod (SubscriptionNameConflict unsubscribe_method)), im)
      else (case next_request_id im of (sub_id, im1) \<Rightarrow> (case next_request_id im1 of (unsub_id, im2) \<Rightarrow>
        (Ok (Request_owned subscribe_method params sub_id,
             \<lparr>is_sub_req_id = sub_id, is_unsub_req_id = unsub_id, is_unsubscribe_method = unsubscribe_method\<rparr>),
         im2))))"

section \<open>The client's subscription\<close>

datatype SubscriptionKind = KSubscription SubscriptionId | KMethod string

datatype SubscriptionCloseReason = ConnectionClosed | Lagged

record ClientSubscription =
  sub_is_closed :: bool
  sub_rx :: sink
  sub_kind :: "SubscriptionKind option"

definition ClientSubscription_new :: "sink \<Rightarrow> SubscriptionKind \<Rightarrow> ClientSubscription" where
  "ClientSubscription_new rx k = \<lparr>sub_is_closed = False, sub_rx = rx, sub_kind = Some k\<rparr>"

fun close_message :: "SubscriptionKind \<Rightarrow> FrontToBack" where
  "close_message (KMethod notif) = FUnregisterNotification notif"
| "close_message (KSubscription sub_id) = FSubscriptionClosed sub_id"

text \<open>\<open>Drop\<close>: the message that is tried to be sent to the background task.\<close>

definition ClientSubscription_drop :: "ClientSubscription \<Rightarrow> FrontToBack option" where
  "ClientSubscription_drop s = map_option close_message (sub_kind s)"

definition ClientSubscription_unsubscribe :: "ClientSubscription \<Rightarrow> (FrontToBack \<times> ClientSubscription) outcome" where
  "ClientSubscription_unsubscribe s = (case sub_kind s of
       None \<Rightarrow> Panicked
     | Some k \<Rightarrow> Done (close_message k, s\<lparr>sub_kind := None\<rparr>))"

definition close_reason :: "(sink \<Rightarrow> bool) \<Rightarrow> ClientSubscription \<Rightarrow> SubscriptionCloseReason option" where
  "close_reason has_lagged s =
     (if \<not> sub_is_closed s \<and> \<not> has_lagged (sub_rx s) then None
      else if has_lagged (sub_rx s) then Some Lagged else Some ConnectionClosed)"

text \<open>\<open>poll_next\<close>; the first argument is what polling the channel gave.\<close>

definition ClientSubscription_poll_next ::
  "string option poll \<Rightarrow> (string \<Rightarrow> ('n, string) result) \<Rightarrow> ClientSubscription \<Rightarrow>
     ('n, string) result option poll \<times> ClientSubscription"
where
  "ClientSubscription_poll_next polled de s = (case polled of
       Pending \<Rightarrow> (Pending, s)
     | Ready (Some v) \<Rightarrow> (Ready (Some (de v)), s)
     | Ready None \<Rightarrow> (Ready None, s\<lparr>sub_is_closed := True\<rparr>))"

section \<open>Lemmas\<close>

lemma batch_requests_nth:
  "length (batch_requests k es i) = length es"
  "n < length es \<Longrightarrow> batch_requests k es i ! n =
     Request_owned (fst (es ! n)) (snd (es ! n)) (into_id k (i + of_nat n))"
proof -
  show "length (batch_requests k es i) = length es" by (induction k es i rule: batch_requests.induct) simp_all
  show "n < length es \<Longrightarrow> batch_requests k es i ! n =
      Request_owned (fst (es ! n)) (snd (es ! n)) (into_id k (i + of_nat n))"
  proof (induction k es i arbitrary: n rule: batch_requests.induct)
    case (2 k meth params rest i)
    then show ?case by (cases n) (simp_all add: algebra_simps)
  qed simp
qed

text \<open>What one response contributes to the result of a batch.\<close>

definition decode_entry ::
  "(string \<Rightarrow> ('r, string) result) \<Rightarrow> RawResponse \<Rightarrow> (('r, ErrorObject) result, string) result" where
  "decode_entry de rp = (case rp_payload rp of
       RpError e \<Rightarrow> Inr (Inl e)
     | Success r \<Rightarrow> (case de r of Inl e \<Rightarrow> Inl e | Inr v \<Rightarrow> Inr (Inr v)))"

lemma batch_decode_ok:
  "batch_decode de rps acc = Inr b \<Longrightarrow>
     \<exists>es. list_all2 (\<lambda>rp e. decode_entry de rp = Inr e) rps es \<and>
       br_responses b = br_responses acc @ es \<and>
       br_successful_calls b = br_successful_calls acc + length (filter is_ok es) \<and>
       br_failed_calls b = br_failed_calls acc + length (filter (\<lambda>r. \<not> is_ok r) es)"
proof (induction rps arbitrary: acc)
  case (Cons rp rps)
  show ?case
  proof (cases "rp_payload rp")
    case (Success r)
    with Cons.prems obtain v where v: "de r = Inr v"
      "batch_decode de rps (acc\<lparr>br_responses := br_responses acc @ [Inr v],
         br_successful_calls := br_successful_calls acc + 1\<rparr>) = Inr b"
      by (auto simp: Success_try_from_def split: sum.splits)
    from Cons.IH [OF v(2)] obtain es where "list_all2 (\<lambda>rp e. decode_entry de rp = Inr e) rps es \<and>
       br_responses b = br_responses acc @ Inr v # es \<and>
       br_successful_calls b = br_successful_calls acc + 1 + length (filter is_ok es) \<and>
       br_failed_calls b = br_failed_calls acc + length (filter (\<lambda>r. \<not> is_ok r) es)" by auto
    with Success v show ?thesis by (intro exI [of _ "Inr v # es"]) (simp add: decode_entry_def)
  next
    case (RpError e)
    with Cons.prems have d: "batch_decode de rps (acc\<lparr>br_responses := br_responses acc @ [Inl e],
         br_failed_calls := br_failed_calls acc + 1\<rparr>) = Inr b"
      by (auto simp: Success_try_from_def split: sum.splits)
    from Cons.IH [OF this] obtain es where "list_all2 (\<lambda>rp e. decode_entry de rp = Inr e) rps es \<and>
       br_responses b = br_responses acc @ Inl e # es \<and>
       br_successful_calls b = br_successful_calls acc + length (filter is_ok es) \<and>
       br_failed_calls b = br_failed_calls acc + 1 + length (filter (\<lambda>r. \<not> is_ok r) es)" by auto
    with RpError show ?thesis by (intro exI [of _ "Inl e # es"]) (simp add: decode_entry_def)
  qed
qed simp

lemma map_filter_ok:
  "filter (\<lambda>r. \<not> is_ok r) es = [] \<Longrightarrow>
     map Inr (List.map_filter (\<lambda>r. case r of Inl _ \<Rightarrow> None | Inr v \<Rightarrow> Some v) es) = es"
  by (induction es) (auto simp: List.map_filter_simps is_ok_def split: sum.splits if_splits)

section \<open>Properties\<close>

text \<open>The result of a batch has one entry per response, in the same order: the error object of a
  failed call, the decoded value of a successful one. The two counters add up to the number of
  entries, and \<open>into_ok\<close> gives all values exactly when no call failed.\<close>

lemma batch_result_spec:
  assumes "batch_result de (Inr rps) = Inr b"
  shows "list_all2 (\<lambda>rp e. decode_entry de rp = Inr e) rps (br_responses b) \<and>
    br_successful_calls b + br_failed_calls b = length rps \<and>
    br_failed_calls b = length (filter (\<lambda>r. \<not> is_ok r) (br_responses b)) \<and>
    (br_failed_calls b = 0 \<longrightarrow> (\<exists>vs. BatchResponse_into_ok b = Inr vs \<and> br_responses b = map Inr vs)) \<and>
    (br_failed_calls b > 0 \<longrightarrow> (\<exists>es. BatchResponse_into_ok b = Inl es \<and> length es = br_failed_calls b))"
proof -
  from assms batch_decode_ok [of de rps "\<lparr>br_successful_calls = 0, br_failed_calls = 0, br_responses = []\<rparr>" b]
  have b: "list_all2 (\<lambda>rp e. decode_entry de rp = Inr e) rps (br_responses b)"
    "br_successful_calls b = length (filter is_ok (br_responses b))"
    "br_failed_calls b = length (filter (\<lambda>r. \<not> is_ok r) (br_responses b))"
    by (auto simp: batch_result_def)
  from b(1) have "length rps = length (br_responses b)" by (rule list_all2_lengthD)
  moreover have "length (filter is_ok es) + length (filter (\<lambda>r. \<not> is_ok r) es) = length es"
    for es :: "('b, ErrorObject) result list"
    by (rule sum_length_filter_compl)
  moreover have "length (List.map_filter (\<lambda>r. case r of Inl e \<Rightarrow> Some e | Inr _ \<Rightarrow> None) es) =
      length (filter (\<lambda>r. \<not> is_ok r) es)" for es :: "('b, ErrorObject) result list"
    by (induction es) (auto simp: List.map_filter_simps is_ok_def split: sum.splits)
  ultimately show ?thesis using b map_filter_ok [of "br_responses b"]
    by (auto simp: BatchResponse_into_ok_def)
qed

text \<open>A batch is prepared with the next request id \<open>n\<close>: its requests keep the order of the
  builder, the \<open>k\<close>-th gets the id \<open>n + k\<close> in the configured format, and the range registered for the
  answer is exactly these ids. An empty batch is refused before an id is taken.\<close>

lemma batch_prepare_spec:
  "batch_prepare [] im = (Inl (EEmptyBatchRequest EmptyBatchRequest), im) \<and>
   (batch_prepare es im = (Inr (reqs, r), im') \<longrightarrow>
      length es < 2 ^ 64 \<longrightarrow>
      length reqs = length es \<and> fst r = current_id im \<and> range_len r = length es \<and> fst r < snd r \<and>
      (\<forall>k < length es. reqs ! k = Request_owned (fst (es ! k)) (snd (es ! k))
          (into_id (id_kind im) (current_id im + of_nat k))))"
proof -
  have "length reqs = length es \<and> fst r = current_id im \<and> range_len r = length es \<and> fst r < snd r \<and>
      (\<forall>k < length es. reqs ! k = Request_owned (fst (es ! k)) (snd (es ! k))
          (into_id (id_kind im) (current_id im + of_nat k)))"
    if p: "batch_prepare es im = (Inr (reqs, r), im')" and len: "length es < 2 ^ 64"
  proof -
    from len have u: "unat (of_nat (length es) :: u64) = length es"
      by (simp add: unat_of_nat take_bit_eq_mod)
    from p have ne: "es \<noteq> []" and reqs: "reqs = batch_requests (id_kind im) es (fst r)"
      and g: "generate_batch_id_range (into_id (id_kind im) (current_id im)) (of_nat (length es)) = Inr r"
      by (auto simp: batch_prepare_def BatchRequestBuilder_build_def next_request_id_def CurrentId_next_def
          split: if_splits sum.splits)
    from g obtain e where r: "r = (current_id im, e)" "checked_add_u64 (current_id im) (of_nat (length es)) = Some e"
      by (auto simp: generate_batch_id_range_def split: option.splits)
    from checked_add_u64_unat [OF r(2)] u ne r(1) have "range_len r = length es" "fst r < snd r"
      by (simp_all add: range_len_def word_less_nat_alt)
    with reqs r(1) batch_requests_nth [where es = es and k = "id_kind im" and i = "current_id im"]
    show ?thesis by simp
  qed
  moreover have "batch_prepare [] im = (Inl (EEmptyBatchRequest EmptyBatchRequest), im)"
    by (simp add: batch_prepare_def BatchRequestBuilder_build_def)
  ultimately show ?thesis by blast
qed

end
