(* ===== verification/Method_Response.thy ===== *)
theory Method_Response
  imports Params_Seq
begin

text \<open>
  \<open>core/src/server/method_response.rs\<close>: responses of a server, the writer that bounds their size and
  the builder of batch responses; \<open>prepare_error\<close> of \<open>core/src/server/helpers.rs\<close> and the id
  providers of \<open>core/src/id_providers.rs\<close>.

  \<open>serde_json\<close> writes a value to an \<open>io::Write\<close> piece by piece; the pieces and whether the value's own
  \<open>Serialize\<close> succeeded are given by the \<open>emitter\<close>. Error objects consist of numbers, strings and raw
  JSON only, which \<open>serde_json\<close> serializes without failing (the source says \<open>expect\<close>): \<open>expect_raw\<close> is
  their text.
\<close>

definition expect_raw :: "emitter \<Rightarrow> ser \<Rightarrow> string" where
  "expect_raw emit v = concat (fst (emit v))"

section \<open>The bounded writer\<close>

record BoundedWriter =
  max_len :: nat
  bw_buf :: string

definition BoundedWriter_new :: "nat \<Rightarrow> BoundedWriter" where
  "BoundedWriter_new n = \<lparr>max_len = n, bw_buf = []\<rparr>"

datatype io_error = OutOfMemory

definition BoundedWriter_write :: "string \<Rightarrow> BoundedWriter \<Rightarrow> (nat, io_error) result \<times> BoundedWriter" where
  "BoundedWriter_write buf w =
     (let len = length (bw_buf w) + length buf in
      if max_len w \<ge> len then (Ok (length buf), w\<lparr>bw_buf := bw_buf w @ buf\<rparr>)
      else (Err OutOfMemory, w))"

text \<open>\<open>serde_json::to_writer\<close>: it stops at the first error of the writer.\<close>

fun write_chunks :: "string list \<Rightarrow> BoundedWriter \<Rightarrow> (unit, io_error) result \<times> BoundedWriter" where
  "write_chunks [] w = (Ok (), w)"
| "write_chunks (c # cs) w = (case BoundedWriter_write c w of
     (Inr _, w') \<Rightarrow> write_chunks cs w'
   | (Inl e, w') \<Rightarrow> (Err e, w'))"

datatype json_error = JsonIo io_error | JsonData

definition to_writer :: "emitter \<Rightarrow> ser \<Rightarrow> BoundedWriter \<Rightarrow> (unit, json_error) result \<times> BoundedWriter" where
  "to_writer emit v w = (case emit v of (chunks, ok) \<Rightarrow> (case write_chunks chunks w of
       (Inl e, w') \<Rightarrow> (Err (JsonIo e), w')
     | (Inr _, w') \<Rightarrow> if ok then (Ok (), w') else (Err JsonData, w')))"

section \<open>Method responses\<close>

datatype ResponseKind = KindMethodCall | KindSubscription | KindBatch | KindNotification

datatype MethodResponseResult = ResultSuccess | ResultFailed i32

fun MethodResponseResult_as_error_code :: "MethodResponseResult \<Rightarrow> i32 option" where
  "MethodResponseResult_as_error_code (ResultFailed e) = Some e"
| "MethodResponseResult_as_error_code ResultSuccess = None"

record MethodResponse =
  mr_json :: string
  mr_success_or_error :: MethodResponseResult
  mr_kind :: ResponseKind
  mr_on_close :: "nat option"
  mr_extensions :: extensions

record 't ServerPayload =
  pl_inner :: "'t ResponsePayload"
  pl_on_exit :: "nat option"

definition as_error_code :: "MethodResponse \<Rightarrow> i32 option" where
  "as_error_code r = MethodResponseResult_as_error_code (mr_success_or_error r)"

definition MethodResponse_is_success :: "MethodResponse \<Rightarrow> bool" where
  "MethodResponse_is_success r = (mr_success_or_error r = ResultSuccess)"

definition MethodResponse_is_error :: "MethodResponse \<Rightarrow> bool" where
  "MethodResponse_is_error r = (case mr_success_or_error r of ResultFailed _ \<Rightarrow> True | ResultSuccess \<Rightarrow> False)"

definition MethodResponse_is_subscription :: "MethodResponse \<Rightarrow> bool" where
  "MethodResponse_is_subscription r = (mr_kind r = KindSubscription)"

definition MethodResponse_is_method_call :: "MethodResponse \<Rightarrow> bool" where
  "MethodResponse_is_method_call r = (mr_kind r = KindMethodCall)"

definition MethodResponse_is_notification :: "MethodResponse \<Rightarrow> bool" where
  "MethodResponse_is_notification r = (mr_kind r = KindNotification)"

definition MethodResponse_is_batch :: "MethodResponse \<Rightarrow> bool" where
  "MethodResponse_is_batch r = (mr_kind r = KindBatch)"

definition error_json :: "emitter \<Rightarrow> Id \<Rightarrow> ErrorObject \<Rightarrow> string" where
  "error_json emit i e =
     expect_raw emit (Response_serialize (\<lambda>_. SNull) (Response_new (RpError e :: unit ResponsePayload) i))"

definition MethodResponse_response ::
  "emitter \<Rightarrow> ('t \<Rightarrow> ser) \<Rightarrow> Id \<Rightarrow> 't ServerPayload \<Rightarrow> nat \<Rightarrow> MethodResponse" where
  "MethodResponse_response emit ser_t i rp max_response_size =
     (let success_or_error = (case pl_inner rp of
            RpError e \<Rightarrow> ResultFailed (ErrorObject_code e) | Success _ \<Rightarrow> ResultSuccess) in
      case to_writer emit (Response_serialize ser_t (Response_new (pl_inner rp) i))
             (BoundedWriter_new max_response_size) of
        (Inr _, writer) \<Rightarrow>
          \<lparr>mr_json = bw_buf writer, mr_success_or_error = success_or_error, mr_kind = KindMethodCall,
           mr_on_close = pl_on_exit rp, mr_extensions = Map.empty\<rparr>
      | (Inl (JsonIo _), writer) \<Rightarrow>
          (let data = to_raw_value emit (exceeded_limit max_response_size) in
           \<lparr>mr_json = error_json emit i
              (ErrorObject_borrowed OVERSIZED_RESPONSE_CODE OVERSIZED_RESPONSE_MSG data),
            mr_success_or_error = ResultFailed OVERSIZED_RESPONSE_CODE, mr_kind = KindMethodCall,
            mr_on_close = pl_on_exit rp, mr_extensions = Map.empty\<rparr>)
      | (Inl JsonData, writer) \<Rightarrow>
          \<lparr>mr_json = error_json emit i (ErrorObject_from InternalError),
           mr_success_or_error = ResultFailed (ErrorCode_code InternalError), mr_kind = KindMethodCall,
           mr_on_close = pl_on_exit rp, mr_extensions = Map.empty\<rparr>)"

definition subscription_response ::
  "emitter \<Rightarrow> ('t \<Rightarrow> ser) \<Rightarrow> Id \<Rightarrow> 't ServerPayload \<Rightarrow> nat \<Rightarrow> MethodResponse" where
  "subscription_response emit ser_t i result max_response_size =
     (MethodResponse_response emit ser_t i result max_response_size)\<lparr>mr_kind := KindSubscription\<rparr>"

definition MethodResponse_error :: "emitter \<Rightarrow> Id \<Rightarrow> ErrorObject \<Rightarrow> MethodResponse" where
  "MethodResponse_error emit i err =
     \<lparr>mr_json = error_json emit i err, mr_success_or_error = ResultFailed (ErrorObject_code err),
      mr_kind = KindMethodCall, mr_on_close = None, mr_extensions = Map.empty\<rparr>"

definition subscription_error :: "emitter \<Rightarrow> Id \<Rightarrow> ErrorObject \<Rightarrow> MethodResponse" where
  "subscription_error emit i err = (MethodResponse_error emit i err)\<lparr>mr_kind := KindSubscription\<rparr>"

definition MethodResponse_notification :: MethodResponse where
  "MethodResponse_notification =
     \<lparr>mr_json = ''null'', mr_success_or_error = ResultSuccess, mr_kind = KindNotification,
      mr_on_close = None, mr_extensions = Map.empty\<rparr>"

definition with_extensions :: "extensions \<Rightarrow> MethodResponse \<Rightarrow> MethodResponse" where
  "with_extensions ext r = r\<lparr>mr_extensions := ext\<rparr>"

section \<open>Batch responses\<close>

record BatchResponseBuilder =
  bb_result :: string
  bb_max_response_size :: nat
  bb_extensions :: extensions

record ServerBatchResponse =
  sb_json :: string
  sb_extensions :: extensions

definition BatchResponseBuilder_default :: BatchResponseBuilder where
  "BatchResponseBuilder_default = \<lparr>bb_result = [], bb_max_response_size = 0, bb_extensions = Map.empty\<rparr>"

definition new_with_limit :: "nat \<Rightarrow> BatchResponseBuilder" where
  "new_with_limit limit = \<lparr>bb_result = ''['', bb_max_response_size = limit, bb_extensions = Map.empty\<rparr>"

definition BatchResponseBuilder_append ::
  "emitter \<Rightarrow> MethodResponse \<Rightarrow> BatchResponseBuilder \<Rightarrow> (unit, MethodResponse) result \<times> BatchResponseBuilder" where
  "BatchResponseBuilder_append emit response b =
     (let len = length (mr_json response) + length (bb_result b) + 1;
          b1 = b\<lparr>bb_extensions := bb_extensions b ++ mr_extensions response\<rparr> in
      if len > bb_max_response_size b
      then (Err (MethodResponse_error emit Null (reject_too_big_batch_response emit (bb_max_response_size b))), b1)
      else (Ok (), b1\<lparr>bb_result := bb_result b @ mr_json response @ '',''\<rparr>))"

definition BatchResponseBuilder_is_empty :: "BatchResponseBuilder \<Rightarrow> bool" where
  "BatchResponseBuilder_is_empty b = (length (bb_result b) \<le> 1)"

definition batch_response_error :: "emitter \<Rightarrow> Id \<Rightarrow> ErrorObject \<Rightarrow> string" where
  "batch_response_error emit i err = error_json emit i err"

text \<open>\<open>valid_json\<close> is the test of \<open>RawValue::from_string\<close>.\<close>

definition BatchResponseBuilder_finish ::
  "emitter \<Rightarrow> (string \<Rightarrow> bool) \<Rightarrow> BatchResponseBuilder \<Rightarrow> ServerBatchResponse outcome" where
  "BatchResponseBuilder_finish emit valid_json b =
     (if length (bb_result b) = 1
      then Done \<lparr>sb_json = batch_response_error emit Null (ErrorObject_from InvalidRequest),
                 sb_extensions = bb_extensions b\<rparr>
      else (let result = butlast (bb_result b) @ '']'' in
            if valid_json result then Done \<lparr>sb_json = result, sb_extensions = bb_extensions b\<rparr>
            else Panicked))"

definition MethodResponse_from_batch :: "ServerBatchResponse \<Rightarrow> MethodResponse" where
  "MethodResponse_from_batch batch =
     \<lparr>mr_json = sb_json batch, mr_success_or_error = ResultSuccess, mr_kind = KindBatch,
      mr_on_close = None, mr_extensions = sb_extensions batch\<rparr>"

section \<open>Completion notices\<close>

datatype NotifyMsg = NotifyOk | NotifyErr

datatype MethodResponseError = RespClosed | RespJsonRpcError

definition notify :: "bool \<Rightarrow> NotifyMsg" where
  "notify is_success = (if is_success then NotifyOk else NotifyErr)"

text \<open>Polling a \<open>MethodResponseFuture\<close>; \<open>Inl\<close> is a sender that was dropped.\<close>

fun MethodResponseFuture_poll ::
  "(NotifyMsg, unit) result poll \<Rightarrow> (unit, MethodResponseError) result poll" where
  "MethodResponseFuture_poll (Ready (Inr NotifyOk)) = Ready (Ok ())"
| "MethodResponseFuture_poll (Ready (Inr NotifyErr)) = Ready (Err RespJsonRpcError)"
| "MethodResponseFuture_poll (Ready (Inl _)) = Ready (Err RespClosed)"
| "MethodResponseFuture_poll Pending = Pending"

section \<open>Unparseable requests and subscription ids\<close>

definition prepare_error :: "(string \<Rightarrow> InvalidRequest_t option) \<Rightarrow> string \<Rightarrow> Id \<times> ErrorCode" where
  "prepare_error de_invalid data = (case de_invalid data of
       Some r \<Rightarrow> (ivr_id r, InvalidRequest)
     | None \<Rightarrow> (Null, ParseError))"

text \<open>\<open>rand::random\<close> and the random characters are arguments.\<close>

definition JS_NUM_MASK :: u64 where
  "JS_NUM_MASK = drop_bit 11 (not 0)"

definition RandomIntegerIdProvider_next_id :: "u64 \<Rightarrow> SubscriptionId" where
  "RandomIntegerIdProvider_next_id random = Num (and random JS_NUM_MASK)"

definition RandomStringIdProvider_next_id :: "nat \<Rightarrow> string \<Rightarrow> SubscriptionId" where
  "RandomStringIdProvider_next_id len random_chars = SubStr (take len random_chars)"

definition NoopIdProvider_next_id :: SubscriptionId where
  "NoopIdProvider_next_id = Num 0"

section \<open>Lemmas\<close>

lemma write_chunks_spec:
  "length (bw_buf w) \<le> max_len w \<Longrightarrow>
     (if length (bw_buf w) + length (concat cs) \<le> max_len w
      then write_chunks cs w = (Inr (), w\<lparr>bw_buf := bw_buf w @ concat cs\<rparr>)
      else fst (write_chunks cs w) = Inl OutOfMemory) \<and>
     length (bw_buf (snd (write_chunks cs w))) \<le> max_len w"
proof (induction cs arbitrary: w)
  case (Cons c cs)
  show ?case
  proof (cases "length (bw_buf w) + length c \<le> max_len w")
    case True
    with Cons.IH [of "w\<lparr>bw_buf := bw_buf w @ c\<rparr>"] show ?thesis
      by (auto simp: BoundedWriter_write_def)
  qed (use Cons.prems in \<open>simp add: BoundedWriter_write_def\<close>)
qed simp

lemma to_writer_spec:
  assumes "emit v = (cs, ok)"
  shows "fst (to_writer emit v (BoundedWriter_new n)) =
      (if n < length (concat cs) then Inl (JsonIo OutOfMemory) else if ok then Inr () else Inl JsonData)"
    and "fst (to_writer emit v (BoundedWriter_new n)) = Inr () \<Longrightarrow>
      bw_buf (snd (to_writer emit v (BoundedWriter_new n))) = concat cs"
proof -
  note W = write_chunks_spec [of "BoundedWriter_new n" cs]
  show "fst (to_writer emit v (BoundedWriter_new n)) =
      (if n < length (concat cs) then Inl (JsonIo OutOfMemory) else if ok then Inr () else Inl JsonData)"
    using W assms
    by (cases "write_chunks cs (BoundedWriter_new n)")
       (auto simp: to_writer_def BoundedWriter_new_def split: if_splits)
  show "fst (to_writer emit v (BoundedWriter_new n)) = Inr () \<Longrightarrow>
      bw_buf (snd (to_writer emit v (BoundedWriter_new n))) = concat cs"
    using W assms
    by (cases "write_chunks cs (BoundedWriter_new n)")
       (auto simp: to_writer_def BoundedWriter_new_def split: if_splits)
qed

lemma response_branches:
  assumes "emit (Response_serialize ser_t (Response_new (pl_inner rp) i)) = (cs, ok)"
  shows "MethodResponse_response emit ser_t i rp n =
    (if n < length (concat cs) then
       (MethodResponse_error emit i (ErrorObject_borrowed OVERSIZED_RESPONSE_CODE OVERSIZED_RESPONSE_MSG
          (to_raw_value emit (exceeded_limit n))))\<lparr>mr_on_close := pl_on_exit rp\<rparr>
     else if ok then
       \<lparr>mr_json = concat cs, mr_success_or_error = (case pl_inner rp of
          RpError e \<Rightarrow> ResultFailed (ErrorObject_code e) | Success _ \<Rightarrow> ResultSuccess),
        mr_kind = KindMethodCall, mr_on_close = pl_on_exit rp, mr_extensions = Map.empty\<rparr>
     else (MethodResponse_error emit i (ErrorObject_from InternalError))\<lparr>mr_on_close := pl_on_exit rp\<rparr>)"
proof -
  obtain r w where t: "to_writer emit (Response_serialize ser_t (Response_new (pl_inner rp) i))
      (BoundedWriter_new n) = (r, w)" by fastforce
  from to_writer_spec [of emit _ cs ok n, OF assms] t show ?thesis
    by (auto simp: MethodResponse_response_def MethodResponse_error_def ErrorObject_code_def
        ErrorObject_borrowed_def ErrorObject_from_def Let_def split: if_splits)
qed

text \<open>The builder while responses are appended.\<close>

fun append_all ::
  "emitter \<Rightarrow> MethodResponse list \<Rightarrow> BatchResponseBuilder \<Rightarrow> (BatchResponseBuilder, MethodResponse) result" where
  "append_all emit [] b = Ok b"
| "append_all emit (r # rs) b = (case BatchResponseBuilder_append emit r b of
     (Inr _, b') \<Rightarrow> append_all emit rs b'
   | (Inl e, _) \<Rightarrow> Err e)"

definition batch_text_length :: "MethodResponse list \<Rightarrow> nat" where
  "batch_text_length rs = 1 + sum_list (map (\<lambda>r. length (mr_json r) + 1) rs)"

lemma append_all_ok:
  "append_all emit rs b = Inr b' \<Longrightarrow>
     bb_result b' = bb_result b @ concat (map (\<lambda>r. mr_json r @ '','') rs) \<and>
     bb_max_response_size b' = bb_max_response_size b \<and>
     bb_extensions b' = fold (\<lambda>r e. e ++ mr_extensions r) rs (bb_extensions b) \<and>
     (rs \<noteq> [] \<longrightarrow> length (bb_result b') \<le> bb_max_response_size b)"
proof (induction rs arbitrary: b)
  case (Cons r rs)
  then obtain b1 where b1: "BatchResponseBuilder_append emit r b = (Inr (), b1)" "append_all emit rs b1 = Inr b'"
    by (auto split: prod.splits sum.splits)
  then have "bb_result b1 = bb_result b @ mr_json r @ '',''" "bb_max_response_size b1 = bb_max_response_size b"
    "bb_extensions b1 = bb_extensions b ++ mr_extensions r" "length (bb_result b1) \<le> bb_max_response_size b"
    by (auto simp: BatchResponseBuilder_append_def Let_def split: if_splits)
  with Cons.IH [OF b1(2)] b1(2) show ?case by (cases rs) auto
qed simp

lemma append_all_total:
  "append_all emit rs b =
     (if rs = [] \<or> length (bb_result b) + sum_list (map (\<lambda>r. length (mr_json r) + 1) rs) \<le> bb_max_response_size b
      then Inr (b\<lparr>bb_result := bb_result b @ concat (map (\<lambda>r. mr_json r @ '','') rs),
                  bb_extensions := fold (\<lambda>r e. e ++ mr_extensions r) rs (bb_extensions b)\<rparr>)
      else Inl (MethodResponse_error emit Null (reject_too_big_batch_response emit (bb_max_response_size b))))"
  by (induction rs arbitrary: b) (auto simp: BatchResponseBuilder_append_def Let_def)

lemma length_join_comma:
  "rs \<noteq> [] \<Longrightarrow> length (join_comma (map f rs)) + 1 = sum_list (map (\<lambda>r. length (f r) + 1) rs)"
  by (induction rs rule: induct_list012) auto

section \<open>Properties\<close>



text \<open>A batch response is the JSON array of the responses in their order when its length stays
  within the limit, and otherwise the single error \<open>-32011\<close> with a null id, without a partial array;
  the extensions of all responses are merged.\<close>

lemma batch_response_bounded:
  assumes "rs \<noteq> []"
  shows "append_all emit rs (new_with_limit limit) =
    (if length (''['' @ join_comma (map mr_json rs) @ '']'') \<le> limit
     then Inr \<lparr>bb_result = ''['' @ join_comma (map mr_json rs) @ '','', bb_max_response_size = limit,
               bb_extensions = fold (\<lambda>r e. e ++ mr_extensions r) rs Map.empty\<rparr>
     else Inl (MethodResponse_error emit Null (reject_too_big_batch_response emit limit))) \<and>
   as_error_code (MethodResponse_error emit Null (reject_too_big_batch_response emit limit)) = Some (-32011) \<and>
   (\<forall>b. append_all emit rs (new_with_limit limit) = Inr b \<longrightarrow>
      BatchResponseBuilder_finish emit (\<lambda>_. True) b =
        Done \<lparr>sb_json = ''['' @ join_comma (map mr_json rs) @ '']'', sb_extensions = bb_extensions b\<rparr>)"
proof -
  have l: "sum_list (map (\<lambda>r. length (mr_json r) + 1) rs) = length (join_comma (map mr_json rs)) + 1"
    using length_join_comma [OF assms, of mr_json] by simp
  then show ?thesis
    using assms
    by (auto simp: append_all_total new_with_limit_def join_comma_concat [OF assms] as_error_code_def
        MethodResponse_error_def reject_too_big_batch_response_def rpc_defs
        BatchResponseBuilder_finish_def butlast_append Let_def)
qed

text \<open>C0. An empty batch answers with the error \<open>-32600\<close> (invalid request). A builder made by
  \<open>Default\<close> instead of \<open>new_with_limit\<close> has no opening bracket: \<open>finish\<close> builds the text \<open>]\<close> and panics.\<close>

lemma empty_batch_finish:
  assumes "\<not> valid_json '']''"
  shows "BatchResponseBuilder_finish emit valid_json (new_with_limit limit) =
     Done \<lparr>sb_json = error_json emit Null (ErrorObject_from InvalidRequest), sb_extensions = Map.empty\<rparr> \<and>
   BatchResponseBuilder_is_empty BatchResponseBuilder_default \<and>
   BatchResponseBuilder_finish emit valid_json BatchResponseBuilder_default = Panicked"
  using assms
  by (simp add: BatchResponseBuilder_finish_def new_with_limit_def BatchResponseBuilder_default_def
      batch_response_error_def BatchResponseBuilder_is_empty_def Let_def)

text \<open>Random integer subscription ids stay below \<open>2^53\<close>, so that a JavaScript number represents
  them exactly.\<close>

lemma random_integer_id_js_safe:
  "\<exists>n. RandomIntegerIdProvider_next_id random = Num n \<and> unat n < 2 ^ 53"
proof -
  have "unat (and random JS_NUM_MASK) \<le> unat JS_NUM_MASK"
    by (simp add: word_and_le1 flip: word_le_nat_alt)
  moreover have "unat JS_NUM_MASK = 0x1FFFFFFFFFFFFF"
    by (simp add: JS_NUM_MASK_def drop_bit_eq_div)
  ultimately have "unat (and random JS_NUM_MASK) < 2 ^ 53" by simp
  then show ?thesis by (simp add: RandomIntegerIdProvider_next_id_def)
qed

end
