(* ===== verification/Subscription_Server.thy ===== *)
theory Subscription_Server
  imports Method_Response
begin

text \<open>
  Subscriptions on the server: \<open>MethodSink\<close> (\<open>core/src/server/helpers.rs\<close>), the errors of
  \<open>core/src/server/error.rs\<close>, and \<open>core/src/server/subscription.rs\<close>: pending subscriptions that are
  accepted or rejected, the sinks of accepted ones, and the limit per connection.

  The outgoing channels of the connections are a parameter of type \<open>'c sink_ops\<close> on an abstract state
  \<open>'c\<close>; an awaited \<open>send\<close> is its final outcome. The channel that tells a sink that it was unsubscribed
  is a number: it is closed once its receiver, which lives in the table of subscribers, is dropped.
\<close>

section \<open>Sinks (helpers.rs, error.rs)\<close>

datatype send_timeout_result = SentInTime | SendTimedOut | SendTimeoutClosed

record 'c sink_ops =
  so_send :: "nat \<Rightarrow> string \<Rightarrow> 'c \<Rightarrow> bool \<times> 'c"
  so_try_send :: "nat \<Rightarrow> string \<Rightarrow> 'c \<Rightarrow> try_send_result \<times> 'c"
  so_send_timeout :: "nat \<Rightarrow> string \<Rightarrow> nat \<Rightarrow> 'c \<Rightarrow> send_timeout_result \<times> 'c"
  so_is_closed :: "nat \<Rightarrow> 'c \<Rightarrow> bool"

datatype SubMessage = Complete string | NeedsData string

datatype TrySendError = TSClosed SubMessage | TSFull SubMessage

datatype DisconnectError = DisconnectError SubMessage

datatype SendTimeoutError = STTimeout SubMessage | STClosed SubMessage

datatype PendingSubscriptionAcceptError = PendingSubscriptionAcceptError

record MethodSink =
  ms_tx :: nat
  ms_max_response_size :: u32

definition MethodSink_new :: "nat \<Rightarrow> MethodSink" where
  "MethodSink_new tx = \<lparr>ms_tx = tx, ms_max_response_size = - 1\<rparr>"

definition MethodSink_new_with_limit :: "nat \<Rightarrow> u32 \<Rightarrow> MethodSink" where
  "MethodSink_new_with_limit tx n = \<lparr>ms_tx = tx, ms_max_response_size = n\<rparr>"

definition MethodSink_is_closed :: "'c sink_ops \<Rightarrow> MethodSink \<Rightarrow> 'c \<Rightarrow> bool" where
  "MethodSink_is_closed ops s c = so_is_closed ops (ms_tx s) c"

definition MethodSink_try_send ::
  "'c sink_ops \<Rightarrow> MethodSink \<Rightarrow> string \<Rightarrow> 'c \<Rightarrow> (unit, TrySendError) result \<times> 'c" where
  "MethodSink_try_send ops s msg c = (case so_try_send ops (ms_tx s) msg c of
       (SendOk, c') \<Rightarrow> (Ok (), c')
     | (SendClosed, c') \<Rightarrow> (Err (TSClosed (Complete msg)), c')
     | (SendFull, c') \<Rightarrow> (Err (TSFull (Complete msg)), c'))"

definition MethodSink_send ::
  "'c sink_ops \<Rightarrow> MethodSink \<Rightarrow> string \<Rightarrow> 'c \<Rightarrow> (unit, DisconnectError) result \<times> 'c" where
  "MethodSink_send ops s msg c = (case so_send ops (ms_tx s) msg c of
       (True, c') \<Rightarrow> (Ok (), c')
     | (False, c') \<Rightarrow> (Err (DisconnectError (Complete msg)), c'))"

definition MethodSink_send_error ::
  "emitter \<Rightarrow> 'c sink_ops \<Rightarrow> MethodSink \<Rightarrow> Id \<Rightarrow> ErrorObject \<Rightarrow> 'c \<Rightarrow> (unit, DisconnectError) result \<times> 'c" where
  "MethodSink_send_error emit ops s i err c = MethodSink_send ops s (error_json emit i err) c"

definition MethodSink_send_timeout ::
  "'c sink_ops \<Rightarrow> MethodSink \<Rightarrow> string \<Rightarrow> nat \<Rightarrow> 'c \<Rightarrow> (unit, SendTimeoutError) result \<times> 'c" where
  "MethodSink_send_timeout ops s msg timeout c = (case so_send_timeout ops (ms_tx s) msg timeout c of
       (SentInTime, c') \<Rightarrow> (Ok (), c')
     | (SendTimedOut, c') \<Rightarrow> (Err (STTimeout (Complete msg)), c')
     | (SendTimeoutClosed, c') \<Rightarrow> (Err (STClosed (Complete msg)), c'))"

section \<open>Messages (subscription.rs, core/src/error.rs)\<close>

datatype SubscriptionError = SubErrString string | SubErrJson string

fun SubscriptionError_serialize :: "SubscriptionError \<Rightarrow> ser" where
  "SubscriptionError_serialize (SubErrString s) = SStr s"
| "SubscriptionError_serialize (SubErrJson json) = SRaw json"

datatype SubscriptionCloseResponse = CloseNone | CloseNotif SubMessage | CloseNotifErr SubscriptionError

fun result_into_close_response :: "(unit, SubscriptionError) result \<Rightarrow> SubscriptionCloseResponse" where
  "result_into_close_response (Inr _) = CloseNone"
| "result_into_close_response (Inl e) = CloseNotifErr e"

definition sub_message_json :: "string \<Rightarrow> SubscriptionId \<Rightarrow> ser \<Rightarrow> ser" where
  "sub_message_json meth sub_id result =
     Notification_serialize (SubscriptionPayload_serialize id)
       (Notification_new meth \<lparr>sp_subscription = sub_id, sp_result = result\<rparr>)"

definition SubscriptionMessage_new ::
  "emitter \<Rightarrow> string \<Rightarrow> SubscriptionId \<Rightarrow> ser \<Rightarrow> SubMessage option" where
  "SubscriptionMessage_new emit meth sub_id result =
     map_option Complete (to_raw_value emit (sub_message_json meth sub_id result))"

definition sub_message_to_json :: "emitter \<Rightarrow> SubMessage \<Rightarrow> SubscriptionId \<Rightarrow> string \<Rightarrow> string" where
  "sub_message_to_json emit msg sub_id meth = (case msg of
       Complete m \<Rightarrow> m
     | NeedsData result \<Rightarrow> expect_raw emit (sub_message_json meth sub_id (SRaw result)))"

definition sub_err_to_json :: "emitter \<Rightarrow> SubscriptionError \<Rightarrow> SubscriptionId \<Rightarrow> string \<Rightarrow> string" where
  "sub_err_to_json emit e sub_id meth =
     expect_raw emit (Notification_serialize (SubscriptionPayloadError_serialize SubscriptionError_serialize)
       (Notification_new meth \<lparr>spe_subscription = sub_id, spe_error = e\<rparr>))"

section \<open>The state of the subscriptions of a method\<close>

record SubscriptionKey =
  key_conn_id :: nat
  key_sub_id :: SubscriptionId

text \<open>
  \<open>st_permits\<close> is the number of free permits of the connection's semaphore, \<open>st_answers\<close> the
  responses handed to the oneshots of the subscribe calls.
\<close>

record 'c sub_state =
  st_conns :: 'c
  st_subscribers :: "SubscriptionKey \<rightharpoonup> MethodSink \<times> nat"
  st_closed :: "nat set"
  st_next :: nat
  st_permits :: nat
  st_answers :: "(nat \<times> MethodResponse) list"

record PendingSubscriptionSink =
  ps_inner :: MethodSink
  ps_method :: string
  ps_uniq_sub :: SubscriptionKey
  ps_id :: Id
  ps_subscribe :: nat

record SubscriptionSink =
  sk_inner :: MethodSink
  sk_method :: string
  sk_uniq_sub :: SubscriptionKey
  sk_unsubscribe :: nat

definition BoundedSubscriptions_acquire :: "'c sub_state \<Rightarrow> bool \<times> 'c sub_state" where
  "BoundedSubscriptions_acquire st =
     (if st_permits st > 0 then (True, st\<lparr>st_permits := st_permits st - 1\<rparr>) else (False, st))"

definition release_permit :: "'c sub_state \<Rightarrow> 'c sub_state" where
  "release_permit st = st\<lparr>st_permits := st_permits st + 1\<rparr>"

text \<open>Removing or replacing an entry of the table drops the receiver in it.\<close>

definition close_entry :: "SubscriptionKey \<Rightarrow> 'c sub_state \<Rightarrow> 'c sub_state" where
  "close_entry key st = (case st_subscribers st key of
       None \<Rightarrow> st
     | Some (_, k) \<Rightarrow> st\<lparr>st_closed := insert k (st_closed st)\<rparr>)"

definition subscribers_insert :: "SubscriptionKey \<Rightarrow> MethodSink \<times> nat \<Rightarrow> 'c sub_state \<Rightarrow> 'c sub_state" where
  "subscribers_insert key v st =
     (close_entry key st)\<lparr>st_subscribers := (st_subscribers st)(key \<mapsto> v)\<rparr>"

definition subscribers_remove :: "SubscriptionKey \<Rightarrow> 'c sub_state \<Rightarrow> bool \<times> 'c sub_state" where
  "subscribers_remove key st =
     (st_subscribers st key \<noteq> None,
      (close_entry key st)\<lparr>st_subscribers := (st_subscribers st)(key := None)\<rparr>)"

definition is_unsubscribed :: "nat \<Rightarrow> 'c sub_state \<Rightarrow> bool" where
  "is_unsubscribed k st = (k \<in> st_closed st)"

section \<open>Accepting and rejecting\<close>

text \<open>\<open>alive\<close> says whether the receiver of the subscribe call's oneshot still exists.\<close>

definition PendingSubscriptionSink_reject ::
  "emitter \<Rightarrow> 'c sink_ops \<Rightarrow> PendingSubscriptionSink \<Rightarrow> ErrorObject \<Rightarrow> 'c sub_state \<Rightarrow> 'c sub_state" where
  "PendingSubscriptionSink_reject emit ops p err st =
     (let rp = subscription_error emit (ps_id p) err;
          conns = snd (MethodSink_send ops (ps_inner p) (mr_json rp) (st_conns st)) in
      release_permit (st\<lparr>st_conns := conns, st_answers := st_answers st @ [(ps_subscribe p, rp)]\<rparr>))"

definition PendingSubscriptionSink_accept ::
  "emitter \<Rightarrow> 'c sink_ops \<Rightarrow> (nat \<Rightarrow> bool) \<Rightarrow> PendingSubscriptionSink \<Rightarrow> 'c sub_state \<Rightarrow>
     (SubscriptionSink, PendingSubscriptionAcceptError) result outcome \<times> 'c sub_state"
where
  "PendingSubscriptionSink_accept emit ops alive p st =
     (let response = subscription_response emit SubscriptionId_serialize (ps_id p)
            \<lparr>pl_inner = Success (key_sub_id (ps_uniq_sub p)), pl_on_exit = None\<rparr>
            (unat (ms_max_response_size (ps_inner p)));
          success = MethodResponse_is_success response;
          (sent, conns) = MethodSink_send ops (ps_inner p) (mr_json response) (st_conns st);
          st1 = st\<lparr>st_conns := conns\<rparr>
      in case sent of
        Inl _ \<Rightarrow> (Done (Err PendingSubscriptionAcceptError), release_permit st1)
      | Inr _ \<Rightarrow>
          if \<not> alive (ps_subscribe p) then (Done (Err PendingSubscriptionAcceptError), release_permit st1)
          else (let st2 = st1\<lparr>st_answers := st_answers st1 @ [(ps_subscribe p, response)]\<rparr> in
            if success then
              (let k = st_next st2;
                   st3 = subscribers_insert (ps_uniq_sub p) (ps_inner p, k) (st2\<lparr>st_next := k + 1\<rparr>) in
               (Done (Ok \<lparr>sk_inner = ps_inner p, sk_method = ps_method p, sk_uniq_sub = ps_uniq_sub p,
                          sk_unsubscribe = k\<rparr>), st3))
            else (Panicked, release_permit st2)))"

section \<open>Sinks of accepted subscriptions\<close>

definition is_active_subscription :: "SubscriptionSink \<Rightarrow> 'c sub_state \<Rightarrow> bool" where
  "is_active_subscription s st = (\<not> is_unsubscribed (sk_unsubscribe s) st)"

definition SubscriptionSink_is_closed :: "'c sink_ops \<Rightarrow> SubscriptionSink \<Rightarrow> 'c sub_state \<Rightarrow> bool" where
  "SubscriptionSink_is_closed ops s st =
     (MethodSink_is_closed ops (sk_inner s) (st_conns st) \<or> \<not> is_active_subscription s st)"

definition SubscriptionSink_send ::
  "emitter \<Rightarrow> 'c sink_ops \<Rightarrow> SubscriptionSink \<Rightarrow> SubMessage \<Rightarrow> 'c sub_state \<Rightarrow>
     (unit, DisconnectError) result \<times> 'c sub_state"
where
  "SubscriptionSink_send emit ops s msg st =
     (if SubscriptionSink_is_closed ops s st then (Err (DisconnectError msg), st)
      else (let json = sub_message_to_json emit msg (key_sub_id (sk_uniq_sub s)) (sk_method s);
                (r, conns) = MethodSink_send ops (sk_inner s) json (st_conns st)
            in (r, st\<lparr>st_conns := conns\<rparr>)))"

definition SubscriptionSink_send_timeout ::
  "emitter \<Rightarrow> 'c sink_ops \<Rightarrow> SubscriptionSink \<Rightarrow> SubMessage \<Rightarrow> nat \<Rightarrow> 'c sub_state \<Rightarrow>
     (unit, SendTimeoutError) result \<times> 'c sub_state"
where
  "SubscriptionSink_send_timeout emit ops s msg timeout st =
     (if SubscriptionSink_is_closed ops s st then (Err (STClosed msg), st)
      else (let json = sub_message_to_json emit msg (key_sub_id (sk_uniq_sub s)) (sk_method s);
                (r, conns) = MethodSink_send_timeout ops (sk_inner s) json timeout (st_conns st)
            in (r, st\<lparr>st_conns := conns\<rparr>)))"

definition SubscriptionSink_try_send ::
  "emitter \<Rightarrow> 'c sink_ops \<Rightarrow> SubscriptionSink \<Rightarrow> SubMessage \<Rightarrow> 'c sub_state \<Rightarrow>
     (unit, TrySendError) result \<times> 'c sub_state"
where
  "SubscriptionSink_try_send emit ops s msg st =
     (if SubscriptionSink_is_closed ops s st then (Err (TSClosed msg), st)
      else (let json = sub_message_to_json emit msg (key_sub_id (sk_uniq_sub s)) (sk_method s);
                (r, conns) = MethodSink_try_send ops (sk_inner s) json (st_conns st)
            in (r, st\<lparr>st_conns := conns\<rparr>)))"

definition SubscriptionSink_drop :: "SubscriptionSink \<Rightarrow> 'c sub_state \<Rightarrow> 'c sub_state" where
  "SubscriptionSink_drop s st =
     (if is_active_subscription s st then snd (subscribers_remove (sk_uniq_sub s) st) else st)"

section \<open>Life of the subscriptions of a connection\<close>

text \<open>
  The pending subscriptions and the sinks that user code holds. \<open>w_sinks\<close> gives for the channel of an
  accepted subscription its sink and the number of its clones, which share one permit.
\<close>

record 'c sub_world =
  w_state :: "'c sub_state"
  w_pending :: "PendingSubscriptionSink list"
  w_sinks :: "nat \<rightharpoonup> SubscriptionSink \<times> nat"

definition world_new :: "'c \<Rightarrow> nat \<Rightarrow> 'c sub_world" where
  "world_new conns max_subscriptions = \<lparr>w_state = \<lparr>st_conns = conns, st_subscribers = Map.empty, st_closed = {},
     st_next = 0, st_permits = max_subscriptions, st_answers = []\<rparr>, w_pending = [], w_sinks = Map.empty\<rparr>"

definition world_accept ::
  "emitter \<Rightarrow> 'c sink_ops \<Rightarrow> (nat \<Rightarrow> bool) \<Rightarrow> PendingSubscriptionSink \<Rightarrow> 'c sub_world \<Rightarrow> 'c sub_world" where
  "world_accept emit ops alive p w =
     (case PendingSubscriptionSink_accept emit ops alive p (w_state w) of
       (Done (Inr s), st) \<Rightarrow> w\<lparr>w_state := st, w_pending := remove1 p (w_pending w),
                              w_sinks := (w_sinks w)(sk_unsubscribe s \<mapsto> (s, 1))\<rparr>
     | (_, st) \<Rightarrow> w\<lparr>w_state := st, w_pending := remove1 p (w_pending w)\<rparr>)"

definition world_drop :: "nat \<Rightarrow> SubscriptionSink \<Rightarrow> nat \<Rightarrow> 'c sub_world \<Rightarrow> 'c sub_world" where
  "world_drop k s n w =
     (let st = SubscriptionSink_drop s (w_state w) in
      if n > 1 then w\<lparr>w_state := st, w_sinks := (w_sinks w)(k \<mapsto> (s, n - 1))\<rparr>
      else w\<lparr>w_state := release_permit st, w_sinks := (w_sinks w)(k := None)\<rparr>)"

inductive sub_step :: "emitter \<Rightarrow> 'c sink_ops \<Rightarrow> (nat \<Rightarrow> bool) \<Rightarrow> 'c sub_world \<Rightarrow> 'c sub_world \<Rightarrow> bool"
  for emit ops alive where
  subscribe: "BoundedSubscriptions_acquire (w_state w) = (True, st) \<Longrightarrow>
    sub_step emit ops alive w (w\<lparr>w_state := st, w_pending := p # w_pending w\<rparr>)"
| accept: "p \<in> set (w_pending w) \<Longrightarrow> sub_step emit ops alive w (world_accept emit ops alive p w)"
| reject: "p \<in> set (w_pending w) \<Longrightarrow>
    sub_step emit ops alive w (w\<lparr>w_state := PendingSubscriptionSink_reject emit ops p err (w_state w),
      w_pending := remove1 p (w_pending w)\<rparr>)"
| drop_pending: "p \<in> set (w_pending w) \<Longrightarrow>
    sub_step emit ops alive w (w\<lparr>w_state := release_permit (w_state w), w_pending := remove1 p (w_pending w)\<rparr>)"
| clone: "w_sinks w k = Some (s, n) \<Longrightarrow> sub_step emit ops alive w (w\<lparr>w_sinks := (w_sinks w)(k \<mapsto> (s, n + 1))\<rparr>)"
| drop: "w_sinks w k = Some (s, n) \<Longrightarrow> sub_step emit ops alive w (world_drop k s n w)"
| send: "w_sinks w k = Some (s, n) \<Longrightarrow>
    sub_step emit ops alive w (w\<lparr>w_state := snd (SubscriptionSink_send emit ops s msg (w_state w))\<rparr>)"
| unsubscribe: "sub_step emit ops alive w (w\<lparr>w_state := snd (subscribers_remove key (w_state w))\<rparr>)"
| transport: "sub_step emit ops alive w (w\<lparr>w_state := (w_state w)\<lparr>st_conns := c\<rparr>\<rparr>)"

inductive sub_reachable ::
  "emitter \<Rightarrow> 'c sink_ops \<Rightarrow> (nat \<Rightarrow> bool) \<Rightarrow> nat \<Rightarrow> 'c sub_world \<Rightarrow> bool" for emit ops alive n where
  start: "sub_reachable emit ops alive n (world_new c n)"
| step: "sub_reachable emit ops alive n w \<Longrightarrow> sub_step emit ops alive w w' \<Longrightarrow> sub_reachable emit ops alive n w'"

text \<open>
  Permits are accounted for, and the table has an entry for exactly those sinks whose channel is
  still open.
\<close>

definition sub_inv :: "nat \<Rightarrow> 'c sub_world \<Rightarrow> bool" where
  "sub_inv n w \<longleftrightarrow> finite (dom (w_sinks w)) \<and>
     st_permits (w_state w) + length (w_pending w) + card (dom (w_sinks w)) = n \<and>
     (\<forall>k s m. w_sinks w k = Some (s, m) \<longrightarrow> sk_unsubscribe s = k \<and> k < st_next (w_state w) \<and> 0 < m \<and>
        (k \<notin> st_closed (w_state w) \<longrightarrow> st_subscribers (w_state w) (sk_uniq_sub s) = Some (sk_inner s, k))) \<and>
     (\<forall>key i k. st_subscribers (w_state w) key = Some (i, k) \<longrightarrow> k \<notin> st_closed (w_state w) \<and>
        (\<exists>s m. w_sinks w k = Some (s, m) \<and> sk_uniq_sub s = key)) \<and>
     (\<forall>k \<in> st_closed (w_state w). k < st_next (w_state w))"

lemma sub_inv_new: "sub_inv n (world_new c n)"
  by (simp add: sub_inv_def world_new_def)

text \<open>Changes that leave the table, the channels and the permits alone.\<close>

lemma sub_inv_frame:
  assumes "sub_inv n w" "w_sinks w' = w_sinks w" "st_subscribers (w_state w') = st_subscribers (w_state w)"
    "st_closed (w_state w') = st_closed (w_state w)" "st_next (w_state w') = st_next (w_state w)"
    "st_permits (w_state w') + length (w_pending w') = st_permits (w_state w) + length (w_pending w)"
  shows "sub_inv n w'"
  using assms by (simp add: sub_inv_def)

lemma length_remove1_mem: "p \<in> set xs \<Longrightarrow> Suc (length (remove1 p xs)) = length xs"
  by (induction xs) auto

lemma sub_inv_permits:
  assumes "sub_inv n w"
  shows "finite (dom (w_sinks w))"
    and "st_permits (w_state w) + length (w_pending w) + card (dom (w_sinks w)) = n"
  using assms by (simp_all add: sub_inv_def)

lemma sub_inv_sink:
  assumes "sub_inv n w" "w_sinks w k = Some (s, m)"
  shows "sk_unsubscribe s = k" "k < st_next (w_state w)" "0 < m"
    and "k \<notin> st_closed (w_state w) \<Longrightarrow> st_subscribers (w_state w) (sk_uniq_sub s) = Some (sk_inner s, k)"
  using assms by (auto simp: sub_inv_def)

lemma sub_inv_entry:
  assumes "sub_inv n w" "st_subscribers (w_state w) key = Some (i, k)"
  shows "k \<notin> st_closed (w_state w)" and "\<exists>s m. w_sinks w k = Some (s, m) \<and> sk_uniq_sub s = key"
  using assms by (auto simp: sub_inv_def)

lemma sub_inv_remove:
  assumes inv: "sub_inv n w"
  shows "sub_inv n (w\<lparr>w_state := snd (subscribers_remove key (w_state w))\<rparr>)"
proof (cases "st_subscribers (w_state w) key")
  case None
  then show ?thesis
    using inv by (intro sub_inv_frame [OF inv]) (auto simp: subscribers_remove_def close_entry_def)
next
  case (Some v)
  obtain i k where v: "v = (i, k)" by (cases v)
  obtain s m where s: "w_sinks w k = Some (s, m)" "sk_uniq_sub s = key"
    using sub_inv_entry(2) [OF inv] Some v by blast
  let ?st = "snd (subscribers_remove key (w_state w))"
  have st: "st_subscribers ?st = (st_subscribers (w_state w))(key := None)"
    "st_closed ?st = insert k (st_closed (w_state w))" "st_next ?st = st_next (w_state w)"
    "st_permits ?st = st_permits (w_state w)"
    using Some v by (simp_all add: subscribers_remove_def close_entry_def)
  have other: "k' \<noteq> k" if "st_subscribers (w_state w) key' = Some (i', k')" "key' \<noteq> key" for key' i' k'
    using sub_inv_entry(2) [OF inv that(1)] s that(2) by auto
  have open': "st_subscribers (w_state w) (sk_uniq_sub s') = Some (sk_inner s', k') \<and> sk_uniq_sub s' \<noteq> key"
    if "w_sinks w k' = Some (s', m')" "k' \<notin> st_closed (w_state w)" "k' \<noteq> k" for k' s' m'
    using sub_inv_sink(4) [OF inv that(1,2)] Some v that(3) by auto
  show ?thesis
    using inv other open' sub_inv_sink(2) [OF inv s(1)] sub_inv_entry [OF inv]
    unfolding sub_inv_def by (auto simp: st)
qed

lemma sub_inv_add:
  assumes inv: "sub_inv n w" and p: "p \<in> set (w_pending w)"
    and s: "sk_uniq_sub s = key" "sk_inner s = i" "sk_unsubscribe s = st_next (w_state w)"
    and st: "st_subscribers st = (st_subscribers (w_state w))(key \<mapsto> (i, st_next (w_state w)))"
      "st_closed st = (case st_subscribers (w_state w) key of
         None \<Rightarrow> st_closed (w_state w) | Some (_, k) \<Rightarrow> insert k (st_closed (w_state w)))"
      "st_next st = st_next (w_state w) + 1" "st_permits st = st_permits (w_state w)"
  shows "sub_inv n (w\<lparr>w_state := st, w_pending := remove1 p (w_pending w),
    w_sinks := (w_sinks w)(st_next (w_state w) \<mapsto> (s, 1))\<rparr>)" (is "sub_inv n ?w")
proof -
  let ?k = "st_next (w_state w)"
  have fresh: "w_sinks w ?k = None"
    using sub_inv_sink(2) [OF inv, of ?k] by (cases "w_sinks w ?k") auto
  have fin: "finite (dom (w_sinks w))" using inv by (simp add: sub_inv_def)
  have dom: "dom (w_sinks ?w) = insert ?k (dom (w_sinks w))" by auto
  have kc: "?k \<notin> st_closed st"
    using inv sub_inv_entry(2) [OF inv] fresh by (fastforce simp: st sub_inv_def split: option.splits)
  have "card (insert ?k (dom (w_sinks w))) = Suc (card (dom (w_sinks w)))"
    using fresh fin by (simp add: domIff)
  then have permits: "st_permits st + length (remove1 p (w_pending w)) + card (dom (w_sinks ?w)) = n"
    unfolding dom using sub_inv_permits(2) [OF inv] length_remove1_mem [OF p] st(4) by linarith
  have closed_old: "\<exists>i'. st_subscribers (w_state w) key = Some (i', k')"
    if "k' \<in> st_closed st" "k' \<notin> st_closed (w_state w)" for k'
    using that by (auto simp: st split: option.splits)
  have uniq: "key' = key" if "st_subscribers (w_state w) key' = Some (i', k')" "st_subscribers (w_state w) key = Some (i'', k')"
    for key' i' i'' k'
    using sub_inv_entry(2) [OF inv that(1)] sub_inv_entry(2) [OF inv that(2)] by auto
  have sinks: "sk_unsubscribe s' = k' \<and> k' < st_next st \<and> 0 < m \<and>
      (k' \<notin> st_closed st \<longrightarrow> st_subscribers st (sk_uniq_sub s') = Some (sk_inner s', k'))"
    if "w_sinks ?w k' = Some (s', m)" for k' s' m
  proof (cases "k' = ?k")
    case True
    with that s st show ?thesis by auto
  next
    case False
    with that have w: "w_sinks w k' = Some (s', m)" by simp
    have "sk_uniq_sub s' \<noteq> key" if "k' \<notin> st_closed st"
    proof
      assume "sk_uniq_sub s' = key"
      moreover have "k' \<notin> st_closed (w_state w)" using that by (auto simp: st split: option.splits)
      ultimately have "st_subscribers (w_state w) key = Some (sk_inner s', k')"
        using sub_inv_sink(4) [OF inv w] by simp
      with that show False by (simp add: st)
    qed
    moreover have "st_closed (w_state w) \<subseteq> st_closed st" by (auto simp: st split: option.splits)
    ultimately show ?thesis using sub_inv_sink [OF inv w] by (auto simp: st(1,3))
  qed
  have entries: "k' \<notin> st_closed st \<and> (\<exists>s' m. w_sinks ?w k' = Some (s', m) \<and> sk_uniq_sub s' = key')"
    if "st_subscribers st key' = Some (i', k')" for key' i' k'
  proof (cases "key' = key")
    case True
    with that st(1) have "k' = ?k" by simp
    with kc True s show ?thesis by simp
  next
    case False
    with that st(1) have w: "st_subscribers (w_state w) key' = Some (i', k')" by simp
    from sub_inv_entry [OF inv w] closed_old [of k'] uniq [OF w] False fresh show ?thesis by auto
  qed
  have old: "k' < ?k" if "st_subscribers (w_state w) key = Some (i', k')" for i' k'
    using sub_inv_entry(2) [OF inv that] sub_inv_sink(2) [OF inv] by blast
  have "\<forall>k' \<in> st_closed (w_state w). k' < ?k" using inv by (simp add: sub_inv_def)
  then have "\<forall>k' \<in> st_closed st. k' < st_next st"
    using old by (auto simp: st less_Suc_eq split: option.splits)
  with fin dom permits sinks entries show ?thesis unfolding sub_inv_def by simp
qed

lemma sub_inv_accept:
  assumes inv: "sub_inv n w" and p: "p \<in> set (w_pending w)"
  shows "sub_inv n (world_accept emit ops alive p w)"
proof -
  obtain r st where a: "PendingSubscriptionSink_accept emit ops alive p (w_state w) = (r, st)" by fastforce
  show ?thesis
  proof (cases "\<exists>s. r = Done (Inr s)")
    case True
    then obtain s where r: "r = Done (Inr s)" ..
    from a r have s: "sk_uniq_sub s = ps_uniq_sub p" "sk_inner s = ps_inner p"
      "sk_unsubscribe s = st_next (w_state w)"
      and st: "st_subscribers st = (st_subscribers (w_state w))(ps_uniq_sub p \<mapsto> (ps_inner p, st_next (w_state w)))"
      "st_closed st = (case st_subscribers (w_state w) (ps_uniq_sub p) of
         None \<Rightarrow> st_closed (w_state w) | Some (_, k) \<Rightarrow> insert k (st_closed (w_state w)))"
      "st_next st = st_next (w_state w) + 1" "st_permits st = st_permits (w_state w)"
      by (auto simp: PendingSubscriptionSink_accept_def Let_def subscribers_insert_def close_entry_def
          split: prod.splits sum.splits if_splits option.splits)
    from sub_inv_add [OF inv p s st] a r s show ?thesis by (simp add: world_accept_def)
  next
    case False
    with a have st: "st_subscribers st = st_subscribers (w_state w)" "st_closed st = st_closed (w_state w)"
      "st_next st = st_next (w_state w)" "st_permits st = st_permits (w_state w) + 1"
      by (auto simp: PendingSubscriptionSink_accept_def Let_def release_permit_def
          split: prod.splits sum.splits if_splits)
    have w': "world_accept emit ops alive p w = w\<lparr>w_state := st, w_pending := remove1 p (w_pending w)\<rparr>"
      using a False by (auto simp: world_accept_def split: outcome.splits sum.splits)
    show ?thesis unfolding w'
      by (intro sub_inv_frame [OF inv]) (use length_remove1_mem [OF p] in \<open>auto simp: st\<close>)
  qed
qed

lemma sub_inv_count:
  assumes inv: "sub_inv n w" and k: "w_sinks w k = Some (s, m)" and m': "0 < m'"
  shows "sub_inv n (w\<lparr>w_sinks := (w_sinks w)(k \<mapsto> (s, m'))\<rparr>)"
proof -
  have "dom ((w_sinks w)(k \<mapsto> (s, m'))) = dom (w_sinks w)" using k by auto
  moreover have "\<exists>s' m''. ((w_sinks w)(k \<mapsto> (s, m'))) k' = Some (s', m'') \<and> sk_uniq_sub s' = key"
    if "st_subscribers (w_state w) key = Some (i, k')" for key i k'
    using sub_inv_entry(2) [OF inv that] k by (cases "k' = k") auto
  ultimately show ?thesis
    using inv sub_inv_sink [OF inv k] m' unfolding sub_inv_def by auto
qed

lemma sub_inv_drop:
  assumes inv: "sub_inv n w" and k: "w_sinks w k = Some (s, m)"
  shows "sub_inv n (world_drop k s m w)"
proof -
  have inv1: "sub_inv n (w\<lparr>w_state := SubscriptionSink_drop s (w_state w)\<rparr>)"
    using sub_inv_remove [OF inv] inv by (auto simp: SubscriptionSink_drop_def)
  let ?st = "SubscriptionSink_drop s (w_state w)"
  have closed: "k \<in> st_closed ?st"
    using sub_inv_sink [OF inv k]
    by (auto simp: SubscriptionSink_drop_def is_active_subscription_def is_unsubscribed_def
        subscribers_remove_def close_entry_def)
  have noent: "st_subscribers ?st key \<noteq> Some (i, k)" for key i
    using sub_inv_entry(1) [OF inv1] closed by auto
  show ?thesis
  proof (cases "m > 1")
    case True
    then have "world_drop k s m w = (w\<lparr>w_state := ?st\<rparr>)\<lparr>w_sinks := (w_sinks w)(k \<mapsto> (s, m - 1))\<rparr>"
      by (simp add: world_drop_def)
    with sub_inv_count [OF inv1, of k s m "m - 1"] k True show ?thesis by simp
  next
    case False
    have card: "card (dom (w_sinks w)) = Suc (card (dom ((w_sinks w)(k := None))))"
      using k card.remove [OF sub_inv_permits(1) [OF inv], of k] by (simp add: domI)
    from False have "world_drop k s m w = (w\<lparr>w_state := release_permit ?st, w_sinks := (w_sinks w)(k := None)\<rparr>)"
      by (simp add: world_drop_def)
    with inv1 noent card show ?thesis unfolding sub_inv_def
      by (auto simp: release_permit_def split: if_splits)
  qed
qed

lemma sub_step_inv: "sub_step emit ops alive w w' \<Longrightarrow> sub_inv n w \<Longrightarrow> sub_inv n w'"
proof (induction rule: sub_step.induct)
  case (subscribe w st p)
  then show ?case
    by (intro sub_inv_frame [OF subscribe.prems])
       (auto simp: BoundedSubscriptions_acquire_def split: if_splits)
next
  case (accept p w)
  then show ?case by (simp add: sub_inv_accept)
next
  case (reject p w err)
  with length_remove1_mem [OF reject(1)] show ?case
    by (intro sub_inv_frame [OF reject.prems])
       (auto simp: PendingSubscriptionSink_reject_def release_permit_def Let_def)
next
  case (drop_pending p w)
  with length_remove1_mem [OF drop_pending(1)] show ?case
    by (intro sub_inv_frame [OF drop_pending.prems]) (auto simp: release_permit_def)
next
  case (clone w k s m)
  then show ?case by (intro sub_inv_count) auto
next
  case (drop w k s m)
  then show ?case by (simp add: sub_inv_drop)
next
  case (send w k s m msg)
  then show ?case
    by (intro sub_inv_frame [OF send.prems]) (auto simp: SubscriptionSink_send_def Let_def split_beta)
next
  case (unsubscribe w key)
  then show ?case by (simp add: sub_inv_remove)
next
  case (transport w c)
  then show ?case by (intro sub_inv_frame [OF transport.prems]) auto
qed

lemma sub_reachable_inv: "sub_reachable emit ops alive n w \<Longrightarrow> sub_inv n w"
  by (induction rule: sub_reachable.induct) (auto intro: sub_inv_new sub_step_inv)

lemma remove_closes:
  assumes "sub_inv n w" "w_sinks w k = Some (s, m)"
  shows "\<not> is_active_subscription s (snd (subscribers_remove (sk_uniq_sub s) (w_state w)))"
proof (cases "k \<in> st_closed (w_state w)")
  case True
  with sub_inv_sink(1) [OF assms] show ?thesis
    by (auto simp: is_active_subscription_def is_unsubscribed_def subscribers_remove_def close_entry_def
        split: option.splits)
next
  case False
  with sub_inv_sink(1,4) [OF assms] show ?thesis
    by (simp add: is_active_subscription_def is_unsubscribed_def subscribers_remove_def close_entry_def)
qed

lemma subscribers_card:
  assumes inv: "sub_inv n w"
  shows "finite (dom (st_subscribers (w_state w))) \<and>
    card (dom (st_subscribers (w_state w))) \<le> card (dom (w_sinks w))"
proof -
  let ?S = "st_subscribers (w_state w)"
  let ?f = "\<lambda>key. snd (the (?S key))"
  have inj: "inj_on ?f (dom ?S)"
  proof (rule inj_onI)
    fix a b assume "a \<in> dom ?S" "b \<in> dom ?S" "?f a = ?f b"
    then obtain i j k where "?S a = Some (i, k)" "?S b = Some (j, k)" by auto
    from sub_inv_entry(2) [OF inv this(1)] sub_inv_entry(2) [OF inv this(2)] show "a = b" by auto
  qed
  have sub: "?f ` dom ?S \<subseteq> dom (w_sinks w)"
  proof
    fix k assume "k \<in> ?f ` dom ?S"
    then obtain key i where "?S key = Some (i, k)" by auto
    from sub_inv_entry(2) [OF inv this] show "k \<in> dom (w_sinks w)" by auto
  qed
  from sub sub_inv_permits(1) [OF inv] have fin: "finite (?f ` dom ?S)" by (rule finite_subset)
  from this inj have "finite (dom ?S)" by (rule finite_imageD)
  moreover have "card (dom ?S) = card (?f ` dom ?S)" using inj by (simp add: card_image)
  ultimately show ?thesis using card_mono [OF sub_inv_permits(1) [OF inv] sub] by simp
qed

section \<open>Properties\<close>

text \<open>C11. A connection never has more subscriptions than its limit: in every reachable state the
  pending subscriptions and the accepted ones that still have a sink are at most \<open>n\<close>, together with
  the free permits they are exactly \<open>n\<close>, and the table of active subscribers is no larger.\<close>

theorem subscription_limit:
  assumes "sub_reachable emit ops alive n w"
  shows "st_permits (w_state w) + length (w_pending w) + card (dom (w_sinks w)) = n \<and>
    card (dom (st_subscribers (w_state w))) \<le> n"
  using sub_inv_permits [OF sub_reachable_inv [OF assms]] subscribers_card [OF sub_reachable_inv [OF assms]]
  by linarith

definition null_ops :: "unit sink_ops" where
  "null_ops = \<lparr>so_send = (\<lambda>_ _ c. (True, c)), so_try_send = (\<lambda>_ _ c. (SendOk, c)),
     so_send_timeout = (\<lambda>_ _ _ c. (SentInTime, c)), so_is_closed = (\<lambda>_ _. False)\<rparr>"

theorem subscription_limit_witness:
  "st_permits (w_state (world_new () 3)) + length (w_pending (world_new () 3)) +
     card (dom (w_sinks (world_new () 3))) = 3"
proof -
  have "sub_reachable json_emit null_ops (\<lambda>_. True) 3 (world_new () 3)" by (rule sub_reachable.start)
  from subscription_limit [OF this] show ?thesis by blast
qed

text \<open>An unsubscribe call answers \<open>true\<close> exactly when the subscription is in the table; the sink of
  that subscription is closed from then on, sending on it returns the message, and a second
  unsubscribe answers \<open>false\<close>. Sinks of other subscriptions stay as they were.\<close>

lemma unsubscribe_closes:
  assumes "sub_reachable emit ops alive n w" and "w_sinks w k = Some (s, m)" and "w_sinks w k' = Some (s', m')"
  shows "let (removed, st) = subscribers_remove (sk_uniq_sub s) (w_state w) in
    removed = (\<exists>k2 s2 m2. w_sinks w k2 = Some (s2, m2) \<and> sk_uniq_sub s2 = sk_uniq_sub s \<and>
       is_active_subscription s2 (w_state w)) \<and>
    SubscriptionSink_send emit ops s msg st = (Inl (DisconnectError msg), st) \<and>
    fst (subscribers_remove (sk_uniq_sub s) st) = False \<and>
    (sk_uniq_sub s' \<noteq> sk_uniq_sub s \<longrightarrow> is_active_subscription s' st = is_active_subscription s' (w_state w))"
proof -
  note inv = sub_reachable_inv [OF assms(1)]
  let ?key = "sk_uniq_sub s" and ?S = "st_subscribers (w_state w)"
  let ?st = "snd (subscribers_remove ?key (w_state w))"
  have rem: "fst (subscribers_remove ?key (w_state w)) = (?S ?key \<noteq> None)"
    by (simp add: subscribers_remove_def)
  have act: "(?S ?key \<noteq> None) = (\<exists>k2 s2 m2. w_sinks w k2 = Some (s2, m2) \<and> sk_uniq_sub s2 = ?key \<and>
      is_active_subscription s2 (w_state w))"
  proof
    assume "?S ?key \<noteq> None"
    then obtain i k2 where e: "?S ?key = Some (i, k2)" by auto
    from sub_inv_entry [OF inv e] obtain s2 m2 where "w_sinks w k2 = Some (s2, m2)" "sk_uniq_sub s2 = ?key"
      "k2 \<notin> st_closed (w_state w)" by blast
    with sub_inv_sink(1) [OF inv this(1)]
    show "\<exists>k2 s2 m2. w_sinks w k2 = Some (s2, m2) \<and> sk_uniq_sub s2 = ?key \<and> is_active_subscription s2 (w_state w)"
      by (auto simp: is_active_subscription_def is_unsubscribed_def)
  next
    assume "\<exists>k2 s2 m2. w_sinks w k2 = Some (s2, m2) \<and> sk_uniq_sub s2 = ?key \<and> is_active_subscription s2 (w_state w)"
    then obtain k2 s2 m2 where s2: "w_sinks w k2 = Some (s2, m2)" "sk_uniq_sub s2 = ?key"
      "sk_unsubscribe s2 \<notin> st_closed (w_state w)"
      by (auto simp: is_active_subscription_def is_unsubscribed_def)
    from sub_inv_sink(1,4) [OF inv s2(1)] s2 show "?S ?key \<noteq> None" by auto
  qed
  note closed = remove_closes [OF inv assms(2)]
  have other: "is_active_subscription s' ?st = is_active_subscription s' (w_state w)" if "sk_uniq_sub s' \<noteq> ?key"
    using that sub_inv_sink(1,4) [OF inv assms(3)] sub_inv_entry(2) [OF inv, of ?key] assms(3)
    by (auto simp: is_active_subscription_def is_unsubscribed_def subscribers_remove_def close_entry_def
        split: option.splits)
  show ?thesis
    using rem act closed other
    by (auto simp: split_beta SubscriptionSink_send_def SubscriptionSink_is_closed_def subscribers_remove_def)
qed

definition example_pending :: PendingSubscriptionSink where
  "example_pending = \<lparr>ps_inner = MethodSink_new_with_limit 0 1000, ps_method = ''m'',
     ps_uniq_sub = \<lparr>key_conn_id = 0, key_sub_id = Num 5\<rparr>, ps_id = Number 1, ps_subscribe = 0\<rparr>"

text \<open>Clones of a sink share one table entry, and dropping any one of them removes it: the
  remaining clones are closed and their messages are refused, although user code still holds them
  and nobody unsubscribed.\<close>

lemma dropping_a_clone_closes_all:
  assumes "sub_reachable emit ops alive n w" and "w_sinks w k = Some (s, m)" and "2 \<le> m"
  shows "let w' = world_drop k s m w in w_sinks w' k = Some (s, m - 1) \<and>
    SubscriptionSink_is_closed ops s (w_state w') \<and>
    SubscriptionSink_send emit ops s msg (w_state w') = (Inl (DisconnectError msg), w_state w')"
proof -
  note inv = sub_reachable_inv [OF assms(1)]
  have "\<not> is_active_subscription s (SubscriptionSink_drop s (w_state w))"
    using remove_closes [OF inv assms(2)] by (simp add: SubscriptionSink_drop_def)
  with assms(3) show ?thesis
    by (simp add: world_drop_def Let_def SubscriptionSink_is_closed_def SubscriptionSink_send_def)
qed

text \<open>Accepting a subscription answers the subscribe call exactly once and registers the sink
  under its key when the response fits the limit; it panics when the response is too large, after
  the error was sent, and fails without registering when the connection or the call is gone.\<close>

lemma accept_spec:
  "let response = subscription_response emit SubscriptionId_serialize (ps_id p)
         \<lparr>pl_inner = Success (key_sub_id (ps_uniq_sub p)), pl_on_exit = None\<rparr>
         (unat (ms_max_response_size (ps_inner p)));
       sent = fst (so_send ops (ms_tx (ps_inner p)) (mr_json response) (st_conns st));
       (r, st') = PendingSubscriptionSink_accept emit ops alive p st
   in (case r of
        Done (Inr s) \<Rightarrow> sent \<and> alive (ps_subscribe p) \<and> MethodResponse_is_success response \<and>
          st_subscribers st' = (st_subscribers st)(ps_uniq_sub p \<mapsto> (ps_inner p, sk_unsubscribe s)) \<and>
          sk_unsubscribe s = st_next st \<and> st_answers st' = st_answers st @ [(ps_subscribe p, response)]
      | Done (Inl _) \<Rightarrow> (\<not> sent \<or> \<not> alive (ps_subscribe p)) \<and> st_subscribers st' = st_subscribers st \<and>
          st_answers st' = st_answers st \<and> st_permits st' = st_permits st + 1
      | Panicked \<Rightarrow> sent \<and> alive (ps_subscribe p) \<and> MethodResponse_is_error response \<and>
          st_subscribers st' = st_subscribers st \<and> st_answers st' = st_answers st @ [(ps_subscribe p, response)])"
  by (auto simp: PendingSubscriptionSink_accept_def Let_def MethodSink_send_def release_permit_def
      subscribers_insert_def close_entry_def MethodResponse_is_success_def MethodResponse_is_error_def
      split: prod.splits bool.splits option.splits MethodResponseResult.splits)

end
