(* ===== verification/Rpc_Module.thy ===== *)
theory Rpc_Module
  imports Subscription_Server
begin

text \<open>
  \<open>core/src/server/rpc_module.rs\<close> and the conversions of \<open>core/src/server/mod.rs\<close>: the table of
  methods, their registration, the callbacks that registration builds around user code, and calls
  on a module without a server.

  A callback is a function on the state of the server. An awaited future is its final outcome
  together with everything that happened in the meantime; user code is a parameter. The iteration
  order of a hash map is an argument, too.
\<close>

section \<open>The state callbacks work on\<close>

text \<open>
  Every registration of a subscription makes a table of its own, so there is one table per
  address; the channels, permits and answers are those of \<^typ>\<open>'c sub_state\<close>. \<open>wd_accepted\<close> are the
  subscriptions whose task was told that the call was accepted, \<open>wd_notified\<close> the completion notices.
\<close>

record ('c, 'u) server_world =
  wd_conns :: 'c
  wd_tables :: "nat \<Rightarrow> SubscriptionKey \<rightharpoonup> MethodSink \<times> nat"
  wd_closed :: "nat set"
  wd_next :: nat
  wd_permits :: nat
  wd_answers :: "(nat \<times> MethodResponse) list"
  wd_accepted :: "nat set"
  wd_notified :: "(nat \<times> NotifyMsg) list"
  wd_user :: 'u

definition table_get :: "nat \<Rightarrow> ('c, 'u) server_world \<Rightarrow> 'c sub_state" where
  "table_get t w = \<lparr>st_conns = wd_conns w, st_subscribers = wd_tables w t, st_closed = wd_closed w,
     st_next = wd_next w, st_permits = wd_permits w, st_answers = wd_answers w\<rparr>"

definition table_put :: "nat \<Rightarrow> 'c sub_state \<Rightarrow> ('c, 'u) server_world \<Rightarrow> ('c, 'u) server_world" where
  "table_put t st w = w\<lparr>wd_conns := st_conns st, wd_tables := (wd_tables w)(t := st_subscribers st),
     wd_closed := st_closed st, wd_next := st_next st, wd_permits := st_permits st,
     wd_answers := st_answers st\<rparr>"

text \<open>A part of a state that can be read and replaced.\<close>

locale part_of_state =
  fixes get :: "'s \<Rightarrow> 'p" and put :: "'p \<Rightarrow> 's \<Rightarrow> 's"
  assumes get_put: "get (put p s) = p"
    and put_get: "put (get s) s = s"
    and put_put: "put p (put q s) = put p s"
begin

lemma update_compose: "put (f (get (put (g (get s)) s))) (put (g (get s)) s) = put (f (g (get s))) s"
  by (simp add: get_put put_put)

lemma unchanged: "f (get s) = get s \<Longrightarrow> put (f (get s)) s = s"
  by (simp add: put_get)

end

interpretation table: part_of_state "table_get t" "table_put t"
  by unfold_locales (simp_all add: table_get_def table_put_def)

section \<open>Results of user code (mod.rs)\<close>

definition payload_from :: "'t ResponsePayload \<Rightarrow> 't ServerPayload" where
  "payload_from inner = \<lparr>pl_inner = inner, pl_on_exit = None\<rparr>"

definition payload_success :: "'t \<Rightarrow> 't ServerPayload" where
  "payload_success t = payload_from (Success t)"

definition payload_error :: "ErrorObject \<Rightarrow> 't ServerPayload" where
  "payload_error e = payload_from (RpError e)"

definition payload_from_code :: "ErrorCode \<Rightarrow> 't ServerPayload" where
  "payload_from_code code = payload_error (ErrorObject_from code)"

definition notify_on_completion :: "nat \<Rightarrow> 't ServerPayload \<Rightarrow> 't ServerPayload \<times> nat" where
  "notify_on_completion chan p = (p\<lparr>pl_on_exit := Some chan\<rparr>, chan)"

text \<open>\<open>IntoResponse\<close>; \<open>into_err\<close> is the conversion of the error type.\<close>

definition into_response_result :: "('e \<Rightarrow> ErrorObject) \<Rightarrow> ('t, 'e) result \<Rightarrow> 't ServerPayload" where
  "into_response_result into_err r = (case r of
       Inr val \<Rightarrow> payload_success val
     | Inl e \<Rightarrow> payload_error (into_err e))"

definition into_response_option :: "'t option \<Rightarrow> 't option ServerPayload" where
  "into_response_option v = payload_success v"

definition into_response_vec :: "'t list \<Rightarrow> 't list ServerPayload" where
  "into_response_vec v = payload_success v"

definition into_response_inner :: "'t ResponsePayload \<Rightarrow> 't ServerPayload" where
  "into_response_inner p = payload_from p"

definition into_response_self :: "'t ServerPayload \<Rightarrow> 't ServerPayload" where
  "into_response_self p = p"

definition into_response_error :: "ErrorObject \<Rightarrow> unit ServerPayload" where
  "into_response_error e = payload_error e"

definition into_response_value :: "'t \<Rightarrow> 't ServerPayload" where
  "into_response_value v = payload_success v"

section \<open>Callbacks and the table of methods\<close>

text \<open>
  \<open>SubscriptionState\<close>: the connection and the id its provider returns for this call. Its permit has
  been taken from \<open>wd_permits\<close>.
\<close>

record SubscriptionState =
  ss_conn_id :: nat
  ss_next_id :: SubscriptionId

datatype 'w MethodCallback =
    SyncCb "Id \<Rightarrow> Params \<Rightarrow> nat \<Rightarrow> extensions \<Rightarrow> 'w \<Rightarrow> MethodResponse \<times> 'w"
  | AsyncCb "Id \<Rightarrow> Params \<Rightarrow> nat \<Rightarrow> nat \<Rightarrow> extensions \<Rightarrow> 'w \<Rightarrow> MethodResponse \<times> 'w"
  | SubscriptionCb "Id \<Rightarrow> Params \<Rightarrow> MethodSink \<Rightarrow> SubscriptionState \<Rightarrow> extensions \<Rightarrow> 'w \<Rightarrow> MethodResponse \<times> 'w"
  | UnsubscriptionCb "Id \<Rightarrow> Params \<Rightarrow> nat \<Rightarrow> nat \<Rightarrow> extensions \<Rightarrow> 'w \<Rightarrow> MethodResponse \<times> 'w"

datatype MethodKind = MkSubscription | MkUnsubscription | MkMethodCall | MkNotFound

fun MethodKind_fmt :: "MethodKind \<Rightarrow> string" where
  "MethodKind_fmt MkSubscription = ''subscription''"
| "MethodKind_fmt MkMethodCall = ''method call''"
| "MethodKind_fmt MkNotFound = ''method not found''"
| "MethodKind_fmt MkUnsubscription = ''unsubscription''"

datatype CallOrSubscription = CosSubscription MethodResponse | CosCall MethodResponse

fun into_response_cos :: "CallOrSubscription \<Rightarrow> MethodResponse" where
  "into_response_cos (CosSubscription r) = r"
| "into_response_cos (CosCall r) = r"

record 'w Methods =
  callbacks :: "string \<rightharpoonup> 'w MethodCallback"
  ms_extensions :: extensions

definition Methods_new :: "'w Methods" where
  "Methods_new = \<lparr>callbacks = Map.empty, ms_extensions = Map.empty\<rparr>"

definition verify_method_name :: "string \<Rightarrow> 'w Methods \<Rightarrow> (unit, RegisterMethodError) result" where
  "verify_method_name name m =
     (if callbacks m name \<noteq> None then Err (AlreadyRegistered name) else Ok ())"

definition verify_and_insert ::
  "string \<Rightarrow> 'w MethodCallback \<Rightarrow> 'w Methods \<Rightarrow> (unit, RegisterMethodError) result \<times> 'w Methods" where
  "verify_and_insert name callback m = (case callbacks m name of
       Some _ \<Rightarrow> (Err (AlreadyRegistered name), m)
     | None \<Rightarrow> (Ok (), m\<lparr>callbacks := (callbacks m)(name \<mapsto> callback)\<rparr>))"

fun verify_names :: "string list \<Rightarrow> 'w Methods \<Rightarrow> (unit, RegisterMethodError) result" where
  "verify_names [] m = Ok ()"
| "verify_names (name # names) m = (case verify_method_name name m of
     Inl e \<Rightarrow> Err e
   | Inr _ \<Rightarrow> verify_names names m)"

fun drain_into :: "string list \<Rightarrow> 'w Methods \<Rightarrow> 'w Methods \<Rightarrow> 'w Methods" where
  "drain_into [] other m = m"
| "drain_into (name # names) other m =
     drain_into names other (m\<lparr>callbacks := (callbacks m)(name := callbacks other name)\<rparr>)"

text \<open>\<open>names\<close> and \<open>names'\<close> are the orders in which \<open>keys\<close> and \<open>drain\<close> go through \<open>other\<close>.\<close>

definition merge ::
  "string list \<Rightarrow> string list \<Rightarrow> 'w Methods \<Rightarrow> 'w Methods \<Rightarrow> (unit, RegisterMethodError) result \<times> 'w Methods" where
  "merge names names' other m = (case verify_names names m of
       Inl e \<Rightarrow> (Err e, m)
     | Inr _ \<Rightarrow> (Ok (), drain_into names' other m))"

definition Methods_method :: "string \<Rightarrow> 'w Methods \<Rightarrow> 'w MethodCallback option" where
  "Methods_method name m = callbacks m name"

definition method_with_name :: "string \<Rightarrow> 'w Methods \<Rightarrow> (string \<times> 'w MethodCallback) option" where
  "method_with_name name m = map_option (\<lambda>v. (name, v)) (callbacks m name)"

definition method_names :: "'w Methods \<Rightarrow> string set" where
  "method_names m = dom (callbacks m)"

section \<open>Registration\<close>

record ('ctx, 'w) RpcModule =
  rm_ctx :: 'ctx
  rm_methods :: "'w Methods"

definition RpcModule_new :: "'ctx \<Rightarrow> ('ctx, 'w) RpcModule" where
  "RpcModule_new ctx = \<lparr>rm_ctx = ctx, rm_methods = Methods_new\<rparr>"

definition remove_context :: "('ctx, 'w) RpcModule \<Rightarrow> (unit, 'w) RpcModule" where
  "remove_context m = (RpcModule_new ())\<lparr>rm_methods := rm_methods m\<rparr>"

definition module_insert ::
  "string \<Rightarrow> 'w MethodCallback \<Rightarrow> ('ctx, 'w) RpcModule \<Rightarrow>
     (unit, RegisterMethodError) result \<times> ('ctx, 'w) RpcModule" where
  "module_insert name callback m =
     (let (r, ms) = verify_and_insert name callback (rm_methods m) in (r, m\<lparr>rm_methods := ms\<rparr>))"

text \<open>\<open>into\<close> is the \<open>IntoResponse\<close> of the handler's result type and \<open>ser_t\<close> the \<open>Serialize\<close> of its output.\<close>

definition register_method ::
  "emitter \<Rightarrow> ('t \<Rightarrow> ser) \<Rightarrow> ('r \<Rightarrow> 't ServerPayload) \<Rightarrow> string \<Rightarrow>
     (Params \<Rightarrow> 'ctx \<Rightarrow> extensions \<Rightarrow> 'w \<Rightarrow> 'r \<times> 'w) \<Rightarrow> ('ctx, 'w) RpcModule \<Rightarrow>
     (unit, RegisterMethodError) result \<times> ('ctx, 'w) RpcModule"
where
  "register_method emit ser_t into method_name callback m =
     (let ctx = rm_ctx m in
      module_insert method_name (SyncCb (\<lambda>i params max_response_size ext w.
        let (r, w') = callback params ctx ext w;
            rp = into r
        in (with_extensions ext (MethodResponse_response emit ser_t i rp max_response_size), w'))) m)"

definition register_async_method ::
  "emitter \<Rightarrow> ('t \<Rightarrow> ser) \<Rightarrow> ('r \<Rightarrow> 't ServerPayload) \<Rightarrow> string \<Rightarrow>
     (Params \<Rightarrow> 'ctx \<Rightarrow> extensions \<Rightarrow> 'w \<Rightarrow> 'r \<times> 'w) \<Rightarrow> ('ctx, 'w) RpcModule \<Rightarrow>
     (unit, RegisterMethodError) result \<times> ('ctx, 'w) RpcModule"
where
  "register_async_method emit ser_t into method_name callback m =
     (let ctx = rm_ctx m in
      module_insert method_name (AsyncCb (\<lambda>i params _ max_response_size ext w.
        let (r, w') = callback params ctx ext w;
            rp = into r
        in (with_extensions ext (MethodResponse_response emit ser_t i rp max_response_size), w'))) m)"

text \<open>The result \<open>None\<close> of a blocking handler is a task that panicked.\<close>

definition register_blocking_method ::
  "emitter \<Rightarrow> ('t \<Rightarrow> ser) \<Rightarrow> ('r \<Rightarrow> 't ServerPayload) \<Rightarrow> string \<Rightarrow>
     (Params \<Rightarrow> 'ctx \<Rightarrow> extensions \<Rightarrow> 'w \<Rightarrow> 'r option \<times> 'w) \<Rightarrow> ('ctx, 'w) RpcModule \<Rightarrow>
     (unit, RegisterMethodError) result \<times> ('ctx, 'w) RpcModule"
where
  "register_blocking_method emit ser_t into method_name callback m =
     (let ctx = rm_ctx m in
      module_insert method_name (AsyncCb (\<lambda>i params _ max_response_size ext w.
        case callback params ctx ext w of
          (Some r, w') \<Rightarrow>
            (with_extensions ext (MethodResponse_response emit ser_t i (into r) max_response_size), w')
        | (None, w') \<Rightarrow>
            (with_extensions ext (MethodResponse_error emit Null (ErrorObject_from InternalError)), w'))) m)"

definition remove_method ::
  "string \<Rightarrow> ('ctx, 'w) RpcModule \<Rightarrow> 'w MethodCallback option \<times> ('ctx, 'w) RpcModule" where
  "remove_method name m =
     (callbacks (rm_methods m) name,
      m\<lparr>rm_methods := (rm_methods m)\<lparr>callbacks := (callbacks (rm_methods m))(name := None)\<rparr>\<rparr>)"

definition register_alias ::
  "string \<Rightarrow> string \<Rightarrow> ('ctx, 'w) RpcModule \<Rightarrow> (unit, RegisterMethodError) result \<times> ('ctx, 'w) RpcModule" where
  "register_alias alias existing_method m = (case verify_method_name alias (rm_methods m) of
       Inl e \<Rightarrow> (Err e, m)
     | Inr _ \<Rightarrow> (case callbacks (rm_methods m) existing_method of
         Some callback \<Rightarrow> (Ok (), m\<lparr>rm_methods :=
           (rm_methods m)\<lparr>callbacks := (callbacks (rm_methods m))(alias \<mapsto> callback)\<rparr>\<rparr>)
       | None \<Rightarrow> (Err (RegMethodNotFound existing_method), m)))"

section \<open>Subscriptions\<close>

text \<open>\<open>t\<close> is the address of the table \<open>Subscribers\<close> that the registration allocates, \<open>de_id\<close> reads the
  one subscription id of an unsubscribe call.\<close>

definition unsubscribe_callback ::
  "emitter \<Rightarrow> (string \<Rightarrow> (SubscriptionId list, string) result) \<Rightarrow> nat \<Rightarrow> ('c, 'u) server_world MethodCallback" where
  "unsubscribe_callback emit de_id t = UnsubscriptionCb (\<lambda>i params conn_id max_response_size ext w.
     case Params_one emit de_id params of
       Inl _ \<Rightarrow> (with_extensions ext
                  (MethodResponse_response emit SBool i (payload_success False) max_response_size), w)
     | Inr sub_id \<Rightarrow>
         (let key = \<lparr>key_conn_id = conn_id, key_sub_id = sub_id\<rparr>;
              (result, st) = subscribers_remove key (table_get t w)
          in (MethodResponse_response emit SBool i (payload_success result) max_response_size,
              table_put t st w)))"

definition verify_and_register_unsubscribe ::
  "emitter \<Rightarrow> (string \<Rightarrow> (SubscriptionId list, string) result) \<Rightarrow> nat \<Rightarrow> string \<Rightarrow> string \<Rightarrow>
     ('ctx, ('c, 'u) server_world) RpcModule \<Rightarrow>
     (unit, RegisterMethodError) result \<times> ('ctx, ('c, 'u) server_world) RpcModule"
where
  "verify_and_register_unsubscribe emit de_id t subscribe_name unsubscribe_name m =
     (if subscribe_name = unsubscribe_name then (Err (SubscriptionNameConflict subscribe_name), m)
      else case verify_method_name subscribe_name (rm_methods m) of
        Inl e \<Rightarrow> (Err e, m)
      | Inr _ \<Rightarrow> (case verify_method_name unsubscribe_name (rm_methods m) of
          Inl e \<Rightarrow> (Err e, m)
        | Inr _ \<Rightarrow> (Ok (), m\<lparr>rm_methods := (rm_methods m)\<lparr>callbacks :=
            (callbacks (rm_methods m))(unsubscribe_name \<mapsto> unsubscribe_callback emit de_id t)\<rparr>\<rparr>)))"

text \<open>The pending subscription of a call and the oneshot for its answer.\<close>

definition pending_sink ::
  "string \<Rightarrow> Id \<Rightarrow> MethodSink \<Rightarrow> SubscriptionState \<Rightarrow> ('c, 'u) server_world \<Rightarrow>
     PendingSubscriptionSink \<times> ('c, 'u) server_world" where
  "pending_sink notif_name i method_sink conn w =
     (\<lparr>ps_inner = method_sink, ps_method = notif_name,
       ps_uniq_sub = \<lparr>key_conn_id = ss_conn_id conn, key_sub_id = ss_next_id conn\<rparr>,
       ps_id = i, ps_subscribe = wd_next w\<rparr>,
      w\<lparr>wd_next := wd_next w + 1\<rparr>)"

text \<open>
  \<open>callback\<close> is what the user's future and the rest of the server do until the oneshot is resolved:
  it has an answer, or its sender was dropped.
\<close>

definition subscription_callback ::
  "emitter \<Rightarrow> string \<Rightarrow> (Params \<Rightarrow> PendingSubscriptionSink \<Rightarrow> extensions \<Rightarrow> ('c, 'u) server_world \<Rightarrow>
     ('c, 'u) server_world) \<Rightarrow> ('c, 'u) server_world MethodCallback" where
  "subscription_callback emit notif_name callback = SubscriptionCb (\<lambda>i params method_sink conn ext w.
     let (p, w1) = pending_sink notif_name i method_sink conn w;
         w2 = callback params p ext w1
     in case map_of (wd_answers w2) (ps_subscribe p) of
       Some rp \<Rightarrow> (with_extensions ext rp,
         if MethodResponse_is_success rp then w2\<lparr>wd_accepted := insert (ps_subscribe p) (wd_accepted w2)\<rparr> else w2)
     | None \<Rightarrow> (with_extensions ext (MethodResponse_error emit i (ErrorObject_from InternalError)), w2))"

definition register_subscription ::
  "emitter \<Rightarrow> (string \<Rightarrow> (SubscriptionId list, string) result) \<Rightarrow> nat \<Rightarrow> string \<Rightarrow> string \<Rightarrow> string \<Rightarrow>
     (Params \<Rightarrow> PendingSubscriptionSink \<Rightarrow> 'ctx \<Rightarrow> extensions \<Rightarrow> ('c, 'u) server_world \<Rightarrow> ('c, 'u) server_world) \<Rightarrow>
     ('ctx, ('c, 'u) server_world) RpcModule \<Rightarrow>
     (unit, RegisterMethodError) result \<times> ('ctx, ('c, 'u) server_world) RpcModule"
where
  "register_subscription emit de_id t subscribe_name notif_name unsubscribe_name callback m =
     (case verify_and_register_unsubscribe emit de_id t subscribe_name unsubscribe_name m of
       (Inl e, m') \<Rightarrow> (Err e, m')
     | (Inr _, m') \<Rightarrow> module_insert subscribe_name
         (subscription_callback emit notif_name (\<lambda>params p ext. callback params p (rm_ctx m) ext)) m')"

text \<open>The task that waits for the user's future and for the call to be accepted (\<open>try_join\<close>); the text
  it sends when it ends, if any.\<close>

definition sub_close_message ::
  "emitter \<Rightarrow> SubscriptionCloseResponse \<Rightarrow> SubscriptionId \<Rightarrow> string \<Rightarrow> string option" where
  "sub_close_message emit response sub_id meth = (case response of
       CloseNotif msg \<Rightarrow> Some (sub_message_to_json emit msg sub_id meth)
     | CloseNotifErr err \<Rightarrow> Some (sub_err_to_json emit err sub_id meth)
     | CloseNone \<Rightarrow> None)"

definition subscription_task ::
  "emitter \<Rightarrow> SubscriptionId \<Rightarrow> string \<Rightarrow> SubscriptionCloseResponse poll \<Rightarrow> (unit, unit) result poll \<Rightarrow>
     string option poll" where
  "subscription_task emit sub_id meth sub_fut accepted = (case accepted of
       Ready (Inl _) \<Rightarrow> Ready None
     | Ready (Inr _) \<Rightarrow> (case sub_fut of
         Ready response \<Rightarrow> Ready (sub_close_message emit response sub_id meth)
       | Pending \<Rightarrow> Pending)
     | Pending \<Rightarrow> Pending)"

definition subscription_callback_raw ::
  "emitter \<Rightarrow> string \<Rightarrow> (Params \<Rightarrow> PendingSubscriptionSink \<Rightarrow> extensions \<Rightarrow> ('c, 'u) server_world \<Rightarrow>
     ('c, 'u) server_world) \<Rightarrow> ('c, 'u) server_world MethodCallback" where
  "subscription_callback_raw emit notif_name callback = SubscriptionCb (\<lambda>i params method_sink conn ext w.
     let (p, w1) = pending_sink notif_name i method_sink conn w;
         w2 = callback params p ext w1
     in case map_of (wd_answers w2) (ps_subscribe p) of
       Some rp \<Rightarrow> (with_extensions ext rp, w2)
     | None \<Rightarrow> (with_extensions ext (MethodResponse_error emit i (ErrorObject_from InternalError)), w2))"

definition register_subscription_raw ::
  "emitter \<Rightarrow> (string \<Rightarrow> (SubscriptionId list, string) result) \<Rightarrow> nat \<Rightarrow> string \<Rightarrow> string \<Rightarrow> string \<Rightarrow>
     (Params \<Rightarrow> PendingSubscriptionSink \<Rightarrow> 'ctx \<Rightarrow> extensions \<Rightarrow> ('c, 'u) server_world \<Rightarrow> ('c, 'u) server_world) \<Rightarrow>
     ('ctx, ('c, 'u) server_world) RpcModule \<Rightarrow>
     (unit, RegisterMethodError) result \<times> ('ctx, ('c, 'u) server_world) RpcModule"
where
  "register_subscription_raw emit de_id t subscribe_name notif_name unsubscribe_name callback m =
     (case verify_and_register_unsubscribe emit de_id t subscribe_name unsubscribe_name m of
       (Inl e, m') \<Rightarrow> (Err e, m')
     | (Inr _, m') \<Rightarrow> module_insert subscribe_name
         (subscription_callback_raw emit notif_name (\<lambda>params p ext. callback params p (rm_ctx m) ext)) m')"

section \<open>Calls without a server\<close>

text \<open>\<open>NeverReturns\<close> is a future that stays pending for ever.\<close>

datatype 'a awaited = Returned 'a | NeverReturns | AwaitPanicked

datatype MethodsError = MeParse | MeJsonRpc ErrorObject | MeInvalidSubscriptionId string

text \<open>A semaphore of its own with one permit; it is given back to \<open>wd_permits\<close>, which such calls never read.\<close>

definition mock_subscription_permit :: "('c, 'u) server_world \<Rightarrow> unit outcome" where
  "mock_subscription_permit w =
     (if fst (BoundedSubscriptions_acquire ((table_get 0 w)\<lparr>st_permits := 1\<rparr>)) then Done () else Panicked)"

text \<open>
  \<open>mpsc::channel\<close> and taking a message that is in the channel. \<open>inner_call\<close> keeps a sender, so that
  waiting on the empty channel never ends; \<open>random\<close> is the number the id provider draws.
\<close>

record 'c module_chan_ops =
  co_channel :: "nat \<Rightarrow> 'c \<Rightarrow> nat \<times> 'c"
  co_take :: "nat \<Rightarrow> 'c \<Rightarrow> (string \<times> 'c) option"

definition inner_call ::
  "emitter \<Rightarrow> 'c module_chan_ops \<Rightarrow> ('c, 'u) server_world Methods \<Rightarrow> u64 \<Rightarrow> Request \<Rightarrow> nat \<Rightarrow> ('c, 'u) server_world \<Rightarrow>
     (string \<times> nat) awaited \<times> ('c, 'u) server_world"
where
  "inner_call emit chan m random req buf_size w =
     (if buf_size = 0 then (AwaitPanicked, w)
      else
        let (tx, conns) = co_channel chan buf_size (wd_conns w);
            w0 = w\<lparr>wd_conns := conns\<rparr>;
            i = req_id req;
            params = Params_new (req_params req);
            max_response_size = usize_MAX;
            conn_id = 0;
            ext = (ms_extensions m)(''ConnectionId'' \<mapsto> nat_to_string conn_id);
            (response, w2) = (case Methods_method (req_method req) m of
                None \<Rightarrow> (Some (MethodResponse_error emit i (ErrorObject_from MethodNotFound)), w0)
              | Some (SyncCb cb) \<Rightarrow> apfst Some (cb i params max_response_size ext w0)
              | Some (AsyncCb cb) \<Rightarrow> apfst Some (cb i params conn_id max_response_size ext w0)
              | Some (SubscriptionCb cb) \<Rightarrow>
                  (let conn_state = \<lparr>ss_conn_id = conn_id, ss_next_id = RandomIntegerIdProvider_next_id random\<rparr>;
                       (res, w1) = cb i params (MethodSink_new tx) conn_state ext w0
                   in case co_take chan tx (wd_conns w1) of
                     None \<Rightarrow> (None, w1)
                   | Some (_, conns1) \<Rightarrow> (Some res, w1\<lparr>wd_conns := conns1\<rparr>))
              | Some (UnsubscriptionCb cb) \<Rightarrow> apfst Some (cb i params conn_id max_response_size ext w0))
        in case response of
          None \<Rightarrow> (NeverReturns, w2)
        | Some rp \<Rightarrow>
            (Returned (mr_json rp, tx),
             case mr_on_close rp of
               None \<Rightarrow> w2
             | Some n \<Rightarrow> w2\<lparr>wd_notified := wd_notified w2 @ [(n, notify (MethodResponse_is_success rp))]\<rparr>))"

text \<open>\<open>params\<close> is the outcome of \<open>to_rpc_params\<close>, whose errors are \<open>None\<close>; \<open>de_rp\<close> reads a response.\<close>

definition Methods_call ::
  "emitter \<Rightarrow> 'c module_chan_ops \<Rightarrow> (string \<Rightarrow> 't Response option) \<Rightarrow> ('c, 'u) server_world Methods \<Rightarrow> u64 \<Rightarrow> string \<Rightarrow>
     string option option \<Rightarrow> ('c, 'u) server_world \<Rightarrow>
     ('t, MethodsError) result awaited \<times> ('c, 'u) server_world"
where
  "Methods_call emit chan de_rp m random meth params w = (case params of
       None \<Rightarrow> (Returned (Err MeParse), w)
     | Some ps \<Rightarrow> (case mock_subscription_permit w of
         Panicked \<Rightarrow> (AwaitPanicked, w)
       | Done _ \<Rightarrow> (case inner_call emit chan m random (Request_borrowed meth ps (Number 0)) 1 w of
           (Returned (rp, _), w') \<Rightarrow> (Returned (case de_rp rp of
               None \<Rightarrow> Err MeParse
             | Some r \<Rightarrow> (case Success_try_from r of
                 Inl e \<Rightarrow> Err (MeJsonRpc e)
               | Inr s \<Rightarrow> Ok (ok_result s))), w')
         | (NeverReturns, w') \<Rightarrow> (NeverReturns, w')
         | (AwaitPanicked, w') \<Rightarrow> (AwaitPanicked, w'))))"

definition raw_json_request ::
  "emitter \<Rightarrow> 'c module_chan_ops \<Rightarrow> (string \<Rightarrow> Request option) \<Rightarrow> ('c, 'u) server_world Methods \<Rightarrow> u64 \<Rightarrow> string \<Rightarrow> nat \<Rightarrow>
     ('c, 'u) server_world \<Rightarrow> (string \<times> nat, MethodsError) result awaited \<times> ('c, 'u) server_world"
where
  "raw_json_request emit chan de_req m random request buf_size w = (case de_req request of
       None \<Rightarrow> (Returned (Err MeParse), w)
     | Some req \<Rightarrow> (case mock_subscription_permit w of
         Panicked \<Rightarrow> (AwaitPanicked, w)
       | Done _ \<Rightarrow> (case inner_call emit chan m random req buf_size w of
           (Returned r, w') \<Rightarrow> (Returned (Ok r), w')
         | (NeverReturns, w') \<Rightarrow> (NeverReturns, w')
         | (AwaitPanicked, w') \<Rightarrow> (AwaitPanicked, w'))))"

definition Methods_subscribe ::
  "emitter \<Rightarrow> 'c module_chan_ops \<Rightarrow> (string \<Rightarrow> string Response option) \<Rightarrow> (string \<Rightarrow> SubscriptionId option) \<Rightarrow>
     ('c, 'u) server_world Methods \<Rightarrow> u64 \<Rightarrow> string \<Rightarrow> string option option \<Rightarrow> nat \<Rightarrow> ('c, 'u) server_world \<Rightarrow>
     (SubscriptionId \<times> nat, MethodsError) result awaited \<times> ('c, 'u) server_world"
where
  "Methods_subscribe emit chan de_rp de_sub m random sub_method params buf_size w = (case params of
       None \<Rightarrow> (Returned (Err MeParse), w)
     | Some ps \<Rightarrow> (case mock_subscription_permit w of
         Panicked \<Rightarrow> (AwaitPanicked, w)
       | Done _ \<Rightarrow> (case inner_call emit chan m random (Request_borrowed sub_method ps (Number 0)) buf_size w of
           (Returned (resp, rx), w') \<Rightarrow> (Returned (case de_rp resp of
               None \<Rightarrow> Err MeParse
             | Some r \<Rightarrow> (case Success_try_from r of
                 Inl e \<Rightarrow> Err (MeJsonRpc e)
               | Inr s \<Rightarrow> (case de_sub (ok_result s) of
                   None \<Rightarrow> Err MeParse
                 | Some sub_id \<Rightarrow> Ok (sub_id, rx)))), w')
         | (NeverReturns, w') \<Rightarrow> (NeverReturns, w')
         | (AwaitPanicked, w') \<Rightarrow> (AwaitPanicked, w'))))"

text \<open>\<open>Subscription::next\<close> on what \<open>recv\<close> returned.\<close>

definition ServerSubscription_next ::
  "(string \<Rightarrow> 't SubscriptionPayload Notification option) \<Rightarrow> (string \<Rightarrow> bool) \<Rightarrow> string option \<Rightarrow>
     ('t \<times> SubscriptionId, MethodsError) result option" where
  "ServerSubscription_next de_notif is_sub_error raw = (case raw of
       None \<Rightarrow> None
     | Some json \<Rightarrow> (case de_notif json of
         Some r \<Rightarrow> Some (Ok (sp_result (ntf_params r), sp_subscription (ntf_params r)))
       | None \<Rightarrow> if is_sub_error json then None else Some (Err MeParse)))"

section \<open>Lemmas\<close>

interpretation methods: insert_table verify_and_insert callbacks "\<lambda>m name. callbacks m name = None"
    "\<lambda>name _. AlreadyRegistered name"
  by unfold_locales (auto simp: verify_and_insert_def split: option.splits)

lemma verify_and_insert_extensions: "ms_extensions (snd (verify_and_insert name cb m)) = ms_extensions m"
  by (simp add: verify_and_insert_def split: option.split)

lemma module_insert_callbacks:
  assumes "callbacks (rm_methods m) name = None"
  shows "fst (module_insert name cb m) = Inr ()"
    and "callbacks (rm_methods (snd (module_insert name cb m))) = (callbacks (rm_methods m))(name \<mapsto> cb)"
    and "rm_ctx (snd (module_insert name cb m)) = rm_ctx m"
    and "ms_extensions (rm_methods (snd (module_insert name cb m))) = ms_extensions (rm_methods m)"
  using assms methods.insert_free [OF assms] methods.insert_view [OF assms]
  by (simp_all add: module_insert_def split_beta verify_and_insert_extensions)

lemma module_insert_occupied:
  "callbacks (rm_methods m) name = Some c \<Longrightarrow> module_insert name cb m = (Inl (AlreadyRegistered name), m)"
  by (simp add: module_insert_def methods.insert_occupied)

lemma verify_names_ok: "verify_names names m = Inr () \<longleftrightarrow> (\<forall>n \<in> set names. callbacks m n = None)"
  by (induction names) (auto simp: verify_method_name_def)

lemma verify_names_err:
  "verify_names names m = Inl e \<Longrightarrow> \<exists>n \<in> set names. callbacks m n \<noteq> None \<and> e = AlreadyRegistered n"
  by (induction names) (auto simp: verify_method_name_def split: if_splits)

lemma drain_into_callbacks:
  "callbacks (drain_into names other m) = (\<lambda>n. if n \<in> set names then callbacks other n else callbacks m n)"
  by (induction names arbitrary: m) auto

lemma drain_into_extensions [simp]: "ms_extensions (drain_into names other m) = ms_extensions m"
  by (induction names arbitrary: m) auto

lemma register_subscription_result:
  "register_subscription emit de_id t sub notif unsub cb m =
     (if sub = unsub then (Inl (SubscriptionNameConflict sub), m)
      else if callbacks (rm_methods m) sub \<noteq> None then (Inl (AlreadyRegistered sub), m)
      else if callbacks (rm_methods m) unsub \<noteq> None then (Inl (AlreadyRegistered unsub), m)
      else (Inr (), m\<lparr>rm_methods := (rm_methods m)\<lparr>callbacks := (callbacks (rm_methods m))
        (unsub \<mapsto> unsubscribe_callback emit de_id t,
         sub \<mapsto> subscription_callback emit notif (\<lambda>params p ext. cb params p (rm_ctx m) ext))\<rparr>\<rparr>))"
  by (simp add: register_subscription_def verify_and_register_unsubscribe_def verify_method_name_def
      module_insert_def verify_and_insert_def)

text \<open>What \<open>accept\<close> does when the answer reaches the client.\<close>

definition accept_answer :: "emitter \<Rightarrow> PendingSubscriptionSink \<Rightarrow> MethodResponse" where
  "accept_answer emit p = subscription_response emit SubscriptionId_serialize (ps_id p)
     \<lparr>pl_inner = Success (key_sub_id (ps_uniq_sub p)), pl_on_exit = None\<rparr>
     (unat (ms_max_response_size (ps_inner p)))"

lemma accept_delivered:
  assumes "so_send ops (ms_tx (ps_inner p)) (mr_json (accept_answer emit p)) (st_conns st) = (True, c)"
    and "alive (ps_subscribe p)" and "MethodResponse_is_success (accept_answer emit p)"
  shows "snd (PendingSubscriptionSink_accept emit ops alive p st) =
    subscribers_insert (ps_uniq_sub p) (ps_inner p, st_next st) (st\<lparr>st_conns := c,
      st_answers := st_answers st @ [(ps_subscribe p, accept_answer emit p)], st_next := st_next st + 1\<rparr>)"
  using assms by (simp add: PendingSubscriptionSink_accept_def accept_answer_def MethodSink_send_def Let_def)

text \<open>User code that accepts its subscription.\<close>

definition accepting ::
  "emitter \<Rightarrow> 'c sink_ops \<Rightarrow> (nat \<Rightarrow> bool) \<Rightarrow> nat \<Rightarrow> PendingSubscriptionSink \<Rightarrow> ('c, 'u) server_world \<Rightarrow>
     ('c, 'u) server_world" where
  "accepting emit ops alive t p w = table_put t (snd (PendingSubscriptionSink_accept emit ops alive p (table_get t w))) w"

lemma accepting_delivered:
  assumes "so_send ops (ms_tx (ps_inner p)) (mr_json (accept_answer emit p)) (wd_conns w) = (True, c)"
    and "alive (ps_subscribe p)" and "MethodResponse_is_success (accept_answer emit p)"
  shows "wd_conns (accepting emit ops alive t p w) = c"
    and "wd_answers (accepting emit ops alive t p w) = wd_answers w @ [(ps_subscribe p, accept_answer emit p)]"
    and "wd_accepted (accepting emit ops alive t p w) = wd_accepted w"
    and "wd_tables (accepting emit ops alive t p w) t = (wd_tables w t)(ps_uniq_sub p \<mapsto> (ps_inner p, wd_next w))"
proof -
  have "so_send ops (ms_tx (ps_inner p)) (mr_json (accept_answer emit p)) (st_conns (table_get t w)) = (True, c)"
    using assms(1) by (simp add: table_get_def)
  note acc = accept_delivered [OF this, of alive, OF assms(2,3)]
  show "wd_conns (accepting emit ops alive t p w) = c"
    "wd_answers (accepting emit ops alive t p w) = wd_answers w @ [(ps_subscribe p, accept_answer emit p)]"
    "wd_accepted (accepting emit ops alive t p w) = wd_accepted w"
    "wd_tables (accepting emit ops alive t p w) t = (wd_tables w t)(ps_uniq_sub p \<mapsto> (ps_inner p, wd_next w))"
    unfolding accepting_def acc
    by (simp_all add: table_put_def table_get_def subscribers_insert_def close_entry_def split: option.split)
qed

lemma map_of_append_fresh: "n \<notin> fst ` set xs \<Longrightarrow> map_of (xs @ [(n, v)]) n = Some v"
  by (induction xs) auto

lemma with_extensions_kind [simp]:
  "mr_kind (with_extensions ext r) = mr_kind r" "mr_json (with_extensions ext r) = mr_json r"
  "mr_success_or_error (with_extensions ext r) = mr_success_or_error r"
  "mr_extensions (with_extensions ext r) = ext" "mr_on_close (with_extensions ext r) = mr_on_close r"
  by (simp_all add: with_extensions_def)

lemma unsubscribe_present:
  assumes "UnsubscriptionCb g = unsubscribe_callback emit de_id t" "Params_one emit de_id up = Inr sub_id"
    "wd_tables w t \<lparr>key_conn_id = conn_id, key_sub_id = sub_id\<rparr> = Some (s, k)"
  shows "fst (g j up conn_id n ext w) = MethodResponse_response emit SBool j (payload_success True) n"
    and "k \<in> wd_closed (snd (g j up conn_id n ext w))"
    and "wd_tables (snd (g j up conn_id n ext w)) t =
      (wd_tables w t)(\<lparr>key_conn_id = conn_id, key_sub_id = sub_id\<rparr> := None)"
  using assms
  by (simp_all add: unsubscribe_callback_def subscribers_remove_def close_entry_def table_get_def table_put_def Let_def)

lemma unsubscribe_absent:
  assumes "UnsubscriptionCb g = unsubscribe_callback emit de_id t" "Params_one emit de_id up = Inr sub_id"
    "wd_tables w t \<lparr>key_conn_id = conn_id, key_sub_id = sub_id\<rparr> = None"
  shows "g j up conn_id n ext w = (MethodResponse_response emit SBool j (payload_success False) n, w)"
proof -
  let ?key = "\<lparr>key_conn_id = conn_id, key_sub_id = sub_id\<rparr>"
  have "subscribers_remove ?key (table_get t w) = (False, table_get t w)"
    using assms(3) by (simp add: subscribers_remove_def close_entry_def table_get_def dom_upd_None)
  with assms(1,2) show ?thesis by (simp add: unsubscribe_callback_def Let_def table.put_get)
qed

section \<open>Properties\<close>

text \<open>Merging two tables of methods is all or nothing: when no name occurs in both, the result
  holds exactly the methods of both; otherwise the error names a method both have and the first
  table is unchanged. The order in which the hash map is traversed does not matter.\<close>

lemma merge_all_or_nothing:
  assumes "set names = dom (callbacks other)" and "set names' = dom (callbacks other)"
  shows "let (r, m') = merge names names' other m in
    (if dom (callbacks m) \<inter> dom (callbacks other) = {}
     then r = Inr () \<and> callbacks m' = callbacks m ++ callbacks other \<and> ms_extensions m' = ms_extensions m
     else m' = m \<and> (\<exists>n \<in> dom (callbacks m) \<inter> dom (callbacks other). r = Inl (AlreadyRegistered n)))"
proof (cases "verify_names names m")
  case (Inl e)
  from verify_names_err [OF this] assms(1) obtain n where
    "n \<in> dom (callbacks m) \<inter> dom (callbacks other)" "e = AlreadyRegistered n" by auto
  with Inl show ?thesis by (auto simp: merge_def)
next
  case (Inr u)
  with verify_names_ok [of names m] assms(1)
  have "dom (callbacks m) \<inter> dom (callbacks other) = {}" by (auto simp: domIff)
  moreover have "callbacks (drain_into names' other m) = callbacks m ++ callbacks other"
    using assms(2) by (auto simp: drain_into_callbacks map_add_def fun_eq_iff domIff split: option.splits)
  ultimately show ?thesis using Inr by (simp add: merge_def)
qed

text \<open>Registering a subscription registers the subscribe and the unsubscribe method or neither,
  with an error for equal or taken names, and leaves every other method as it was.\<close>

lemma register_subscription_atomic:
  "let (r, m') = register_subscription emit de_id t sub notif unsub cb m in
    (if sub \<noteq> unsub \<and> callbacks (rm_methods m) sub = None \<and> callbacks (rm_methods m) unsub = None
     then r = Inr () \<and> method_names (rm_methods m') = method_names (rm_methods m) \<union> {sub, unsub} \<and>
        (\<forall>n. n \<notin> {sub, unsub} \<longrightarrow> callbacks (rm_methods m') n = callbacks (rm_methods m) n) \<and>
        (\<exists>f g. callbacks (rm_methods m') sub = Some (SubscriptionCb f) \<and>
               callbacks (rm_methods m') unsub = Some (UnsubscriptionCb g))
     else m' = m \<and> (\<exists>e. r = Inl e))"
  by (auto simp: register_subscription_result method_names_def subscription_callback_def unsubscribe_callback_def)

text \<open>C12. Life of a subscription through its registered callbacks: the subscribe call whose handler
  accepts is answered with the subscription id, the subscription is entered under the caller's
  connection and its task is told; unsubscribing from the same connection with that id answers
  true, closes the sink's channel and removes the entry, a second time answers false and changes
  nothing, and an unsubscribe from a connection that has no such subscription answers false and
  leaves the entry.\<close>

theorem subscribe_unsubscribe_cycle:
  fixes w :: "('c, 'u) server_world"
  assumes "register_subscription emit de_id t sub notif unsub (\<lambda>_ p _ _. accepting emit ops alive t p) m = (Inr (), m')"
    and "callbacks (rm_methods m') sub = Some (SubscriptionCb f)"
    and "callbacks (rm_methods m') unsub = Some (UnsubscriptionCb g)"
    and "fst (pending_sink notif i sink conn w) = p"
    and "so_send ops (ms_tx sink) (mr_json (accept_answer emit p)) (wd_conns w) = (True, c)"
    and "alive (wd_next w)" and "MethodResponse_is_success (accept_answer emit p)"
    and "wd_next w \<notin> fst ` set (wd_answers w)"
    and "Params_one emit de_id up = Inr (ss_next_id conn)"
  shows "let key = \<lparr>key_conn_id = ss_conn_id conn, key_sub_id = ss_next_id conn\<rparr>;
      reply = (\<lambda>b. MethodResponse_response emit SBool j (payload_success b) n);
      (rp, w1) = f i ps sink conn ext w;
      (r2, w2) = g j up (ss_conn_id conn) n ext' w1
    in rp = with_extensions ext (accept_answer emit p) \<and> ps_subscribe p \<in> wd_accepted w1 \<and>
       wd_tables w1 t key = Some (sink, wd_next w + 1) \<and>
       r2 = reply True \<and> wd_next w + 1 \<in> wd_closed w2 \<and> wd_tables w2 t key = None \<and>
       g j up (ss_conn_id conn) n ext' w2 = (reply False, w2) \<and>
       (\<forall>conn' . conn' \<noteq> ss_conn_id conn \<longrightarrow> wd_tables w t (key\<lparr>key_conn_id := conn'\<rparr>) = None \<longrightarrow>
          g j up conn' n ext' w1 = (reply False, w1))"
proof -
  have fg: "SubscriptionCb f = subscription_callback emit notif (\<lambda>_ p _. accepting emit ops alive t p)"
    "UnsubscriptionCb g = unsubscribe_callback emit de_id t"
    using assms(1-3) by (auto simp: register_subscription_result split: if_splits)
  have p: "ps_inner p = sink" "ps_subscribe p = wd_next w" "key_sub_id (ps_uniq_sub p) = ss_next_id conn"
    "ps_uniq_sub p = \<lparr>key_conn_id = ss_conn_id conn, key_sub_id = ss_next_id conn\<rparr>"
    using assms(4) by (auto simp: pending_sink_def)
  let ?w0 = "w\<lparr>wd_next := wd_next w + 1\<rparr>"
  let ?w1 = "(accepting emit ops alive t p ?w0)\<lparr>wd_accepted := insert (wd_next w) (wd_accepted w)\<rparr>"
  have pend: "pending_sink notif i sink conn w = (p, ?w0)"
    using assms(4) by (simp add: pending_sink_def)
  note acc = accepting_delivered [of ops p emit ?w0 c alive t]
  have f: "f i ps sink conn ext w = (with_extensions ext (accept_answer emit p), ?w1)"
    using fg(1) acc assms(5-8) p
    by (simp add: subscription_callback_def pend map_of_append_fresh Let_def del: map_of_append)
  have t1: "wd_tables ?w1 t = (wd_tables w t)(ps_uniq_sub p \<mapsto> (sink, wd_next w + 1))"
    using acc(4) assms(5-7) p by simp
  show ?thesis
    using unsubscribe_present [OF fg(2) assms(9), where w = ?w1 and conn_id = "ss_conn_id conn" and n = n]
      unsubscribe_absent [OF fg(2) assms(9)] t1 p
    by (auto simp: f Let_def split_beta)
qed

definition example_server :: "(unit, unit) server_world" where
  "example_server = \<lparr>wd_conns = (), wd_tables = (\<lambda>_. Map.empty), wd_closed = {}, wd_next = 0, wd_permits = 0,
     wd_answers = [], wd_accepted = {}, wd_notified = [], wd_user = ()\<rparr>"

abbreviation example_emit :: emitter where "example_emit \<equiv> (\<lambda>_. ([''x''], True))"

lemma example_accept_answer: "MethodResponse_is_success (accept_answer example_emit example_pending)"
  by (simp add: accept_answer_def subscription_response_def MethodResponse_response_def to_writer_def
      BoundedWriter_write_def BoundedWriter_new_def MethodResponse_is_success_def example_pending_def
      MethodSink_new_with_limit_def)

theorem subscribe_unsubscribe_cycle_witness:
  "\<exists>m' f. register_subscription example_emit (\<lambda>_. Inr [Num 5]) 0 ''s'' ''m'' ''u''
       (\<lambda>_ p _ _. accepting example_emit null_ops (\<lambda>_. True) 0 p)
       (RpcModule_new () :: (unit, (unit, unit) server_world) RpcModule) = (Inr (), m') \<and>
     callbacks (rm_methods m') ''s'' = Some (SubscriptionCb f) \<and>
     0 \<in> wd_accepted (snd (f (Number 1) None (MethodSink_new_with_limit 0 1000)
       \<lparr>ss_conn_id = 0, ss_next_id = Num 5\<rparr> Map.empty example_server))"
proof -
  let ?cb = "\<lambda>_ p _ _. accepting example_emit null_ops (\<lambda>_. True) 0 p"
  let ?m = "RpcModule_new () :: (unit, (unit, unit) server_world) RpcModule"
  let ?conn = "\<lparr>ss_conn_id = 0, ss_next_id = Num 5\<rparr>"
  obtain m' f g where m': "register_subscription example_emit (\<lambda>_. Inr [Num 5]) 0 ''s'' ''m'' ''u'' ?cb ?m = (Inr (), m')"
    "callbacks (rm_methods m') ''s'' = Some (SubscriptionCb f)"
    "callbacks (rm_methods m') ''u'' = Some (UnsubscriptionCb g)"
    by (simp add: register_subscription_result RpcModule_new_def Methods_new_def subscription_callback_def
        unsubscribe_callback_def)
  have pend: "fst (pending_sink ''m'' (Number 1) (MethodSink_new_with_limit 0 1000) ?conn example_server) = example_pending"
    by (simp add: pending_sink_def example_server_def example_pending_def)
  have send: "so_send null_ops (ms_tx (MethodSink_new_with_limit 0 1000))
    (mr_json (accept_answer example_emit example_pending)) (wd_conns example_server) = (True, ())"
    by (simp add: null_ops_def)
  have fresh: "wd_next example_server \<notin> fst ` set (wd_answers example_server)" by (simp add: example_server_def)
  have one: "Params_one example_emit (\<lambda>_. Inr [Num 5]) (Some ''[5]'') = Inr (ss_next_id ?conn)"
    by (simp add: Params_one_def Params_parse_def)
  have "ps_subscribe example_pending \<in> wd_accepted (snd (f (Number 1) None (MethodSink_new_with_limit 0 1000)
      ?conn Map.empty example_server))"
    using subscribe_unsubscribe_cycle [OF m' pend send TrueI example_accept_answer fresh one, of "Number 2" 10 None Map.empty Map.empty]
    by (simp only: split_beta Let_def fst_conv snd_conv)
  then have "0 \<in> wd_accepted (snd (f (Number 1) None (MethodSink_new_with_limit 0 1000) ?conn Map.empty example_server))"
    by (simp add: example_pending_def)
  with m' show ?thesis by blast
qed

text \<open>An unsubscribe call whose parameter cannot be read answers with the extensions of the
  request, like every other callback; one that could be read answers without them, so that a layer
  that looks for them in the response sees none.\<close>

lemma unsubscribe_drops_extensions:
  assumes "unsubscribe_callback emit de_id t = UnsubscriptionCb g"
  shows "mr_extensions (fst (g i params conn_id n ext w)) =
    (case Params_one emit de_id params of Inl _ \<Rightarrow> ext | Inr _ \<Rightarrow> Map.empty)"
proof -
  have "mr_extensions (MethodResponse_response emit SBool i (payload_success b) n) = Map.empty" for b
    by (subst response_branches [OF prod.collapse [symmetric]])
       (simp add: payload_success_def payload_from_def MethodResponse_error_def)
  then show ?thesis
    using assms by (auto simp: unsubscribe_callback_def Let_def split_beta split: sum.splits)
qed

text \<open>A handler that drops its pending subscription: a subscribe call through the server is answered with
  the internal error, but the same call on the module never returns, because it waits for a message
  on a channel of which it holds a sender itself.\<close>

lemma dropped_pending_never_returns:
  assumes "buf_size \<noteq> 0" and "co_channel chan buf_size (wd_conns w) = (tx, c)" and "co_take chan tx c = None"
    and "wd_next w \<notin> fst ` set (wd_answers w)"
    and "callbacks m (req_method req) = Some (subscription_callback emit notif (\<lambda>_ _ _ v. v\<lparr>wd_permits := wd_permits v + 1\<rparr>))"
  shows "fst (inner_call emit chan m random req buf_size w) = NeverReturns \<and>
    (\<exists>f. callbacks m (req_method req) = Some (SubscriptionCb f) \<and>
       (\<forall>sink conn ext. as_error_code (fst (f (req_id req) params sink conn ext w)) = Some (-32603)))"
proof -
  have "map_of (wd_answers w) (wd_next w) = None" using assms(4) by (simp add: map_of_eq_None_iff)
  with assms show ?thesis
    by (simp add: inner_call_def subscription_callback_def pending_sink_def Methods_method_def as_error_code_def
        MethodResponse_error_def ErrorObject_code_def ErrorObject_from_def rpc_defs)
qed

text \<open>Calling a registered method on the module returns what the handler returned, its value or its
  error object, when the text of the response is read back as it was written; the name can be
  registered once.\<close>

lemma module_call_returns_result:
  assumes "register_method emit ser_t into name cb m = (Inr (), m')"
    and "cb (Params_new ps) (rm_ctx m) ((ms_extensions (rm_methods m))(''ConnectionId'' \<mapsto> ''0''))
           (w\<lparr>wd_conns := snd (co_channel chan 1 (wd_conns w))\<rparr>) = (r, w1)"
    and "emit (Response_serialize ser_t (Response_new (pl_inner (into r)) (Number 0))) = (cs, True)"
    and "length (concat cs) \<le> usize_MAX"
    and "de_rp (concat cs) = Some (Response_new (pl_inner (into r)) (Number 0))"
  shows "fst (Methods_call emit chan de_rp (rm_methods m') random name (Some ps) w) =
      Returned (case pl_inner (into r) of Success v \<Rightarrow> Inr v | RpError e \<Rightarrow> Inl (MeJsonRpc e)) \<and>
    register_method emit ser_t into name cb' m' = (Inl (AlreadyRegistered name), m')"
proof -
  have free: "callbacks (rm_methods m) name = None"
    using assms(1) by (cases "callbacks (rm_methods m) name") (simp_all add: register_method_def module_insert_occupied)
  have zero: "nat_to_string 0 = ''0''" by code_simp
  have m': "rm_methods m' = (rm_methods m)\<lparr>callbacks := (callbacks (rm_methods m))(name \<mapsto> SyncCb (\<lambda>i params n ext w.
      let (r, w') = cb params (rm_ctx m) ext w; rp = into r
      in (with_extensions ext (MethodResponse_response emit ser_t i rp n), w')))\<rparr>"
    using assms(1) free by (auto simp: register_method_def module_insert_def verify_and_insert_def)
  have json: "mr_json (MethodResponse_response emit ser_t (Number 0) (into r) usize_MAX) = concat cs"
    using assms(4) by (simp add: response_branches [of emit ser_t "into r" "Number 0", OF assms(3)])
  show ?thesis
    using assms(2,5)
    by (auto simp: Methods_call_def mock_subscription_permit_def BoundedSubscriptions_acquire_def inner_call_def
        Methods_method_def m' zero json Request_borrowed_def Success_try_from_def Response_new_def
        register_method_def module_insert_occupied split_beta Let_def split: ResponsePayload.splits)
qed

end
