(* ===== verification/Rpc_Service.thy ===== *)
theory Rpc_Service
  imports Rpc_Module
begin

text \<open>
  \<open>core/src/middleware/mod.rs\<close>: batches and their entries, and \<open>server/src/middleware/rpc.rs\<close>: the
  innermost service of a server, which executes calls, notifications and batches of a connection.
\<close>

section \<open>Batches (core/src/middleware/mod.rs)\<close>

type_synonym ServerNotification = "string option Notification"

datatype BatchEntry = BCall Request | BNotification ServerNotification

datatype BatchEntryErr = BatchEntryErr "unit Response"

definition BatchEntryErr_new :: "Id \<Rightarrow> ErrorObject \<Rightarrow> BatchEntryErr" where
  "BatchEntryErr_new i err = BatchEntryErr (Response_new (RpError err) i)"

fun into_parts :: "BatchEntryErr \<Rightarrow> (ErrorObject \<times> Id) outcome" where
  "into_parts (BatchEntryErr rp) = (case rp_payload rp of
       RpError err \<Rightarrow> Done (err, rp_id rp)
     | Success _ \<Rightarrow> Panicked)"

type_synonym batch_item = "(BatchEntry, BatchEntryErr) result"

record Batch =
  bt_inner :: "batch_item list"
  bt_extensions :: "extensions option"

definition Batch_from :: "batch_item list \<Rightarrow> Batch" where
  "Batch_from entries = \<lparr>bt_inner = entries, bt_extensions = None\<rparr>"

definition Batch_new :: Batch where
  "Batch_new = \<lparr>bt_inner = [], bt_extensions = None\<rparr>"

definition Batch_with_capacity :: "nat \<Rightarrow> Batch" where
  "Batch_with_capacity capacity = \<lparr>bt_inner = [], bt_extensions = None\<rparr>"

definition Batch_push :: "Request \<Rightarrow> Batch \<Rightarrow> Batch" where
  "Batch_push req b = b\<lparr>bt_extensions := Some (case bt_extensions b of
       Some ext \<Rightarrow> ext ++ req_extensions req
     | None \<Rightarrow> req_extensions req), bt_inner := bt_inner b @ [Ok (BCall req)]\<rparr>"

definition Batch_len :: "Batch \<Rightarrow> nat" where
  "Batch_len b = length (bt_inner b)"

definition Batch_is_empty :: "Batch \<Rightarrow> bool" where
  "Batch_is_empty b = (bt_inner b = [])"

fun BatchEntry_extensions :: "BatchEntry \<Rightarrow> extensions" where
  "BatchEntry_extensions (BCall req) = req_extensions req"
| "BatchEntry_extensions (BNotification n) = ntf_extensions n"

fun extensions_of_entries :: "batch_item list \<Rightarrow> extensions \<Rightarrow> extensions" where
  "extensions_of_entries [] ext = ext"
| "extensions_of_entries (Inr e # es) ext = extensions_of_entries es (ext ++ BatchEntry_extensions e)"
| "extensions_of_entries (Inl _ # es) ext = extensions_of_entries es ext"

definition extensions_from_iter :: "Batch \<Rightarrow> extensions" where
  "extensions_from_iter b = extensions_of_entries (bt_inner b) Map.empty"

definition into_extensions :: "Batch \<Rightarrow> extensions" where
  "into_extensions b = (case bt_extensions b of Some ext \<Rightarrow> ext | None \<Rightarrow> extensions_from_iter b)"

definition Batch_extensions :: "Batch \<Rightarrow> extensions \<times> Batch" where
  "Batch_extensions b = (case bt_extensions b of
       Some ext \<Rightarrow> (ext, b)
     | None \<Rightarrow> (extensions_from_iter b, b\<lparr>bt_extensions := Some (extensions_from_iter b)\<rparr>))"

text \<open>Mutable access is a function that is applied to what the reference points to.\<close>

definition Batch_extensions_mut :: "(extensions \<Rightarrow> extensions) \<Rightarrow> Batch \<Rightarrow> Batch" where
  "Batch_extensions_mut f b = b\<lparr>bt_extensions := Some (f (case bt_extensions b of
       Some ext \<Rightarrow> ext
     | None \<Rightarrow> extensions_from_iter b))\<rparr>"

definition Batch_iter_mut :: "(batch_item \<Rightarrow> batch_item) \<Rightarrow> Batch \<Rightarrow> Batch" where
  "Batch_iter_mut f b = b\<lparr>bt_inner := map f (bt_inner b)\<rparr>"

fun BatchEntry_extensions_mut :: "(extensions \<Rightarrow> extensions) \<Rightarrow> BatchEntry \<Rightarrow> BatchEntry" where
  "BatchEntry_extensions_mut f (BCall req) = BCall (req\<lparr>req_extensions := f (req_extensions req)\<rparr>)"
| "BatchEntry_extensions_mut f (BNotification n) = BNotification (n\<lparr>ntf_extensions := f (ntf_extensions n)\<rparr>)"

fun BatchEntry_into_extensions :: "BatchEntry \<Rightarrow> extensions" where
  "BatchEntry_into_extensions (BCall req) = req_extensions req"
| "BatchEntry_into_extensions (BNotification n) = ntf_extensions n"

fun BatchEntry_method_name :: "BatchEntry \<Rightarrow> string" where
  "BatchEntry_method_name (BCall req) = req_method req"
| "BatchEntry_method_name (BNotification n) = ntf_method n"

fun set_method_name :: "string \<Rightarrow> BatchEntry \<Rightarrow> BatchEntry" where
  "set_method_name name (BCall req) = BCall (req\<lparr>req_method := name\<rparr>)"
| "set_method_name name (BNotification n) = BNotification (n\<lparr>ntf_method := name\<rparr>)"

fun BatchEntry_params :: "BatchEntry \<Rightarrow> string option" where
  "BatchEntry_params (BCall req) = req_params req"
| "BatchEntry_params (BNotification n) = ntf_params n"

fun set_params :: "string option \<Rightarrow> BatchEntry \<Rightarrow> BatchEntry" where
  "set_params params (BCall req) = BCall (req\<lparr>req_params := params\<rparr>)"
| "set_params params (BNotification n) = BNotification (n\<lparr>ntf_params := params\<rparr>)"

fun BatchEntry_serialize :: "BatchEntry \<Rightarrow> ser" where
  "BatchEntry_serialize (BCall req) = Request_serialize req"
| "BatchEntry_serialize (BNotification n) =
     Notification_serialize (\<lambda>p. case p of Some json \<Rightarrow> SRaw json | None \<Rightarrow> SNull) n"

fun batch_item_serialize :: "batch_item \<Rightarrow> ser" where
  "batch_item_serialize (Inr e) = BatchEntry_serialize e"
| "batch_item_serialize (Inl (BatchEntryErr rp)) = Response_serialize (\<lambda>_. SNull) rp"

definition Batch_serialize :: "Batch \<Rightarrow> ser" where
  "Batch_serialize b = SSeq (map batch_item_serialize (bt_inner b))"

text \<open>\<open>ResponseFuture\<close>: a future or a response that is there already.\<close>

datatype 'r ResponseFuture = FutLeft "'r poll" | FutReady 'r

definition ResponseFuture_future :: "'r poll \<Rightarrow> 'r ResponseFuture" where
  "ResponseFuture_future f = FutLeft f"

definition ResponseFuture_ready :: "'r \<Rightarrow> 'r ResponseFuture" where
  "ResponseFuture_ready response = FutReady response"

fun ResponseFuture_poll :: "'r ResponseFuture \<Rightarrow> 'r poll" where
  "ResponseFuture_poll (FutLeft (Ready rp)) = Ready rp"
| "ResponseFuture_poll (FutLeft Pending) = Pending"
| "ResponseFuture_poll (FutReady rp) = Ready rp"

section \<open>The service (server/src/middleware/rpc.rs)\<close>

text \<open>
  The semaphore of the connection's \<open>bounded_subscriptions\<close> is \<open>wd_permits\<close>, and \<open>max\<close> its size.
  \<open>id_provider\<close> gives the id that \<open>next_id\<close> returns in a state.
\<close>

datatype RpcServiceCfg = OnlyCalls | CallsAndSubscriptions u32 MethodSink

record ('c, 'u) RpcService =
  rs_conn_id :: nat
  rs_methods :: "('c, 'u) server_world Methods"
  rs_max_response_body_size :: nat
  rs_cfg :: RpcServiceCfg
  rs_id_provider :: "('c, 'u) server_world \<Rightarrow> SubscriptionId"

definition acquire_permit :: "('c, 'u) server_world \<Rightarrow> bool \<times> ('c, 'u) server_world" where
  "acquire_permit w = (let (ok, st) = BoundedSubscriptions_acquire (table_get 0 w) in (ok, table_put 0 st w))"

definition RpcService_call ::
  "emitter \<Rightarrow> ('c, 'u) RpcService \<Rightarrow> Request \<Rightarrow> ('c, 'u) server_world \<Rightarrow> MethodResponse \<times> ('c, 'u) server_world" where
  "RpcService_call emit s req w =
     (let conn_id = rs_conn_id s;
          n = rs_max_response_body_size s;
          i = req_id req;
          ext = req_extensions req;
          params = Params_new (req_params req);
          refuse = (\<lambda>err. (with_extensions ext (MethodResponse_error emit i err), w))
      in case method_with_name (req_method req) (rs_methods s) of
        None \<Rightarrow> refuse (ErrorObject_from MethodNotFound)
      | Some (_, AsyncCb callback) \<Rightarrow> callback i params conn_id n ext w
      | Some (_, SyncCb callback) \<Rightarrow> callback i params n ext w
      | Some (_, SubscriptionCb callback) \<Rightarrow> (case rs_cfg s of
          OnlyCalls \<Rightarrow> refuse (ErrorObject_from InternalError)
        | CallsAndSubscriptions max_subscriptions sink \<Rightarrow> (case acquire_permit w of
            (True, w') \<Rightarrow>
              callback i params sink \<lparr>ss_conn_id = conn_id, ss_next_id = rs_id_provider s w'\<rparr> ext w'
          | (False, _) \<Rightarrow> refuse (reject_too_many_subscriptions emit max_subscriptions)))
      | Some (_, UnsubscriptionCb callback) \<Rightarrow> (case rs_cfg s of
          OnlyCalls \<Rightarrow> refuse (ErrorObject_from InternalError)
        | CallsAndSubscriptions _ _ \<Rightarrow> callback i params conn_id n ext w))"

definition RpcService_notification :: "ServerNotification \<Rightarrow> MethodResponse" where
  "RpcService_notification n = with_extensions (ntf_extensions n) MethodResponse_notification"

text \<open>The loop of \<open>batch\<close>: the builder and \<open>got_notification\<close>, or the value it returns early.\<close>

fun service_batch_loop ::
  "emitter \<Rightarrow> ('c, 'u) RpcService \<Rightarrow> batch_item list \<Rightarrow> BatchResponseBuilder \<Rightarrow> bool \<Rightarrow> ('c, 'u) server_world \<Rightarrow>
     (BatchResponseBuilder \<times> bool, MethodResponse outcome) result \<times> ('c, 'u) server_world"
where
  "service_batch_loop emit s [] b got w = (Ok (b, got), w)"
| "service_batch_loop emit s (Inr (BCall req) # es) b got w =
     (let (rp, w') = RpcService_call emit s req w in
      case BatchResponseBuilder_append emit rp b of
        (Inl err, _) \<Rightarrow> (Err (Done err), w')
      | (Inr _, b') \<Rightarrow> service_batch_loop emit s es b' got w')"
| "service_batch_loop emit s (Inr (BNotification n) # es) b got w =
     (let _ = RpcService_notification n in service_batch_loop emit s es b True w)"
| "service_batch_loop emit s (Inl err # es) b got w = (case into_parts err of
       Panicked \<Rightarrow> (Err Panicked, w)
     | Done (e, i) \<Rightarrow> (case BatchResponseBuilder_append emit (MethodResponse_error emit i e) b of
         (Inl err', _) \<Rightarrow> (Err (Done err'), w)
       | (Inr _, b') \<Rightarrow> service_batch_loop emit s es b' got w))"

definition RpcService_batch ::
  "emitter \<Rightarrow> (string \<Rightarrow> bool) \<Rightarrow> ('c, 'u) RpcService \<Rightarrow> Batch \<Rightarrow> ('c, 'u) server_world \<Rightarrow>
     MethodResponse outcome \<times> ('c, 'u) server_world" where
  "RpcService_batch emit valid_json s batch w =
     (case service_batch_loop emit s (bt_inner batch) (new_with_limit (rs_max_response_body_size s)) False w of
        (Inl r, w') \<Rightarrow> (r, w')
      | (Inr (b, got), w') \<Rightarrow>
          (if BatchResponseBuilder_is_empty b \<and> got then (Done MethodResponse_notification, w')
           else case BatchResponseBuilder_finish emit valid_json b of
             Done r \<Rightarrow> (Done (MethodResponse_from_batch r), w')
           | Panicked \<Rightarrow> (Panicked, w')))"

section \<open>The extensions of a batch\<close>

lemma extensions_of_entries_append:
  "extensions_of_entries (es @ es') ext = extensions_of_entries es' (extensions_of_entries es ext)"
  by (induction es ext rule: extensions_of_entries.induct) simp_all

text \<open>A batch built by \<open>push\<close> has the extensions of its entries, later ones before earlier ones.\<close>

lemma push_extensions:
  assumes "bt_extensions b = None \<longrightarrow> bt_inner b = []" "into_extensions b = extensions_from_iter b"
  shows "into_extensions (Batch_push req b) = extensions_from_iter (Batch_push req b)"
  using assms by (auto simp: into_extensions_def Batch_push_def extensions_from_iter_def extensions_of_entries_append split: option.splits)

lemma pushed_extensions:
  "into_extensions (fold Batch_push reqs Batch_new) = extensions_from_iter (fold Batch_push reqs Batch_new)"
proof (induction reqs rule: rev_induct)
  case (snoc req reqs)
  have "bt_extensions (fold Batch_push reqs Batch_new) = None \<longrightarrow> bt_inner (fold Batch_push reqs Batch_new) = []"
    by (cases reqs rule: rev_cases) (simp_all add: Batch_new_def Batch_push_def)
  from push_extensions [OF this snoc] show ?case by simp
qed (simp add: into_extensions_def Batch_new_def)

text \<open>A request that is pushed to a batch made by \<open>from\<close> hides the extensions of the entries that were there.\<close>

lemma push_forgets_extensions: "into_extensions (Batch_push req (Batch_from entries)) = req_extensions req"
  by (simp add: into_extensions_def Batch_push_def Batch_from_def)

text \<open>Unless they were asked for before.\<close>

lemma push_after_extensions:
  "into_extensions (Batch_push req (snd (Batch_extensions (Batch_from entries)))) =
     extensions_from_iter (Batch_push req (Batch_from entries))"
  by (simp add: into_extensions_def Batch_push_def Batch_from_def Batch_extensions_def extensions_from_iter_def
      extensions_of_entries_append)

section \<open>What a batch answers\<close>

text \<open>The responses of the entries in order, and the state after them, without any limit.\<close>

fun entry_responses ::
  "emitter \<Rightarrow> ('c, 'u) RpcService \<Rightarrow> batch_item list \<Rightarrow> ('c, 'u) server_world \<Rightarrow>
     MethodResponse list \<times> ('c, 'u) server_world"
where
  "entry_responses emit s [] w = ([], w)"
| "entry_responses emit s (Inr (BCall req) # es) w =
     (let (rp, w') = RpcService_call emit s req w; (rps, w'') = entry_responses emit s es w' in (rp # rps, w''))"
| "entry_responses emit s (Inr (BNotification n) # es) w = entry_responses emit s es w"
| "entry_responses emit s (Inl err # es) w =
     (let (rps, w') = entry_responses emit s es w in
      (case into_parts err of Done (e, i) \<Rightarrow> MethodResponse_error emit i e # rps | Panicked \<Rightarrow> rps, w'))"

definition is_notification_item :: "batch_item \<Rightarrow> bool" where
  "is_notification_item e = (case e of Inr (BNotification _) \<Rightarrow> True | _ \<Rightarrow> False)"

definition batch_item_ok :: "batch_item \<Rightarrow> bool" where
  "batch_item_ok e = (case e of Inl err \<Rightarrow> into_parts err \<noteq> Panicked | Inr _ \<Rightarrow> True)"

lemma append_cases:
  "BatchResponseBuilder_append emit rp b =
     (if length (bb_result b) + length (mr_json rp) + 1 \<le> bb_max_response_size b
      then (Inr (), b\<lparr>bb_result := bb_result b @ mr_json rp @ '','', bb_extensions := bb_extensions b ++ mr_extensions rp\<rparr>)
      else (Inl (MethodResponse_error emit Null (reject_too_big_batch_response emit (bb_max_response_size b))),
            b\<lparr>bb_extensions := bb_extensions b ++ mr_extensions rp\<rparr>))"
  by (simp add: BatchResponseBuilder_append_def Let_def)

text \<open>An entry is a notification, or it has a response that is appended to the builder.\<close>

lemma batch_entry_cases:
  assumes "batch_item_ok e"
  obtains (notification) "is_notification_item e"
      "\<And>es b got. service_batch_loop emit s (e # es) b got w = service_batch_loop emit s es b True w"
      "\<And>es. entry_responses emit s (e # es) w = entry_responses emit s es w"
  | (response) rp v where "\<not> is_notification_item e"
      "\<And>es b got. service_batch_loop emit s (e # es) b got w = (case BatchResponseBuilder_append emit rp b of
         (Inl err, _) \<Rightarrow> (Inl (Done err), v) | (Inr _, b') \<Rightarrow> service_batch_loop emit s es b' got v)"
      "\<And>es. entry_responses emit s (e # es) w = (rp # fst (entry_responses emit s es v), snd (entry_responses emit s es v))"
proof (cases e)
  case (Inl err)
  with assms obtain x i where "into_parts err = Done (x, i)"
    by (cases "into_parts err") (auto simp: batch_item_ok_def)
  with Inl show ?thesis
    by (intro response [of w "MethodResponse_error emit i x"]) (auto simp: is_notification_item_def split: prod.split)
next
  case (Inr x)
  show ?thesis
  proof (cases x)
    case (BCall req)
    with Inr show ?thesis
      by (intro response [of "snd (RpcService_call emit s req w)" "fst (RpcService_call emit s req w)"])
         (auto simp: is_notification_item_def split_beta Let_def)
  next
    case (BNotification n)
    with Inr show ?thesis by (intro notification) (auto simp: is_notification_item_def)
  qed
qed

lemma service_batch_loop_ok:
  assumes "\<forall>e \<in> set es. batch_item_ok e" and "append_all emit (fst (entry_responses emit s es w)) b = Inr b'"
  shows "service_batch_loop emit s es b got w =
    (Inr (b', got \<or> (\<exists>e \<in> set es. is_notification_item e)), snd (entry_responses emit s es w))"
  using assms
proof (induction es arbitrary: b got w)
  case (Cons e es)
  then have "batch_item_ok e" by simp
  then show ?case
    by (cases rule: batch_entry_cases [where emit = emit and s = s and w = w])
       (use Cons in \<open>auto split: prod.splits sum.splits\<close>)
qed simp

lemma service_batch_loop_full:
  assumes "\<forall>e \<in> set es. batch_item_ok e" and "append_all emit (fst (entry_responses emit s es w)) b = Inl err"
  shows "\<exists>k < length es. service_batch_loop emit s es b got w = (Inl (Done err), snd (entry_responses emit s (take (Suc k) es) w))"
  using assms
proof (induction es arbitrary: b got w)
  case (Cons e es)
  have later: "\<exists>k < length (e # es). r = (Inl (Done err), snd (entry_responses emit s (take (Suc k) (e # es)) w))"
    if "\<exists>k < length es. r = (Inl (Done err), snd (entry_responses emit s (take (Suc k) es) v))"
      and "\<And>xs. snd (entry_responses emit s (e # xs) w) = snd (entry_responses emit s xs v)" for r v
    using that by (metis Suc_less_eq length_Cons take_Suc_Cons)
  from Cons.prems(1) have "batch_item_ok e" by simp
  then show ?case
  proof (cases rule: batch_entry_cases [where emit = emit and s = s and w = w])
    case notification
    with later [OF Cons.IH, of w b True] Cons.prems show ?thesis by simp
  next
    case (response rp v)
    show ?thesis
    proof (cases "\<exists>b'. BatchResponseBuilder_append emit rp b = (Inr (), b')")
      case True
      then obtain b' where b': "BatchResponseBuilder_append emit rp b = (Inr (), b')" by blast
      with Cons.prems response have "append_all emit (fst (entry_responses emit s es v)) b' = Inl err" by simp
      from later [OF Cons.IH [OF _ this], of got] Cons.prems(1) response b' show ?thesis by simp
    next
      case False
      then obtain b' where "BatchResponseBuilder_append emit rp b = (Inl err, b')"
        using Cons.prems(2) response(3) by (cases "BatchResponseBuilder_append emit rp b") (auto split: sum.splits)
      with response show ?thesis by (intro exI [of _ 0]) simp
    qed
  qed
qed simp

lemma entry_responses_none:
  assumes "\<forall>e \<in> set es. batch_item_ok e"
  shows "fst (entry_responses emit s es w) = [] \<longleftrightarrow> (\<forall>e \<in> set es. is_notification_item e)"
  using assms
  by (induction emit s es w rule: entry_responses.induct)
     (auto simp: is_notification_item_def batch_item_ok_def split_beta Let_def split: outcome.splits prod.splits)

lemma service_batch_fits:
  assumes "\<forall>e \<in> set (bt_inner batch). batch_item_ok e" and "entry_responses emit s (bt_inner batch) w = (rs, w')"
    and "rs \<noteq> []" and "length (''['' @ join_comma (map mr_json rs) @ '']'') \<le> rs_max_response_body_size s"
    and "valid_json (''['' @ join_comma (map mr_json rs) @ '']'')"
  shows "RpcService_batch emit valid_json s batch w = (Done (MethodResponse_from_batch
    \<lparr>sb_json = ''['' @ join_comma (map mr_json rs) @ '']'', sb_extensions = fold (\<lambda>r e. e ++ mr_extensions r) rs Map.empty\<rparr>), w')"
proof -
  let ?n = "rs_max_response_body_size s"
  have "sum_list (map (\<lambda>r. length (mr_json r) + 1) rs) = length (join_comma (map mr_json rs)) + 1"
    using length_join_comma [OF assms(3), of mr_json] by simp
  with assms(4) have "append_all emit rs (new_with_limit ?n) = Inr \<lparr>bb_result = ''['' @ join_comma (map mr_json rs) @ '','',
      bb_max_response_size = ?n, bb_extensions = fold (\<lambda>r e. e ++ mr_extensions r) rs Map.empty\<rparr>"
    by (simp add: append_all_total new_with_limit_def join_comma_concat [OF assms(3)])
  from service_batch_loop_ok [OF assms(1), of emit s w "new_with_limit ?n" _ False] this assms(2,5) show ?thesis
    by (simp add: RpcService_batch_def BatchResponseBuilder_is_empty_def BatchResponseBuilder_finish_def
        butlast_append Let_def)
qed

section \<open>Properties\<close>


definition example_service :: "(unit, unit) RpcService" where
  "example_service = \<lparr>rs_conn_id = 0, rs_methods = Methods_new, rs_max_response_body_size = 0, rs_cfg = OnlyCalls,
     rs_id_provider = \<lambda>_. Num 0\<rparr>"


text \<open>What a call to the service does in every case: an unknown method answers \<open>-32601\<close>; a
  transport without subscriptions answers \<open>-32603\<close> to subscribe and unsubscribe calls; a subscribe
  call beyond the limit of the connection answers \<open>-32006\<close>; these change nothing and carry the
  extensions of the request. A subscribe call within the limit takes one permit before its callback
  runs, and unsubscribe calls are never limited.\<close>

lemma service_call_spec:
  "let (rp, w') = RpcService_call emit s req w;
      refused = (\<lambda>code. as_error_code rp = Some code \<and> mr_extensions rp = req_extensions req \<and> w' = w \<and>
        mr_json rp \<in> range (error_json emit (req_id req)));
      params = Params_new (req_params req); n = rs_max_response_body_size s
    in case callbacks (rs_methods s) (req_method req) of
      None \<Rightarrow> refused (-32601)
    | Some (SyncCb f) \<Rightarrow> (rp, w') = f (req_id req) params n (req_extensions req) w
    | Some (AsyncCb f) \<Rightarrow> (rp, w') = f (req_id req) params (rs_conn_id s) n (req_extensions req) w
    | Some (SubscriptionCb f) \<Rightarrow> (case rs_cfg s of
        OnlyCalls \<Rightarrow> refused (-32603)
      | CallsAndSubscriptions m sink \<Rightarrow>
          if wd_permits w = 0 then refused (-32006)
          else \<exists>sub_id. (rp, w') = f (req_id req) params sink \<lparr>ss_conn_id = rs_conn_id s, ss_next_id = sub_id\<rparr>
            (req_extensions req) (w\<lparr>wd_permits := wd_permits w - 1\<rparr>))
    | Some (UnsubscriptionCb f) \<Rightarrow> (case rs_cfg s of
        OnlyCalls \<Rightarrow> refused (-32603)
      | CallsAndSubscriptions _ _ \<Rightarrow> (rp, w') = f (req_id req) params (rs_conn_id s) n (req_extensions req) w)"
proof -
  have permit: "acquire_permit w = (wd_permits w > 0, if wd_permits w > 0 then w\<lparr>wd_permits := wd_permits w - 1\<rparr> else w)"
    by (simp add: acquire_permit_def BoundedSubscriptions_acquire_def table_get_def table_put_def)
  have code: "as_error_code (with_extensions ext (MethodResponse_error emit i e)) = Some (ErrorObject_code e)"
    "mr_json (MethodResponse_error emit i e) = error_json emit i e" for ext i e
    by (simp_all add: as_error_code_def MethodResponse_error_def)
  show ?thesis
    by (cases "callbacks (rs_methods s) (req_method req)")
       (auto simp: RpcService_call_def method_with_name_def permit code Let_def split_beta ErrorObject_code_def ErrorObject_from_def
         reject_too_many_subscriptions_def ErrorObject_owned_def rpc_defs
         split: MethodCallback.splits RpcServiceCfg.splits)
qed

end
