(* ===== verification/Rpc_Middleware.thy ===== *)
theory Rpc_Middleware
  imports Rpc_Service
begin

text \<open>
  The interface \<open>RpcServiceT\<close> of \<open>core/src/middleware/mod.rs\<close>, which servers and clients share, the
  builder that stacks layers on a service, and the layers of the crate: \<open>layer/either.rs\<close> and
  \<open>layer/logger.rs\<close>. A layer of \<open>tower\<close> is a function on services, and \<open>tower::ServiceBuilder\<close> composes
  them with the one added first outermost. The sink of \<open>tracing\<close> is a parameter.
\<close>

section \<open>Services\<close>

text \<open>\<open>'w\<close> is the state a service works on; the others are the three associated types.\<close>

record ('w, 'm, 'b, 'p) rpc_service =
  svc_call :: "Request \<Rightarrow> 'w \<Rightarrow> 'm \<times> 'w"
  svc_batch :: "Batch \<Rightarrow> 'w \<Rightarrow> 'b \<times> 'w"
  svc_notification :: "ServerNotification \<Rightarrow> 'w \<Rightarrow> 'p \<times> 'w"

type_synonym 's layer = "'s \<Rightarrow> 's"

datatype 's RpcServiceBuilder = RpcServiceBuilder "'s layer"

section \<open>Either (either.rs)\<close>

datatype ('a, 'b) Either = EitherLeft 'a | EitherRight 'b

fun Either_layer :: "('s layer, 's layer) Either \<Rightarrow> 's \<Rightarrow> ('s, 's) Either" where
  "Either_layer (EitherLeft l) inner = EitherLeft (l inner)"
| "Either_layer (EitherRight l) inner = EitherRight (l inner)"

fun Either_call :: "(('w, 'm, 'b, 'p) rpc_service, ('w, 'm, 'b, 'p) rpc_service) Either \<Rightarrow> Request \<Rightarrow> 'w \<Rightarrow> 'm \<times> 'w" where
  "Either_call (EitherLeft s) request = svc_call s request"
| "Either_call (EitherRight s) request = svc_call s request"

fun Either_batch :: "(('w, 'm, 'b, 'p) rpc_service, ('w, 'm, 'b, 'p) rpc_service) Either \<Rightarrow> Batch \<Rightarrow> 'w \<Rightarrow> 'b \<times> 'w" where
  "Either_batch (EitherLeft s) batch = svc_batch s batch"
| "Either_batch (EitherRight s) batch = svc_batch s batch"

fun Either_notification ::
  "(('w, 'm, 'b, 'p) rpc_service, ('w, 'm, 'b, 'p) rpc_service) Either \<Rightarrow> ServerNotification \<Rightarrow> 'w \<Rightarrow> 'p \<times> 'w" where
  "Either_notification (EitherLeft s) n = svc_notification s n"
| "Either_notification (EitherRight s) n = svc_notification s n"

definition Either_service ::
  "(('w, 'm, 'b, 'p) rpc_service, ('w, 'm, 'b, 'p) rpc_service) Either \<Rightarrow> ('w, 'm, 'b, 'p) rpc_service" where
  "Either_service e = \<lparr>svc_call = Either_call e, svc_batch = Either_batch e, svc_notification = Either_notification e\<rparr>"

section \<open>Logging (logger.rs)\<close>

definition unwrap_json_str_or_invalid :: "string option \<Rightarrow> string" where
  "unwrap_json_str_or_invalid json = (case json of Some s \<Rightarrow> s | None \<Rightarrow> ''<invalid JSON>'')"

text \<open>
  The indices at which the characters of a UTF-8 text start: those of the bytes that do not continue
  a character.
\<close>

definition starts_char :: "char \<Rightarrow> bool" where
  "starts_char c = (let n = of_char c :: nat in n < 128 \<or> 192 \<le> n)"

fun char_indices :: "nat \<Rightarrow> string \<Rightarrow> nat list" where
  "char_indices i [] = []"
| "char_indices i (c # cs) = (if starts_char c then i # char_indices (Suc i) cs else char_indices (Suc i) cs)"

definition truncate_at_char_boundary :: "string \<Rightarrow> nat \<Rightarrow> string" where
  "truncate_at_char_boundary s mx =
     (if length s < mx then s
      else if mx < length (char_indices 0 s) then take (char_indices 0 s ! mx) s
      else s)"

record ('w, 'm, 'b) logger_ops =
  lg_emit :: emitter
  lg_trace :: "string \<Rightarrow> 'w \<Rightarrow> 'w"
  lg_method_json :: "'m \<Rightarrow> string option"
  lg_batch_json :: "'b \<Rightarrow> string option"

definition log_line :: "('w, 'm, 'b) logger_ops \<Rightarrow> u32 \<Rightarrow> string \<Rightarrow> string option \<Rightarrow> 'w \<Rightarrow> 'w" where
  "log_line lg mx label json w =
     lg_trace lg (label @ '' = '' @ truncate_at_char_boundary (unwrap_json_str_or_invalid json) (unat mx)) w"

definition RpcLogger_call ::
  "('w, 'm, 'b) logger_ops \<Rightarrow> u32 \<Rightarrow> ('w, 'm, 'b, 'p) rpc_service \<Rightarrow> Request \<Rightarrow> 'w \<Rightarrow> 'm \<times> 'w" where
  "RpcLogger_call lg mx service request w =
     (let w1 = log_line lg mx ''request'' (to_raw_value (lg_emit lg) (Request_serialize request)) w;
          (rp, w2) = svc_call service request w1
      in (rp, log_line lg mx ''response'' (lg_method_json lg rp) w2))"

definition RpcLogger_batch ::
  "('w, 'm, 'b) logger_ops \<Rightarrow> u32 \<Rightarrow> ('w, 'm, 'b, 'p) rpc_service \<Rightarrow> Batch \<Rightarrow> 'w \<Rightarrow> 'b \<times> 'w" where
  "RpcLogger_batch lg mx service batch w =
     (let w1 = log_line lg mx ''batch request'' (to_raw_value (lg_emit lg) (Batch_serialize batch)) w;
          (rp, w2) = svc_batch service batch w1
      in (rp, log_line lg mx ''batch response'' (lg_batch_json lg rp) w2))"

definition RpcLogger_notification ::
  "('w, 'm, 'b) logger_ops \<Rightarrow> u32 \<Rightarrow> ('w, 'm, 'b, 'p) rpc_service \<Rightarrow> ServerNotification \<Rightarrow> 'w \<Rightarrow> 'p \<times> 'w" where
  "RpcLogger_notification lg mx service n w =
     svc_notification service n (log_line lg mx ''notification request''
       (to_raw_value (lg_emit lg) (BatchEntry_serialize (BNotification n))) w)"

definition RpcLoggerLayer :: "('w, 'm, 'b) logger_ops \<Rightarrow> u32 \<Rightarrow> ('w, 'm, 'b, 'p) rpc_service layer" where
  "RpcLoggerLayer lg mx service = \<lparr>svc_call = RpcLogger_call lg mx service,
     svc_batch = RpcLogger_batch lg mx service, svc_notification = RpcLogger_notification lg mx service\<rparr>"

section \<open>The builder (mod.rs)\<close>

definition RpcServiceBuilder_new :: "'s RpcServiceBuilder" where
  "RpcServiceBuilder_new = RpcServiceBuilder id"

fun RpcServiceBuilder_layer :: "'s layer \<Rightarrow> 's RpcServiceBuilder \<Rightarrow> 's RpcServiceBuilder" where
  "RpcServiceBuilder_layer l (RpcServiceBuilder outer) = RpcServiceBuilder (\<lambda>s. outer (l s))"

definition option_layer ::
  "('w, 'm, 'b, 'p) rpc_service layer option \<Rightarrow> ('w, 'm, 'b, 'p) rpc_service RpcServiceBuilder \<Rightarrow>
     ('w, 'm, 'b, 'p) rpc_service RpcServiceBuilder" where
  "option_layer l b = RpcServiceBuilder_layer
     (\<lambda>s. Either_service (Either_layer (case l of Some l' \<Rightarrow> EitherLeft l' | None \<Rightarrow> EitherRight id) s)) b"

definition layer_fn :: "('s \<Rightarrow> 's) \<Rightarrow> 's RpcServiceBuilder \<Rightarrow> 's RpcServiceBuilder" where
  "layer_fn f b = RpcServiceBuilder_layer f b"

definition rpc_logger ::
  "('w, 'm, 'b) logger_ops \<Rightarrow> u32 \<Rightarrow> ('w, 'm, 'b, 'p) rpc_service RpcServiceBuilder \<Rightarrow>
     ('w, 'm, 'b, 'p) rpc_service RpcServiceBuilder" where
  "rpc_logger lg max_log_len b = RpcServiceBuilder_layer (RpcLoggerLayer lg max_log_len) b"

fun RpcServiceBuilder_service :: "'s RpcServiceBuilder \<Rightarrow> 's \<Rightarrow> 's" where
  "RpcServiceBuilder_service (RpcServiceBuilder l) service = l service"

section \<open>Lemmas\<close>

lemma char_indices_bounds:
  "j \<in> set (char_indices i s) \<Longrightarrow> i \<le> j \<and> j < i + length s \<and> starts_char (s ! (j - i))"
proof (induction i s rule: char_indices.induct)
  case (2 i c cs)
  then show ?case by (cases "j = i") (auto simp: nth_Cons' split: if_splits)
qed simp

lemma char_indices_take:
  "k < length (char_indices i s) \<Longrightarrow> length (char_indices i' (take (char_indices i s ! k - i) s)) = k"
proof (induction i s arbitrary: k i' rule: char_indices.induct)
  case (2 i c cs)
  show ?case
  proof (cases "starts_char c")
    case True
    then show ?thesis
    proof (cases k)
      case (Suc k')
      with 2 True have k': "k' < length (char_indices (Suc i) cs)" by simp
      then have "Suc i \<le> char_indices (Suc i) cs ! k'" using char_indices_bounds nth_mem by blast
      then have "char_indices (Suc i) cs ! k' - i = Suc (char_indices (Suc i) cs ! k' - Suc i)" by simp
      with 2 True Suc k' show ?thesis by simp
    qed simp
  next
    case False
    with 2 have k: "k < length (char_indices (Suc i) cs)" by simp
    then have "Suc i \<le> char_indices (Suc i) cs ! k" using char_indices_bounds nth_mem by blast
    then have "char_indices (Suc i) cs ! k - i = Suc (char_indices (Suc i) cs ! k - Suc i)" by simp
    with 2 False k show ?thesis by simp
  qed
qed simp

lemma char_indices_length: "length (char_indices i s) \<le> length s"
  by (induction i s rule: char_indices.induct) auto

lemma Either_service_simps [simp]:
  "Either_service (EitherLeft s) = s" "Either_service (EitherRight s) = s"
  by (cases s, simp add: Either_service_def fun_eq_iff)+

lemma apsnd_alt: "apsnd f p = (fst p, f (snd p))"
  by (cases p) simp

section \<open>Logging does not interfere\<close>

text \<open>
  A service whose answers and whose effect on what \<open>obs\<close> shows depend on nothing but \<open>obs\<close>, and a log
  that \<open>obs\<close> does not show.
\<close>

locale invisible_log =
  fixes lg :: "('w, 'm, 'b) logger_ops" and service :: "('w, 'm, 'b, 'p) rpc_service" and obs :: "'w \<Rightarrow> 'o"
  assumes trace_hidden: "obs (lg_trace lg line w) = obs w"
    and call_obs: "obs v = obs w \<Longrightarrow> apsnd obs (svc_call service req v) = apsnd obs (svc_call service req w)"
    and batch_obs: "obs v = obs w \<Longrightarrow> apsnd obs (svc_batch service batch v) = apsnd obs (svc_batch service batch w)"
    and notification_obs: "obs v = obs w \<Longrightarrow>
      apsnd obs (svc_notification service n v) = apsnd obs (svc_notification service n w)"
begin

lemma log_line_hidden: "obs (log_line lg mx label json w) = obs w"
  by (simp add: log_line_def trace_hidden)

lemma logger_call: "apsnd obs (svc_call (RpcLoggerLayer lg mx service) req w) = apsnd obs (svc_call service req w)"
  using call_obs [of "log_line lg mx ''request'' (to_raw_value (lg_emit lg) (Request_serialize req)) w" w req]
  by (simp add: RpcLoggerLayer_def RpcLogger_call_def log_line_hidden Let_def split_beta apsnd_alt)

lemma logger_batch: "apsnd obs (svc_batch (RpcLoggerLayer lg mx service) batch w) = apsnd obs (svc_batch service batch w)"
  using batch_obs [of "log_line lg mx ''batch request'' (to_raw_value (lg_emit lg) (Batch_serialize batch)) w" w batch]
  by (simp add: RpcLoggerLayer_def RpcLogger_batch_def log_line_hidden Let_def split_beta apsnd_alt)

lemma logger_notification:
  "apsnd obs (svc_notification (RpcLoggerLayer lg mx service) n w) = apsnd obs (svc_notification service n w)"
  unfolding RpcLoggerLayer_def RpcLogger_notification_def rpc_service.simps
  by (rule notification_obs) (rule log_line_hidden)

end

text \<open>A logged service satisfies the contract again, so loggers can be stacked.\<close>

lemma invisible_log_layer:
  assumes "invisible_log lg service obs"
  shows "invisible_log lg (RpcLoggerLayer lg mx service) obs"
proof
  fix v w :: 'a and req batch n line
  show "obs (lg_trace lg line w) = obs w" using invisible_log.trace_hidden [OF assms] .
  assume vw: "obs v = obs w"
  show "apsnd obs (svc_call (RpcLoggerLayer lg mx service) req v) = apsnd obs (svc_call (RpcLoggerLayer lg mx service) req w)"
    using invisible_log.call_obs [OF assms vw] by (simp add: invisible_log.logger_call [OF assms])
  show "apsnd obs (svc_batch (RpcLoggerLayer lg mx service) batch v) = apsnd obs (svc_batch (RpcLoggerLayer lg mx service) batch w)"
    using invisible_log.batch_obs [OF assms vw] by (simp add: invisible_log.logger_batch [OF assms])
  show "apsnd obs (svc_notification (RpcLoggerLayer lg mx service) n v) =
      apsnd obs (svc_notification (RpcLoggerLayer lg mx service) n w)"
    using invisible_log.notification_obs [OF assms vw] by (simp add: invisible_log.logger_notification [OF assms])
qed

text \<open>Any service, with the lines of the log kept beside its state.\<close>

definition beside_log :: "('w, 'm, 'b, 'p) rpc_service \<Rightarrow> ('w \<times> string list, 'm, 'b, 'p) rpc_service" where
  "beside_log s = \<lparr>svc_call = (\<lambda>r (w, log). let (a, w') = svc_call s r w in (a, (w', log))),
     svc_batch = (\<lambda>b (w, log). let (a, w') = svc_batch s b w in (a, (w', log))),
     svc_notification = (\<lambda>n (w, log). let (a, w') = svc_notification s n w in (a, (w', log)))\<rparr>"

definition list_logger :: "emitter \<Rightarrow> ('m \<Rightarrow> string option) \<Rightarrow> ('b \<Rightarrow> string option) \<Rightarrow> ('w \<times> string list, 'm, 'b) logger_ops" where
  "list_logger emit mj bj = \<lparr>lg_emit = emit, lg_trace = (\<lambda>line (w, log). (w, log @ [line])), lg_method_json = mj, lg_batch_json = bj\<rparr>"

interpretation logged: invisible_log "list_logger emit mj bj" "beside_log s" fst
  by unfold_locales (auto simp: list_logger_def beside_log_def split_beta Let_def)

section \<open>Properties\<close>


definition echo_service :: "(nat, string, nat, unit) rpc_service" where
  "echo_service = \<lparr>svc_call = (\<lambda>r w. (req_method r, Suc w)), svc_batch = (\<lambda>b w. (Batch_len b, w)), svc_notification = (\<lambda>_ w. ((), w))\<rparr>"


text \<open>What the logger prints of a text is a prefix that ends at the start of a character, of exactly
  \<open>max\<close> characters if the text has more than that, and the whole text otherwise.\<close>

lemma truncate_spec:
  "(\<exists>rest. s = truncate_at_char_boundary s mx @ rest \<and> (rest \<noteq> [] \<longrightarrow> starts_char (hd rest))) \<and>
   length (char_indices 0 (truncate_at_char_boundary s mx)) = min mx (length (char_indices 0 s))"
proof (cases "mx < length (char_indices 0 s)")
  case True
  let ?i = "char_indices 0 s ! mx"
  have i: "?i < length s" "starts_char (s ! ?i)" using True char_indices_bounds [of ?i 0 s] by auto
  have "\<not> length s < mx" using True char_indices_length [of 0 s] by simp
  then have t: "truncate_at_char_boundary s mx = take ?i s" using True by (simp add: truncate_at_char_boundary_def)
  have "length (char_indices 0 (take ?i s)) = mx" using char_indices_take [OF True] by simp
  moreover have "s = take ?i s @ drop ?i s" "starts_char (hd (drop ?i s))" using i by (simp_all add: hd_drop_conv_nth)
  ultimately show ?thesis using t True by (metis min.absorb1 order_less_imp_le)
next
  case False
  then have "truncate_at_char_boundary s mx = s" by (simp add: truncate_at_char_boundary_def)
  with False show ?thesis by simp
qed

end
