(* ===== verification/Server_Dispatch.thy ===== *)
theory Server_Dispatch
  imports Rpc_Middleware
begin

text \<open>
  From bytes to the service: reading HTTP bodies (\<open>core/src/http_helpers.rs\<close>), parsing requests
  (\<open>server/src/utils.rs\<close>), \<open>handle_rpc_call\<close> of \<open>server/src/server.rs\<close>, and the HTTP transport of
  \<open>server/src/transport/http.rs\<close>.

  The readers of \<open>serde_json\<close>, and \<open>http_body_util::Limited\<close>, which cuts a body at a size, are
  parameters. Header names are lower case, as the \<open>http\<close> crate keeps them.
\<close>

section \<open>Bodies (core/src/http_helpers.rs)\<close>

type_synonym HeaderMap = "(string \<times> string) list"

datatype Frame = DataFrame string | Trailers | FrameError

datatype HttpError = TooLarge | Malformed | Stream

definition get_all :: "HeaderMap \<Rightarrow> string \<Rightarrow> string list" where
  "get_all headers name = map snd (filter (\<lambda>h. fst h = name) headers)"

text \<open>\<open>HeaderValue::to_str\<close>: visible ASCII characters, space and tab.\<close>

definition to_str :: "string \<Rightarrow> string option" where
  "to_str v = (if \<forall>c \<in> set v. (32 \<le> (of_char c :: nat) \<and> (of_char c :: nat) < 127) \<or> of_char c = (9 :: nat)
     then Some v else None)"

definition read_header_value :: "HeaderMap \<Rightarrow> string \<Rightarrow> string option" where
  "read_header_value headers name = (case get_all headers name of
       [v] \<Rightarrow> to_str v
     | _ \<Rightarrow> None)"

definition read_header_content_length :: "HeaderMap \<Rightarrow> u32 option" where
  "read_header_content_length headers = (case read_header_value headers ''content-length'' of
       None \<Rightarrow> None
     | Some len \<Rightarrow> map_option of_nat (parse_unsigned (2 ^ 32) len))"

fun read_frames ::
  "Frame list \<Rightarrow> bool option \<Rightarrow> string \<Rightarrow> (bool option \<times> string, HttpError) result" where
  "read_frames [] is_single received = Ok (is_single, received)"
| "read_frames (FrameError # fs) is_single received = Err Stream"
| "read_frames (Trailers # fs) is_single received = read_frames fs is_single received"
| "read_frames (DataFrame data # fs) is_single received =
     (if received = [] then
        (case first_non_whitespace 128 0 data of
           Some (idx, c) \<Rightarrow>
             if c = CHR ''{'' then read_frames fs (Some True) (received @ drop idx data)
             else if c = CHR ''['' then read_frames fs (Some False) (received @ drop idx data)
             else Err Malformed
         | None \<Rightarrow> Err Malformed)
      else read_frames fs is_single (received @ data))"

definition read_body ::
  "(nat \<Rightarrow> Frame list \<Rightarrow> Frame list) \<Rightarrow> HeaderMap \<Rightarrow> Frame list \<Rightarrow> u32 \<Rightarrow> (string \<times> bool, HttpError) result" where
  "read_body limited headers body max_body_size =
     (let body_size = (case read_header_content_length headers of Some n \<Rightarrow> n | None \<Rightarrow> 0) in
      if body_size > max_body_size then Err TooLarge
      else case read_frames (limited (unat max_body_size) body) None [] of
        Inl e \<Rightarrow> Err e
      | Inr (Some single, received) \<Rightarrow> if received \<noteq> [] then Ok (received, single) else Err Malformed
      | Inr (None, _) \<Rightarrow> Err Malformed)"

section \<open>Dispatching requests (server/src/utils.rs, server/src/server.rs)\<close>

text \<open>The readers of \<open>serde_json\<close> at the types \<open>Request\<close>, \<open>Notification\<close>, \<open>InvalidRequest\<close> and \<open>Vec<&RawValue>\<close>.\<close>

record readers =
  de_call :: "string \<Rightarrow> Request option"
  de_notif :: "string \<Rightarrow> ServerNotification option"
  de_invalid :: "string \<Rightarrow> InvalidRequest_t option"
  de_array :: "string \<Rightarrow> string list option"

definition call_from_slice :: "readers \<Rightarrow> string \<Rightarrow> extensions \<Rightarrow> Request option" where
  "call_from_slice de data ext = map_option (\<lambda>req. req\<lparr>req_extensions := ext\<rparr>) (de_call de data)"

definition notif_from_slice :: "readers \<Rightarrow> string \<Rightarrow> extensions \<Rightarrow> ServerNotification option" where
  "notif_from_slice de data ext = map_option (\<lambda>n. n\<lparr>ntf_extensions := ext\<rparr>) (de_notif de data)"

datatype BatchRequestConfig = BatchDisabled | BatchLimit u32 | BatchUnlimited

text \<open>The trait \<open>RpcServiceT\<close> at the types of a server.\<close>

type_synonym 'w rpc_service_t = "('w, MethodResponse, MethodResponse outcome, MethodResponse) rpc_service"

definition rpc_service_impl ::
  "emitter \<Rightarrow> (string \<Rightarrow> bool) \<Rightarrow> ('c, 'u) RpcService \<Rightarrow> ('c, 'u) server_world rpc_service_t" where
  "rpc_service_impl emit valid_json s =
     \<lparr>svc_call = RpcService_call emit s, svc_batch = RpcService_batch emit valid_json s,
      svc_notification = (\<lambda>n w. (RpcService_notification n, w))\<rparr>"

definition parse_batch_entry :: "readers \<Rightarrow> extensions \<Rightarrow> string \<Rightarrow> batch_item" where
  "parse_batch_entry de ext call = (case call_from_slice de call ext of
       Some req \<Rightarrow> Ok (BCall req)
     | None \<Rightarrow> (case notif_from_slice de call ext of
         Some notif \<Rightarrow> Ok (BNotification notif)
       | None \<Rightarrow> (let i = (case de_invalid de call of Some err \<Rightarrow> ivr_id err | None \<Rightarrow> Null) in
           Err (BatchEntryErr_new i (ErrorObject_from InvalidRequest)))))"

definition handle_rpc_call ::
  "emitter \<Rightarrow> readers \<Rightarrow> string \<Rightarrow> bool \<Rightarrow> BatchRequestConfig \<Rightarrow> 'w rpc_service_t \<Rightarrow> extensions \<Rightarrow> 'w \<Rightarrow>
     MethodResponse outcome \<times> 'w"
where
  "handle_rpc_call emit de body is_single batch_config svc ext w =
     (if is_single then
        (case call_from_slice de body ext of
           Some req \<Rightarrow> apfst Done (svc_call svc req w)
         | None \<Rightarrow> (case notif_from_slice de body ext of
             Some notif \<Rightarrow> apfst Done (svc_notification svc notif w)
           | None \<Rightarrow> (let (i, code) = prepare_error (de_invalid de) body in
               (Done (MethodResponse_error emit i (ErrorObject_from code)), w))))
      else
        (case (case batch_config of
                 BatchDisabled \<Rightarrow> None
               | BatchLimit limit \<Rightarrow> Some (unat limit)
               | BatchUnlimited \<Rightarrow> Some usize_MAX) of
           None \<Rightarrow> (Done (MethodResponse_error emit Null
             (ErrorObject_borrowed BATCHES_NOT_SUPPORTED_CODE BATCHES_NOT_SUPPORTED_MSG None)), w)
         | Some max_n \<Rightarrow> (case de_array de body of
             Some unchecked_batch \<Rightarrow>
               if length unchecked_batch > max_n
               then (Done (MethodResponse_error emit Null (reject_too_big_batch_request emit max_n)), w)
               else svc_batch svc (Batch_from (map (parse_batch_entry de ext) unchecked_batch)) w
           | None \<Rightarrow> (Done (MethodResponse_error emit Null (ErrorObject_from ParseError)), w))))"

section \<open>The HTTP transport (server/src/transport/http.rs)\<close>

record HttpRequest =
  hr_method :: string
  hr_headers :: HeaderMap
  hr_body :: "Frame list"
  hr_extensions :: extensions

record HttpResponse =
  hp_status :: nat
  hp_body :: string
  hp_content_type :: string
  hp_extensions :: extensions

definition JSON :: string where "JSON = ''application/json; charset=utf-8''"
definition TEXT :: string where "TEXT = ''text/plain''"

definition is_json :: "string option \<Rightarrow> bool" where
  "is_json content_type = (case Option.bind content_type to_str of
       None \<Rightarrow> False
     | Some content \<Rightarrow> list_ex (eq_ignore_ascii_case content)
         [''application/json'', ''application/json; charset=utf-8'', ''application/json;charset=utf-8'',
          ''application/json-rpc'', ''application/json-rpc;charset=utf-8'', ''application/json-rpc; charset=utf-8''])"

definition content_type_is_json :: "HttpRequest \<Rightarrow> bool" where
  "content_type_is_json request =
     is_json (case get_all (hr_headers request) ''content-type'' of v # _ \<Rightarrow> Some v | [] \<Rightarrow> None)"

definition from_template :: "nat \<Rightarrow> string \<Rightarrow> string \<Rightarrow> HttpResponse" where
  "from_template status body content_type =
     \<lparr>hp_status = status, hp_body = body, hp_content_type = content_type, hp_extensions = Map.empty\<rparr>"

definition internal_error :: "emitter \<Rightarrow> HttpResponse" where
  "internal_error emit = from_template 500 (error_json emit Null (ErrorObject_from InternalError)) JSON"

definition error_response :: "emitter \<Rightarrow> ErrorObject \<Rightarrow> HttpResponse" where
  "error_response emit error = from_template 500 (expect_raw emit (ErrorObject_serialize error)) JSON"

definition host_not_allowed :: HttpResponse where
  "host_not_allowed = from_template 403 (''Provided Host header is not whitelisted.'' @ [CHR 0x0A]) TEXT"

definition method_not_allowed :: HttpResponse where
  "method_not_allowed = from_template 405 (''Used HTTP Method is not allowed. POST is required'' @ [CHR 0x0A]) TEXT"

definition too_large :: "emitter \<Rightarrow> u32 \<Rightarrow> HttpResponse" where
  "too_large emit limit = from_template 413 (error_json emit Null (reject_too_big_request emit limit)) JSON"

definition malformed :: "emitter \<Rightarrow> HttpResponse" where
  "malformed emit = from_template 400 (error_json emit Null (ErrorObject_from ParseError)) JSON"

definition ok_response :: "string \<Rightarrow> HttpResponse" where
  "ok_response body = from_template 200 body JSON"

definition from_method_response :: "MethodResponse \<Rightarrow> HttpResponse" where
  "from_method_response rp = (from_template 200 (mr_json rp) JSON)\<lparr>hp_extensions := mr_extensions rp\<rparr>"

definition unsupported_content_type :: HttpResponse where
  "unsupported_content_type = from_template 415
     (''Supplied content type is not allowed. Content-Type: application/json is required'' @ [CHR 0x0A]) TEXT"

definition too_many_requests :: HttpResponse where
  "too_many_requests = from_template 429 ''Too many connections. Please try again later.'' TEXT"

definition denied :: HttpResponse where
  "denied = from_template 403 [] TEXT"

definition call_with_service ::
  "emitter \<Rightarrow> (nat \<Rightarrow> Frame list \<Rightarrow> Frame list) \<Rightarrow> readers \<Rightarrow> HttpRequest \<Rightarrow> BatchRequestConfig \<Rightarrow> u32 \<Rightarrow>
     'w rpc_service_t \<Rightarrow> 'w \<Rightarrow> HttpResponse outcome \<times> 'w"
where
  "call_with_service emit limited de request batch_config max_request_size svc w =
     (if hr_method request = ''POST'' \<and> content_type_is_json request then
        (case read_body limited (hr_headers request) (hr_body request) max_request_size of
           Inl TooLarge \<Rightarrow> (Done (too_large emit max_request_size), w)
         | Inl Malformed \<Rightarrow> (Done (malformed emit), w)
         | Inl Stream \<Rightarrow> (Done (internal_error emit), w)
         | Inr (body, is_single) \<Rightarrow>
             (case handle_rpc_call emit de body is_single batch_config svc (hr_extensions request) w of
                (Done rp, w') \<Rightarrow> (Done (from_method_response rp), w')
              | (Panicked, w') \<Rightarrow> (Panicked, w')))
      else if hr_method request = ''POST'' then (Done unsupported_content_type, w)
      else (Done method_not_allowed, w))"

section \<open>Lemmas\<close>

fun body_data :: "Frame list \<Rightarrow> string" where
  "body_data [] = []"
| "body_data (DataFrame d # fs) = d @ body_data fs"
| "body_data (_ # fs) = body_data fs"

text \<open>A body that keeps to the limit passes unchanged through \<open>Limited\<close>, a longer one is cut by an error.\<close>

definition limits :: "(nat \<Rightarrow> Frame list \<Rightarrow> Frame list) \<Rightarrow> bool" where
  "limits limited \<longleftrightarrow> (\<forall>n fs. length (body_data (limited n fs)) \<le> n \<and>
     (if length (body_data fs) \<le> n then limited n fs = fs else FrameError \<in> set (limited n fs)))"

lemma first_non_whitespace_split:
  "first_non_whitespace n i s = Some (j, c) \<Longrightarrow>
     \<exists>ws. s = ws @ drop (j - i) s \<and> (\<forall>x \<in> set ws. is_ascii_whitespace x) \<and> length ws = j - i \<and> j - i < n \<and>
       drop (j - i) s \<noteq> [] \<and> hd (drop (j - i) s) = c \<and> i \<le> j"
proof (induction n i s rule: first_non_whitespace.induct)
  case (3 n i c' cs)
  show ?case
  proof (cases "is_ascii_whitespace c'")
    case True
    with 3 obtain ws where "cs = ws @ drop (j - Suc i) cs" "\<forall>x \<in> set ws. is_ascii_whitespace x"
      "length ws = j - Suc i" "j - Suc i < n" "drop (j - Suc i) cs \<noteq> []" "hd (drop (j - Suc i) cs) = c" "Suc i \<le> j"
      by auto
    moreover from this(7) have "j - i = Suc (j - Suc i)" by simp
    ultimately show ?thesis using True by (intro exI [of _ "c' # ws"]) auto
  qed (use 3 in auto)
qed simp_all

lemma read_frames_later:
  "received \<noteq> [] \<Longrightarrow> read_frames fs is_single received =
     (if FrameError \<in> set fs then Inl Stream else Inr (is_single, received @ body_data fs))"
  by (induction fs arbitrary: received rule: body_data.induct) auto

lemma read_frames_first:
  assumes "read_frames fs None [] = Inr (is_single, received)" "received \<noteq> []"
  shows "\<exists>ws single. is_single = Some single \<and> body_data fs = ws @ received \<and>
    (\<forall>x \<in> set ws. is_ascii_whitespace x) \<and> length ws < 128 \<and> hd received = (if single then CHR ''{'' else CHR ''['')"
  using assms
proof (induction fs rule: body_data.induct)
  case (2 d fs)
  then obtain j c where jc: "first_non_whitespace 128 0 d = Some (j, c)" by (auto split: option.splits)
  from first_non_whitespace_split [OF jc] obtain ws where ws: "d = ws @ drop j d" "\<forall>x \<in> set ws. is_ascii_whitespace x"
    "length ws < 128" "drop j d \<noteq> []" "hd (drop j d) = c" by auto
  with 2 jc have "received = drop j d @ body_data fs" "is_single = Some (c = CHR ''{'')" "c = CHR ''{'' \<or> c = CHR ''[''"
    by (auto simp: read_frames_later split: if_splits)
  with ws show ?case by (intro exI [of _ ws] exI [of _ "c = CHR ''{''"]) auto
qed simp_all

lemma read_frames_error:
  "FrameError \<in> set fs \<Longrightarrow> read_frames fs is_single received \<in> {Inl Stream, Inl Malformed}"
  by (induction fs is_single received rule: read_frames.induct) (auto split: option.splits)

lemma read_body_shape:
  assumes "limits limited" and "read_body limited headers frames max_size = Inr (body, single)"
  shows "length body \<le> unat max_size \<and> (\<exists>ws. body_data frames = ws @ body \<and>
      (\<forall>x \<in> set ws. is_ascii_whitespace x) \<and> length ws < 128) \<and>
    body \<noteq> [] \<and> hd body = (if single then CHR ''{'' else CHR ''['')"
proof -
  let ?fs = "limited (unat max_size) frames"
  from assms(2) have r: "read_frames ?fs None [] = Inr (Some single, body)" "body \<noteq> []"
    by (auto simp: read_body_def Let_def split: if_splits sum.splits option.splits)
  then have noerr: "FrameError \<notin> set ?fs" using read_frames_error [of ?fs None "[]"] by auto
  with assms(1) have "?fs = frames" unfolding limits_def by metis
  moreover have "length (body_data ?fs) \<le> unat max_size" using assms(1) by (simp add: limits_def)
  ultimately show ?thesis using read_frames_first [OF r] r(2) by auto
qed

section \<open>Properties\<close>

text \<open>C37. A body that is accepted is the received data without its leading whitespace (at most 127
  bytes of it), is not longer than the limit, and starts with the bracket that says whether it is a
  single request or a batch.\<close>

theorem read_body_spec:
  assumes "limits limited" and "read_body limited headers frames max_size = Inr (body, single)"
  shows "length body \<le> unat max_size \<and> (\<exists>ws. body_data frames = ws @ body \<and>
      (\<forall>x \<in> set ws. is_ascii_whitespace x) \<and> length ws < 128) \<and>
    body \<noteq> [] \<and> hd body = (if single then CHR ''{'' else CHR ''['')"
  by (rule read_body_shape [OF assms])

fun limited_ref :: "nat \<Rightarrow> Frame list \<Rightarrow> Frame list" where
  "limited_ref n [] = []"
| "limited_ref n (DataFrame d # fs) = (if length d \<le> n then DataFrame d # limited_ref (n - length d) fs else [FrameError])"
| "limited_ref n (f # fs) = f # limited_ref n fs"

lemma limits_ref: "limits limited_ref"
proof -
  have "length (body_data (limited_ref n fs)) \<le> n \<and>
    (if length (body_data fs) \<le> n then limited_ref n fs = fs else FrameError \<in> set (limited_ref n fs))" for n fs
    by (induction n fs rule: limited_ref.induct) auto
  then show ?thesis by (simp add: limits_def)
qed

theorem read_body_spec_witness:
  "length ''[1]'' \<le> unat (10 :: u32) \<and> read_body limited_ref [] [DataFrame '' [1'', DataFrame '']''] 10 = Inr (''[1]'', False)"
proof -
  have r: "read_body limited_ref [] [DataFrame '' [1'', DataFrame '']''] 10 = Inr (''[1]'', False)"
    by code_simp
  from read_body_spec [OF limits_ref r] r show ?thesis by simp
qed

text \<open>A request body over the limit is refused before anything is executed; but only a
  \<open>Content-Length\<close> that says so is answered with the status 413. When the length is not announced
  the answer is 500 with an internal error, or 400 if the data is malformed before the limit.\<close>

lemma oversized_body_refused:
  assumes "limits limited" and "hr_method request = ''POST''" and "content_type_is_json request"
    and "length (body_data (hr_body request)) > unat max_size"
  shows "\<exists>rp. call_with_service emit limited de request cfg max_size svc w = (Done rp, w) \<and>
    (hp_status rp = 413 \<longleftrightarrow> (\<exists>n. read_header_content_length (hr_headers request) = Some n \<and> n > max_size)) \<and>
    (hp_status rp \<noteq> 413 \<longrightarrow> hp_status rp \<in> {400, 500})"
proof -
  let ?fs = "limited (unat max_size) (hr_body request)"
  have "FrameError \<in> set ?fs" using assms(1,4) by (meson limits_def not_le)
  from read_frames_error [OF this, of None "[]"]
  have "read_body limited (hr_headers request) (hr_body request) max_size \<in>
    (if \<exists>n. read_header_content_length (hr_headers request) = Some n \<and> n > max_size then {Inl TooLarge}
     else {Inl Stream, Inl Malformed})"
    by (auto simp: read_body_def Let_def split: option.splits)
  with assms(2,3) show ?thesis
    by (auto simp: call_with_service_def too_large_def malformed_def internal_error_def from_template_def
        split: if_splits)
qed

text \<open>A notification over HTTP is answered with the status 200 and the body \<open>null\<close>, and executes nothing.\<close>

lemma http_notification_body:
  assumes "hr_method request = ''POST''" and "content_type_is_json request"
    and "read_body limited (hr_headers request) (hr_body request) max_size = Inr (body, True)"
    and "de_call de body = None" and "de_notif de body = Some n"
  shows "\<exists>rp. call_with_service emit limited de request cfg max_size (rpc_service_impl emit valid_json s) w = (Done rp, w) \<and>
    hp_status rp = 200 \<and> hp_body rp = ''null'' \<and> hp_extensions rp = hr_extensions request"
  using assms
  by (auto simp: call_with_service_def handle_rpc_call_def call_from_slice_def notif_from_slice_def rpc_service_impl_def
      RpcService_notification_def MethodResponse_notification_def from_method_response_def from_template_def)

text \<open>The responses of a batch belong to its calls and malformed entries, in order.\<close>

lemma entry_responses_each:
  assumes "\<forall>e \<in> set es. batch_item_ok e"
  shows "list_all2 (\<lambda>e rp. case e of
      Inl err \<Rightarrow> (\<exists>x i. into_parts err = Done (x, i) \<and> rp = MethodResponse_error emit i x)
    | Inr (BCall req) \<Rightarrow> (\<exists>v. fst (RpcService_call emit s req v) = rp)
    | Inr (BNotification _) \<Rightarrow> False)
   (filter (\<lambda>e. \<not> is_notification_item e) es) (fst (entry_responses emit s es w))"
  using assms
proof (induction emit s es w rule: entry_responses.induct)
  case (2 emit s req es w)
  then show ?case
    by (cases "RpcService_call emit s req w")
       (auto simp: is_notification_item_def split_beta Let_def intro!: exI [of _ w])
next
  case (4 emit s err es w)
  then show ?case
    by (cases "into_parts err") (auto simp: is_notification_item_def batch_item_ok_def split_beta Let_def)
qed (auto simp: is_notification_item_def batch_item_ok_def split_beta Let_def)

lemma parse_batch_entry_ok: "batch_item_ok (parse_batch_entry de ext call)"
  by (simp add: parse_batch_entry_def batch_item_ok_def BatchEntryErr_new_def Response_new_def Let_def split: option.split)

lemma parse_batch_entry_kind:
  "\<not> is_notification_item (parse_batch_entry de ext call) \<longleftrightarrow> de_call de call \<noteq> None \<or> de_notif de call = None"
  by (auto simp: is_notification_item_def parse_batch_entry_def call_from_slice_def notif_from_slice_def Let_def
      split: option.splits)

definition batch_allowed :: "BatchRequestConfig \<Rightarrow> nat \<Rightarrow> bool" where
  "batch_allowed cfg n = (case cfg of
       BatchDisabled \<Rightarrow> False | BatchLimit limit \<Rightarrow> n \<le> unat limit | BatchUnlimited \<Rightarrow> n \<le> usize_MAX)"

text \<open>C10. A batch request that is allowed and whose answers fit is answered with one array that holds, in
  the order of the request, one response for every element that is not a notification: the
  service's response to a call, and the error \<open>-32600\<close> under the element's id (null if it has none)
  for an element that is neither a call nor a notification. Extensions of the HTTP request reach
  every call.\<close>

theorem batch_request_answered:
  fixes s :: "('c, 'u) RpcService"
  assumes "de_array de body = Some calls" and "batch_allowed cfg (length calls)"
    and "items = map (parse_batch_entry de ext) calls"
    and "entry_responses emit s items w = (rs, w')" and "rs \<noteq> []"
    and "length (''['' @ join_comma (map mr_json rs) @ '']'') \<le> rs_max_response_body_size s"
    and "valid_json (''['' @ join_comma (map mr_json rs) @ '']'')"
  shows "\<exists>rp. handle_rpc_call emit de body False cfg (rpc_service_impl emit valid_json s) ext w = (Done rp, w') \<and>
    mr_json rp = ''['' @ join_comma (map mr_json rs) @ '']'' \<and>
    list_all2 (\<lambda>call r.
        if de_call de call = None
        then mr_json r = error_json emit (case de_invalid de call of Some x \<Rightarrow> ivr_id x | None \<Rightarrow> Null)
               (ErrorObject_from InvalidRequest)
        else \<exists>req v. de_call de call = Some req \<and> r = fst (RpcService_call emit s (req\<lparr>req_extensions := ext\<rparr>) v))
      (filter (\<lambda>call. de_call de call \<noteq> None \<or> de_notif de call = None) calls) rs"
proof -
  have ok: "\<forall>e \<in> set items. batch_item_ok e" by (auto simp: assms(3) parse_batch_entry_ok)
  have "handle_rpc_call emit de body False cfg (rpc_service_impl emit valid_json s) ext w =
    RpcService_batch emit valid_json s (Batch_from items) w"
    using assms(1-3)
    by (auto simp: handle_rpc_call_def batch_allowed_def rpc_service_impl_def split: BatchRequestConfig.splits)
  moreover have "RpcService_batch emit valid_json s (Batch_from items) w = (Done (MethodResponse_from_batch
    \<lparr>sb_json = ''['' @ join_comma (map mr_json rs) @ '']'', sb_extensions = fold (\<lambda>r e. e ++ mr_extensions r) rs Map.empty\<rparr>), w')"
    by (rule service_batch_fits) (use ok assms in \<open>simp_all add: Batch_from_def\<close>)
  moreover have "filter (\<lambda>e. \<not> is_notification_item e) items =
      map (parse_batch_entry de ext) (filter (\<lambda>call. de_call de call \<noteq> None \<or> de_notif de call = None) calls)"
    using parse_batch_entry_kind [of de ext] by (simp add: assms(3) filter_map o_def)
  ultimately show ?thesis
    using entry_responses_each [OF ok, of emit s w] assms(4)
    by (auto simp: MethodResponse_from_batch_def list_all2_map1 elim!: list_all2_mono)
       (auto simp: parse_batch_entry_def call_from_slice_def notif_from_slice_def BatchEntryErr_new_def Response_new_def
          MethodResponse_error_def Let_def split: option.splits)
qed

theorem batch_request_answered_witness:
  "\<exists>rp. handle_rpc_call json_emit \<lparr>de_call = \<lambda>_. None, de_notif = \<lambda>_. None, de_invalid = \<lambda>_. None, de_array = \<lambda>_. Some [''1'']\<rparr>
      ''[1]'' False BatchUnlimited (rpc_service_impl json_emit (\<lambda>_. True) (example_service\<lparr>rs_max_response_body_size := 1000\<rparr>))
      Map.empty example_server = (Done rp, example_server) \<and>
    mr_json rp = ''['' @ error_json json_emit Null (ErrorObject_from InvalidRequest) @ '']''"
proof -
  let ?de = "\<lparr>de_call = \<lambda>_. None, de_notif = \<lambda>_. None, de_invalid = \<lambda>_. None, de_array = \<lambda>_. Some [''1'']\<rparr>"
  let ?s = "example_service\<lparr>rs_max_response_body_size := 1000\<rparr>"
  have e: "entry_responses json_emit ?s (map (parse_batch_entry ?de Map.empty) [''1'']) example_server =
    ([MethodResponse_error json_emit Null (ErrorObject_from InvalidRequest)], example_server)"
    by (simp add: parse_batch_entry_def call_from_slice_def notif_from_slice_def BatchEntryErr_new_def Response_new_def)
  have len: "length (error_json json_emit Null (ErrorObject_from InvalidRequest)) \<le> 998"
    by (simp add: error_json_def expect_raw_def json_emit_def Response_serialize_def Response_new_def json_string_def
        ErrorObject_serialize_def ErrorObject_from_def ErrorCode_serialize_def TwoPointZero_serialize_def escape_char_def
        INVALID_REQUEST_MSG_def int_to_string_def nat_to_string.simps rpc_defs)
  from batch_request_answered [OF _ _ refl e, of "''[1]''" BatchUnlimited "\<lambda>_. True"] len show ?thesis
    by (auto simp: batch_allowed_def usize_MAX_def MethodResponse_error_def)
qed

end
