(* ===== verification/Http_Client.thy ===== *)
theory Http_Client
  imports Client_Frontend Server_Dispatch "HOL-Library.Multiset"
begin

text \<open>
  The HTTP client: the transport of \<open>client/http-client/src/transport.rs\<close> with its builder, the
  service of \<open>rpc_service.rs\<close> that turns one call, batch or notification into one HTTP exchange,
  and the operations of \<open>client.rs\<close>. The crates \<open>url\<close>, \<open>http\<close> (its \<open>HeaderMap\<close>), \<open>base64\<close> and \<open>hyper\<close>
  are parameters, and so is the timer that \<open>tokio::time::timeout\<close> races with the exchange. What lies
  beyond the client, connections and servers, is the type variable \<open>'n\<close>.
\<close>

section \<open>What the transports use of other crates\<close>

text \<open>\<open>url::Url\<close>; \<open>port\<close> is \<open>None\<close> for the default port of the scheme.\<close>

datatype UrlParseError = RelativeUrlWithoutBase | OtherUrlError string

record 'u url_ops =
  url_parse :: "string \<Rightarrow> ('u, UrlParseError) result"
  url_error_text :: "UrlParseError \<Rightarrow> string"
  url_scheme :: "'u \<Rightarrow> string"
  url_host_str :: "'u \<Rightarrow> string option"
  url_port :: "'u \<Rightarrow> nat option"
  url_path :: "'u \<Rightarrow> string"
  url_query :: "'u \<Rightarrow> string option"
  url_username :: "'u \<Rightarrow> string"
  url_password :: "'u \<Rightarrow> string option"
  url_drop_fragment :: "'u \<Rightarrow> 'u"
  url_drop_password :: "'u \<Rightarrow> 'u"
  url_drop_username :: "'u \<Rightarrow> 'u"
  url_as_str :: "'u \<Rightarrow> string"

text \<open>
  \<open>HeaderMap::insert\<close>, which replaces every value of the name, and \<open>into_iter\<close>, which gives the name
  only with the first of its values. \<open>header_value\<close> is \<open>HeaderValue::from_str\<close> and \<open>base64\<close> the
  standard encoding.
\<close>

record header_ops =
  hm_insert :: "string \<Rightarrow> string \<Rightarrow> HeaderMap \<Rightarrow> HeaderMap"
  hm_into_iter :: "HeaderMap \<Rightarrow> (string option \<times> string) list"
  hm_header_value :: "string \<Rightarrow> string option"
  hm_base64 :: "string \<Rightarrow> string"

definition contains_key :: "HeaderMap \<Rightarrow> string \<Rightarrow> bool" where
  "contains_key headers name = (get_all headers name \<noteq> [])"

text \<open>\<open>format!("Basic {digest}")\<close> as a header value.\<close>

definition basic_auth :: "header_ops \<Rightarrow> string \<Rightarrow> string \<Rightarrow> string option" where
  "basic_auth ho user pwd = hm_header_value ho (''Basic '' @ hm_base64 ho (user @ '':'' @ pwd))"

section \<open>The transport (transport.rs)\<close>

datatype TransportError =
    TUrl string
  | THttp HttpError
  | TRejected nat
  | TRequestTooLarge
  | TInvalidCertficateStore

text \<open>The texts of the errors; the text of a failed stream comes from the connection.\<close>

fun HttpError_to_string :: "string \<Rightarrow> HttpError \<Rightarrow> string" where
  "HttpError_to_string stream TooLarge = ''The HTTP message was too big''"
| "HttpError_to_string stream Malformed = ''Malformed request''"
| "HttpError_to_string stream Stream = stream"

fun TransportError_to_string :: "string \<Rightarrow> TransportError \<Rightarrow> string" where
  "TransportError_to_string stream (TUrl s) = ''Invalid Url: '' @ s"
| "TransportError_to_string stream (THttp e) = HttpError_to_string stream e"
| "TransportError_to_string stream (TRejected status) = ''Request rejected `'' @ nat_to_string status @ ''`''"
| "TransportError_to_string stream TRequestTooLarge = ''The request body was too large''"
| "TransportError_to_string stream TInvalidCertficateStore = ''Invalid certificate store''"

record ClientHttpRequest =
  cq_uri :: string
  cq_method :: string
  cq_headers :: HeaderMap
  cq_body :: string

record ClientHttpResponse =
  cp_status :: nat
  cp_headers :: HeaderMap
  cp_body :: "Frame list"

type_synonym 'n http_backend = "ClientHttpRequest \<Rightarrow> 'n \<Rightarrow> (ClientHttpResponse, TransportError) result \<times> 'n"

datatype HttpBackend = BackendHttp bool | BackendHttps bool

text \<open>\<open>HttpBackend::call\<close>: every error of hyper's client is a stream error.\<close>

definition HttpBackend_call ::
  "(HttpBackend \<Rightarrow> ClientHttpRequest \<Rightarrow> 'n \<Rightarrow> (ClientHttpResponse, 'e) result \<times> 'n) \<Rightarrow> HttpBackend \<Rightarrow> 'n http_backend" where
  "HttpBackend_call hyper inner req n = (case hyper inner req n of
       (Inr rp, n') \<Rightarrow> (Ok rp, n')
     | (Inl _, n') \<Rightarrow> (Err (THttp Stream), n'))"

record HttpTransportClientBuilder =
  tb_max_request_size :: u32
  tb_max_response_size :: u32
  tb_headers :: HeaderMap
  tb_tcp_no_delay :: bool

definition HttpTransportClientBuilder_new :: HttpTransportClientBuilder where
  "HttpTransportClientBuilder_new = \<lparr>tb_max_request_size = TEN_MB_SIZE_BYTES, tb_max_response_size = TEN_MB_SIZE_BYTES,
     tb_headers = [], tb_tcp_no_delay = True\<rparr>"

record 'n HttpTransportClient =
  ht_target :: string
  ht_client :: "'n http_backend"
  ht_max_request_size :: u32
  ht_max_response_size :: u32
  ht_headers :: HeaderMap

definition CONTENT_TYPE_JSON :: string where "CONTENT_TYPE_JSON = ''application/json''"

text \<open>The two default headers, then the user's: \<open>insert\<close> for every item that carries its name.\<close>

fun insert_headers :: "header_ops \<Rightarrow> (string option \<times> string) list \<Rightarrow> HeaderMap \<Rightarrow> HeaderMap" where
  "insert_headers ho [] cached = cached"
| "insert_headers ho ((Some key, v) # rest) cached = insert_headers ho rest (hm_insert ho key v cached)"
| "insert_headers ho ((None, _) # rest) cached = insert_headers ho rest cached"

definition default_headers :: "header_ops \<Rightarrow> HeaderMap" where
  "default_headers ho =
     hm_insert ho ''accept'' CONTENT_TYPE_JSON (hm_insert ho ''content-type'' CONTENT_TYPE_JSON [])"

definition cached_headers :: "header_ops \<Rightarrow> HeaderMap \<Rightarrow> HeaderMap" where
  "cached_headers ho headers = insert_headers ho (hm_into_iter ho headers) (default_headers ho)"

definition with_authorization ::
  "'u url_ops \<Rightarrow> header_ops \<Rightarrow> 'u \<Rightarrow> HeaderMap \<Rightarrow> (HeaderMap, TransportError) result" where
  "with_authorization uo ho url cached = (case url_password uo url of
       None \<Rightarrow> Ok cached
     | Some pwd \<Rightarrow>
         if contains_key cached ''authorization'' then Ok cached
         else (case basic_auth ho (url_username uo url) pwd of
             None \<Rightarrow> Err (TUrl ''Header value `authorization basic user:pwd` invalid'')
           | Some v \<Rightarrow> Ok (hm_insert ho ''authorization'' v cached)))"

text \<open>\<open>tls\<close> is the feature of that name; \<open>layer\<close> the HTTP middleware around the connection.\<close>

definition http_backend_for :: "bool \<Rightarrow> bool \<Rightarrow> string \<Rightarrow> (HttpBackend, TransportError) result" where
  "http_backend_for tls no_delay scheme =
     (if scheme = ''http'' then Ok (BackendHttp no_delay)
      else if tls \<and> scheme = ''https'' then Ok (BackendHttps no_delay)
      else Err (TUrl (if tls then ''URL scheme not supported, expects 'http' or 'https'' @ [CHR 0x27]
                      else ''URL scheme not supported, expects 'http'' @ [CHR 0x27])))"

definition HttpTransportClientBuilder_build ::
  "'u url_ops \<Rightarrow> header_ops \<Rightarrow> bool \<Rightarrow> (HttpBackend \<Rightarrow> 'n http_backend) \<Rightarrow> string \<Rightarrow> HttpTransportClientBuilder \<Rightarrow>
     ('n HttpTransportClient, TransportError) result"
where
  "HttpTransportClientBuilder_build uo ho tls layer target b = (case url_parse uo target of
       Inl e \<Rightarrow> Err (TUrl (''Invalid URL: '' @ url_error_text uo e))
     | Inr parsed \<Rightarrow>
         if url_host_str uo parsed = None then Err (TUrl ''Invalid host'')
         else (let url = url_drop_fragment uo parsed in
           case http_backend_for tls (tb_tcp_no_delay b) (url_scheme uo url) of
             Inl e \<Rightarrow> Err e
           | Inr client \<Rightarrow> (case with_authorization uo ho url (cached_headers ho (tb_headers b)) of
               Inl e \<Rightarrow> Err e
             | Inr headers \<Rightarrow> Ok \<lparr>ht_target = url_as_str uo (url_drop_username uo (url_drop_password uo url)),
                 ht_client = layer client, ht_max_request_size = tb_max_request_size b,
                 ht_max_response_size = tb_max_response_size b, ht_headers = headers\<rparr>)))"

text \<open>
  \<open>inner_send\<close>. Building the request panics when the target is not a URI for the \<open>http\<close> crate;
  \<open>valid_uri\<close> is its parser.
\<close>

definition is_success :: "nat \<Rightarrow> bool" where
  "is_success status = (200 \<le> status \<and> status < 300)"

definition inner_send ::
  "(string \<Rightarrow> bool) \<Rightarrow> 'n HttpTransportClient \<Rightarrow> string \<Rightarrow> 'n \<Rightarrow>
     (ClientHttpResponse, TransportError) result outcome \<times> 'n"
where
  "inner_send valid_uri t body n =
     (if length body > unat (ht_max_request_size t) then (Done (Err TRequestTooLarge), n)
      else if \<not> valid_uri (ht_target t) then (Panicked, n)
      else (case ht_client t \<lparr>cq_uri = ht_target t, cq_method = ''POST'', cq_headers = ht_headers t, cq_body = body\<rparr> n of
          (Inl e, n') \<Rightarrow> (Done (Err e), n')
        | (Inr response, n') \<Rightarrow>
            if is_success (cp_status response) then (Done (Ok response), n')
            else (Done (Err (TRejected (cp_status response))), n')))"

definition send_and_read_body ::
  "(string \<Rightarrow> bool) \<Rightarrow> (nat \<Rightarrow> Frame list \<Rightarrow> Frame list) \<Rightarrow> 'n HttpTransportClient \<Rightarrow> string \<Rightarrow> 'n \<Rightarrow>
     (string, TransportError) result outcome \<times> 'n"
where
  "send_and_read_body valid_uri limited t body n = (case inner_send valid_uri t body n of
       (Panicked, n') \<Rightarrow> (Panicked, n')
     | (Done (Inl e), n') \<Rightarrow> (Done (Err e), n')
     | (Done (Inr response), n') \<Rightarrow>
         (Done (case read_body limited (cp_headers response) (cp_body response) (ht_max_response_size t) of
             Inl e \<Rightarrow> Err (THttp e)
           | Inr (body, _) \<Rightarrow> Ok body), n'))"

definition transport_send ::
  "(string \<Rightarrow> bool) \<Rightarrow> 'n HttpTransportClient \<Rightarrow> string \<Rightarrow> 'n \<Rightarrow> (unit, TransportError) result outcome \<times> 'n" where
  "transport_send valid_uri t body n = (case inner_send valid_uri t body n of
       (Panicked, n') \<Rightarrow> (Panicked, n')
     | (Done (Inl e), n') \<Rightarrow> (Done (Err e), n')
     | (Done (Inr _), n') \<Rightarrow> (Done (Ok ()), n'))"

section \<open>The service (rpc_service.rs)\<close>

text \<open>
  The surroundings of a client: the emitter and the readers of \<open>serde_json\<close>, the crates below the
  transport, and the timer. \<open>hx_interrupted timeout n\<close> is the state in which the timer cancels the
  exchange that starts in \<open>n\<close>, if it is the first to finish.
\<close>

record 'n http_env =
  hx_emit :: emitter
  hx_de_response :: "string \<Rightarrow> (RawResponse, string) result"
  hx_de_responses :: "string \<Rightarrow> (RawResponse list, string) result"
  hx_valid_uri :: "string \<Rightarrow> bool"
  hx_limited :: "nat \<Rightarrow> Frame list \<Rightarrow> Frame list"
  hx_stream_text :: string
  hx_debug :: "ErrorObject \<Rightarrow> string"
  hx_interrupted :: "nat \<Rightarrow> 'n \<Rightarrow> 'n option"

type_synonym 'n client_service = "('n, (MiddlewareMethodResponse, Error) result outcome,
  (RawResponse list, Error) result outcome, (extensions, Error) result outcome) rpc_service"

definition transport_failed :: "'n http_env \<Rightarrow> TransportError \<Rightarrow> Error" where
  "transport_failed hx e = ETransport (TransportError_to_string (hx_stream_text hx) e)"

text \<open>The part that calls and batches share: serialize, exchange, parse.\<close>

definition exchange ::
  "'n http_env \<Rightarrow> 'n HttpTransportClient \<Rightarrow> (string \<Rightarrow> ('t, string) result) \<Rightarrow> ser \<Rightarrow> 'n \<Rightarrow>
     ('t, Error) result outcome \<times> 'n"
where
  "exchange hx t de v n = (case to_raw_value (hx_emit hx) v of
       None \<Rightarrow> (Done (Err (EParseError ''serialize'')), n)
     | Some raw \<Rightarrow> (case send_and_read_body (hx_valid_uri hx) (hx_limited hx) t raw n of
         (Panicked, n') \<Rightarrow> (Panicked, n')
       | (Done (Inl e), n') \<Rightarrow> (Done (Err (transport_failed hx e)), n')
       | (Done (Inr bytes), n') \<Rightarrow> (Done (case de bytes of Inl e \<Rightarrow> Err (EParseError e) | Inr r \<Rightarrow> Ok r), n')))"

definition http_call ::
  "'n http_env \<Rightarrow> 'n HttpTransportClient \<Rightarrow> Request \<Rightarrow> 'n \<Rightarrow> (MiddlewareMethodResponse, Error) result outcome \<times> 'n" where
  "http_call hx t request n = (case exchange hx t (hx_de_response hx) (Request_serialize request) n of
       (Done (Inr rp), n') \<Rightarrow>
         (Done (Ok \<lparr>mm_rp = rp\<lparr>rp_extensions := req_extensions request\<rparr>, mm_subscription = None\<rparr>), n')
     | (Done (Inl e), n') \<Rightarrow> (Done (Err e), n')
     | (Panicked, n') \<Rightarrow> (Panicked, n'))"

definition http_batch ::
  "'n http_env \<Rightarrow> 'n HttpTransportClient \<Rightarrow> Batch \<Rightarrow> 'n \<Rightarrow> (RawResponse list, Error) result outcome \<times> 'n" where
  "http_batch hx t batch n = exchange hx t (hx_de_responses hx) (Batch_serialize batch) n"

definition http_notification ::
  "'n http_env \<Rightarrow> 'n HttpTransportClient \<Rightarrow> ServerNotification \<Rightarrow> 'n \<Rightarrow> (extensions, Error) result outcome \<times> 'n" where
  "http_notification hx t notif n =
     (case to_raw_value (hx_emit hx) (Notification_serialize (\<lambda>p. case p of Some json \<Rightarrow> SRaw json | None \<Rightarrow> SNull) notif) of
       None \<Rightarrow> (Done (Err (EParseError ''serialize'')), n)
     | Some raw \<Rightarrow> (case transport_send (hx_valid_uri hx) t raw n of
         (Panicked, n') \<Rightarrow> (Panicked, n')
       | (Done (Inl e), n') \<Rightarrow> (Done (Err (transport_failed hx e)), n')
       | (Done (Inr _), n') \<Rightarrow> (Done (Ok (ntf_extensions notif)), n')))"

definition HttpRpcService_new :: "'n http_env \<Rightarrow> 'n HttpTransportClient \<Rightarrow> 'n client_service" where
  "HttpRpcService_new hx t =
     \<lparr>svc_call = http_call hx t, svc_batch = http_batch hx t, svc_notification = http_notification hx t\<rparr>"

section \<open>The client (client.rs)\<close>

record HttpClientBuilder =
  hb_max_request_size :: u32
  hb_max_response_size :: u32
  hb_request_timeout :: nat
  hb_id_kind :: IdKind
  hb_headers :: HeaderMap
  hb_tcp_no_delay :: bool
  hb_max_concurrent_requests :: "nat option"

definition HttpClientBuilder_default :: HttpClientBuilder where
  "HttpClientBuilder_default = \<lparr>hb_max_request_size = TEN_MB_SIZE_BYTES, hb_max_response_size = TEN_MB_SIZE_BYTES,
     hb_request_timeout = 60, hb_id_kind = IdNumber, hb_headers = [], hb_tcp_no_delay = True,
     hb_max_concurrent_requests = None\<rparr>"

text \<open>\<open>hc_request_guard\<close> are the free permits of the semaphore that limits concurrent requests.\<close>

record 'n HttpClient =
  hc_service :: "'n client_service"
  hc_id_manager :: RequestIdManager
  hc_request_guard :: "nat option"
  hc_request_timeout :: nat

text \<open>\<open>rpc_layer\<close> is the RPC middleware around the service.\<close>

definition HttpClientBuilder_build ::
  "'n http_env \<Rightarrow> 'u url_ops \<Rightarrow> header_ops \<Rightarrow> bool \<Rightarrow> (HttpBackend \<Rightarrow> 'n http_backend) \<Rightarrow>
     ('n client_service \<Rightarrow> 'n client_service) \<Rightarrow> string \<Rightarrow> HttpClientBuilder \<Rightarrow> ('n HttpClient, Error) result"
where
  "HttpClientBuilder_build hx uo ho tls layer rpc_layer target b =
     (case HttpTransportClientBuilder_build uo ho tls layer target
             \<lparr>tb_max_request_size = hb_max_request_size b, tb_max_response_size = hb_max_response_size b,
              tb_headers = hb_headers b, tb_tcp_no_delay = hb_tcp_no_delay b\<rparr> of
       Inl e \<Rightarrow> Err (transport_failed hx e)
     | Inr http \<Rightarrow> Ok \<lparr>hc_service = rpc_layer (HttpRpcService_new hx http),
         hc_id_manager = RequestIdManager_new (hb_id_kind b),
         hc_request_guard = hb_max_concurrent_requests b,
         hc_request_timeout = hb_request_timeout b\<rparr>)"

text \<open>The permit that every operation holds: \<open>acquire\<close> waits while none is free, dropping it gives it back.\<close>

fun guard_acquire :: "nat option \<Rightarrow> nat option poll" where
  "guard_acquire None = Ready None"
| "guard_acquire (Some 0) = Pending"
| "guard_acquire (Some (Suc k)) = Ready (Some k)"

definition guard_release :: "nat option \<Rightarrow> nat option" where
  "guard_release g = map_option Suc g"

definition run_http_until_timeout ::
  "'n http_env \<Rightarrow> nat \<Rightarrow> ('n \<Rightarrow> ('t, Error) result outcome \<times> 'n) \<Rightarrow> 'n \<Rightarrow> ('t, Error) result outcome \<times> 'n" where
  "run_http_until_timeout hx timeout fut n = (case hx_interrupted hx timeout n of
       Some n' \<Rightarrow> (Done (Err ERequestTimeout), n')
     | None \<Rightarrow> fut n)"

text \<open>The texts of the client's errors (\<open>core/src/client/error.rs\<close>), which \<open>notification\<close> wraps.\<close>

fun InvalidRequestId_to_string :: "InvalidRequestId \<Rightarrow> string" where
  "InvalidRequestId_to_string (NotPendingRequest s) = ''request ID='' @ s @ '' is not a pending call''"
| "InvalidRequestId_to_string (Occupied s) = ''request ID='' @ s @ '' is already occupied by a pending call''"
| "InvalidRequestId_to_string (Invalid s) = ''request ID='' @ s @ '' is invalid''"

fun RegisterMethodError_to_string :: "RegisterMethodError \<Rightarrow> string" where
  "RegisterMethodError_to_string (AlreadyRegistered s) = ''Method: '' @ s @ '' was already registered''"
| "RegisterMethodError_to_string (SubscriptionNameConflict s) =
     ''Cannot use the same method name for subscribe and unsubscribe, used: '' @ s"
| "RegisterMethodError_to_string (RegMethodNotFound s) = ''Method: '' @ s @ '' has not yet been registered''"

fun Error_to_string :: "(ErrorObject \<Rightarrow> string) \<Rightarrow> Error \<Rightarrow> string" where
  "Error_to_string dbg (ECall e) = dbg e"
| "Error_to_string dbg (ETransport s) = s"
| "Error_to_string dbg (ERestartNeeded e) = ''The background task closed '' @ Error_to_string dbg e @ ''; restart required''"
| "Error_to_string dbg (EParseError s) = ''Parse error: '' @ s"
| "Error_to_string dbg EInvalidSubscriptionId = ''Invalid subscription ID''"
| "Error_to_string dbg (EInvalidRequestId e) = InvalidRequestId_to_string e"
| "Error_to_string dbg ERequestTimeout = ''Request timeout''"
| "Error_to_string dbg (ECustom s) = ''Custom error: '' @ s"
| "Error_to_string dbg EHttpNotImplemented = ''Not implemented''"
| "Error_to_string dbg (EEmptyBatchRequest e) = ''Empty batch request is not allowed''"
| "Error_to_string dbg (ERegisterMethod e) = RegisterMethodError_to_string e"
| "Error_to_string dbg EServiceDisconnect = ''RPC service disconnected''"

text \<open>\<open>params\<close> is the result of \<open>to_rpc_params\<close>. The operations run once their permit is acquired.\<close>

definition HttpClient_notification ::
  "'n http_env \<Rightarrow> string \<Rightarrow> (string option, string) result \<Rightarrow> 'n HttpClient \<Rightarrow> 'n \<Rightarrow> (unit, Error) result outcome \<times> 'n"
where
  "HttpClient_notification hx meth params c n = (case params of
       Inl e \<Rightarrow> (Done (Err (EParseError e)), n)
     | Inr ps \<Rightarrow> (case run_http_until_timeout hx (hc_request_timeout c)
             (svc_notification (hc_service c) (Notification_new meth ps)) n of
         (Panicked, n') \<Rightarrow> (Panicked, n')
       | (Done (Inl e), n') \<Rightarrow> (Done (Err (ETransport (Error_to_string (hx_debug hx) e))), n')
       | (Done (Inr _), n') \<Rightarrow> (Done (Ok ()), n')))"

definition http_request_result ::
  "(string \<Rightarrow> ('r, string) result) \<Rightarrow> Id \<Rightarrow> RawResponse \<Rightarrow> ('r, Error) result" where
  "http_request_result de i rp = (case Success_try_from rp of
       Inl e \<Rightarrow> Err (ECall e)
     | Inr s \<Rightarrow> (case de (ok_result s) of
         Inl e \<Rightarrow> Err (EParseError e)
       | Inr result \<Rightarrow>
           if ok_id s = i then Ok result
           else Err (EInvalidRequestId (NotPendingRequest (Id_to_string (ok_id s))))))"

definition HttpClient_request ::
  "'n http_env \<Rightarrow> (string \<Rightarrow> ('r, string) result) \<Rightarrow> string \<Rightarrow> (string option, string) result \<Rightarrow>
     'n HttpClient \<Rightarrow> 'n \<Rightarrow> ('r, Error) result outcome \<times> 'n HttpClient \<times> 'n"
where
  "HttpClient_request hx de meth params c n = (case next_request_id (hc_id_manager c) of (i, im) \<Rightarrow>
     let c' = c\<lparr>hc_id_manager := im\<rparr> in
     (case params of
        Inl e \<Rightarrow> (Done (Err (EParseError e)), c', n)
      | Inr ps \<Rightarrow> (case run_http_until_timeout hx (hc_request_timeout c)
              (svc_call (hc_service c) (Request_borrowed meth ps i)) n of
          (Panicked, n') \<Rightarrow> (Panicked, c', n')
        | (Done (Inl e), n') \<Rightarrow> (Done (Err e), c', n')
        | (Done (Inr m), n') \<Rightarrow> (Done (http_request_result de i (mm_rp m)), c', n'))))"

record 'r batch_acc =
  ba_responses :: "('r, ErrorObject) result list"
  ba_success :: nat
  ba_failed :: nat

definition http_batch_entry ::
  "(string \<Rightarrow> ('r, string) result) \<Rightarrow> RawResponse \<Rightarrow> 'r batch_acc \<Rightarrow>
     (('r, ErrorObject) result \<times> 'r batch_acc, Error) result"
where
  "http_batch_entry de rp acc = (case Success_try_from rp of
       Inr r \<Rightarrow> (case de (ok_result r) of
           Inl e \<Rightarrow> Err (EParseError e)
         | Inr v \<Rightarrow> Ok (Ok v, acc\<lparr>ba_success := ba_success acc + 1\<rparr>))
     | Inl err \<Rightarrow> Ok (Err err, acc\<lparr>ba_failed := ba_failed acc + 1\<rparr>))"

fun http_batch_loop ::
  "(string \<Rightarrow> ('r, string) result) \<Rightarrow> u64 \<Rightarrow> RawResponse list \<Rightarrow> 'r batch_acc \<Rightarrow> ('r batch_acc, Error) result" where
  "http_batch_loop de start [] acc = Ok acc"
| "http_batch_loop de start (rp # rps) acc = (case try_parse_inner_as_number (rp_id rp) of
     Inl e \<Rightarrow> Err (EInvalidRequestId e)
   | Inr i \<Rightarrow> (case http_batch_entry de rp acc of
       Inl e \<Rightarrow> Err e
     | Inr (res, acc') \<Rightarrow> (case checked_sub_u64 i start of
         None \<Rightarrow> Err (EInvalidRequestId (NotPendingRequest (u64_to_string i)))
       | Some p \<Rightarrow>
           if unat p < length (ba_responses acc')
           then http_batch_loop de start rps (acc'\<lparr>ba_responses := (ba_responses acc')[unat p := res]\<rparr>)
           else Err (EInvalidRequestId (NotPendingRequest (u64_to_string i))))))"

definition http_batch_result ::
  "(string \<Rightarrow> ('r, string) result) \<Rightarrow> u64 \<Rightarrow> RawResponse list \<Rightarrow> ('r BatchResponse, Error) result" where
  "http_batch_result de start rps =
     (case http_batch_loop de start rps \<lparr>ba_responses = replicate (length rps) (Err (ErrorObject_borrowed 0 '''' None)),
             ba_success = 0, ba_failed = 0\<rparr> of
       Inl e \<Rightarrow> Err e
     | Inr acc \<Rightarrow> Ok \<lparr>br_successful_calls = ba_success acc, br_failed_calls = ba_failed acc,
                     br_responses = ba_responses acc\<rparr>)"

definition HttpClient_batch_request ::
  "'n http_env \<Rightarrow> (string \<Rightarrow> ('r, string) result) \<Rightarrow> BatchRequestBuilder \<Rightarrow> 'n HttpClient \<Rightarrow> 'n \<Rightarrow>
     ('r BatchResponse, Error) result outcome \<times> 'n HttpClient \<times> 'n"
where
  "HttpClient_batch_request hx de batch c n = (case batch_prepare batch (hc_id_manager c) of
       (Inl e, im) \<Rightarrow> (Done (Err e), c\<lparr>hc_id_manager := im\<rparr>, n)
     | (Inr (reqs, r), im) \<Rightarrow> (let c' = c\<lparr>hc_id_manager := im\<rparr> in
         case run_http_until_timeout hx (hc_request_timeout c)
                (svc_batch (hc_service c) (fold Batch_push reqs Batch_new)) n of
           (Panicked, n') \<Rightarrow> (Panicked, c', n')
         | (Done (Inl e), n') \<Rightarrow> (Done (Err e), c', n')
         | (Done (Inr rps), n') \<Rightarrow> (Done (http_batch_result de (fst r) rps), c', n')))"

definition HttpClient_subscribe :: "string \<Rightarrow> string option \<Rightarrow> string \<Rightarrow> (ClientSubscription, Error) result" where
  "HttpClient_subscribe subscribe_method params unsubscribe_method = Err EHttpNotImplemented"

definition HttpClient_subscribe_to_method :: "string \<Rightarrow> (ClientSubscription, Error) result" where
  "HttpClient_subscribe_to_method meth = Err EHttpNotImplemented"

section \<open>Lemmas\<close>

text \<open>What one response contributes, as a function, and the placeholder's share.\<close>

definition decoded :: "(string \<Rightarrow> ('r, string) result) \<Rightarrow> RawResponse \<Rightarrow> ('r, ErrorObject) result" where
  "decoded de rp = (case decode_entry de rp of Inr e \<Rightarrow> e | Inl _ \<Rightarrow> Inl (ErrorObject_borrowed 0 '''' None))"

lemma decoded_placeholder [simp]: "decoded de batch_placeholder = Inl (ErrorObject_borrowed 0 '''' None)"
  by (simp add: decoded_def decode_entry_def batch_placeholder_def Response_new_def)

lemma http_batch_entry_decoded:
  "decode_entry de rp = Inr e \<Longrightarrow> http_batch_entry de rp acc =
     Inr (e, if is_ok e then acc\<lparr>ba_success := ba_success acc + 1\<rparr> else acc\<lparr>ba_failed := ba_failed acc + 1\<rparr>)"
  "decode_entry de rp = Inl m \<Longrightarrow> http_batch_entry de rp acc = Inl (EParseError m)"
  by (auto simp: http_batch_entry_def decode_entry_def Success_try_from_def split: ResponsePayload.splits sum.splits)

text \<open>The loop of the HTTP client follows \<open>place_responses\<close>, entry by entry.\<close>

lemma http_batch_loop_place:
  assumes "place_responses start rps base = Inr out"
    and "\<forall>rp \<in> set rps. decode_entry de rp = Inr (decoded de rp)" and "ba_responses acc = map (decoded de) base"
  shows "http_batch_loop de start rps acc = Inr \<lparr>ba_responses = map (decoded de) out,
    ba_success = ba_success acc + length (filter (\<lambda>rp. is_ok (decoded de rp)) rps),
    ba_failed = ba_failed acc + length (filter (\<lambda>rp. \<not> is_ok (decoded de rp)) rps)\<rparr>"
  using assms
proof (induction start rps base arbitrary: acc rule: place_responses.induct)
  case (1 start base)
  then show ?case by (cases acc) simp
next
  case (2 start rp rps base)
  from "2.prems"(1) obtain i p where *: "try_parse_inner_as_number (rp_id rp) = Inr i"
    "checked_sub_u64 i start = Some p" "unat p < length base" "place_responses start rps (base[unat p := rp]) = Inr out"
    by (auto split: sum.splits option.splits if_splits)
  have e: "decode_entry de rp = Inr (decoded de rp)" using "2.prems"(2) by simp
  from * "2.prems" 2(1) [OF *(1,2,3,4)] show ?case
    by (simp add: http_batch_entry_decoded(1) [OF e] map_update)
qed

lemma http_batch_loop_undecodable:
  assumes "place_responses start rps base = Inr out" "length (ba_responses acc) = length base"
    and "rp \<in> set rps" "decode_entry de rp = Inl m"
  shows "\<exists>e. http_batch_loop de start rps acc = Inl (EParseError e)"
  using assms
proof (induction start rps base arbitrary: acc rule: place_responses.induct)
  case (2 start r rps base)
  from "2.prems"(1) obtain i p where *: "try_parse_inner_as_number (rp_id r) = Inr i"
    "checked_sub_u64 i start = Some p" "unat p < length base" "place_responses start rps (base[unat p := r]) = Inr out"
    by (auto split: sum.splits option.splits if_splits)
  show ?case
  proof (cases "decode_entry de r")
    case (Inr e)
    with * "2.prems" have "rp \<in> set rps" by auto
    with * Inr 2(1) [OF *(1,2,3,4)] "2.prems" show ?thesis
      by (auto simp: http_batch_entry_decoded(1) [OF Inr])
  next
    case (Inl e)
    with * show ?thesis by (simp add: http_batch_entry_decoded(2) [OF Inl])
  qed
qed simp

lemma batch_decode_all:
  assumes "\<forall>rp \<in> set rps. decode_entry de rp = Inr (decoded de rp)"
  shows "batch_decode de rps acc = Inr (acc\<lparr>br_responses := br_responses acc @ map (decoded de) rps,
     br_successful_calls := br_successful_calls acc + length (filter (\<lambda>rp. is_ok (decoded de rp)) rps),
     br_failed_calls := br_failed_calls acc + length (filter (\<lambda>rp. \<not> is_ok (decoded de rp)) rps)\<rparr>)"
  using assms
proof (induction rps arbitrary: acc)
  case (Cons rp rps)
  then have e: "decode_entry de rp = Inr (decoded de rp)" by simp
  show ?case
  proof (cases "rp_payload rp")
    case (Success r)
    with e obtain v where v: "de r = Inr v" "decoded de rp = Inr v" by (auto simp: decode_entry_def split: sum.splits)
    with Cons Success show ?thesis by (simp add: Success_try_from_def)
  next
    case (RpError err)
    with e have "decoded de rp = Inl err" by (simp add: decode_entry_def)
    with Cons RpError show ?thesis by (simp add: Success_try_from_def)
  qed
qed simp

lemma batch_decode_undecodable:
  assumes "rp \<in> set rps" "decode_entry de rp = Inl m"
  shows "\<exists>e. batch_decode de rps acc = Inl (EParseError e)"
  using assms
proof (induction rps arbitrary: acc)
  case (Cons r rps)
  then show ?case
    by (cases "r = rp") (auto simp: decode_entry_def Success_try_from_def split: ResponsePayload.splits sum.splits)
qed simp

text \<open>A batch whose ids are exactly those of the range is placed as a permutation.\<close>

lemma batch_pos_ids:
  assumes "list_all2 (\<lambda>rp i. try_parse_inner_as_number (rp_id rp) = Inr i) rps ids" "set ids = {a..<b}"
  shows "map (batch_pos a) rps = map (\<lambda>i. Some (unat i - unat a)) ids"
proof (rule nth_equalityI)
  fix k assume k: "k < length (map (batch_pos a) rps)"
  with assms(1) have "try_parse_inner_as_number (rp_id (rps ! k)) = Inr (ids ! k)" "k < length ids"
    by (auto simp: list_all2_conv_all_nth)
  moreover from this(2) assms(2) have "a \<le> ids ! k" using nth_mem by fastforce
  ultimately show "map (batch_pos a) rps ! k = map (\<lambda>i. Some (unat i - unat a)) ids ! k"
    using k batch_pos_number by auto
qed (use assms(1) in \<open>simp add: list_all2_lengthD\<close>)

lemma unat_diff_inj: "inj_on (\<lambda>i. unat i - unat a) {a..<b :: u64}"
  by (rule inj_onI) (auto simp: word_le_nat_alt intro!: unsigned_word_eqI [where 'a = nat])

lemma unat_diff_range: "(\<lambda>i. unat i - unat a) ` {a..<b :: u64} = {..<unat b - unat a}"
proof (rule set_eqI, rule iffI)
  fix q assume "q \<in> {..<unat b - unat a}"
  then have q: "unat a + q < unat b" by auto
  then have lt: "unat a + q < 2 ^ 64" using unsigned_less [where 'a = nat, of b] by simp
  then have "unat (a + of_nat q) = unat a + q" by (simp add: unat_word_ariths unat_of_nat)
  with q show "q \<in> (\<lambda>i. unat i - unat a) ` {a..<b}"
    by (intro image_eqI [of _ _ "a + of_nat q"]) (auto simp: word_le_nat_alt word_less_nat_alt)
qed (auto simp: word_le_nat_alt word_less_nat_alt)

lemma placed_permutation:
  assumes "bij_betw pos {..<length xs} {..<length ys}" "\<And>k. k < length xs \<Longrightarrow> ys ! pos k = xs ! k"
  shows "mset ys = mset xs"
proof -
  have "mset ys = image_mset (nth ys) (mset_set {..<length ys})"
    by (metis lessThan_atLeast0 map_nth mset_map mset_upt)
  also have "\<dots> = image_mset (nth ys) (image_mset pos (mset_set {..<length xs}))"
    using assms(1) by (simp add: bij_betw_def image_mset_mset_set)
  also have "\<dots> = image_mset (\<lambda>k. ys ! pos k) (mset_set {..<length xs})"
    by (simp add: image_mset.compositionality o_def)
  also have "\<dots> = image_mset (nth xs) (mset_set {..<length xs})"
    by (rule image_mset_cong) (simp add: assms(2))
  also have "\<dots> = mset xs" by (metis lessThan_atLeast0 map_nth mset_map mset_upt)
  finally show ?thesis .
qed

lemma place_responses_permutation:
  assumes ids: "list_all2 (\<lambda>rp i. try_parse_inner_as_number (rp_id rp) = Inr i) rps ids"
    and perm: "distinct ids" "set ids = {a..<b}"
  obtains out where "place_responses a rps (replicate (length rps) batch_placeholder) = Inr out"
    "mset out = mset rps" "length rps = unat b - unat a"
proof -
  let ?pos = "\<lambda>i. unat i - unat a"
  note pos = batch_pos_ids [OF ids perm(2)]
  have len: "length rps = length ids" using ids by (rule list_all2_lengthD)
  have inj: "inj_on ?pos (set ids)" using unat_diff_inj [of a b] perm(2) by simp
  have im: "?pos ` set ids = {..<unat b - unat a}" using unat_diff_range [of a b] perm(2) by simp
  have n: "length ids = unat b - unat a"
    using perm(1) im inj by (metis card_image card_lessThan distinct_card)
  have posk: "batch_pos a (rps ! k) = Some (?pos (ids ! k))" if "k < length ids" for k
    using arg_cong [OF pos, of "\<lambda>xs. xs ! k"] that len by simp
  have lt: "?pos (ids ! k) < length rps" if "k < length ids" for k
    using im that len n by (metis imageI lessThan_iff nth_mem)
  have "\<exists>p < length (replicate (length rps) batch_placeholder). batch_pos a rp = Some p" if "rp \<in> set rps" for rp
  proof -
    from that obtain k where "k < length ids" "rp = rps ! k" by (auto simp: in_set_conv_nth len)
    with posk lt show ?thesis by auto
  qed
  from place_responses_total [OF this] obtain out
    where out: "place_responses a rps (replicate (length rps) batch_placeholder) = Inr out" by blast
  have dist: "distinct (map (batch_pos a) rps)"
    unfolding pos using inj perm(1) by (simp add: distinct_map inj_on_def)
  have "bij_betw (\<lambda>k. ?pos (ids ! k)) {..<length rps} {..<length out}"
  proof -
    have "bij_betw ?pos (set ids) {..<length rps}" using inj im n len by (simp add: bij_betw_def)
    with bij_betw_trans [OF bij_betw_nth [OF perm(1) refl refl]] show ?thesis
      using len place_responses_length [OF out] by (simp add: o_def)
  qed
  then have "mset out = mset rps"
    by (rule placed_permutation) (use place_responses_nth [OF out dist] posk len in auto)
  with out n len that show ?thesis by simp
qed

lemma filter_length_mset: "mset xs = mset ys \<Longrightarrow> length (filter P xs) = length (filter P ys)"
  by (metis mset_filter size_mset)

section \<open>Header maps\<close>

text \<open>
  What the transport relies on of \<open>http::HeaderMap\<close>: inserting replaces the values of a name, and the
  owning iterator gives the values of a name one after the other, the name only with the first.
\<close>

definition group_items :: "string \<times> string list \<Rightarrow> (string option \<times> string) list" where
  "group_items g = (Some (fst g), hd (snd g)) # map (Pair None) (tl (snd g))"

definition header_groups :: "(string \<times> string list) list \<Rightarrow> HeaderMap \<Rightarrow> bool" where
  "header_groups gs hs \<longleftrightarrow> distinct (map fst gs) \<and> (\<forall>(k, vs) \<in> set gs. vs \<noteq> [] \<and> get_all hs k = vs) \<and>
     (\<forall>k. get_all hs k \<noteq> [] \<longrightarrow> k \<in> fst ` set gs)"

locale header_map =
  fixes ho :: header_ops
  assumes get_insert: "get_all (hm_insert ho k v hs) k' = (if k' = k then [v] else get_all hs k')"
    and iter_groups: "\<exists>gs. header_groups gs hs \<and> hm_into_iter ho hs = concat (map group_items gs)"
begin

lemma insert_named_append: "insert_headers ho (xs @ ys) hs = insert_headers ho ys (insert_headers ho xs hs)"
  by (induction ho xs hs rule: insert_headers.induct) simp_all

lemma insert_named_unnamed: "insert_headers ho (map (Pair None) vs) hs = hs"
  by (induction vs) simp_all

lemma insert_named_groups:
  assumes "distinct (map fst gs)" "\<forall>g \<in> set gs. snd g \<noteq> []"
  shows "get_all (insert_headers ho (concat (map group_items gs)) hs) k =
    (case map_of gs k of Some vs \<Rightarrow> [hd vs] | None \<Rightarrow> get_all hs k)"
  using assms
proof (induction gs arbitrary: hs)
  case (Cons g gs)
  obtain j vs where g: "g = (j, vs)" by fastforce
  with Cons.prems have "j \<notin> dom (map_of gs)" by (simp add: dom_map_of_conv_image_fst)
  with Cons g show ?case
    by (auto simp: insert_named_append insert_named_unnamed group_items_def get_insert split: option.splits)
qed simp

lemma get_cached_headers:
  "get_all (cached_headers ho hs) k =
     (if get_all hs k \<noteq> [] then [hd (get_all hs k)]
      else if k = ''content-type'' \<or> k = ''accept'' then [CONTENT_TYPE_JSON] else [])"
proof -
  obtain gs where gs: "header_groups gs hs" "hm_into_iter ho hs = concat (map group_items gs)"
    using iter_groups by blast
  have def: "get_all (default_headers ho) k =
      (if k = ''content-type'' \<or> k = ''accept'' then [CONTENT_TYPE_JSON] else [])"
    by (simp add: default_headers_def get_insert) (simp add: get_all_def)
  have of: "map_of gs k = (if get_all hs k \<noteq> [] then Some (get_all hs k) else None)"
  proof (cases "map_of gs k")
    case None
    then show ?thesis using gs(1) by (auto simp: map_of_eq_None_iff header_groups_def)
  next
    case (Some vs)
    then have "(k, vs) \<in> set gs" by (rule map_of_SomeD)
    with gs(1) have "vs \<noteq> []" "get_all hs k = vs" by (auto simp: header_groups_def)
    with Some show ?thesis by simp
  qed
  have "\<forall>g \<in> set gs. snd g \<noteq> []" using gs(1) by (auto simp: header_groups_def)
  with gs insert_named_groups [of gs "default_headers ho" k] show ?thesis
    unfolding cached_headers_def by (simp add: of def header_groups_def)
qed

end

text \<open>Header maps as lists of fields satisfy the contract.\<close>

fun header_names :: "HeaderMap \<Rightarrow> string list" where
  "header_names hs = remdups (map fst hs)"

definition list_headers :: header_ops where
  "list_headers = \<lparr>hm_insert = (\<lambda>k v hs. filter (\<lambda>h. fst h \<noteq> k) hs @ [(k, v)]),
     hm_into_iter = (\<lambda>hs. concat (map group_items (map (\<lambda>k. (k, get_all hs k)) (header_names hs)))),
     hm_header_value = (\<lambda>s. if to_str s = None then None else Some s), hm_base64 = (\<lambda>s. s)\<rparr>"

interpretation fields: header_map list_headers
proof (unfold_locales, goal_cases)
  case (1 k v hs k')
  have "k' \<noteq> k \<Longrightarrow> filter (\<lambda>x. fst x \<noteq> k \<and> fst x = k') hs = filter (\<lambda>x. fst x = k') hs"
    by (rule filter_cong) auto
  then show ?case by (simp add: list_headers_def get_all_def)
next
  case (2 hs)
  have "header_groups (map (\<lambda>k. (k, get_all hs k)) (header_names hs)) hs"
    by (auto simp: header_groups_def o_def get_all_def image_image filter_empty_conv)
  then show ?case by (intro exI [of _ "map (\<lambda>k. (k, get_all hs k)) (header_names hs)"]) (simp add: list_headers_def)
qed

section \<open>Requests in flight\<close>

text \<open>A client with a limit of concurrent requests: the permits and the number of operations that hold one.\<close>

inductive http_running :: "nat option \<Rightarrow> nat option \<times> nat \<Rightarrow> bool" for limit where
  http_idle: "http_running limit (limit, 0)"
| http_acquire: "http_running limit (g, k) \<Longrightarrow> guard_acquire g = Ready g' \<Longrightarrow> http_running limit (g', Suc k)"
| http_release: "http_running limit (g, Suc k) \<Longrightarrow> http_running limit (guard_release g, k)"

lemma http_running_permits: "http_running (Some m) s \<Longrightarrow> snd s \<le> m \<and> fst s = Some (m - snd s)"
proof (induction rule: http_running.induct)
  case (http_acquire g k g')
  then show ?case by (cases g rule: guard_acquire.cases) auto
qed (auto simp: guard_release_def)

section \<open>Properties\<close>



text \<open>The transport that a builder makes: the URL has a host and a supported scheme; the target has
  neither credentials nor a fragment; every request carries the user's headers, of a name given
  several times only the first value, JSON as content type and accepted type unless the user set
  them, and the credentials of the URL unless the user set an authorization.\<close>

lemma http_build_spec:
  assumes "header_map ho" and "url_parse uo target = Inr u"
    and "HttpTransportClientBuilder_build uo ho tls layer target b = Inr t"
  shows "let url = url_drop_fragment uo u in
    url_host_str uo u \<noteq> None \<and> (url_scheme uo url = ''http'' \<or> tls \<and> url_scheme uo url = ''https'') \<and>
    ht_target t = url_as_str uo (url_drop_username uo (url_drop_password uo url)) \<and>
    (\<forall>k. get_all (ht_headers t) k =
       (if contains_key (tb_headers b) k then [hd (get_all (tb_headers b) k)]
        else if k = ''content-type'' \<or> k = ''accept'' then [CONTENT_TYPE_JSON]
        else if k = ''authorization'' then (case url_password uo url of
            Some pwd \<Rightarrow> (case basic_auth ho (url_username uo url) pwd of Some v \<Rightarrow> [v] | None \<Rightarrow> [])
          | None \<Rightarrow> [])
        else []))"
proof -
  let ?url = "url_drop_fragment uo u"
  let ?cached = "cached_headers ho (tb_headers b)"
  note cached = header_map.get_cached_headers [OF assms(1), of "tb_headers b"]
  from assms(2,3) have host: "url_host_str uo u \<noteq> None"
    and scheme: "url_scheme uo ?url = ''http'' \<or> tls \<and> url_scheme uo ?url = ''https''"
    and target: "ht_target t = url_as_str uo (url_drop_username uo (url_drop_password uo ?url))"
    and auth: "with_authorization uo ho ?url ?cached = Inr (ht_headers t)"
    by (auto simp: HttpTransportClientBuilder_build_def http_backend_for_def Let_def split: if_splits sum.splits)
  have key: "contains_key ?cached ''authorization'' = contains_key (tb_headers b) ''authorization''"
    by (simp add: contains_key_def cached)
  have headers: "get_all (ht_headers t) k = (if k = ''authorization'' \<and> \<not> contains_key (tb_headers b) k then
      (case url_password uo ?url of
         Some pwd \<Rightarrow> (case basic_auth ho (url_username uo ?url) pwd of Some v \<Rightarrow> [v] | None \<Rightarrow> [])
       | None \<Rightarrow> []) else get_all ?cached k)" for k
  proof (cases "url_password uo ?url = None \<or> contains_key ?cached ''authorization''")
    case True
    then have "ht_headers t = ?cached" using auth by (auto simp: with_authorization_def split: option.splits)
    with True key show ?thesis by (auto simp: cached contains_key_def)
  next
    case False
    then obtain pwd v where pwd: "url_password uo ?url = Some pwd" "basic_auth ho (url_username uo ?url) pwd = Some v"
      "ht_headers t = hm_insert ho ''authorization'' v ?cached"
      using auth by (auto simp: with_authorization_def split: option.splits)
    with False key show ?thesis by (simp add: header_map.get_insert [OF assms(1)])
  qed
  show ?thesis
    unfolding Let_def using host scheme target by (simp add: headers cached contains_key_def)
qed

definition example_url :: "string url_ops" where
  "example_url = \<lparr>url_parse = Inr, url_error_text = (\<lambda>_. ''''), url_scheme = (\<lambda>_. ''http''), url_host_str = (\<lambda>_. Some ''h''), url_port = (\<lambda>_. None),
     url_path = (\<lambda>_. ''/''), url_query = (\<lambda>_. None), url_username = (\<lambda>_. ''user''), url_password = (\<lambda>_. Some ''pwd''),
     url_drop_fragment = id, url_drop_password = id, url_drop_username = id, url_as_str = id\<rparr>"

text \<open>Sizes of an exchange: a request over the limit is refused without touching the network; what
  comes back as a body was received with a success status, is not longer than the limit and is the
  received data up to leading whitespace.\<close>

lemma http_exchange_bounds:
  assumes "limits limited"
  shows "(length raw > unat (ht_max_request_size t) \<longrightarrow>
      send_and_read_body valid limited t raw n = (Done (Inl TRequestTooLarge), n)) \<and>
    (send_and_read_body valid limited t raw n = (Done (Inr body), n') \<longrightarrow>
      length raw \<le> unat (ht_max_request_size t) \<and> length body \<le> unat (ht_max_response_size t) \<and>
      (\<exists>rp ws. ht_client t \<lparr>cq_uri = ht_target t, cq_method = ''POST'', cq_headers = ht_headers t, cq_body = raw\<rparr> n = (Inr rp, n') \<and>
         200 \<le> cp_status rp \<and> cp_status rp < 300 \<and> body_data (cp_body rp) = ws @ body \<and>
         (\<forall>x \<in> set ws. is_ascii_whitespace x)))"
proof (intro conjI impI)
  assume "send_and_read_body valid limited t raw n = (Done (Inr body), n')"
  then obtain rp single where rp: "length raw \<le> unat (ht_max_request_size t)"
    "ht_client t \<lparr>cq_uri = ht_target t, cq_method = ''POST'', cq_headers = ht_headers t, cq_body = raw\<rparr> n = (Inr rp, n')"
    "is_success (cp_status rp)" "read_body limited (cp_headers rp) (cp_body rp) (ht_max_response_size t) = Inr (body, single)"
    by (auto simp: send_and_read_body_def inner_send_def split: if_splits prod.splits sum.splits outcome.splits)
  from read_body_shape [OF assms rp(4)] rp(1-3)
  show "length raw \<le> unat (ht_max_request_size t)" "length body \<le> unat (ht_max_response_size t)"
    "\<exists>rp ws. ht_client t \<lparr>cq_uri = ht_target t, cq_method = ''POST'', cq_headers = ht_headers t, cq_body = raw\<rparr> n = (Inr rp, n') \<and>
         200 \<le> cp_status rp \<and> cp_status rp < 300 \<and> body_data (cp_body rp) = ws @ body \<and>
         (\<forall>x \<in> set ws. is_ascii_whitespace x)"
    by (auto simp: is_success_def)
qed (simp add: send_and_read_body_def inner_send_def)

text \<open>With a limit of \<open>m\<close> concurrent requests at most \<open>m\<close> operations of a client run at a time, and
  another one waits exactly when \<open>m\<close> of them do.\<close>

lemma http_concurrency_limit:
  assumes "http_running (Some m) (g, k)"
  shows "k \<le> m \<and> (guard_acquire g = Pending \<longleftrightarrow> k = m)"
  using http_running_permits [OF assms] by (cases "m - k") auto

text \<open>A server that answers one id of a batch twice and another not at all is not noticed: both answers
  count as successful calls, and the entry without an answer holds the placeholder error.\<close>

lemma http_batch_duplicate_id:
  "http_batch_result Inr 5 [example_response 5 ''a'', example_response 5 ''b''] =
     Inr \<lparr>br_successful_calls = 2, br_failed_calls = 0,
          br_responses = [Inr ''b'', Inl (ErrorObject_borrowed 0 '''' None)]\<rparr>"
  by (simp add: http_batch_result_def http_batch_entry_def Success_try_from_def example_response_def Response_new_def
      checked_sub_u64_def)

text \<open>A notification that fails is always reported as a transport error, a timeout too.\<close>

lemma notification_timeout_is_transport:
  "hx_interrupted hx (hc_request_timeout c) n = Some n' \<Longrightarrow>
     HttpClient_notification hx meth (Inr ps) c n = (Done (Inl (ETransport ''Request timeout'')), n')"
  by (simp add: HttpClient_notification_def run_http_until_timeout_def)

end
