(* ===== verification/Ws_Transport.thy ===== *)
theory Ws_Transport
  imports Server_Dispatch "HOL-Library.Multiset"
begin

text \<open>
  \<open>server/src/transport/ws.rs\<close>: the tasks of a WebSocket connection on the server. The receiving
  task reads messages, watches pongs and spawns one task per message; the sending task writes what
  the sinks queued. Messages can be encrypted.

  The socket (\<open>soketto\<close>), the cipher and the test for UTF-8 are parameters; the two streams the
  receiving task selects on are sequences of events with the time at which they happen.
\<close>

section \<open>Encryption and sending\<close>

datatype MessageCryptoErrorPolicy = SendError | CloseConnection | SkipMessage

definition MessageCryptoErrorPolicy_default :: MessageCryptoErrorPolicy where
  "MessageCryptoErrorPolicy_default = SendError"

record MessageEncryption =
  enc_encrypt :: "string \<Rightarrow> string option"
  enc_decrypt :: "string \<Rightarrow> string option"

datatype SokettoError = SokClosed | SokMessageTooLarge nat nat | SokOther string

record 's ws_sender_ops =
  wo_send_text :: "string \<Rightarrow> 's \<Rightarrow> (unit, SokettoError) result \<times> 's"
  wo_send_ping :: "'s \<Rightarrow> (unit, SokettoError) result \<times> 's"
  wo_flush :: "'s \<Rightarrow> (unit, SokettoError) result \<times> 's"
  wo_close :: "'s \<Rightarrow> 's"

definition send_and_flush ::
  "'s ws_sender_ops \<Rightarrow> string \<Rightarrow> 's \<Rightarrow> (unit, SokettoError) result \<times> 's" where
  "send_and_flush ops text s = (case wo_send_text ops text s of
       (Inl e, s') \<Rightarrow> (Err e, s')
     | (Inr _, s') \<Rightarrow> wo_flush ops s')"

definition send_message ::
  "emitter \<Rightarrow> 's ws_sender_ops \<Rightarrow> MessageEncryption option \<Rightarrow> MessageCryptoErrorPolicy \<Rightarrow> string \<Rightarrow> 's \<Rightarrow>
     (unit, SokettoError) result \<times> 's"
where
  "send_message emit ops encryption policy response s = (case encryption of
       None \<Rightarrow> send_and_flush ops response s
     | Some enc \<Rightarrow> (case enc_encrypt enc response of
         Some encrypted \<Rightarrow> send_and_flush ops encrypted s
       | None \<Rightarrow> (case policy of
           SendError \<Rightarrow>
             (let err = ErrorObject_owned emit ENCRYPTION_ERROR_CODE ENCRYPTION_ERROR_MSG None;
                  rp = Response_new (RpError err :: unit ResponsePayload) Null
              in case to_raw_value emit (Response_serialize (\<lambda>_. SNull) rp) of
                None \<Rightarrow> (Err SokClosed, s)
              | Some err_response \<Rightarrow> send_and_flush ops err_response s)
         | CloseConnection \<Rightarrow> (Err SokClosed, s)
         | SkipMessage \<Rightarrow> (Err SokClosed, s))))"

definition send_ping :: "'s ws_sender_ops \<Rightarrow> 's \<Rightarrow> (unit, SokettoError) result \<times> 's" where
  "send_ping ops s = (case wo_send_ping ops s of
       (Inl e, s') \<Rightarrow> (Err e, s')
     | (Inr _, s') \<Rightarrow> wo_flush ops s')"

datatype send_event = RxItem string | RxNone | PingTick | StopSignal

text \<open>The sending task; \<open>True\<close> once it has ended and closed the socket.\<close>

fun send_task_loop ::
  "emitter \<Rightarrow> 's ws_sender_ops \<Rightarrow> MessageEncryption option \<Rightarrow> MessageCryptoErrorPolicy \<Rightarrow> send_event list \<Rightarrow> 's \<Rightarrow>
     bool \<times> 's"
where
  "send_task_loop emit ops enc policy [] s = (False, s)"
| "send_task_loop emit ops enc policy (RxItem response # es) s =
     (case send_message emit ops enc policy response s of
        (Inl _, s') \<Rightarrow> (True, wo_close ops s')
      | (Inr _, s') \<Rightarrow> send_task_loop emit ops enc policy es s')"
| "send_task_loop emit ops enc policy (RxNone # es) s = (True, wo_close ops s)"
| "send_task_loop emit ops enc policy (PingTick # es) s = (case send_ping ops s of
        (Inl _, s') \<Rightarrow> (True, wo_close ops s')
      | (Inr _, s') \<Rightarrow> send_task_loop emit ops enc policy es s')"
| "send_task_loop emit ops enc policy (StopSignal # es) s = (True, wo_close ops s)"

section \<open>One message\<close>

record ws_config =
  wsc_batch_requests_config :: BatchRequestConfig
  wsc_max_request_body_size :: u32
  wsc_policy :: MessageCryptoErrorPolicy
  wsc_encryption :: "MessageEncryption option"

definition sink_send ::
  "'c sink_ops \<Rightarrow> MethodSink \<Rightarrow> string \<Rightarrow> ('c, 'u) server_world \<Rightarrow>
     (unit, DisconnectError) result \<times> ('c, 'u) server_world" where
  "sink_send ops sink json w =
     (let (r, c) = MethodSink_send ops sink json (wd_conns w) in (r, w\<lparr>wd_conns := c\<rparr>))"

definition sink_send_error ::
  "emitter \<Rightarrow> 'c sink_ops \<Rightarrow> MethodSink \<Rightarrow> Id \<Rightarrow> ErrorObject \<Rightarrow> ('c, 'u) server_world \<Rightarrow>
     (unit, DisconnectError) result \<times> ('c, 'u) server_world" where
  "sink_send_error emit ops sink i err w =
     (let (r, c) = MethodSink_send_error emit ops sink i err (wd_conns w) in (r, w\<lparr>wd_conns := c\<rparr>))"

definition decrypt_data ::
  "emitter \<Rightarrow> 'c sink_ops \<Rightarrow> (string \<Rightarrow> bool) \<Rightarrow> ws_config \<Rightarrow> MethodSink \<Rightarrow> string \<Rightarrow> ('c, 'u) server_world \<Rightarrow>
     string option \<times> ('c, 'u) server_world"
where
  "decrypt_data emit ops utf8 cfg sink data w = (case wsc_encryption cfg of
       None \<Rightarrow> (Some data, w)
     | Some enc \<Rightarrow>
         if \<not> utf8 data then (None, snd (sink_send_error emit ops sink Null (ErrorObject_from ParseError) w))
         else (case enc_decrypt enc data of
           Some decrypted \<Rightarrow> (Some decrypted, w)
         | None \<Rightarrow> (case wsc_policy cfg of
             SendError \<Rightarrow> (None, snd (sink_send_error emit ops sink Null
               (ErrorObject_owned emit DECRYPTION_ERROR_CODE DECRYPTION_ERROR_MSG None) w))
           | CloseConnection \<Rightarrow> (None, w)
           | SkipMessage \<Rightarrow> (None, w))))"

definition ws_reply ::
  "'c sink_ops \<Rightarrow> MethodSink \<Rightarrow> MethodResponse \<Rightarrow> ('c, 'u) server_world \<Rightarrow> ('c, 'u) server_world" where
  "ws_reply ops sink rp w =
     (if MethodResponse_is_method_call rp \<or> MethodResponse_is_batch rp then
        (case sink_send ops sink (mr_json rp) w of
           (Inl _, w') \<Rightarrow> w'
         | (Inr _, w') \<Rightarrow> (case mr_on_close rp of
             None \<Rightarrow> w'
           | Some n \<Rightarrow> w'\<lparr>wd_notified := wd_notified w' @ [(n, notify (MethodResponse_is_success rp))]\<rparr>))
      else w)"

text \<open>The task spawned for a message; \<open>Panicked\<close> only ends this task.\<close>

definition ws_handle_message ::
  "emitter \<Rightarrow> 'c sink_ops \<Rightarrow> (string \<Rightarrow> bool) \<Rightarrow> readers \<Rightarrow> ws_config \<Rightarrow> ('c, 'u) server_world rpc_service_t \<Rightarrow>
     extensions \<Rightarrow> MethodSink \<Rightarrow> string \<Rightarrow> ('c, 'u) server_world \<Rightarrow> unit outcome \<times> ('c, 'u) server_world"
where
  "ws_handle_message emit ops utf8 de cfg svc ext sink data w =
     (case decrypt_data emit ops utf8 cfg sink data w of
        (None, w') \<Rightarrow> (Done (), w')
      | (Some decrypted, w') \<Rightarrow>
          (let reject = (Done (), snd (sink_send_error emit ops sink Null (ErrorObject_from ParseError) w'));
               run = (\<lambda>idx is_single.
                 case handle_rpc_call emit de (drop idx decrypted) is_single (wsc_batch_requests_config cfg) svc ext w' of
                   (Done rp, w'') \<Rightarrow> (Done (), ws_reply ops sink rp w'')
                 | (Panicked, w'') \<Rightarrow> (Panicked, w''))
           in case first_non_whitespace 128 0 decrypted of
             Some (start, c) \<Rightarrow>
               if c = CHR ''{'' then run start True else if c = CHR ''['' then run start False else reject
           | None \<Rightarrow> reject))"

section \<open>The receiving task\<close>

text \<open>\<open>PingConfig\<close> of \<open>server/src/server.rs\<close>.\<close>

record ServerPingConfig =
  spc_ping_interval :: nat
  spc_inactive_limit :: nat
  spc_max_failures :: nat

definition ServerPingConfig_default :: ServerPingConfig where
  "ServerPingConfig_default = \<lparr>spc_ping_interval = 30, spc_inactive_limit = 40, spc_max_failures = 1\<rparr>"

definition ServerPingConfig_max_failures :: "nat \<Rightarrow> ServerPingConfig \<Rightarrow> ServerPingConfig outcome" where
  "ServerPingConfig_max_failures m p = (if m > 0 then Done (p\<lparr>spc_max_failures := m\<rparr>) else Panicked)"

datatype ws_event = WsNone | WsData string | WsPong | WsError SokettoError | InactivityTick | WsStopped

datatype Receive = RcvConnectionClosed | RcvStopped | RcvErr SokettoError | RcvOk string

text \<open>One turn of the loop of \<open>try_recv\<close>: its result if it ends, \<open>last_active\<close> and \<open>missed_pings\<close>.\<close>

definition try_recv_turn ::
  "ServerPingConfig option \<Rightarrow> nat \<Rightarrow> ws_event \<Rightarrow> nat \<Rightarrow> nat \<Rightarrow> Receive option \<times> nat \<times> nat" where
  "try_recv_turn ping_config now ev last_active missed_pings = (case ev of
       WsNone \<Rightarrow> (Some RcvConnectionClosed, last_active, missed_pings)
     | WsData d \<Rightarrow> (Some (RcvOk d), last_active, missed_pings)
     | WsPong \<Rightarrow> (None, now, missed_pings)
     | WsError e \<Rightarrow> (Some (RcvErr e), last_active, missed_pings)
     | InactivityTick \<Rightarrow> (case ping_config of
         None \<Rightarrow> (None, last_active, missed_pings)
       | Some p \<Rightarrow>
           if now - last_active > spc_inactive_limit p then
             (let missed = missed_pings + 1 in
              if missed \<ge> spc_max_failures p then (Some RcvConnectionClosed, last_active, missed)
              else (None, last_active, missed))
           else (None, last_active, missed_pings))
     | WsStopped \<Rightarrow> (Some RcvStopped, last_active, missed_pings))"

datatype Shutdown = ShutdownStopped | ShutdownConnectionClosed

text \<open>\<open>wc_result\<close> is what the loop of \<open>background_task\<close> was left with, \<open>wc_tasks\<close> the messages of the spawned tasks.\<close>

record ('c, 'u) ws_conn =
  wc_last_active :: nat
  wc_missed_pings :: nat
  wc_result :: "(Shutdown, SokettoError) result option"
  wc_tasks :: "string list"
  wc_world :: "('c, 'u) server_world"

definition background_turn ::
  "emitter \<Rightarrow> 'c sink_ops \<Rightarrow> ws_config \<Rightarrow> ServerPingConfig option \<Rightarrow> MethodSink \<Rightarrow> nat \<Rightarrow> ws_event \<Rightarrow>
     ('c, 'u) ws_conn \<Rightarrow> ('c, 'u) ws_conn"
where
  "background_turn emit ops cfg ping_config sink now ev c =
     (if wc_result c \<noteq> None then c
      else let (r, last_active, missed) = try_recv_turn ping_config now ev (wc_last_active c) (wc_missed_pings c);
               c1 = c\<lparr>wc_last_active := last_active, wc_missed_pings := missed\<rparr>;
               next = c1\<lparr>wc_last_active := now\<rparr>
           in case r of
             None \<Rightarrow> c1
           | Some RcvConnectionClosed \<Rightarrow> c1\<lparr>wc_result := Some (Ok ShutdownConnectionClosed)\<rparr>
           | Some RcvStopped \<Rightarrow> c1\<lparr>wc_result := Some (Ok ShutdownStopped)\<rparr>
           | Some (RcvOk d) \<Rightarrow> next\<lparr>wc_tasks := wc_tasks c @ [d]\<rparr>
           | Some (RcvErr e) \<Rightarrow> (case e of
               SokClosed \<Rightarrow> c1\<lparr>wc_result := Some (Ok ShutdownConnectionClosed)\<rparr>
             | SokMessageTooLarge _ _ \<Rightarrow>
                 (let (sent, w) = sink_send_error emit ops sink Null
                        (reject_too_big_request emit (wsc_max_request_body_size cfg)) (wc_world c) in
                  case sent of
                    Inl _ \<Rightarrow> c1\<lparr>wc_world := w, wc_result := Some (Ok ShutdownConnectionClosed)\<rparr>
                  | Inr _ \<Rightarrow> next\<lparr>wc_world := w\<rparr>)
             | SokOther _ \<Rightarrow> c1\<lparr>wc_result := Some (Err e)\<rparr>))"

datatype shutdown_event = CallsCompleted | WsMessage | WsDisconnected | SendTaskGone

text \<open>\<open>graceful_shutdown\<close>: whether it stops waiting; messages received meanwhile are dropped.\<close>

fun graceful_wait :: "shutdown_event list \<Rightarrow> bool" where
  "graceful_wait [] = False"
| "graceful_wait (WsMessage # es) = graceful_wait es"
| "graceful_wait (_ # es) = True"

definition graceful_shutdown :: "(Shutdown, SokettoError) result \<Rightarrow> shutdown_event list \<Rightarrow> bool" where
  "graceful_shutdown result es = (case result of Inr ShutdownStopped \<Rightarrow> graceful_wait es | _ \<Rightarrow> True)"

section \<open>A connection\<close>

text \<open>The receiving task and the tasks it spawned run interleaved, and so does the rest of the server.\<close>

inductive ws_step ::
  "emitter \<Rightarrow> 'c sink_ops \<Rightarrow> (string \<Rightarrow> bool) \<Rightarrow> readers \<Rightarrow> ws_config \<Rightarrow> ServerPingConfig option \<Rightarrow>
     ('c, 'u) server_world rpc_service_t \<Rightarrow> extensions \<Rightarrow> MethodSink \<Rightarrow> string list \<times> string list \<times> ('c, 'u) ws_conn \<Rightarrow>
     string list \<times> string list \<times> ('c, 'u) ws_conn \<Rightarrow> bool"
  for emit ops utf8 de cfg ping svc ext sink where
  receive: "ws_step emit ops utf8 de cfg ping svc ext sink (rcvd, handled, c)
    ((case ev of WsData d \<Rightarrow> if wc_result c = None then rcvd @ [d] else rcvd | _ \<Rightarrow> rcvd), handled,
     background_turn emit ops cfg ping sink now ev c)"
| handle: "wc_tasks c = ds @ d # ds' \<Longrightarrow>
    ws_step emit ops utf8 de cfg ping svc ext sink (rcvd, handled, c)
    (rcvd, handled @ [d], c\<lparr>wc_tasks := ds @ ds',
      wc_world := snd (ws_handle_message emit ops utf8 de cfg svc ext sink d (wc_world c))\<rparr>)"
| environment: "ws_step emit ops utf8 de cfg ping svc ext sink (rcvd, handled, c) (rcvd, handled, c\<lparr>wc_world := w\<rparr>)"

inductive ws_reachable ::
  "emitter \<Rightarrow> 'c sink_ops \<Rightarrow> (string \<Rightarrow> bool) \<Rightarrow> readers \<Rightarrow> ws_config \<Rightarrow> ServerPingConfig option \<Rightarrow>
     ('c, 'u) server_world rpc_service_t \<Rightarrow> extensions \<Rightarrow> MethodSink \<Rightarrow> string list \<times> string list \<times> ('c, 'u) ws_conn \<Rightarrow> bool"
  for emit ops utf8 de cfg ping svc ext sink where
  start: "ws_reachable emit ops utf8 de cfg ping svc ext sink ([], [],
    \<lparr>wc_last_active = now, wc_missed_pings = 0, wc_result = None, wc_tasks = [], wc_world = w\<rparr>)"
| step: "ws_reachable emit ops utf8 de cfg ping svc ext sink s \<Longrightarrow> ws_step emit ops utf8 de cfg ping svc ext sink s s' \<Longrightarrow>
    ws_reachable emit ops utf8 de cfg ping svc ext sink s'"

section \<open>Lemmas\<close>

text \<open>Invariant of a connection: every received message waits in a task or was handled, and the
  connection is closed as soon as enough pongs were missed.\<close>

definition ws_inv :: "ServerPingConfig option \<Rightarrow> string list \<times> string list \<times> ('c, 'u) ws_conn \<Rightarrow> bool" where
  "ws_inv ping s = (case s of (rcvd, handled, c) \<Rightarrow>
     mset rcvd = mset handled + mset (wc_tasks c) \<and>
     (case ping of None \<Rightarrow> wc_missed_pings c = 0
      | Some p \<Rightarrow> wc_result c = None \<and> 0 < spc_max_failures p \<longrightarrow> wc_missed_pings c < spc_max_failures p))"

lemma try_recv_turn_missed:
  assumes "try_recv_turn ping now ev last_active missed = (r, last_active', missed')"
  shows "missed \<le> missed' \<and> (ping = None \<longrightarrow> missed' = missed) \<and>
    (\<forall>p. ping = Some p \<longrightarrow> missed < spc_max_failures p \<longrightarrow> r \<noteq> Some RcvConnectionClosed \<longrightarrow> missed' < spc_max_failures p)"
  using assms by (auto simp: try_recv_turn_def Let_def split: ws_event.splits option.splits if_splits)

lemma background_turn_fields:
  assumes "wc_result c = None" "try_recv_turn ping now ev (wc_last_active c) (wc_missed_pings c) = (r, l, m)"
  shows "wc_missed_pings (background_turn emit ops cfg ping sink now ev c) = m"
    and "wc_result (background_turn emit ops cfg ping sink now ev c) = None \<Longrightarrow> r \<noteq> Some RcvConnectionClosed"
    and "wc_tasks (background_turn emit ops cfg ping sink now ev c) =
      wc_tasks c @ (case ev of WsData d \<Rightarrow> [d] | _ \<Rightarrow> [])"
proof -
  have ev: "(\<exists>d. r = Some (RcvOk d) \<and> ev = WsData d) \<or> ((\<nexists>d. r = Some (RcvOk d)) \<and> (\<nexists>d. ev = WsData d))"
    using assms(2) by (auto simp: try_recv_turn_def Let_def split: ws_event.splits option.splits if_splits)
  show "wc_missed_pings (background_turn emit ops cfg ping sink now ev c) = m"
    "wc_result (background_turn emit ops cfg ping sink now ev c) = None \<Longrightarrow> r \<noteq> Some RcvConnectionClosed"
    using assms by (auto simp: background_turn_def Let_def split_beta
        split: option.splits Receive.splits SokettoError.splits sum.splits)
  show "wc_tasks (background_turn emit ops cfg ping sink now ev c) =
      wc_tasks c @ (case ev of WsData d \<Rightarrow> [d] | _ \<Rightarrow> [])"
    using assms ev by (auto simp: background_turn_def Let_def split_beta
        split: option.splits Receive.splits SokettoError.splits sum.splits ws_event.splits)
qed

lemma ws_inv_step:
  assumes "ws_step emit ops utf8 de cfg ping svc ext sink s s'" "ws_inv ping s"
  shows "ws_inv ping s'"
  using assms
proof cases
  case (receive rcvd handled c ev now)
  show ?thesis
  proof (cases "wc_result c")
    case None
    obtain r l m where t: "try_recv_turn ping now ev (wc_last_active c) (wc_missed_pings c) = (r, l, m)"
      by (metis surj_pair)
    note f = background_turn_fields [OF None t, of emit ops cfg sink]
    from assms(2) receive None f try_recv_turn_missed [OF t] show ?thesis
      by (auto simp: ws_inv_def split: ws_event.splits option.splits)
  next
    case (Some x)
    with assms(2) receive show ?thesis by (auto simp: ws_inv_def background_turn_def split: ws_event.splits)
  qed
next
  case (handle c ds d ds' rcvd handled)
  with assms(2) show ?thesis by (simp add: ws_inv_def split: option.splits)
next
  case environment
  with assms(2) show ?thesis by (simp add: ws_inv_def split: option.splits)
qed

lemma ws_reachable_inv: "ws_reachable emit ops utf8 de cfg ping svc ext sink s \<Longrightarrow> ws_inv ping s"
proof (induction rule: ws_reachable.induct)
  case (start now w)
  show ?case by (simp add: ws_inv_def split: option.split)
qed (rule ws_inv_step)

section \<open>Properties\<close>

text \<open>Every message that a WebSocket connection received is handled exactly once or still waiting for
  its task, in whatever order the tasks run; and the connection is given up at the latest with the
  configured number of missed pongs, never without a ping configuration.\<close>

lemma ws_messages_handled_once:
  assumes "ws_reachable emit ops utf8 de cfg ping svc ext sink (rcvd, handled, c)"
  shows "mset rcvd = mset handled + mset (wc_tasks c) \<and>
    (case ping of None \<Rightarrow> wc_missed_pings c = 0
     | Some p \<Rightarrow> wc_result c = None \<and> 0 < spc_max_failures p \<longrightarrow> wc_missed_pings c < spc_max_failures p)"
  using ws_reachable_inv [OF assms] by (simp add: ws_inv_def)

definition example_ws_config :: ws_config where
  "example_ws_config = \<lparr>wsc_batch_requests_config = BatchUnlimited, wsc_max_request_body_size = 100, wsc_policy = CloseConnection,
     wsc_encryption = Some \<lparr>enc_encrypt = Some, enc_decrypt = \<lambda>_. None\<rparr>\<rparr>"

definition example_readers :: readers where
  "example_readers = \<lparr>de_call = \<lambda>_. None, de_notif = \<lambda>_. None, de_invalid = \<lambda>_. None, de_array = \<lambda>_. None\<rparr>"

text \<open>A message that cannot be decrypted under the policy \<open>CloseConnection\<close> is dropped without an answer
  and the connection stays open: neither the task of the message nor the receiving task closes it,
  exactly as under \<open>SkipMessage\<close>.\<close>

lemma close_policy_keeps_connection:
  assumes "wsc_encryption cfg = Some enc" and "enc_decrypt enc data = None" and "utf8 data"
    and "wsc_policy cfg \<noteq> SendError" and "wc_result c = None"
  shows "ws_handle_message emit ops utf8 de cfg svc ext sink data w = (Done (), w) \<and>
    wc_result (background_turn emit ops cfg ping sink now (WsData data) c) = None \<and>
    wc_world (background_turn emit ops cfg ping sink now (WsData data) c) = wc_world c"
  using assms
  by (cases "wsc_policy cfg")
     (auto simp: ws_handle_message_def decrypt_data_def background_turn_def try_recv_turn_def Let_def)

text \<open>The sink of a connection as a queue of messages, and a socket that records what is sent.\<close>

definition queue_ops :: "(nat \<Rightarrow> string list) sink_ops" where
  "queue_ops = \<lparr>so_send = (\<lambda>k m c. (True, c(k := c k @ [m]))), so_try_send = (\<lambda>k m c. (SendOk, c(k := c k @ [m]))),
     so_send_timeout = (\<lambda>k m _ c. (SentInTime, c(k := c k @ [m]))), so_is_closed = (\<lambda>_ _. False)\<rparr>"

lemma queue_send: "so_send queue_ops k m c = (True, c(k := c k @ [m]))"
  by (simp add: queue_ops_def)

definition log_ops :: "string list ws_sender_ops" where
  "log_ops = \<lparr>wo_send_text = (\<lambda>m s. (Inr (), s @ [m])), wo_send_ping = (\<lambda>s. (Inr (), s)), wo_flush = (\<lambda>s. (Inr (), s)),
     wo_close = (\<lambda>s. s)\<rparr>"

fun rx_items :: "send_event list \<Rightarrow> string list" where
  "rx_items [] = []"
| "rx_items (RxItem m # es) = m # rx_items es"
| "rx_items (PingTick # es) = rx_items es"
| "rx_items (_ # es) = []"

text \<open>Whatever the pings and the end of the task in between, the peer that decrypts what is on the
  socket gets exactly the queued messages in their order, up to the one at which the task was
  stopped.\<close>

lemma ws_send_in_order:
  assumes "\<And>m. \<exists>x. enc_encrypt enc m = Some x \<and> enc_decrypt enc x = Some m"
  shows "map (enc_decrypt enc) (snd (send_task_loop emit log_ops (Some enc) policy es [])) = map Some (rx_items es) \<and>
    snd (send_task_loop emit log_ops None policy es []) = rx_items es"
proof -
  have "\<exists>xs. snd (send_task_loop emit log_ops (Some enc) policy es s) = s @ xs \<and> map (enc_decrypt enc) xs = map Some (rx_items es)" for s
  proof (induction es arbitrary: s rule: rx_items.induct)
    case (2 m es)
    from assms obtain x where x: "enc_encrypt enc m = Some x" "enc_decrypt enc x = Some m" by blast
    from 2 [of "s @ [x]"] obtain xs where "snd (send_task_loop emit log_ops (Some enc) policy es (s @ [x])) = (s @ [x]) @ xs"
      "map (enc_decrypt enc) xs = map Some (rx_items es)" by blast
    with x show ?case
      by (intro exI [of _ "x # xs"]) (simp add: send_message_def send_and_flush_def log_ops_def)
  qed (auto simp: send_ping_def log_ops_def)
  moreover have "snd (send_task_loop emit log_ops None policy es s) = s @ rx_items es" for s
    by (induction es arbitrary: s rule: rx_items.induct)
       (simp_all add: send_message_def send_and_flush_def send_ping_def log_ops_def)
  ultimately show ?thesis by (metis append_Nil)
qed

text \<open>What a handler can do with its pending subscription.\<close>

datatype subscription_choice = Accepts | Rejects ErrorObject | Drops

definition chosen ::
  "emitter \<Rightarrow> 'c sink_ops \<Rightarrow> nat \<Rightarrow> subscription_choice \<Rightarrow> PendingSubscriptionSink \<Rightarrow> ('c, 'u) server_world \<Rightarrow>
     ('c, 'u) server_world" where
  "chosen emit ops t choice p w = (case choice of
       Accepts \<Rightarrow> accepting emit ops (\<lambda>_. True) t p w
     | Rejects err \<Rightarrow> table_put t (PendingSubscriptionSink_reject emit ops p err (table_get t w)) w
     | Drops \<Rightarrow> w\<lparr>wd_permits := wd_permits w + 1\<rparr>)"

definition chosen_answer :: "emitter \<Rightarrow> subscription_choice \<Rightarrow> PendingSubscriptionSink \<Rightarrow> string" where
  "chosen_answer emit choice p = (case choice of
       Accepts \<Rightarrow> mr_json (accept_answer emit p)
     | Rejects err \<Rightarrow> error_json emit (ps_id p) err
     | Drops \<Rightarrow> error_json emit (ps_id p) (ErrorObject_from InternalError))"

lemma accept_answer_kind: "mr_kind (accept_answer emit p) = KindSubscription"
  by (simp add: accept_answer_def subscription_response_def)

lemma subscription_error_fields:
  "mr_kind (subscription_error emit i err) = KindSubscription" "mr_json (subscription_error emit i err) = error_json emit i err"
  "\<not> MethodResponse_is_success (subscription_error emit i err)"
  by (simp_all add: subscription_error_def MethodResponse_error_def MethodResponse_is_success_def)

text \<open>The callback of a subscription on the queues: what it sends itself and what it returns.\<close>

lemma chosen_callback:
  fixes w :: "(nat \<Rightarrow> string list, 'u) server_world"
  assumes "SubscriptionCb f = subscription_callback emit notif (\<lambda>_ p _. chosen emit queue_ops t choice p)"
    and "p = fst (pending_sink notif i sink conn w)" and "wd_next w \<notin> fst ` set (wd_answers w)"
    and "choice = Accepts \<longrightarrow> MethodResponse_is_success (accept_answer emit p)"
  shows "if choice = Drops
    then wd_conns (snd (f i ps sink conn ext w)) = wd_conns w \<and> mr_kind (fst (f i ps sink conn ext w)) = KindMethodCall \<and>
      mr_json (fst (f i ps sink conn ext w)) = chosen_answer emit choice p \<and> mr_on_close (fst (f i ps sink conn ext w)) = None
    else wd_conns (snd (f i ps sink conn ext w)) =
        (wd_conns w)(ms_tx sink := wd_conns w (ms_tx sink) @ [chosen_answer emit choice p]) \<and>
      mr_kind (fst (f i ps sink conn ext w)) = KindSubscription"
proof -
  let ?w0 = "w\<lparr>wd_next := wd_next w + 1\<rparr>"
  have pend: "pending_sink notif i sink conn w = (p, ?w0)" "ps_inner p = sink" "ps_subscribe p = wd_next w" "ps_id p = i"
    using assms(2) by (simp_all add: pending_sink_def)
  have f: "f i ps sink conn ext w = (let w2 = chosen emit queue_ops t choice p ?w0 in
      case map_of (wd_answers w2) (wd_next w) of
        Some rp \<Rightarrow> (with_extensions ext rp,
          if MethodResponse_is_success rp then w2\<lparr>wd_accepted := insert (wd_next w) (wd_accepted w2)\<rparr> else w2)
      | None \<Rightarrow> (with_extensions ext (MethodResponse_error emit i (ErrorObject_from InternalError)), w2))"
    using assms(1) pend by (simp add: subscription_callback_def Let_def split: option.split)
  show ?thesis
  proof (cases choice)
    case Accepts
    note acc = accepting_delivered [of queue_ops p emit ?w0
        "(wd_conns w)(ms_tx sink := wd_conns w (ms_tx sink) @ [chosen_answer emit choice p])" "\<lambda>_. True" t]
    from Accepts acc assms(3,4) pend show ?thesis
      by (simp add: f chosen_def chosen_answer_def queue_ops_def accept_answer_kind map_of_append_fresh Let_def
          del: map_of_append)
  next
    case (Rejects err)
    with assms(3) pend show ?thesis
      by (simp add: f chosen_def chosen_answer_def PendingSubscriptionSink_reject_def table_put_def table_get_def
          release_permit_def MethodSink_send_def queue_ops_def subscription_error_fields map_of_append_fresh Let_def
          del: map_of_append)
  next
    case Drops
    from assms(3) have "map_of (wd_answers w) (wd_next w) = None" by (simp add: map_of_eq_None_iff)
    with Drops pend show ?thesis
      by (simp add: f chosen_def chosen_answer_def MethodResponse_error_def)
  qed
qed

text \<open>C8. A subscribe call over WebSocket is answered with exactly one message, whatever the handler
  does with the pending subscription: the subscription id when it accepts, its error when it
  rejects, and an internal error when it drops it. The transport adds no second answer to the one
  that accepting or rejecting has sent.\<close>

theorem subscribe_answered_once:
  fixes w :: "(nat \<Rightarrow> string list, 'u) server_world"
  assumes "callbacks (rs_methods s) (req_method req) =
      Some (subscription_callback emit notif (\<lambda>_ p _. chosen emit queue_ops t choice p))"
    and "rs_cfg s = CallsAndSubscriptions m sink" and "0 < wd_permits w"
    and "wsc_encryption cfg = None" and "first_non_whitespace 128 0 data = Some (idx, CHR ''{'')"
    and "de_call de (drop idx data) = Some req"
    and "w0 = w\<lparr>wd_permits := wd_permits w - 1\<rparr>"
    and "p = fst (pending_sink notif (req_id req) sink \<lparr>ss_conn_id = rs_conn_id s, ss_next_id = rs_id_provider s w0\<rparr> w0)"
    and "wd_next w \<notin> fst ` set (wd_answers w)"
    and "choice = Accepts \<longrightarrow> MethodResponse_is_success (accept_answer emit p)"
  shows "\<exists>w'. ws_handle_message emit queue_ops utf8 de cfg (rpc_service_impl emit valid_json s) ext sink data w = (Done (), w') \<and>
    wd_conns w' = (wd_conns w)(ms_tx sink := wd_conns w (ms_tx sink) @ [chosen_answer emit choice p])"
proof -
  obtain f where f: "SubscriptionCb f = subscription_callback emit notif (\<lambda>_ p _. chosen emit queue_ops t choice p)"
    and cb: "callbacks (rs_methods s) (req_method req) = Some (SubscriptionCb f)"
    using assms(1) by (simp add: subscription_callback_def)
  let ?conn = "\<lparr>ss_conn_id = rs_conn_id s, ss_next_id = rs_id_provider s w0\<rparr>"
  have call: "RpcService_call emit s (req\<lparr>req_extensions := ext\<rparr>) w =
      f (req_id req) (Params_new (req_params req)) sink ?conn ext w0"
    using assms(2,3,7) cb
    by (simp add: RpcService_call_def method_with_name_def acquire_permit_def BoundedSubscriptions_acquire_def
        table_get_def table_put_def)
  have ws: "ws_handle_message emit queue_ops utf8 de cfg (rpc_service_impl emit valid_json s) ext sink data w =
      (Done (), ws_reply queue_ops sink (fst (RpcService_call emit s (req\<lparr>req_extensions := ext\<rparr>) w))
        (snd (RpcService_call emit s (req\<lparr>req_extensions := ext\<rparr>) w)))"
    using assms(4-6)
    by (simp add: ws_handle_message_def decrypt_data_def handle_rpc_call_def call_from_slice_def rpc_service_impl_def
        apfst_def map_prod_def split_beta)
  have "wd_next w0 \<notin> fst ` set (wd_answers w0)" "wd_conns w0 = wd_conns w" using assms(7,9) by simp_all
  from chosen_callback [OF f assms(8) this(1) assms(10), of "Params_new (req_params req)" ext] this(2) show ?thesis
    by (auto simp: ws call ws_reply_def sink_send_def MethodSink_send_def queue_send MethodResponse_is_method_call_def
        MethodResponse_is_batch_def split: if_splits)
qed

definition example_queue_server :: "(nat \<Rightarrow> string list, unit) server_world" where
  "example_queue_server = \<lparr>wd_conns = (\<lambda>_. []), wd_tables = (\<lambda>_. Map.empty), wd_closed = {}, wd_next = 0, wd_permits = 1,
     wd_answers = [], wd_accepted = {}, wd_notified = [], wd_user = ()\<rparr>"

definition example_ws_service :: "(nat \<Rightarrow> string list, unit) RpcService" where
  "example_ws_service = \<lparr>rs_conn_id = 0, rs_methods = \<lparr>callbacks = [''s'' \<mapsto> subscription_callback example_emit ''n''
       (\<lambda>_ p _. chosen example_emit queue_ops 0 Drops p)], ms_extensions = Map.empty\<rparr>,
     rs_max_response_body_size = 100, rs_cfg = CallsAndSubscriptions 1 (MethodSink_new 0), rs_id_provider = \<lambda>_. Num 7\<rparr>"

theorem subscribe_answered_once_witness:
  "\<exists>w' m. ws_handle_message example_emit queue_ops (\<lambda>_. True) (example_readers\<lparr>de_call := \<lambda>_. Some (Request_owned ''s'' None (Number 1))\<rparr>)
      (example_ws_config\<lparr>wsc_encryption := None\<rparr>) (rpc_service_impl example_emit array_text example_ws_service) Map.empty
      (MethodSink_new 0) ''{}'' example_queue_server = (Done (), w') \<and> wd_conns w' 0 = [m]"
proof -
  let ?w0 = "example_queue_server\<lparr>wd_permits := wd_permits example_queue_server - 1\<rparr>"
  have "first_non_whitespace 128 0 ''{}'' = Some (0, CHR ''{'')" by code_simp
  from subscribe_answered_once [of example_ws_service "Request_owned ''s'' None (Number 1)" example_emit "''n''" 0 Drops 1
      "MethodSink_new 0" example_queue_server "example_ws_config\<lparr>wsc_encryption := None\<rparr>" "''{}''" 0
      "example_readers\<lparr>de_call := \<lambda>_. Some (Request_owned ''s'' None (Number 1))\<rparr>", OF _ _ _ _ this _ refl refl]
  obtain w' m where "ws_handle_message example_emit queue_ops (\<lambda>_. True) (example_readers\<lparr>de_call := \<lambda>_. Some (Request_owned ''s'' None (Number 1))\<rparr>)
      (example_ws_config\<lparr>wsc_encryption := None\<rparr>) (rpc_service_impl example_emit array_text example_ws_service) Map.empty
      (MethodSink_new 0) ''{}'' example_queue_server = (Done (), w')"
    "wd_conns w' = (wd_conns example_queue_server)(ms_tx (MethodSink_new 0) := wd_conns example_queue_server (ms_tx (MethodSink_new 0)) @ [m])"
    by (fastforce simp: example_ws_service_def Request_owned_def example_queue_server_def)
  then show ?thesis by (intro exI [of _ w'] exI [of _ m]) (simp add: example_queue_server_def MethodSink_new_def)
qed

end
