(* ===== verification/Client_Transport.thy ===== *)
theory Client_Transport
  imports Http_Client Ws_Transport
begin

text \<open>
  The transports of the clients with a background task: \<open>client/transport/src/ws/mod.rs\<close> (connecting
  with redirections, the handshake, the two halves of an open connection), \<open>client/transport/src/web.rs\<close>
  for browsers, and the builders of \<open>client/ws-client\<close> and \<open>client/wasm-client\<close>.

  URLs and header maps are the parameters of the HTTP client; name resolution, sockets, TLS and the
  handshake of \<open>soketto\<close> are functions of the surroundings \<open>'n\<close>.
\<close>

section \<open>Configuration and errors\<close>

datatype 'k CertificateStore = NativeStore | CustomStore 'k

record 'k WsTransportClientBuilder =
  wb_certificate_store :: "'k CertificateStore"
  wb_connection_timeout :: nat
  wb_headers :: HeaderMap
  wb_max_request_size :: u32
  wb_max_response_size :: u32
  wb_max_redirections :: nat
  wb_tcp_no_delay :: bool
  wb_message_encryption :: "MessageEncryption option"

definition WsTransportClientBuilder_default :: "'k WsTransportClientBuilder" where
  "WsTransportClientBuilder_default = \<lparr>wb_certificate_store = NativeStore, wb_connection_timeout = 10, wb_headers = [],
     wb_max_request_size = TEN_MB_SIZE_BYTES, wb_max_response_size = TEN_MB_SIZE_BYTES, wb_max_redirections = 5,
     wb_tcp_no_delay = True, wb_message_encryption = None\<rparr>"

datatype Mode = Plain | Tls

datatype WsHandshakeError =
    HsCertificateStore string
  | HsUrl string
  | HsIo string
  | HsTransport string
  | HsRejected nat
  | HsRedirected nat string
  | HsTimeout nat
  | HsResolutionFailed string
  | HsNoAddressFound string

datatype WsError = WsConnection SokettoError | WsMessageTooLarge | WsClosed

record Target =
  tg_host :: string
  tg_host_header :: string
  tg_mode :: Mode
  tg_path_and_query :: string
  tg_basic_auth :: "string option"

text \<open>\<open>tls\<close> is the feature of that name.\<close>

definition target_mode :: "bool \<Rightarrow> string \<Rightarrow> (Mode, WsHandshakeError) result" where
  "target_mode tls scheme =
     (if scheme = ''ws'' then Ok Plain
      else if tls \<and> scheme = ''wss'' then Ok Tls
      else Err (HsUrl (''`'' @ scheme @ (if tls then ''` not supported, expects 'ws' or 'wss'' @ [CHR 0x27]
        else ''` not supported, expects 'ws' ('wss' requires the tls feature)''))))"

definition Target_try_from ::
  "'u url_ops \<Rightarrow> header_ops \<Rightarrow> bool \<Rightarrow> 'u \<Rightarrow> (Target, WsHandshakeError) result" where
  "Target_try_from uo ho tls url = (case target_mode tls (url_scheme uo url) of
       Inl e \<Rightarrow> Err e
     | Inr mode \<Rightarrow> (case url_host_str uo url of
         None \<Rightarrow> Err (HsUrl ''Invalid host'')
       | Some host \<Rightarrow>
           (let path_and_query = url_path uo url @ (case url_query uo url of Some q \<Rightarrow> ''?'' @ q | None \<Rightarrow> []);
                auth = (case url_password uo url of
                    None \<Rightarrow> Ok None
                  | Some pwd \<Rightarrow> (case basic_auth ho (url_username uo url) pwd of
                      None \<Rightarrow> Err (HsUrl ''Header value `authorization basic user:pwd` invalid'')
                    | Some v \<Rightarrow> Ok (Some v)))
            in case auth of
              Inl e \<Rightarrow> Err e
            | Inr a \<Rightarrow> Ok \<lparr>tg_host = host,
                tg_host_header = (case url_port uo url of Some p \<Rightarrow> host @ '':'' @ nat_to_string p | None \<Rightarrow> host),
                tg_mode = mode, tg_path_and_query = path_and_query, tg_basic_auth = a\<rparr>)))"

section \<open>Connecting\<close>

datatype ServerResponse = Accepted | Rejected nat | Redirect nat string

datatype 'd EitherStream = PlainStream 'd | TlsStream 'd

text \<open>
  \<open>wn_tcp\<close> races \<open>TcpStream::connect\<close> with the timer (\<open>Right\<close>); \<open>wn_server_name\<close> checks that a
  host is a name for TLS; \<open>wn_handshake\<close> is the handshake of \<open>soketto\<close> with the host header, the path and
  the extra headers; \<open>wn_platform_verifier\<close> the feature \<open>tls-rustls-platform-verifier\<close> with the
  configuration it gives.
\<close>

record ('u, 'a, 'd, 'k, 'n) ws_net =
  wn_url :: "'u url_ops"
  wn_headers :: header_ops
  wn_tls :: bool
  wn_platform_verifier :: "'k option"
  wn_socket_addrs :: "'u \<Rightarrow> ('a list, string) result"
  wn_tcp :: "'a \<Rightarrow> nat \<Rightarrow> 'n \<Rightarrow> ('d, string) result race \<times> 'n"
  wn_server_name :: "string \<Rightarrow> (unit, string) result"
  wn_tls_connect :: "'k \<Rightarrow> string \<Rightarrow> 'd \<Rightarrow> 'n \<Rightarrow> ('d, string) result \<times> 'n"
  wn_handshake :: "'d EitherStream \<Rightarrow> string \<Rightarrow> string \<Rightarrow> HeaderMap \<Rightarrow> 'n \<Rightarrow> (ServerResponse, string) result \<times> 'n"

definition build_tls_config ::
  "('u, 'a, 'd, 'k, 'n) ws_net \<Rightarrow> 'k CertificateStore \<Rightarrow> ('k, WsHandshakeError) result" where
  "build_tls_config net store = (case store of
       NativeStore \<Rightarrow> (case wn_platform_verifier net of
           Some cfg \<Rightarrow> Ok cfg
         | None \<Rightarrow> Err (HsCertificateStore ''Native certificate store not supported, either call `Builder::with_custom_cert_store` or enable the `tls-rustls-platform-verifier` feature.''))
     | CustomStore cfg \<Rightarrow> Ok cfg)"

definition tls_connector ::
  "('u, 'a, 'd, 'k, 'n) ws_net \<Rightarrow> 'k CertificateStore \<Rightarrow> Target \<Rightarrow> ('k option, WsHandshakeError) result" where
  "tls_connector net store target = (case tg_mode target of
       Tls \<Rightarrow> (case build_tls_config net store of Inl e \<Rightarrow> Err e | Inr c \<Rightarrow> Ok (Some c))
     | Plain \<Rightarrow> Ok None)"

definition ws_connect ::
  "('u, 'a, 'd, 'k, 'n) ws_net \<Rightarrow> 'a \<Rightarrow> nat \<Rightarrow> string \<Rightarrow> 'k option \<Rightarrow> 'n \<Rightarrow>
     ('d EitherStream, WsHandshakeError) result \<times> 'n"
where
  "ws_connect net sockaddr timeout host connector n = (case wn_tcp net sockaddr timeout n of
       (Right, n') \<Rightarrow> (Err (HsTimeout timeout), n')
     | (Left (Inl e), n') \<Rightarrow> (Err (HsIo e), n')
     | (Left (Inr socket), n') \<Rightarrow> (case connector of
         None \<Rightarrow> (Ok (PlainStream socket), n')
       | Some cfg \<Rightarrow> (case wn_server_name net host of
           Inl e \<Rightarrow> (Err (HsUrl (''Invalid host: '' @ host @ '' '' @ e)), n')
         | Inr _ \<Rightarrow> (case wn_tls_connect net cfg host socket n' of
             (Inl e, n'') \<Rightarrow> (Err (HsIo e), n'')
           | (Inr stream, n'') \<Rightarrow> (Ok (TlsStream stream), n'')))))"

text \<open>The headers of the handshake: the user's, and the credentials of the URL unless the user set some.\<close>

definition handshake_headers :: "HeaderMap \<Rightarrow> Target \<Rightarrow> HeaderMap" where
  "handshake_headers headers target = (case tg_basic_auth target of
       Some auth \<Rightarrow> if contains_key headers ''authorization'' then headers else headers @ [(''authorization'', auth)]
     | None \<Rightarrow> headers)"

record 'd ws_halves =
  wh_stream :: "'d EitherStream"
  wh_max_message_size :: nat
  wh_max_request_size :: u32
  wh_message_encryption :: "MessageEncryption option"

definition try_connect ::
  "('u, 'a, 'd, 'k, 'n) ws_net \<Rightarrow> 'k WsTransportClientBuilder \<Rightarrow> Target \<Rightarrow> 'd EitherStream \<Rightarrow> 'n \<Rightarrow>
     ('d ws_halves, WsHandshakeError) result \<times> 'n"
where
  "try_connect net b target stream n =
     (case wn_handshake net stream (tg_host_header target) (tg_path_and_query target)
             (handshake_headers (wb_headers b) target) n of
        (Inr Accepted, n') \<Rightarrow> (Ok \<lparr>wh_stream = stream, wh_max_message_size = unat (wb_max_response_size b),
           wh_max_request_size = wb_max_request_size b, wh_message_encryption = wb_message_encryption b\<rparr>, n')
      | (Inr (Rejected status), n') \<Rightarrow> (Err (HsRejected status), n')
      | (Inr (Redirect status location), n') \<Rightarrow> (Err (HsRedirected status location), n')
      | (Inl e, n') \<Rightarrow> (Err (HsTransport e), n'))"

section \<open>Redirections\<close>

record ('a, 'k) redirect_state =
  rd_target :: Target
  rd_err :: "WsHandshakeError option"
  rd_connector :: "'k option"
  rd_addrs :: "'a list"

text \<open>What a redirection does to the loop over the addresses: go on with the next one, leave the loop, or fail.\<close>

datatype ('a, 'k) redirect_flow =
    RdContinue "('a, 'k) redirect_state"
  | RdBreak "('a, 'k) redirect_state"
  | RdReturn WsHandshakeError

definition next_connector ::
  "('u, 'a, 'd, 'k, 'n) ws_net \<Rightarrow> 'k CertificateStore \<Rightarrow> Mode \<Rightarrow> 'k option \<Rightarrow> ('k option, WsHandshakeError) result" where
  "next_connector net store mode connector = (case mode of
       Plain \<Rightarrow> Ok None
     | Tls \<Rightarrow> (case connector of
         Some c \<Rightarrow> Ok (Some c)
       | None \<Rightarrow> (case build_tls_config net store of Inl e \<Rightarrow> Err e | Inr c \<Rightarrow> Ok (Some c))))"

fun rfind :: "char \<Rightarrow> string \<Rightarrow> nat option" where
  "rfind c [] = None"
| "rfind c (x # xs) = (case rfind c xs of Some i \<Rightarrow> Some (Suc i) | None \<Rightarrow> if x = c then Some 0 else None)"

definition relative_path :: "string \<Rightarrow> string \<Rightarrow> string option" where
  "relative_path path_and_query location =
     (if location \<noteq> [] \<and> hd location = CHR ''/'' then Some location
      else (case rfind (CHR ''/'') path_and_query of
          Some offset \<Rightarrow> Some (take (offset + 1) path_and_query @ location)
        | None \<Rightarrow> None))"

definition redirect ::
  "('u, 'a, 'd, 'k, 'n) ws_net \<Rightarrow> 'k WsTransportClientBuilder \<Rightarrow> 'a list \<Rightarrow> string \<Rightarrow> ('a, 'k) redirect_state \<Rightarrow>
     ('a, 'k) redirect_flow"
where
  "redirect net b sockaddrs location st = (case url_parse (wn_url net) location of
       Inr uri \<Rightarrow> (case wn_socket_addrs net uri of
           Inl e \<Rightarrow> RdReturn (HsIo e)
         | Inr addrs \<Rightarrow> (case Target_try_from (wn_url net) (wn_headers net) (wn_tls net) uri of
             Inl e \<Rightarrow> RdReturn e
           | Inr target \<Rightarrow> (case next_connector net (wb_certificate_store b) (tg_mode target) (rd_connector st) of
               Inl e \<Rightarrow> RdReturn e
             | Inr connector \<Rightarrow>
                 RdContinue (st\<lparr>rd_addrs := addrs, rd_target := target, rd_connector := connector\<rparr>))))
     | Inl RelativeUrlWithoutBase \<Rightarrow> (case relative_path (tg_path_and_query (rd_target st)) location of
           Some path \<Rightarrow> RdBreak (st\<lparr>rd_target := (rd_target st)\<lparr>tg_path_and_query := path\<rparr>, rd_addrs := sockaddrs\<rparr>)
         | None \<Rightarrow> RdContinue (st\<lparr>rd_err := Some (HsUrl (''path_and_query: '' @ location @
               ''; this is a bug it must contain `/` please open issue''))\<rparr>))
     | Inl e \<Rightarrow> RdContinue (st\<lparr>rd_err := Some (HsUrl (url_error_text (wn_url net) e))\<rparr>))"

text \<open>The inner loop, over the addresses of one round: a result, or the state for the next round.\<close>

fun try_addrs ::
  "('u, 'a, 'd, 'k, 'n) ws_net \<Rightarrow> 'k WsTransportClientBuilder \<Rightarrow> 'a list \<Rightarrow> 'a list \<Rightarrow> ('a, 'k) redirect_state \<Rightarrow> 'n \<Rightarrow>
     ('d ws_halves, WsHandshakeError) result option \<times> ('a, 'k) redirect_state \<times> 'n"
where
  "try_addrs net b sockaddrs [] st n = (None, st, n)"
| "try_addrs net b sockaddrs (a # rest) st n =
     (case ws_connect net a (wb_connection_timeout b) (tg_host (rd_target st)) (rd_connector st) n of
        (Inl e, n1) \<Rightarrow> try_addrs net b sockaddrs rest (st\<lparr>rd_err := Some e\<rparr>) n1
      | (Inr stream, n1) \<Rightarrow> (case try_connect net b (rd_target st) stream n1 of
          (Inr result, n2) \<Rightarrow> (Some (Ok result), st, n2)
        | (Inl (HsRedirected status location), n2) \<Rightarrow> (case redirect net b sockaddrs location st of
            RdContinue st' \<Rightarrow> try_addrs net b sockaddrs rest st' n2
          | RdBreak st' \<Rightarrow> (None, st', n2)
          | RdReturn e \<Rightarrow> (Some (Err e), st, n2))
        | (Inl e, n2) \<Rightarrow> try_addrs net b sockaddrs rest (st\<lparr>rd_err := Some e\<rparr>) n2))"

text \<open>The outer loop: \<open>max_redirections\<close> rounds, each with the addresses the round before left.\<close>

fun redirect_loop ::
  "('u, 'a, 'd, 'k, 'n) ws_net \<Rightarrow> 'k WsTransportClientBuilder \<Rightarrow> nat \<Rightarrow> ('a, 'k) redirect_state \<Rightarrow> 'n \<Rightarrow>
     ('d ws_halves, WsHandshakeError) result \<times> 'n"
where
  "redirect_loop net b 0 st n =
     (Err (case rd_err st of Some e \<Rightarrow> e | None \<Rightarrow> HsNoAddressFound (tg_host (rd_target st))), n)"
| "redirect_loop net b (Suc k) st n =
     (case try_addrs net b (rd_addrs st) (rd_addrs st) (st\<lparr>rd_addrs := []\<rparr>) n of
        (Some r, _, n') \<Rightarrow> (r, n')
      | (None, st', n') \<Rightarrow> redirect_loop net b k st' n')"

definition try_connect_over_tcp ::
  "('u, 'a, 'd, 'k, 'n) ws_net \<Rightarrow> 'k WsTransportClientBuilder \<Rightarrow> 'u \<Rightarrow> 'n \<Rightarrow>
     ('d ws_halves, WsHandshakeError) result \<times> 'n"
where
  "try_connect_over_tcp net b uri n = (case Target_try_from (wn_url net) (wn_headers net) (wn_tls net) uri of
       Inl e \<Rightarrow> (Err e, n)
     | Inr target \<Rightarrow> (case tls_connector net (wb_certificate_store b) target of
         Inl e \<Rightarrow> (Err e, n)
       | Inr connector \<Rightarrow> (case wn_socket_addrs net uri of
           Inl e \<Rightarrow> (Err (HsResolutionFailed e), n)
         | Inr addrs \<Rightarrow> redirect_loop net b (wb_max_redirections b)
             \<lparr>rd_target = target, rd_err = None, rd_connector = connector, rd_addrs = addrs\<rparr> n)))"

text \<open>\<open>build\<close> and \<open>build_with_stream\<close>, which uses a stream that is open already and follows no redirection.\<close>

definition ws_transport_build ::
  "('u, 'a, 'd, 'k, 'n) ws_net \<Rightarrow> 'k WsTransportClientBuilder \<Rightarrow> 'u \<Rightarrow> 'n \<Rightarrow> ('d ws_halves, WsHandshakeError) result \<times> 'n" where
  "ws_transport_build net b uri n = try_connect_over_tcp net b uri n"

definition ws_transport_build_with_stream ::
  "('u, 'a, 'd, 'k, 'n) ws_net \<Rightarrow> 'k WsTransportClientBuilder \<Rightarrow> 'u \<Rightarrow> 'd EitherStream \<Rightarrow> 'n \<Rightarrow>
     ('d ws_halves, WsHandshakeError) result \<times> 'n"
where
  "ws_transport_build_with_stream net b uri stream n =
     (case Target_try_from (wn_url net) (wn_headers net) (wn_tls net) uri of
        Inl e \<Rightarrow> (Err e, n)
      | Inr target \<Rightarrow> try_connect net b target stream n)"

section \<open>An open connection\<close>

definition ClientSender_send ::
  "'s ws_sender_ops \<Rightarrow> 'd ws_halves \<Rightarrow> string \<Rightarrow> 's \<Rightarrow> (unit, WsError) result \<times> 's" where
  "ClientSender_send ops h body s =
     (case (case wh_message_encryption h of
              None \<Rightarrow> Some body
            | Some enc \<Rightarrow> enc_encrypt enc body) of
        None \<Rightarrow> (Err WsMessageTooLarge, s)
      | Some body' \<Rightarrow>
          if length body' > unat (wh_max_request_size h) then (Err WsMessageTooLarge, s)
          else (case send_and_flush ops body' s of
              (Inl e, s') \<Rightarrow> (Err (WsConnection e), s')
            | (Inr _, s') \<Rightarrow> (Ok (), s')))"

definition ClientSender_send_ping :: "'s ws_sender_ops \<Rightarrow> 's \<Rightarrow> (unit, WsError) result \<times> 's" where
  "ClientSender_send_ping ops s = (case send_ping ops s of
       (Inl e, s') \<Rightarrow> (Err (WsConnection e), s')
     | (Inr _, s') \<Rightarrow> (Ok (), s'))"

datatype Incoming = IncText string | IncBinary string | IncPong | IncClosed

text \<open>\<open>receive\<close> on what \<open>soketto\<close> received; \<open>utf8\<close> tells whether text is UTF-8.\<close>

definition ClientReceiver_receive ::
  "(string \<Rightarrow> bool) \<Rightarrow> 'd ws_halves \<Rightarrow> (Incoming, SokettoError) result \<Rightarrow> (ReceivedMessage, WsError) result" where
  "ClientReceiver_receive utf8 h received = (case received of
       Inl e \<Rightarrow> Err (WsConnection e)
     | Inr (IncText message) \<Rightarrow>
         if \<not> utf8 message then Err (WsConnection (SokOther ''utf-8''))
         else (case wh_message_encryption h of
             None \<Rightarrow> Ok (Text message)
           | Some enc \<Rightarrow> (case enc_decrypt enc message of
               None \<Rightarrow> Err (WsConnection (SokOther ''Decryption failed''))
             | Some s \<Rightarrow> Ok (Text s)))
     | Inr (IncBinary message) \<Rightarrow> Ok (Bytes message)
     | Inr IncPong \<Rightarrow> Ok Pong
     | Inr IncClosed \<Rightarrow> Err WsClosed)"

section \<open>Browsers (web.rs)\<close>

datatype WebError = WebSendError string | WebSenderDisconnected | WebJs string | WebWebSocket string | WebNotSupported

datatype WebMessage = WebText string | WebBytes string

definition web_send :: "(string \<Rightarrow> 's \<Rightarrow> (unit, string) result \<times> 's) \<Rightarrow> string \<Rightarrow> 's \<Rightarrow> (unit, WebError) result \<times> 's" where
  "web_send sink msg s = (case sink msg s of (Inl e, s') \<Rightarrow> (Err (WebWebSocket e), s') | (Inr _, s') \<Rightarrow> (Ok (), s'))"

definition web_receive :: "(WebMessage, string) result option \<Rightarrow> (ReceivedMessage, WebError) result" where
  "web_receive polled = (case polled of
       Some (Inr (WebBytes b)) \<Rightarrow> Ok (Bytes b)
     | Some (Inr (WebText t)) \<Rightarrow> Ok (Text t)
     | Some (Inl e) \<Rightarrow> Err (WebWebSocket e)
     | None \<Rightarrow> Err WebSenderDisconnected)"

section \<open>The builders of the WebSocket and the web client\<close>

record 'k WsClientBuilder =
  wcb_certificate_store :: "'k CertificateStore"
  wcb_max_request_size :: u32
  wcb_max_response_size :: u32
  wcb_request_timeout :: nat
  wcb_connection_timeout :: nat
  wcb_ping_config :: "PingConfig option"
  wcb_headers :: HeaderMap
  wcb_max_concurrent_requests :: nat
  wcb_max_buffer_capacity_per_subscription :: nat
  wcb_max_redirections :: nat
  wcb_id_kind :: IdKind
  wcb_tcp_no_delay :: bool
  wcb_message_encryption :: "MessageEncryption option"

definition WsClientBuilder_default :: "'k WsClientBuilder" where
  "WsClientBuilder_default = \<lparr>wcb_certificate_store = NativeStore, wcb_max_request_size = TEN_MB_SIZE_BYTES,
     wcb_max_response_size = TEN_MB_SIZE_BYTES, wcb_request_timeout = 60, wcb_connection_timeout = 10,
     wcb_ping_config = None, wcb_headers = [], wcb_max_concurrent_requests = 256,
     wcb_max_buffer_capacity_per_subscription = 1024, wcb_max_redirections = 5, wcb_id_kind = IdNumber,
     wcb_tcp_no_delay = True, wcb_message_encryption = None\<rparr>"

text \<open>\<open>build_with_transport\<close>: the options of the client behind the transport, then its background task.\<close>

definition ws_client_builder :: "'k WsClientBuilder \<Rightarrow> ClientBuilder outcome" where
  "ws_client_builder b =
     (case ClientBuilder_max_buffer (wcb_max_buffer_capacity_per_subscription b) ClientBuilder_default of
        Panicked \<Rightarrow> Panicked
      | Done c \<Rightarrow> Done (c\<lparr>cb_request_timeout := wcb_request_timeout b,
          cb_max_concurrent_requests := wcb_max_concurrent_requests b, cb_id_kind := wcb_id_kind b,
          cb_tcp_no_delay := wcb_tcp_no_delay b, cb_ping_config := wcb_ping_config b\<rparr>))"

definition ws_build_with_transport ::
  "nat \<Rightarrow> 'c \<Rightarrow> 'k WsClientBuilder \<Rightarrow> ('c background \<times> RequestIdManager) outcome" where
  "ws_build_with_transport now ch b = (case ws_client_builder b of
       Panicked \<Rightarrow> Panicked
     | Done c \<Rightarrow> build_with_tokio now ch c)"

definition ws_transport_builder :: "'k WsClientBuilder \<Rightarrow> 'k WsTransportClientBuilder" where
  "ws_transport_builder b = \<lparr>wb_certificate_store = wcb_certificate_store b,
     wb_connection_timeout = wcb_connection_timeout b, wb_headers = wcb_headers b,
     wb_max_request_size = wcb_max_request_size b, wb_max_response_size = wcb_max_response_size b,
     wb_max_redirections = wcb_max_redirections b, wb_tcp_no_delay = wcb_tcp_no_delay b,
     wb_message_encryption = wcb_message_encryption b\<rparr>"

text \<open>The texts of the errors of the handshake.\<close>

fun WsHandshakeError_to_string :: "WsHandshakeError \<Rightarrow> string" where
  "WsHandshakeError_to_string (HsCertificateStore e) = ''Failed to load system certs: '' @ e"
| "WsHandshakeError_to_string (HsUrl e) = ''Invalid URL: '' @ e"
| "WsHandshakeError_to_string (HsIo e) = ''Error when opening the TCP socket: '' @ e"
| "WsHandshakeError_to_string (HsTransport e) = e"
| "WsHandshakeError_to_string (HsRejected status) = ''Connection rejected with status code: '' @ nat_to_string status"
| "WsHandshakeError_to_string (HsRedirected status location) =
     ''Connection redirected with status code: '' @ nat_to_string status @ '' and location: '' @ location"
| "WsHandshakeError_to_string (HsTimeout t) = ''Connection timeout exceeded: '' @ nat_to_string t @ ''s''"
| "WsHandshakeError_to_string (HsResolutionFailed e) = ''Failed to resolve IP addresses for this hostname: '' @ e"
| "WsHandshakeError_to_string (HsNoAddressFound host) = ''No IP address found for this hostname: '' @ host"

text \<open>A client that is built: its open connection, its background task and its ids.\<close>

definition ws_client_start ::
  "nat \<Rightarrow> 'c \<Rightarrow> 'k WsClientBuilder \<Rightarrow> ('d ws_halves, WsHandshakeError) result \<Rightarrow>
     ('d ws_halves \<times> 'c background \<times> RequestIdManager, Error) result outcome"
where
  "ws_client_start now ch b connected = (case connected of
       Inl e \<Rightarrow> Done (Err (ETransport (WsHandshakeError_to_string e)))
     | Inr h \<Rightarrow> (case ws_build_with_transport now ch b of
         Panicked \<Rightarrow> Panicked
       | Done (bg, im) \<Rightarrow> Done (Ok (h, bg, im))))"

definition WsClientBuilder_build ::
  "('u, 'a, 'd, 'k, 'n) ws_net \<Rightarrow> nat \<Rightarrow> 'c \<Rightarrow> string \<Rightarrow> 'k WsClientBuilder \<Rightarrow> 'n \<Rightarrow>
     ('d ws_halves \<times> 'c background \<times> RequestIdManager, Error) result outcome \<times> 'n"
where
  "WsClientBuilder_build net now ch url b n = (case url_parse (wn_url net) url of
       Inl e \<Rightarrow> (Done (Err (ETransport (url_error_text (wn_url net) e))), n)
     | Inr uri \<Rightarrow> (case ws_transport_build net (ws_transport_builder b) uri n of
         (connected, n') \<Rightarrow> (ws_client_start now ch b connected, n')))"

definition WsClientBuilder_build_with_stream ::
  "('u, 'a, 'd, 'k, 'n) ws_net \<Rightarrow> nat \<Rightarrow> 'c \<Rightarrow> string \<Rightarrow> 'd EitherStream \<Rightarrow> 'k WsClientBuilder \<Rightarrow> 'n \<Rightarrow>
     ('d ws_halves \<times> 'c background \<times> RequestIdManager, Error) result outcome \<times> 'n"
where
  "WsClientBuilder_build_with_stream net now ch url stream b n = (case url_parse (wn_url net) url of
       Inl e \<Rightarrow> (Done (Err (ETransport (url_error_text (wn_url net) e))), n)
     | Inr uri \<Rightarrow> (case ws_transport_build_with_stream net (ws_transport_builder b) uri stream n of
         (connected, n') \<Rightarrow> (ws_client_start now ch b connected, n')))"

record WasmClientBuilder =
  wm_id_kind :: IdKind
  wm_max_concurrent_requests :: nat
  wm_max_buffer_capacity_per_subscription :: nat
  wm_request_timeout :: nat

definition WasmClientBuilder_default :: WasmClientBuilder where
  "WasmClientBuilder_default = \<lparr>wm_id_kind = IdNumber, wm_max_concurrent_requests = 256,
     wm_max_buffer_capacity_per_subscription = 1024, wm_request_timeout = 60\<rparr>"

text \<open>\<open>build_with_wasm\<close> has no timers: pings are never sent and inactivity is not checked.\<close>

definition build_with_wasm :: "'c \<Rightarrow> ClientBuilder \<Rightarrow> ('c background \<times> RequestIdManager) outcome" where
  "build_with_wasm ch b = (if cb_max_concurrent_requests b = 0 then Panicked
     else Done (bg_new ch Disabled, RequestIdManager_new (cb_id_kind b)))"

text \<open>\<open>opened\<close> is the result of \<open>web::connect\<close>.\<close>

definition WasmClientBuilder_build ::
  "(unit, string) result \<Rightarrow> 'c \<Rightarrow> WasmClientBuilder \<Rightarrow> ('c background \<times> RequestIdManager, Error) result outcome" where
  "WasmClientBuilder_build opened ch b = (case opened of
       Inl e \<Rightarrow> Done (Err (ETransport e))
     | Inr _ \<Rightarrow> (case ClientBuilder_max_buffer (wm_max_buffer_capacity_per_subscription b)
             (ClientBuilder_default\<lparr>cb_request_timeout := wm_request_timeout b, cb_id_kind := wm_id_kind b\<rparr>) of
         Panicked \<Rightarrow> Panicked
       | Done c \<Rightarrow> (case build_with_wasm ch (c\<lparr>cb_max_concurrent_requests := wm_max_concurrent_requests b\<rparr>) of
           Panicked \<Rightarrow> Panicked
         | Done r \<Rightarrow> Done (Ok r))))"

section \<open>Lemmas\<close>

text \<open>
  A chain of servers, each of which redirects to the next one, with an absolute URL that resolves to a
  single address or with a path on the same server, and the last of which accepts.
\<close>

definition redirect_to :: "('u, 'a, 'd, 'k, 'n) ws_net \<Rightarrow> Target \<Rightarrow> 'a \<Rightarrow> string \<Rightarrow> Target \<Rightarrow> 'a \<Rightarrow> bool" where
  "redirect_to net t a location t' a' \<longleftrightarrow> (case url_parse (wn_url net) location of
       Inr uri \<Rightarrow> wn_socket_addrs net uri = Inr [a'] \<and> Target_try_from (wn_url net) (wn_headers net) (wn_tls net) uri = Inr t'
     | Inl e \<Rightarrow> e = RelativeUrlWithoutBase \<and> a' = a \<and>
         (\<exists>path. relative_path (tg_path_and_query t) location = Some path \<and> t' = t\<lparr>tg_path_and_query := path\<rparr>))"

definition server_reached :: "('u, 'a, 'd, 'k, 'n) ws_net \<Rightarrow> 'k WsTransportClientBuilder \<Rightarrow> 'a \<Rightarrow> bool" where
  "server_reached net b a \<longleftrightarrow> (\<forall>n. \<exists>d n'. wn_tcp net a (wb_connection_timeout b) n = (Left (Inr d), n'))"

definition server_answers ::
  "('u, 'a, 'd, 'k, 'n) ws_net \<Rightarrow> 'k WsTransportClientBuilder \<Rightarrow> Target \<Rightarrow> ServerResponse \<Rightarrow> bool" where
  "server_answers net b t r \<longleftrightarrow> (\<forall>stream n. \<exists>n'. wn_handshake net stream (tg_host_header t) (tg_path_and_query t)
     (handshake_headers (wb_headers b) t) n = (Inr r, n'))"

fun redirect_chain ::
  "('u, 'a, 'd, 'k, 'n) ws_net \<Rightarrow> 'k WsTransportClientBuilder \<Rightarrow> (Target \<times> 'a) list \<Rightarrow> bool" where
  "redirect_chain net b [] = True"
| "redirect_chain net b [(t, a)] = (tg_mode t = Plain \<and> server_reached net b a \<and> server_answers net b t Accepted)"
| "redirect_chain net b ((t, a) # (t', a') # rest) = (tg_mode t = Plain \<and> server_reached net b a \<and>
     (\<exists>status location. server_answers net b t (Redirect status location) \<and> redirect_to net t a location t' a') \<and>
     redirect_chain net b ((t', a') # rest))"

lemma redirect_chain_mode: "redirect_chain net b ((t, a) # rest) \<Longrightarrow> tg_mode t = Plain \<and> server_reached net b a"
  by (cases rest) auto

lemma ws_connect_plain:
  assumes "server_reached net b a"
  obtains d n' where "ws_connect net a (wb_connection_timeout b) host None n = (Inr (PlainStream d), n')"
proof -
  from assms obtain d n' where "wn_tcp net a (wb_connection_timeout b) n = (Left (Inr d), n')"
    unfolding server_reached_def by blast
  then show ?thesis by (intro that [of d n']) (simp add: ws_connect_def)
qed

lemma try_connect_answer:
  assumes "server_answers net b t r"
  obtains n' where "try_connect net b t stream n = (case r of
      Accepted \<Rightarrow> Inr \<lparr>wh_stream = stream, wh_max_message_size = unat (wb_max_response_size b),
        wh_max_request_size = wb_max_request_size b, wh_message_encryption = wb_message_encryption b\<rparr>
    | Rejected s \<Rightarrow> Inl (HsRejected s)
    | Redirect s l \<Rightarrow> Inl (HsRedirected s l), n')"
proof -
  from assms obtain n' where "wn_handshake net stream (tg_host_header t) (tg_path_and_query t)
      (handshake_headers (wb_headers b) t) n = (Inr r, n')"
    unfolding server_answers_def by blast
  with that show ?thesis by (cases r) (auto simp: try_connect_def)
qed

lemma redirect_followed:
  assumes "redirect_to net t a location t' a'" "tg_mode t' = Plain" "rd_target st = t" "rd_connector st = None"
  shows "redirect net b [a] location (st\<lparr>rd_addrs := []\<rparr>) = RdContinue (st\<lparr>rd_addrs := [a'], rd_target := t', rd_connector := None\<rparr>) \<or>
    redirect net b [a] location (st\<lparr>rd_addrs := []\<rparr>) = RdBreak (st\<lparr>rd_addrs := [a'], rd_target := t', rd_connector := None\<rparr>)"
  using assms by (auto simp: redirect_to_def redirect_def next_connector_def split: sum.splits)

lemma redirect_loop_chain:
  assumes "redirect_chain net b hops" "hops = (t, a) # rest" "rd_target st = t" "rd_addrs st = [a]"
    "rd_connector st = None" "rd_err st = None"
  shows "if length hops \<le> k then \<exists>h. fst (redirect_loop net b k st n) = Inr h
    else fst (redirect_loop net b k st n) = Inl (HsNoAddressFound (tg_host (fst (hops ! k))))"
  using assms
proof (induction net b hops arbitrary: t a rest st k n rule: redirect_chain.induct)
  case (2 net b t0 a0)
  obtain d n1 where c: "ws_connect net a (wb_connection_timeout b) (tg_host t) None n = (Inr (PlainStream d), n1)"
    using ws_connect_plain 2 by (metis list.inject prod.inject redirect_chain.simps(2))
  have "server_answers net b t Accepted" using 2 by simp
  then obtain n2 where "try_connect net b t (PlainStream d) n1 = (Inr \<lparr>wh_stream = PlainStream d,
      wh_max_message_size = unat (wb_max_response_size b), wh_max_request_size = wb_max_request_size b,
      wh_message_encryption = wb_message_encryption b\<rparr>, n2)"
    by (rule try_connect_answer [where stream = "PlainStream d" and n = n1]) simp
  with c 2 show ?case by (cases k) auto
next
  case (3 net b t0 a0 t' a' rest')
  then have t: "t0 = t" "a0 = a" "rest = (t', a') # rest'" by simp_all
  from "3.prems"(1) t obtain status location where r: "server_answers net b t (Redirect status location)"
    "redirect_to net t a location t' a'" and reach: "server_reached net b a"
    and ch: "redirect_chain net b ((t', a') # rest')" by auto
  show ?case
  proof (cases k)
    case 0
    with 3 t show ?thesis by simp
  next
    case (Suc j)
    obtain d n1 where c: "ws_connect net a (wb_connection_timeout b) (tg_host t) None n = (Inr (PlainStream d), n1)"
      using ws_connect_plain [OF reach] .
    obtain n2 where h: "try_connect net b t (PlainStream d) n1 = (Inl (HsRedirected status location), n2)"
      using try_connect_answer [OF r(1), of "PlainStream d" n1] by auto
    have "tg_mode t' = Plain" using redirect_chain_mode [OF ch] by simp
    from redirect_followed [OF r(2) this "3.prems"(3,5), of b] c h "3.prems" have "redirect_loop net b (Suc j) st n =
        redirect_loop net b j (st\<lparr>rd_addrs := [a'], rd_target := t', rd_connector := None\<rparr>) n2"
      by auto
    moreover have "if length ((t', a') # rest') \<le> j
      then \<exists>h. fst (redirect_loop net b j (st\<lparr>rd_addrs := [a'], rd_target := t', rd_connector := None\<rparr>) n2) = Inr h
      else fst (redirect_loop net b j (st\<lparr>rd_addrs := [a'], rd_target := t', rd_connector := None\<rparr>) n2) =
        Inl (HsNoAddressFound (tg_host (fst (((t', a') # rest') ! j))))"
      using "3.IH" [OF ch refl, of "st\<lparr>rd_addrs := [a'], rd_target := t', rd_connector := None\<rparr>" j n2] "3.prems"(3-6) by simp
    ultimately show ?thesis using Suc t by simp
  qed
qed simp

text \<open>
  Surroundings in which connection attempts can be counted: only opening a TCP connection changes the
  count, and no name resolves to more than \<open>L\<close> addresses.
\<close>

locale counted_net =
  fixes net :: "('u, 'a, 'd, 'k, 'n) ws_net" and attempts :: "'n \<Rightarrow> nat" and L :: nat
  assumes tcp_attempt: "wn_tcp net a timeout n = (r, n') \<Longrightarrow> attempts n' = Suc (attempts n)"
    and tls_attempt: "wn_tls_connect net cfg host d n = (s, n') \<Longrightarrow> attempts n' = attempts n"
    and handshake_attempt: "wn_handshake net stream host path hs n = (q, n') \<Longrightarrow> attempts n' = attempts n"
    and few_addrs: "wn_socket_addrs net uri = Inr addrs \<Longrightarrow> length addrs \<le> L"
begin

lemma ws_connect_attempts: "ws_connect net a timeout host c n = (r, n') \<Longrightarrow> attempts n' = Suc (attempts n)"
  by (auto simp: ws_connect_def dest!: tcp_attempt tls_attempt
      split: prod.splits race.splits sum.splits option.splits)

lemma try_connect_attempts: "try_connect net b t stream n = (r, n') \<Longrightarrow> attempts n' = attempts n"
  by (auto simp: try_connect_def dest!: handshake_attempt split: prod.splits sum.splits ServerResponse.splits)

lemma redirect_addrs:
  "redirect net b sockaddrs location st = RdContinue st' \<Longrightarrow> length (rd_addrs st) \<le> L \<Longrightarrow> length (rd_addrs st') \<le> L"
  "redirect net b sockaddrs location st = RdBreak st' \<Longrightarrow> rd_addrs st' = sockaddrs"
  by (auto simp: redirect_def dest!: few_addrs split: sum.splits option.splits UrlParseError.splits)

lemma try_addrs_attempts:
  assumes "try_addrs net b sockaddrs as st n = (r, st', n')" "length sockaddrs \<le> L" "length (rd_addrs st) \<le> L"
  shows "attempts n' \<le> attempts n + length as \<and> length (rd_addrs st') \<le> L"
  using assms
proof (induction as arbitrary: st n)
  case (Cons a as)
  obtain x n1 where c: "ws_connect net a (wb_connection_timeout b) (tg_host (rd_target st)) (rd_connector st) n = (x, n1)"
    by fastforce
  note n1 = ws_connect_attempts [OF c]
  show ?case
  proof (cases x)
    case (Inl e)
    with c Cons.prems Cons.IH [of "st\<lparr>rd_err := Some e\<rparr>" n1] n1 show ?thesis by simp
  next
    case (Inr stream)
    obtain y n2 where h: "try_connect net b (rd_target st) stream n1 = (y, n2)" by fastforce
    note n2 = try_connect_attempts [OF h]
    show ?thesis
    proof (cases "\<exists>s l. y = Inl (HsRedirected s l)")
      case True
      then obtain s l where y: "y = Inl (HsRedirected s l)" by blast
      show ?thesis
        using c h Inr y Cons.prems Cons.IH [of _ n2] n1 n2 redirect_addrs [of b sockaddrs l st]
        by (cases "redirect net b sockaddrs l st") auto
    next
      case False
      with c h Inr Cons.prems Cons.IH [of _ n2] n1 n2 show ?thesis
        by (cases y) (auto split: WsHandshakeError.splits)
    qed
  qed
qed simp

lemma redirect_loop_attempts:
  "length (rd_addrs st) \<le> L \<Longrightarrow> attempts (snd (redirect_loop net b k st n)) \<le> attempts n + k * L"
proof (induction k arbitrary: st n)
  case (Suc k)
  obtain r st' n' where t: "try_addrs net b (rd_addrs st) (rd_addrs st) (st\<lparr>rd_addrs := []\<rparr>) n = (r, st', n')"
    by (metis prod_cases3)
  from try_addrs_attempts [OF t] Suc.prems have a: "attempts n' \<le> attempts n + L" "length (rd_addrs st') \<le> L" by auto
  with Suc.IH [OF a(2), of n'] t show ?case by (cases r) auto
qed simp

end

text \<open>A client and a server that share a cipher, or have none.\<close>

locale shared_cipher =
  fixes encryption :: "MessageEncryption option" and utf8 :: "string \<Rightarrow> bool"
  assumes inverse: "encryption = Some enc \<Longrightarrow> enc_encrypt enc m = Some x \<Longrightarrow> enc_decrypt enc x = Some m \<and> utf8 x"
begin

lemma client_to_server:
  assumes "wh_message_encryption h = encryption" "wsc_encryption cfg = encryption" "ClientSender_send cops h body s = (Inr (), s')"
  shows "\<exists>x. length x \<le> unat (wh_max_request_size h) \<and> send_and_flush cops x s = (Inr (), s') \<and>
    decrypt_data emit ops utf8 cfg sink x w = (Some body, w)"
proof (cases encryption)
  case (Some enc)
  with assms obtain x where x: "enc_encrypt enc body = Some x" "length x \<le> unat (wh_max_request_size h)"
    "send_and_flush cops x s = (Inr (), s')"
    by (auto simp: ClientSender_send_def split: if_splits option.splits sum.splits prod.splits)
  with Some assms(2) inverse [OF Some x(1)] show ?thesis by (intro exI [of _ x]) (simp add: decrypt_data_def)
next
  case None
  with assms show ?thesis by (auto simp: ClientSender_send_def decrypt_data_def split: if_splits sum.splits prod.splits)
qed

lemma server_to_client:
  assumes "wh_message_encryption h = encryption" "utf8 response" "\<forall>enc. encryption = Some enc \<longrightarrow> enc_encrypt enc response \<noteq> None"
  shows "\<exists>y. send_message emit sops encryption policy response q = send_and_flush sops y q \<and>
    ClientReceiver_receive utf8 h (Inr (IncText y)) = Inr (Text response)"
proof (cases encryption)
  case (Some enc)
  with assms(3) obtain y where y: "enc_encrypt enc response = Some y" by blast
  with Some assms(1) inverse [OF Some y] show ?thesis
    by (intro exI [of _ y]) (simp add: send_message_def ClientReceiver_receive_def)
qed (use assms in \<open>auto simp: send_message_def ClientReceiver_receive_def\<close>)

end

interpretation plain: shared_cipher None utf8 for utf8
  by unfold_locales simp

section \<open>Properties\<close>

text \<open>C18. Redirections: a client that meets a chain of servers, each redirecting to the next one or to another of its paths, is
  connected when the chain has at most \<open>max_redirections\<close> servers, that is, when there are fewer
  redirections than that number. Otherwise it reports that no address was found for the host at which
  it gave up, although every host had one.\<close>

theorem ws_redirects_followed:
  assumes "redirect_chain net b hops" and "hops = (t, a) # rest"
    and "Target_try_from (wn_url net) (wn_headers net) (wn_tls net) uri = Inr t" and "wn_socket_addrs net uri = Inr [a]"
  shows "if length hops \<le> wb_max_redirections b then \<exists>h. fst (try_connect_over_tcp net b uri n) = Inr h
    else fst (try_connect_over_tcp net b uri n) = Inl (HsNoAddressFound (tg_host (fst (hops ! wb_max_redirections b))))"
proof -
  have "tg_mode t = Plain" using redirect_chain_mode assms(1,2) by metis
  then show ?thesis
    using redirect_loop_chain [OF assms(1,2), of "\<lparr>rd_target = t, rd_err = None, rd_connector = None, rd_addrs = [a]\<rparr>"
        "wb_max_redirections b" n] assms(3,4)
    by (simp add: try_connect_over_tcp_def tls_connector_def)
qed

text \<open>Two servers, \<open>a\<close> and \<open>b\<close>; the first one redirects to the second. A URL is the name of its host.\<close>

definition example_net :: "(string, string, unit, unit, nat) ws_net" where
  "example_net = \<lparr>wn_url = example_url\<lparr>url_scheme := (\<lambda>_. ''ws''), url_host_str := Some, url_password := (\<lambda>_. None)\<rparr>,
     wn_headers = list_headers, wn_tls = False, wn_platform_verifier = None, wn_socket_addrs = (\<lambda>u. Inr [u]),
     wn_tcp = (\<lambda>_ _ n. (Left (Inr ()), Suc n)), wn_server_name = (\<lambda>_. Inr ()), wn_tls_connect = (\<lambda>_ _ d n. (Inr d, n)),
     wn_handshake = (\<lambda>_ host _ _ n. (Inr (if host = ''a'' then Redirect 301 ''b'' else Accepted), n))\<rparr>"

definition example_target :: "string \<Rightarrow> Target" where
  "example_target host = \<lparr>tg_host = host, tg_host_header = host, tg_mode = Plain, tg_path_and_query = ''/'', tg_basic_auth = None\<rparr>"

lemma example_target_from: "Target_try_from (wn_url example_net) (wn_headers example_net) (wn_tls example_net) u = Inr (example_target u)"
  by (simp add: Target_try_from_def target_mode_def example_net_def example_url_def example_target_def)

lemma example_chain: "redirect_chain example_net b [(example_target ''a'', ''a''), (example_target ''b'', ''b'')]"
proof -
  have "server_answers example_net b (example_target ''a'') (Redirect 301 ''b'')"
    "server_answers example_net b (example_target ''b'') Accepted" "server_reached example_net b h" for h
    by (simp_all add: server_answers_def server_reached_def example_net_def example_target_def)
  moreover have "url_parse (wn_url example_net) ''b'' = Inr ''b''" "wn_socket_addrs example_net ''b'' = Inr [''b'']"
    by (simp_all add: example_net_def example_url_def)
  then have "redirect_to example_net (example_target ''a'') ''a'' ''b'' (example_target ''b'') ''b''"
    using example_target_from [of "''b''"] by (simp add: redirect_to_def)
  moreover have "tg_mode (example_target h) = Plain" for h by (simp add: example_target_def)
  ultimately show ?thesis unfolding redirect_chain.simps by blast
qed

theorem ws_redirects_followed_witness:
  "(\<exists>h. fst (try_connect_over_tcp example_net WsTransportClientBuilder_default ''a'' 0) = Inr h) \<and>
   fst (try_connect_over_tcp example_net (WsTransportClientBuilder_default\<lparr>wb_max_redirections := 1\<rparr>) ''a'' 0) =
     Inl (HsNoAddressFound ''b'')"
proof -
  have "wn_socket_addrs example_net ''a'' = Inr [''a'']" by (simp add: example_net_def)
  note ex = ws_redirects_followed [OF example_chain refl example_target_from this]
  from ex [of WsTransportClientBuilder_default 0] ex [of "WsTransportClientBuilder_default\<lparr>wb_max_redirections := 1\<rparr>" 0]
  show ?thesis by (simp add: WsTransportClientBuilder_default_def example_target_def)
qed

text \<open>C19. Connecting ends after at most \<open>max_redirections\<close> rounds, whatever the servers answer: if no name
  has more than \<open>L\<close> addresses, at most \<open>max_redirections * L\<close> connections are opened.\<close>

theorem ws_connect_bounded:
  assumes "counted_net net attempts L"
  shows "attempts (snd (try_connect_over_tcp net b uri n)) \<le> attempts n + wb_max_redirections b * L"
  using counted_net.redirect_loop_attempts [OF assms] counted_net.few_addrs [OF assms, of uri]
  by (auto simp: try_connect_over_tcp_def split: sum.splits)

interpretation counted: counted_net example_net id 1
  by unfold_locales (auto simp: example_net_def)

theorem ws_connect_bounded_witness:
  "id (snd (try_connect_over_tcp example_net WsTransportClientBuilder_default ''a'' 0)) \<le> id 0 + 5 * 1"
  using ws_connect_bounded [OF counted.counted_net_axioms, of WsTransportClientBuilder_default "''a''" 0]
  by (simp add: WsTransportClientBuilder_default_def)

text \<open>C20. Messages between a client and a server that share a cipher: what the client's \<open>send\<close> puts on the
  wire is not longer than its limit and is what the server decrypts to the message, and what the
  server's sending task puts on the wire is received by the client as the response. Without a cipher
  the texts are the messages themselves.\<close>

theorem ws_wire_roundtrip:
  assumes "shared_cipher (wsc_encryption cfg) utf8" and "wh_message_encryption h = wsc_encryption cfg"
    and "utf8 response" and "ClientSender_send cops h body s = (Inr (), s')"
    and "\<forall>enc. wsc_encryption cfg = Some enc \<longrightarrow> enc_encrypt enc response \<noteq> None"
  shows "(\<exists>x. length x \<le> unat (wh_max_request_size h) \<and> send_and_flush cops x s = (Inr (), s') \<and>
      decrypt_data emit ops utf8 cfg sink x w = (Some body, w)) \<and>
    (\<exists>y. send_message emit sops (wsc_encryption cfg) policy response q = send_and_flush sops y q \<and>
      ClientReceiver_receive utf8 h (Inr (IncText y)) = Inr (Text response))"
  by (intro conjI shared_cipher.client_to_server [OF assms(1,2) refl assms(4)] shared_cipher.server_to_client [OF assms(1,2,3,5)])

definition example_cipher :: MessageEncryption where
  "example_cipher = \<lparr>enc_encrypt = (\<lambda>m. Some (rev m)), enc_decrypt = (\<lambda>x. Some (rev x))\<rparr>"

interpretation ciphered: shared_cipher "Some example_cipher" "\<lambda>_. True"
  by unfold_locales (auto simp: example_cipher_def)

theorem ws_wire_roundtrip_witness:
  "ClientReceiver_receive (\<lambda>_. True) \<lparr>wh_stream = PlainStream (), wh_max_message_size = 9, wh_max_request_size = 9,
      wh_message_encryption = Some example_cipher\<rparr> (Inr (IncText ''}{'')) = Inr (Text ''{}'')"
proof -
  let ?h = "\<lparr>wh_stream = PlainStream (), wh_max_message_size = 9, wh_max_request_size = 9, wh_message_encryption = Some example_cipher\<rparr>"
  let ?cfg = "\<lparr>wsc_batch_requests_config = BatchUnlimited, wsc_max_request_body_size = 9, wsc_policy = SendError,
      wsc_encryption = Some example_cipher\<rparr>"
  let ?ops = "\<lparr>wo_send_text = (\<lambda>x s. (Inr (), s @ [x])), wo_send_ping = (\<lambda>s. (Inr (), s)), wo_flush = (\<lambda>s. (Inr (), s)),
      wo_close = id\<rparr> :: string list ws_sender_ops"
  have c: "shared_cipher (wsc_encryption ?cfg) (\<lambda>_. True)" using ciphered.shared_cipher_axioms by simp
  have "wh_message_encryption ?h = wsc_encryption ?cfg" "\<forall>enc. wsc_encryption ?cfg = Some enc \<longrightarrow> enc_encrypt enc ''{}'' \<noteq> None"
    "ClientSender_send ?ops ?h ''[1]'' [] = (Inr (), ['']1['' ])"
    by (auto simp: example_cipher_def ClientSender_send_def send_and_flush_def)
  note ex = ws_wire_roundtrip [OF c this(1) TrueI this(3,2), where emit = json_emit and sops = ?ops and policy = SendError and q = "[]"
      and ops = null_ops and sink = "MethodSink_new_with_limit 0 1000" and w = example_server]
  then obtain y where y: "send_message json_emit ?ops (wsc_encryption ?cfg) SendError ''{}'' [] = send_and_flush ?ops y []"
    "ClientReceiver_receive (\<lambda>_. True) ?h (Inr (IncText y)) = Inr (Text ''{}'')" by blast
  from y(1) have "y = ''}{''" by (simp add: send_message_def send_and_flush_def example_cipher_def)
  with y(2) show ?thesis by simp
qed

text \<open>
  A redirection to another host does not leave the loop over the addresses of the old one: the next
  of them is contacted under the new target, and may be the one the client ends up with.
\<close>

lemma redirect_contacts_old_address:
  assumes "rd_connector st = None" "server_reached net b a1" "server_reached net b a2"
    and "server_answers net b (rd_target st) (Redirect status location)" and "server_answers net b t' Accepted"
    and "url_parse (wn_url net) location = Inr uri" "wn_socket_addrs net uri = Inr addrs"
    and "Target_try_from (wn_url net) (wn_headers net) (wn_tls net) uri = Inr t'" "tg_mode t' = Plain"
  shows "\<exists>d n' n'' st' n3 m. wn_tcp net a2 (wb_connection_timeout b) n' = (Left (Inr d), n'') \<and>
    try_addrs net b [a1, a2] [a1, a2] st n = (Some (Inr \<lparr>wh_stream = PlainStream d, wh_max_message_size = m,
      wh_max_request_size = wb_max_request_size b, wh_message_encryption = wb_message_encryption b\<rparr>), st', n3)"
proof -
  obtain d1 n1 where c1: "ws_connect net a1 (wb_connection_timeout b) (tg_host (rd_target st)) None n = (Inr (PlainStream d1), n1)"
    using ws_connect_plain [OF assms(2)] .
  obtain n2 where h1: "try_connect net b (rd_target st) (PlainStream d1) n1 = (Inl (HsRedirected status location), n2)"
    using try_connect_answer [OF assms(4), of "PlainStream d1" n1] by auto
  from assms(3) obtain d n'' where t2: "wn_tcp net a2 (wb_connection_timeout b) n2 = (Left (Inr d), n'')"
    unfolding server_reached_def by blast
  obtain n3 where h2: "try_connect net b t' (PlainStream d) n'' = (Inr \<lparr>wh_stream = PlainStream d,
      wh_max_message_size = unat (wb_max_response_size b), wh_max_request_size = wb_max_request_size b,
      wh_message_encryption = wb_message_encryption b\<rparr>, n3)"
    using try_connect_answer [OF assms(5), of "PlainStream d" n''] by auto
  from c1 h1 t2 h2 assms(1,6-9) show ?thesis
    by (simp add: redirect_def next_connector_def ws_connect_def) blast
qed

text \<open>A relative location replaces what follows the last slash, also when that slash is part of the query.\<close>

lemma relative_path_in_query: "relative_path ''/chat?next=/home'' ''v2'' = Some ''/chat?next=/v2''"
  by (simp add: relative_path_def)

lemma rfind_None: "rfind c s = None \<longleftrightarrow> c \<notin> set s"
  by (induction c s rule: rfind.induct) (auto split: option.splits)

lemma rfind_split: "rfind c s = Some i \<Longrightarrow> i < length s \<and> s ! i = c \<and> c \<notin> set (drop (Suc i) s)"
  by (induction c s arbitrary: i rule: rfind.induct) (auto simp: rfind_None split: option.splits if_splits)

text \<open>The path of a redirected target is absolute if the one before was.\<close>

lemma relative_path_absolute:
  assumes "path \<noteq> []" "hd path = CHR ''/''"
  shows "\<exists>p. relative_path path location = Some p \<and> p \<noteq> [] \<and> hd p = CHR ''/''"
proof -
  from assms have "CHR ''/'' \<in> set path" by (cases path) auto
  then have "rfind (CHR ''/'') path \<noteq> None" by (simp add: rfind_None)
  then obtain i where "rfind (CHR ''/'') path = Some i" by blast
  with assms show ?thesis
    by (cases path) (auto simp: relative_path_def simp del: rfind.simps)
qed

text \<open>The timer of \<open>connection_timeout\<close> runs only while the socket is opened, not during the handshakes.\<close>

lemma timeout_covers_tcp_only:
  "fst (ws_connect net a timeout host c n) = Inl (HsTimeout t) \<Longrightarrow> fst (wn_tcp net a timeout n) = Right"
  "fst (try_connect net b target stream n) \<noteq> Inl (HsTimeout t)"
  by (auto simp: ws_connect_def try_connect_def split: prod.splits race.splits sum.splits option.splits ServerResponse.splits)

end
