(* ===== verification/Client_Api.thy ===== *)
theory Client_Api
  imports Client_Transport
begin

text \<open>
  The operations a user of a client calls: \<open>Client\<close> of \<open>core/src/client/async_client/mod.rs\<close> with the traits
  \<open>ClientT\<close> and \<open>SubscriptionClientT\<close>, the values they return (\<open>core/src/client/mod.rs\<close>) and the setters of the
  builders of all clients. An operation has two parts: it queues a message for the background task,
  and it finishes when the background task has answered, the timer has fired or the connection is gone.
\<close>

section \<open>Builder options\<close>

definition PingConfig_ping_interval :: "nat \<Rightarrow> PingConfig \<Rightarrow> PingConfig" where
  "PingConfig_ping_interval d p = p\<lparr>pc_ping_interval := d\<rparr>"

definition PingConfig_inactive_limit :: "nat \<Rightarrow> PingConfig \<Rightarrow> PingConfig" where
  "PingConfig_inactive_limit d p = p\<lparr>pc_inactive_limit := d\<rparr>"

definition ClientBuilder_request_timeout :: "nat \<Rightarrow> ClientBuilder \<Rightarrow> ClientBuilder" where
  "ClientBuilder_request_timeout t b = b\<lparr>cb_request_timeout := t\<rparr>"

definition ClientBuilder_max_concurrent_requests :: "nat \<Rightarrow> ClientBuilder \<Rightarrow> ClientBuilder" where
  "ClientBuilder_max_concurrent_requests n b = b\<lparr>cb_max_concurrent_requests := n\<rparr>"

definition ClientBuilder_id_format :: "IdKind \<Rightarrow> ClientBuilder \<Rightarrow> ClientBuilder" where
  "ClientBuilder_id_format k b = b\<lparr>cb_id_kind := k\<rparr>"

definition ClientBuilder_enable_ws_ping :: "PingConfig \<Rightarrow> ClientBuilder \<Rightarrow> ClientBuilder" where
  "ClientBuilder_enable_ws_ping cfg b = b\<lparr>cb_ping_config := Some cfg\<rparr>"

definition ClientBuilder_disable_ws_ping :: "ClientBuilder \<Rightarrow> ClientBuilder" where
  "ClientBuilder_disable_ws_ping b = b\<lparr>cb_ping_config := None\<rparr>"

definition ClientBuilder_set_tcp_no_delay :: "bool \<Rightarrow> ClientBuilder \<Rightarrow> ClientBuilder" where
  "ClientBuilder_set_tcp_no_delay no_delay b = b\<lparr>cb_tcp_no_delay := no_delay\<rparr>"

text \<open>\<open>ws-client/src/lib.rs\<close>.\<close>

definition WsClientBuilder_with_custom_cert_store :: "'k \<Rightarrow> 'k WsClientBuilder \<Rightarrow> 'k WsClientBuilder" where
  "WsClientBuilder_with_custom_cert_store cfg b = b\<lparr>wcb_certificate_store := CustomStore cfg\<rparr>"

definition WsClientBuilder_max_request_size :: "u32 \<Rightarrow> 'k WsClientBuilder \<Rightarrow> 'k WsClientBuilder" where
  "WsClientBuilder_max_request_size n b = b\<lparr>wcb_max_request_size := n\<rparr>"

definition WsClientBuilder_max_response_size :: "u32 \<Rightarrow> 'k WsClientBuilder \<Rightarrow> 'k WsClientBuilder" where
  "WsClientBuilder_max_response_size n b = b\<lparr>wcb_max_response_size := n\<rparr>"

definition WsClientBuilder_request_timeout :: "nat \<Rightarrow> 'k WsClientBuilder \<Rightarrow> 'k WsClientBuilder" where
  "WsClientBuilder_request_timeout t b = b\<lparr>wcb_request_timeout := t\<rparr>"

definition WsClientBuilder_connection_timeout :: "nat \<Rightarrow> 'k WsClientBuilder \<Rightarrow> 'k WsClientBuilder" where
  "WsClientBuilder_connection_timeout t b = b\<lparr>wcb_connection_timeout := t\<rparr>"

definition WsClientBuilder_enable_ws_ping :: "PingConfig \<Rightarrow> 'k WsClientBuilder \<Rightarrow> 'k WsClientBuilder" where
  "WsClientBuilder_enable_ws_ping cfg b = b\<lparr>wcb_ping_config := Some cfg\<rparr>"

definition WsClientBuilder_disable_ws_ping :: "'k WsClientBuilder \<Rightarrow> 'k WsClientBuilder" where
  "WsClientBuilder_disable_ws_ping b = b\<lparr>wcb_ping_config := None\<rparr>"

definition WsClientBuilder_set_headers :: "HeaderMap \<Rightarrow> 'k WsClientBuilder \<Rightarrow> 'k WsClientBuilder" where
  "WsClientBuilder_set_headers h b = b\<lparr>wcb_headers := h\<rparr>"

definition WsClientBuilder_max_concurrent_requests :: "nat \<Rightarrow> 'k WsClientBuilder \<Rightarrow> 'k WsClientBuilder" where
  "WsClientBuilder_max_concurrent_requests n b = b\<lparr>wcb_max_concurrent_requests := n\<rparr>"

definition WsClientBuilder_max_buffer_capacity_per_subscription :: "nat \<Rightarrow> 'k WsClientBuilder \<Rightarrow> 'k WsClientBuilder" where
  "WsClientBuilder_max_buffer_capacity_per_subscription n b = b\<lparr>wcb_max_buffer_capacity_per_subscription := n\<rparr>"

definition WsClientBuilder_max_redirections :: "nat \<Rightarrow> 'k WsClientBuilder \<Rightarrow> 'k WsClientBuilder" where
  "WsClientBuilder_max_redirections n b = b\<lparr>wcb_max_redirections := n\<rparr>"

definition WsClientBuilder_id_format :: "IdKind \<Rightarrow> 'k WsClientBuilder \<Rightarrow> 'k WsClientBuilder" where
  "WsClientBuilder_id_format k b = b\<lparr>wcb_id_kind := k\<rparr>"

definition WsClientBuilder_set_tcp_no_delay :: "bool \<Rightarrow> 'k WsClientBuilder \<Rightarrow> 'k WsClientBuilder" where
  "WsClientBuilder_set_tcp_no_delay no_delay b = b\<lparr>wcb_tcp_no_delay := no_delay\<rparr>"

definition WsClientBuilder_set_message_encryption :: "MessageEncryption \<Rightarrow> 'k WsClientBuilder \<Rightarrow> 'k WsClientBuilder" where
  "WsClientBuilder_set_message_encryption enc b = b\<lparr>wcb_message_encryption := Some enc\<rparr>"

text \<open>\<open>client/transport/src/ws/mod.rs\<close>.\<close>

definition WsTransportClientBuilder_with_custom_cert_store :: "'k \<Rightarrow> 'k WsTransportClientBuilder \<Rightarrow> 'k WsTransportClientBuilder" where
  "WsTransportClientBuilder_with_custom_cert_store cfg b = b\<lparr>wb_certificate_store := CustomStore cfg\<rparr>"

definition WsTransportClientBuilder_max_request_size :: "u32 \<Rightarrow> 'k WsTransportClientBuilder \<Rightarrow> 'k WsTransportClientBuilder" where
  "WsTransportClientBuilder_max_request_size n b = b\<lparr>wb_max_request_size := n\<rparr>"

definition WsTransportClientBuilder_max_response_size :: "u32 \<Rightarrow> 'k WsTransportClientBuilder \<Rightarrow> 'k WsTransportClientBuilder" where
  "WsTransportClientBuilder_max_response_size n b = b\<lparr>wb_max_response_size := n\<rparr>"

definition WsTransportClientBuilder_connection_timeout :: "nat \<Rightarrow> 'k WsTransportClientBuilder \<Rightarrow> 'k WsTransportClientBuilder" where
  "WsTransportClientBuilder_connection_timeout t b = b\<lparr>wb_connection_timeout := t\<rparr>"

definition WsTransportClientBuilder_set_headers :: "HeaderMap \<Rightarrow> 'k WsTransportClientBuilder \<Rightarrow> 'k WsTransportClientBuilder" where
  "WsTransportClientBuilder_set_headers h b = b\<lparr>wb_headers := h\<rparr>"

definition WsTransportClientBuilder_max_redirections :: "nat \<Rightarrow> 'k WsTransportClientBuilder \<Rightarrow> 'k WsTransportClientBuilder" where
  "WsTransportClientBuilder_max_redirections n b = b\<lparr>wb_max_redirections := n\<rparr>"

definition WsTransportClientBuilder_set_message_encryption :: "MessageEncryption \<Rightarrow> 'k WsTransportClientBuilder \<Rightarrow> 'k WsTransportClientBuilder" where
  "WsTransportClientBuilder_set_message_encryption enc b = b\<lparr>wb_message_encryption := Some enc\<rparr>"

text \<open>\<open>wasm-client/src/lib.rs\<close>.\<close>

definition WasmClientBuilder_request_timeout :: "nat \<Rightarrow> WasmClientBuilder \<Rightarrow> WasmClientBuilder" where
  "WasmClientBuilder_request_timeout t b = b\<lparr>wm_request_timeout := t\<rparr>"

definition WasmClientBuilder_max_concurrent_requests :: "nat \<Rightarrow> WasmClientBuilder \<Rightarrow> WasmClientBuilder" where
  "WasmClientBuilder_max_concurrent_requests n b = b\<lparr>wm_max_concurrent_requests := n\<rparr>"

definition WasmClientBuilder_max_buffer_capacity_per_subscription :: "nat \<Rightarrow> WasmClientBuilder \<Rightarrow> WasmClientBuilder" where
  "WasmClientBuilder_max_buffer_capacity_per_subscription n b = b\<lparr>wm_max_buffer_capacity_per_subscription := n\<rparr>"

definition WasmClientBuilder_id_format :: "IdKind \<Rightarrow> WasmClientBuilder \<Rightarrow> WasmClientBuilder" where
  "WasmClientBuilder_id_format k b = b\<lparr>wm_id_kind := k\<rparr>"

text \<open>\<open>http-client/src/client.rs\<close> and \<open>transport.rs\<close>.\<close>

definition HttpClientBuilder_max_request_size :: "u32 \<Rightarrow> HttpClientBuilder \<Rightarrow> HttpClientBuilder" where
  "HttpClientBuilder_max_request_size n b = b\<lparr>hb_max_request_size := n\<rparr>"

definition HttpClientBuilder_max_response_size :: "u32 \<Rightarrow> HttpClientBuilder \<Rightarrow> HttpClientBuilder" where
  "HttpClientBuilder_max_response_size n b = b\<lparr>hb_max_response_size := n\<rparr>"

definition HttpClientBuilder_request_timeout :: "nat \<Rightarrow> HttpClientBuilder \<Rightarrow> HttpClientBuilder" where
  "HttpClientBuilder_request_timeout t b = b\<lparr>hb_request_timeout := t\<rparr>"

definition HttpClientBuilder_max_concurrent_requests :: "nat \<Rightarrow> HttpClientBuilder \<Rightarrow> HttpClientBuilder" where
  "HttpClientBuilder_max_concurrent_requests n b = b\<lparr>hb_max_concurrent_requests := Some n\<rparr>"

definition HttpClientBuilder_id_format :: "IdKind \<Rightarrow> HttpClientBuilder \<Rightarrow> HttpClientBuilder" where
  "HttpClientBuilder_id_format k b = b\<lparr>hb_id_kind := k\<rparr>"

definition HttpClientBuilder_set_headers :: "HeaderMap \<Rightarrow> HttpClientBuilder \<Rightarrow> HttpClientBuilder" where
  "HttpClientBuilder_set_headers h b = b\<lparr>hb_headers := h\<rparr>"

definition HttpClientBuilder_set_tcp_no_delay :: "bool \<Rightarrow> HttpClientBuilder \<Rightarrow> HttpClientBuilder" where
  "HttpClientBuilder_set_tcp_no_delay no_delay b = b\<lparr>hb_tcp_no_delay := no_delay\<rparr>"

definition HttpTransportClientBuilder_max_request_size :: "u32 \<Rightarrow> HttpTransportClientBuilder \<Rightarrow> HttpTransportClientBuilder" where
  "HttpTransportClientBuilder_max_request_size n b = b\<lparr>tb_max_request_size := n\<rparr>"

definition HttpTransportClientBuilder_max_response_size :: "u32 \<Rightarrow> HttpTransportClientBuilder \<Rightarrow> HttpTransportClientBuilder" where
  "HttpTransportClientBuilder_max_response_size n b = b\<lparr>tb_max_response_size := n\<rparr>"

definition HttpTransportClientBuilder_set_headers :: "HeaderMap \<Rightarrow> HttpTransportClientBuilder \<Rightarrow> HttpTransportClientBuilder" where
  "HttpTransportClientBuilder_set_headers h b = b\<lparr>tb_headers := h\<rparr>"

definition HttpTransportClientBuilder_set_tcp_no_delay :: "bool \<Rightarrow> HttpTransportClientBuilder \<Rightarrow> HttpTransportClientBuilder" where
  "HttpTransportClientBuilder_set_tcp_no_delay no_delay b = b\<lparr>tb_tcp_no_delay := no_delay\<rparr>"

section \<open>The operations of a client\<close>

text \<open>\<open>cli_disconnect_reason\<close> is the reason that \<open>wait_for_shutdown\<close> stored; \<open>cli_on_exit\<close> tells whether the sender
  that announces the drop of the client is still there.\<close>

record 'c Client =
  cli_background :: "'c background"
  cli_id_manager :: RequestIdManager
  cli_request_timeout :: nat
  cli_disconnect_reason :: "Error option"
  cli_on_exit :: bool

text \<open>\<open>Client\<close> as \<open>build_with_tokio\<close> and \<open>build_with_wasm\<close> return it.\<close>

definition Client_new :: "ClientBuilder \<Rightarrow> 'c background \<times> RequestIdManager \<Rightarrow> 'c Client" where
  "Client_new b started = \<lparr>cli_background = fst started, cli_id_manager = snd started,
     cli_request_timeout = cb_request_timeout b, cli_disconnect_reason = None, cli_on_exit = True\<rparr>"

definition is_connected :: "'c Client \<Rightarrow> bool" where
  "is_connected c = (\<not> bg_send_done (cli_background c))"

definition on_disconnect :: "'c Client \<Rightarrow> Error" where
  "on_disconnect c = read_error (cli_disconnect_reason c)"

definition Client_drop :: "'c Client \<Rightarrow> bool \<times> 'c Client" where
  "Client_drop c = (cli_on_exit c, c\<lparr>cli_on_exit := False\<rparr>)"

text \<open>\<open>to_back.send\<close>: the receiver is dropped when the send task ends.\<close>

definition to_back_send :: "FrontToBack \<Rightarrow> 'c Client \<Rightarrow> (unit, Error) result \<times> 'c Client" where
  "to_back_send msg c = (let b = cli_background c in
     if bg_send_done b then (Err EServiceDisconnect, c)
     else (Ok (), c\<lparr>cli_background := b\<lparr>bg_queue := bg_queue b @ [msg]\<rparr>\<rparr>))"

definition take_id :: "'c Client \<Rightarrow> Id \<times> 'c Client" where
  "take_id c = (let (i, im) = next_request_id (cli_id_manager c) in (i, c\<lparr>cli_id_manager := im\<rparr>))"

definition notification_message :: "emitter \<Rightarrow> string option Notification \<Rightarrow> FrontToBack option" where
  "notification_message emit n = map_option FNotification (to_raw_value emit (Notification_serialize (\<lambda>p. case p of
       None \<Rightarrow> SNull | Some raw \<Rightarrow> SRaw raw) n))"

text \<open>The service queues a message, unless it could not be serialized; \<open>late\<close> says that the timer fired while the queue was full.\<close>

definition queue_message ::
  "bool \<Rightarrow> FrontToBack option \<Rightarrow> 'c Client \<Rightarrow> (unit, Error) result \<times> 'c Client" where
  "queue_message late msg c = (case msg of
       None \<Rightarrow> (Err (EParseError ''serialize''), c)
     | Some m \<Rightarrow> if late then (run_future_until_timeout (cli_disconnect_reason c) Right, c)
         else (let (r, c') = to_back_send m c in (run_future_until_timeout (cli_disconnect_reason c) (Left r), c')))"

definition Client_notification ::
  "emitter \<Rightarrow> bool \<Rightarrow> string \<Rightarrow> (string option, string) result \<Rightarrow> 'c Client \<Rightarrow> (unit, Error) result \<times> 'c Client" where
  "Client_notification emit late meth params c = (let (_, c1) = take_id c in case params of
       Inl e \<Rightarrow> (Err (EParseError e), c1)
     | Inr ps \<Rightarrow> queue_message late (notification_message emit (Notification_new meth ps)) c1)"

text \<open>\<open>request\<close>: the request that is waited for, with the oneshot \<open>tx\<close> for its answer; then what it returns.\<close>

definition Client_request_start ::
  "emitter \<Rightarrow> bool \<Rightarrow> oneshot \<Rightarrow> string \<Rightarrow> (string option, string) result \<Rightarrow> 'c Client \<Rightarrow> (Request, Error) result \<times> 'c Client" where
  "Client_request_start emit late tx meth params c = (let (i, c1) = take_id c in case params of
       Inl e \<Rightarrow> (Err (EParseError e), c1)
     | Inr ps \<Rightarrow> (let req = Request_borrowed meth ps i in
         case queue_message late (call_message emit None tx req) c1 of
           (Inl e, c2) \<Rightarrow> (Err e, c2)
         | (Inr _, c2) \<Rightarrow> (Ok req, c2)))"

definition map_race :: "('a \<Rightarrow> 'b) \<Rightarrow> 'a race \<Rightarrow> 'b race" where
  "map_race f r = (case r of Left a \<Rightarrow> Left (f a) | Right \<Rightarrow> Right)"

definition Client_request_finish ::
  "(string \<Rightarrow> ('r, string) result) \<Rightarrow> Request \<Rightarrow> (RawResponse, InvalidRequestId) result option race \<Rightarrow> 'c Client \<Rightarrow> ('r, Error) result" where
  "Client_request_finish de req first c =
     request_result de (run_future_until_timeout (cli_disconnect_reason c) (map_race (call_finish req) first))"

definition Client_batch_start ::
  "emitter \<Rightarrow> bool \<Rightarrow> oneshot \<Rightarrow> BatchRequestBuilder \<Rightarrow> 'c Client \<Rightarrow> (range, Error) result outcome \<times> 'c Client" where
  "Client_batch_start emit late tx batch c = (case batch_prepare batch (cli_id_manager c) of
       (Inl e, im) \<Rightarrow> (Done (Err e), c\<lparr>cli_id_manager := im\<rparr>)
     | (Inr (reqs, ids), im) \<Rightarrow> (let c1 = c\<lparr>cli_id_manager := im\<rparr> in
         case batch_message emit (Some ids) tx reqs of
           Panicked \<Rightarrow> (Panicked, c1)
         | Done msg \<Rightarrow> (case queue_message late msg c1 of
             (Inl e, c2) \<Rightarrow> (Done (Err e), c2)
           | (Inr _, c2) \<Rightarrow> (Done (Ok ids), c2))))"

definition batch_finish :: "(RawResponse list, InvalidRequestId) result option \<Rightarrow> (RawResponse list, Error) result" where
  "batch_finish answer = (case answer of
       None \<Rightarrow> Err EServiceDisconnect
     | Some (Inl e) \<Rightarrow> Err (EInvalidRequestId e)
     | Some (Inr rps) \<Rightarrow> Ok rps)"

definition Client_batch_finish ::
  "(string \<Rightarrow> ('r, string) result) \<Rightarrow> (RawResponse list, InvalidRequestId) result option race \<Rightarrow> 'c Client \<Rightarrow>
     ('r BatchResponse, Error) result" where
  "Client_batch_finish de first c =
     batch_result de (run_future_until_timeout (cli_disconnect_reason c) (map_race batch_finish first))"

definition Client_subscribe_start ::
  "emitter \<Rightarrow> bool \<Rightarrow> oneshot \<Rightarrow> string \<Rightarrow> (string option, string) result \<Rightarrow> string \<Rightarrow> 'c Client \<Rightarrow> (Request, Error) result \<times> 'c Client" where
  "Client_subscribe_start emit late tx subscribe_method params unsubscribe_method c =
     (case subscribe_prepare subscribe_method (case params of Inr ps \<Rightarrow> ps | Inl _ \<Rightarrow> None) unsubscribe_method (cli_id_manager c) of
       (Inl e, im) \<Rightarrow> (Err e, c\<lparr>cli_id_manager := im\<rparr>)
     | (Inr (req, sub), im) \<Rightarrow> (let c1 = c\<lparr>cli_id_manager := im\<rparr> in case params of
         Inl e \<Rightarrow> (Err (EParseError e), c1)
       | Inr _ \<Rightarrow> (case queue_message late (call_message emit (Some sub) tx req) c1 of
           (Inl e, c2) \<Rightarrow> (Err e, c2)
         | (Inr _, c2) \<Rightarrow> (Ok req, c2))))"

text \<open>A service that answers without a subscription, as a middleware might, makes the client panic.\<close>

definition Client_subscribe_finish ::
  "emitter \<Rightarrow> Request \<Rightarrow> (sink \<times> SubscriptionId, Error) result option race \<Rightarrow> 'c Client \<Rightarrow> (ClientSubscription, Error) result outcome" where
  "Client_subscribe_finish emit req first c =
     (case run_future_until_timeout (cli_disconnect_reason c) (map_race (call_finish_subscription emit req) first) of
       Inl e \<Rightarrow> Done (Err e)
     | Inr m \<Rightarrow> (case mm_subscription m of
         None \<Rightarrow> Panicked
       | Some (rx, sub_id) \<Rightarrow> Done (Ok (ClientSubscription_new rx (KSubscription sub_id)))))"

definition Client_subscribe_to_method_start :: "oneshot \<Rightarrow> string \<Rightarrow> 'c Client \<Rightarrow> (unit, Error) result \<times> 'c Client" where
  "Client_subscribe_to_method_start tx meth c =
     (case to_back_send (FRegisterNotification \<lparr>rn_method = meth, rn_send_back = tx\<rparr>) c of
       (Inl _, c1) \<Rightarrow> (Err (on_disconnect c1), c1)
     | (Inr _, c1) \<Rightarrow> (Ok (), c1))"

definition Client_subscribe_to_method_finish ::
  "((sink \<times> string, Error) result, unit) result race \<Rightarrow> 'c Client \<Rightarrow> (ClientSubscription, Error) result" where
  "Client_subscribe_to_method_finish first c = (case call_with_timeout first of
       Inr (Inr (rx, meth)) \<Rightarrow> Ok (ClientSubscription_new rx (KMethod meth))
     | Inr (Inl e) \<Rightarrow> Err e
     | Inl _ \<Rightarrow> Err (on_disconnect c))"

section \<open>What the operations return (client/mod.rs)\<close>

definition ClientSubscription_kind :: "ClientSubscription \<Rightarrow> SubscriptionKind outcome" where
  "ClientSubscription_kind s = (case sub_kind s of None \<Rightarrow> Panicked | Some k \<Rightarrow> Done k)"

definition BatchResponse_new :: "nat \<Rightarrow> ('r, ErrorObject) result list \<Rightarrow> nat \<Rightarrow> 'r BatchResponse" where
  "BatchResponse_new successful_calls responses failed_calls =
     \<lparr>br_successful_calls = successful_calls, br_failed_calls = failed_calls, br_responses = responses\<rparr>"

definition BatchResponse_len :: "'r BatchResponse \<Rightarrow> nat" where
  "BatchResponse_len b = length (br_responses b)"

definition BatchResponse_is_empty :: "'r BatchResponse \<Rightarrow> bool" where
  "BatchResponse_is_empty b = (length (br_responses b) = 0)"

definition BatchResponse_ok :: "'r BatchResponse \<Rightarrow> ('r list, ErrorObject list) result" where
  "BatchResponse_ok b =
     (if br_failed_calls b > 0
      then Err (List.map_filter (\<lambda>r. case r of Inl e \<Rightarrow> Some e | Inr _ \<Rightarrow> None) (br_responses b))
      else Ok (List.map_filter (\<lambda>r. case r of Inr v \<Rightarrow> Some v | Inl _ \<Rightarrow> None) (br_responses b)))"

definition BatchResponse_into_iter :: "'r BatchResponse \<Rightarrow> ('r, ErrorObject) result list" where
  "BatchResponse_into_iter b = br_responses b"

definition RawResponse_is_success :: "RawResponse \<Rightarrow> bool" where
  "RawResponse_is_success r = (case rp_payload r of Success _ \<Rightarrow> True | RpError _ \<Rightarrow> False)"

definition RawResponse_as_error :: "RawResponse \<Rightarrow> ErrorObject option" where
  "RawResponse_as_error r = (case rp_payload r of RpError e \<Rightarrow> Some e | Success _ \<Rightarrow> None)"

definition RawResponse_as_success :: "RawResponse \<Rightarrow> string option" where
  "RawResponse_as_success r = (case rp_payload r of Success v \<Rightarrow> Some v | RpError _ \<Rightarrow> None)"

text \<open>\<open>Serialize\<close> and \<open>ToJson\<close>: a raw value is written as it is.\<close>

definition RawResponse_to_json :: "emitter \<Rightarrow> RawResponse \<Rightarrow> string option" where
  "RawResponse_to_json emit r = to_raw_value emit (Response_serialize SRaw r)"

definition MiddlewareMethodResponse_response :: "RawResponse \<Rightarrow> MiddlewareMethodResponse" where
  "MiddlewareMethodResponse_response rp = \<lparr>mm_rp = rp, mm_subscription = None\<rparr>"

definition MiddlewareMethodResponse_subscription_response ::
  "RawResponse \<Rightarrow> sink \<times> SubscriptionId \<Rightarrow> MiddlewareMethodResponse" where
  "MiddlewareMethodResponse_subscription_response rp sub = \<lparr>mm_rp = rp, mm_subscription = Some sub\<rparr>"

definition MiddlewareMethodResponse_into_parts :: "MiddlewareMethodResponse \<Rightarrow> RawResponse \<times> (sink \<times> SubscriptionId) option" where
  "MiddlewareMethodResponse_into_parts m = (mm_rp m, mm_subscription m)"

text \<open>\<open>ToJson\<close> of the results that the logging layer prints: the value, or the text of the error.\<close>

definition result_to_json :: "emitter \<Rightarrow> (ErrorObject \<Rightarrow> string) \<Rightarrow> ('t \<Rightarrow> ser) \<Rightarrow> ('t, Error) result \<Rightarrow> string option" where
  "result_to_json emit show_call ser_t r = (case r of
       Inr v \<Rightarrow> to_raw_value emit (ser_t v)
     | Inl e \<Rightarrow> to_raw_value emit (SStr (Error_to_string show_call e)))"

text \<open>The macro \<open>rpc_params!\<close>.\<close>

fun rpc_params_from :: "emitter \<Rightarrow> ser list \<Rightarrow> ParamsBuilder \<Rightarrow> ParamsBuilder outcome" where
  "rpc_params_from emit [] b = Done b"
| "rpc_params_from emit (v # vs) b = (case ParamsBuilder_insert emit v b of
     (False, _) \<Rightarrow> Panicked
   | (True, b') \<Rightarrow> rpc_params_from emit vs b')"

definition rpc_params :: "emitter \<Rightarrow> ser list \<Rightarrow> ParamsBuilder outcome" where
  "rpc_params emit vs = rpc_params_from emit vs positional"

section \<open>Lemmas\<close>

lemma rpc_params_panics_iff: "rpc_params emit vs = Panicked \<longleftrightarrow> (\<exists>v \<in> set vs. \<not> snd (emit v))"
proof -
  have "rpc_params_from emit vs b = Panicked \<longleftrightarrow> (\<exists>v \<in> set vs. \<not> snd (emit v))" for b
    by (induction emit vs b rule: rpc_params_from.induct)
       (auto simp: ParamsBuilder_insert_def write_value_def split: prod.splits bool.splits)
  then show ?thesis by (simp add: rpc_params_def)
qed

lemma batch_ok_by_reference: "BatchResponse_ok b = BatchResponse_into_ok b"
  by (simp add: BatchResponse_ok_def BatchResponse_into_ok_def)

lemma subscription_kind_after_unsubscribe:
  "ClientSubscription_unsubscribe s = Done (msg, s') \<Longrightarrow> ClientSubscription_kind s' = Panicked"
  by (auto simp: ClientSubscription_unsubscribe_def ClientSubscription_kind_def split: option.splits)

text \<open>What an operation leaves of a client: everything but the ids and, at the end of the queue, its message.\<close>

definition queued :: "FrontToBack list \<Rightarrow> 'c Client \<Rightarrow> 'c Client" where
  "queued msgs c = c\<lparr>cli_background := (cli_background c)\<lparr>bg_queue := bg_queue (cli_background c) @ msgs\<rparr>\<rparr>"

lemma queued_none [simp]: "queued [] c = c"
  by (simp add: queued_def)

lemma queue_message_cases:
  "queue_message late msg c =
     (case msg of None \<Rightarrow> (Inl (EParseError ''serialize''), c)
      | Some m \<Rightarrow> if late then (Inl ERequestTimeout, c)
          else if is_connected c then (Inr (), queued [m] c) else (Inl (on_disconnect c), c))"
  by (simp add: queue_message_def to_back_send_def run_future_until_timeout_def is_connected_def on_disconnect_def queued_def Let_def
      split: option.split)

lemma take_id_fields:
  assumes "take_id c = (i, c')"
  shows "c' = c\<lparr>cli_id_manager := snd (next_request_id (cli_id_manager c))\<rparr>" "i = fst (next_request_id (cli_id_manager c))"
  using assms by (auto simp: take_id_def split: prod.splits)

lemma connected_ids [simp]: "is_connected (c\<lparr>cli_id_manager := im\<rparr>) = is_connected c" "on_disconnect (c\<lparr>cli_id_manager := im\<rparr>) = on_disconnect c"
  by (simp_all add: is_connected_def on_disconnect_def)

text \<open>A client that has taken \<open>n\<close> request ids.\<close>

definition after_ids :: "nat \<Rightarrow> 'c Client \<Rightarrow> 'c Client" where
  "after_ids n c = c\<lparr>cli_id_manager := ((snd \<circ> next_request_id) ^^ n) (cli_id_manager c)\<rparr>"

lemma after_ids_simps [simp]: "is_connected (after_ids n c) = is_connected c" "on_disconnect (after_ids n c) = on_disconnect c"
  by (simp_all add: after_ids_def)

lemma take_id_eq: "take_id c = (fst (next_request_id (cli_id_manager c)), after_ids 1 c)"
  by (simp add: take_id_def after_ids_def split_beta)

lemma to_raw_value_total:
  assumes "\<forall>v. snd (emit v)"
  shows "\<exists>raw. to_raw_value emit v = Some raw"
  using spec [OF assms, of v] by (auto simp: to_raw_value_def split: prod.splits)

lemma notification_queued:
  assumes "\<forall>v. snd (emit v)"
  shows "\<exists>raw. Client_notification emit False meth (Inr ps) c =
      (if is_connected c then (Inr (), queued [FNotification raw] (after_ids 1 c)) else (Inl (on_disconnect c), after_ids 1 c))"
  using to_raw_value_total [OF assms, of "Notification_serialize (\<lambda>p. case p of None \<Rightarrow> SNull | Some raw \<Rightarrow> SRaw raw) (Notification_new meth ps)"]
  by (auto simp: Client_notification_def take_id_eq queue_message_cases notification_message_def)

lemma request_queued:
  assumes "\<forall>v. snd (emit v)" "next_request_id (cli_id_manager c) = (i, im)"
  shows "\<exists>raw. Client_request_start emit False tx meth (Inr ps) c =
      (if is_connected c then (Inr (Request_borrowed meth ps i),
         queued [FRequest \<lparr>rm_raw = raw, rm_id = i, rm_send_back = Some tx\<rparr>] (after_ids 1 c))
       else (Inl (on_disconnect c), after_ids 1 c))"
  using to_raw_value_total [OF assms(1), of "Request_serialize (Request_borrowed meth ps i)"] assms(2)
  by (auto simp: Client_request_start_def take_id_eq queue_message_cases call_message_def Request_borrowed_def)

lemma subscribe_queued:
  assumes "\<forall>v. snd (emit v)" "next_request_id (cli_id_manager c) = (i, im)" "next_request_id im = (j, im2)" "meth \<noteq> unsub"
  shows "\<exists>raw. Client_subscribe_start emit False tx meth (Inr ps) unsub c =
      (if is_connected c then (Inr (Request_owned meth ps i), queued [FSubscribe \<lparr>sm_raw = raw, sm_subscribe_id = i,
         sm_unsubscribe_id = j, sm_unsubscribe_method = unsub, sm_send_back = tx\<rparr>] (after_ids 2 c))
       else (Inl (on_disconnect c), after_ids 2 c))"
  using to_raw_value_total [OF assms(1), of "Request_serialize (Request_owned meth ps i)"] assms(2-)
  by (auto simp: Client_subscribe_start_def subscribe_prepare_def queue_message_cases call_message_def after_ids_def numeral_2_eq_2)

lemma batch_queued:
  assumes "\<forall>v. snd (emit v)" "next_request_id (cli_id_manager c) = (i, im)" "batch_prepare batch (cli_id_manager c) = (Inr (reqs, ids), im)"
  shows "\<exists>raw. Client_batch_start emit False tx batch c =
      (if is_connected c then (Done (Inr ids), queued [FBatch \<lparr>bm_raw = raw, bm_ids = ids, bm_send_back = tx\<rparr>] (after_ids 1 c))
       else (Done (Inl (on_disconnect c)), after_ids 1 c))"
  using to_raw_value_total [OF assms(1), of "SSeq (map Request_serialize reqs)"] assms(2,3)
  by (auto simp: Client_batch_start_def batch_message_def queue_message_cases after_ids_def)

lemma register_queued:
  "Client_subscribe_to_method_start tx meth c =
     (if is_connected c then (Inr (), queued [FRegisterNotification \<lparr>rn_method = meth, rn_send_back = tx\<rparr>] c)
      else (Inl (on_disconnect c), c))"
  by (simp add: Client_subscribe_to_method_start_def to_back_send_def is_connected_def queued_def Let_def)

section \<open>Properties\<close>



end
