(* ===== verification/Http_Exchange.thy ===== *)
theory Http_Exchange
  imports Http_Client
begin

text \<open>
  The HTTP client and the HTTP transport of the server put together: a call of the client is carried
  over a connection to \<open>call_with_service\<close> of \<open>server/src/transport/http.rs\<close> and its response back. The
  connection itself (\<open>hyper\<close>) is a parameter that keeps the bytes of bodies and the content type.
\<close>

section \<open>The connection\<close>

record wire =
  wi_extensions :: extensions
  wi_frames :: "string \<Rightarrow> Frame list"
  wi_request_headers :: "ClientHttpRequest \<Rightarrow> HeaderMap"
  wi_response_headers :: "HttpResponse \<Rightarrow> HeaderMap"

text \<open>
  What is relied on: a body arrives as data frames that spell it, the first not empty; an announced
  length is the length of the body; the content type is passed on.
\<close>

definition announces :: "HeaderMap \<Rightarrow> string \<Rightarrow> bool" where
  "announces headers body = (case read_header_content_length headers of None \<Rightarrow> True | Some n \<Rightarrow> unat n = length body)"

locale faithful_wire =
  fixes wi :: wire
  assumes frames_data: "s \<noteq> [] \<Longrightarrow> body_data (wi_frames wi s) = s"
    and frames_error: "FrameError \<notin> set (wi_frames wi s)"
    and frames_first: "s \<noteq> [] \<Longrightarrow> \<exists>x rest. wi_frames wi s = DataFrame x # rest \<and> x \<noteq> []"
    and request_length: "announces (wi_request_headers wi q) (cq_body q)"
    and request_type: "get_all (wi_request_headers wi q) ''content-type'' = get_all (cq_headers q) ''content-type''"
    and response_length: "announces (wi_response_headers wi rp) (hp_body rp)"
begin

lemma read_wire_body:
  assumes "limits limited" "announces headers s" "length s \<le> unat max_size"
    and "s \<noteq> []" "hd s = CHR ''{'' \<or> hd s = CHR ''[''"
  shows "read_body limited headers (wi_frames wi s) max_size = Inr (s, hd s = CHR ''{'')"
proof -
  obtain x rest where f: "wi_frames wi s = DataFrame x # rest" "x \<noteq> []" using frames_first [OF assms(4)] by blast
  have data: "x @ body_data rest = s" using frames_data [OF assms(4)] f by simp
  then have hd: "hd x = hd s" using f(2) by (metis hd_append2)
  have "limited (unat max_size) (wi_frames wi s) = wi_frames wi s"
    using assms(1,3) frames_data [OF assms(4)] unfolding limits_def by metis
  moreover have "\<not> is_ascii_whitespace (hd x)" using assms(5) hd by (auto simp: is_ascii_whitespace_def)
  then have "first_non_whitespace 128 0 x = Some (0, hd x)" using f(2) by (cases x) (simp_all add: eval_nat_numeral)
  moreover have "FrameError \<notin> set rest" using frames_error [of s] f by simp
  ultimately have "read_frames (limited (unat max_size) (wi_frames wi s)) None [] = Inr (Some (hd s = CHR ''{''), s)"
    using assms(5) hd f data by (auto simp: read_frames_later)
  moreover have "\<not> (case read_header_content_length headers of Some n \<Rightarrow> n | None \<Rightarrow> 0) > max_size"
    using assms(2,3) by (auto simp: announces_def word_less_nat_alt split: option.splits)
  ultimately show ?thesis using assms(4) by (simp add: read_body_def)
qed

end

text \<open>The server behind the connection, as the backend of a client. A panic of the server ends the connection.\<close>

definition served_backend ::
  "emitter \<Rightarrow> (nat \<Rightarrow> Frame list \<Rightarrow> Frame list) \<Rightarrow> readers \<Rightarrow> wire \<Rightarrow> BatchRequestConfig \<Rightarrow> u32 \<Rightarrow>
     'w rpc_service_t \<Rightarrow> 'w http_backend"
where
  "served_backend emit limited de wi batch_config max_request_size svc q w =
     (case call_with_service emit limited de \<lparr>hr_method = cq_method q, hr_headers = wi_request_headers wi q,
             hr_body = wi_frames wi (cq_body q), hr_extensions = wi_extensions wi\<rparr> batch_config max_request_size svc w of
        (Done rp, w') \<Rightarrow> (Inr \<lparr>cp_status = hp_status rp, cp_headers = wi_response_headers wi rp,
           cp_body = wi_frames wi (hp_body rp)\<rparr>, w')
      | (Panicked, w') \<Rightarrow> (Inl (THttp Stream), w'))"

text \<open>Bodies that the two sides accept.\<close>

definition json_body :: "char \<Rightarrow> u32 \<Rightarrow> string \<Rightarrow> bool" where
  "json_body c limit s \<longleftrightarrow> s \<noteq> [] \<and> hd s = c \<and> length s \<le> unat limit"

section \<open>Lemmas\<close>

text \<open>A single request: what the service answers comes back as the body of the response.\<close>

lemma served_call:
  assumes wire: "faithful_wire wi" and lim: "limits limited" and t: "ht_client t = served_backend emit limited de wi batch_config mx svc"
    and uri: "valid_uri (ht_target t)" and ct: "get_all (ht_headers t) ''content-type'' = [CONTENT_TYPE_JSON]"
    and raw: "json_body (CHR ''{'') (ht_max_request_size t) raw" "length raw \<le> unat mx"
    and req: "de_call de raw = Some req"
    and call: "svc_call svc (req\<lparr>req_extensions := wi_extensions wi\<rparr>) w = (rp, w')"
    and rp: "json_body (CHR ''{'') (ht_max_response_size t) (mr_json rp)"
  shows "send_and_read_body valid_uri limited t raw w = (Done (Inr (mr_json rp)), w')"
proof -
  let ?q = "\<lparr>cq_uri = ht_target t, cq_method = ''POST'', cq_headers = ht_headers t, cq_body = raw\<rparr>"
  let ?r = "\<lparr>hr_method = cq_method ?q, hr_headers = wi_request_headers wi ?q, hr_body = wi_frames wi raw,
      hr_extensions = wi_extensions wi\<rparr>"
  note read = faithful_wire.read_wire_body [OF wire lim]
  have "content_type_is_json ?r"
    using faithful_wire.request_type [OF wire, of ?q] ct
    by (simp add: content_type_is_json_def is_json_def CONTENT_TYPE_JSON_def to_str_def eq_ignore_ascii_case_def)
  moreover have "read_body limited (hr_headers ?r) (hr_body ?r) mx = Inr (raw, True)"
    using read [of "hr_headers ?r" raw mx] faithful_wire.request_length [OF wire, of ?q] raw by (simp add: json_body_def)
  ultimately have "call_with_service emit limited de ?r batch_config mx svc w = (Done (from_method_response rp), w')"
    using req call by (simp add: call_with_service_def handle_rpc_call_def call_from_slice_def)
  then have "ht_client t ?q w = (Inr \<lparr>cp_status = 200, cp_headers = wi_response_headers wi (from_method_response rp),
      cp_body = wi_frames wi (mr_json rp)\<rparr>, w')"
    unfolding t served_backend_def by (simp add: from_method_response_def from_template_def)
  moreover have "read_body limited (wi_response_headers wi (from_method_response rp)) (wi_frames wi (mr_json rp))
      (ht_max_response_size t) = Inr (mr_json rp, True)"
    using read [of "wi_response_headers wi (from_method_response rp)" "mr_json rp" "ht_max_response_size t"]
      faithful_wire.response_length [OF wire, of "from_method_response rp"] rp
    by (simp add: json_body_def from_method_response_def from_template_def)
  ultimately show ?thesis
    using raw(1) uri by (simp add: send_and_read_body_def inner_send_def is_success_def json_body_def)
qed

text \<open>The response of a method registered in a module, as the client reads it.\<close>

lemma registered_call:
  assumes "register_method emit ser_t into name cb m = (Inr (), m')" and "rs_methods s = rm_methods m'"
    and "req_method req = name" and "cb (Params_new (req_params req)) (rm_ctx m) (req_extensions req) w = (r, w')"
    and "emit (Response_serialize ser_t (Response_new (pl_inner (into r)) (req_id req))) = (cs, True)"
    and "length (concat cs) \<le> rs_max_response_body_size s"
  obtains rp where "RpcService_call emit s req w = (rp, w')" "mr_json rp = concat cs"
    "MethodResponse_is_method_call rp" "mr_on_close rp = pl_on_exit (into r)"
proof -
  have free: "callbacks (rm_methods m) name = None"
    using assms(1) by (cases "callbacks (rm_methods m) name") (simp_all add: register_method_def module_insert_occupied)
  let ?cb = "SyncCb (\<lambda>i params n ext w. let (r, w') = cb params (rm_ctx m) ext w; rp = into r
      in (with_extensions ext (MethodResponse_response emit ser_t i rp n), w'))"
  have "callbacks (rs_methods s) name = Some ?cb"
    using assms(1,2) module_insert_callbacks(2) [OF free, of ?cb] by (auto simp: register_method_def)
  moreover have "mr_json (MethodResponse_response emit ser_t (req_id req) (into r) (rs_max_response_body_size s)) = concat cs"
    "mr_kind (MethodResponse_response emit ser_t (req_id req) (into r) (rs_max_response_body_size s)) = KindMethodCall"
    "mr_on_close (MethodResponse_response emit ser_t (req_id req) (into r) (rs_max_response_body_size s)) = pl_on_exit (into r)"
    using assms(6) by (simp_all add: response_branches [of emit ser_t "into r" "req_id req", OF assms(5)])
  ultimately show ?thesis
    using assms(3,4)
    by (intro that [of "with_extensions (req_extensions req)
        (MethodResponse_response emit ser_t (req_id req) (into r) (rs_max_response_body_size s))"]) (auto simp: RpcService_call_def method_with_name_def MethodResponse_is_method_call_def with_extensions_def Let_def)
qed

section \<open>Properties\<close>

text \<open>C13. A call over HTTP from end to end: calling a registered method with the client returns the value or
  the error object of its handler, which ran once on the server with the parameters of the call; the
  only effects are those of the handler and the request id that was taken. The hypotheses are that
  the connection is faithful, that the readers of either side read what the other one wrote, that the
  sizes keep to the limits and that the timer does not fire.\<close>

theorem http_call_end_to_end:
  assumes "faithful_wire wi" and "limits (hx_limited hx)" and "hx_valid_uri hx (ht_target t)"
    and "hc_service c = HttpRpcService_new hx t" and "hx_interrupted hx (hc_request_timeout c) w = None"
    and "ht_client t = served_backend emit (hx_limited hx) de wi batch_config mx (rpc_service_impl emit valid s)"
    and "get_all (ht_headers t) ''content-type'' = [CONTENT_TYPE_JSON]"
    and "register_method emit ser_t into name cb m = (Inr (), m')" and "rs_methods s = rm_methods m'"
    and "next_request_id (hc_id_manager c) = (i, im)"
    and "to_raw_value (hx_emit hx) (Request_serialize (Request_borrowed name ps i)) = Some raw"
    and "json_body (CHR ''{'') (ht_max_request_size t) raw" and "length raw \<le> unat mx"
    and "de_call de raw = Some (Request_borrowed name ps i)"
    and "cb (Params_new ps) (rm_ctx m) (wi_extensions wi) w = (r, w')"
    and "emit (Response_serialize ser_t (Response_new (pl_inner (into r)) i)) = (cs, True)"
    and "length (concat cs) \<le> rs_max_response_body_size s" and "json_body (CHR ''{'') (ht_max_response_size t) (concat cs)"
    and "hx_de_response hx (concat cs) = Inr (Response_new (case pl_inner (into r) of
           Success v \<Rightarrow> Success (render v) | RpError e \<Rightarrow> RpError e) i)"
    and "\<forall>v. pl_inner (into r) = Success v \<longrightarrow> de_t (render v) = Inr v"
  shows "HttpClient_request hx de_t name (Inr ps) c w =
    (Done (case pl_inner (into r) of Success v \<Rightarrow> Inr v | RpError e \<Rightarrow> Inl (ECall e)), c\<lparr>hc_id_manager := im\<rparr>, w')"
proof -
  let ?req = "Request_borrowed name ps i"
  have req: "req_method (?req\<lparr>req_extensions := e\<rparr>) = name" "req_params (?req\<lparr>req_extensions := e\<rparr>) = ps"
    "req_id (?req\<lparr>req_extensions := e\<rparr>) = i" for e
    by (simp_all add: Request_borrowed_def)
  obtain rp where rp: "RpcService_call emit s (?req\<lparr>req_extensions := wi_extensions wi\<rparr>) w = (rp, w')" "mr_json rp = concat cs"
    using registered_call [OF assms(8,9) req(1), of "wi_extensions wi" w r w' cs] assms(15-17) req by auto
  have "send_and_read_body (hx_valid_uri hx) (hx_limited hx) t raw w = (Done (Inr (mr_json rp)), w')"
    by (rule served_call [where valid_uri = "hx_valid_uri hx", OF assms(1,2,6,3,7,12,13,14)]) (simp_all add: rpc_service_impl_def rp assms(18))
  then have "exchange hx t (hx_de_response hx) (Request_serialize ?req) w = (Done (Inr (Response_new (case pl_inner (into r) of
      Success v \<Rightarrow> Success (render v) | RpError e \<Rightarrow> RpError e) i)), w')"
    using assms(11,19) by (simp add: exchange_def rp(2))
  with assms(4,5,10,20) show ?thesis
    by (simp add: HttpClient_request_def run_http_until_timeout_def HttpRpcService_new_def http_call_def http_request_result_def
        Success_try_from_def Response_new_def Let_def split: ResponsePayload.splits)
qed

definition example_wire :: wire where
  "example_wire = \<lparr>wi_extensions = Map.empty, wi_frames = (\<lambda>s. if s = [] then [] else [DataFrame s]),
     wi_request_headers = (\<lambda>q. filter (\<lambda>h. fst h = ''content-type'') (cq_headers q)), wi_response_headers = (\<lambda>_. [])\<rparr>"

interpretation direct: faithful_wire example_wire
  by unfold_locales
     (auto simp: example_wire_def announces_def read_header_content_length_def read_header_value_def get_all_def
       filter_empty_conv split: list.splits)

definition example_module :: "(unit, (unit, unit) server_world) RpcModule" where
  "example_module = snd (register_method json_emit SU64 into_response_value ''m'' (\<lambda>_ _ _ w. (7, w)) (RpcModule_new ()))"

definition example_http_service :: "(unit, unit) RpcService" where
  "example_http_service = \<lparr>rs_conn_id = 0, rs_methods = rm_methods example_module, rs_max_response_body_size = 1000,
     rs_cfg = OnlyCalls, rs_id_provider = (\<lambda>_. Num 0)\<rparr>"

definition example_http_readers :: readers where
  "example_http_readers = \<lparr>de_call = (\<lambda>_. Some (Request_borrowed ''m'' None (Number 0))), de_notif = (\<lambda>_. None),
     de_invalid = (\<lambda>_. None), de_array = (\<lambda>_. None)\<rparr>"

definition example_hx :: "(unit, unit) server_world http_env" where
  "example_hx = \<lparr>hx_emit = json_emit, hx_de_response = (\<lambda>_. Inr (Response_new (Success ''7'') (Number 0))),
     hx_de_responses = (\<lambda>_. Inr []), hx_valid_uri = (\<lambda>_. True), hx_limited = limited_ref, hx_stream_text = '''',
     hx_debug = (\<lambda>_. ''''), hx_interrupted = (\<lambda>_ _. None)\<rparr>"

definition example_http_transport :: "(unit, unit) server_world HttpTransportClient" where
  "example_http_transport = \<lparr>ht_target = ''http://h/'', ht_client = served_backend json_emit limited_ref example_http_readers example_wire
       BatchUnlimited 1000 (rpc_service_impl json_emit array_text example_http_service),
     ht_max_request_size = 1000, ht_max_response_size = 1000, ht_headers = [(''content-type'', CONTENT_TYPE_JSON)]\<rparr>"

definition example_http_client :: "(unit, unit) server_world HttpClient" where
  "example_http_client = \<lparr>hc_service = HttpRpcService_new example_hx example_http_transport,
     hc_id_manager = RequestIdManager_new IdNumber, hc_request_guard = None, hc_request_timeout = 60\<rparr>"

lemma example_registered:
  "register_method json_emit SU64 into_response_value ''m'' (\<lambda>_ _ _ w. (7, w)) (RpcModule_new ()) = (Inr (), example_module)"
  by (simp add: example_module_def register_method_def module_insert_def verify_and_insert_def RpcModule_new_def Methods_new_def)

theorem http_call_end_to_end_witness:
  "fst (HttpClient_request example_hx (\<lambda>_. Inr (7 :: u64)) ''m'' (Inr None) example_http_client example_server) = Done (Inr 7)"
proof -
  let ?req = "json_text (Request_serialize (Request_borrowed ''m'' None (Number 0)))"
  let ?rsp = "json_text (Response_serialize SU64 (Response_new (pl_inner (into_response_value (7 :: u64))) (Number 0)))"
  note defs = example_hx_def example_http_transport_def example_http_client_def example_http_service_def example_http_readers_def
  have req: "?req = ''{\"jsonrpc\":\"2.0\",\"id\":0,\"method\":\"m\"}''" by (simp add: json_eval)
  have rsp: "json_text (Response_serialize SU64 (Response_new (Success (7 :: u64)) (Number 0))) = ''{\"jsonrpc\":\"2.0\",\"id\":0,\"result\":7}''" by (simp add: json_eval)
  have "next_request_id (hc_id_manager example_http_client) = (Number 0, (hc_id_manager example_http_client)\<lparr>current_id := 1\<rparr>)"
    by (simp add: defs next_request_id_def RequestIdManager_new_def CurrentId_next_def)
  note e2e = http_call_end_to_end [where hx = example_hx and t = example_http_transport and c = example_http_client
      and w = example_server and i = "Number 0", OF direct.faithful_wire_axioms _ _ _ _ _ _ example_registered _ this,
      where render = "\<lambda>_. ''7''" and raw = ?req and cs = "[?rsp]" and r = 7 and w' = example_server and ps = None
        and de_t = "\<lambda>_. Inr 7" and de = example_http_readers and batch_config = BatchUnlimited and mx = 1000 and valid = array_text
        and s = example_http_service]
  have "HttpClient_request example_hx (\<lambda>_. Inr 7) ''m'' (Inr None) example_http_client example_server =
    (Done (case pl_inner (into_response_value (7 :: u64)) of Success v \<Rightarrow> Inr v | RpError e \<Rightarrow> Inl (ECall e)),
     example_http_client\<lparr>hc_id_manager := (hc_id_manager example_http_client)\<lparr>current_id := 1\<rparr>\<rparr>, example_server)"
    by (rule e2e)
       (simp_all add: defs limits_ref get_all_def to_raw_value_def json_emit_def json_body_def req rsp
         into_response_value_def payload_success_def payload_from_def)
  then show ?thesis by (simp add: into_response_value_def payload_success_def payload_from_def)
qed

end
