(* ===== verification/Ws_Exchange.thy ===== *)
theory Ws_Exchange
  imports Client_Api Http_Exchange
begin

text \<open>
  A call over WebSocket through every component that takes part in it: the client's operation, its send
  task, its transport, the server's message task with the service and the registered method, the
  server's send task, the client's transport, its read task and the end of the operation.
\<close>

section \<open>Lemmas\<close>

text \<open>The server's task for a text that decrypts to a call, whatever its kind.\<close>

lemma ws_single_call:
  assumes "decrypt_data emit ops valid_utf cfg sink x w = (Some raw, w)" and "raw \<noteq> []" "hd raw = CHR ''{''"
    and "de_call de raw = Some req" and "RpcService_call emit svc (req\<lparr>req_extensions := ext\<rparr>) w = (rp, w')"
  shows "ws_handle_message emit ops valid_utf de cfg (rpc_service_impl emit valid svc) ext sink x w = (Done (), ws_reply ops sink rp w')"
proof -
  obtain rest where "raw = CHR ''{'' # rest" using assms(2,3) by (cases raw) auto
  moreover from this have "first_non_whitespace 128 0 raw = Some (0, CHR ''{'')"
    by (simp add: is_ascii_whitespace_def numeral_eq_Suc)
  ultimately show ?thesis
    using assms(1,4,5)
    by (simp add: ws_handle_message_def handle_rpc_call_def call_from_slice_def rpc_service_impl_def Let_def)
qed

text \<open>The server's task for a text that decrypts to a single call of a registered method.\<close>

lemma ws_call_served:
  assumes "decrypt_data emit ops valid_utf cfg sink x w = (Some raw, w)" and "raw \<noteq> []" "hd raw = CHR ''{''"
    and "de_call de raw = Some req" and "req_method req = name"
    and "register_method emit ser_t into name cb m = (Inr (), m')" and "rs_methods svc = rm_methods m'"
    and "cb (Params_new (req_params req)) (rm_ctx m) ext w = (r, w')" and "pl_on_exit (into r) = None"
    and "emit (Response_serialize ser_t (Response_new (pl_inner (into r)) (req_id req))) = (cs, True)"
    and "length (concat cs) \<le> rs_max_response_body_size svc"
    and "MethodSink_send ops sink (concat cs) (wd_conns w') = (Inr (), q)"
  shows "ws_handle_message emit ops valid_utf de cfg (rpc_service_impl emit valid svc) ext sink x w = (Done (), w'\<lparr>wd_conns := q\<rparr>)"
proof -
  obtain rp where rp: "RpcService_call emit svc (req\<lparr>req_extensions := ext\<rparr>) w = (rp, w')" "mr_json rp = concat cs"
    "MethodResponse_is_method_call rp" "mr_on_close rp = None"
    using registered_call [OF assms(6,7), of "req\<lparr>req_extensions := ext\<rparr>" w r w' cs] assms(5,8-11) by auto
  moreover have "ws_reply ops sink rp w' = w'\<lparr>wd_conns := q\<rparr>"
    using rp(2-4) assms(12) by (simp add: ws_reply_def sink_send_def)
  ultimately show ?thesis using ws_single_call [OF assms(1-4) rp(1)] by simp
qed

text \<open>The client's tasks: a request that was queued goes out, and its answer is delivered to the caller.\<close>

lemma call_sent:
  assumes "requests (cl_manager (bg_client b)) i = None" "send raw = Inr ()"
  shows "send_task_message env send (FRequest \<lparr>rm_raw = raw, rm_id = i, rm_send_back = Some tx\<rparr>) b =
    b\<lparr>bg_client := (bg_client b)\<lparr>cl_manager := (cl_manager (bg_client b))
        \<lparr>requests := (requests (cl_manager (bg_client b)))(i \<mapsto> PendingMethodCall (Some tx))\<rparr>\<rparr>,
      bg_to_server := bg_to_server b @ [raw]\<rparr>"
  using assms by (simp add: send_task_message_def handle_frontend_messages_def on_manager_def insert_pending_call_def send_raw_def Let_def)

lemma request_sent:
  assumes "requests (cl_manager (bg_client b)) i = None"
  shows "send_task_message env (\<lambda>_. Inr ()) (FRequest \<lparr>rm_raw = raw, rm_id = i, rm_send_back = Some tx\<rparr>) b =
    b\<lparr>bg_client := (bg_client b)\<lparr>cl_manager := (cl_manager (bg_client b))
        \<lparr>requests := (requests (cl_manager (bg_client b)))(i \<mapsto> PendingMethodCall (Some tx))\<rparr>\<rparr>,
      bg_to_server := bg_to_server b @ [raw]\<rparr>"
  using assms by (rule call_sent) simp

lemma object_text:
  assumes "m \<noteq> []" "hd m = CHR ''{''"
  shows "handle_recv_message env m c = handle_object env m c"
proof -
  obtain rest where "m = CHR ''{'' # rest" using assms by (cases m) auto
  then show ?thesis by (simp add: handle_recv_message_def is_ascii_whitespace_def)
qed

lemma answer_delivered:
  assumes "requests (cl_manager (bg_client b)) i = Some (PendingMethodCall (Some tx))"
    and "ce_de_response env answer = Some rp" "rp_id rp = i" "answer \<noteq> []" "hd answer = CHR ''{''"
  shows "read_task_message env now (Inr (Text answer)) b =
    b\<lparr>bg_client := (bg_client b)\<lparr>cl_manager := (cl_manager (bg_client b))
        \<lparr>requests := (requests (cl_manager (bg_client b)))(i := None)\<rparr>,
        cl_outbox := cl_outbox (bg_client b) @ [ToCall tx (Inr rp)]\<rparr>,
      bg_check := mark_as_active now (bg_check b)\<rparr>"
  using assms(1-3)
  by (simp add: read_task_message_def handle_backend_messages_def object_text [OF assms(4,5)] handle_object_def
      process_single_response_def on_manager_def mgr_defs deliver_def Let_def)

text \<open>A call whose answer is the text that arrives next.\<close>

lemma call_answered:
  assumes "is_connected c" "\<not> bg_read_done (cli_background c)" "\<not> bg_panicked (cli_background c)" "bg_queue (cli_background c) = []"
    and "next_request_id (cli_id_manager c) = (i, im)" "requests (cl_manager (bg_client (cli_background c))) i = None"
    and "to_raw_value (ce_emit env) (Request_serialize (Request_borrowed name ps i)) = Some raw"
    and "answer \<noteq> []" "hd answer = CHR ''{''" "ce_de_response env answer = Some rp" "rp_id rp = i"
  shows "\<exists>req c1 b1. Client_request_start (ce_emit env) False tx name (Inr ps) c = (Inr req, c1) \<and> bg_step env (cli_background c1) b1 \<and>
    bg_to_server b1 = bg_to_server (cli_background c) @ [raw] \<and> bg_step env b1 (read_task_message env now (Inr (Text answer)) b1) \<and>
    cl_outbox (bg_client (read_task_message env now (Inr (Text answer)) b1)) =
      cl_outbox (bg_client (cli_background c)) @ [ToCall tx (Inr rp)] \<and>
    requests (cl_manager (bg_client (read_task_message env now (Inr (Text answer)) b1))) = requests (cl_manager (bg_client (cli_background c))) \<and>
    Client_request_finish de_t req (Left (Some (Inr rp))) c1 = (case rp_payload rp of
        Success v \<Rightarrow> (case de_t v of Inr x \<Rightarrow> Inr x | Inl e \<Rightarrow> Inl (EParseError e)) | RpError e \<Rightarrow> Inl (ECall e))"
proof -
  let ?req = "Request_borrowed name ps i" and ?b = "cli_background c"
  let ?msg = "FRequest \<lparr>rm_raw = raw, rm_id = i, rm_send_back = Some tx\<rparr>"
  let ?c1 = "queued [?msg] (after_ids 1 c)"
  have start: "Client_request_start (ce_emit env) False tx name (Inr ps) c = (Inr ?req, ?c1)"
    using assms(1,5,7) by (simp add: Client_request_start_def take_id_eq queue_message_cases call_message_def Request_borrowed_def Let_def)
  have bg: "cli_background ?c1 = ?b\<lparr>bg_queue := [?msg]\<rparr>" using assms(4) by (simp add: queued_def after_ids_def)
  define b1 where "b1 = send_task_message env (\<lambda>_. Inr ()) ?msg ?b"
  note b1 = request_sent [OF assms(6), of env raw tx, folded b1_def]
  have "?b\<lparr>bg_queue := []\<rparr> = ?b" using assms(4) by simp
  then have step1: "bg_step env (cli_background ?c1) b1"
    using bg_step.send_message [of "?b\<lparr>bg_queue := [?msg]\<rparr>" ?msg "[]" env "\<lambda>_. Inr ()"] assms(1,3)
    unfolding bg b1_def by (simp add: is_connected_def)
  have "requests (cl_manager (bg_client b1)) i = Some (PendingMethodCall (Some tx))" by (simp add: b1)
  note b2 = answer_delivered [OF this assms(10,11,8,9), of now]
  have "bg_step env b1 (read_task_message env now (Inr (Text answer)) b1)"
    using assms(2,3) by (intro bg_step.read_message) (simp_all add: b1)
  moreover have "cl_outbox (bg_client (read_task_message env now (Inr (Text answer)) b1)) = cl_outbox (bg_client ?b) @ [ToCall tx (Inr rp)]"
    by (simp add: b2) (simp add: b1)
  moreover have "requests (cl_manager (bg_client (read_task_message env now (Inr (Text answer)) b1))) = requests (cl_manager (bg_client ?b))"
    using assms(6) by (simp add: b2) (simp add: b1 fun_upd_idem)
  moreover have "Client_request_finish de_t ?req (Left (Some (Inr rp))) ?c1 = (case rp_payload rp of
      Success v \<Rightarrow> (case de_t v of Inr x \<Rightarrow> Inr x | Inl e \<Rightarrow> Inl (EParseError e)) | RpError e \<Rightarrow> Inl (ECall e))"
    using assms(11)
    by (simp add: Client_request_finish_def map_race_def call_finish_def run_future_until_timeout_def request_result_def Success_try_from_def
        Request_borrowed_def split: ResponsePayload.split sum.split)
  moreover have "bg_to_server b1 = bg_to_server ?b @ [raw]" by (simp add: b1)
  ultimately show ?thesis using start step1 by blast
qed

section \<open>Properties\<close>

text \<open>C14. A call over WebSocket from end to end: an idle client that calls a registered method puts its request
  on the wire; the server's task runs the handler once, with the parameters of the call, and queues one
  response; what the server sends is read by the client, which delivers the response to the caller and
  forgets the call; the caller gets the value or the error object of the handler. With or without encryption.\<close>

theorem ws_call_end_to_end:
  assumes "shared_cipher (wsc_encryption cfg) valid_utf" and "wh_message_encryption h = wsc_encryption cfg"
    and "is_connected c" and "\<not> bg_read_done (cli_background c)" and "\<not> bg_panicked (cli_background c)"
    and "bg_queue (cli_background c) = []"
    and "next_request_id (cli_id_manager c) = (i, im)" and "requests (cl_manager (bg_client (cli_background c))) i = None"
    and "to_raw_value (ce_emit env) (Request_serialize (Request_borrowed name ps i)) = Some raw"
    and "raw \<noteq> []" and "hd raw = CHR ''{''" and "ClientSender_send cops h raw s = (Inr (), s')"
    and "de_call de raw = Some (Request_borrowed name ps i)"
    and "register_method emit ser_t into name cb m = (Inr (), m')" and "rs_methods svc = rm_methods m'"
    and "cb (Params_new ps) (rm_ctx m) ext w = (r, w')" and "pl_on_exit (into r) = None"
    and "emit (Response_serialize ser_t (Response_new (pl_inner (into r)) i)) = (cs, True)"
    and "length (concat cs) \<le> rs_max_response_body_size svc" and "concat cs \<noteq> []" and "hd (concat cs) = CHR ''{''"
    and "valid_utf (concat cs)" and "\<forall>enc. wsc_encryption cfg = Some enc \<longrightarrow> enc_encrypt enc (concat cs) \<noteq> None"
    and "MethodSink_send ops sink (concat cs) (wd_conns w') = (Inr (), q)"
    and "ce_de_response env (concat cs) = Some (Response_new (case pl_inner (into r) of
           Success v \<Rightarrow> Success (render v) | RpError e \<Rightarrow> RpError e) i)"
    and "\<forall>v. pl_inner (into r) = Success v \<longrightarrow> de_t (render v) = Inr v"
  shows "\<exists>x y req c1 b1 b2 rp.
    Client_request_start (ce_emit env) False tx name (Inr ps) c = (Inr req, c1) \<and>
    bg_step env (cli_background c1) b1 \<and> bg_to_server b1 = bg_to_server (cli_background c) @ [raw] \<and>
    send_and_flush cops x s = (Inr (), s') \<and>
    ws_handle_message emit ops valid_utf de cfg (rpc_service_impl emit valid svc) ext sink x w = (Done (), w'\<lparr>wd_conns := q\<rparr>) \<and>
    send_message emit sops (wsc_encryption cfg) policy (concat cs) t = send_and_flush sops y t \<and>
    ClientReceiver_receive valid_utf h (Inr (IncText y)) = Inr (Text (concat cs)) \<and>
    b2 = read_task_message env now (Inr (Text (concat cs))) b1 \<and> bg_step env b1 b2 \<and>
    cl_outbox (bg_client b2) = cl_outbox (bg_client (cli_background c)) @ [ToCall tx (Inr rp)] \<and>
    requests (cl_manager (bg_client b2)) = requests (cl_manager (bg_client (cli_background c))) \<and>
    Client_request_finish de_t req (Left (Some (Inr rp))) c1 =
      (case pl_inner (into r) of Success v \<Rightarrow> Inr v | RpError e \<Rightarrow> Inl (ECall e))"
proof -
  let ?req = "Request_borrowed name ps i"
  let ?rp = "Response_new (case pl_inner (into r) of Success v \<Rightarrow> Success (render v) | RpError e \<Rightarrow> RpError e) i"
  have req: "req_method ?req = name" "req_params ?req = ps" "req_id ?req = i" by (simp_all add: Request_borrowed_def)
  obtain x where x: "send_and_flush cops x s = (Inr (), s')" "decrypt_data emit ops valid_utf cfg sink x w = (Some raw, w)"
    using shared_cipher.client_to_server [OF assms(1,2) refl assms(12)] by blast
  have served: "ws_handle_message emit ops valid_utf de cfg (rpc_service_impl emit valid svc) ext sink x w = (Done (), w'\<lparr>wd_conns := q\<rparr>)"
  proof -
    have "cb (Params_new (req_params ?req)) (rm_ctx m) ext w = (r, w')"
      "emit (Response_serialize ser_t (Response_new (pl_inner (into r)) (req_id ?req))) = (cs, True)" using assms(16,18) req by simp_all
    from ws_call_served [OF x(2) assms(10,11,13) req(1) assms(14,15) this(1) assms(17) this(2) assms(19,24)] show ?thesis .
  qed
  obtain y where y: "send_message emit sops (wsc_encryption cfg) policy (concat cs) t = send_and_flush sops y t"
    "ClientReceiver_receive valid_utf h (Inr (IncText y)) = Inr (Text (concat cs))"
    using shared_cipher.server_to_client [OF assms(1,2,22,23), where emit = emit and sops = sops and policy = policy and q = t] by blast
  have "rp_id ?rp = i" by (simp add: Response_new_def)
  note answered = call_answered [OF assms(3-9,20,21,25) this, of tx now de_t]
  moreover have "(case rp_payload ?rp of Success v \<Rightarrow> (case de_t v of Inr x \<Rightarrow> Inr x | Inl e \<Rightarrow> Inl (EParseError e)) | RpError e \<Rightarrow> Inl (ECall e)) =
      (case pl_inner (into r) of Success v \<Rightarrow> Inr v | RpError e \<Rightarrow> Inl (ECall e))"
    using assms(26) by (simp add: Response_new_def split: ResponsePayload.splits)
  ultimately show ?thesis using x(1) served y by metis
qed

text \<open>A server with a method \<open>m\<close> that answers 7, and a client without encryption.\<close>

definition example_ws_env :: "chan_store client_env" where
  "example_ws_env = example_env\<lparr>ce_emit := json_emit, ce_de_response := (\<lambda>_. Some (Response_new (Success ''7'') (Number 0)))\<rparr>"

definition example_ws_client :: "chan_store Client" where
  "example_ws_client = Client_new ClientBuilder_default (bg_new store_new Disabled, RequestIdManager_new IdNumber)"

theorem ws_call_end_to_end_witness:
  "\<exists>req c1 rp. Client_request_start json_emit False 5 ''m'' (Inr None) example_ws_client = (Inr req, c1) \<and>
     Client_request_finish (\<lambda>_. Inr (7 :: u64)) req (Left (Some (Inr rp))) c1 = Inr 7"
proof -
  let ?req = "json_text (Request_serialize (Request_borrowed ''m'' None (Number 0)))"
  let ?rsp = "json_text (Response_serialize SU64 (Response_new (pl_inner (into_response_value (7 :: u64))) (Number 0)))"
  let ?cfg = "\<lparr>wsc_batch_requests_config = BatchUnlimited, wsc_max_request_body_size = 1000, wsc_policy = SendError, wsc_encryption = None\<rparr>"
  let ?h = "\<lparr>wh_stream = PlainStream (), wh_max_message_size = 1000, wh_max_request_size = 1000, wh_message_encryption = None\<rparr>"
  let ?wire = "\<lparr>wo_send_text = (\<lambda>x s. (Inr (), s @ [x])), wo_send_ping = (\<lambda>s. (Inr (), s)), wo_flush = (\<lambda>s. (Inr (), s)),
      wo_close = id\<rparr> :: string list ws_sender_ops"
  have req: "?req = ''{\"jsonrpc\":\"2.0\",\"id\":0,\"method\":\"m\"}''" by (simp add: json_eval)
  have rsp: "json_text (Response_serialize SU64 (Response_new (Success (7 :: u64)) (Number 0))) = ''{\"jsonrpc\":\"2.0\",\"id\":0,\"result\":7}''"
    by (simp add: json_eval)
  have i: "next_request_id (cli_id_manager example_ws_client) = (Number 0, \<lparr>current_id = 1, id_kind = IdNumber\<rparr>)"
    by (simp add: example_ws_client_def Client_new_def next_request_id_def RequestIdManager_new_def CurrentId_next_def)
  have s: "ClientSender_send ?wire ?h ?req [] = (Inr (), [?req])"
    by (simp add: ClientSender_send_def send_and_flush_def req)
  note e2e = ws_call_end_to_end [where cfg = ?cfg and valid_utf = "\<lambda>_. True" and h = ?h and c = example_ws_client and env = example_ws_env
      and raw = ?req and cops = ?wire and s = "[]" and s' = "[?req]" and de = example_http_readers and svc = example_http_service
      and cs = "[?rsp]" and r = 7 and w' = example_server and w = example_server and ps = None and ops = null_ops
      and sink = "MethodSink_new_with_limit 0 1000" and q = "()" and render = "\<lambda>_. ''7''" and de_t = "\<lambda>_. Inr 7" and tx = 5
      and valid = array_text and sops = ?wire and policy = SendError and t = "[]" and now = 0 and ext = Map.empty,
      OF _ _ _ _ _ _ i _ _ _ _ s _ example_registered]
  have "\<exists>req c1 rp. Client_request_start (ce_emit example_ws_env) False 5 ''m'' (Inr None) example_ws_client = (Inr req, c1) \<and>
     Client_request_finish (\<lambda>_. Inr 7) req (Left (Some (Inr rp))) c1 =
       (case pl_inner (into_response_value (7 :: u64)) of Success v \<Rightarrow> Inr v | RpError e \<Rightarrow> Inl (ECall e))"
  proof -
    have c: "shared_cipher (wsc_encryption ?cfg) (\<lambda>_. True)" using plain.shared_cipher_axioms by simp
    have bg: "is_connected example_ws_client" "\<not> bg_read_done (cli_background example_ws_client)"
      "\<not> bg_panicked (cli_background example_ws_client)" "bg_queue (cli_background example_ws_client) = []"
      "requests (cl_manager (bg_client (cli_background example_ws_client))) (Number 0) = None"
      by (simp_all add: example_ws_client_def Client_new_def is_connected_def bg_new_def client_new_def RequestManager_new_def)
    show ?thesis
      using e2e [OF c _ bg(1-4) bg(5)]
      by (simp add: example_ws_env_def example_env_def to_raw_value_def json_emit_def req rsp example_http_readers_def example_http_service_def
          into_response_value_def payload_success_def payload_from_def MethodSink_send_def null_ops_def) blast
  qed
  then show ?thesis by (simp add: example_ws_env_def into_response_value_def payload_success_def payload_from_def)
qed

end
