(* ===== verification/Module_Subscription.thy ===== *)
theory Module_Subscription
  imports Rpc_Module
begin

text \<open>
  The rest of \<open>MethodSink\<close>, \<open>PendingSubscriptionSink\<close>, \<open>SubscriptionSink\<close> and \<open>Subscription\<close>
  (\<open>core/src/server/helpers.rs\<close>, \<open>error.rs\<close>, \<open>subscription.rs\<close>): capacities, waiting for room or for the end of a
  subscription, the conversions of errors; and a subscription that is opened on a module without a
  server (\<open>subscribe_unbounded\<close> of \<open>rpc_module.rs\<close>), from the handler that sends to the reader. The
  contract \<open>sink_channels\<close> is what this relies on of the bounded channels of \<open>tokio\<close>.
\<close>

section \<open>Channels\<close>

text \<open>
  The operations of a channel that only the code below uses. \<open>sv_reserve\<close> polls \<open>Sender::reserve\<close> whose
  permit is given back at once: \<open>Ready False\<close> is its error. \<open>sv_recv\<close> polls \<open>Receiver::recv\<close> while a sender exists.
\<close>

record 'c sink_view_ops =
  sv_capacity :: "nat \<Rightarrow> 'c \<Rightarrow> nat"
  sv_max_capacity :: "nat \<Rightarrow> 'c \<Rightarrow> nat"
  sv_reserve :: "nat \<Rightarrow> 'c \<Rightarrow> bool poll"
  sv_closed :: "nat \<Rightarrow> 'c \<Rightarrow> unit poll"
  sv_recv :: "nat \<Rightarrow> 'c \<Rightarrow> string option poll \<times> 'c"
  sv_close :: "nat \<Rightarrow> 'c \<Rightarrow> 'c"

datatype mpsc_send_error = MpscSendError string

datatype mpsc_try_send_error = MpscTryClosed string | MpscTryFull string

datatype mpsc_send_timeout_error = MpscTimeoutClosed string | MpscTimeout string

section \<open>Messages and errors (subscription.rs, error.rs)\<close>

definition SubscriptionMessage_from :: "string \<Rightarrow> SubMessage" where
  "SubscriptionMessage_from json = NeedsData json"

definition from_complete_message :: "string \<Rightarrow> SubMessage" where
  "from_complete_message msg = Complete msg"

fun DisconnectError_from :: "mpsc_send_error \<Rightarrow> DisconnectError" where
  "DisconnectError_from (MpscSendError m) = DisconnectError (from_complete_message m)"

fun TrySendError_from :: "mpsc_try_send_error \<Rightarrow> TrySendError" where
  "TrySendError_from (MpscTryClosed m) = TSClosed (from_complete_message m)"
| "TrySendError_from (MpscTryFull m) = TSFull (from_complete_message m)"

fun SendTimeoutError_from :: "mpsc_send_timeout_error \<Rightarrow> SendTimeoutError" where
  "SendTimeoutError_from (MpscTimeoutClosed m) = STClosed (from_complete_message m)"
| "SendTimeoutError_from (MpscTimeout m) = STTimeout (from_complete_message m)"

definition unit_into_close_response :: "unit \<Rightarrow> SubscriptionCloseResponse" where
  "unit_into_close_response _ = CloseNone"

definition close_response_into_response :: "SubscriptionCloseResponse \<Rightarrow> SubscriptionCloseResponse" where
  "close_response_into_response r = r"

section \<open>Sinks\<close>

definition MethodSink_closed :: "'c sink_view_ops \<Rightarrow> MethodSink \<Rightarrow> 'c \<Rightarrow> unit poll" where
  "MethodSink_closed view s c = sv_closed view (ms_tx s) c"

definition max_response_size :: "MethodSink \<Rightarrow> u32" where
  "max_response_size s = ms_max_response_size s"

definition MethodSink_capacity :: "'c sink_view_ops \<Rightarrow> MethodSink \<Rightarrow> 'c \<Rightarrow> nat" where
  "MethodSink_capacity view s c = sv_capacity view (ms_tx s) c"

definition MethodSink_max_capacity :: "'c sink_view_ops \<Rightarrow> MethodSink \<Rightarrow> 'c \<Rightarrow> nat" where
  "MethodSink_max_capacity view s c = sv_max_capacity view (ms_tx s) c"

definition has_capacity :: "'c sink_view_ops \<Rightarrow> MethodSink \<Rightarrow> 'c \<Rightarrow> (unit, DisconnectError) result poll" where
  "has_capacity view s c = (case sv_reserve view (ms_tx s) c of
       Pending \<Rightarrow> Pending
     | Ready True \<Rightarrow> Ready (Ok ())
     | Ready False \<Rightarrow> Ready (Err (DisconnectError (SubscriptionMessage_from ''null''))))"

text \<open>The channel of \<open>IsUnsubscribed\<close> is closed when its receiver is dropped.\<close>

definition unsubscribed :: "nat \<Rightarrow> 'c sub_state \<Rightarrow> unit poll" where
  "unsubscribed k st = (if is_unsubscribed k st then Ready () else Pending)"

definition Pending_connection_id :: "PendingSubscriptionSink \<Rightarrow> nat" where
  "Pending_connection_id p = key_conn_id (ps_uniq_sub p)"

definition Pending_capacity :: "'c sink_view_ops \<Rightarrow> PendingSubscriptionSink \<Rightarrow> 'c sub_state \<Rightarrow> nat" where
  "Pending_capacity view p st = MethodSink_capacity view (ps_inner p) (st_conns st)"

definition Pending_max_capacity :: "'c sink_view_ops \<Rightarrow> PendingSubscriptionSink \<Rightarrow> 'c sub_state \<Rightarrow> nat" where
  "Pending_max_capacity view p st = MethodSink_max_capacity view (ps_inner p) (st_conns st)"

definition Pending_method_name :: "PendingSubscriptionSink \<Rightarrow> string" where
  "Pending_method_name p = ps_method p"

definition Sink_subscription_id :: "SubscriptionSink \<Rightarrow> SubscriptionId" where
  "Sink_subscription_id s = key_sub_id (sk_uniq_sub s)"

definition Sink_method_name :: "SubscriptionSink \<Rightarrow> string" where
  "Sink_method_name s = sk_method s"

definition Sink_connection_id :: "SubscriptionSink \<Rightarrow> nat" where
  "Sink_connection_id s = key_conn_id (sk_uniq_sub s)"

text \<open>The \<open>select!\<close> is over when one of the two futures is.\<close>

definition SubscriptionSink_closed :: "'c sink_view_ops \<Rightarrow> SubscriptionSink \<Rightarrow> 'c sub_state \<Rightarrow> unit poll" where
  "SubscriptionSink_closed view s st = (case MethodSink_closed view (sk_inner s) (st_conns st) of
       Ready _ \<Rightarrow> Ready ()
     | Pending \<Rightarrow> unsubscribed (sk_unsubscribe s) st)"

definition SubscriptionSink_capacity :: "'c sink_view_ops \<Rightarrow> SubscriptionSink \<Rightarrow> 'c sub_state \<Rightarrow> nat" where
  "SubscriptionSink_capacity view s st = MethodSink_capacity view (sk_inner s) (st_conns st)"

definition SubscriptionSink_max_capacity :: "'c sink_view_ops \<Rightarrow> SubscriptionSink \<Rightarrow> 'c sub_state \<Rightarrow> nat" where
  "SubscriptionSink_max_capacity view s st = MethodSink_max_capacity view (sk_inner s) (st_conns st)"

section \<open>Subscriptions on a module\<close>

record ServerSubscription =
  ssb_rx :: nat
  ssb_sub_id :: SubscriptionId

definition ServerSubscription_close :: "'c sink_view_ops \<Rightarrow> ServerSubscription \<Rightarrow> 'c \<Rightarrow> 'c" where
  "ServerSubscription_close view s c = sv_close view (ssb_rx s) c"

definition ServerSubscription_id :: "ServerSubscription \<Rightarrow> SubscriptionId" where
  "ServerSubscription_id s = ssb_sub_id s"

definition ServerSubscription_poll ::
  "'c sink_view_ops \<Rightarrow> (string \<Rightarrow> 't SubscriptionPayload Notification option) \<Rightarrow> (string \<Rightarrow> bool) \<Rightarrow> ServerSubscription \<Rightarrow> 'c \<Rightarrow>
     ('t \<times> SubscriptionId, MethodsError) result option poll \<times> 'c" where
  "ServerSubscription_poll view de_notif is_sub_error s c = (case sv_recv view (ssb_rx s) c of
       (Pending, c') \<Rightarrow> (Pending, c')
     | (Ready raw, c') \<Rightarrow> (Ready (ServerSubscription_next de_notif is_sub_error raw), c'))"

definition ServerSubscription_drop :: "'c sink_view_ops \<Rightarrow> ServerSubscription \<Rightarrow> 'c \<Rightarrow> 'c" where
  "ServerSubscription_drop view s c = ServerSubscription_close view s c"

definition subscribe_unbounded ::
  "emitter \<Rightarrow> 'c module_chan_ops \<Rightarrow> (string \<Rightarrow> string Response option) \<Rightarrow> (string \<Rightarrow> SubscriptionId option) \<Rightarrow>
     ('c, 'u) server_world Methods \<Rightarrow> u64 \<Rightarrow> string \<Rightarrow> string option option \<Rightarrow> ('c, 'u) server_world \<Rightarrow>
     (SubscriptionId \<times> nat, MethodsError) result awaited \<times> ('c, 'u) server_world" where
  "subscribe_unbounded emit chan de_rp de_sub m random sub_method params w =
     Methods_subscribe emit chan de_rp de_sub m random sub_method params (unat (- 1 :: u32)) w"

text \<open>Small operations of modules; mutable access is a function applied to what the reference points to.\<close>

fun as_response :: "CallOrSubscription \<Rightarrow> MethodResponse" where
  "as_response (CosSubscription r) = r"
| "as_response (CosCall r) = r"

definition Methods_extensions :: "'w Methods \<Rightarrow> extensions" where
  "Methods_extensions m = ms_extensions m"

definition Methods_extensions_mut :: "(extensions \<Rightarrow> extensions) \<Rightarrow> 'w Methods \<Rightarrow> 'w Methods" where
  "Methods_extensions_mut f m = m\<lparr>ms_extensions := f (ms_extensions m)\<rparr>"

definition RpcModule_from_arc :: "'ctx \<Rightarrow> ('ctx, 'w) RpcModule" where
  "RpcModule_from_arc ctx = \<lparr>rm_ctx = ctx, rm_methods = Methods_new\<rparr>"

definition Methods_from_module :: "('ctx, 'w) RpcModule \<Rightarrow> 'w Methods" where
  "Methods_from_module m = rm_methods m"

definition deref_mut :: "('w Methods \<Rightarrow> 'w Methods) \<Rightarrow> ('ctx, 'w) RpcModule \<Rightarrow> ('ctx, 'w) RpcModule" where
  "deref_mut f m = m\<lparr>rm_methods := f (rm_methods m)\<rparr>"

text \<open>What user code does with its sink: it sends items, one after the other.\<close>

definition publish ::
  "emitter \<Rightarrow> 'c sink_ops \<Rightarrow> nat \<Rightarrow> SubscriptionSink \<Rightarrow> SubMessage \<Rightarrow> ('c, 'u) server_world \<Rightarrow>
     (unit, DisconnectError) result \<times> ('c, 'u) server_world" where
  "publish emit ops t s msg w =
     (let (r, st) = SubscriptionSink_send emit ops s msg (table_get t w) in (r, table_put t st w))"

fun publish_all ::
  "emitter \<Rightarrow> 'c sink_ops \<Rightarrow> nat \<Rightarrow> SubscriptionSink \<Rightarrow> SubMessage list \<Rightarrow> ('c, 'u) server_world \<Rightarrow>
     (unit, DisconnectError) result list \<times> ('c, 'u) server_world" where
  "publish_all emit ops t s [] w = ([], w)"
| "publish_all emit ops t s (msg # msgs) w =
     (let (r, w1) = publish emit ops t s msg w; (rs, w2) = publish_all emit ops t s msgs w1 in (r # rs, w2))"

definition accepted_sink :: "PendingSubscriptionSink \<Rightarrow> nat \<Rightarrow> SubscriptionSink" where
  "accepted_sink p k = \<lparr>sk_inner = ps_inner p, sk_method = ps_method p, sk_uniq_sub = ps_uniq_sub p, sk_unsubscribe = k\<rparr>"

definition item_text :: "emitter \<Rightarrow> SubscriptionSink \<Rightarrow> string \<Rightarrow> string" where
  "item_text emit s x = sub_message_to_json emit (NeedsData x) (key_sub_id (sk_uniq_sub s)) (sk_method s)"

fun try_send_all ::
  "emitter \<Rightarrow> 'c sink_ops \<Rightarrow> SubscriptionSink \<Rightarrow> SubMessage list \<Rightarrow> 'c sub_state \<Rightarrow>
     (unit, TrySendError) result list \<times> 'c sub_state" where
  "try_send_all emit ops s [] st = ([], st)"
| "try_send_all emit ops s (msg # msgs) st =
     (let (r, st1) = SubscriptionSink_try_send emit ops s msg st; (rs, st2) = try_send_all emit ops s msgs st1 in (r # rs, st2))"

text \<open>A reader that takes items as long as its list of turns says.\<close>

fun read_items ::
  "'c sink_view_ops \<Rightarrow> (string \<Rightarrow> 't SubscriptionPayload Notification option) \<Rightarrow> (string \<Rightarrow> bool) \<Rightarrow> ServerSubscription \<Rightarrow> nat \<Rightarrow> 'c \<Rightarrow>
     ('t \<times> SubscriptionId, MethodsError) result option poll list \<times> 'c" where
  "read_items view de_notif is_sub_error s 0 c = ([], c)"
| "read_items view de_notif is_sub_error s (Suc n) c =
     (let (r, c1) = ServerSubscription_poll view de_notif is_sub_error s c;
          (rs, c2) = read_items view de_notif is_sub_error s n c1 in (r # rs, c2))"

section \<open>The contract of the channels\<close>

lemma u32_max: "unat (- 1 :: u32) = 4294967295"
  by (simp add: unsigned_minus_1_eq_mask mask_eq_exp_minus_1)

lemma accept_answer_on_close: "mr_on_close (accept_answer emit p) = None"
  by (cases "emit (Response_serialize SubscriptionId_serialize (Response_new (Success (key_sub_id (ps_uniq_sub p))) (ps_id p)))")
     (simp add: accept_answer_def subscription_response_def response_branches MethodResponse_error_def)

text \<open>
  A bounded first-in first-out queue per channel. \<open>try_send\<close> and \<open>send\<close> append to an open channel that has room
  and change nothing else; a closed channel refuses; a full one refuses \<open>try_send\<close>. The reader takes
  from the front, also after it has closed the channel.
\<close>

locale sink_channels =
  fixes ops :: "'c sink_ops" and chan :: "'c module_chan_ops" and view :: "'c sink_view_ops"
    and queue :: "nat \<Rightarrow> 'c \<Rightarrow> string list" and is_open :: "nat \<Rightarrow> 'c \<Rightarrow> bool"
  assumes closed_flag: "so_is_closed ops k c \<longleftrightarrow> \<not> is_open k c"
    and closed_poll: "sv_closed view k c = (if is_open k c then Pending else Ready ())"
    and capacity: "sv_capacity view k c = sv_max_capacity view k c - length (queue k c)"
    and reserve: "sv_reserve view k c =
      (if \<not> is_open k c then Ready False else if 0 < sv_capacity view k c then Ready True else Pending)"
    and try_closed: "\<not> is_open k c \<Longrightarrow> so_try_send ops k m c = (SendClosed, c)"
    and try_full: "is_open k c \<Longrightarrow> sv_capacity view k c = 0 \<Longrightarrow> so_try_send ops k m c = (SendFull, c)"
    and try_room: "is_open k c \<Longrightarrow> 0 < sv_capacity view k c \<Longrightarrow> fst (so_try_send ops k m c) = SendOk"
    and send_closed: "\<not> is_open k c \<Longrightarrow> so_send ops k m c = (False, c)"
    and send_room: "is_open k c \<Longrightarrow> 0 < sv_capacity view k c \<Longrightarrow> so_send ops k m c = (True, snd (so_try_send ops k m c))"
    and sent_queue: "is_open k c \<Longrightarrow> 0 < sv_capacity view k c \<Longrightarrow>
      queue j (snd (so_try_send ops k m c)) = (if j = k then queue k c @ [m] else queue j c)"
    and sent_open: "is_open k c \<Longrightarrow> 0 < sv_capacity view k c \<Longrightarrow> is_open j (snd (so_try_send ops k m c)) = is_open j c"
    and sent_max: "sv_max_capacity view j (snd (so_try_send ops k m c)) = sv_max_capacity view j c"
    and channel: "co_channel chan n c = (k, c') \<Longrightarrow> is_open k c' \<and> queue k c' = [] \<and> sv_max_capacity view k c' = n"
    and take_first: "queue k c = m # ms \<Longrightarrow> \<exists>c'. co_take chan k c = Some (m, c') \<and> queue k c' = ms \<and>
      is_open k c' = is_open k c \<and> sv_max_capacity view k c' = sv_max_capacity view k c"
    and recv_first: "queue k c = m # ms \<Longrightarrow> \<exists>c'. sv_recv view k c = (Ready (Some m), c') \<and> queue k c' = ms \<and>
      is_open k c' = is_open k c"
    and recv_empty: "queue k c = [] \<Longrightarrow> sv_recv view k c = (if is_open k c then Pending else Ready None, c)"
    and close_queue: "queue j (sv_close view k c) = queue j c"
    and close_open: "is_open j (sv_close view k c) \<longleftrightarrow> is_open j c \<and> j \<noteq> k"
begin

text \<open>The future \<open>closed\<close> is ready exactly when \<open>is_closed\<close> says so.\<close>

lemma closed_iff: "SubscriptionSink_closed view s st = Ready () \<longleftrightarrow> SubscriptionSink_is_closed ops s st"
  by (simp add: SubscriptionSink_closed_def MethodSink_closed_def closed_poll unsubscribed_def SubscriptionSink_is_closed_def
      MethodSink_is_closed_def closed_flag is_active_subscription_def)

text \<open>When \<open>has_capacity\<close> returns, an attempt to send is not refused for want of room.\<close>

lemma has_capacity_spec:
  "has_capacity view s c = Ready r \<Longrightarrow> (case r of
     Inr _ \<Rightarrow> fst (MethodSink_try_send ops s m c) = Inr ()
   | Inl e \<Rightarrow> e = DisconnectError (NeedsData ''null'') \<and> MethodSink_try_send ops s m c = (Inl (TSClosed (Complete m)), c))"
  using try_room [of "ms_tx s" c m]
  by (auto simp: has_capacity_def reserve MethodSink_try_send_def try_closed SubscriptionMessage_from_def split_beta
      split: if_splits sum.splits)

lemma try_send_full:
  assumes "is_open (ms_tx (sk_inner s)) (st_conns st)" "is_active_subscription s st" "SubscriptionSink_capacity view s st = 0"
  shows "SubscriptionSink_try_send emit ops s msg st =
    (Inl (TSFull (Complete (sub_message_to_json emit msg (key_sub_id (sk_uniq_sub s)) (sk_method s)))), st)"
  using assms try_full [of "ms_tx (sk_inner s)" "st_conns st"]
  by (simp add: SubscriptionSink_try_send_def SubscriptionSink_is_closed_def MethodSink_is_closed_def closed_flag
      MethodSink_try_send_def SubscriptionSink_capacity_def MethodSink_capacity_def)

lemma send_open:
  assumes "is_open (ms_tx (sk_inner s)) (st_conns st)" "is_active_subscription s st" "0 < SubscriptionSink_capacity view s st"
  shows "SubscriptionSink_send emit ops s msg st = (Inr (), st\<lparr>st_conns := snd (so_try_send ops (ms_tx (sk_inner s))
      (sub_message_to_json emit msg (key_sub_id (sk_uniq_sub s)) (sk_method s)) (st_conns st))\<rparr>)"
  using assms send_room [of "ms_tx (sk_inner s)" "st_conns st"]
  by (simp add: SubscriptionSink_send_def SubscriptionSink_is_closed_def MethodSink_is_closed_def closed_flag
      MethodSink_send_def SubscriptionSink_capacity_def MethodSink_capacity_def)

lemma try_send_open:
  assumes "is_open (ms_tx (sk_inner s)) (st_conns st)" "is_active_subscription s st" "0 < SubscriptionSink_capacity view s st"
  shows "SubscriptionSink_try_send emit ops s msg st = (Inr (), st\<lparr>st_conns := snd (so_try_send ops (ms_tx (sk_inner s))
      (sub_message_to_json emit msg (key_sub_id (sk_uniq_sub s)) (sk_method s)) (st_conns st))\<rparr>)"
proof -
  obtain c where "so_try_send ops (ms_tx (sk_inner s))
      (sub_message_to_json emit msg (key_sub_id (sk_uniq_sub s)) (sk_method s)) (st_conns st) = (SendOk, c)"
    using assms(1,3) try_room by (metis MethodSink_capacity_def SubscriptionSink_capacity_def prod.collapse)
  with assms(1,2) show ?thesis
    by (simp add: SubscriptionSink_try_send_def SubscriptionSink_is_closed_def MethodSink_is_closed_def closed_flag
        MethodSink_try_send_def)
qed

text \<open>A burst of attempts: as many as there is room for are accepted, in order; the rest comes back rendered.\<close>

lemma try_send_burst:
  assumes "is_open (ms_tx (sk_inner s)) (st_conns st)" "is_active_subscription s st"
    and "render = (\<lambda>m. sub_message_to_json emit m (key_sub_id (sk_uniq_sub s)) (sk_method s))"
    and "n = SubscriptionSink_capacity view s st"
  shows "\<exists>st'. try_send_all emit ops s msgs st = (map (\<lambda>_. Inr ()) (take n msgs) @
      map (\<lambda>m. Inl (TSFull (Complete (render m)))) (drop n msgs), st') \<and>
    queue (ms_tx (sk_inner s)) (st_conns st') = queue (ms_tx (sk_inner s)) (st_conns st) @ map render (take n msgs) \<and>
    is_open (ms_tx (sk_inner s)) (st_conns st') \<and> is_active_subscription s st' \<and>
    SubscriptionSink_capacity view s st' = n - length msgs"
  using assms
proof (induction msgs arbitrary: st n)
  case (Cons m ms)
  let ?k = "ms_tx (sk_inner s)"
  show ?case
  proof (cases n)
    case 0
    with Cons.prems have t: "SubscriptionSink_try_send emit ops s m st = (Inl (TSFull (Complete (render m))), st)"
      using try_send_full [OF Cons.prems(1,2)] by simp
    from Cons.IH [OF Cons.prems] 0 show ?thesis by (auto simp: t)
  next
    case (Suc n')
    let ?c = "snd (so_try_send ops ?k (render m) (st_conns st))"
    have room: "0 < SubscriptionSink_capacity view s st" using Suc Cons.prems(4) by simp
    then have cap: "0 < sv_capacity view ?k (st_conns st)" by (simp add: SubscriptionSink_capacity_def MethodSink_capacity_def)
    have t: "SubscriptionSink_try_send emit ops s m st = (Inr (), st\<lparr>st_conns := ?c\<rparr>)"
      using try_send_open [OF Cons.prems(1,2) room] Cons.prems(3) by simp
    have q: "queue ?k ?c = queue ?k (st_conns st) @ [render m]" and o: "is_open ?k ?c"
      using sent_queue [OF Cons.prems(1) cap] sent_open [OF Cons.prems(1) cap] Cons.prems(1) by simp_all
    have n': "n' = SubscriptionSink_capacity view s (st\<lparr>st_conns := ?c\<rparr>)"
      using Suc Cons.prems(4) q by (simp add: SubscriptionSink_capacity_def MethodSink_capacity_def capacity sent_max)
    have "is_active_subscription s (st\<lparr>st_conns := ?c\<rparr>)"
      using Cons.prems(2) by (simp add: is_active_subscription_def is_unsubscribed_def)
    from Cons.IH [OF _ this Cons.prems(3) n'] o q Suc show ?thesis by (auto simp: t)
  qed
qed auto

lemma publish_all_room:
  assumes "is_open (ms_tx (sk_inner s)) (wd_conns w)" "sk_unsubscribe s \<notin> wd_closed w"
    and "length xs \<le> sv_capacity view (ms_tx (sk_inner s)) (wd_conns w)"
  shows "\<exists>c. publish_all emit ops t s (map NeedsData xs) w = (replicate (length xs) (Inr ()), w\<lparr>wd_conns := c\<rparr>) \<and>
    queue (ms_tx (sk_inner s)) c = queue (ms_tx (sk_inner s)) (wd_conns w) @ map (item_text emit s) xs \<and>
    is_open (ms_tx (sk_inner s)) c"
  using assms
proof (induction xs arbitrary: w)
  case Nil
  then show ?case by (intro exI [of _ "wd_conns w"]) simp
next
  case (Cons x xs)
  let ?k = "ms_tx (sk_inner s)"
  let ?c = "snd (so_try_send ops ?k (item_text emit s x) (wd_conns w))"
  have cap: "0 < sv_capacity view ?k (wd_conns w)" using Cons.prems(3) by simp
  have p: "publish emit ops t s (NeedsData x) w = (Inr (), w\<lparr>wd_conns := ?c\<rparr>)"
    using Cons.prems(1,2) cap send_open [of s "table_get t w"]
    by (simp add: publish_def table_get_def table_put_def is_active_subscription_def is_unsubscribed_def item_text_def
        SubscriptionSink_capacity_def MethodSink_capacity_def)
  have "queue ?k ?c = queue ?k (wd_conns w) @ [item_text emit s x]" "is_open ?k ?c"
    "length xs \<le> sv_capacity view ?k ?c"
    using sent_queue [OF Cons.prems(1) cap] sent_open [OF Cons.prems(1) cap] Cons.prems(1,3) by (simp_all add: capacity sent_max)
  with Cons.IH [of "w\<lparr>wd_conns := ?c\<rparr>"] Cons.prems(2) show ?case by (auto simp: p)
qed

text \<open>The reader gets the items of the channel in order and then waits, or sees the end when it has closed the channel.\<close>

lemma read_items_queue:
  assumes "queue (ssb_rx s) c = map f xs"
    and "\<forall>x \<in> set xs. de_notif (f x) = Some (Notification_new meth \<lparr>sp_subscription = sid, sp_result = v x\<rparr>)"
  shows "\<exists>c'. read_items view de_notif is_err s (length xs) c = (map (\<lambda>x. Ready (Some (Inr (v x, sid)))) xs, c') \<and>
    queue (ssb_rx s) c' = [] \<and> is_open (ssb_rx s) c' = is_open (ssb_rx s) c"
  using assms
proof (induction xs arbitrary: c)
  case (Cons x xs)
  from recv_first Cons.prems(1) obtain c' where c':
    "sv_recv view (ssb_rx s) c = (Ready (Some (f x)), c')" "queue (ssb_rx s) c' = map f xs"
    "is_open (ssb_rx s) c' = is_open (ssb_rx s) c" by (metis list.simps(9))
  then have "ServerSubscription_poll view de_notif is_err s c = (Ready (Some (Inr (v x, sid))), c')"
    using Cons.prems(2) by (simp add: ServerSubscription_poll_def ServerSubscription_next_def Notification_new_def)
  with Cons.IH [OF c'(2)] Cons.prems(2) c'(3) show ?case by auto
qed auto

text \<open>The subscription callback whose handler accepts.\<close>

lemma accepted_call:
  fixes w :: "('c, 'u) server_world"
  assumes "SubscriptionCb f = subscription_callback emit notif (\<lambda>_ p _. accepting emit ops (\<lambda>_. True) t p)"
    and "p = fst (pending_sink notif i sink conn w)" and "is_open (ms_tx sink) (wd_conns w)"
    and "0 < sv_capacity view (ms_tx sink) (wd_conns w)" and "wd_next w \<notin> fst ` set (wd_answers w)"
    and "MethodResponse_is_success (accept_answer emit p)" and "wd_tables w t (ps_uniq_sub p) = None"
  shows "\<exists>w1. f i ps sink conn ext w = (with_extensions ext (accept_answer emit p), w1) \<and>
    wd_conns w1 = snd (so_try_send ops (ms_tx sink) (mr_json (accept_answer emit p)) (wd_conns w)) \<and>
    wd_closed w1 = wd_closed w"
    and "fst (PendingSubscriptionSink_accept emit ops (\<lambda>_. True) p (table_get t (w\<lparr>wd_next := Suc (wd_next w)\<rparr>))) =
      Done (Inr (accepted_sink p (wd_next w + 1)))"
proof -
  let ?w0 = "w\<lparr>wd_next := Suc (wd_next w)\<rparr>"
  have pend: "pending_sink notif i sink conn w = (p, ?w0)" "ps_inner p = sink" "ps_subscribe p = wd_next w"
    using assms(2) by (simp_all add: pending_sink_def)
  have sent: "so_send ops (ms_tx (ps_inner p)) (mr_json (accept_answer emit p)) (wd_conns ?w0) =
      (True, snd (so_try_send ops (ms_tx sink) (mr_json (accept_answer emit p)) (wd_conns w)))"
    using send_room [OF assms(3,4)] pend by simp
  note acc = accepting_delivered [OF sent, of "\<lambda>_. True" t, OF TrueI assms(6)]
  have closed: "wd_closed (accepting emit ops (\<lambda>_. True) t p ?w0) = wd_closed w"
    using sent assms(7) accept_delivered [of ops p emit "table_get t ?w0" _ "\<lambda>_. True", OF _ TrueI assms(6)]
    by (simp add: accepting_def table_get_def table_put_def subscribers_insert_def close_entry_def)
  from assms(1,5,6) pend acc closed
  show "\<exists>w1. f i ps sink conn ext w = (with_extensions ext (accept_answer emit p), w1) \<and>
      wd_conns w1 = snd (so_try_send ops (ms_tx sink) (mr_json (accept_answer emit p)) (wd_conns w)) \<and> wd_closed w1 = wd_closed w"
    by (simp add: subscription_callback_def map_of_append_fresh Let_def del: map_of_append)
  show "fst (PendingSubscriptionSink_accept emit ops (\<lambda>_. True) p (table_get t ?w0)) = Done (Inr (accepted_sink p (wd_next w + 1)))"
    using sent assms(6) by (simp add: PendingSubscriptionSink_accept_def accept_answer_def MethodSink_send_def accepted_sink_def
        table_get_def Let_def)
qed

lemma subscribe_unbounded_accepted:
  fixes w :: "('c, 'u) server_world"
  assumes reg: "register_subscription emit de_id t sub notif unsub (\<lambda>_ p _ _. accepting emit ops (\<lambda>_. True) t p) m = (Inr (), m')"
    and ch: "co_channel chan (unat (- 1 :: u32)) (wd_conns w) = (rx, c)"
    and p: "p = fst (pending_sink notif (Number 0) (MethodSink_new rx)
      \<lparr>ss_conn_id = 0, ss_next_id = RandomIntegerIdProvider_next_id random\<rparr> (w\<lparr>wd_conns := c\<rparr>))"
    and succ: "MethodResponse_is_success (accept_answer emit p)"
    and de: "de_rp (mr_json (accept_answer emit p)) = Some (Response_new (Success r) (Number 0))" "de_sub r = Some sid"
    and free: "wd_next w \<notin> fst ` set (wd_answers w)" "wd_tables w t (ps_uniq_sub p) = None"
  shows "\<exists>w1. subscribe_unbounded emit chan de_rp de_sub (rm_methods m') random sub (Some ps) w = (Returned (Inr (sid, rx)), w1) \<and>
    queue rx (wd_conns w1) = [] \<and> is_open rx (wd_conns w1) \<and> sv_max_capacity view rx (wd_conns w1) = unat (- 1 :: u32) \<and>
    wd_closed w1 = wd_closed w"
    and "fst (PendingSubscriptionSink_accept emit ops (\<lambda>_. True) p (table_get t (w\<lparr>wd_conns := c, wd_next := wd_next w + 1\<rparr>))) =
      Done (Inr (accepted_sink p (wd_next w + 1)))"
proof -
  let ?w = "w\<lparr>wd_conns := c\<rparr>" and ?sink = "MethodSink_new rx"
  obtain f :: "Id \<Rightarrow> Params \<Rightarrow> MethodSink \<Rightarrow> SubscriptionState \<Rightarrow> extensions \<Rightarrow> ('c, 'u) server_world \<Rightarrow> MethodResponse \<times> ('c, 'u) server_world"
    where f: "SubscriptionCb f = subscription_callback emit notif (\<lambda>_ p _. accepting emit ops (\<lambda>_. True) t p)"
    by (simp add: subscription_callback_def)
  have cb: "callbacks (rm_methods m') sub = Some (SubscriptionCb f)"
    using reg f by (auto simp: register_subscription_result split: if_splits)
  have tx: "ms_tx ?sink = rx" by (simp add: MethodSink_new_def)
  have fresh: "is_open rx c" "queue rx c = []" "sv_max_capacity view rx c = unat (- 1 :: u32)" "0 < sv_capacity view rx c"
    using channel [OF ch] by (simp_all add: capacity u32_max)
  let ?c1 = "snd (so_try_send ops rx (mr_json (accept_answer emit p)) c)"
  have c1: "queue rx ?c1 = [mr_json (accept_answer emit p)]" "is_open rx ?c1" "sv_max_capacity view rx ?c1 = unat (- 1 :: u32)"
    using sent_queue [OF fresh(1,4)] sent_open [OF fresh(1,4)] fresh by (simp_all add: sent_max)
  then obtain c2 where c2: "co_take chan rx ?c1 = Some (mr_json (accept_answer emit p), c2)" "queue rx c2 = []" "is_open rx c2"
    "sv_max_capacity view rx c2 = unat (- 1 :: u32)" using take_first by metis
  obtain w1 where w1: "f (Number 0) (Params_new ps) ?sink \<lparr>ss_conn_id = 0, ss_next_id = RandomIntegerIdProvider_next_id random\<rparr>
      ((ms_extensions (rm_methods m'))(''ConnectionId'' \<mapsto> nat_to_string 0)) ?w =
      (with_extensions ((ms_extensions (rm_methods m'))(''ConnectionId'' \<mapsto> nat_to_string 0)) (accept_answer emit p), w1)"
    "wd_conns w1 = ?c1" "wd_closed w1 = wd_closed w"
    using accepted_call(1) [OF f p, where ps = "Params_new ps" and ext = "(ms_extensions (rm_methods m'))(''ConnectionId'' \<mapsto> nat_to_string 0)"]
      fresh tx free succ by auto
  have close: "mr_on_close (accept_answer emit p) = None" by (simp add: accept_answer_on_close)
  have "inner_call emit chan (rm_methods m') random (Request_borrowed sub ps (Number 0)) (unat (- 1 :: u32)) w =
      (Returned (mr_json (accept_answer emit p), rx), w1\<lparr>wd_conns := c2\<rparr>)"
    using w1(1,2) c2(1) close
    by (simp add: inner_call_def ch [unfolded u32_max] cb Request_borrowed_def Methods_method_def u32_max Let_def)
  with de c2 w1(3)
  show "\<exists>w1. subscribe_unbounded emit chan de_rp de_sub (rm_methods m') random sub (Some ps) w = (Returned (Inr (sid, rx)), w1) \<and>
      queue rx (wd_conns w1) = [] \<and> is_open rx (wd_conns w1) \<and> sv_max_capacity view rx (wd_conns w1) = unat (- 1 :: u32) \<and>
      wd_closed w1 = wd_closed w"
    by (simp add: subscribe_unbounded_def Methods_subscribe_def mock_subscription_permit_def BoundedSubscriptions_acquire_def
        Success_try_from_def Response_new_def)
  show "fst (PendingSubscriptionSink_accept emit ops (\<lambda>_. True) p (table_get t (w\<lparr>wd_conns := c, wd_next := wd_next w + 1\<rparr>))) =
      Done (Inr (accepted_sink p (wd_next w + 1)))"
    using accepted_call(2) [OF f p] fresh tx free succ by simp
qed

end

section \<open>A store of channels\<close>

record mpsc =
  mq_items :: "string list"
  mq_max :: nat
  mq_open :: bool

record mpsc_store =
  mk_chans :: "nat \<Rightarrow> mpsc"
  mk_next :: nat

definition mpsc_update :: "nat \<Rightarrow> (mpsc \<Rightarrow> mpsc) \<Rightarrow> mpsc_store \<Rightarrow> mpsc_store" where
  "mpsc_update k f c = c\<lparr>mk_chans := (mk_chans c)(k := f (mk_chans c k))\<rparr>"

definition mpsc_room :: "nat \<Rightarrow> mpsc_store \<Rightarrow> bool" where
  "mpsc_room k c = (length (mq_items (mk_chans c k)) < mq_max (mk_chans c k))"

definition mpsc_append :: "nat \<Rightarrow> string \<Rightarrow> mpsc_store \<Rightarrow> mpsc_store" where
  "mpsc_append k m c = (if mq_open (mk_chans c k) \<and> mpsc_room k c then mpsc_update k (\<lambda>q. q\<lparr>mq_items := mq_items q @ [m]\<rparr>) c else c)"

definition mpsc_try_send :: "nat \<Rightarrow> string \<Rightarrow> mpsc_store \<Rightarrow> try_send_result \<times> mpsc_store" where
  "mpsc_try_send k m c =
     (if \<not> mq_open (mk_chans c k) then SendClosed else if mpsc_room k c then SendOk else SendFull, mpsc_append k m c)"

definition mpsc_ops :: "mpsc_store sink_ops" where
  "mpsc_ops = \<lparr>so_send = (\<lambda>k m c. (mq_open (mk_chans c k), mpsc_append k m c)), so_try_send = mpsc_try_send,
     so_send_timeout = (\<lambda>k m _ c. (case mpsc_try_send k m c of
         (SendOk, c') \<Rightarrow> (SentInTime, c') | (SendClosed, c') \<Rightarrow> (SendTimeoutClosed, c') | (SendFull, c') \<Rightarrow> (SendTimedOut, c'))),
     so_is_closed = (\<lambda>k c. \<not> mq_open (mk_chans c k))\<rparr>"

definition mpsc_chan :: "mpsc_store module_chan_ops" where
  "mpsc_chan = \<lparr>co_channel = (\<lambda>n c. (mk_next c, c\<lparr>mk_chans := (mk_chans c)(mk_next c := \<lparr>mq_items = [], mq_max = n, mq_open = True\<rparr>),
       mk_next := mk_next c + 1\<rparr>)),
     co_take = (\<lambda>k c. case mq_items (mk_chans c k) of
         [] \<Rightarrow> None | m # ms \<Rightarrow> Some (m, mpsc_update k (\<lambda>q. q\<lparr>mq_items := ms\<rparr>) c))\<rparr>"

definition mpsc_view :: "mpsc_store sink_view_ops" where
  "mpsc_view = \<lparr>sv_capacity = (\<lambda>k c. mq_max (mk_chans c k) - length (mq_items (mk_chans c k))),
     sv_max_capacity = (\<lambda>k c. mq_max (mk_chans c k)),
     sv_reserve = (\<lambda>k c. if \<not> mq_open (mk_chans c k) then Ready False else if mpsc_room k c then Ready True else Pending),
     sv_closed = (\<lambda>k c. if mq_open (mk_chans c k) then Pending else Ready ()),
     sv_recv = (\<lambda>k c. case mq_items (mk_chans c k) of
         [] \<Rightarrow> (if mq_open (mk_chans c k) then Pending else Ready None, c)
       | m # ms \<Rightarrow> (Ready (Some m), mpsc_update k (\<lambda>q. q\<lparr>mq_items := ms\<rparr>) c)),
     sv_close = (\<lambda>k. mpsc_update k (\<lambda>q. q\<lparr>mq_open := False\<rparr>))\<rparr>"

lemmas mpsc_defs = mpsc_ops_def mpsc_chan_def mpsc_view_def mpsc_try_send_def mpsc_append_def mpsc_room_def mpsc_update_def

interpretation mpsc: sink_channels mpsc_ops mpsc_chan mpsc_view "\<lambda>k c. mq_items (mk_chans c k)" "\<lambda>k c. mq_open (mk_chans c k)"
  by unfold_locales (auto simp: mpsc_defs)

section \<open>Properties\<close>

text \<open>C29. Back pressure on the sink of a subscription: of a burst of messages that are sent without waiting, as many as
  the channel has room for are queued in order; every other one comes back in an error that carries
  the text it would have had on the wire, so that sending what came back, once the channel has room
  again, queues that same text.\<close>

theorem sink_backpressure:
  assumes "sink_channels ops chan view queue is_open"
    and "\<not> SubscriptionSink_is_closed ops s st" and "n = SubscriptionSink_capacity view s st"
    and "n \<le> i" "i < length msgs"
    and "\<not> SubscriptionSink_is_closed ops s st'" and "0 < SubscriptionSink_capacity view s st'"
  shows "let k = ms_tx (sk_inner s); render = (\<lambda>m. sub_message_to_json emit m (Sink_subscription_id s) (Sink_method_name s));
      (rs, st1) = try_send_all emit ops s msgs st
    in length rs = length msgs \<and> take n rs = replicate n (Inr ()) \<and>
       queue k (st_conns st1) = queue k (st_conns st) @ map render (take n msgs) \<and>
       (\<exists>refused. rs ! i = Inl (TSFull refused) \<and>
          fst (SubscriptionSink_try_send emit ops s refused st') = Inr () \<and>
          queue k (st_conns (snd (SubscriptionSink_try_send emit ops s refused st'))) = queue k (st_conns st') @ [render (msgs ! i)])"
proof -
  let ?k = "ms_tx (sk_inner s)"
  let ?render = "\<lambda>m. sub_message_to_json emit m (key_sub_id (sk_uniq_sub s)) (sk_method s)"
  have o: "is_open ?k (st_conns st)" "is_active_subscription s st" "is_open ?k (st_conns st')" "is_active_subscription s st'"
    using assms(2,6) sink_channels.closed_flag [OF assms(1)] by (simp_all add: SubscriptionSink_is_closed_def MethodSink_is_closed_def)
  from sink_channels.try_send_burst [OF assms(1) o(1,2) refl assms(3), of emit msgs] obtain st1 where st1:
    "try_send_all emit ops s msgs st = (map (\<lambda>_. Inr ()) (take n msgs) @ map (\<lambda>m. Inl (TSFull (Complete (?render m)))) (drop n msgs), st1)"
    "queue ?k (st_conns st1) = queue ?k (st_conns st) @ map ?render (take n msgs)" by auto
  let ?refused = "Complete (?render (msgs ! i))"
  have cap: "0 < sv_capacity view ?k (st_conns st')"
    using assms(7) by (simp add: SubscriptionSink_capacity_def MethodSink_capacity_def)
  have same: "?render ?refused = ?render (msgs ! i)" by (simp add: sub_message_to_json_def)
  note again = sink_channels.try_send_open [OF assms(1) o(3,4) assms(7), of emit ?refused]
    sink_channels.sent_queue [OF assms(1) o(3) cap]
  have n: "length (take n msgs) = n" using assms(4,5) by simp
  then have "map (\<lambda>_. Inr ()) (take n msgs) = (replicate n (Inr ()) :: (unit, TrySendError) result list)"
    by (metis map_replicate_const)
  with st1 again assms(4,5) n same show ?thesis
    by (simp add: Sink_subscription_id_def Sink_method_name_def nth_append)
qed

definition example_store :: mpsc_store where
  "example_store = \<lparr>mk_chans = (\<lambda>_. \<lparr>mq_items = [], mq_max = 1, mq_open = True\<rparr>), mk_next = 1\<rparr>"

definition example_store_state :: "mpsc_store sub_state" where
  "example_store_state = \<lparr>st_conns = example_store, st_subscribers = Map.empty, st_closed = {}, st_next = 0, st_permits = 0,
     st_answers = []\<rparr>"

theorem sink_backpressure_witness:
  "fst (try_send_all json_emit mpsc_ops (accepted_sink example_pending 0) [NeedsData ''1'', NeedsData ''2''] example_store_state)
     ! 0 = Inr ()"
proof -
  let ?s = "accepted_sink example_pending 0" and ?ms = "[NeedsData ''1'', NeedsData ''2'']"
  have o: "\<not> SubscriptionSink_is_closed mpsc_ops ?s example_store_state" "1 = SubscriptionSink_capacity mpsc_view ?s example_store_state"
    by (simp_all add: SubscriptionSink_is_closed_def MethodSink_is_closed_def mpsc_defs is_active_subscription_def is_unsubscribed_def
        example_store_state_def example_store_def SubscriptionSink_capacity_def MethodSink_capacity_def)
  let ?rs = "fst (try_send_all json_emit mpsc_ops ?s ?ms example_store_state)"
  have two: "1 < length ?ms" by simp
  have "0 < SubscriptionSink_capacity mpsc_view ?s example_store_state" using o(2) by linarith
  from sink_backpressure [OF mpsc.sink_channels_axioms o le_refl two o(1) this, of json_emit]
  have "length ?rs = length ?ms \<and> take 1 ?rs = replicate 1 (Inr ())" by (simp only: Let_def split_beta simp_thms)
  then show ?thesis by (cases ?rs) simp_all
qed

text \<open>C28. A subscription on a module without a server: when the registered handler accepts, \<open>subscribe_unbounded\<close> returns
  the id of the subscription, and the answer of the call is not among its items; everything the handler then sends
  arrives at the reader, in order, after which the reader waits. Once the reader is dropped the handler's next message is
  refused and given back, and \<open>closed\<close> of its sink returns.\<close>

theorem module_subscription_delivers:
  fixes w :: "('c, 'u) server_world"
  assumes "sink_channels ops chan view queue is_open"
    and "register_subscription emit de_id t sub notif unsub (\<lambda>_ p _ _. accepting emit ops (\<lambda>_. True) t p) m = (Inr (), m')"
    and "co_channel chan (unat (- 1 :: u32)) (wd_conns w) = (rx, c)"
    and "p = fst (pending_sink notif (Number 0) (MethodSink_new rx)
      \<lparr>ss_conn_id = 0, ss_next_id = RandomIntegerIdProvider_next_id random\<rparr> (w\<lparr>wd_conns := c\<rparr>))"
    and "s = accepted_sink p (wd_next w + 1)" and "MethodResponse_is_success (accept_answer emit p)"
    and "de_rp (mr_json (accept_answer emit p)) = Some (Response_new (Success r) (Number 0))" and "de_sub r = Some sid"
    and "wd_next w \<notin> fst ` set (wd_answers w)" and "wd_tables w t (ps_uniq_sub p) = None" and "wd_next w + 1 \<notin> wd_closed w"
    and "length xs < 2 ^ 32"
    and "\<forall>x \<in> set xs. de_notif (item_text emit s x) = Some (Notification_new notif \<lparr>sp_subscription = sid, sp_result = v x\<rparr>)"
  shows "fst (PendingSubscriptionSink_accept emit ops (\<lambda>_. True) p (table_get t (w\<lparr>wd_conns := c, wd_next := wd_next w + 1\<rparr>))) = Done (Inr s) \<and>
    (\<exists>w1 w2 cr. subscribe_unbounded emit chan de_rp de_sub (rm_methods m') random sub (Some ps) w = (Returned (Inr (sid, rx)), w1) \<and>
      publish_all emit ops t s (map NeedsData xs) w1 = (replicate (length xs) (Inr ()), w2) \<and>
      read_items view de_notif is_err \<lparr>ssb_rx = rx, ssb_sub_id = sid\<rparr> (length xs) (wd_conns w2) =
        (map (\<lambda>x. Ready (Some (Inr (v x, sid)))) xs, cr) \<and>
      ServerSubscription_poll view de_notif is_err \<lparr>ssb_rx = rx, ssb_sub_id = sid\<rparr> cr = (Pending, cr) \<and>
      (let w3 = w2\<lparr>wd_conns := ServerSubscription_drop view \<lparr>ssb_rx = rx, ssb_sub_id = sid\<rparr> cr\<rparr> in
        fst (publish emit ops t s msg w3) = Inl (DisconnectError msg) \<and>
        SubscriptionSink_closed view s (table_get t w3) = Ready ()))"
proof -
  note ch = sink_channels.closed_flag [OF assms(1)] sink_channels.recv_empty [OF assms(1)] sink_channels.close_open [OF assms(1)]
  have rx: "ms_tx (sk_inner s) = rx" and k: "sk_unsubscribe s = wd_next w + 1"
    using assms(4,5) by (simp_all add: accepted_sink_def pending_sink_def MethodSink_new_def)
  note accepted = sink_channels.subscribe_unbounded_accepted [OF assms(1-4,6), where de_rp = de_rp and r = r and de_sub = de_sub and sid = sid,
      OF assms(7-10)]
  from accepted(1) [of ps] obtain w1 where w1:
    "subscribe_unbounded emit chan de_rp de_sub (rm_methods m') random sub (Some ps) w = (Returned (Inr (sid, rx)), w1)"
    "queue rx (wd_conns w1) = []" "is_open rx (wd_conns w1)" "sv_max_capacity view rx (wd_conns w1) = unat (- 1 :: u32)"
    "wd_closed w1 = wd_closed w" by auto
  have "length xs \<le> sv_capacity view rx (wd_conns w1)"
    using assms(12) w1(2,4) sink_channels.capacity [OF assms(1)] by (simp add: u32_max)
  with sink_channels.publish_all_room [OF assms(1), of s w1 xs emit t] w1(2,3,5) k rx assms(11) obtain cw where cw:
    "publish_all emit ops t s (map NeedsData xs) w1 = (replicate (length xs) (Inr ()), w1\<lparr>wd_conns := cw\<rparr>)"
    "queue rx cw = map (item_text emit s) xs" "is_open rx cw" by auto
  from sink_channels.read_items_queue [OF assms(1), of "\<lparr>ssb_rx = rx, ssb_sub_id = sid\<rparr>", simplified, OF cw(2) assms(13), of is_err]
  obtain cr where cr: "read_items view de_notif is_err \<lparr>ssb_rx = rx, ssb_sub_id = sid\<rparr> (length xs) cw =
      (map (\<lambda>x. Ready (Some (Inr (v x, sid)))) xs, cr)" "queue rx cr = []" "is_open rx cr"
    using cw(3) by auto
  let ?w3 = "w1\<lparr>wd_conns := sv_close view rx cr\<rparr>"
  have gone: "SubscriptionSink_is_closed ops s (table_get t ?w3)"
    by (simp add: SubscriptionSink_is_closed_def MethodSink_is_closed_def ch rx table_get_def)
  then have "fst (publish emit ops t s msg ?w3) = Inl (DisconnectError msg)"
    by (simp add: publish_def SubscriptionSink_send_def)
  moreover have "SubscriptionSink_closed view s (table_get t ?w3) = Ready ()"
    using gone sink_channels.closed_iff [OF assms(1)] by simp
  moreover have "ServerSubscription_poll view de_notif is_err \<lparr>ssb_rx = rx, ssb_sub_id = sid\<rparr> cr = (Pending, cr)"
    using cr(2,3) ch(2) by (simp add: ServerSubscription_poll_def)
  ultimately show ?thesis
    using accepted(2) w1(1) cw(1) cr(1) assms(5)
    by (intro conjI exI [of _ w1] exI [of _ "w1\<lparr>wd_conns := cw\<rparr>"] exI [of _ cr])
       (simp_all add: ServerSubscription_drop_def ServerSubscription_close_def Let_def)
qed

definition example_store_world :: "(mpsc_store, unit) server_world" where
  "example_store_world = \<lparr>wd_conns = example_store, wd_tables = (\<lambda>_. Map.empty), wd_closed = {}, wd_next = 0, wd_permits = 0,
     wd_answers = [], wd_accepted = {}, wd_notified = [], wd_user = ()\<rparr>"

theorem module_subscription_delivers_witness:
  "\<exists>(m' :: (unit, (mpsc_store, unit) server_world) RpcModule) w1.
     register_subscription example_emit (\<lambda>_. Inr [Num 5]) 0 ''s'' ''m'' ''u''
       (\<lambda>_ p _ _. accepting example_emit mpsc_ops (\<lambda>_. True) 0 p) (RpcModule_new ()) = (Inr (), m') \<and>
     subscribe_unbounded example_emit mpsc_chan (\<lambda>_. Some (Response_new (Success ''5'') (Number 0))) (\<lambda>_. Some (Num 5))
       (rm_methods m') 5 ''s'' (Some None) example_store_world = (Returned (Inr (Num 5, 1)), w1)"
proof -
  let ?cb = "\<lambda>_ p _ _. accepting example_emit mpsc_ops (\<lambda>_. True) 0 p"
  let ?m = "RpcModule_new () :: (unit, (mpsc_store, unit) server_world) RpcModule"
  obtain m' where reg: "register_subscription example_emit (\<lambda>_. Inr [Num 5]) 0 ''s'' ''m'' ''u'' ?cb ?m = (Inr (), m')"
    by (simp add: register_subscription_result RpcModule_new_def Methods_new_def)
  obtain c where chan: "co_channel mpsc_chan (unat (- 1 :: u32)) (wd_conns example_store_world) = (1, c)"
    by (simp add: mpsc_chan_def example_store_world_def example_store_def)
  let ?p = "fst (pending_sink ''m'' (Number 0) (MethodSink_new 1)
    \<lparr>ss_conn_id = 0, ss_next_id = RandomIntegerIdProvider_next_id 5\<rparr> (example_store_world\<lparr>wd_conns := c\<rparr>))"
  have succ: "MethodResponse_is_success (accept_answer example_emit ?p)"
    by (simp add: accept_answer_def subscription_response_def MethodResponse_response_def to_writer_def
        BoundedWriter_write_def BoundedWriter_new_def MethodResponse_is_success_def pending_sink_def MethodSink_new_def u32_max)
  have "\<exists>w1. subscribe_unbounded example_emit mpsc_chan (\<lambda>_. Some (Response_new (Success ''5'') (Number 0))) (\<lambda>_. Some (Num 5))
      (rm_methods m') 5 ''s'' (Some None) example_store_world = (Returned (Inr (Num 5, 1)), w1)"
    using module_subscription_delivers [OF mpsc.sink_channels_axioms reg chan refl refl succ,
        of "\<lambda>_. Some (Response_new (Success ''5'') (Number 0))" "''5''" "\<lambda>_. Some (Num 5)" "Num 5" "[]"
          "\<lambda>_. None :: unit SubscriptionPayload Notification option" "\<lambda>_. ()" None "\<lambda>_. False"]
    by (auto simp: example_store_world_def)
  with reg show ?thesis by blast
qed

end
