(* ===== verification/Ws_Subscription.thy ===== *)
theory Ws_Subscription
  imports Ws_Exchange Module_Subscription
begin

text \<open>
  A subscription over WebSocket through every component that takes part in it: the client's
  \<open>subscribe\<close>, the server's subscription callback whose user code accepts and sends items, the
  messages on the wire, the client's read task that hands the items to the channel of the
  subscription, and \<open>unsubscribe\<close>, which closes the sink of the server.
\<close>

section \<open>The server's side\<close>

text \<open>The state after the handler of a subscribe call has accepted.\<close>

definition accepted_world ::
  "emitter \<Rightarrow> nat \<Rightarrow> PendingSubscriptionSink \<Rightarrow> (nat \<Rightarrow> string list, 'u) server_world \<Rightarrow> (nat \<Rightarrow> string list, 'u) server_world" where
  "accepted_world emit t p w = w\<lparr>
     wd_conns := (wd_conns w)(ms_tx (ps_inner p) := wd_conns w (ms_tx (ps_inner p)) @ [mr_json (accept_answer emit p)]),
     wd_tables := (wd_tables w)(t := (wd_tables w t)(ps_uniq_sub p \<mapsto> (ps_inner p, wd_next w + 1))),
     wd_next := wd_next w + 2, wd_answers := wd_answers w @ [(wd_next w, accept_answer emit p)],
     wd_accepted := insert (wd_next w) (wd_accepted w)\<rparr>"

lemma accept_returns_sink:
  fixes w :: "(nat \<Rightarrow> string list, 'u) server_world"
  assumes "MethodResponse_is_success (accept_answer emit p)" and "alive (ps_subscribe p)"
  shows "fst (PendingSubscriptionSink_accept emit queue_ops alive p (table_get t w)) = Done (Inr (accepted_sink p (wd_next w)))"
  using assms
  by (simp add: PendingSubscriptionSink_accept_def accept_answer_def MethodSink_send_def queue_send accepted_sink_def
      table_get_def Let_def)

lemma accepting_callback:
  fixes w :: "(nat \<Rightarrow> string list, 'u) server_world"
  assumes "SubscriptionCb f = subscription_callback emit notif (\<lambda>_ p _. accepting emit queue_ops (\<lambda>_. True) t p)"
    and "p = fst (pending_sink notif i sink conn w)" and "wd_next w \<notin> fst ` set (wd_answers w)"
    and "MethodResponse_is_success (accept_answer emit p)" and "wd_tables w t (ps_uniq_sub p) = None"
  shows "f i ps sink conn ext w = (with_extensions ext (accept_answer emit p), accepted_world emit t p w)"
proof -
  let ?w0 = "w\<lparr>wd_next := Suc (wd_next w)\<rparr>"
  have pend: "pending_sink notif i sink conn w = (p, ?w0)" "ps_inner p = sink" "ps_subscribe p = wd_next w"
    using assms(2) by (simp_all add: pending_sink_def)
  have acc: "accepting emit queue_ops (\<lambda>_. True) t p ?w0 =
      (accepted_world emit t p w)\<lparr>wd_accepted := wd_accepted w\<rparr>"
    using assms(4,5) pend accept_delivered [of queue_ops p emit "table_get t ?w0" _ "\<lambda>_. True", OF queue_send]
    by (simp add: accepting_def subscribers_insert_def close_entry_def table_get_def table_put_def accepted_world_def)
  have "map_of (wd_answers (accepted_world emit t p w)) (wd_next w) = Some (accept_answer emit p)"
    using map_of_append_fresh [OF assms(3)] by (simp add: accepted_world_def del: map_of_append)
  with assms(1,4) pend show ?thesis
    by (simp add: subscription_callback_def acc Let_def accepted_world_def del: map_of_append)
qed

text \<open>What sending items does to a sink that is open.\<close>

lemma publish_open:
  fixes w :: "(nat \<Rightarrow> string list, 'u) server_world"
  assumes "sk_unsubscribe s \<notin> wd_closed w"
  shows "publish emit queue_ops t s (NeedsData x) w = (Inr (), w\<lparr>wd_conns := (wd_conns w)
    (ms_tx (sk_inner s) := wd_conns w (ms_tx (sk_inner s)) @ [item_text emit s x])\<rparr>)"
  using assms
  by (simp add: publish_def SubscriptionSink_send_def SubscriptionSink_is_closed_def MethodSink_is_closed_def queue_ops_def
      is_active_subscription_def is_unsubscribed_def MethodSink_send_def item_text_def table_get_def table_put_def Let_def)

lemma publish_all_open:
  fixes w :: "(nat \<Rightarrow> string list, 'u) server_world"
  assumes "sk_unsubscribe s \<notin> wd_closed w"
  shows "publish_all emit queue_ops t s (map NeedsData xs) w = (replicate (length xs) (Inr ()), w\<lparr>wd_conns := (wd_conns w)
    (ms_tx (sk_inner s) := wd_conns w (ms_tx (sk_inner s)) @ map (item_text emit s) xs)\<rparr>)"
  using assms
proof (induction xs arbitrary: w)
  case (Cons x xs)
  let ?w = "w\<lparr>wd_conns := (wd_conns w)(ms_tx (sk_inner s) := wd_conns w (ms_tx (sk_inner s)) @ [item_text emit s x])\<rparr>"
  from Cons.prems have "sk_unsubscribe s \<notin> wd_closed ?w" by simp
  from Cons.IH [OF this] publish_open [OF Cons.prems] show ?case by (simp add: Let_def fun_upd_def cong: if_cong)
qed simp

lemma ws_subscribe_served:
  fixes w :: "(nat \<Rightarrow> string list, 'u) server_world"
  assumes "decrypt_data emit queue_ops valid_utf cfg sink x w = (Some raw, w)" and "raw \<noteq> []" "hd raw = CHR ''{''"
    and "de_call de raw = Some req"
    and "callbacks (rs_methods svc) (req_method req) =
      Some (subscription_callback emit notif (\<lambda>_ p _. accepting emit queue_ops (\<lambda>_. True) t p))"
    and "rs_cfg svc = CallsAndSubscriptions mx sink" and "0 < wd_permits w"
    and "wa = w\<lparr>wd_permits := wd_permits w - 1\<rparr>"
    and "p = fst (pending_sink notif (req_id req) sink \<lparr>ss_conn_id = rs_conn_id svc, ss_next_id = rs_id_provider svc wa\<rparr> wa)"
    and "wd_next w \<notin> fst ` set (wd_answers w)" and "MethodResponse_is_success (accept_answer emit p)"
    and "wd_tables w t (ps_uniq_sub p) = None"
  shows "ws_handle_message emit queue_ops valid_utf de cfg (rpc_service_impl emit valid svc) ext sink x w =
    (Done (), accepted_world emit t p wa)"
proof -
  let ?conn = "\<lparr>ss_conn_id = rs_conn_id svc, ss_next_id = rs_id_provider svc wa\<rparr>"
  obtain f where f: "SubscriptionCb f = subscription_callback emit notif (\<lambda>_ p _. accepting emit queue_ops (\<lambda>_. True) t p)"
    and cb: "callbacks (rs_methods svc) (req_method req) = Some (SubscriptionCb f)"
    using assms(5) by (simp add: subscription_callback_def)
  have "RpcService_call emit svc (req\<lparr>req_extensions := ext\<rparr>) w = f (req_id req) (Params_new (req_params req)) sink ?conn ext wa"
    using assms(6-8) cb
    by (simp add: RpcService_call_def method_with_name_def acquire_permit_def BoundedSubscriptions_acquire_def
        table_get_def table_put_def)
  also have "\<dots> = (with_extensions ext (accept_answer emit p), accepted_world emit t p wa)"
    using assms(8,10,12) by (intro accepting_callback [OF f assms(9) _ assms(11)]) simp_all
  finally have "ws_handle_message emit queue_ops valid_utf de cfg (rpc_service_impl emit valid svc) ext sink x w =
      (Done (), ws_reply queue_ops sink (with_extensions ext (accept_answer emit p)) (accepted_world emit t p wa))"
    by (rule ws_single_call [OF assms(1-4)])
  then show ?thesis
    by (simp add: ws_reply_def MethodResponse_is_method_call_def MethodResponse_is_batch_def accept_answer_kind)
qed

section \<open>The client's side\<close>

lemma subscribe_sent:
  assumes "requests (cl_manager (bg_client b)) i = None" "requests (cl_manager (bg_client b)) j = None" "i \<noteq> j"
  shows "send_task_message env (\<lambda>_. Inr ()) (FSubscribe \<lparr>sm_raw = raw, sm_subscribe_id = i, sm_unsubscribe_id = j,
      sm_unsubscribe_method = unsub, sm_send_back = tx\<rparr>) b =
    b\<lparr>bg_client := (bg_client b)\<lparr>cl_manager := (cl_manager (bg_client b))\<lparr>requests := (requests (cl_manager (bg_client b)))
        (i \<mapsto> PendingSubscription j tx unsub, j \<mapsto> PendingMethodCall None)\<rparr>\<rparr>,
      bg_to_server := bg_to_server b @ [raw]\<rparr>"
  using assms
  by (simp add: send_task_message_def handle_frontend_messages_def on_manager_def insert_pending_subscription_def send_raw_def Let_def)

text \<open>The client with the subscription \<open>sid\<close> that was opened by request \<open>i\<close> and is closed by request \<open>j\<close>.\<close>

definition with_subscription ::
  "Id \<Rightarrow> Id \<Rightarrow> SubscriptionId \<Rightarrow> sink \<Rightarrow> string \<Rightarrow> RequestManager \<Rightarrow> RequestManager" where
  "with_subscription i j sid k unsub m = m\<lparr>requests := (requests m)(i \<mapsto> Subscription j k unsub),
     subscriptions := (subscriptions m)(sid \<mapsto> i)\<rparr>"

lemma subscription_activated:
  assumes "requests (cl_manager (bg_client b)) i = Some (PendingSubscription j tx unsub)"
    and "ce_de_response env answer = Some (Response_new (Success r) i)" and "ce_de_sub_id env r = Inr sid"
    and "subscriptions (cl_manager (bg_client b)) sid = None" and "ce_alive env tx"
    and "ch_new (ce_ops env) (ce_max_buffer env) (cl_chans (bg_client b)) = (k, ch)" and "answer \<noteq> []" "hd answer = CHR ''{''"
  shows "read_task_message env now (Inr (Text answer)) b =
    b\<lparr>bg_client := (bg_client b)\<lparr>cl_manager := with_subscription i j sid k unsub (cl_manager (bg_client b)),
        cl_chans := ch, cl_lagged := (cl_lagged (bg_client b))(k := False),
        cl_outbox := cl_outbox (bg_client b) @ [ToSubscription tx (Inr (k, sid))]\<rparr>,
      bg_check := mark_as_active now (bg_check b)\<rparr>"
  using assms(1-6)
  by (simp add: read_task_message_def handle_backend_messages_def object_text [OF assms(7,8)] handle_object_def
      process_single_response_def activate_subscription_def subscription_channel_def on_manager_def mgr_defs deliver_def
      with_subscription_def Success_try_from_def Response_new_def Let_def)

text \<open>What the read task does with an item, and with a sequence of them that fits the buffer.\<close>

definition read_texts :: "'c client_env \<Rightarrow> (nat \<times> string) list \<Rightarrow> 'c background \<Rightarrow> 'c background" where
  "read_texts env arrivals b = fold (\<lambda>(now, m). read_task_message env now (Inr (Text m))) arrivals b"

context bounded_channels
begin

lemma item_read:
  assumes "ce_ops env = ops" "ce_de_response env m = None"
    "ce_de_sub_response env m = Some (Notification_new notif \<lparr>sp_subscription = sid, sp_result = x\<rparr>)"
    "m \<noteq> []" "hd m = CHR ''{''"
    and "listening (cl_chans (bg_client b)) k" "length (queue (cl_chans (bg_client b)) k) < capacity (cl_chans (bg_client b)) k"
    and "subscriptions (cl_manager (bg_client b)) sid = Some i" "requests (cl_manager (bg_client b)) i = Some (Subscription j k unsub)"
  obtains ch where
    "read_task_message env now (Inr (Text m)) b = b\<lparr>bg_client := (bg_client b)\<lparr>cl_chans := ch\<rparr>, bg_check := mark_as_active now (bg_check b)\<rparr>"
    "queue ch = (queue (cl_chans (bg_client b)))(k := queue (cl_chans (bg_client b)) k @ [x])"
    "capacity ch = capacity (cl_chans (bg_client b))" "listening ch = listening (cl_chans (bg_client b))"
proof -
  let ?n = "Notification_new notif \<lparr>sp_subscription = sid, sp_result = x\<rparr>"
  have "sp_subscription (ntf_params ?n) = sid" "sp_result (ntf_params ?n) = x" by (simp_all add: Notification_new_def)
  then obtain ch where ch: "process_subscription_response ops ?n (bg_client b) = (None, (bg_client b)\<lparr>cl_chans := ch\<rparr>)"
    "queue ch = (queue (cl_chans (bg_client b)))(k := queue (cl_chans (bg_client b)) k @ [x])"
    "capacity ch = capacity (cl_chans (bg_client b))" "listening ch = listening (cl_chans (bg_client b))"
    using push_one [OF assms(6-9), of ?n] by metis
  from ch(1) assms(1-3) show ?thesis
    by (intro that [OF _ ch(2-4)])
       (simp add: read_task_message_def handle_backend_messages_def object_text [OF assms(4,5)] handle_object_def)
qed

lemma items_read:
  assumes "ce_ops env = ops"
    and "\<And>x. x \<in> set xs \<Longrightarrow> ce_de_response env (shown x) = None \<and> shown x \<noteq> [] \<and> hd (shown x) = CHR ''{'' \<and>
      ce_de_sub_response env (shown x) = Some (Notification_new notif \<lparr>sp_subscription = sid, sp_result = x\<rparr>)"
    and "map snd arrivals = map shown xs"
    and "listening (cl_chans (bg_client b)) k"
    and "length (queue (cl_chans (bg_client b)) k) + length xs \<le> capacity (cl_chans (bg_client b)) k"
    and "subscriptions (cl_manager (bg_client b)) sid = Some i" "requests (cl_manager (bg_client b)) i = Some (Subscription j k unsub)"
    and "\<not> bg_read_done b" "\<not> bg_panicked b"
  shows "(bg_step env)\<^sup>*\<^sup>* b (read_texts env arrivals b) \<and>
    queue (cl_chans (bg_client (read_texts env arrivals b))) = (queue (cl_chans (bg_client b)))(k := queue (cl_chans (bg_client b)) k @ xs) \<and>
    (\<exists>ch chk. read_texts env arrivals b = b\<lparr>bg_client := (bg_client b)\<lparr>cl_chans := ch\<rparr>, bg_check := chk\<rparr>)"
  using assms(2-)
proof (induction xs arbitrary: b arrivals)
  case Nil
  have "b = b\<lparr>bg_client := (bg_client b)\<lparr>cl_chans := cl_chans (bg_client b)\<rparr>, bg_check := bg_check b\<rparr>" by simp
  with Nil.prems(2) show ?case unfolding read_texts_def by (intro conjI) (simp, simp, metis fold_simps(1) id_apply list.map_disc_iff)
next
  case (Cons x xs)
  from Cons.prems(2) obtain now rest where arr: "arrivals = (now, shown x) # rest" "map snd rest = map shown xs" by auto
  obtain ch where b1: "read_task_message env now (Inr (Text (shown x))) b =
      b\<lparr>bg_client := (bg_client b)\<lparr>cl_chans := ch\<rparr>, bg_check := mark_as_active now (bg_check b)\<rparr>" (is "_ = ?b1")
    and ch: "queue ch = (queue (cl_chans (bg_client b)))(k := queue (cl_chans (bg_client b)) k @ [x])"
      "capacity ch = capacity (cl_chans (bg_client b))" "listening ch = listening (cl_chans (bg_client b))"
    using item_read [of env "shown x" notif sid x b k i j unsub now, OF assms(1)] Cons.prems by auto
  have "bg_step env b ?b1" using bg_step.read_message [OF Cons.prems(7,8)] by (metis b1)
  moreover have "read_texts env arrivals b = read_texts env rest ?b1" by (simp add: read_texts_def arr(1) b1)
  moreover have "(bg_step env)\<^sup>*\<^sup>* ?b1 (read_texts env rest ?b1) \<and>
    queue (cl_chans (bg_client (read_texts env rest ?b1))) = (queue (cl_chans (bg_client ?b1)))(k := queue (cl_chans (bg_client ?b1)) k @ xs) \<and>
    (\<exists>ch chk. read_texts env rest ?b1 = ?b1\<lparr>bg_client := (bg_client ?b1)\<lparr>cl_chans := ch\<rparr>, bg_check := chk\<rparr>)"
    using Cons.prems ch by (intro Cons.IH [OF _ arr(2)]) auto
  ultimately show ?case using ch(1) by (auto intro: converse_rtranclp_into_rtranclp)
qed

lemma subscription_read:
  assumes "ce_ops env = ops" and "requests (cl_manager (bg_client b)) i = Some (PendingSubscription j tx unsub)"
    and "subscriptions (cl_manager (bg_client b)) sid = None" and "ce_alive env tx"
    and "ce_de_response env answer = Some (Response_new (Success r) i)" and "ce_de_sub_id env r = Inr sid"
    and "answer \<noteq> []" "hd answer = CHR ''{''"
    and items: "\<And>x. x \<in> set xs \<Longrightarrow> ce_de_response env (shown x) = None \<and> shown x \<noteq> [] \<and> hd (shown x) = CHR ''{'' \<and>
      ce_de_sub_response env (shown x) = Some (Notification_new notif \<lparr>sp_subscription = sid, sp_result = x\<rparr>)"
    and "length xs \<le> ce_max_buffer env" and "map snd arrivals = answer # map shown xs" and "\<not> bg_read_done b" "\<not> bg_panicked b"
  shows "\<exists>k. (bg_step env)\<^sup>*\<^sup>* b (read_texts env arrivals b) \<and>
    cl_outbox (bg_client (read_texts env arrivals b)) = cl_outbox (bg_client b) @ [ToSubscription tx (Inr (k, sid))] \<and>
    cl_manager (bg_client (read_texts env arrivals b)) = with_subscription i j sid k unsub (cl_manager (bg_client b)) \<and>
    queue (cl_chans (bg_client (read_texts env arrivals b))) k = xs \<and> \<not> cl_lagged (bg_client (read_texts env arrivals b)) k"
proof -
  from assms(11) obtain now rest where arr: "arrivals = (now, answer) # rest" "map snd rest = map shown xs" by auto
  obtain k ch where ch: "ch_new (ce_ops env) (ce_max_buffer env) (cl_chans (bg_client b)) = (k, ch)" by fastforce
  note new = new_channel [OF ch [unfolded assms(1)]]
  let ?b1 = "read_task_message env now (Inr (Text answer)) b"
  note b1 = subscription_activated [OF assms(2,5,6,3,4) ch assms(7,8), of now]
  have "bg_step env b ?b1" by (rule bg_step.read_message [OF assms(12,13)])
  moreover have "(bg_step env)\<^sup>*\<^sup>* ?b1 (read_texts env rest ?b1) \<and>
    queue (cl_chans (bg_client (read_texts env rest ?b1))) = (queue (cl_chans (bg_client ?b1)))(k := queue (cl_chans (bg_client ?b1)) k @ xs) \<and>
    (\<exists>ch chk. read_texts env rest ?b1 = ?b1\<lparr>bg_client := (bg_client ?b1)\<lparr>cl_chans := ch\<rparr>, bg_check := chk\<rparr>)"
    using assms(10,12,13) new
    by (intro items_read [OF assms(1) items arr(2), where i = i and j = j and unsub = unsub]) (simp_all add: b1 with_subscription_def)
  moreover have "read_texts env arrivals b = read_texts env rest ?b1" by (simp add: read_texts_def arr(1))
  ultimately show ?thesis using new
    by (intro exI [of _ k]) (auto simp: b1 intro: converse_rtranclp_into_rtranclp)
qed

end

lemma two_ids_distinct:
  assumes "next_request_id im = (i, im1)" "next_request_id im1 = (j, im2)"
  shows "i \<noteq> j"
  using assms by (auto simp: next_request_id_def CurrentId_next_def)

lemma subscribe_call_queued:
  assumes "is_connected c" "bg_queue (cli_background c) = []" "sub \<noteq> unsub"
    and "next_request_id (cli_id_manager c) = (i, im)" "next_request_id im = (j, im2)"
    and "to_raw_value emit (Request_serialize (Request_owned sub ps i)) = Some raw"
  shows "\<exists>c1. Client_subscribe_start emit False tx sub (Inr ps) unsub c = (Inr (Request_owned sub ps i), c1) \<and>
    cli_disconnect_reason c1 = cli_disconnect_reason c \<and>
    cli_background c1 = (cli_background c)\<lparr>bg_queue := [FSubscribe \<lparr>sm_raw = raw, sm_subscribe_id = i, sm_unsubscribe_id = j,
      sm_unsubscribe_method = unsub, sm_send_back = tx\<rparr>]\<rparr>"
  using assms
  by (simp add: Client_subscribe_start_def subscribe_prepare_def queue_message_cases call_message_def queued_def)

lemma subscribe_finished:
  assumes "to_raw_value emit (SubscriptionId_serialize sid) \<noteq> None"
  shows "Client_subscribe_finish emit req (Left (Some (Inr (k, sid)))) c = Done (Inr (ClientSubscription_new k (KSubscription sid)))"
  using assms by (auto simp: Client_subscribe_finish_def map_race_def call_finish_subscription_def run_future_until_timeout_def)

text \<open>An idle client that subscribes: the call is queued, and the send task puts it on the wire.\<close>

lemma subscribe_call_sent:
  assumes "is_connected c" "bg_queue (cli_background c) = []" "sub \<noteq> unsub"
    and "next_request_id (cli_id_manager c) = (i, im)" "next_request_id im = (j, im2)"
    and "to_raw_value (ce_emit env) (Request_serialize (Request_owned sub ps i)) = Some raw" "\<not> bg_panicked (cli_background c)"
    and "b1 = send_task_message env (\<lambda>_. Inr ()) (FSubscribe \<lparr>sm_raw = raw, sm_subscribe_id = i, sm_unsubscribe_id = j,
      sm_unsubscribe_method = unsub, sm_send_back = tx\<rparr>) (cli_background c)"
  shows "\<exists>c1. Client_subscribe_start (ce_emit env) False tx sub (Inr ps) unsub c = (Inr (Request_owned sub ps i), c1) \<and>
    bg_step env (cli_background c1) b1"
proof -
  let ?b = "cli_background c"
  let ?msg = "FSubscribe \<lparr>sm_raw = raw, sm_subscribe_id = i, sm_unsubscribe_id = j, sm_unsubscribe_method = unsub, sm_send_back = tx\<rparr>"
  obtain c1 where c1: "Client_subscribe_start (ce_emit env) False tx sub (Inr ps) unsub c = (Inr (Request_owned sub ps i), c1)"
    "cli_background c1 = ?b\<lparr>bg_queue := [?msg]\<rparr>"
    using subscribe_call_queued [OF assms(1-6)] by blast
  have same: "?b\<lparr>bg_queue := []\<rparr> = ?b" using assms(2) by simp
  have "bg_step env (cli_background c1) b1"
    using bg_step.send_message [of "?b\<lparr>bg_queue := [?msg]\<rparr>" ?msg "[]" env "\<lambda>_. Inr ()"] assms(1,7)
    unfolding c1(2) assms(8) by (simp add: is_connected_def same)
  with c1(1) show ?thesis by blast
qed

text \<open>What the handler's items add to the channel of the connection, behind the answer.\<close>

lemma accepted_items_queued:
  fixes w :: "(nat \<Rightarrow> string list, 'u) server_world"
  assumes "\<forall>k \<in> wd_closed w. k < wd_next w" "sk = accepted_sink p (wd_next w + 1)"
  shows "publish_all emit queue_ops t sk (map NeedsData xs) (accepted_world emit t p w) = (replicate (length xs) (Inr ()),
    (accepted_world emit t p w)\<lparr>wd_conns := (wd_conns w)(ms_tx (ps_inner p) := wd_conns w (ms_tx (ps_inner p)) @
      mr_json (accept_answer emit p) # map (item_text emit sk) xs)\<rparr>)"
proof -
  have "sk_unsubscribe sk \<notin> wd_closed (accepted_world emit t p w)"
    using assms by (auto simp: accepted_sink_def accepted_world_def)
  from publish_all_open [OF this, of emit t xs] show ?thesis
    using assms(2) by (simp add: accepted_world_def accepted_sink_def)
qed

section \<open>Properties\<close>

text \<open>C4. A subscription over WebSocket from end to end: an idle client that subscribes puts its call on the wire;
  the server's handler accepts it, which queues one answer with the subscription id and registers the
  sink, and each item it sends is queued behind in order; every queued text is what the client
  receives; the client's read task opens a channel for the subscription, hands it to the caller with the
  id, and puts exactly the items, in order and unchanged, into that channel, as long as they fit the
  buffer. With or without encryption.\<close>

theorem ws_subscription_end_to_end:
  fixes w :: "(nat \<Rightarrow> string list, 'u) server_world"
  assumes "shared_cipher (wsc_encryption cfg) valid_utf" and "wh_message_encryption h = wsc_encryption cfg"
    and "bounded_channels (ce_ops env) queue capacity listening"
    and "is_connected c" and "\<not> bg_read_done (cli_background c)" and "\<not> bg_panicked (cli_background c)" and "bg_queue (cli_background c) = []"
    and "next_request_id (cli_id_manager c) = (i, im)" and "next_request_id im = (j, im2)"
    and "requests (cl_manager (bg_client (cli_background c))) i = None" and "requests (cl_manager (bg_client (cli_background c))) j = None"
    and "subscriptions (cl_manager (bg_client (cli_background c))) sid = None" and "ce_alive env tx"
    and "to_raw_value (ce_emit env) (Request_serialize (Request_owned sub ps i)) = Some raw"
    and "raw \<noteq> []" and "hd raw = CHR ''{''" and "ClientSender_send cops h raw s = (Inr (), s')"
    and "de_call de raw = Some (Request_owned sub ps i)"
    and "register_subscription emit de_id t sub notif unsub (\<lambda>_ p _ _. accepting emit queue_ops (\<lambda>_. True) t p) m = (Inr (), m')"
    and "rs_methods svc = rm_methods m'" and "rs_cfg svc = CallsAndSubscriptions mx sink" and "0 < wd_permits w"
    and "wa = w\<lparr>wd_permits := wd_permits w - 1\<rparr>" and "sid = rs_id_provider svc wa"
    and "pending_sink notif i sink \<lparr>ss_conn_id = rs_conn_id svc, ss_next_id = sid\<rparr> wa = (p, wb)"
    and "wd_next w \<notin> fst ` set (wd_answers w)" and "\<forall>k \<in> wd_closed w. k < wd_next w" and "wd_tables w t (ps_uniq_sub p) = None"
    and "MethodResponse_is_success (accept_answer emit p)"
    and "texts = mr_json (accept_answer emit p) # map (\<lambda>x. sub_message_to_json emit (NeedsData x) sid notif) xs"
    and "\<forall>m \<in> set texts. m \<noteq> [] \<and> hd m = CHR ''{'' \<and> valid_utf m \<and>
      (\<forall>enc. wsc_encryption cfg = Some enc \<longrightarrow> enc_encrypt enc m \<noteq> None)"
    and "ce_de_response env (hd texts) = Some (Response_new (Success r) i)" and "ce_de_sub_id env r = Inr sid"
    and "to_raw_value (ce_emit env) (SubscriptionId_serialize sid) \<noteq> None"
    and "\<forall>x \<in> set xs. ce_de_response env (sub_message_to_json emit (NeedsData x) sid notif) = None \<and>
      ce_de_sub_response env (sub_message_to_json emit (NeedsData x) sid notif) =
        Some (Notification_new notif \<lparr>sp_subscription = sid, sp_result = x\<rparr>)"
    and "length xs \<le> ce_max_buffer env" and "map snd arrivals = texts"
  shows "\<exists>req c1 b1 x w1 sk w2 b2 k.
    Client_subscribe_start (ce_emit env) False tx sub (Inr ps) unsub c = (Inr req, c1) \<and>
    bg_step env (cli_background c1) b1 \<and> bg_to_server b1 = bg_to_server (cli_background c) @ [raw] \<and>
    send_and_flush cops x s = (Inr (), s') \<and>
    ws_handle_message emit queue_ops valid_utf de cfg (rpc_service_impl emit valid svc) ext sink x w = (Done (), w1) \<and>
    fst (PendingSubscriptionSink_accept emit queue_ops (\<lambda>_. True) p (table_get t wb)) = Done (Inr sk) \<and>
    publish_all emit queue_ops t sk (map NeedsData xs) w1 = (replicate (length xs) (Inr ()), w2) \<and>
    wd_conns w2 = (wd_conns w)(ms_tx sink := wd_conns w (ms_tx sink) @ texts) \<and>
    (\<forall>m \<in> set texts. \<exists>y. send_message emit sops (wsc_encryption cfg) policy m q = send_and_flush sops y q \<and>
      ClientReceiver_receive valid_utf h (Inr (IncText y)) = Inr (Text m)) \<and>
    b2 = read_texts env arrivals b1 \<and> (bg_step env)\<^sup>*\<^sup>* b1 b2 \<and>
    cl_outbox (bg_client b2) = cl_outbox (bg_client (cli_background c)) @ [ToSubscription tx (Inr (k, sid))] \<and>
    Client_subscribe_finish (ce_emit env) req (Left (Some (Inr (k, sid)))) c1 = Done (Inr (ClientSubscription_new k (KSubscription sid))) \<and>
    queue (cl_chans (bg_client b2)) k = xs \<and> \<not> cl_lagged (bg_client b2) k"
proof -
  let ?b = "cli_background c" and ?item = "\<lambda>x. sub_message_to_json emit (NeedsData x) sid notif"
  have reg: "sub \<noteq> unsub" "callbacks (rs_methods svc) sub = Some (subscription_callback emit notif (\<lambda>_ p _. accepting emit queue_ops (\<lambda>_. True) t p))"
    using assms(19,20) by (auto simp: register_subscription_result split: if_splits)
  define b1 where "b1 = send_task_message env (\<lambda>_. Inr ()) (FSubscribe \<lparr>sm_raw = raw, sm_subscribe_id = i, sm_unsubscribe_id = j,
      sm_unsubscribe_method = unsub, sm_send_back = tx\<rparr>) ?b"
  note b1 = subscribe_sent [OF assms(10,11) two_ids_distinct [OF assms(8,9)], of env raw unsub tx, folded b1_def]
  obtain c1 where c1: "Client_subscribe_start (ce_emit env) False tx sub (Inr ps) unsub c = (Inr (Request_owned sub ps i), c1)"
    "bg_step env (cli_background c1) b1"
    using subscribe_call_sent [OF assms(4,7) reg(1) assms(8,9,14,6) b1_def] by blast
  obtain x where x: "send_and_flush cops x s = (Inr (), s')" "decrypt_data emit queue_ops valid_utf cfg sink x w = (Some raw, w)"
    using shared_cipher.client_to_server [OF assms(1,2) refl assms(17)] by blast
  have p: "ps_inner p = sink" "ps_method p = notif" "key_sub_id (ps_uniq_sub p) = sid" "wd_next wb = wd_next w + 1"
    "p = fst (pending_sink notif i sink \<lparr>ss_conn_id = rs_conn_id svc, ss_next_id = rs_id_provider svc wa\<rparr> wa)"
    using assms(23-25) by (auto simp: pending_sink_def)
  have served: "ws_handle_message emit queue_ops valid_utf de cfg (rpc_service_impl emit valid svc) ext sink x w =
      (Done (), accepted_world emit t p wa)"
    by (rule ws_subscribe_served [OF x(2) assms(15,16,18) _ assms(21,22,23) _ assms(26,29,28)])
       (simp_all add: Request_owned_def reg(2) p(5))
  let ?sk = "accepted_sink p (wd_next w + 1)"
  have sk: "fst (PendingSubscriptionSink_accept emit queue_ops (\<lambda>_. True) p (table_get t wb)) = Done (Inr ?sk)"
    using accept_returns_sink [OF assms(29), where alive = "\<lambda>_. True" and w = wb and t = t] p(4) by simp
  have pub: "publish_all emit queue_ops t ?sk (map NeedsData xs) (accepted_world emit t p wa) = (replicate (length xs) (Inr ()),
      (accepted_world emit t p wa)\<lparr>wd_conns := (wd_conns w)(ms_tx sink := wd_conns w (ms_tx sink) @ texts)\<rparr>)"
    using p(1-3) assms(27) accepted_items_queued [of wa ?sk p emit t xs]
    by (simp add: assms(23,30) accepted_sink_def item_text_def [abs_def])
  have wire: "\<forall>m \<in> set texts. \<exists>y. send_message emit sops (wsc_encryption cfg) policy m q = send_and_flush sops y q \<and>
      ClientReceiver_receive valid_utf h (Inr (IncText y)) = Inr (Text m)"
    using assms(31) by (intro ballI shared_cipher.server_to_client [OF assms(1,2)]) simp_all
  have "\<exists>k. (bg_step env)\<^sup>*\<^sup>* b1 (read_texts env arrivals b1) \<and>
    cl_outbox (bg_client (read_texts env arrivals b1)) = cl_outbox (bg_client b1) @ [ToSubscription tx (Inr (k, sid))] \<and>
    cl_manager (bg_client (read_texts env arrivals b1)) = with_subscription i j sid k unsub (cl_manager (bg_client b1)) \<and>
    queue (cl_chans (bg_client (read_texts env arrivals b1))) k = xs \<and> \<not> cl_lagged (bg_client (read_texts env arrivals b1)) k"
    using assms(5,6,10-13,30-32,35,37) two_ids_distinct [OF assms(8,9)]
    by (intro bounded_channels.subscription_read [OF assms(3) refl, where answer = "hd texts" and shown = ?item and r = r and notif = notif] assms(13,33,36))
       (auto simp: b1)
  then obtain k where k: "(bg_step env)\<^sup>*\<^sup>* b1 (read_texts env arrivals b1)"
    "cl_outbox (bg_client (read_texts env arrivals b1)) = cl_outbox (bg_client ?b) @ [ToSubscription tx (Inr (k, sid))]"
    "queue (cl_chans (bg_client (read_texts env arrivals b1))) k = xs" "\<not> cl_lagged (bg_client (read_texts env arrivals b1)) k"
    by (auto simp: b1)
  have "bg_to_server b1 = bg_to_server ?b @ [raw]" by (simp add: b1)
  with c1 x(1) served sk pub wire k subscribe_finished [OF assms(34)] show ?thesis
    by (intro exI conjI) (assumption | rule refl | simp)+
qed

text \<open>A subscription \<open>s\<close> with notifications \<open>n\<close>, closed by \<open>u\<close>, whose id is 7, and the two items 1 and 2.\<close>

definition example_sub_module :: "(unit, (nat \<Rightarrow> string list, unit) server_world) RpcModule" where
  "example_sub_module = snd (register_subscription json_emit (\<lambda>_. Inr [Num 7]) 0 ''s'' ''n'' ''u''
     (\<lambda>_ p _ _. accepting json_emit queue_ops (\<lambda>_. True) 0 p) (RpcModule_new ()))"

definition example_sub_service :: "(nat \<Rightarrow> string list, unit) RpcService" where
  "example_sub_service = \<lparr>rs_conn_id = 0, rs_methods = rm_methods example_sub_module, rs_max_response_body_size = 1000,
     rs_cfg = CallsAndSubscriptions 1 (MethodSink_new_with_limit 0 1000), rs_id_provider = \<lambda>_. Num 7\<rparr>"

definition example_sub_env :: "chan_store client_env" where
  "example_sub_env = example_env\<lparr>
     ce_de_response := (\<lambda>m. if m = ''{\"jsonrpc\":\"2.0\",\"id\":0,\"result\":7}'' then Some (Response_new (Success ''7'') (Number 0))
       else if m = ''{\"jsonrpc\":\"2.0\",\"id\":1,\"result\":true}'' then Some (Response_new (Success ''true'') (Number 1)) else None),
     ce_de_sub_response := (\<lambda>m. Some (Notification_new ''n'' \<lparr>sp_subscription = Num 7,
       sp_result = if m = ''{\"jsonrpc\":\"2.0\",\"method\":\"n\",\"params\":{\"subscription\":7,\"result\":1}}'' then ''1'' else ''2''\<rparr>))\<rparr>"

definition example_sub_pending :: PendingSubscriptionSink where
  "example_sub_pending = \<lparr>ps_inner = MethodSink_new_with_limit 0 1000, ps_method = ''n'',
     ps_uniq_sub = \<lparr>key_conn_id = 0, key_sub_id = Num 7\<rparr>, ps_id = Number 0, ps_subscribe = 0\<rparr>"

lemma example_sub_texts:
  "mr_json (accept_answer json_emit example_sub_pending) = ''{\"jsonrpc\":\"2.0\",\"id\":0,\"result\":7}''"
  "MethodResponse_is_success (accept_answer json_emit example_sub_pending)"
  "sub_message_to_json json_emit (NeedsData ''1'') (Num 7) ''n'' = ''{\"jsonrpc\":\"2.0\",\"method\":\"n\",\"params\":{\"subscription\":7,\"result\":1}}''"
  "sub_message_to_json json_emit (NeedsData ''2'') (Num 7) ''n'' = ''{\"jsonrpc\":\"2.0\",\"method\":\"n\",\"params\":{\"subscription\":7,\"result\":2}}''"
  by (simp_all add: accept_answer_def subscription_response_def MethodResponse_response_def to_writer_def json_emit_def
      BoundedWriter_write_def BoundedWriter_new_def MethodResponse_is_success_def example_sub_pending_def MethodSink_new_with_limit_def
      sub_message_to_json_def expect_raw_def to_raw_value_def sub_message_json_def json_eval)

lemma example_sub_registered:
  "register_subscription json_emit (\<lambda>_. Inr [Num 7]) 0 ''s'' ''n'' ''u''
     (\<lambda>_ p _ _. accepting json_emit queue_ops (\<lambda>_. True) 0 p) (RpcModule_new ()) = (Inr (), example_sub_module)"
  by (simp add: example_sub_module_def register_subscription_result RpcModule_new_def Methods_new_def)

lemmas example_sub_defs = example_sub_service_def example_sub_env_def example_env_def example_queue_server_def example_ws_client_def

lemma example_sub_client:
  "is_connected example_ws_client" "\<not> bg_read_done (cli_background example_ws_client)"
  "\<not> bg_panicked (cli_background example_ws_client)" "bg_queue (cli_background example_ws_client) = []"
  "next_request_id (cli_id_manager example_ws_client) = (Number 0, \<lparr>current_id = 1, id_kind = IdNumber\<rparr>)"
  "next_request_id \<lparr>current_id = 1, id_kind = IdNumber\<rparr> = (Number 1, \<lparr>current_id = 2, id_kind = IdNumber\<rparr>)"
  "requests (cl_manager (bg_client (cli_background example_ws_client))) x = None"
  "subscriptions (cl_manager (bg_client (cli_background example_ws_client))) y = None"
  by (simp_all add: example_ws_client_def Client_new_def is_connected_def bg_new_def client_new_def RequestManager_new_def
      next_request_id_def RequestIdManager_new_def CurrentId_next_def)

theorem ws_subscription_end_to_end_witness:
  "\<exists>req c1 b1 b2 k. Client_subscribe_start json_emit False 5 ''s'' (Inr None) ''u'' example_ws_client = (Inr req, c1) \<and>
     bg_step example_sub_env (cli_background c1) b1 \<and> (bg_step example_sub_env)\<^sup>*\<^sup>* b1 b2 \<and>
     Client_subscribe_finish json_emit req (Left (Some (Inr (k, Num 7)))) c1 = Done (Inr (ClientSubscription_new k (KSubscription (Num 7)))) \<and>
     cs_queue (cl_chans (bg_client b2)) k = [''1'', ''2'']"
proof -
  let ?raw = "json_text (Request_serialize (Request_owned ''s'' None (Number 0)))"
  let ?cfg = "\<lparr>wsc_batch_requests_config = BatchUnlimited, wsc_max_request_body_size = 1000, wsc_policy = SendError, wsc_encryption = None\<rparr>"
  let ?h = "\<lparr>wh_stream = PlainStream (), wh_max_message_size = 1000, wh_max_request_size = 1000, wh_message_encryption = None\<rparr>"
  let ?de = "example_readers\<lparr>de_call := \<lambda>_. Some (Request_owned ''s'' None (Number 0))\<rparr>"
  let ?texts = "mr_json (accept_answer json_emit example_sub_pending) # map (\<lambda>x. sub_message_to_json json_emit (NeedsData x) (Num 7) ''n'') [''1'', ''2'']"
  have raw: "?raw = ''{\"jsonrpc\":\"2.0\",\"id\":0,\"method\":\"s\"}''" by (simp add: json_eval)
  have c: "shared_cipher (wsc_encryption ?cfg) (\<lambda>_. True)" using plain.shared_cipher_axioms by simp
  have ch: "bounded_channels (ce_ops example_sub_env) cs_queue cs_capacity cs_listening"
    using fifo.bounded_channels_axioms by (simp add: example_sub_env_def example_env_def)
  have s: "ClientSender_send log_ops ?h ?raw [] = (Inr (), [?raw])"
    by (simp add: ClientSender_send_def send_and_flush_def raw log_ops_def)
  have p: "pending_sink ''n'' (Number 0) (MethodSink_new_with_limit 0 1000) \<lparr>ss_conn_id = rs_conn_id example_sub_service, ss_next_id = Num 7\<rparr>
      (example_queue_server\<lparr>wd_permits := wd_permits example_queue_server - 1\<rparr>) =
      (example_sub_pending, example_queue_server\<lparr>wd_permits := 0, wd_next := 1\<rparr>)"
    by (simp add: pending_sink_def example_sub_pending_def example_sub_defs)
  have "parse_u64 ''7'' = Some 7" by (simp add: parse_u64_def parse_unsigned_def char_digit_def)
  then have env: "ce_emit example_sub_env = json_emit" "ce_alive example_sub_env 5" "ce_max_buffer example_sub_env = 4"
    "ce_de_sub_id example_sub_env ''7'' = Inr (Num 7)"
    by (simp_all add: example_sub_env_def example_env_def)
  have wire: "to_raw_value (ce_emit example_sub_env) (Request_serialize (Request_owned ''s'' None (Number 0))) = Some ?raw"
    "?raw \<noteq> []" "hd ?raw = CHR ''{''" "to_raw_value (ce_emit example_sub_env) (SubscriptionId_serialize (Num 7)) \<noteq> None"
    unfolding env(1) by (simp_all add: to_raw_value_def json_emit_def) (simp_all add: raw)
  have svc: "rs_methods example_sub_service = rm_methods example_sub_module" "0 < wd_permits example_queue_server"
    "rs_cfg example_sub_service = CallsAndSubscriptions 1 (MethodSink_new_with_limit 0 1000)"
    "Num 7 = rs_id_provider example_sub_service (example_queue_server\<lparr>wd_permits := wd_permits example_queue_server - 1\<rparr>)"
    "wd_next example_queue_server \<notin> fst ` set (wd_answers example_queue_server)"
    "\<forall>k \<in> wd_closed example_queue_server. k < wd_next example_queue_server"
    "wd_tables example_queue_server 0 (ps_uniq_sub example_sub_pending) = None"
    by (simp_all add: example_sub_service_def example_queue_server_def)
  have texts: "\<forall>m \<in> set ?texts. m \<noteq> [] \<and> hd m = CHR ''{'' \<and> True \<and> (\<forall>enc. wsc_encryption ?cfg = Some enc \<longrightarrow> enc_encrypt enc m \<noteq> None)"
    "ce_de_response example_sub_env (hd ?texts) = Some (Response_new (Success ''7'') (Number 0))"
    "\<forall>x \<in> set [''1'', ''2'']. ce_de_response example_sub_env (sub_message_to_json json_emit (NeedsData x) (Num 7) ''n'') = None \<and>
      ce_de_sub_response example_sub_env (sub_message_to_json json_emit (NeedsData x) (Num 7) ''n'') =
        Some (Notification_new ''n'' \<lparr>sp_subscription = Num 7, sp_result = x\<rparr>)"
    by (simp_all add: example_sub_texts example_sub_env_def)
  have rest: "wh_message_encryption ?h = wsc_encryption ?cfg" "de_call ?de ?raw = Some (Request_owned ''s'' None (Number 0))"
    "length [''1'', ''2''] \<le> ce_max_buffer example_sub_env" "map snd (map (Pair (0 :: nat)) ?texts) = ?texts" by (simp_all add: env)
  from ws_subscription_end_to_end [where ext = Map.empty and valid = array_text and sops = log_ops and policy = SendError and q = "[]",
      OF c rest(1) ch example_sub_client(1-7) example_sub_client(7,8) env(2) wire(1-3) s rest(2) example_sub_registered svc(1,3,2) refl svc(4) p
        svc(5-7) example_sub_texts(2) refl texts(1,2) env(4) wire(4) texts(3) rest(3,4)]
  show ?thesis unfolding env(1) by (elim exE conjE) (intro exI conjI; assumption)
qed

section \<open>Unsubscribing\<close>

text \<open>The parameters of an unsubscribe call: an array with the subscription id.\<close>

lemma unsubscribe_params:
  assumes "emit (SubscriptionId_serialize sid) = (cs, True)" "valid (''['' @ concat cs @ '']'')"
  shows "\<exists>pb. ParamsBuilder_insert emit (SubscriptionId_serialize sid) positional = (True, pb) \<and>
    ParamsBuilder_build valid pb = Done (Some (''['' @ concat cs @ '']''))"
  using assms
  by (simp add: ParamsBuilder_insert_def write_value_def push_bytes_def maybe_initialize_def positional_def ParamsBuilder_new_def
      ParamsBuilder_build_def ParamsBuilder_text_def butlast_append)

definition without_subscription :: "Id \<Rightarrow> SubscriptionId \<Rightarrow> RequestManager \<Rightarrow> RequestManager" where
  "without_subscription i sid m = m\<lparr>requests := (requests m)(i \<mapsto> PendingMethodCall None),
     subscriptions := (subscriptions m)(sid := None)\<rparr>"

lemma unsubscribe_sent:
  assumes "subscriptions (cl_manager (bg_client b)) sid = Some i"
    and "requests (cl_manager (bg_client b)) i = Some (Subscription j k unsub)"
    and "ce_emit env (SubscriptionId_serialize sid) = (cs, True)" and "ce_valid_json env (''['' @ concat cs @ '']'')"
    and "to_raw_value (ce_emit env) (Request_serialize (Request_owned unsub (Some (''['' @ concat cs @ '']'')) j)) = Some raw"
  shows "send_task_message env (\<lambda>_. Inr ()) (FSubscriptionClosed sid) b =
    b\<lparr>bg_client := (bg_client b)\<lparr>cl_manager := without_subscription i sid (cl_manager (bg_client b))\<rparr>,
      bg_to_server := bg_to_server b @ [raw]\<rparr>"
proof -
  from unsubscribe_params [where emit = "ce_emit env" and valid = "ce_valid_json env", OF assms(3,4)] obtain pb
    where "ParamsBuilder_insert (ce_emit env) (SubscriptionId_serialize sid) positional = (True, pb)"
      "ParamsBuilder_build (ce_valid_json env) pb = Done (Some (''['' @ concat cs @ '']''))" by blast
  with assms(1,2,5) show ?thesis
    by (simp add: send_task_message_def handle_frontend_messages_def build_unsubscribe_message_def on_manager_def mgr_defs
        stop_subscription_def without_subscription_def Let_def)
qed

lemma ws_unsubscribe_served:
  fixes w :: "(nat \<Rightarrow> string list, 'u) server_world"
  assumes "decrypt_data emit queue_ops valid_utf cfg sink x w = (Some raw, w)" and "raw \<noteq> []" "hd raw = CHR ''{''"
    and "de_call de raw = Some (Request_owned unsub (Some ps) j)"
    and "callbacks (rs_methods svc) unsub = Some (unsubscribe_callback emit de_id t)"
    and "rs_cfg svc = CallsAndSubscriptions mx sink" and "de_id ps = Inr [sid]" and "trim ps = ps"
    and "key = \<lparr>key_conn_id = rs_conn_id svc, key_sub_id = sid\<rparr>" and "wd_tables w t key = Some (entry, n)"
    and "emit (Response_serialize SBool (Response_new (Success True) j)) = (cs, True)" and "length (concat cs) \<le> rs_max_response_body_size svc"
  shows "ws_handle_message emit queue_ops valid_utf de cfg (rpc_service_impl emit valid svc) ext sink x w =
    (Done (), w\<lparr>wd_tables := (wd_tables w)(t := (wd_tables w t)(key := None)), wd_closed := insert n (wd_closed w),
       wd_conns := (wd_conns w)(ms_tx sink := wd_conns w (ms_tx sink) @ [concat cs])\<rparr>)"
proof -
  let ?rp = "MethodResponse_response emit SBool j (payload_success True) (rs_max_response_body_size svc)"
  have one: "Params_one emit de_id (Params_new (Some ps)) = Inr sid"
    using assms(7,8) by (simp add: Params_one_def Params_parse_def Params_new_def)
  have rp: "mr_json ?rp = concat cs" "mr_kind ?rp = KindMethodCall" "mr_on_close ?rp = None"
    using assms(11,12) by (simp_all add: response_branches [where cs = cs and ok = True] payload_success_def payload_from_def)
  have call: "RpcService_call emit svc ((Request_owned unsub (Some ps) j)\<lparr>req_extensions := ext\<rparr>) w =
      (?rp, w\<lparr>wd_tables := (wd_tables w)(t := (wd_tables w t)(key := None)), wd_closed := insert n (wd_closed w)\<rparr>)"
    using assms(5,6,9,10) one
    by (simp add: RpcService_call_def method_with_name_def unsubscribe_callback_def Request_owned_def subscribers_remove_def
        close_entry_def table_get_def table_put_def Let_def)
  from ws_single_call [OF assms(1-4) call, of valid] rp show ?thesis
    by (simp add: ws_reply_def sink_send_def MethodSink_send_def queue_send MethodResponse_is_method_call_def)
qed

text \<open>The client forgets an answer that nobody waits for, and an item of a subscription it does not have.\<close>

lemma silent_answer_read:
  assumes "requests (cl_manager (bg_client b)) j = Some (PendingMethodCall None)"
    and "ce_de_response env answer = Some rp" "rp_id rp = j" "answer \<noteq> []" "hd answer = CHR ''{''"
  shows "read_task_message env now (Inr (Text answer)) b =
    b\<lparr>bg_client := (bg_client b)\<lparr>cl_manager := (cl_manager (bg_client b))\<lparr>requests := (requests (cl_manager (bg_client b)))(j := None)\<rparr>\<rparr>,
      bg_check := mark_as_active now (bg_check b)\<rparr>"
  using assms(1-3)
  by (simp add: read_task_message_def handle_backend_messages_def object_text [OF assms(4,5)] handle_object_def
      process_single_response_def on_manager_def mgr_defs Let_def)

lemma late_item_ignored:
  assumes "ce_de_response env m = None" "ce_de_sub_response env m = Some n" "m \<noteq> []" "hd m = CHR ''{''"
    and "subscriptions (cl_manager (bg_client b)) (sp_subscription (ntf_params n)) = None"
  shows "read_task_message env now (Inr (Text m)) b = b\<lparr>bg_check := mark_as_active now (bg_check b)\<rparr>"
  using assms(1,2,5)
  by (simp add: read_task_message_def handle_backend_messages_def object_text [OF assms(3,4)] handle_object_def
      process_subscription_response_def get_request_id_by_subscription_id_def)

lemma publish_closed:
  assumes "sk_unsubscribe s \<in> wd_closed w"
  shows "publish emit ops t s msg w = (Inl (DisconnectError msg), w)"
  using assms
  by (simp add: publish_def SubscriptionSink_send_def SubscriptionSink_is_closed_def is_active_subscription_def
      is_unsubscribed_def table_get_def table_put_def)


text \<open>The client and the server after the subscription above was opened, and the client's message.\<close>

definition example_sub_background :: "chan_store background" where
  "example_sub_background = (bg_new store_new Disabled)\<lparr>bg_queue := [FSubscriptionClosed (Num 7)],
     bg_client := (client_new store_new)\<lparr>cl_manager := with_subscription (Number 0) (Number 1) (Num 7) 0 ''u''
       (RequestManager_new\<lparr>requests := [Number 1 \<mapsto> PendingMethodCall None]\<rparr>)\<rparr>\<rparr>"

definition example_sub_server :: "(nat \<Rightarrow> string list, unit) server_world" where
  "example_sub_server = accepted_world json_emit 0 example_sub_pending (example_queue_server\<lparr>wd_permits := 0\<rparr>)"


end
