(* ===== verification/Ws_Batch.thy ===== *)
theory Ws_Batch
  imports Ws_Exchange
begin

text \<open>
  A batch over WebSocket through every component that takes part in it: the client's operation and its tasks, both transports,
  the server's message task with the service of a batch, and the placing of the responses for the caller.
\<close>

section \<open>Lemmas\<close>

text \<open>The server's task for a text that decrypts to a batch of calls.\<close>

lemma ws_batch_served:
  assumes "decrypt_data emit ops valid_utf cfg sink x w = (Some raw, w)" and "raw \<noteq> []" "hd raw = CHR ''[''"
    and "de_array de raw = Some calls" and "list_all2 (\<lambda>call req. de_call de call = Some req) calls reqs" and "reqs \<noteq> []"
    and "batch_allowed (wsc_batch_requests_config cfg) (length calls)"
    and "entry_responses emit svc (map (\<lambda>req. Inr (BCall (req\<lparr>req_extensions := ext\<rparr>))) reqs) w = (rs, w')"
    and "answer = ''['' @ join_comma (map mr_json rs) @ '']''" and "length answer \<le> rs_max_response_body_size svc" and "valid answer"
    and "MethodSink_send ops sink answer (wd_conns w') = (Inr (), q)"
  shows "ws_handle_message emit ops valid_utf de cfg (rpc_service_impl emit valid svc) ext sink x w = (Done (), w'\<lparr>wd_conns := q\<rparr>)"
proof -
  let ?items = "map (parse_batch_entry de ext) calls"
  have items: "?items = map (\<lambda>req. Inr (BCall (req\<lparr>req_extensions := ext\<rparr>))) reqs"
    using assms(5) by (induction rule: list_all2_induct) (simp_all add: parse_batch_entry_def call_from_slice_def)
  have rs: "rs \<noteq> []" using assms(6,8) by (cases reqs) (auto simp: split_beta Let_def)
  have "RpcService_batch emit valid svc (Batch_from ?items) w = (Done (MethodResponse_from_batch
      \<lparr>sb_json = answer, sb_extensions = fold (\<lambda>r e. e ++ mr_extensions r) rs Map.empty\<rparr>), w')"
    unfolding assms(9) by (rule service_batch_fits) (use assms(8-11) rs items in \<open>auto simp: Batch_from_def batch_item_ok_def\<close>)
  moreover obtain rest where "raw = CHR ''['' # rest" using assms(2,3) by (cases raw) auto
  moreover from this have "first_non_whitespace 128 0 raw = Some (0, CHR ''['')" by (simp add: is_ascii_whitespace_def numeral_eq_Suc)
  ultimately show ?thesis
    using assms(1,4,7,12)
    by (auto simp: ws_handle_message_def handle_rpc_call_def batch_allowed_def rpc_service_impl_def ws_reply_def sink_send_def
        MethodResponse_from_batch_def MethodResponse_is_batch_def Let_def split: BatchRequestConfig.splits)
qed

text \<open>The client's send task for a batch.\<close>

lemma batch_sent:
  assumes "batches (cl_manager (bg_client b)) ids = None" "send raw = Inr ()"
  shows "send_task_message env send (FBatch \<lparr>bm_raw = raw, bm_ids = ids, bm_send_back = tx\<rparr>) b =
    b\<lparr>bg_client := (bg_client b)\<lparr>cl_manager := (cl_manager (bg_client b))
        \<lparr>batches := (batches (cl_manager (bg_client b)))(ids \<mapsto> \<lparr>bs_send_back = tx\<rparr>)\<rparr>\<rparr>,
      bg_to_server := bg_to_server b @ [raw]\<rparr>"
  using assms by (simp add: send_task_message_def handle_frontend_messages_def on_manager_def insert_pending_batch_def send_raw_def Let_def)

text \<open>The ids of a batch and its range.\<close>

lemma range_ids:
  assumes "unat b = unat a + n" "ids = map (\<lambda>k. a + of_nat k) [0..<n]"
  shows "length ids = n" "distinct ids" "set ids = {a..<b :: u64}" "k < n \<Longrightarrow> unat (ids ! k) = unat a + k"
proof -
  have bound: "unat a + n < 2 ^ 64" using assms(1) unsigned_less [of b, where 'a = nat] by simp
  have u: "unat (a + of_nat k) = unat a + k" if "k < n" for k
    using that bound by (simp add: unat_word_ariths unat_of_nat take_bit_eq_mod)
  show "length ids = n" using assms(2) by simp
  show "k < n \<Longrightarrow> unat (ids ! k) = unat a + k" using assms(2) u by simp
  show "distinct ids" unfolding assms(2) distinct_map by (auto intro!: inj_onI dest!: arg_cong [where f = unat] simp: u)
  have "x \<in> set ids" if "a \<le> x" "x < b" for x
  proof -
    from that assms(1) have k: "unat x - unat a < n" "unat a \<le> unat x" by (auto simp: word_le_nat_alt word_less_nat_alt)
    then have "unat (a + of_nat (unat x - unat a)) = unat x" using u [of "unat x - unat a"] by simp
    then have "x = a + of_nat (unat x - unat a)" by (metis word_unat_eq_iff)
    with k(1) show ?thesis unfolding assms(2) by force
  qed
  then show "set ids = {a..<b}" using u assms(1) by (auto simp: assms(2) word_le_nat_alt word_less_nat_alt)
qed

text \<open>The array of the responses, in the order of the requests, at the client.\<close>

lemma batch_processed:
  assumes "batches (cl_manager c) r = Some bs" "process_batch_response rps r c = (Inr (), c')"
  obtains out where "c' = c\<lparr>cl_manager := (cl_manager c)\<lparr>batches := (batches (cl_manager c))(r := None)\<rparr>,
      cl_outbox := cl_outbox c @ [ToBatch (bs_send_back bs) (Inr out)]\<rparr>"
  using assms by (auto simp: process_batch_response_def on_manager_def complete_pending_batch_def deliver_def split: sum.splits)

lemma batch_answer_delivered:
  assumes "batches (cl_manager (bg_client bg)) (a, b) = Some \<lparr>bs_send_back = tx\<rparr>" and "unat b = unat a + n" "n \<noteq> 0"
    and "ce_de_array env answer = Some texts" and "list_all2 (\<lambda>m rp. ce_de_response env m = Some rp) texts rps"
    and "list_all2 (\<lambda>rp i. try_parse_inner_as_number (rp_id rp) = Inr i) rps (map (\<lambda>k. a + of_nat k) [0..<n])"
    and "answer \<noteq> []" "hd answer = CHR ''[''"
  shows "read_task_message env now (Inr (Text answer)) bg =
    bg\<lparr>bg_client := (bg_client bg)\<lparr>cl_manager := (cl_manager (bg_client bg))
        \<lparr>batches := (batches (cl_manager (bg_client bg)))((a, b) := None)\<rparr>,
        cl_outbox := cl_outbox (bg_client bg) @ [ToBatch tx (Inr rps)]\<rparr>,
      bg_check := mark_as_active now (bg_check bg)\<rparr>"
proof -
  let ?ids = "map (\<lambda>k. a + of_nat k) [0..<n]" and ?c = "bg_client bg"
  note ids = range_ids [OF assms(2) refl]
  have "a < b" using assms(2,3) by (simp add: word_less_nat_alt)
  obtain out c' where out: "handle_array env answer ?c = (Done (Inr []), c')"
    "cl_outbox c' = cl_outbox ?c @ [ToBatch tx (Inr out)]" "length out = unat b - unat a"
    "\<And>k. k < length ?ids \<Longrightarrow> out ! (unat (?ids ! k) - unat a) = rps ! k"
    by (rule handle_array_batch [OF assms(4-6) ids(2,3) \<open>a < b\<close> assms(1)]) auto
  have "out = rps"
  proof (rule nth_equalityI)
    show "length out = length rps" using out(3) assms(2) list_all2_lengthD [OF assms(6)] by simp
    fix k assume "k < length out"
    then have "k < n" using out(3) assms(2) by simp
    with out(4) [of k] ids(4) [of k] show "out ! k = rps ! k" by simp
  qed
  moreover have "process_batch_response rps (a, b) ?c = (Inr (), c')"
    using out(1) assms(4) extend_range_interval [OF ids(3) \<open>a < b\<close>]
    by (simp add: handle_array_def handle_elements_responses [OF assms(5,6)] split: prod.splits sum.splits)
  then obtain out' where "c' = ?c\<lparr>cl_manager := (cl_manager ?c)\<lparr>batches := (batches (cl_manager ?c))((a, b) := None)\<rparr>,
      cl_outbox := cl_outbox ?c @ [ToBatch tx (Inr out')]\<rparr>"
    using batch_processed [OF assms(1)] by (metis BatchState.select_convs(1))
  moreover obtain rest where "answer = CHR ''['' # rest" using assms(7,8) by (cases answer) auto
  then have "handle_recv_message env answer ?c = handle_array env answer ?c"
    by (simp add: handle_recv_message_def is_ascii_whitespace_def)
  ultimately show ?thesis using out(1,2) by (simp add: read_task_message_def handle_backend_messages_def Let_def)
qed

text \<open>The result of a batch whose entries can all be decoded, and the responses of its calls.\<close>

lemma batch_finished:
  assumes "\<forall>rp \<in> set rps. \<exists>e. decode_entry de_t rp = Inr e"
  obtains br where "Client_batch_finish de_t (Left (Some (Inr rps))) c = Inr br" "length (br_responses br) = length rps"
    "\<forall>k < length rps. decode_entry de_t (rps ! k) = Inr (br_responses br ! k)"
proof -
  have d: "\<forall>rp \<in> set rps. decode_entry de_t rp = Inr (decoded de_t rp)" using assms by (auto simp: decoded_def)
  then show ?thesis
    using that by (simp add: Client_batch_finish_def map_race_def batch_finish_def run_future_until_timeout_def batch_result_def batch_decode_all)
qed

lemma batch_calls_answered:
  assumes "entry_responses emit svc (map (\<lambda>req. Inr (BCall (req\<lparr>req_extensions := ext\<rparr>))) reqs) w = (rs, w')"
    and "list_all2 (\<lambda>r rp. ce_de_response env (mr_json r) = Some rp) rs rps" and "k < length reqs"
  shows "\<exists>v. ce_de_response env (mr_json (fst (RpcService_call emit svc ((reqs ! k)\<lparr>req_extensions := ext\<rparr>) v))) = Some (rps ! k)"
proof -
  have each: "list_all2 (\<lambda>req r. \<exists>v. fst (RpcService_call emit svc (req\<lparr>req_extensions := ext\<rparr>) v) = r) reqs rs"
    using entry_responses_each [of "map (\<lambda>req. Inr (BCall (req\<lparr>req_extensions := ext\<rparr>))) reqs" emit svc w] assms(1)
    by (simp add: is_notification_item_def batch_item_ok_def filter_True list_all2_map1 comp_def)
  then have "k < length rs" "\<exists>v. fst (RpcService_call emit svc ((reqs ! k)\<lparr>req_extensions := ext\<rparr>) v) = rs ! k"
    using assms(3) by (auto simp: list_all2_conv_all_nth)
  moreover from this(1) have "ce_de_response env (mr_json (rs ! k)) = Some (rps ! k)" using assms(2) by (simp add: list_all2_conv_all_nth)
  ultimately show ?thesis by metis
qed

section \<open>Properties\<close>

text \<open>C15. A batch over WebSocket from end to end: an idle client that sends a batch puts one text on the wire; the server's
  task executes its calls one after the other and queues one array with a response for each; what the server sends is read by the client, which
  hands the responses to the caller in the order of the requests; the caller gets one entry per call, the decoded value or the error
  object of the service's response to it. With or without encryption.\<close>

theorem ws_batch_end_to_end:
  assumes "shared_cipher (wsc_encryption cfg) valid_utf" and "wh_message_encryption h = wsc_encryption cfg"
    and "is_connected c" and "\<not> bg_read_done (cli_background c)" and "\<not> bg_panicked (cli_background c)"
    and "bg_queue (cli_background c) = []" and "length es < 2 ^ 64"
    and "batch_prepare es (cli_id_manager c) = (Inr (reqs, (a, b)), im)" and "batches (cl_manager (bg_client (cli_background c))) (a, b) = None"
    and "to_raw_value (ce_emit env) (SSeq (map Request_serialize reqs)) = Some raw" and "raw \<noteq> []" and "hd raw = CHR ''[''"
    and "ClientSender_send cops h raw s = (Inr (), s')"
    and "de_array de raw = Some calls" and "list_all2 (\<lambda>call req. de_call de call = Some req) calls reqs"
    and "batch_allowed (wsc_batch_requests_config cfg) (length calls)"
    and "entry_responses emit svc (map (\<lambda>req. Inr (BCall (req\<lparr>req_extensions := ext\<rparr>))) reqs) w = (rs, w')"
    and "answer = ''['' @ join_comma (map mr_json rs) @ '']''" and "length answer \<le> rs_max_response_body_size svc" and "valid answer"
    and "valid_utf answer" and "\<forall>enc. wsc_encryption cfg = Some enc \<longrightarrow> enc_encrypt enc answer \<noteq> None"
    and "MethodSink_send ops sink answer (wd_conns w') = (Inr (), q)"
    and "ce_de_array env answer = Some (map mr_json rs)" and "list_all2 (\<lambda>r rp. ce_de_response env (mr_json r) = Some rp) rs rps"
    and "list_all2 (\<lambda>rp req. rp_id rp = req_id req) rps reqs" and "\<forall>rp \<in> set rps. \<exists>e. decode_entry de_t rp = Inr e"
  shows "\<exists>x y c1 b1 br.
    Client_batch_start (ce_emit env) False tx es c = (Done (Inr (a, b)), c1) \<and>
    bg_step env (cli_background c1) b1 \<and> bg_to_server b1 = bg_to_server (cli_background c) @ [raw] \<and>
    send_and_flush cops x s = (Inr (), s') \<and>
    ws_handle_message emit ops valid_utf de cfg (rpc_service_impl emit valid svc) ext sink x w = (Done (), w'\<lparr>wd_conns := q\<rparr>) \<and>
    send_message emit sops (wsc_encryption cfg) policy answer t = send_and_flush sops y t \<and>
    ClientReceiver_receive valid_utf h (Inr (IncText y)) = Inr (Text answer) \<and>
    bg_step env b1 (read_task_message env now (Inr (Text answer)) b1) \<and>
    cl_outbox (bg_client (read_task_message env now (Inr (Text answer)) b1)) =
      cl_outbox (bg_client (cli_background c)) @ [ToBatch tx (Inr rps)] \<and>
    Client_batch_finish de_t (Left (Some (Inr rps))) c1 = Inr br \<and> length (br_responses br) = length es \<and>
    (\<forall>k < length es. decode_entry de_t (rps ! k) = Inr (br_responses br ! k) \<and> req_method (reqs ! k) = fst (es ! k) \<and>
      (\<exists>v. ce_de_response env (mr_json (fst (RpcService_call emit svc ((reqs ! k)\<lparr>req_extensions := ext\<rparr>) v))) = Some (rps ! k)))"
proof -
  let ?bg = "cli_background c" and ?n = "length es" and ?k = "id_kind (cli_id_manager c)"
  let ?msg = "FBatch \<lparr>bm_raw = raw, bm_ids = (a, b), bm_send_back = tx\<rparr>" and ?c1 = "queued [FBatch \<lparr>bm_raw = raw, bm_ids = (a, b), bm_send_back = tx\<rparr>] (c\<lparr>cli_id_manager := im\<rparr>)"
  have reqs: "length reqs = ?n" "range_len (a, b) = ?n" "a < b" "\<forall>k < ?n. reqs ! k = Request_owned (fst (es ! k)) (snd (es ! k)) (into_id ?k (a + of_nat k))"
    using batch_prepare_spec [of "cli_id_manager c" es reqs "(a, b)" im] assms(7,8) by auto
  have b: "unat b = unat a + ?n" "?n \<noteq> 0" using reqs(2,3) by (auto simp: range_len_def word_less_nat_alt)
  then have ne: "reqs \<noteq> []" using reqs(1) by auto
  have start: "Client_batch_start (ce_emit env) False tx es c = (Done (Inr (a, b)), ?c1)"
    using assms(3,8,10) by (simp add: Client_batch_start_def batch_message_def queue_message_cases is_connected_def Let_def)
  have bg: "cli_background ?c1 = ?bg\<lparr>bg_queue := [?msg]\<rparr>" using assms(6) by (simp add: queued_def)
  define b1 where "b1 = send_task_message env (\<lambda>_. Inr ()) ?msg ?bg"
  note b1 = batch_sent [OF assms(9), of "\<lambda>_. Inr ()" raw env tx, OF refl, folded b1_def]
  have "?bg\<lparr>bg_queue := []\<rparr> = ?bg" using assms(6) by simp
  then have step1: "bg_step env (cli_background ?c1) b1"
    using bg_step.send_message [of "?bg\<lparr>bg_queue := [?msg]\<rparr>" ?msg "[]" env "\<lambda>_. Inr ()"] assms(3,5)
    unfolding bg b1_def by (simp add: is_connected_def)
  obtain x where x: "send_and_flush cops x s = (Inr (), s')" "decrypt_data emit ops valid_utf cfg sink x w = (Some raw, w)"
    using shared_cipher.client_to_server [OF assms(1,2) refl assms(13)] by blast
  note served = ws_batch_served [where valid = valid, OF x(2) assms(11,12,14,15) ne assms(16-20,23)]
  obtain y where y: "send_message emit sops (wsc_encryption cfg) policy answer t = send_and_flush sops y t"
    "ClientReceiver_receive valid_utf h (Inr (IncText y)) = Inr (Text answer)"
    using shared_cipher.server_to_client [OF assms(1,2,21,22), where emit = emit and sops = sops and policy = policy and q = t] by blast
  have len: "length rps = ?n" using assms(26) reqs(1) by (simp add: list_all2_lengthD)
  have ids: "list_all2 (\<lambda>rp i. try_parse_inner_as_number (rp_id rp) = Inr i) rps (map (\<lambda>k. a + of_nat k) [0..<?n])"
    using assms(26) reqs(1,4) len by (simp add: list_all2_conv_all_nth Request_owned_def)
  have texts: "list_all2 (\<lambda>m rp. ce_de_response env m = Some rp) (map mr_json rs) rps" using assms(25) by (simp add: list_all2_map1)
  have pend: "batches (cl_manager (bg_client b1)) (a, b) = Some \<lparr>bs_send_back = tx\<rparr>" by (simp add: b1)
  have ans: "answer \<noteq> []" "hd answer = CHR ''[''" by (simp_all add: assms(18))
  have outbox: "cl_outbox (bg_client (read_task_message env now (Inr (Text answer)) b1)) = cl_outbox (bg_client ?bg) @ [ToBatch tx (Inr rps)]"
    using batch_answer_delivered [OF pend b assms(24) texts ids ans, of now] by (simp add: b1)
  have step2: "bg_step env b1 (read_task_message env now (Inr (Text answer)) b1)"
    using assms(4,5) by (intro bg_step.read_message) (simp_all add: b1)
  obtain br where br: "Client_batch_finish de_t (Left (Some (Inr rps))) ?c1 = Inr br" "length (br_responses br) = length rps"
    "\<forall>k < length rps. decode_entry de_t (rps ! k) = Inr (br_responses br ! k)"
    by (rule batch_finished [OF assms(27)])
  have "\<forall>k < ?n. decode_entry de_t (rps ! k) = Inr (br_responses br ! k) \<and> req_method (reqs ! k) = fst (es ! k) \<and>
      (\<exists>v. ce_de_response env (mr_json (fst (RpcService_call emit svc ((reqs ! k)\<lparr>req_extensions := ext\<rparr>) v))) = Some (rps ! k))"
    using br(3) len batch_calls_answered [OF assms(17,25)] reqs(1,4) by (simp add: Request_owned_def)
  moreover have "bg_to_server b1 = bg_to_server ?bg @ [raw]" by (simp add: b1)
  ultimately show ?thesis using start step1 x(1) served y step2 outbox br len by (intro exI [of _ x] exI [of _ y] exI [of _ ?c1] exI [of _ b1] exI [of _ br]) simp
qed

text \<open>A batch of two calls of \<open>m\<close>, which answers 7.\<close>

definition example_batch_text :: "u64 \<Rightarrow> string" where
  "example_batch_text n = json_text (Response_serialize SU64 (Response_new (Success (7 :: u64)) (Number n)))"

definition example_batch_requests :: "Request list" where
  "example_batch_requests = [Request_owned ''m'' None (Number 0), Request_owned ''m'' None (Number 1)]"

definition example_batch_env :: "chan_store client_env" where
  "example_batch_env = example_ws_env\<lparr>
     ce_de_array := (\<lambda>_. Some [example_batch_text 0, example_batch_text 1]),
     ce_de_response := (\<lambda>m. Some (Response_new (Success ''7'') (Number (if m = example_batch_text 0 then 0 else 1))))\<rparr>"

definition example_batch_readers :: readers where
  "example_batch_readers = example_http_readers\<lparr>de_array := (\<lambda>_. Some [''0'', ''1'']),
     de_call := (\<lambda>x. Some (Request_owned ''m'' None (Number (if x = ''0'' then 0 else 1))))\<rparr>"

lemma example_batch_texts:
  "example_batch_text 0 = ''{\"jsonrpc\":\"2.0\",\"id\":0,\"result\":7}''" "example_batch_text 1 = ''{\"jsonrpc\":\"2.0\",\"id\":1,\"result\":7}''"
  by (simp_all add: example_batch_text_def json_eval)

lemma example_call_response:
  assumes "length (example_batch_text n) \<le> 1000"
  obtains rp where "RpcService_call json_emit example_http_service (Request_owned ''m'' None (Number n)) example_server = (rp, example_server)"
    "mr_json rp = example_batch_text n"
proof -
  have svc: "rs_methods example_http_service = rm_methods example_module" by (simp add: example_http_service_def)
  obtain rp where "RpcService_call json_emit example_http_service (Request_owned ''m'' None (Number n)) example_server = (rp, example_server)"
    "mr_json rp = concat [example_batch_text n]"
    by (rule registered_call [OF example_registered svc, where req = "Request_owned ''m'' None (Number n)" and w = example_server and r = 7
          and w' = example_server and cs = "[example_batch_text n]"])
      (use assms in \<open>auto simp: Request_owned_def json_emit_def example_batch_text_def into_response_value_def payload_success_def payload_from_def
        example_http_service_def\<close>)
  with that show ?thesis by simp
qed

theorem ws_batch_end_to_end_witness:
  "\<exists>c1 br. Client_batch_start json_emit False 5 [(''m'', None), (''m'', None)] example_ws_client = (Done (Inr (0, 2)), c1) \<and>
     Client_batch_finish (\<lambda>_. Inr (7 :: u64)) (Left (Some (Inr [Response_new (Success ''7'') (Number 0), Response_new (Success ''7'') (Number 1)]))) c1 =
       Inr br \<and> br_responses br = [Inr 7, Inr 7]"
proof -
  let ?es = "[(''m'', None), (''m'', None)] :: BatchRequestBuilder" and ?reqs = example_batch_requests
  let ?raw = "json_text (SSeq (map Request_serialize example_batch_requests))"
  let ?rps = "[Response_new (Success ''7'') (Number 0), Response_new (Success ''7'') (Number 1)]"
  let ?cfg = "\<lparr>wsc_batch_requests_config = BatchUnlimited, wsc_max_request_body_size = 1000, wsc_policy = SendError, wsc_encryption = None\<rparr>"
  let ?h = "\<lparr>wh_stream = PlainStream (), wh_max_message_size = 1000, wh_max_request_size = 1000, wh_message_encryption = None\<rparr>"
  obtain r0 where r0: "RpcService_call json_emit example_http_service (Request_owned ''m'' None (Number 0)) example_server = (r0, example_server)"
    "mr_json r0 = example_batch_text 0" by (rule example_call_response [of 0]) (simp_all add: example_batch_texts)
  obtain r1 where r1: "RpcService_call json_emit example_http_service (Request_owned ''m'' None (Number 1)) example_server = (r1, example_server)"
    "mr_json r1 = example_batch_text 1" by (rule example_call_response [of 1]) (simp_all add: example_batch_texts)
  let ?answer = "''['' @ join_comma (map mr_json [r0, r1]) @ '']''"
  have raw: "?raw = ''[{\"jsonrpc\":\"2.0\",\"id\":0,\"method\":\"m\"},{\"jsonrpc\":\"2.0\",\"id\":1,\"method\":\"m\"}]''"
    by (simp add: example_batch_requests_def json_eval)
  have c: "is_connected example_ws_client" "\<not> bg_read_done (cli_background example_ws_client)"
    "\<not> bg_panicked (cli_background example_ws_client)" "bg_queue (cli_background example_ws_client) = []" "length ?es < 2 ^ 64"
    "batch_prepare ?es (cli_id_manager example_ws_client) = (Inr (?reqs, (0, 2)), \<lparr>current_id = 1, id_kind = IdNumber\<rparr>)"
    "batches (cl_manager (bg_client (cli_background example_ws_client))) (0, 2) = None"
    by (simp_all add: example_ws_client_def Client_new_def is_connected_def bg_new_def client_new_def RequestManager_new_def batch_prepare_def
        BatchRequestBuilder_build_def next_request_id_def RequestIdManager_new_def CurrentId_next_def generate_batch_id_range_def checked_add_u64_def
        example_batch_requests_def)
  have m: "to_raw_value (ce_emit example_batch_env) (SSeq (map Request_serialize ?reqs)) = Some ?raw" "?raw \<noteq> []" "hd ?raw = CHR ''[''"
    by (simp_all add: example_batch_env_def example_ws_env_def to_raw_value_def json_emit_def)
  have snd: "ClientSender_send log_ops ?h ?raw [] = (Inr (), [?raw])"
    unfolding raw by (simp add: ClientSender_send_def send_and_flush_def log_ops_def)
  have d: "de_array example_batch_readers ?raw = Some [''0'', ''1'']"
    "list_all2 (\<lambda>call req. de_call example_batch_readers call = Some req) [''0'', ''1''] ?reqs"
    "batch_allowed (wsc_batch_requests_config ?cfg) (length [''0'', ''1''])"
    "entry_responses json_emit example_http_service (map (\<lambda>req. Inr (BCall (req\<lparr>req_extensions := Map.empty\<rparr>))) ?reqs) example_server = ([r0, r1], example_server)"
    using r0(1) r1(1) by (simp_all add: example_batch_readers_def example_batch_requests_def batch_allowed_def usize_MAX_def Request_owned_def)
  have a: "length ?answer \<le> rs_max_response_body_size example_http_service"
    "\<forall>enc. wsc_encryption ?cfg = Some enc \<longrightarrow> enc_encrypt enc ?answer \<noteq> None"
    "MethodSink_send null_ops (MethodSink_new_with_limit 0 1000) ?answer (wd_conns example_server) = (Inr (), ())"
    "ce_de_array example_batch_env ?answer = Some (map mr_json [r0, r1])"
    "list_all2 (\<lambda>r rp. ce_de_response example_batch_env (mr_json r) = Some rp) [r0, r1] ?rps"
    "list_all2 (\<lambda>rp req. rp_id rp = req_id req) ?rps ?reqs" "\<forall>rp \<in> set ?rps. \<exists>e. decode_entry (\<lambda>_. Inr (7 :: u64)) rp = Inr e"
    using r0(2) r1(2)
    by (simp_all add: example_batch_env_def example_http_service_def example_batch_texts example_batch_requests_def Request_owned_def Response_new_def
        MethodSink_send_def null_ops_def decode_entry_def)
  have p: "shared_cipher (wsc_encryption ?cfg) (\<lambda>_. True)" using plain.shared_cipher_axioms by simp
  note e2e = ws_batch_end_to_end [where valid = "\<lambda>_. True" and valid_utf = "\<lambda>_. True" and sops = log_ops and t = "[]" and policy = SendError and now = 0 and tx = 5,
      OF p _ c m snd d refl a(1) TrueI TrueI a(2-)]
  then obtain c1 br where "Client_batch_start (ce_emit example_batch_env) False 5 ?es example_ws_client = (Done (Inr (0, 2)), c1)"
    "Client_batch_finish (\<lambda>_. Inr (7 :: u64)) (Left (Some (Inr ?rps))) c1 = Inr br" "length (br_responses br) = length ?es"
    "\<forall>k < length ?es. decode_entry (\<lambda>_. Inr (7 :: u64)) (?rps ! k) = Inr (br_responses br ! k)"
    by (fastforce simp del: list.size)
  moreover from this(3) this(4) [rule_format, of 0] this(4) [rule_format, of 1] have "br_responses br = [Inr 7, Inr 7]"
    by (auto simp: list_eq_iff_nth_eq less_Suc_eq decode_entry_def Response_new_def)
  ultimately show ?thesis by (auto simp: example_batch_env_def example_ws_env_def)
qed

end
