(* ===== verification/Server_Connection.thy ===== *)
theory Server_Connection
  imports Ws_Transport
begin

text \<open>
  \<open>server/src/server.rs\<close>: the configuration of a server and what it does with an HTTP request;
  \<open>server/src/future.rs\<close>: the limit of connections; \<open>server/src/connection_manager.rs\<close>: notifications to
  connections. The handshake (\<open>soketto\<close>) and the upgrade (\<open>hyper\<close>) are parameters or events.
\<close>

section \<open>Configuration\<close>

record ('c, 'u) ServerConfig =
  sc_max_request_body_size :: u32
  sc_max_response_body_size :: u32
  sc_max_connections :: u32
  sc_max_subscriptions_per_connection :: u32
  sc_batch_requests_config :: BatchRequestConfig
  sc_enable_http :: bool
  sc_enable_ws :: bool
  sc_message_buffer_capacity :: u32
  sc_ping_config :: "ServerPingConfig option"
  sc_id_provider :: "('c, 'u) server_world \<Rightarrow> SubscriptionId"
  sc_tcp_no_delay :: bool
  sc_message_encryption :: "MessageEncryption option"
  sc_message_crypto_error_policy :: MessageCryptoErrorPolicy
  sc_connection_manager :: bool

definition MAX_CONNECTIONS :: u32 where "MAX_CONNECTIONS = 100"

text \<open>The builder has the fields of the configuration; \<open>random\<close> is the number the default provider draws.\<close>

definition ServerConfigBuilder_default :: "(('c, 'u) server_world \<Rightarrow> u64) \<Rightarrow> ('c, 'u) ServerConfig" where
  "ServerConfigBuilder_default random = \<lparr>sc_max_request_body_size = TEN_MB_SIZE_BYTES,
     sc_max_response_body_size = TEN_MB_SIZE_BYTES, sc_max_connections = MAX_CONNECTIONS,
     sc_max_subscriptions_per_connection = 1024, sc_batch_requests_config = BatchUnlimited,
     sc_enable_http = True, sc_enable_ws = True, sc_message_buffer_capacity = 1024, sc_ping_config = None,
     sc_id_provider = RandomIntegerIdProvider_next_id \<circ> random, sc_tcp_no_delay = True, sc_message_encryption = None,
     sc_message_crypto_error_policy = MessageCryptoErrorPolicy_default, sc_connection_manager = False\<rparr>"

definition max_connections :: "u32 \<Rightarrow> ('c, 'u) ServerConfig \<Rightarrow> ('c, 'u) ServerConfig" where
  "max_connections n b = b\<lparr>sc_max_connections := n\<rparr>"

definition set_batch_request_config :: "BatchRequestConfig \<Rightarrow> ('c, 'u) ServerConfig \<Rightarrow> ('c, 'u) ServerConfig" where
  "set_batch_request_config cfg b = b\<lparr>sc_batch_requests_config := cfg\<rparr>"

definition http_only :: "('c, 'u) ServerConfig \<Rightarrow> ('c, 'u) ServerConfig" where
  "http_only b = b\<lparr>sc_enable_http := True, sc_enable_ws := False\<rparr>"

definition ws_only :: "('c, 'u) ServerConfig \<Rightarrow> ('c, 'u) ServerConfig" where
  "ws_only b = b\<lparr>sc_enable_http := False, sc_enable_ws := True\<rparr>"

definition set_message_buffer_capacity :: "u32 \<Rightarrow> ('c, 'u) ServerConfig \<Rightarrow> ('c, 'u) ServerConfig outcome" where
  "set_message_buffer_capacity c b = (if c > 0 then Done (b\<lparr>sc_message_buffer_capacity := c\<rparr>) else Panicked)"

definition enable_ws_ping :: "ServerPingConfig \<Rightarrow> ('c, 'u) ServerConfig \<Rightarrow> ('c, 'u) ServerConfig" where
  "enable_ws_ping p b = b\<lparr>sc_ping_config := Some p\<rparr>"

definition set_message_crypto_error_policy ::
  "MessageCryptoErrorPolicy \<Rightarrow> ('c, 'u) ServerConfig \<Rightarrow> ('c, 'u) ServerConfig" where
  "set_message_crypto_error_policy policy b = b\<lparr>sc_message_crypto_error_policy := policy\<rparr>"

section \<open>The limit of connections (future.rs)\<close>

record ConnectionGuard =
  cg_available :: nat
  cg_max :: nat

definition ConnectionGuard_new :: "nat \<Rightarrow> ConnectionGuard" where
  "ConnectionGuard_new limit = \<lparr>cg_available = limit, cg_max = limit\<rparr>"

definition ConnectionGuard_try_acquire :: "ConnectionGuard \<Rightarrow> bool \<times> ConnectionGuard" where
  "ConnectionGuard_try_acquire g =
     (if cg_available g > 0 then (True, g\<lparr>cg_available := cg_available g - 1\<rparr>) else (False, g))"

definition available_connections :: "ConnectionGuard \<Rightarrow> nat" where
  "available_connections g = cg_available g"

definition release_connection :: "ConnectionGuard \<Rightarrow> ConnectionGuard" where
  "release_connection g = g\<lparr>cg_available := cg_available g + 1\<rparr>"

section \<open>The connection manager (connection_manager.rs)\<close>

type_synonym ConnectionManager = "nat \<rightharpoonup> MethodSink"

datatype NotificationError = NeConnectionNotFound nat | NeConnectionClosed | NeSerializationError

definition ConnectionManager_new :: ConnectionManager where
  "ConnectionManager_new = Map.empty"

definition register_connection :: "nat \<Rightarrow> MethodSink \<Rightarrow> ConnectionManager \<Rightarrow> ConnectionManager" where
  "register_connection conn_id sink m = m(conn_id \<mapsto> sink)"

definition unregister_connection :: "nat \<Rightarrow> ConnectionManager \<Rightarrow> ConnectionManager" where
  "unregister_connection conn_id m = m(conn_id := None)"

definition manager_send ::
  "'c sink_ops \<Rightarrow> ConnectionManager \<Rightarrow> nat \<Rightarrow> string \<Rightarrow> 'c \<Rightarrow> (unit, NotificationError) result \<times> 'c" where
  "manager_send ops m conn_id json c = (case m conn_id of
       None \<Rightarrow> (Err (NeConnectionNotFound conn_id), c)
     | Some sink \<Rightarrow> (case MethodSink_send ops sink json c of
         (Inr _, c') \<Rightarrow> (Ok (), c')
       | (Inl _, c') \<Rightarrow> (Err NeConnectionClosed, c')))"

text \<open>The message \<open>Notification\<close> of this module, with its parameters as serialized by the caller.\<close>

definition manager_notification :: "string \<Rightarrow> ser \<Rightarrow> ser" where
  "manager_notification meth params =
     SStruct [(''jsonrpc'', SStr ''2.0''), (''method'', SStr meth), (''params'', params)]"

definition send_notification ::
  "emitter \<Rightarrow> 'c sink_ops \<Rightarrow> ConnectionManager \<Rightarrow> nat \<Rightarrow> ser \<Rightarrow> 'c \<Rightarrow> (unit, NotificationError) result \<times> 'c" where
  "send_notification emit ops m conn_id notification c = (case m conn_id of
       None \<Rightarrow> (Err (NeConnectionNotFound conn_id), c)
     | Some _ \<Rightarrow> (case to_raw_value emit notification of
         None \<Rightarrow> (Err NeSerializationError, c)
       | Some json \<Rightarrow> manager_send ops m conn_id json c))"

fun send_each ::
  "'c sink_ops \<Rightarrow> ConnectionManager \<Rightarrow> nat list \<Rightarrow> string \<Rightarrow> 'c \<Rightarrow> (unit, NotificationError) result list \<times> 'c" where
  "send_each ops m [] json c = ([], c)"
| "send_each ops m (conn_id # ids) json c =
     (let (r, c') = manager_send ops m conn_id json c; (rs, c'') = send_each ops m ids json c' in (r # rs, c''))"

definition send_to_connections ::
  "emitter \<Rightarrow> 'c sink_ops \<Rightarrow> ConnectionManager \<Rightarrow> nat list \<Rightarrow> ser \<Rightarrow> 'c \<Rightarrow>
     ((unit, NotificationError) result list, NotificationError) result \<times> 'c" where
  "send_to_connections emit ops m conn_ids notification c = (case to_raw_value emit notification of
       None \<Rightarrow> (Err NeSerializationError, c)
     | Some json \<Rightarrow> apfst Ok (send_each ops m conn_ids json c))"

text \<open>\<open>order\<close> is the order in which the hash map is traversed. The result is the number of connections
  that were reached, the connections to be unregistered afterwards and the state.\<close>

fun broadcast_loop ::
  "'c sink_ops \<Rightarrow> ConnectionManager \<Rightarrow> nat list \<Rightarrow> (nat \<Rightarrow> bool) \<Rightarrow> string \<Rightarrow> 'c \<Rightarrow> nat \<times> nat list \<times> 'c" where
  "broadcast_loop ops m [] flt json c = (0, [], c)"
| "broadcast_loop ops m (conn_id # ids) flt json c =
     (if \<not> flt conn_id then broadcast_loop ops m ids flt json c
      else case manager_send ops m conn_id json c of
        (Inr _, c') \<Rightarrow> (let (n, failed, c'') = broadcast_loop ops m ids flt json c' in (n + 1, failed, c''))
      | (Inl _, c') \<Rightarrow> (let (n, failed, c'') = broadcast_loop ops m ids flt json c' in (n, conn_id # failed, c'')))"

definition broadcast_filtered ::
  "emitter \<Rightarrow> 'c sink_ops \<Rightarrow> nat list \<Rightarrow> (nat \<Rightarrow> bool) \<Rightarrow> ser \<Rightarrow> ConnectionManager \<Rightarrow> 'c \<Rightarrow>
     (nat, NotificationError) result \<times> ConnectionManager \<times> 'c" where
  "broadcast_filtered emit ops order flt notification m c = (case to_raw_value emit notification of
       None \<Rightarrow> (Err NeSerializationError, m, c)
     | Some json \<Rightarrow> (let (n, failed, c') = broadcast_loop ops m order flt json c in
         (Ok n, fold unregister_connection failed m, c')))"

definition broadcast_notification ::
  "emitter \<Rightarrow> 'c sink_ops \<Rightarrow> nat list \<Rightarrow> ser \<Rightarrow> ConnectionManager \<Rightarrow> 'c \<Rightarrow>
     (nat, NotificationError) result \<times> ConnectionManager \<times> 'c" where
  "broadcast_notification emit ops order notification m c =
     broadcast_filtered emit ops order (\<lambda>_. True) notification m c"

text \<open>\<open>order\<close> is the order in which the map is traversed.\<close>

record ConnectionStats =
  total_connections :: nat
  active_connections :: "nat list"

definition get_stats :: "nat list \<Rightarrow> ConnectionManager \<Rightarrow> ConnectionStats" where
  "get_stats order m = \<lparr>total_connections = card (dom m), active_connections = order\<rparr>"

text \<open>The arms of the macro \<open>notify!\<close>.\<close>

definition notify_one ::
  "emitter \<Rightarrow> 'c sink_ops \<Rightarrow> ConnectionManager \<Rightarrow> nat \<Rightarrow> string \<Rightarrow> ser \<Rightarrow> 'c \<Rightarrow> (unit, NotificationError) result \<times> 'c" where
  "notify_one emit ops m conn_id meth params c = send_notification emit ops m conn_id (manager_notification meth params) c"

definition notify_broadcast ::
  "emitter \<Rightarrow> 'c sink_ops \<Rightarrow> nat list \<Rightarrow> ConnectionManager \<Rightarrow> string \<Rightarrow> ser \<Rightarrow> 'c \<Rightarrow>
     (nat, NotificationError) result \<times> ConnectionManager \<times> 'c" where
  "notify_broadcast emit ops order m meth params c = broadcast_notification emit ops order (manager_notification meth params) m c"

definition notify_multi ::
  "emitter \<Rightarrow> 'c sink_ops \<Rightarrow> ConnectionManager \<Rightarrow> nat list \<Rightarrow> string \<Rightarrow> ser \<Rightarrow> 'c \<Rightarrow>
     ((unit, NotificationError) result list, NotificationError) result \<times> 'c" where
  "notify_multi emit ops m conn_ids meth params c = send_to_connections emit ops m conn_ids (manager_notification meth params) c"

definition notify_filter ::
  "emitter \<Rightarrow> 'c sink_ops \<Rightarrow> nat list \<Rightarrow> ConnectionManager \<Rightarrow> (nat \<Rightarrow> bool) \<Rightarrow> string \<Rightarrow> ser \<Rightarrow> 'c \<Rightarrow>
     (nat, NotificationError) result \<times> ConnectionManager \<times> 'c" where
  "notify_filter emit ops order m flt meth params c = broadcast_filtered emit ops order flt (manager_notification meth params) m c"

definition is_connection_active :: "nat \<Rightarrow> ConnectionManager \<Rightarrow> bool" where
  "is_connection_active conn_id m = (m conn_id \<noteq> None)"

definition connection_count :: "ConnectionManager \<Rightarrow> nat" where
  "connection_count m = card (dom m)"

section \<open>Requests (server.rs)\<close>

text \<open>
  What the service decides on a request: an answer, a WebSocket connection whose task is spawned,
  or an HTTP call; the latter two hold a permit until they end.
\<close>

datatype ('c, 'u) tower_result =
    TrReply HttpResponse
  | TrWebSocket HttpResponse "('c, 'u) RpcService" extensions
  | TrHttpCall "('c, 'u) RpcService" HttpRequest

definition handshake_failed :: "string \<Rightarrow> HttpResponse" where
  "handshake_failed e = \<lparr>hp_status = 200, hp_body = ''Could not upgrade connection: '' @ e, hp_content_type = [],
     hp_extensions = Map.empty\<rparr>"

text \<open>\<open>tx\<close> is the channel made for the connection.\<close>

definition tower_call ::
  "(HttpRequest \<Rightarrow> bool) \<Rightarrow> (HttpRequest \<Rightarrow> (HttpResponse, string) result) \<Rightarrow> ('c, 'u) ServerConfig \<Rightarrow>
     ('c, 'u) server_world Methods \<Rightarrow> u32 \<Rightarrow> nat \<Rightarrow> HttpRequest \<Rightarrow> ConnectionGuard \<Rightarrow>
     ('c, 'u) tower_result \<times> ConnectionGuard"
where
  "tower_call is_upgrade_request receive_request cfg methods conn_id tx request g =
     (case ConnectionGuard_try_acquire g of
        (False, g') \<Rightarrow> (TrReply too_many_requests, g')
      | (True, g') \<Rightarrow>
          (let req = request\<lparr>hr_extensions := (hr_extensions request)
                 (''ConnectionGuard'' \<mapsto> nat_to_string (cg_max g), ''ConnectionId'' \<mapsto> nat_to_string (unat conn_id))\<rparr>;
               service = (\<lambda>c. \<lparr>rs_conn_id = unat conn_id, rs_methods = methods,
                 rs_max_response_body_size = unat (sc_max_response_body_size cfg), rs_cfg = c,
                 rs_id_provider = sc_id_provider cfg\<rparr>);
               upgrade = is_upgrade_request req
           in if sc_enable_ws cfg \<and> upgrade then
                (case receive_request req of
                   Inr response \<Rightarrow>
                     (TrWebSocket response (service (CallsAndSubscriptions
                        (sc_max_subscriptions_per_connection cfg) (MethodSink_new tx))) (hr_extensions req), g')
                 | Inl e \<Rightarrow> (TrReply (handshake_failed e), release_connection g'))
              else if sc_enable_http cfg \<and> \<not> upgrade then (TrHttpCall (service OnlyCalls) req, g')
              else (TrReply denied, release_connection g')))"

text \<open>The ids that the accept loop gives to its connections.\<close>

fun accept_ids :: "nat \<Rightarrow> u32 \<Rightarrow> u32 list" where
  "accept_ids 0 i = []"
| "accept_ids (Suc n) i = i # accept_ids n (i + 1)"

section \<open>The life of connections\<close>

datatype conn_phase = PhHttp | PhUpgrading | PhRunning

record server_conns =
  sv_guard :: ConnectionGuard
  sv_manager :: ConnectionManager
  sv_live :: "(nat \<times> conn_phase) list"

definition sv_start :: "nat \<Rightarrow> server_conns" where
  "sv_start limit = \<lparr>sv_guard = ConnectionGuard_new limit, sv_manager = ConnectionManager_new, sv_live = []\<rparr>"

definition sv_end :: "nat \<times> conn_phase \<Rightarrow> server_conns \<Rightarrow> server_conns" where
  "sv_end x s = s\<lparr>sv_guard := release_connection (sv_guard s), sv_live := remove1 x (sv_live s)\<rparr>"

text \<open>
  The task of a WebSocket connection registers with the connection manager, waits for the upgrade,
  runs, and unregisters; when the upgrade fails it returns at once. Permits are returned when the
  connection's state is dropped.
\<close>

inductive sv_step ::
  "(HttpRequest \<Rightarrow> bool) \<Rightarrow> (HttpRequest \<Rightarrow> (HttpResponse, string) result) \<Rightarrow> ('c, 'u) ServerConfig \<Rightarrow>
     ('c, 'u) server_world Methods \<Rightarrow> server_conns \<Rightarrow> server_conns \<Rightarrow> bool"
  for is_upgrade receive_request cfg methods where
  reply: "tower_call is_upgrade receive_request cfg methods conn_id tx request (sv_guard s) = (TrReply rp, g) \<Longrightarrow>
    sv_step is_upgrade receive_request cfg methods s (s\<lparr>sv_guard := g\<rparr>)"
| http: "tower_call is_upgrade receive_request cfg methods conn_id tx request (sv_guard s) = (TrHttpCall svc req, g) \<Longrightarrow>
    sv_step is_upgrade receive_request cfg methods s (s\<lparr>sv_guard := g, sv_live := (unat conn_id, PhHttp) # sv_live s\<rparr>)"
| upgrade: "tower_call is_upgrade receive_request cfg methods conn_id tx request (sv_guard s) = (TrWebSocket rp svc ext, g) \<Longrightarrow>
    sv_step is_upgrade receive_request cfg methods s (s\<lparr>sv_guard := g, sv_live := (unat conn_id, PhUpgrading) # sv_live s,
      sv_manager := (if sc_connection_manager cfg then register_connection (unat conn_id) (MethodSink_new tx) (sv_manager s)
                     else sv_manager s)\<rparr>)"
| http_done: "(i, PhHttp) \<in> set (sv_live s) \<Longrightarrow> sv_step is_upgrade receive_request cfg methods s (sv_end (i, PhHttp) s)"
| upgrade_failed: "(i, PhUpgrading) \<in> set (sv_live s) \<Longrightarrow>
    sv_step is_upgrade receive_request cfg methods s (sv_end (i, PhUpgrading) s)"
| upgraded: "(i, PhUpgrading) \<in> set (sv_live s) \<Longrightarrow>
    sv_step is_upgrade receive_request cfg methods s (s\<lparr>sv_live := (i, PhRunning) # remove1 (i, PhUpgrading) (sv_live s)\<rparr>)"
| ws_done: "(i, PhRunning) \<in> set (sv_live s) \<Longrightarrow>
    sv_step is_upgrade receive_request cfg methods s ((sv_end (i, PhRunning) s)\<lparr>sv_manager :=
      (if sc_connection_manager cfg then unregister_connection i (sv_manager s) else sv_manager s)\<rparr>)"

inductive sv_reachable ::
  "(HttpRequest \<Rightarrow> bool) \<Rightarrow> (HttpRequest \<Rightarrow> (HttpResponse, string) result) \<Rightarrow> ('c, 'u) ServerConfig \<Rightarrow>
     ('c, 'u) server_world Methods \<Rightarrow> server_conns \<Rightarrow> bool"
  for is_upgrade receive_request cfg methods where
  start: "sv_reachable is_upgrade receive_request cfg methods (sv_start (unat (sc_max_connections cfg)))"
| step: "sv_reachable is_upgrade receive_request cfg methods s \<Longrightarrow> sv_step is_upgrade receive_request cfg methods s s' \<Longrightarrow>
    sv_reachable is_upgrade receive_request cfg methods s'"

section \<open>Lemmas\<close>

lemma tower_call_guard:
  assumes "tower_call is_upgrade receive_request cfg methods conn_id tx request g = (r, g')"
  shows "cg_max g' = cg_max g \<and>
    (case r of TrReply _ \<Rightarrow> cg_available g' = cg_available g
     | _ \<Rightarrow> 0 < cg_available g \<and> cg_available g' = cg_available g - 1)"
  using assms
  by (auto simp: tower_call_def ConnectionGuard_try_acquire_def release_connection_def Let_def
      split: if_splits sum.splits)

lemma sv_end_count:
  assumes "x \<in> set (sv_live s)"
  shows "cg_available (sv_guard (sv_end x s)) + length (sv_live (sv_end x s)) = cg_available (sv_guard s) + length (sv_live s)"
    and "cg_max (sv_guard (sv_end x s)) = cg_max (sv_guard s)"
  using length_remove1_mem [OF assms] by (simp_all add: sv_end_def release_connection_def)

lemma sv_step_count:
  assumes "sv_step is_upgrade receive_request cfg methods s s'"
  shows "cg_available (sv_guard s') + length (sv_live s') = cg_available (sv_guard s) + length (sv_live s) \<and>
    cg_max (sv_guard s') = cg_max (sv_guard s)"
  using assms
proof cases
  case (upgraded i)
  then show ?thesis using length_remove1_mem [OF upgraded(2)] by simp
qed (use sv_end_count in \<open>auto dest!: tower_call_guard\<close>)

lemma stats_consistent:
  assumes "distinct order" "set order = dom m"
  shows "total_connections (get_stats order m) = length (active_connections (get_stats order m))"
    and "i \<in> set (active_connections (get_stats order m)) \<longleftrightarrow> is_connection_active i m"
  using assms(2) distinct_card [OF assms(1)] by (auto simp: get_stats_def is_connection_active_def)

lemma broadcast_loop_count:
  assumes "broadcast_loop ops m order flt json c = (n, failed, c')" "distinct order"
  shows "n + length failed = length (filter flt order) \<and> set failed \<subseteq> set (filter flt order) \<and> distinct failed"
  using assms
  by (induction ops m order flt json c arbitrary: n failed c' rule: broadcast_loop.induct)
     (fastforce simp: Let_def split: if_splits prod.splits sum.splits)+

lemma unregister_all: "fold unregister_connection failed m = (\<lambda>i. if i \<in> set failed then None else m i)"
  by (induction failed arbitrary: m) (auto simp: unregister_connection_def)

lemma accept_ids_nth: "k < n \<Longrightarrow> accept_ids n i ! k = i + of_nat k"
  by (induction n i arbitrary: k rule: accept_ids.induct) (auto simp: nth_Cons algebra_simps split: nat.splits)

lemma accept_ids_distinct:
  assumes "n \<le> 2 ^ 32"
  shows "distinct (accept_ids n i)"
proof -
  have len: "length (accept_ids n i) = n" by (induction n arbitrary: i) auto
  have "accept_ids n i ! j \<noteq> accept_ids n i ! k" if "j < k" "k < n" for j k
  proof
    assume "accept_ids n i ! j = accept_ids n i ! k"
    with that have "(of_nat j :: u32) = of_nat k" by (simp add: accept_ids_nth)
    then have "unat (of_nat j :: u32) = unat (of_nat k :: u32)" by simp
    with that assms show False by (simp add: unat_of_nat)
  qed
  then show ?thesis unfolding distinct_conv_nth len by (metis nat_neq_iff)
qed

section \<open>Properties\<close>

text \<open>C31. A server never has more HTTP calls, upgrades and WebSocket connections in progress than its
  limit, and the permits that are not free are exactly those of the connections in progress, in
  whatever order they start, fail and end; only then is a request answered 429.\<close>

theorem connection_limit:
  assumes "sv_reachable is_upgrade receive_request cfg methods s"
  shows "cg_available (sv_guard s) + length (sv_live s) = unat (sc_max_connections cfg) \<and>
    (fst (tower_call is_upgrade receive_request cfg methods conn_id tx request (sv_guard s)) = TrReply too_many_requests \<longrightarrow>
       length (sv_live s) = unat (sc_max_connections cfg))"
proof -
  have "cg_available (sv_guard s) + length (sv_live s) = unat (sc_max_connections cfg)"
    using assms
    by (induction rule: sv_reachable.induct) (auto simp: sv_start_def ConnectionGuard_new_def dest: sv_step_count)
  moreover have "hp_status (handshake_failed e) \<noteq> hp_status too_many_requests" "hp_status denied \<noteq> hp_status too_many_requests" for e
    by (simp_all add: handshake_failed_def denied_def too_many_requests_def from_template_def)
  then have "handshake_failed e \<noteq> too_many_requests" "denied \<noteq> too_many_requests" for e by metis+
  ultimately show ?thesis
    by (auto simp: tower_call_def ConnectionGuard_try_acquire_def Let_def split: if_splits sum.splits)
qed

definition example_config :: "(unit, unit) ServerConfig" where
  "example_config = (ServerConfigBuilder_default (\<lambda>_. 0))\<lparr>sc_connection_manager := True\<rparr>"

definition example_get_request :: HttpRequest where
  "example_get_request = \<lparr>hr_method = ''GET'', hr_headers = [], hr_body = [], hr_extensions = Map.empty\<rparr>"

theorem connection_limit_witness:
  "length (sv_live (sv_start (unat (sc_max_connections example_config)))) \<le> unat (sc_max_connections example_config)"
proof -
  have "sv_reachable (\<lambda>_. True) (\<lambda>_. Inl []) example_config Methods_new (sv_start (unat (sc_max_connections example_config)))"
    by (rule sv_reachable.start)
  from connection_limit [OF this, of 0 0 example_get_request] show ?thesis by linarith
qed

text \<open>A WebSocket connection whose upgrade fails after the handshake gives its permit back but stays
  registered with the connection manager for ever: broadcasts keep counting it as a connection.\<close>

lemma failed_upgrade_stays_registered:
  assumes "sv_reachable is_upgrade receive_request cfg methods s" and "sc_connection_manager cfg"
    and "tower_call is_upgrade receive_request cfg methods conn_id tx request (sv_guard s) = (TrWebSocket rp svc ext, g)"
  shows "\<exists>s'. sv_reachable is_upgrade receive_request cfg methods s' \<and> sv_live s' = sv_live s \<and>
    cg_available (sv_guard s') = cg_available (sv_guard s) \<and> is_connection_active (unat conn_id) (sv_manager s')"
proof -
  let ?s1 = "s\<lparr>sv_guard := g, sv_live := (unat conn_id, PhUpgrading) # sv_live s,
      sv_manager := (if sc_connection_manager cfg then register_connection (unat conn_id) (MethodSink_new tx) (sv_manager s)
                     else sv_manager s)\<rparr>"
  have "sv_reachable is_upgrade receive_request cfg methods ?s1"
    using sv_reachable.step [OF assms(1) sv_step.upgrade [OF assms(3)]] by simp
  moreover have "(unat conn_id, PhUpgrading) \<in> set (sv_live ?s1)" by simp
  ultimately have "sv_reachable is_upgrade receive_request cfg methods (sv_end (unat conn_id, PhUpgrading) ?s1)"
    by (rule sv_reachable.step [OF _ sv_step.upgrade_failed])
  moreover have "sv_live (sv_end (unat conn_id, PhUpgrading) ?s1) = sv_live s"
    "cg_available (sv_guard (sv_end (unat conn_id, PhUpgrading) ?s1)) = cg_available (sv_guard s)"
    "is_connection_active (unat conn_id) (sv_manager (sv_end (unat conn_id, PhUpgrading) ?s1))"
    using assms(2) tower_call_guard [OF assms(3)]
    by (simp_all add: sv_end_def release_connection_def register_connection_def is_connection_active_def)
  ultimately show ?thesis by blast
qed

text \<open>A broadcast reports exactly the number of selected connections that are still registered
  afterwards: those that could not be reached are removed, no other connection is, and every
  selected connection is tried once in whatever order the table is traversed.\<close>

lemma broadcast_count:
  assumes "distinct order" and "set order = dom m"
    and "broadcast_filtered emit ops order flt notification m c = (Inr n, m', c')"
  shows "n = card (dom m' \<inter> {i. flt i}) \<and> (\<forall>i. m' i = m i \<or> flt i \<and> m' i = None) \<and> dom m' \<subseteq> dom m"
proof -
  obtain json failed where f: "broadcast_loop ops m order flt json c = (n, failed, c')"
    "m' = (\<lambda>i. if i \<in> set failed then None else m i)"
    using assms(3) by (auto simp: broadcast_filtered_def unregister_all Let_def split: option.splits prod.splits)
  from broadcast_loop_count [OF f(1) assms(1)] have b: "n + length failed = length (filter flt order)"
    "set failed \<subseteq> set (filter flt order)" "distinct failed" by simp_all
  have "dom m' \<inter> {i. flt i} = set (filter flt order) - set failed"
    using f(2) assms(2) by (auto simp: domIff split: if_splits)
  moreover have "card (set (filter flt order) - set failed) = length (filter flt order) - length failed"
    using b(2,3) distinct_card [OF distinct_filter [OF assms(1)], of flt] by (simp add: card_Diff_subset distinct_card)
  ultimately show ?thesis using b f(2) by (auto split: if_splits)
qed

end
