(* ===== verification/Server_Lifecycle.thy ===== *)
theory Server_Lifecycle
  imports Server_Connection
begin

text \<open>
  Starting and stopping a server: the stop channel and the session notices of \<open>server/src/future.rs\<close>,
  the builders and the accept loop of \<open>server/src/server.rs\<close>, and the serving functions of
  \<open>server/src/utils.rs\<close>. The listener, \<open>hyper\<close>'s connection and the layers of the HTTP middleware are parameters.
\<close>

section \<open>The stop channel (future.rs)\<close>

text \<open>
  A \<open>watch\<close> channel: the number of values sent, the clones of the \<open>ServerHandle\<close> that are alive (they share
  one sender) and the number of receivers. A \<open>StopHandle\<close> is a receiver and knows the number of values it has
  seen; a clone of it has seen the same values.
\<close>

record watch =
  wt_version :: nat
  wt_handles :: nat
  wt_receivers :: nat

datatype StopHandle = StopHandle (sh_seen: nat)

datatype AlreadyStoppedError = AlreadyStoppedError

definition stop_channel :: "StopHandle \<times> watch" where
  "stop_channel = (StopHandle 0, \<lparr>wt_version = 0, wt_handles = 1, wt_receivers = 1\<rparr>)"

definition StopHandle_clone :: "StopHandle \<Rightarrow> watch \<Rightarrow> StopHandle \<times> watch" where
  "StopHandle_clone h w = (h, w\<lparr>wt_receivers := wt_receivers w + 1\<rparr>)"

definition StopHandle_drop :: "watch \<Rightarrow> watch" where
  "StopHandle_drop w = w\<lparr>wt_receivers := wt_receivers w - 1\<rparr>"

definition StopHandle_shutdown :: "StopHandle \<Rightarrow> watch \<Rightarrow> unit poll" where
  "StopHandle_shutdown h w = (if wt_version w \<noteq> sh_seen h \<or> wt_handles w = 0 then Ready () else Pending)"

definition ServerHandle_stop :: "watch \<Rightarrow> (unit, AlreadyStoppedError) result \<times> watch" where
  "ServerHandle_stop w =
     (if wt_receivers w = 0 then (Err AlreadyStoppedError, w) else (Ok (), w\<lparr>wt_version := wt_version w + 1\<rparr>))"

definition ServerHandle_stopped :: "watch \<Rightarrow> unit poll" where
  "ServerHandle_stopped w = (if wt_receivers w = 0 then Ready () else Pending)"

definition ServerHandle_is_stopped :: "watch \<Rightarrow> bool" where
  "ServerHandle_is_stopped w = (wt_receivers w = 0)"

section \<open>Session notices (future.rs)\<close>

text \<open>A \<open>broadcast\<close> channel: the messages sent and the senders that are alive; a receiver starts behind
  the messages sent before it subscribed.\<close>

record SessionClose =
  se_sent :: nat
  se_senders :: nat

datatype SessionClosedFuture = SessionClosedFuture (se_next: nat)

definition session_close :: "SessionClose \<times> SessionClosedFuture" where
  "session_close = (\<lparr>se_sent = 0, se_senders = 1\<rparr>, SessionClosedFuture 0)"

definition SessionClose_close :: "SessionClose \<Rightarrow> SessionClose" where
  "SessionClose_close s = s\<lparr>se_sent := se_sent s + 1, se_senders := se_senders s - 1\<rparr>"

definition SessionClose_closed :: "SessionClose \<Rightarrow> SessionClosedFuture" where
  "SessionClose_closed s = SessionClosedFuture (se_sent s)"

definition SessionClosedFuture_poll :: "SessionClosedFuture \<Rightarrow> SessionClose \<Rightarrow> unit poll" where
  "SessionClosedFuture_poll f s = (if se_next f < se_sent s \<or> se_senders s = 0 then Ready () else Pending)"

text \<open>A stream of ticks or, without an interval, one that never yields.\<close>

datatype 'i IntervalStream = IntervalStream "'i option"

definition IntervalStream_pending :: "'i IntervalStream" where
  "IntervalStream_pending = IntervalStream None"

definition IntervalStream_new :: "'i \<Rightarrow> 'i IntervalStream" where
  "IntervalStream_new interval = IntervalStream (Some interval)"

fun IntervalStream_poll_next :: "('i \<Rightarrow> 't poll \<times> 'i) \<Rightarrow> 'i IntervalStream \<Rightarrow> 't poll \<times> 'i IntervalStream" where
  "IntervalStream_poll_next tick (IntervalStream (Some i)) = (let (r, i') = tick i in (r, IntervalStream (Some i')))"
| "IntervalStream_poll_next tick (IntervalStream None) = (Pending, IntervalStream None)"

section \<open>Serving one connection (utils.rs)\<close>

text \<open>
  \<open>hyper\<close>'s connection is polled until it is done; \<open>graceful\<close> tells it to finish what it has started. The
  list says at which polls the stop signal has been given.
\<close>

record ('s, 'r) hyper_conn =
  hy_poll :: "'s \<Rightarrow> 'r poll \<times> 's"
  hy_graceful :: "'s \<Rightarrow> 's"

fun serve :: "('s, 'r) hyper_conn \<Rightarrow> nat \<Rightarrow> 's \<Rightarrow> 'r option" where
  "serve h 0 s = None"
| "serve h (Suc n) s = (case hy_poll h s of (Ready r, _) \<Rightarrow> Some r | (Pending, s') \<Rightarrow> serve h n s')"

fun serve_with_graceful_shutdown :: "('s, 'r) hyper_conn \<Rightarrow> bool list \<Rightarrow> 's \<Rightarrow> 'r option" where
  "serve_with_graceful_shutdown h [] s = None"
| "serve_with_graceful_shutdown h (stopped # polls) s = (case hy_poll h s of
       (Ready r, _) \<Rightarrow> Some r
     | (Pending, s') \<Rightarrow> if stopped then serve h (length polls) (hy_graceful h s')
         else serve_with_graceful_shutdown h polls s')"

section \<open>Builders (server.rs)\<close>

definition max_request_body_size :: "u32 \<Rightarrow> ('c, 'u) ServerConfig \<Rightarrow> ('c, 'u) ServerConfig" where
  "max_request_body_size n b = b\<lparr>sc_max_request_body_size := n\<rparr>"

definition max_response_body_size :: "u32 \<Rightarrow> ('c, 'u) ServerConfig \<Rightarrow> ('c, 'u) ServerConfig" where
  "max_response_body_size n b = b\<lparr>sc_max_response_body_size := n\<rparr>"

definition max_subscriptions_per_connection :: "u32 \<Rightarrow> ('c, 'u) ServerConfig \<Rightarrow> ('c, 'u) ServerConfig" where
  "max_subscriptions_per_connection n b = b\<lparr>sc_max_subscriptions_per_connection := n\<rparr>"

definition disable_ws_ping :: "('c, 'u) ServerConfig \<Rightarrow> ('c, 'u) ServerConfig" where
  "disable_ws_ping b = b\<lparr>sc_ping_config := None\<rparr>"

definition set_id_provider ::
  "(('c, 'u) server_world \<Rightarrow> SubscriptionId) \<Rightarrow> ('c, 'u) ServerConfig \<Rightarrow> ('c, 'u) ServerConfig" where
  "set_id_provider id_provider b = b\<lparr>sc_id_provider := id_provider\<rparr>"

definition set_tcp_no_delay :: "bool \<Rightarrow> ('c, 'u) ServerConfig \<Rightarrow> ('c, 'u) ServerConfig" where
  "set_tcp_no_delay no_delay b = b\<lparr>sc_tcp_no_delay := no_delay\<rparr>"

definition set_message_encryption :: "MessageEncryption \<Rightarrow> ('c, 'u) ServerConfig \<Rightarrow> ('c, 'u) ServerConfig" where
  "set_message_encryption encryption b = b\<lparr>sc_message_encryption := Some encryption\<rparr>"

definition set_connection_manager :: "('c, 'u) ServerConfig \<Rightarrow> ('c, 'u) ServerConfig" where
  "set_connection_manager b = b\<lparr>sc_connection_manager := True\<rparr>"

definition ServerPingConfig_ping_interval :: "nat \<Rightarrow> ServerPingConfig \<Rightarrow> ServerPingConfig" where
  "ServerPingConfig_ping_interval d p = p\<lparr>spc_ping_interval := d\<rparr>"

definition ServerPingConfig_inactive_limit :: "nat \<Rightarrow> ServerPingConfig \<Rightarrow> ServerPingConfig" where
  "ServerPingConfig_inactive_limit d p = p\<lparr>spc_inactive_limit := d\<rparr>"

text \<open>\<open>'h\<close> is a service of the HTTP middleware; \<open>'r\<close> one of the RPC middleware.\<close>

record ('c, 'u, 'r, 'h) Builder =
  bu_server_cfg :: "('c, 'u) ServerConfig"
  bu_rpc_middleware :: "'r RpcServiceBuilder"
  bu_http_middleware :: "'h layer"

definition Builder_with_config :: "('c, 'u) ServerConfig \<Rightarrow> ('c, 'u, 'r, 'h) Builder" where
  "Builder_with_config config = \<lparr>bu_server_cfg = config, bu_rpc_middleware = RpcServiceBuilder_new, bu_http_middleware = id\<rparr>"

definition Builder_default :: "(('c, 'u) server_world \<Rightarrow> u64) \<Rightarrow> ('c, 'u, 'r, 'h) Builder" where
  "Builder_default random = \<lparr>bu_server_cfg = ServerConfigBuilder_default random, bu_rpc_middleware = RpcServiceBuilder_new,
     bu_http_middleware = id\<rparr>"

definition Builder_set_config :: "('c, 'u) ServerConfig \<Rightarrow> ('c, 'u, 'r, 'h) Builder \<Rightarrow> ('c, 'u, 'r, 'h) Builder" where
  "Builder_set_config cfg b = b\<lparr>bu_server_cfg := cfg\<rparr>"

definition Builder_set_rpc_middleware :: "'s RpcServiceBuilder \<Rightarrow> ('c, 'u, 'r, 'h) Builder \<Rightarrow> ('c, 'u, 's, 'h) Builder" where
  "Builder_set_rpc_middleware rpc b = \<lparr>bu_server_cfg = bu_server_cfg b, bu_rpc_middleware = rpc,
     bu_http_middleware = bu_http_middleware b\<rparr>"

definition Builder_set_http_middleware :: "'g layer \<Rightarrow> ('c, 'u, 'r, 'h) Builder \<Rightarrow> ('c, 'u, 'r, 'g) Builder" where
  "Builder_set_http_middleware http b = \<lparr>bu_server_cfg = bu_server_cfg b, bu_rpc_middleware = bu_rpc_middleware b,
     bu_http_middleware = http\<rparr>"

definition Builder_set_message_encryption :: "MessageEncryption \<Rightarrow> ('c, 'u, 'r, 'h) Builder \<Rightarrow> ('c, 'u, 'r, 'h) Builder" where
  "Builder_set_message_encryption encryption b =
     b\<lparr>bu_server_cfg := (bu_server_cfg b)\<lparr>sc_message_encryption := Some encryption\<rparr>\<rparr>"

definition Builder_set_message_crypto_error_policy ::
  "MessageCryptoErrorPolicy \<Rightarrow> ('c, 'u, 'r, 'h) Builder \<Rightarrow> ('c, 'u, 'r, 'h) Builder" where
  "Builder_set_message_crypto_error_policy policy b =
     b\<lparr>bu_server_cfg := (bu_server_cfg b)\<lparr>sc_message_crypto_error_policy := policy\<rparr>\<rparr>"

text \<open>The services that a user drives without the accept loop: the counter of connection ids and the limit
  of connections are shared by all that are built from one builder.\<close>

record ('c, 'u, 'r, 'h) TowerServiceBuilder =
  tsb_server_cfg :: "('c, 'u) ServerConfig"
  tsb_rpc_middleware :: "'r RpcServiceBuilder"
  tsb_http_middleware :: "'h layer"
  tsb_conn_id :: u32
  tsb_conn_guard :: ConnectionGuard

record ('c, 'u) ServiceData =
  sd_methods :: "('c, 'u) server_world Methods"
  sd_stop_handle :: StopHandle
  sd_conn_id :: u32
  sd_conn_guard :: ConnectionGuard
  sd_server_cfg :: "('c, 'u) ServerConfig"

record ('c, 'u, 'r, 'h) TowerService =
  tw_inner :: "('c, 'u) ServiceData"
  tw_rpc_middleware :: "'r RpcServiceBuilder"
  tw_on_session_close :: "SessionClose option"
  tw_http_middleware :: "'h layer"

definition to_service_builder :: "('c, 'u, 'r, 'h) Builder \<Rightarrow> ('c, 'u, 'r, 'h) TowerServiceBuilder" where
  "to_service_builder b = \<lparr>tsb_server_cfg = bu_server_cfg b, tsb_rpc_middleware = bu_rpc_middleware b,
     tsb_http_middleware = bu_http_middleware b, tsb_conn_id = 0,
     tsb_conn_guard = ConnectionGuard_new (unat (sc_max_connections (bu_server_cfg b)))\<rparr>"

definition TowerServiceBuilder_connection_id ::
  "u32 \<Rightarrow> ('c, 'u, 'r, 'h) TowerServiceBuilder \<Rightarrow> ('c, 'u, 'r, 'h) TowerServiceBuilder" where
  "TowerServiceBuilder_connection_id i b = b\<lparr>tsb_conn_id := i\<rparr>"

definition TowerServiceBuilder_max_connections ::
  "u32 \<Rightarrow> ('c, 'u, 'r, 'h) TowerServiceBuilder \<Rightarrow> ('c, 'u, 'r, 'h) TowerServiceBuilder" where
  "TowerServiceBuilder_max_connections limit b = b\<lparr>tsb_conn_guard := ConnectionGuard_new (unat limit)\<rparr>"

text \<open>\<open>fetch_add\<close> wraps around; the builder that is returned stands for the shared counter.\<close>

definition TowerServiceBuilder_build ::
  "('c, 'u) server_world Methods \<Rightarrow> StopHandle \<Rightarrow> ('c, 'u, 'r, 'h) TowerServiceBuilder \<Rightarrow>
     ('c, 'u, 'r, 'h) TowerService \<times> ('c, 'u, 'r, 'h) TowerServiceBuilder" where
  "TowerServiceBuilder_build methods stop_handle b =
     (\<lparr>tw_inner = \<lparr>sd_methods = methods, sd_stop_handle = stop_handle, sd_conn_id = tsb_conn_id b,
         sd_conn_guard = tsb_conn_guard b, sd_server_cfg = tsb_server_cfg b\<rparr>,
       tw_rpc_middleware = tsb_rpc_middleware b, tw_on_session_close = None, tw_http_middleware = tsb_http_middleware b\<rparr>,
      b\<lparr>tsb_conn_id := tsb_conn_id b + 1\<rparr>)"

definition on_session_closed :: "('c, 'u, 'r, 'h) TowerService \<Rightarrow> SessionClosedFuture \<times> ('c, 'u, 'r, 'h) TowerService" where
  "on_session_closed s = (case tw_on_session_close s of
       Some n \<Rightarrow> (SessionClose_closed n, s)
     | None \<Rightarrow> (let (close, fut) = session_close in (fut, s\<lparr>tw_on_session_close := Some close\<rparr>)))"

text \<open>A call runs through the HTTP middleware around a copy of the service without it.\<close>

definition TowerService_call ::
  "(('c, 'u, 'r, 'h) TowerService \<Rightarrow> 'h) \<Rightarrow> ('h \<Rightarrow> HttpRequest \<Rightarrow> 'w \<Rightarrow> (HttpResponse, string) result \<times> 'w) \<Rightarrow>
     ('c, 'u, 'r, 'h) TowerService \<Rightarrow> HttpRequest \<Rightarrow> 'w \<Rightarrow> (HttpResponse, string) result \<times> 'w" where
  "TowerService_call no_http call s request w = call (tw_http_middleware s (no_http s)) request w"

section \<open>The accept loop (server.rs)\<close>

datatype 's AcceptConnection = AcShutdown | AcEstablished 's | AcErr

text \<open>\<open>select\<close> polls the listener first.\<close>

definition try_accept_conn :: "'s option poll \<Rightarrow> unit poll \<Rightarrow> 's AcceptConnection poll" where
  "try_accept_conn accept stopped = (case accept of
       Ready (Some socket) \<Rightarrow> Ready (AcEstablished socket)
     | Ready None \<Rightarrow> Ready AcErr
     | Pending \<Rightarrow> (case stopped of Ready _ \<Rightarrow> Ready AcShutdown | Pending \<Rightarrow> Pending))"

datatype loop_phase = LoopAccepting | LoopDraining | LoopEnded

text \<open>
  The state of a running server: the stop channel without its receivers, which the tasks hold; the phase of
  \<open>start_inner\<close>; the next connection id; the tasks that serve a TCP connection, each with whether it was told
  to finish; and the calls and WebSocket tasks of these connections.
\<close>

record lifecycle =
  lc_version :: nat
  lc_handles :: nat
  lc_loop :: loop_phase
  lc_id :: u32
  lc_serving :: "(nat \<times> bool) list"
  lc_conns :: server_conns

definition lc_start :: "nat \<Rightarrow> lifecycle" where
  "lc_start limit = \<lparr>lc_version = 0, lc_handles = 1, lc_loop = LoopAccepting, lc_id = 0, lc_serving = [], lc_conns = sv_start limit\<rparr>"

text \<open>The stop handles: \<open>start_inner\<close> keeps one and one in its future, a task that serves a connection
  keeps one in its service and one in its future, a WebSocket task one in its connection state.\<close>

definition ws_tasks :: "lifecycle \<Rightarrow> (nat \<times> conn_phase) list" where
  "ws_tasks s = filter (\<lambda>x. snd x \<noteq> PhHttp) (sv_live (lc_conns s))"

definition lc_watch :: "lifecycle \<Rightarrow> watch" where
  "lc_watch s = \<lparr>wt_version = lc_version s, wt_handles = lc_handles s,
     wt_receivers = (if lc_loop s = LoopEnded then 0 else 2) + 2 * length (lc_serving s) + length (ws_tasks s)\<rparr>"

definition stop_signal :: "lifecycle \<Rightarrow> unit poll" where
  "stop_signal s = StopHandle_shutdown (fst stop_channel) (lc_watch s)"

text \<open>\<open>process_connection\<close>: a task for the connection, unless the option could not be set on the socket.\<close>

definition process_connection :: "bool \<Rightarrow> u32 \<Rightarrow> (nat \<times> bool) list \<Rightarrow> (nat \<times> bool) list" where
  "process_connection nodelay_ok conn_id serving = (if nodelay_ok then (unat conn_id, False) # serving else serving)"

text \<open>One turn of the loop, for what the listener has.\<close>

definition accept_turn :: "bool option poll \<Rightarrow> lifecycle \<Rightarrow> lifecycle" where
  "accept_turn accept s = (if lc_loop s \<noteq> LoopAccepting then s else
     case try_accept_conn accept (stop_signal s) of
       Ready (AcEstablished nodelay_ok) \<Rightarrow>
         s\<lparr>lc_serving := process_connection nodelay_ok (lc_id s) (lc_serving s), lc_id := lc_id s + 1\<rparr>
     | Ready AcErr \<Rightarrow> s
     | Ready AcShutdown \<Rightarrow> s\<lparr>lc_loop := LoopDraining\<rparr>
     | Pending \<Rightarrow> s)"

text \<open>
  The steps: a turn of the accept loop; its end, when all tasks that serve connections have dropped their
  ends of the channel \<open>drop_on_completion\<close>; what happens to requests and WebSocket tasks, where a request
  comes from a connection that is served; a task that is told to finish, and one that is done, when no HTTP call
  of it is left; and what the user does with the handles. (Ids repeat after \<open>2 ^ 32\<close> connections; a task
  then also waits for the calls of its namesake.)
\<close>

inductive lc_step ::
  "(HttpRequest \<Rightarrow> bool) \<Rightarrow> (HttpRequest \<Rightarrow> (HttpResponse, string) result) \<Rightarrow> ('c, 'u) ServerConfig \<Rightarrow>
     ('c, 'u) server_world Methods \<Rightarrow> lifecycle \<Rightarrow> lifecycle \<Rightarrow> bool"
  for is_upgrade receive_request cfg methods where
  accepting: "lc_step is_upgrade receive_request cfg methods s (accept_turn accept s)"
| loop_end: "lc_loop s = LoopDraining \<Longrightarrow> lc_serving s = [] \<Longrightarrow>
    lc_step is_upgrade receive_request cfg methods s (s\<lparr>lc_loop := LoopEnded\<rparr>)"
| requests: "sv_step is_upgrade receive_request cfg methods (lc_conns s) c \<Longrightarrow>
    \<forall>(i, ph) \<in> set (sv_live c). (i, ph) \<in> set (sv_live (lc_conns s)) \<or> ph = PhRunning \<or> i \<in> fst ` set (lc_serving s) \<Longrightarrow>
    lc_step is_upgrade receive_request cfg methods s (s\<lparr>lc_conns := c\<rparr>)"
| finishing: "stop_signal s = Ready () \<Longrightarrow> (i, False) \<in> set (lc_serving s) \<Longrightarrow>
    lc_step is_upgrade receive_request cfg methods s (s\<lparr>lc_serving := (i, True) # remove1 (i, False) (lc_serving s)\<rparr>)"
| served: "(i, b) \<in> set (lc_serving s) \<Longrightarrow> (i, PhHttp) \<notin> set (sv_live (lc_conns s)) \<Longrightarrow>
    lc_step is_upgrade receive_request cfg methods s (s\<lparr>lc_serving := remove1 (i, b) (lc_serving s)\<rparr>)"
| stop: "0 < lc_handles s \<Longrightarrow>
    lc_step is_upgrade receive_request cfg methods s (s\<lparr>lc_version := wt_version (snd (ServerHandle_stop (lc_watch s)))\<rparr>)"
| clone_handle: "0 < lc_handles s \<Longrightarrow> lc_step is_upgrade receive_request cfg methods s (s\<lparr>lc_handles := lc_handles s + 1\<rparr>)"
| drop_handle: "0 < lc_handles s \<Longrightarrow> lc_step is_upgrade receive_request cfg methods s (s\<lparr>lc_handles := lc_handles s - 1\<rparr>)"

abbreviation lc_steps where
  "lc_steps is_upgrade receive_request cfg methods \<equiv> (lc_step is_upgrade receive_request cfg methods)\<^sup>*\<^sup>*"

section \<open>Lemmas\<close>

definition lc_inv :: "('c, 'u) ServerConfig \<Rightarrow> lifecycle \<Rightarrow> bool" where
  "lc_inv cfg s \<longleftrightarrow> (lc_loop s = LoopEnded \<longrightarrow> lc_serving s = []) \<and>
     (\<forall>i. (i, PhHttp) \<in> set (sv_live (lc_conns s)) \<longrightarrow> i \<in> fst ` set (lc_serving s)) \<and>
     cg_available (sv_guard (lc_conns s)) + length (sv_live (lc_conns s)) = unat (sc_max_connections cfg)"

lemma serving_ids_remove1: "i \<in> fst ` set xs \<Longrightarrow> i \<noteq> fst x \<Longrightarrow> i \<in> fst ` set (remove1 x xs)"
  by (induction xs) auto

lemma accept_turn_serving: "fst ` set (lc_serving s) \<subseteq> fst ` set (lc_serving (accept_turn accept s))"
  by (auto simp: accept_turn_def process_connection_def split: poll.splits AcceptConnection.splits)

lemma accept_turn_frame:
  "lc_conns (accept_turn accept s) = lc_conns s" "lc_loop (accept_turn accept s) = LoopEnded \<longleftrightarrow> lc_loop s = LoopEnded"
  "lc_loop s \<noteq> LoopAccepting \<Longrightarrow> accept_turn accept s = s"
  by (auto simp: accept_turn_def split: poll.splits AcceptConnection.splits)

lemma lc_inv_step:
  assumes "lc_step is_upgrade receive_request cfg methods s s'" "lc_inv cfg s"
  shows "lc_inv cfg s'"
  using assms
proof cases
  case (accepting accept)
  then show ?thesis
    using assms(2) accept_turn_serving [of s accept] accept_turn_frame(1,2) [of accept s] by (auto simp: lc_inv_def accept_turn_frame(3))
next
  case (requests c)
  then show ?thesis using assms(2) sv_step_count [OF requests(2)] by (fastforce simp: lc_inv_def)
next
  case (finishing i)
  then show ?thesis using assms(2) serving_ids_remove1 [of _ "lc_serving s" "(i, False)"] by (fastforce simp: lc_inv_def)
next
  case (served i b)
  have "j \<in> fst ` set (remove1 (i, b) (lc_serving s))" if "(j, PhHttp) \<in> set (sv_live (lc_conns s))" for j
    using assms(2) served(3) that serving_ids_remove1 [of j "lc_serving s" "(i, b)"] by (cases "j = i") (auto simp: lc_inv_def)
  with assms(2) served show ?thesis by (auto simp: lc_inv_def)
qed (simp_all add: lc_inv_def)

lemma lc_inv_reachable:
  "lc_steps is_upgrade receive_request cfg methods (lc_start (unat (sc_max_connections cfg))) s \<Longrightarrow> lc_inv cfg s"
proof (induction rule: rtranclp_induct)
  case base
  show ?case by (simp add: lc_inv_def lc_start_def sv_start_def ConnectionGuard_new_def)
qed (rule lc_inv_step)

lemma is_stopped_iff:
  assumes "lc_inv cfg s"
  shows "ServerHandle_is_stopped (lc_watch s) \<longleftrightarrow> lc_loop s = LoopEnded \<and> ws_tasks s = []"
  using assms by (auto simp: lc_inv_def lc_watch_def ServerHandle_is_stopped_def)

lemma is_stopped_idle:
  assumes "lc_inv cfg s" "ServerHandle_is_stopped (lc_watch s)"
  shows "lc_serving s = []" "sv_live (lc_conns s) = []" "lc_loop s = LoopEnded"
proof -
  show "lc_serving s = []" "lc_loop s = LoopEnded" using assms by (auto simp: lc_inv_def lc_watch_def ServerHandle_is_stopped_def split: if_splits)
  then have "\<forall>x \<in> set (sv_live (lc_conns s)). snd x \<noteq> PhHttp" using assms(1) by (force simp: lc_inv_def)
  moreover have "ws_tasks s = []" using assms is_stopped_iff by blast
  ultimately show "sv_live (lc_conns s) = []" by (simp add: ws_tasks_def filter_id_conv)
qed

text \<open>A stopped server does nothing any more.\<close>

lemma stopped_step:
  assumes "lc_step is_upgrade receive_request cfg methods s s'" "lc_inv cfg s" "ServerHandle_is_stopped (lc_watch s)"
  shows "ServerHandle_is_stopped (lc_watch s') \<and> lc_id s' = lc_id s \<and> lc_version s' = lc_version s"
proof -
  note idle = is_stopped_idle [OF assms(2,3)]
  have ws: "ws_tasks s = []" using is_stopped_iff [OF assms(2)] assms(3) by blast
  note inv' = lc_inv_step [OF assms(1,2)]
  from assms(1) show ?thesis
  proof cases
    case (accepting accept)
    then show ?thesis using assms(3) idle by (simp add: accept_turn_frame(3))
  next
    case (requests c)
    have "x \<notin> set (sv_live c)" for x
    proof
      assume "x \<in> set (sv_live c)"
      moreover from this requests(3) idle have "snd x = PhRunning" by auto
      moreover from requests(2) idle have "sv_live c = [] \<or> (\<exists>i ph. sv_live c = [(i, ph)] \<and> ph \<noteq> PhRunning)"
        by cases (auto simp: sv_end_def)
      ultimately show False by auto
    qed
    then have "sv_live c = []" by (cases "sv_live c") auto
    then show ?thesis using requests is_stopped_iff [OF inv'] idle by (simp add: ws_tasks_def)
  qed (use assms(3) idle in \<open>auto simp: lc_watch_def ServerHandle_is_stopped_def ServerHandle_stop_def ws_tasks_def\<close>)
qed

lemma stopped_steps:
  assumes "lc_steps is_upgrade receive_request cfg methods s s'" "lc_inv cfg s" "ServerHandle_is_stopped (lc_watch s)"
  shows "ServerHandle_is_stopped (lc_watch s') \<and> lc_id s' = lc_id s \<and> lc_version s' = lc_version s \<and> lc_inv cfg s'"
  using assms(1)
proof (induction rule: rtranclp_induct)
  case (step y z)
  with stopped_step [of is_upgrade receive_request cfg methods y z] lc_inv_step show ?case by auto
qed (use assms in auto)

lemma lc_unchanged:
  "lc_serving s = v \<Longrightarrow> s\<lparr>lc_serving := v\<rparr> = s" "lc_loop s = p \<Longrightarrow> s\<lparr>lc_loop := p\<rparr> = s" for s :: lifecycle
  by auto

text \<open>Every call, upgrade and WebSocket task can end, and then every task that serves a connection.\<close>

lemma calls_can_end:
  "\<exists>c. lc_steps is_upgrade receive_request cfg methods s (s\<lparr>lc_conns := c\<rparr>) \<and> sv_live c = []"
proof (induction "length (sv_live (lc_conns s))" arbitrary: s)
  case 0
  then have "lc_steps is_upgrade receive_request cfg methods s (s\<lparr>lc_conns := lc_conns s\<rparr>)" "sv_live (lc_conns s) = []" by simp_all
  then show ?case by blast
next
  case (Suc n)
  then obtain i ph rest where live: "sv_live (lc_conns s) = (i, ph) # rest" by (metis length_Suc_conv surj_pair)
  let ?c = "if ph = PhRunning then (sv_end (i, ph) (lc_conns s))\<lparr>sv_manager :=
      (if sc_connection_manager cfg then unregister_connection i (sv_manager (lc_conns s)) else sv_manager (lc_conns s))\<rparr>
    else sv_end (i, ph) (lc_conns s)"
  have "sv_step is_upgrade receive_request cfg methods (lc_conns s) ?c"
    using live sv_step.ws_done [of i "lc_conns s" is_upgrade receive_request cfg methods]
    by (cases ph) (simp_all add: sv_step.http_done sv_step.upgrade_failed)
  moreover have rest: "sv_live ?c = rest" using live by (simp add: sv_end_def)
  ultimately have step: "lc_step is_upgrade receive_request cfg methods s (s\<lparr>lc_conns := ?c\<rparr>)"
    using live by (auto intro!: lc_step.requests)
  from Suc.hyps(1) [of "s\<lparr>lc_conns := ?c\<rparr>"] Suc.hyps(2) live rest
  obtain c where "lc_steps is_upgrade receive_request cfg methods (s\<lparr>lc_conns := ?c\<rparr>) (s\<lparr>lc_conns := c\<rparr>)" "sv_live c = []" by auto
  with step show ?case by (meson converse_rtranclp_into_rtranclp)
qed

lemma serving_can_end:
  assumes "sv_live (lc_conns s) = []"
  shows "lc_steps is_upgrade receive_request cfg methods s (s\<lparr>lc_serving := []\<rparr>)"
  using assms
proof (induction "length (lc_serving s)" arbitrary: s)
  case (Suc n)
  then obtain i b rest where sv: "lc_serving s = (i, b) # rest" by (metis length_Suc_conv surj_pair)
  have "lc_step is_upgrade receive_request cfg methods s (s\<lparr>lc_serving := rest\<rparr>)"
    using lc_step.served [of i b s] sv Suc.prems by simp
  moreover have "lc_steps is_upgrade receive_request cfg methods (s\<lparr>lc_serving := rest\<rparr>) (s\<lparr>lc_serving := []\<rparr>)"
    using Suc.hyps(1) [of "s\<lparr>lc_serving := rest\<rparr>"] Suc sv by simp
  ultimately show ?case by (rule converse_rtranclp_into_rtranclp)
qed (simp add: lc_unchanged)

lemma loop_can_drain:
  assumes "stop_signal s = Ready ()" "lc_loop s \<noteq> LoopEnded"
  shows "lc_steps is_upgrade receive_request cfg methods s (s\<lparr>lc_loop := LoopDraining\<rparr>)"
proof (cases "lc_loop s")
  case LoopAccepting
  then have "accept_turn Pending s = s\<lparr>lc_loop := LoopDraining\<rparr>"
    using assms(1) by (simp add: accept_turn_def try_accept_conn_def)
  then show ?thesis using lc_step.accepting [of is_upgrade receive_request cfg methods s Pending] by (simp add: r_into_rtranclp)
qed (use assms in \<open>simp_all add: lc_unchanged\<close>)

section \<open>Properties\<close>



text \<open>A server of the example configuration that is stopped while it is idle.\<close>

lemma example_stop:
  "lc_steps (\<lambda>_. True) (\<lambda>_. Inr denied) example_config Methods_new (lc_start (unat (sc_max_connections example_config)))
     ((lc_start (unat (sc_max_connections example_config)))\<lparr>lc_version := 1, lc_loop := LoopEnded\<rparr>)"
proof -
  let ?s = "lc_start (unat (sc_max_connections example_config))"
  let ?step = "lc_step (\<lambda>_. True) (\<lambda>_. Inr denied) example_config Methods_new"
  have "?step ?s (?s\<lparr>lc_version := 1\<rparr>)"
    using lc_step.stop [of ?s] by (simp add: lc_start_def lc_watch_def ServerHandle_stop_def)
  moreover have "?step\<^sup>*\<^sup>* (?s\<lparr>lc_version := 1\<rparr>) (?s\<lparr>lc_version := 1, lc_loop := LoopDraining\<rparr>)"
    using loop_can_drain [of "?s\<lparr>lc_version := 1\<rparr>"]
    by (simp add: lc_start_def stop_signal_def stop_channel_def StopHandle_shutdown_def lc_watch_def)
  moreover have "?step (?s\<lparr>lc_version := 1, lc_loop := LoopDraining\<rparr>) (?s\<lparr>lc_version := 1, lc_loop := LoopEnded\<rparr>)"
    using lc_step.loop_end [of "?s\<lparr>lc_version := 1, lc_loop := LoopDraining\<rparr>"] by (simp add: lc_start_def)
  ultimately show ?thesis by (meson converse_rtranclp_into_rtranclp rtranclp.rtrancl_into_rtrancl)
qed



text \<open>The listener is polled first: a connection that is ready is accepted although the server was told to
  stop, and as long as connections keep coming the loop does not notice.\<close>

lemma accept_before_stop:
  assumes "lc_loop s = LoopAccepting" "stop_signal s = Ready ()"
  shows "lc_loop (((accept_turn (Ready (Some True))) ^^ n) s) = LoopAccepting \<and>
    length (lc_serving (((accept_turn (Ready (Some True))) ^^ n) s)) = length (lc_serving s) + n"
  using assms(1)
  by (induction n) (simp_all add: accept_turn_def try_accept_conn_def process_connection_def)

text \<open>The accept loop does not wait for WebSocket tasks: it can end while one is running.\<close>

lemma loop_ends_before_websockets:
  "\<exists>s. lc_steps (\<lambda>_. True) (\<lambda>_. Inr denied) example_config Methods_new (lc_start (unat (sc_max_connections example_config))) s \<and>
     lc_loop s = LoopEnded \<and> ws_tasks s \<noteq> [] \<and> \<not> ServerHandle_is_stopped (lc_watch s)"
proof -
  let ?step = "lc_step (\<lambda>_. True) (\<lambda>_. Inr denied) example_config Methods_new"
  let ?s0 = "lc_start (unat (sc_max_connections example_config))"
  let ?s1 = "accept_turn (Ready (Some True)) ?s0"
  have s1: "?step ?s0 ?s1" by (rule lc_step.accepting)
  have serving: "lc_serving ?s1 = [(0, False)]" "lc_conns ?s1 = sv_start (unat (sc_max_connections example_config))"
    by (simp_all add: accept_turn_def try_accept_conn_def process_connection_def lc_start_def)
  obtain rp svc ext g where "tower_call (\<lambda>_. True) (\<lambda>_. Inr denied) example_config Methods_new 0 0 example_get_request
      (sv_guard (lc_conns ?s1)) = (TrWebSocket rp svc ext, g)"
    unfolding serving by (simp add: tower_call_def ConnectionGuard_try_acquire_def sv_start_def ConnectionGuard_new_def example_config_def
        ServerConfigBuilder_default_def MAX_CONNECTIONS_def Let_def)
  from sv_step.upgrade [OF this] obtain c where c: "sv_step (\<lambda>_. True) (\<lambda>_. Inr denied) example_config Methods_new (lc_conns ?s1) c"
    "sv_live c = (0, PhUpgrading) # sv_live (lc_conns ?s1)" by fastforce
  then have s2: "?step ?s1 (?s1\<lparr>lc_conns := c\<rparr>)" using serving(1) by (auto intro!: lc_step.requests)
  have s3: "?step (?s1\<lparr>lc_conns := c\<rparr>) (?s1\<lparr>lc_conns := c, lc_serving := []\<rparr>)"
    using lc_step.served [of 0 False "?s1\<lparr>lc_conns := c\<rparr>"] serving c(2) by (simp add: sv_start_def)
  let ?s3 = "?s1\<lparr>lc_conns := c, lc_serving := []\<rparr>"
  have s4: "?step ?s3 (?s3\<lparr>lc_handles := 0\<rparr>)"
    using lc_step.drop_handle [of ?s3] by (simp add: accept_turn_def try_accept_conn_def lc_start_def)
  have "lc_loop ?s1 = LoopAccepting" by (simp add: accept_turn_def try_accept_conn_def lc_start_def)
  then have s5: "?step\<^sup>*\<^sup>* (?s3\<lparr>lc_handles := 0\<rparr>) (?s3\<lparr>lc_handles := 0, lc_loop := LoopDraining\<rparr>)"
    using loop_can_drain [of "?s3\<lparr>lc_handles := 0\<rparr>"] by (simp add: stop_signal_def StopHandle_shutdown_def lc_watch_def)
  let ?s6 = "?s3\<lparr>lc_handles := 0, lc_loop := LoopEnded\<rparr>"
  have s6: "?step (?s3\<lparr>lc_handles := 0, lc_loop := LoopDraining\<rparr>) ?s6"
    using lc_step.loop_end [of "?s3\<lparr>lc_handles := 0, lc_loop := LoopDraining\<rparr>"] by simp
  from s1 s2 s3 s4 s5 s6 have "?step\<^sup>*\<^sup>* ?s0 ?s6"
    by (meson converse_rtranclp_into_rtranclp rtranclp.rtrancl_into_rtrancl)
  moreover have "ws_tasks ?s6 \<noteq> []" using c(2) by (simp add: ws_tasks_def)
  ultimately show ?thesis by (intro exI [of _ ?s6]) (simp add: ServerHandle_is_stopped_def lc_watch_def)
qed

text \<open>Whoever waits for the end of a session is told when it is closed, also when the wait began late.\<close>

lemma session_close_notifies:
  "SessionClosedFuture_poll (SessionClose_closed s) (SessionClose_close s) = Ready ()"
  "on_session_closed t = (f, t') \<Longrightarrow> tw_on_session_close t' = Some n \<Longrightarrow> SessionClosedFuture_poll f (SessionClose_close n) = Ready ()"
  by (auto simp: SessionClosedFuture_poll_def SessionClose_closed_def SessionClose_close_def on_session_closed_def session_close_def
      split: option.splits)

lemma serve_until_stopped: "serve_with_graceful_shutdown h (replicate n False) s = serve h n s"
  by (induction n arbitrary: s) (auto split: poll.split prod.split)

end
