(* ===== verification/Ws_Session.thy ===== *)
theory Ws_Session
  imports Server_Lifecycle
begin

text \<open>
  A WebSocket connection of the server as a whole (\<open>server/src/transport/ws.rs\<close>): the receiving task, the tasks of
  its messages and the sending task, which share the channel of the connection, up to the graceful shutdown; and
  the ways in which such a connection is made, \<open>TowerServiceNoHttp::call\<close> and the low-level \<open>ws::connect\<close>, with
  the low-level HTTP call \<open>call_with_service_builder\<close>.
\<close>

section \<open>The channel of a connection\<close>

text \<open>
  All sinks of a connection are clones of one sender. \<open>cq_log\<close> is everything the channel has accepted; after the sending
  task has closed the channel, sends fail.
\<close>

record conn_queue =
  cq_items :: "string list"
  cq_closed :: bool
  cq_log :: "string list"

definition conn_queue_new :: conn_queue where
  "conn_queue_new = \<lparr>cq_items = [], cq_closed = False, cq_log = []\<rparr>"

definition queue_all :: "string list \<Rightarrow> conn_queue \<Rightarrow> conn_queue" where
  "queue_all ms c = (if cq_closed c then c else c\<lparr>cq_items := cq_items c @ ms, cq_log := cq_log c @ ms\<rparr>)"

definition session_ops :: "conn_queue sink_ops" where
  "session_ops = \<lparr>so_send = (\<lambda>_ m c. (\<not> cq_closed c, queue_all [m] c)),
     so_try_send = (\<lambda>_ m c. (if cq_closed c then SendClosed else SendOk, queue_all [m] c)),
     so_send_timeout = (\<lambda>_ m _ c. (if cq_closed c then SendTimeoutClosed else SentInTime, queue_all [m] c)),
     so_is_closed = (\<lambda>_ c. cq_closed c)\<rparr>"

lemma queue_all_closed [simp]: "cq_closed (queue_all ms c) = cq_closed c"
  by (simp add: queue_all_def)

lemma queue_all_none [simp]: "queue_all [] c = c"
  by (simp add: queue_all_def)

lemma queue_all_append: "queue_all ms' (queue_all ms c) = queue_all (ms @ ms') c"
  by (simp add: queue_all_def)

section \<open>The tasks of a connection\<close>

datatype session_phase = SsReceiving | SsDraining | SsStopping | SsClosed

text \<open>
  \<open>se_received\<close> are the messages that were read, \<open>se_handled\<close> those whose task has run, each with whether the channel was open
  then; \<open>se_written\<close> is what the sending task has written to the socket, \<open>se_failed\<close> whether it has ended
  because of an error, and \<open>se_drained\<close> whether the shutdown waited until all calls were completed.
\<close>

record ('u, 's) ws_session =
  se_conn :: "(conn_queue, 'u) ws_conn"
  se_phase :: session_phase
  se_received :: "string list"
  se_handled :: "(string \<times> bool) list"
  se_socket :: 's
  se_written :: "string list"
  se_send_done :: bool
  se_failed :: bool
  se_drained :: bool

abbreviation se_queue :: "('u, 's) ws_session \<Rightarrow> conn_queue" where
  "se_queue s \<equiv> wd_conns (wc_world (se_conn s))"

definition set_queue :: "conn_queue \<Rightarrow> ('u, 's) ws_session \<Rightarrow> ('u, 's) ws_session" where
  "set_queue q s = s\<lparr>se_conn := (se_conn s)\<lparr>wc_world := (wc_world (se_conn s))\<lparr>wd_conns := q\<rparr>\<rparr>\<rparr>"

definition session_start :: "nat \<Rightarrow> (conn_queue, 'u) server_world \<Rightarrow> 's \<Rightarrow> ('u, 's) ws_session" where
  "session_start now w socket = \<lparr>se_conn = \<lparr>wc_last_active = now, wc_missed_pings = 0, wc_result = None, wc_tasks = [],
       wc_world = w\<lparr>wd_conns := conn_queue_new\<rparr>\<rparr>,
     se_phase = SsReceiving, se_received = [], se_handled = [], se_socket = socket, se_written = [], se_send_done = False,
     se_failed = False, se_drained = False\<rparr>"

text \<open>\<open>background_task\<close> after its loop: only a stopped server waits for the pending calls.\<close>

definition phase_after :: "(Shutdown, SokettoError) result option \<Rightarrow> session_phase" where
  "phase_after r = (case r of
       None \<Rightarrow> SsReceiving
     | Some (Inr ShutdownStopped) \<Rightarrow> SsDraining
     | Some _ \<Rightarrow> SsStopping)"

definition session_receive ::
  "emitter \<Rightarrow> ws_config \<Rightarrow> ServerPingConfig option \<Rightarrow> MethodSink \<Rightarrow> nat \<Rightarrow> ws_event \<Rightarrow> ('u, 's) ws_session \<Rightarrow> ('u, 's) ws_session" where
  "session_receive emit cfg ping sink now ev s =
     (let c = background_turn emit session_ops cfg ping sink now ev (se_conn s) in
      s\<lparr>se_conn := c, se_phase := phase_after (wc_result c),
        se_received := se_received s @ (case ev of WsData d \<Rightarrow> [d] | _ \<Rightarrow> [])\<rparr>)"

text \<open>The sending task takes an item of the channel first; it looks at the timer and at the stop signal only when there is none.\<close>

definition send_task_stop :: "'s ws_sender_ops \<Rightarrow> bool \<Rightarrow> ('u, 's) ws_session \<Rightarrow> ('u, 's) ws_session" where
  "send_task_stop sops failed s = set_queue ((se_queue s)\<lparr>cq_closed := True\<rparr>)
     (s\<lparr>se_socket := wo_close sops (se_socket s), se_send_done := True, se_failed := se_failed s \<or> failed\<rparr>)"

definition send_task_item ::
  "emitter \<Rightarrow> 's ws_sender_ops \<Rightarrow> ws_config \<Rightarrow> string \<Rightarrow> string list \<Rightarrow> ('u, 's) ws_session \<Rightarrow> ('u, 's) ws_session" where
  "send_task_item emit sops cfg m ms s =
     (let s1 = set_queue ((se_queue s)\<lparr>cq_items := ms\<rparr>) s in
      case send_message emit sops (wsc_encryption cfg) (wsc_policy cfg) m (se_socket s) of
        (Inr _, k) \<Rightarrow> s1\<lparr>se_socket := k, se_written := se_written s @ [m]\<rparr>
      | (Inl _, k) \<Rightarrow> send_task_stop sops True (s1\<lparr>se_socket := k\<rparr>))"

definition send_task_ping :: "'s ws_sender_ops \<Rightarrow> ('u, 's) ws_session \<Rightarrow> ('u, 's) ws_session" where
  "send_task_ping sops s = (case send_ping sops (se_socket s) of
       (Inr _, k) \<Rightarrow> s\<lparr>se_socket := k\<rparr>
     | (Inl _, k) \<Rightarrow> send_task_stop sops True (s\<lparr>se_socket := k\<rparr>))"

text \<open>
  The steps of the three kinds of tasks, and of everything else that holds a sink of the connection. The shutdown ends
  the wait when the calls are completed (every task has dropped the service), when the peer is gone, or when the
  sending task is.
\<close>

inductive session_step ::
  "emitter \<Rightarrow> (string \<Rightarrow> bool) \<Rightarrow> readers \<Rightarrow> ws_config \<Rightarrow> ServerPingConfig option \<Rightarrow> (conn_queue, 'u) server_world rpc_service_t \<Rightarrow>
     extensions \<Rightarrow> MethodSink \<Rightarrow> 's ws_sender_ops \<Rightarrow> ('u, 's) ws_session \<Rightarrow> ('u, 's) ws_session \<Rightarrow> bool"
  for emit utf8 de cfg ping svc ext sink sops where
  receive: "se_phase s = SsReceiving \<Longrightarrow>
    session_step emit utf8 de cfg ping svc ext sink sops s (session_receive emit cfg ping sink now ev s)"
| handle: "wc_tasks (se_conn s) = ds @ d # ds' \<Longrightarrow>
    session_step emit utf8 de cfg ping svc ext sink sops s (s\<lparr>se_conn := (se_conn s)\<lparr>wc_tasks := ds @ ds',
        wc_world := snd (ws_handle_message emit session_ops utf8 de cfg svc ext sink d (wc_world (se_conn s)))\<rparr>,
      se_handled := se_handled s @ [(d, \<not> cq_closed (se_queue s))]\<rparr>)"
| others: "wd_conns w = queue_all ms (se_queue s) \<Longrightarrow>
    session_step emit utf8 de cfg ping svc ext sink sops s (s\<lparr>se_conn := (se_conn s)\<lparr>wc_world := w\<rparr>\<rparr>)"
| calls_completed: "se_phase s = SsDraining \<Longrightarrow> wc_tasks (se_conn s) = [] \<Longrightarrow>
    session_step emit utf8 de cfg ping svc ext sink sops s (s\<lparr>se_phase := SsStopping, se_drained := True\<rparr>)"
| disconnected: "se_phase s = SsDraining \<Longrightarrow> session_step emit utf8 de cfg ping svc ext sink sops s (s\<lparr>se_phase := SsStopping\<rparr>)"
| send_task_gone: "se_phase s = SsDraining \<Longrightarrow> se_send_done s \<Longrightarrow>
    session_step emit utf8 de cfg ping svc ext sink sops s (s\<lparr>se_phase := SsStopping\<rparr>)"
| write_item: "\<not> se_send_done s \<Longrightarrow> cq_items (se_queue s) = m # ms \<Longrightarrow>
    session_step emit utf8 de cfg ping svc ext sink sops s (send_task_item emit sops cfg m ms s)"
| ping_tick: "\<not> se_send_done s \<Longrightarrow> cq_items (se_queue s) = [] \<Longrightarrow>
    session_step emit utf8 de cfg ping svc ext sink sops s (send_task_ping sops s)"
| stop: "\<not> se_send_done s \<Longrightarrow> cq_items (se_queue s) = [] \<Longrightarrow> se_phase s = SsStopping \<Longrightarrow>
    session_step emit utf8 de cfg ping svc ext sink sops s (send_task_stop sops False s)"
| finish: "se_phase s = SsStopping \<Longrightarrow> se_send_done s \<Longrightarrow>
    session_step emit utf8 de cfg ping svc ext sink sops s (s\<lparr>se_phase := SsClosed\<rparr>)"

abbreviation session_steps where
  "session_steps emit utf8 de cfg ping svc ext sink sops \<equiv> (session_step emit utf8 de cfg ping svc ext sink sops)\<^sup>*\<^sup>*"

inductive_cases session_stepE: "session_step emit utf8 de cfg ping svc ext sink sops s s'"

section \<open>Lemmas\<close>

text \<open>Handlers that use the channel only to send on it.\<close>

definition appends :: "(conn_queue, 'u) server_world \<Rightarrow> (conn_queue, 'u) server_world \<Rightarrow> bool" where
  "appends w w' \<longleftrightarrow> (\<exists>ms. wd_conns w' = queue_all ms (wd_conns w))"

definition service_appends :: "(conn_queue, 'u) server_world rpc_service_t \<Rightarrow> bool" where
  "service_appends svc \<longleftrightarrow> (\<forall>req w. appends w (snd (svc_call svc req w))) \<and> (\<forall>b w. appends w (snd (svc_batch svc b w))) \<and>
     (\<forall>n w. appends w (snd (svc_notification svc n w)))"

lemma appends_refl [simp]: "appends w w"
  unfolding appends_def by (rule exI [of _ "[]"]) simp

lemma appends_same: "wd_conns w' = wd_conns w \<Longrightarrow> appends w w'"
  unfolding appends_def by (rule exI [of _ "[]"]) simp

lemma appends_trans: "appends w w' \<Longrightarrow> appends w' w'' \<Longrightarrow> appends w w''"
  unfolding appends_def using queue_all_append by metis

lemma appends_closed: "appends w w' \<Longrightarrow> cq_closed (wd_conns w') = cq_closed (wd_conns w)"
  by (auto simp: appends_def)

lemma sink_send_appends:
  "appends w (snd (sink_send session_ops sink json w))" "appends w (snd (sink_send_error emit session_ops sink i err w))"
  by (auto simp: appends_def sink_send_def sink_send_error_def MethodSink_send_error_def MethodSink_send_def session_ops_def Let_def split_beta
      split: prod.splits bool.splits)

lemma ws_reply_appends: "appends w (ws_reply session_ops sink rp w)"
proof -
  have "appends w w'" if "sink_send session_ops sink (mr_json rp) w = (r, w')" for r w'
    using sink_send_appends(1) [of w sink "mr_json rp"] that by simp
  moreover have "appends w (w'\<lparr>wd_notified := ns\<rparr>)" if "appends w w'" for w' ns using that by (simp add: appends_def)
  ultimately show ?thesis by (auto simp: ws_reply_def split: prod.splits sum.splits option.splits)
qed

lemma handle_rpc_call_appends:
  assumes "service_appends svc"
  shows "appends w (snd (handle_rpc_call emit de body is_single batch_config svc ext w))"
  using assms
  by (auto simp: handle_rpc_call_def service_appends_def Let_def split_beta
      split: option.splits BatchRequestConfig.splits)

lemma handle_message_appends:
  assumes "service_appends svc"
  shows "appends w (snd (ws_handle_message emit session_ops utf8 de cfg svc ext sink d w))"
proof -
  obtain data w1 where d: "decrypt_data emit session_ops utf8 cfg sink d w = (data, w1)" by fastforce
  have w1: "appends w w1"
    using d sink_send_appends(2) by (auto simp: decrypt_data_def split: option.splits if_splits MessageCryptoErrorPolicy.splits)
  have run: "appends w1 (ws_reply session_ops sink rp w2)" if "handle_rpc_call emit de x b (wsc_batch_requests_config cfg) svc ext w1 = (o', w2)" for x b o' rp w2
    using handle_rpc_call_appends [OF assms, of w1] that ws_reply_appends by (metis appends_trans snd_conv)
  have run': "appends w1 w2" if "handle_rpc_call emit de x b (wsc_batch_requests_config cfg) svc ext w1 = (o', w2)" for x b o' w2
    using handle_rpc_call_appends [OF assms, of w1] that by (metis snd_conv)
  from w1 d show ?thesis
    by (auto simp: ws_handle_message_def Let_def intro: appends_trans [OF w1] run run' sink_send_appends
        split: option.splits prod.splits outcome.splits if_splits)
qed

lemma background_turn_appends: "appends (wc_world c) (wc_world (background_turn emit session_ops cfg ping sink now ev c))"
proof -
  have "appends (wc_world c) w" if "sink_send_error emit session_ops sink Null e (wc_world c) = (r, w)" for e r w
    using sink_send_appends(2) [of "wc_world c" emit sink Null e] that by simp
  then show ?thesis
    by (auto simp: background_turn_def Let_def split: prod.splits option.splits Receive.splits SokettoError.splits sum.splits)
qed

text \<open>The invariant, in two parts: the channel and the sending task, and the messages and the phases.\<close>

definition queue_inv :: "('u, 's) ws_session \<Rightarrow> bool" where
  "queue_inv s \<longleftrightarrow> (se_send_done s \<longleftrightarrow> cq_closed (se_queue s)) \<and> (se_failed s \<longrightarrow> se_send_done s) \<and>
     (\<not> se_failed s \<longrightarrow> cq_log (se_queue s) = se_written s @ cq_items (se_queue s) \<and> (se_send_done s \<longrightarrow> cq_items (se_queue s) = []))"

definition phase_inv :: "('u, 's) ws_session \<Rightarrow> bool" where
  "phase_inv s \<longleftrightarrow> mset (se_received s) = mset (map fst (se_handled s)) + mset (wc_tasks (se_conn s)) \<and>
     (se_phase s = SsReceiving \<longleftrightarrow> wc_result (se_conn s) = None) \<and>
     (se_send_done s \<and> \<not> se_failed s \<longrightarrow> se_phase s \<in> {SsStopping, SsClosed}) \<and> (se_phase s = SsClosed \<longrightarrow> se_send_done s) \<and>
     (se_drained s \<longrightarrow> wc_tasks (se_conn s) = [] \<and> se_phase s \<in> {SsStopping, SsClosed}) \<and>
     (\<not> se_failed s \<and> (se_phase s \<in> {SsReceiving, SsDraining} \<or> se_drained s) \<longrightarrow> (\<forall>x \<in> set (se_handled s). snd x))"

lemma set_queue_fields [simp]:
  "se_queue (set_queue q s) = q" "wc_tasks (se_conn (set_queue q s)) = wc_tasks (se_conn s)" "wc_result (se_conn (set_queue q s)) = wc_result (se_conn s)"
  "se_phase (set_queue q s) = se_phase s" "se_received (set_queue q s) = se_received s" "se_handled (set_queue q s) = se_handled s"
  "se_socket (set_queue q s) = se_socket s" "se_written (set_queue q s) = se_written s" "se_send_done (set_queue q s) = se_send_done s"
  "se_failed (set_queue q s) = se_failed s" "se_drained (set_queue q s) = se_drained s"
  by (simp_all add: set_queue_def)

lemma queue_inv_appends:
  assumes "queue_inv s" "appends (wc_world (se_conn s)) (wc_world (se_conn s'))"
    and "se_send_done s' = se_send_done s" "se_failed s' = se_failed s" "se_written s' = se_written s"
  shows "queue_inv s'"
  using assms by (auto simp: queue_inv_def appends_def queue_all_def)

lemma queue_inv_step:
  assumes "session_step emit utf8 de cfg ping svc ext sink sops s s'" "service_appends svc" "queue_inv s"
  shows "queue_inv s'"
  using assms(1)
proof cases
  case (receive now ev)
  with background_turn_appends [of "se_conn s"] show ?thesis
    by (intro queue_inv_appends [OF assms(3)]) (auto simp: session_receive_def Let_def)
next
  case (handle ds d ds')
  with handle_message_appends [OF assms(2), of "wc_world (se_conn s)"] show ?thesis by (intro queue_inv_appends [OF assms(3)]) auto
next
  case (others w ms)
  then show ?thesis by (intro queue_inv_appends [OF assms(3)]) (auto simp: appends_def)
next
  case (write_item m ms)
  with assms(3) show ?thesis
    by (auto simp: send_task_item_def send_task_stop_def queue_inv_def Let_def split: prod.splits sum.splits)
next
  case ping_tick
  with assms(3) show ?thesis by (auto simp: send_task_ping_def send_task_stop_def queue_inv_def split: prod.splits sum.splits)
next
  case stop
  with assms(3) show ?thesis by (auto simp: send_task_stop_def queue_inv_def)
qed (use assms(3) in \<open>auto simp: queue_inv_def\<close>)

lemma background_turn_tasks:
  assumes "wc_result c = None"
  shows "wc_tasks (background_turn emit ops cfg ping sink now ev c) = wc_tasks c @ (case ev of WsData d \<Rightarrow> [d] | _ \<Rightarrow> [])"
  using background_turn_fields(3) [OF assms] by (metis prod_cases3)

lemma phase_inv_step:
  assumes "session_step emit utf8 de cfg ping svc ext sink sops s s'" "queue_inv s" "phase_inv s"
  shows "phase_inv s'"
  using assms(1)
proof cases
  case (receive now ev)
  with assms(3) have "wc_result (se_conn s) = None" "\<not> se_drained s" by (auto simp: phase_inv_def)
  with background_turn_tasks [of "se_conn s"] receive assms(3) show ?thesis
    by (auto simp: session_receive_def phase_inv_def phase_after_def Let_def split: ws_event.splits option.splits sum.splits Shutdown.splits)
next
  case (handle ds d ds')
  with assms(2,3) show ?thesis by (auto simp: phase_inv_def queue_inv_def)
next
  case (write_item m ms)
  with assms(3) show ?thesis
    by (auto simp: send_task_item_def send_task_stop_def phase_inv_def Let_def split: prod.splits sum.splits)
next
  case ping_tick
  with assms(3) show ?thesis by (auto simp: send_task_ping_def send_task_stop_def phase_inv_def split: prod.splits sum.splits)
next
  case stop
  with assms(3) show ?thesis by (auto simp: send_task_stop_def phase_inv_def)
qed (use assms(3) in \<open>auto simp: phase_inv_def\<close>)

lemma session_inv:
  assumes "session_steps emit utf8 de cfg ping svc ext sink sops (session_start now w socket) s" "service_appends svc"
  shows "queue_inv s \<and> phase_inv s"
  using assms(1)
proof (induction rule: rtranclp_induct)
  case base
  show ?case by (simp add: session_start_def queue_inv_def phase_inv_def conn_queue_new_def)
next
  case (step s s')
  then show ?case using queue_inv_step [OF step(2) assms(2)] phase_inv_step [OF step(2)] by blast
qed

text \<open>The tasks of the messages can run to their end, and the sending task can empty the channel unless the socket fails.\<close>

definition reliable :: "emitter \<Rightarrow> 's ws_sender_ops \<Rightarrow> ws_config \<Rightarrow> bool" where
  "reliable emit sops cfg \<longleftrightarrow> (\<forall>m k. fst (send_message emit sops (wsc_encryption cfg) (wsc_policy cfg) m k) = Inr ())"

lemma tasks_end:
  "\<exists>s'. session_steps emit utf8 de cfg ping svc ext sink sops s s' \<and> wc_tasks (se_conn s') = [] \<and>
     se_phase s' = se_phase s \<and> se_failed s' = se_failed s \<and> se_received s' = se_received s"
proof (induction "length (wc_tasks (se_conn s))" arbitrary: s)
  case 0
  then show ?case by auto
next
  case (Suc n)
  then obtain d ds where t: "wc_tasks (se_conn s) = [] @ d # ds" by (cases "wc_tasks (se_conn s)") auto
  let ?s = "s\<lparr>se_conn := (se_conn s)\<lparr>wc_tasks := [] @ ds,
        wc_world := snd (ws_handle_message emit session_ops utf8 de cfg svc ext sink d (wc_world (se_conn s)))\<rparr>,
      se_handled := se_handled s @ [(d, \<not> cq_closed (se_queue s))]\<rparr>"
  from Suc(1) [of ?s] Suc(2) t obtain s' where
    "session_steps emit utf8 de cfg ping svc ext sink sops ?s s'" "wc_tasks (se_conn s') = []" "se_phase s' = se_phase s"
    "se_failed s' = se_failed s" "se_received s' = se_received s" by auto
  moreover have "session_step emit utf8 de cfg ping svc ext sink sops s ?s" using session_step.handle [OF t] by simp
  ultimately show ?case by (meson converse_rtranclp_into_rtranclp)
qed

lemma channel_emptied:
  "\<exists>s'. session_steps emit utf8 de cfg ping svc ext sink sops s s' \<and> (se_send_done s' \<or> cq_items (se_queue s') = []) \<and>
     se_phase s' = se_phase s \<and> se_drained s' = se_drained s \<and> se_received s' = se_received s \<and>
     (reliable emit sops cfg \<longrightarrow> se_failed s' = se_failed s)"
proof (induction "length (cq_items (se_queue s))" arbitrary: s)
  case 0
  then show ?case by auto
next
  case (Suc n)
  then obtain m ms where q: "cq_items (se_queue s) = m # ms" by (cases "cq_items (se_queue s)") auto
  show ?case
  proof (cases "se_send_done s")
    case False
    let ?s = "send_task_item emit sops cfg m ms s"
    have s: "length (cq_items (se_queue ?s)) = n" "se_phase ?s = se_phase s" "se_drained ?s = se_drained s" "se_received ?s = se_received s"
      using Suc(2) q by (auto simp: send_task_item_def send_task_stop_def Let_def split: prod.splits sum.splits)
    have "session_step emit utf8 de cfg ping svc ext sink sops s ?s" using False q by (rule session_step.write_item)
    moreover have "reliable emit sops cfg \<longrightarrow> se_failed ?s = se_failed s"
    proof
      assume "reliable emit sops cfg"
      then obtain k where "send_message emit sops (wsc_encryption cfg) (wsc_policy cfg) m (se_socket s) = (Inr (), k)"
        unfolding reliable_def by (metis prod.collapse)
      then show "se_failed ?s = se_failed s" by (simp add: send_task_item_def Let_def)
    qed
    moreover obtain s' where "session_steps emit utf8 de cfg ping svc ext sink sops ?s s'" "se_send_done s' \<or> cq_items (se_queue s') = []"
      "se_phase s' = se_phase ?s" "se_drained s' = se_drained ?s" "se_received s' = se_received ?s"
      "reliable emit sops cfg \<longrightarrow> se_failed s' = se_failed ?s" using Suc(1) [OF s(1) [symmetric]] by blast
    ultimately show ?thesis using s(2-4) by (intro exI [of _ s']) (auto intro: converse_rtranclp_into_rtranclp)
  qed auto
qed

lemma stopping_closes:
  assumes "se_phase s = SsStopping"
  shows "\<exists>s'. session_steps emit utf8 de cfg ping svc ext sink sops s s' \<and> se_phase s' = SsClosed \<and>
    se_drained s' = se_drained s \<and> se_received s' = se_received s \<and> (reliable emit sops cfg \<longrightarrow> se_failed s' = se_failed s)"
proof -
  let ?steps = "session_steps emit utf8 de cfg ping svc ext sink sops"
  obtain s1 where s1: "?steps s s1" "se_send_done s1 \<or> cq_items (se_queue s1) = []" "se_phase s1 = SsStopping"
    "se_drained s1 = se_drained s" "se_received s1 = se_received s" "reliable emit sops cfg \<longrightarrow> se_failed s1 = se_failed s"
    using channel_emptied [of emit utf8 de cfg ping svc ext sink sops s] assms by auto
  define s2 where "s2 = (if se_send_done s1 then s1 else send_task_stop sops False s1)"
  have "?steps s1 s2" using s1(2,3) session_step.stop [of s1 emit utf8 de cfg ping svc ext sink sops] by (auto simp: s2_def)
  moreover have s2: "se_send_done s2" "se_phase s2 = SsStopping" "se_drained s2 = se_drained s1" "se_received s2 = se_received s1"
    "se_failed s2 = se_failed s1" using s1(3) by (simp_all add: s2_def send_task_stop_def)
  from session_step.finish [OF s2(2,1)] have "session_step emit utf8 de cfg ping svc ext sink sops s2 (s2\<lparr>se_phase := SsClosed\<rparr>)" .
  ultimately have "?steps s (s2\<lparr>se_phase := SsClosed\<rparr>)" using s1(1) by simp
  with s1(4-6) s2(3-5) show ?thesis by (intro exI [of _ "s2\<lparr>se_phase := SsClosed\<rparr>"]) simp
qed

lemma session_can_close:
  assumes "se_phase s \<noteq> SsReceiving"
  shows "\<exists>s'. session_steps emit utf8 de cfg ping svc ext sink sops s s' \<and> se_phase s' = SsClosed \<and> se_received s' = se_received s \<and>
    (se_phase s = SsDraining \<longrightarrow> se_drained s') \<and> (reliable emit sops cfg \<longrightarrow> se_failed s' = se_failed s)"
proof (cases "se_phase s")
  case SsDraining
  let ?steps = "session_steps emit utf8 de cfg ping svc ext sink sops"
  obtain s1 where s1: "?steps s s1" "wc_tasks (se_conn s1) = []" "se_phase s1 = SsDraining" "se_failed s1 = se_failed s" "se_received s1 = se_received s"
    using tasks_end [of emit utf8 de cfg ping svc ext sink sops s] SsDraining by auto
  let ?s2 = "s1\<lparr>se_phase := SsStopping, se_drained := True\<rparr>"
  have "session_step emit utf8 de cfg ping svc ext sink sops s1 ?s2" using s1(3,2) by (rule session_step.calls_completed)
  with s1(1) have "?steps s ?s2" by simp
  moreover obtain s' where "?steps ?s2 s'" "se_phase s' = SsClosed" "se_drained s'" "se_received s' = se_received s1"
    "reliable emit sops cfg \<longrightarrow> se_failed s' = se_failed s1"
    using stopping_closes [of ?s2 emit utf8 de cfg ping svc ext sink sops] by auto
  ultimately show ?thesis using s1(4,5) by (intro exI [of _ s']) (auto intro: rtranclp_trans)
next
  case SsStopping
  with stopping_closes [OF this, of emit utf8 de cfg ping svc ext sink sops] show ?thesis by auto
qed (use assms in auto)

text \<open>The service of a server, when the callbacks of its methods only send.\<close>

fun callback_appends :: "(conn_queue, 'u) server_world MethodCallback \<Rightarrow> bool" where
  "callback_appends (SyncCb f) \<longleftrightarrow> (\<forall>i ps n ext w. appends w (snd (f i ps n ext w)))"
| "callback_appends (AsyncCb f) \<longleftrightarrow> (\<forall>i ps conn_id n ext w. appends w (snd (f i ps conn_id n ext w)))"
| "callback_appends (SubscriptionCb f) \<longleftrightarrow> (\<forall>i ps sink conn ext w. appends w (snd (f i ps sink conn ext w)))"
| "callback_appends (UnsubscriptionCb f) \<longleftrightarrow> (\<forall>i ps conn_id n ext w. appends w (snd (f i ps conn_id n ext w)))"

lemma acquire_permit_conns: "wd_conns (snd (acquire_permit w)) = wd_conns w"
  by (simp add: acquire_permit_def BoundedSubscriptions_acquire_def table_get_def table_put_def Let_def)

lemma RpcService_call_appends:
  assumes "\<forall>name cb. callbacks (rs_methods s) name = Some cb \<longrightarrow> callback_appends cb"
  shows "appends w (snd (RpcService_call emit s req w))"
proof -
  have permit: "appends w w'" if "acquire_permit w = (ok, w')" for ok w'
    using acquire_permit_conns [of w] that by (intro appends_same) simp
  have "appends w (snd (f i ps sink conn ext w'))"
    if "callback_appends (SubscriptionCb f)" "acquire_permit w = (ok, w')" for f i ps sink conn ext ok w'
    using that permit [OF that(2)] by (auto intro: appends_trans)
  moreover have "callback_appends cb" if "callbacks (rs_methods s) (req_method req) = Some cb" for cb using assms that by blast
  ultimately show ?thesis
    by (fastforce simp: RpcService_call_def method_with_name_def Let_def
        split: option.splits MethodCallback.splits RpcServiceCfg.splits prod.splits bool.splits)
qed

lemma service_batch_loop_appends:
  assumes "\<forall>name cb. callbacks (rs_methods s) name = Some cb \<longrightarrow> callback_appends cb"
  shows "appends w (snd (service_batch_loop emit s es b got w))"
proof (induction es arbitrary: b got w)
  case (Cons e es)
  consider (call) req where "e = Inr (BCall req)" | (notification) n where "e = Inr (BNotification n)" | (err) x where "e = Inl x"
    by (metis BatchEntry.exhaust sum.exhaust)
  then show ?case
  proof cases
    case call
    obtain rp w' where "RpcService_call emit s req w = (rp, w')" by fastforce
    with call Cons.IH RpcService_call_appends [OF assms, of w emit req] show ?thesis
      by (auto split: prod.splits sum.splits intro: appends_trans)
  next
    case notification
    with Cons.IH show ?thesis by simp
  next
    case err
    with err Cons.IH show ?thesis by (auto split: prod.splits sum.splits outcome.splits)
  qed
qed simp

lemma rpc_service_appends:
  assumes "\<forall>name cb. callbacks (rs_methods s) name = Some cb \<longrightarrow> callback_appends cb"
  shows "service_appends (rpc_service_impl emit valid s)"
proof -
  have "appends w (snd (RpcService_batch emit valid s batch w))" for batch w
    using service_batch_loop_appends [OF assms, of w emit "bt_inner batch" "new_with_limit (rs_max_response_body_size s)" False]
    by (auto simp: RpcService_batch_def split: prod.splits sum.splits outcome.splits)
  with RpcService_call_appends [OF assms] show ?thesis by (simp add: service_appends_def rpc_service_impl_def)
qed

text \<open>A handler that leaves the channel alone or sends on it, registered as a method.\<close>

lemma registered_appends:
  assumes "register_method emit ser_t into name cb m = (Inr (), m')" and "\<forall>ps ext w. appends w (snd (cb ps (rm_ctx m) ext w))"
    and "\<forall>n c. callbacks (rm_methods m) n = Some c \<longrightarrow> callback_appends c"
  shows "\<forall>n c. callbacks (rm_methods m') n = Some c \<longrightarrow> callback_appends c"
proof -
  have free: "callbacks (rm_methods m) name = None"
    using assms(1) by (cases "callbacks (rm_methods m) name") (simp_all add: register_method_def module_insert_occupied)
  let ?cb = "SyncCb (\<lambda>i params n ext w. let (r, w') = cb params (rm_ctx m) ext w; rp = into r
      in (with_extensions ext (MethodResponse_response emit ser_t i rp n), w'))"
  have "callbacks (rm_methods m') = (callbacks (rm_methods m))(name \<mapsto> ?cb)"
    using assms(1) module_insert_callbacks(2) [OF free, of ?cb] by (auto simp: register_method_def)
  with assms(2,3) show ?thesis by (auto simp: Let_def split_beta split: if_splits)
qed

section \<open>Properties\<close>


definition example_session_module :: "(unit, (conn_queue, unit) server_world) RpcModule" where
  "example_session_module = snd (register_method json_emit SU64 into_response_value ''m'' (\<lambda>_ _ _ w. (7, w)) (RpcModule_new ()))"

definition example_session_service :: "(conn_queue, unit) RpcService" where
  "example_session_service = \<lparr>rs_conn_id = 0, rs_methods = rm_methods example_session_module, rs_max_response_body_size = 1000,
     rs_cfg = OnlyCalls, rs_id_provider = \<lambda>_. Num 7\<rparr>"

definition example_session_world :: "(conn_queue, unit) server_world" where
  "example_session_world = \<lparr>wd_conns = conn_queue_new, wd_tables = (\<lambda>_. Map.empty), wd_closed = {}, wd_next = 0, wd_permits = 1,
     wd_answers = [], wd_accepted = {}, wd_notified = [], wd_user = ()\<rparr>"

lemma example_session_appends: "service_appends (rpc_service_impl json_emit array_text example_session_service)"
proof (rule rpc_service_appends)
  have "register_method json_emit SU64 into_response_value ''m'' (\<lambda>_ _ _ w. (7, w)) (RpcModule_new ()) = (Inr (), example_session_module)"
    by (simp add: example_session_module_def register_method_def module_insert_def verify_and_insert_def RpcModule_new_def Methods_new_def)
  from registered_appends [OF this]
  show "\<forall>name cb. callbacks (rs_methods example_session_service) name = Some cb \<longrightarrow> callback_appends cb"
    by (simp add: example_session_service_def RpcModule_new_def Methods_new_def)
qed


end
