(* ===== verification/Conversation.thy ===== *)
theory Conversation
  imports Ws_Exchange Ws_Session "HOL-Library.Multiset"
begin

text \<open>
  A client and a server that talk over one WebSocket connection, as one transition system: the operations and the tasks
  of the client (\<open>core/src/client/async_client\<close>), the tasks of the server's connection (\<open>server/src/transport/ws.rs\<close>)
  and the texts under way in both directions. The server answers calls in the order in which its tasks
  happen to finish. The specification is a pipeline of six places through which every call passes.
\<close>

section \<open>The specification: a pipeline\<close>

record 'k pipeline =
  pi_queue :: "'k list"
  pi_up :: "'k list"
  pi_tasks :: "'k list"
  pi_channel :: "'k list"
  pi_down :: "'k list"
  pi_done :: "'k list"

inductive pipe_step :: "'k pipeline \<Rightarrow> 'k pipeline \<Rightarrow> bool" where
  to_wire: "pi_queue a = k # ks \<Longrightarrow> pipe_step a (a\<lparr>pi_queue := ks, pi_up := pi_up a @ [k]\<rparr>)"
| to_task: "pi_up a = k # ks \<Longrightarrow> pipe_step a (a\<lparr>pi_up := ks, pi_tasks := pi_tasks a @ [k]\<rparr>)"
| task_ends: "pi_tasks a = ks @ k # ks' \<Longrightarrow> pipe_step a (a\<lparr>pi_tasks := ks @ ks', pi_channel := pi_channel a @ [k]\<rparr>)"
| to_socket: "pi_channel a = k # ks \<Longrightarrow> pipe_step a (a\<lparr>pi_channel := ks, pi_down := pi_down a @ [k]\<rparr>)"
| to_caller: "pi_down a = k # ks \<Longrightarrow> pipe_step a (a\<lparr>pi_down := ks, pi_done := pi_done a @ [k]\<rparr>)"

definition pi_sent :: "'k pipeline \<Rightarrow> 'k list" where
  "pi_sent a = pi_up a @ pi_tasks a @ pi_channel a @ pi_down a"

definition pi_all :: "'k pipeline \<Rightarrow> 'k list" where
  "pi_all a = pi_queue a @ pi_sent a @ pi_done a"

definition pi_work :: "'k pipeline \<Rightarrow> nat" where
  "pi_work a = 5 * length (pi_queue a) + 4 * length (pi_up a) + 3 * length (pi_tasks a) + 2 * length (pi_channel a) + length (pi_down a)"

lemma pipe_step_all: "pipe_step a a' \<Longrightarrow> mset (pi_all a') = mset (pi_all a)"
  by (induction rule: pipe_step.induct) (simp_all add: pi_all_def pi_sent_def)

lemma pipe_step_work: "pipe_step a a' \<Longrightarrow> pi_work a = Suc (pi_work a')"
  by (induction rule: pipe_step.induct) (simp_all add: pi_work_def)

lemma pipe_work_zero: "pi_work a = 0 \<longleftrightarrow> pi_queue a = [] \<and> pi_sent a = []"
  by (auto simp: pi_work_def pi_sent_def)

lemma pipe_progress:
  assumes "pi_work a \<noteq> 0"
  obtains a' where "pipe_step a a'"
proof -
  consider (q) k ks where "pi_queue a = k # ks" | (u) k ks where "pi_up a = k # ks" | (t) k ks where "pi_tasks a = [] @ k # ks"
    | (c) k ks where "pi_channel a = k # ks" | (d) k ks where "pi_down a = k # ks"
    using assms unfolding pipe_work_zero pi_sent_def by (auto simp: neq_Nil_conv)
  then show ?thesis by cases (metis that pipe_step.intros)+
qed

text \<open>A system whose states correspond to those of a pipeline and whose steps are exactly its moves.\<close>

locale pipeline_system =
  fixes step :: "'v \<Rightarrow> 'v \<Rightarrow> bool" and stages :: "'v \<Rightarrow> 'k pipeline \<Rightarrow> bool"
  assumes forward: "stages v a \<Longrightarrow> step v v' \<Longrightarrow> \<exists>a'. pipe_step a a' \<and> stages v' a'"
    and enabled: "stages v a \<Longrightarrow> pipe_step a a' \<Longrightarrow> \<exists>v'. step v v'"
begin

lemma step_work:
  assumes "stages v a" "step v v'"
  obtains a' where "stages v' a'" "mset (pi_all a') = mset (pi_all a)" "pi_work a = Suc (pi_work a')"
  using forward [OF assms] pipe_step_all pipe_step_work by metis

lemma not_stuck:
  assumes "stages v a" "pi_work a \<noteq> 0"
  shows "\<exists>v'. step v v'"
proof -
  from assms(2) obtain a' where "pipe_step a a'" by (rule pipe_progress)
  with enabled [OF assms(1)] show ?thesis .
qed

lemma runs_end:
  assumes "stages v a" "(step ^^ n) v v'"
  shows "\<exists>a'. stages v' a' \<and> mset (pi_all a') = mset (pi_all a) \<and> pi_work a = n + pi_work a'"
  using assms(2)
proof (induction n arbitrary: v')
  case (Suc n)
  then obtain u where u: "(step ^^ n) v u" "step u v'" by auto
  from Suc.IH [OF u(1)] obtain a' where a': "stages u a'" "mset (pi_all a') = mset (pi_all a)" "pi_work a = n + pi_work a'" by blast
  from a'(1) u(2) obtain c where "stages v' c" "mset (pi_all c) = mset (pi_all a')" "pi_work a' = Suc (pi_work c)"
    by (rule step_work)
  with a' show ?case by auto
qed (use assms(1) in auto)

lemma runs_to_end:
  assumes "stages v a"
  shows "\<exists>v'. (step ^^ pi_work a) v v'"
  using assms
proof (induction "pi_work a" arbitrary: v a)
  case 0
  then show ?case by auto
next
  case (Suc n)
  from not_stuck [OF Suc.prems] Suc.hyps(2) obtain u where u: "step v u" by auto
  from Suc.prems u obtain a' where "stages u a'" "pi_work a = Suc (pi_work a')" by (rule step_work)
  moreover from this Suc.hyps(2) have "n = pi_work a'" by simp
  ultimately obtain v' where "(step ^^ n) u v'" using Suc.hyps(1) by blast
  with u have "(step ^^ Suc n) v v'" by (metis relpowp_Suc_I2)
  with Suc.hyps(2) show ?case by metis
qed

end

section \<open>The two parties\<close>

text \<open>
  The client's transport over a socket that works: it encrypts, checks the size and sends. \<open>seal\<close> is the text on the wire.
\<close>

definition working_socket :: "unit ws_sender_ops" where
  "working_socket = \<lparr>wo_send_text = (\<lambda>_ s. (Inr (), s)), wo_send_ping = (\<lambda>s. (Inr (), s)), wo_flush = (\<lambda>s. (Inr (), s)), wo_close = id\<rparr>"

definition client_transport :: "'d ws_halves \<Rightarrow> string \<Rightarrow> (unit, string) result" where
  "client_transport h body = (case fst (ClientSender_send working_socket h body ()) of Inr u \<Rightarrow> Ok u | Inl _ \<Rightarrow> Err ''transport'')"

definition seal :: "MessageEncryption option \<Rightarrow> string \<Rightarrow> string option" where
  "seal encryption body = (case encryption of None \<Rightarrow> Some body | Some enc \<Rightarrow> enc_encrypt enc body)"

record ('c, 'u, 's, 'd) parties =
  pa_env :: "'c client_env"
  pa_halves :: "'d ws_halves"
  pa_emit :: emitter
  pa_utf8 :: "string \<Rightarrow> bool"
  pa_de :: readers
  pa_valid :: "string \<Rightarrow> bool"
  pa_cfg :: ws_config
  pa_ping :: "ServerPingConfig option"
  pa_service :: "(conn_queue, 'u) RpcService"
  pa_ext :: extensions
  pa_sink :: MethodSink
  pa_socket :: "'s ws_sender_ops"

text \<open>
  \<open>cv_read\<close> is the number of texts the client has read, \<open>cv_calls\<close> the calls that were made, each with the
  channel on which its caller waits. The texts under way are those the one side has sent and the other has not read.
\<close>

record ('c, 'u, 's) conversation =
  cv_client :: "'c Client"
  cv_server :: "('u, 's) ws_session"
  cv_read :: nat
  cv_calls :: "(Request \<times> oneshot) list"

abbreviation cv_background :: "('c, 'u, 's) conversation \<Rightarrow> 'c background" where
  "cv_background v \<equiv> cli_background (cv_client v)"

definition set_background :: "'c background \<Rightarrow> ('c, 'u, 's) conversation \<Rightarrow> ('c, 'u, 's) conversation" where
  "set_background b v = v\<lparr>cv_client := (cv_client v)\<lparr>cli_background := b\<rparr>\<rparr>"

definition conv_start ::
  "ClientBuilder \<Rightarrow> 'c \<Rightarrow> InactivityCheck \<Rightarrow> RequestIdManager \<Rightarrow> nat \<Rightarrow> (conn_queue, 'u) server_world \<Rightarrow> 's \<Rightarrow> ('c, 'u, 's) conversation" where
  "conv_start builder ch chk im now w socket = \<lparr>cv_client = Client_new builder (bg_new ch chk, im),
     cv_server = session_start now w socket, cv_read = 0, cv_calls = []\<rparr>"

text \<open>The steps of the tasks of both sides.\<close>

inductive conv_step ::
  "('c, 'u, 's, 'd) parties \<Rightarrow> ('c, 'u, 's) conversation \<Rightarrow> ('c, 'u, 's) conversation \<Rightarrow> bool" for p where
  client_send: "bg_queue (cv_background v) = msg # msgs \<Longrightarrow> \<not> bg_send_done (cv_background v) \<Longrightarrow> \<not> bg_panicked (cv_background v) \<Longrightarrow>
    conv_step p v (set_background (send_task_message (pa_env p) (client_transport (pa_halves p)) msg
      ((cv_background v)\<lparr>bg_queue := msgs\<rparr>)) v)"
| server_receive: "se_phase (cv_server v) = SsReceiving \<Longrightarrow> length (se_received (cv_server v)) < length (bg_to_server (cv_background v)) \<Longrightarrow>
    seal (wh_message_encryption (pa_halves p)) (bg_to_server (cv_background v) ! length (se_received (cv_server v))) = Some x \<Longrightarrow>
    conv_step p v (v\<lparr>cv_server := session_receive (pa_emit p) (pa_cfg p) (pa_ping p) (pa_sink p) now (WsData x) (cv_server v)\<rparr>)"
| server_handle: "wc_tasks (se_conn (cv_server v)) = ds @ d # ds' \<Longrightarrow>
    conv_step p v (v\<lparr>cv_server := (cv_server v)\<lparr>se_conn := (se_conn (cv_server v))\<lparr>wc_tasks := ds @ ds',
        wc_world := snd (ws_handle_message (pa_emit p) session_ops (pa_utf8 p) (pa_de p) (pa_cfg p)
          (rpc_service_impl (pa_emit p) (pa_valid p) (pa_service p)) (pa_ext p) (pa_sink p) d (wc_world (se_conn (cv_server v))))\<rparr>,
      se_handled := se_handled (cv_server v) @ [(d, \<not> cq_closed (se_queue (cv_server v)))]\<rparr>\<rparr>)"
| server_write: "\<not> se_send_done (cv_server v) \<Longrightarrow> cq_items (se_queue (cv_server v)) = m # ms \<Longrightarrow>
    conv_step p v (v\<lparr>cv_server := send_task_item (pa_emit p) (pa_socket p) (pa_cfg p) m ms (cv_server v)\<rparr>)"
| client_read: "\<not> bg_read_done (cv_background v) \<Longrightarrow> \<not> bg_panicked (cv_background v) \<Longrightarrow> cv_read v < length (se_written (cv_server v)) \<Longrightarrow>
    seal (wsc_encryption (pa_cfg p)) (se_written (cv_server v) ! cv_read v) = Some y \<Longrightarrow>
    ClientReceiver_receive (pa_utf8 p) (pa_halves p) (Inr (IncText y)) = Inr msg \<Longrightarrow>
    conv_step p v ((set_background (read_task_message (pa_env p) now (Inr msg) (cv_background v)) v)\<lparr>cv_read := Suc (cv_read v)\<rparr>)"

text \<open>A caller starts a call, with a channel of its own.\<close>

inductive conv_call ::
  "('c, 'u, 's, 'd) parties \<Rightarrow> ('c, 'u, 's) conversation \<Rightarrow> ('c, 'u, 's) conversation \<Rightarrow> bool" for p where
  call: "Client_request_start (ce_emit (pa_env p)) False tx name (Inr ps) (cv_client v) = (Inr req, c) \<Longrightarrow> tx \<notin> snd ` set (cv_calls v) \<Longrightarrow>
    conv_call p v (v\<lparr>cv_client := c, cv_calls := cv_calls v @ [(req, tx)]\<rparr>)"

inductive conv_reachable ::
  "('c, 'u, 's, 'd) parties \<Rightarrow> ('c, 'u, 's) conversation \<Rightarrow> ('c, 'u, 's) conversation \<Rightarrow> bool" for p v0 where
  start: "conv_reachable p v0 v0"
| step: "conv_reachable p v0 v \<Longrightarrow> conv_step p v v' \<Longrightarrow> conv_reachable p v0 v'"
| call: "conv_reachable p v0 v \<Longrightarrow> conv_call p v v' \<Longrightarrow> conv_reachable p v0 v'"

section \<open>What the parties rely on\<close>

text \<open>The texts of the responses to a call, whatever was serialised, and the methods that answer with such a text.\<close>

definition answer_text :: "emitter \<Rightarrow> Id \<Rightarrow> string \<Rightarrow> bool" where
  "answer_text emit i m \<longleftrightarrow> (\<exists>payload cs. emit (Response_serialize (\<lambda>v. v) (Response_new payload i)) = (cs, True) \<and> m = concat cs)"

definition answers :: "emitter \<Rightarrow> Id \<Rightarrow> MethodResponse \<times> (conn_queue, 'u) server_world \<Rightarrow> (conn_queue, 'u) server_world \<Rightarrow> bool" where
  "answers emit i result w \<longleftrightarrow> MethodResponse_is_method_call (fst result) \<and> answer_text emit i (mr_json (fst result)) \<and>
     wd_conns (snd result) = wd_conns w"

fun callback_answers :: "emitter \<Rightarrow> (conn_queue, 'u) server_world MethodCallback \<Rightarrow> bool" where
  "callback_answers emit (SyncCb f) \<longleftrightarrow> (\<forall>i ps n ext w. answers emit i (f i ps n ext w) w)"
| "callback_answers emit (AsyncCb f) \<longleftrightarrow> (\<forall>i ps conn_id n ext w. answers emit i (f i ps conn_id n ext w) w)"
| "callback_answers emit (SubscriptionCb f) \<longleftrightarrow> False"
| "callback_answers emit (UnsubscriptionCb f) \<longleftrightarrow> (\<forall>i ps conn_id n ext w. answers emit i (f i ps conn_id n ext w) w)"

definition emits_errors :: "emitter \<Rightarrow> bool" where
  "emits_errors emit \<longleftrightarrow> (\<forall>i e. snd (emit (Response_serialize (\<lambda>v. v) (Response_new (RpError e) i))))"

text \<open>
  Whether either side reads what the other one writes for a call: its request is serialised, small enough and read by the server as it was,
  and the texts of its responses are read by the client as responses with the id of the call.
\<close>

definition readable_call :: "('c, 'u, 's, 'd) parties \<Rightarrow> Request \<Rightarrow> bool" where
  "readable_call p req \<longleftrightarrow>
     (\<exists>raw. to_raw_value (ce_emit (pa_env p)) (Request_serialize req) = Some raw \<and> raw \<noteq> [] \<and> hd raw = CHR ''{'' \<and>
        de_call (pa_de p) raw = Some req \<and> client_transport (pa_halves p) raw = Inr ()) \<and>
     (\<forall>m. answer_text (pa_emit p) (req_id req) m \<longrightarrow> m \<noteq> [] \<and> hd m = CHR ''{'' \<and> pa_utf8 p m \<and> seal (wsc_encryption (pa_cfg p)) m \<noteq> None \<and>
        (\<exists>rp. ce_de_response (pa_env p) m = Some rp \<and> rp_id rp = req_id req))"

definition working_parties :: "('c, 'u, 's, 'd) parties \<Rightarrow> bool" where
  "working_parties p \<longleftrightarrow> shared_cipher (wsc_encryption (pa_cfg p)) (pa_utf8 p) \<and>
     wh_message_encryption (pa_halves p) = wsc_encryption (pa_cfg p) \<and> reliable (pa_emit p) (pa_socket p) (pa_cfg p) \<and>
     emits_errors (pa_emit p) \<and>
     (\<forall>name cb. callbacks (rs_methods (pa_service p)) name = Some cb \<longrightarrow> callback_answers (pa_emit p) cb)"

section \<open>Lemmas on the parties\<close>

lemma error_answer:
  assumes "emits_errors emit"
  shows "answer_text emit i (error_json emit i e)"
proof -
  have "Response_serialize (\<lambda>_. SNull) (Response_new (RpError e :: unit ResponsePayload) i) = Response_serialize (\<lambda>v. v) (Response_new (RpError e) i)"
    by (simp add: Response_serialize_def Response_new_def)
  moreover obtain cs where "emit (Response_serialize (\<lambda>v. v) (Response_new (RpError e) i)) = (cs, True)"
    using assms unfolding emits_errors_def by (metis prod.collapse)
  ultimately show ?thesis unfolding answer_text_def error_json_def expect_raw_def by force
qed

lemma response_answer:
  assumes "emits_errors emit"
  shows "answer_text emit i (mr_json (MethodResponse_response emit ser_t i rp n))"
    "MethodResponse_is_method_call (MethodResponse_response emit ser_t i rp n)"
proof -
  obtain cs ok where cs: "emit (Response_serialize ser_t (Response_new (pl_inner rp) i)) = (cs, ok)" by fastforce
  have "Response_serialize ser_t (Response_new (pl_inner rp) i) =
      Response_serialize (\<lambda>v. v) (Response_new (case pl_inner rp of Success v \<Rightarrow> Success (ser_t v) | RpError e \<Rightarrow> RpError e) i)"
    by (simp add: Response_serialize_def Response_new_def split: ResponsePayload.split)
  with cs have "ok \<Longrightarrow> answer_text emit i (concat cs)" unfolding answer_text_def by metis
  then show "answer_text emit i (mr_json (MethodResponse_response emit ser_t i rp n))"
    "MethodResponse_is_method_call (MethodResponse_response emit ser_t i rp n)"
    using error_answer [OF assms]
    by (simp_all add: response_branches [of emit ser_t rp i, OF cs] MethodResponse_error_def MethodResponse_is_method_call_def)
qed

text \<open>A handler that leaves the channel of the connection alone, registered as a method.\<close>

lemma registered_answers:
  assumes "register_method emit ser_t into name cb m = (Inr (), m')" and "emits_errors emit"
    and "\<forall>ps ext w. wd_conns (snd (cb ps (rm_ctx m) ext w)) = wd_conns w"
    and "\<forall>n c. callbacks (rm_methods m) n = Some c \<longrightarrow> callback_answers emit c"
  shows "\<forall>n c. callbacks (rm_methods m') n = Some c \<longrightarrow> callback_answers emit c"
proof -
  have free: "callbacks (rm_methods m) name = None"
    using assms(1) by (cases "callbacks (rm_methods m) name") (simp_all add: register_method_def module_insert_occupied)
  let ?cb = "SyncCb (\<lambda>i params n ext w. let (r, w') = cb params (rm_ctx m) ext w; rp = into r
      in (with_extensions ext (MethodResponse_response emit ser_t i rp n), w'))"
  have "callbacks (rm_methods m') = (callbacks (rm_methods m))(name \<mapsto> ?cb)"
    using assms(1) module_insert_callbacks(2) [OF free, of ?cb] by (auto simp: register_method_def)
  moreover have "callback_answers emit ?cb"
    using assms(3) response_answer [OF assms(2), where ser_t = ser_t]
    by (simp add: answers_def with_extensions_def MethodResponse_is_method_call_def Let_def split_beta)
  ultimately show ?thesis using assms(4) by auto
qed

lemma service_answers:
  assumes "emits_errors emit" and "\<forall>name cb. callbacks (rs_methods s) name = Some cb \<longrightarrow> callback_answers emit cb"
  shows "answers emit (req_id req) (RpcService_call emit s req w) w"
proof -
  have refused: "answers emit i (with_extensions ext (MethodResponse_error emit i e), w) w" for i ext e
    using error_answer [OF assms(1)]
    by (simp add: answers_def with_extensions_def MethodResponse_error_def MethodResponse_is_method_call_def)
  have "callback_answers emit cb" if "callbacks (rs_methods s) (req_method req) = Some cb" for cb using assms(2) that by blast
  with refused show ?thesis
    by (auto simp: RpcService_call_def method_with_name_def Let_def split: option.split MethodCallback.split RpcServiceCfg.split)
qed

lemma transport_seals:
  assumes "client_transport h raw = Inr ()"
  obtains x where "seal (wh_message_encryption h) raw = Some x"
  using assms
  by (cases "case wh_message_encryption h of None \<Rightarrow> Some raw | Some enc \<Rightarrow> enc_encrypt enc raw")
    (auto simp: client_transport_def ClientSender_send_def seal_def)

lemma sealed_decrypts:
  assumes "shared_cipher (wsc_encryption cfg) utf8" "seal (wsc_encryption cfg) raw = Some x"
  shows "decrypt_data emit ops utf8 cfg sink x w = (Some raw, w)"
  using shared_cipher.inverse [OF assms(1)] assms(2)
  by (auto simp: seal_def decrypt_data_def split: option.splits)

lemma sealed_received:
  assumes "shared_cipher (wh_message_encryption h) utf8" "seal (wh_message_encryption h) m = Some y" "utf8 m"
  shows "ClientReceiver_receive utf8 h (Inr (IncText y)) = Inr (Text m)"
  using shared_cipher.inverse [OF assms(1)] assms(2,3)
  by (auto simp: seal_def ClientReceiver_receive_def split: option.splits)

section \<open>The conversation as a pipeline\<close>

type_synonym caller = "Request \<times> oneshot"

definition call_text :: "('c, 'u, 's, 'd) parties \<Rightarrow> caller \<Rightarrow> string" where
  "call_text p k = the (to_raw_value (ce_emit (pa_env p)) (Request_serialize (fst k)))"

definition call_front :: "('c, 'u, 's, 'd) parties \<Rightarrow> caller \<Rightarrow> FrontToBack" where
  "call_front p k = FRequest \<lparr>rm_raw = call_text p k, rm_id = req_id (fst k), rm_send_back = Some (snd k)\<rparr>"

text \<open>The answers of the server to a call, in any state of the server, and what the client gives to the caller for such an answer.\<close>

definition served :: "('c, 'u, 's, 'd) parties \<Rightarrow> caller \<Rightarrow> string \<Rightarrow> bool" where
  "served p k m \<longleftrightarrow>
     (\<exists>w. m = mr_json (fst (RpcService_call (pa_emit p) (pa_service p) ((fst k)\<lparr>req_extensions := pa_ext p\<rparr>) w)))"

definition delivered :: "('c, 'u, 's, 'd) parties \<Rightarrow> caller \<Rightarrow> delivery \<Rightarrow> bool" where
  "delivered p k out \<longleftrightarrow> (\<exists>m rp. served p k m \<and> ce_de_response (pa_env p) m = Some rp \<and> rp_id rp = req_id (fst k) \<and>
     out = ToCall (snd k) (Inr rp))"

definition pending_calls :: "(Id \<rightharpoonup> Kind) \<Rightarrow> caller list \<Rightarrow> bool" where
  "pending_calls t ks \<longleftrightarrow> (\<forall>i x. t i = Some x \<longleftrightarrow> (\<exists>k \<in> set ks. i = req_id (fst k) \<and> x = PendingMethodCall (Some (snd k))))"

definition both_alive :: "('c, 'u, 's) conversation \<Rightarrow> bool" where
  "both_alive v \<longleftrightarrow> is_connected (cv_client v) \<and> \<not> bg_read_done (cv_background v) \<and> \<not> bg_panicked (cv_background v) \<and>
     se_phase (cv_server v) = SsReceiving \<and> wc_result (se_conn (cv_server v)) = None \<and> \<not> se_send_done (cv_server v) \<and>
     \<not> cq_closed (se_queue (cv_server v))"

text \<open>The first \<open>n\<close> items of a list were read; the rest stands for the items of a place.\<close>

definition unread :: "('k \<Rightarrow> 'm \<Rightarrow> bool) \<Rightarrow> 'k list \<Rightarrow> nat \<Rightarrow> 'm list \<Rightarrow> bool" where
  "unread R ks n ms \<longleftrightarrow> n \<le> length ms \<and> list_all2 R ks (drop n ms)"

definition client_stages :: "('c, 'u, 's, 'd) parties \<Rightarrow> ('c, 'u, 's) conversation \<Rightarrow> caller pipeline \<Rightarrow> bool" where
  "client_stages p v a \<longleftrightarrow> bg_queue (cv_background v) = map (call_front p) (pi_queue a) \<and>
     list_all2 (delivered p) (pi_done a) (cl_outbox (bg_client (cv_background v))) \<and>
     pending_calls (requests (cl_manager (bg_client (cv_background v)))) (pi_sent a)"

definition server_stages :: "('c, 'u, 's, 'd) parties \<Rightarrow> ('c, 'u, 's) conversation \<Rightarrow> caller pipeline \<Rightarrow> bool" where
  "server_stages p v a \<longleftrightarrow>
     list_all2 (\<lambda>k x. seal (wsc_encryption (pa_cfg p)) (call_text p k) = Some x) (pi_tasks a) (wc_tasks (se_conn (cv_server v))) \<and>
     list_all2 (served p) (pi_channel a) (cq_items (se_queue (cv_server v)))"

definition wire_stages :: "('c, 'u, 's, 'd) parties \<Rightarrow> ('c, 'u, 's) conversation \<Rightarrow> caller pipeline \<Rightarrow> bool" where
  "wire_stages p v a \<longleftrightarrow>
     unread (\<lambda>k m. m = call_text p k) (pi_up a) (length (se_received (cv_server v))) (bg_to_server (cv_background v)) \<and>
     unread (served p) (pi_down a) (cv_read v) (se_written (cv_server v))"

definition calls_ok :: "('c, 'u, 's, 'd) parties \<Rightarrow> caller list \<Rightarrow> bool" where
  "calls_ok p ks \<longleftrightarrow> working_parties p \<and> (\<forall>k \<in> set ks. readable_call p (fst k)) \<and> distinct (map (req_id \<circ> fst) ks)"

definition conv_stages :: "('c, 'u, 's, 'd) parties \<Rightarrow> ('c, 'u, 's) conversation \<Rightarrow> caller pipeline \<Rightarrow> bool" where
  "conv_stages p v a \<longleftrightarrow> calls_ok p (cv_calls v) \<and> mset (pi_all a) = mset (cv_calls v) \<and> both_alive v \<and>
     client_stages p v a \<and> server_stages p v a \<and> wire_stages p v a"

lemmas stages_defs = conv_stages_def client_stages_def server_stages_def wire_stages_def both_alive_def is_connected_def

lemma unread_push [simp]: "unread R ks n ms \<Longrightarrow> R k m \<Longrightarrow> unread R (ks @ [k]) n (ms @ [m])"
  by (simp add: unread_def list_all2_appendI)

lemma unread_pop: "unread R (k # ks) n ms \<Longrightarrow> n < length ms \<and> R k (ms ! n) \<and> unread R ks (Suc n) ms"
  by (cases "n < length ms") (auto simp: unread_def Cons_nth_drop_Suc [symmetric])

lemma unread_some:
  assumes "unread R ks n ms" "n < length ms"
  obtains k ks' where "ks = k # ks'" "R k (ms ! n)" "unread R ks' (Suc n) ms"
  using assms by (cases ks) (auto simp: unread_def Cons_nth_drop_Suc [symmetric])

lemma pending_add: "pending_calls t ks \<Longrightarrow> t (req_id (fst k)) = None \<Longrightarrow> set ks' = insert k (set ks) \<Longrightarrow>
    pending_calls (t(req_id (fst k) \<mapsto> PendingMethodCall (Some (snd k)))) ks'"
  unfolding pending_calls_def fun_upd_apply by (metis insert_iff option.distinct(1) option.inject)

lemma pending_remove:
  assumes "pending_calls t ks" "distinct (map (req_id \<circ> fst) ks)" "mset ks = add_mset k (mset ks')"
  shows "t (req_id (fst k)) = Some (PendingMethodCall (Some (snd k)))" "pending_calls (t(req_id (fst k) := None)) ks'"
proof -
  have s: "set ks = insert k (set ks')" using assms(3) by (metis set_mset_add_mset_insert set_mset_mset)
  with assms(1) show "t (req_id (fst k)) = Some (PendingMethodCall (Some (snd k)))" by (auto simp: pending_calls_def)
  have "mset (map (req_id \<circ> fst) ks) = mset (map (req_id \<circ> fst) (k # ks'))" using assms(3) by simp
  then have "distinct (map (req_id \<circ> fst) (k # ks'))" using assms(2) mset_eq_imp_distinct_iff by blast
  then have "\<forall>k' \<in> set ks'. req_id (fst k') \<noteq> req_id (fst k)" by (simp add: image_iff) metis
  with assms(1) s show "pending_calls (t(req_id (fst k) := None)) ks'" by (auto simp: pending_calls_def)
qed

lemma pending_fresh: "pending_calls t ks \<Longrightarrow> i \<notin> req_id ` fst ` set ks \<Longrightarrow> t i = None"
  by (cases "t i") (auto simp: pending_calls_def)

text \<open>The calls of a pipeline are those that were made.\<close>

lemma stages_calls:
  assumes "conv_stages p v a"
  shows "distinct (map (req_id \<circ> fst) (pi_all a))" "\<forall>k \<in> set (pi_all a). readable_call p (fst k)" "working_parties p"
proof -
  have m: "mset (pi_all a) = mset (cv_calls v)" and ok: "calls_ok p (cv_calls v)" using assms by (simp_all add: conv_stages_def)
  from m have "mset (map (req_id \<circ> fst) (pi_all a)) = mset (map (req_id \<circ> fst) (cv_calls v))" by simp
  then show "distinct (map (req_id \<circ> fst) (pi_all a))" using ok mset_eq_imp_distinct_iff calls_ok_def by metis
  show "\<forall>k \<in> set (pi_all a). readable_call p (fst k)" using ok m mset_eq_setD calls_ok_def by metis
  show "working_parties p" using ok by (simp add: calls_ok_def)
qed

lemma pending_moved:
  assumes "conv_stages p v a" "set (pi_sent a') = set (pi_sent a)"
  shows "pending_calls (requests (cl_manager (bg_client (cv_background v)))) (pi_sent a')"
  using assms by (simp add: conv_stages_def client_stages_def pending_calls_def)

lemma sent_distinct: "distinct (map f (pi_all a)) \<Longrightarrow> distinct (map f (pi_sent a))"
  by (simp add: pi_all_def)

lemma readable_text:
  assumes "readable_call p (fst k)"
  shows "call_text p k \<noteq> []" "hd (call_text p k) = CHR ''{''" "de_call (pa_de p) (call_text p k) = Some (fst k)"
    "client_transport (pa_halves p) (call_text p k) = Inr ()"
  using assms by (auto simp: readable_call_def call_text_def)

lemma readable_answer:
  assumes "readable_call p (fst k)" "working_parties p" "served p k m"
  shows "m \<noteq> []" "hd m = CHR ''{''" "pa_utf8 p m" "seal (wsc_encryption (pa_cfg p)) m \<noteq> None"
    "\<exists>rp. ce_de_response (pa_env p) m = Some rp \<and> rp_id rp = req_id (fst k)"
proof -
  obtain w where "m = mr_json (fst (RpcService_call (pa_emit p) (pa_service p) ((fst k)\<lparr>req_extensions := pa_ext p\<rparr>) w))"
    using assms(3) by (auto simp: served_def)
  moreover have "emits_errors (pa_emit p)"
    "\<forall>name cb. callbacks (rs_methods (pa_service p)) name = Some cb \<longrightarrow> callback_answers (pa_emit p) cb"
    using assms(2) by (simp_all add: working_parties_def)
  note service_answers [OF this, of "(fst k)\<lparr>req_extensions := pa_ext p\<rparr>" w]
  ultimately have "answer_text (pa_emit p) (req_id (fst k)) m" by (simp add: answers_def)
  then show "m \<noteq> []" "hd m = CHR ''{''" "pa_utf8 p m" "seal (wsc_encryption (pa_cfg p)) m \<noteq> None"
    "\<exists>rp. ce_de_response (pa_env p) m = Some rp \<and> rp_id rp = req_id (fst k)"
    using assms(1) by (auto simp: readable_call_def)
qed

section \<open>The steps of the tasks are moves of the pipeline\<close>

lemma client_send_stages:
  assumes "conv_stages p v a" "pi_queue a = k # ks" "bg_queue (cv_background v) = msg # msgs"
  shows "conv_stages p (set_background (send_task_message (pa_env p) (client_transport (pa_halves p)) msg
      ((cv_background v)\<lparr>bg_queue := msgs\<rparr>)) v) (a\<lparr>pi_queue := ks, pi_up := pi_up a @ [k]\<rparr>)"
proof -
  let ?t = "requests (cl_manager (bg_client (cv_background v)))"
  have q: "msg = call_front p k" "msgs = map (call_front p) ks" "pending_calls ?t (pi_sent a)"
    using assms by (simp_all add: conv_stages_def client_stages_def)
  have "k \<in> set (pi_all a)" using assms(2) by (simp add: pi_all_def)
  then have send: "client_transport (pa_halves p) (call_text p k) = Inr ()"
    using stages_calls(2) [OF assms(1)] readable_text(4) by blast
  have "req_id (fst k) \<notin> req_id ` fst ` set (pi_sent a)"
    using stages_calls(1) [OF assms(1)] assms(2) by (auto simp: pi_all_def image_image)
  then have fresh: "?t (req_id (fst k)) = None" using pending_fresh [OF q(3)] by blast
  have "pending_calls (?t(req_id (fst k) \<mapsto> PendingMethodCall (Some (snd k)))) (pi_sent (a\<lparr>pi_queue := ks, pi_up := pi_up a @ [k]\<rparr>))"
    by (rule pending_add [OF q(3) fresh]) (auto simp: pi_sent_def)
  moreover have "mset (pi_all (a\<lparr>pi_queue := ks, pi_up := pi_up a @ [k]\<rparr>)) = mset (pi_all a)"
    by (rule pipe_step_all [OF pipe_step.to_wire [of a, OF assms(2)]])
  moreover note call_sent [of "(cv_background v)\<lparr>bg_queue := msgs\<rparr>" "req_id (fst k)" "client_transport (pa_halves p)" "call_text p k"
      "pa_env p" "snd k"]
  ultimately show ?thesis
    using assms(1) fresh send q(1,2) by (simp add: stages_defs set_background_def call_front_def)
qed

lemma server_receive_stages:
  assumes "conv_stages p v a" "pi_up a = k # ks"
    and "seal (wsc_encryption (pa_cfg p)) (bg_to_server (cv_background v) ! length (se_received (cv_server v))) = Some x"
  shows "conv_stages p (v\<lparr>cv_server := session_receive (pa_emit p) (pa_cfg p) (pa_ping p) (pa_sink p) now (WsData x) (cv_server v)\<rparr>)
    (a\<lparr>pi_up := ks, pi_tasks := pi_tasks a @ [k]\<rparr>)"
proof -
  let ?a = "a\<lparr>pi_up := ks, pi_tasks := pi_tasks a @ [k]\<rparr>"
  have up: "unread (\<lambda>k m. m = call_text p k) (k # ks) (length (se_received (cv_server v))) (bg_to_server (cv_background v))"
    using assms(1,2) by (simp add: conv_stages_def wire_stages_def)
  have "pending_calls (requests (cl_manager (bg_client (cv_background v)))) (pi_sent ?a)"
    by (rule pending_moved [OF assms(1)]) (auto simp: pi_sent_def assms(2))
  moreover have "mset (pi_all ?a) = mset (pi_all a)" by (rule pipe_step_all [OF pipe_step.to_task [of a, OF assms(2)]])
  ultimately show ?thesis
    using assms(1,3) unread_pop [OF up]
    by (auto simp: stages_defs session_receive_def background_turn_def try_recv_turn_def phase_after_def Let_def intro: list_all2_appendI)
qed

lemma handled_reply:
  assumes "working_parties p" "readable_call p (fst k)" "seal (wsc_encryption (pa_cfg p)) (call_text p k) = Some x" "\<not> cq_closed (wd_conns w)"
  obtains m where "served p k m"
    "wd_conns (snd (ws_handle_message (pa_emit p) session_ops (pa_utf8 p) (pa_de p) (pa_cfg p)
          (rpc_service_impl (pa_emit p) (pa_valid p) (pa_service p)) (pa_ext p) (pa_sink p) x w)) = queue_all [m] (wd_conns w)"
proof -
  let ?req = "(fst k)\<lparr>req_extensions := pa_ext p\<rparr>"
  obtain rp w' where rp: "RpcService_call (pa_emit p) (pa_service p) ?req w = (rp, w')" by fastforce
  have "emits_errors (pa_emit p)"
    "\<forall>name cb. callbacks (rs_methods (pa_service p)) name = Some cb \<longrightarrow> callback_answers (pa_emit p) cb"
    "shared_cipher (wsc_encryption (pa_cfg p)) (pa_utf8 p)"
    using assms(1) by (simp_all add: working_parties_def)
  note p = this
  have ok: "MethodResponse_is_method_call rp" "wd_conns w' = wd_conns w"
    using service_answers [OF p(1,2), of ?req w] rp by (simp_all add: answers_def)
  have "served p k (mr_json rp)" unfolding served_def by (rule exI [of _ w]) (simp add: rp)
  moreover have "wd_conns (ws_reply session_ops (pa_sink p) rp w') = queue_all [mr_json rp] (wd_conns w)"
    using ok assms(4) by (simp add: ws_reply_def sink_send_def MethodSink_send_def session_ops_def split: option.split)
  ultimately show ?thesis
    using that ws_single_call [OF sealed_decrypts [OF p(3) assms(3)] readable_text(1-3) [OF assms(2)] rp] by simp
qed

lemma server_handle_stages:
  assumes "conv_stages p v a" "wc_tasks (se_conn (cv_server v)) = ds @ d # ds'"
  shows "\<exists>ks k ks'. pi_tasks a = ks @ k # ks' \<and> conv_stages p (v\<lparr>cv_server := (cv_server v)\<lparr>se_conn := (se_conn (cv_server v))\<lparr>wc_tasks := ds @ ds',
        wc_world := snd (ws_handle_message (pa_emit p) session_ops (pa_utf8 p) (pa_de p) (pa_cfg p)
          (rpc_service_impl (pa_emit p) (pa_valid p) (pa_service p)) (pa_ext p) (pa_sink p) d (wc_world (se_conn (cv_server v))))\<rparr>,
      se_handled := se_handled (cv_server v) @ [(d, \<not> cq_closed (se_queue (cv_server v)))]\<rparr>\<rparr>)
    (a\<lparr>pi_tasks := ks @ ks', pi_channel := pi_channel a @ [k]\<rparr>)"
proof -
  have "list_all2 (\<lambda>k x. seal (wsc_encryption (pa_cfg p)) (call_text p k) = Some x) (pi_tasks a) (ds @ d # ds')"
    using assms by (simp add: conv_stages_def server_stages_def)
  then obtain ks k ks' where t: "pi_tasks a = ks @ k # ks'" "seal (wsc_encryption (pa_cfg p)) (call_text p k) = Some d"
    "list_all2 (\<lambda>k x. seal (wsc_encryption (pa_cfg p)) (call_text p k) = Some x) ks ds"
    "list_all2 (\<lambda>k x. seal (wsc_encryption (pa_cfg p)) (call_text p k) = Some x) ks' ds'"
    by (auto simp: list_all2_append2 list_all2_Cons2)
  let ?a = "a\<lparr>pi_tasks := ks @ ks', pi_channel := pi_channel a @ [k]\<rparr>"
  have r: "readable_call p (fst k)" using stages_calls(2) [OF assms(1)] t(1) by (auto simp: pi_all_def pi_sent_def)
  have c: "\<not> cq_closed (se_queue (cv_server v))" using assms(1) by (simp add: stages_defs)
  obtain m where m: "served p k m"
    "wd_conns (snd (ws_handle_message (pa_emit p) session_ops (pa_utf8 p) (pa_de p) (pa_cfg p)
          (rpc_service_impl (pa_emit p) (pa_valid p) (pa_service p)) (pa_ext p) (pa_sink p) d (wc_world (se_conn (cv_server v))))) =
       queue_all [m] (se_queue (cv_server v))"
    by (rule handled_reply [OF stages_calls(3) [OF assms(1)] r t(2) c])
  have "pending_calls (requests (cl_manager (bg_client (cv_background v)))) (pi_sent ?a)"
    by (rule pending_moved [OF assms(1)]) (auto simp: pi_sent_def t(1))
  moreover have "mset (pi_all ?a) = mset (pi_all a)" by (rule pipe_step_all [OF pipe_step.task_ends [of a, OF t(1)]])
  ultimately have "conv_stages p (v\<lparr>cv_server := (cv_server v)\<lparr>se_conn := (se_conn (cv_server v))\<lparr>wc_tasks := ds @ ds',
        wc_world := snd (ws_handle_message (pa_emit p) session_ops (pa_utf8 p) (pa_de p) (pa_cfg p)
          (rpc_service_impl (pa_emit p) (pa_valid p) (pa_service p)) (pa_ext p) (pa_sink p) d (wc_world (se_conn (cv_server v))))\<rparr>,
      se_handled := se_handled (cv_server v) @ [(d, \<not> cq_closed (se_queue (cv_server v)))]\<rparr>\<rparr>) ?a"
    using assms(1) c m t(3,4) by (simp add: stages_defs list_all2_appendI queue_all_def)
  with t(1) show ?thesis by blast
qed

lemma server_write_stages:
  assumes "conv_stages p v a" "cq_items (se_queue (cv_server v)) = m # ms" "pi_channel a = k # ks"
  shows "conv_stages p (v\<lparr>cv_server := send_task_item (pa_emit p) (pa_socket p) (pa_cfg p) m ms (cv_server v)\<rparr>)
    (a\<lparr>pi_channel := ks, pi_down := pi_down a @ [k]\<rparr>)"
proof -
  let ?a = "a\<lparr>pi_channel := ks, pi_down := pi_down a @ [k]\<rparr>"
  have "pending_calls (requests (cl_manager (bg_client (cv_background v)))) (pi_sent ?a)"
    by (rule pending_moved [OF assms(1)]) (auto simp: pi_sent_def assms(3))
  moreover have "mset (pi_all ?a) = mset (pi_all a)" by (rule pipe_step_all [OF pipe_step.to_socket [of a, OF assms(3)]])
  moreover have "fst (send_message (pa_emit p) (pa_socket p) (wsc_encryption (pa_cfg p)) (wsc_policy (pa_cfg p)) m t) = Inr ()" for t
    using stages_calls(3) [OF assms(1)] by (simp add: working_parties_def reliable_def)
  then obtain t where "send_message (pa_emit p) (pa_socket p) (wsc_encryption (pa_cfg p)) (wsc_policy (pa_cfg p)) m (se_socket (cv_server v)) = (Inr (), t)"
    by (metis prod.collapse)
  ultimately show ?thesis
    using assms by (simp add: stages_defs send_task_item_def Let_def)
qed

lemma client_read_stages:
  assumes "conv_stages p v a" "pi_down a = k # ks"
    and "seal (wsc_encryption (pa_cfg p)) (se_written (cv_server v) ! cv_read v) = Some y"
    and "ClientReceiver_receive (pa_utf8 p) (pa_halves p) (Inr (IncText y)) = Inr msg"
  shows "conv_stages p ((set_background (read_task_message (pa_env p) now (Inr msg) (cv_background v)) v)\<lparr>cv_read := Suc (cv_read v)\<rparr>)
    (a\<lparr>pi_down := ks, pi_done := pi_done a @ [k]\<rparr>)"
proof -
  let ?a = "a\<lparr>pi_down := ks, pi_done := pi_done a @ [k]\<rparr>" and ?t = "requests (cl_manager (bg_client (cv_background v)))"
  let ?m = "se_written (cv_server v) ! cv_read v"
  note c = stages_calls [OF assms(1)]
  have "unread (served p) (k # ks) (cv_read v) (se_written (cv_server v))" using assms(1,2) by (simp add: conv_stages_def wire_stages_def)
  note down = unread_pop [OF this]
  have "k \<in> set (pi_all a)" using assms(2) by (simp add: pi_all_def pi_sent_def)
  with c(2) have r: "readable_call p (fst k)" by blast
  have s: "served p k ?m" using down by blast
  note m = readable_answer [OF r c(3) s]
  obtain rp where rp: "ce_de_response (pa_env p) ?m = Some rp" "rp_id rp = req_id (fst k)" using m(5) by blast
  have h: "wh_message_encryption (pa_halves p) = wsc_encryption (pa_cfg p)" "shared_cipher (wh_message_encryption (pa_halves p)) (pa_utf8 p)"
    using c(3) by (simp_all add: working_parties_def)
  have msg: "msg = Text ?m" using sealed_received [OF h(2) _ m(3), of y] assms(3,4) h(1) by simp
  have "pending_calls ?t (pi_sent a)" using assms(1) by (simp add: conv_stages_def client_stages_def)
  from pending_remove [OF this sent_distinct [OF c(1)], of k "pi_sent ?a"] assms(2)
  have t: "?t (req_id (fst k)) = Some (PendingMethodCall (Some (snd k)))" "pending_calls (?t(req_id (fst k) := None)) (pi_sent ?a)"
    by (simp_all add: pi_sent_def)
  have "delivered p k (ToCall (snd k) (Inr rp))" using s rp by (auto simp: delivered_def)
  moreover have "mset (pi_all ?a) = mset (pi_all a)" by (rule pipe_step_all [OF pipe_step.to_caller [of a, OF assms(2)]])
  ultimately show ?thesis
    using assms(1) t(2) down
    by (simp add: stages_defs set_background_def msg answer_delivered [OF t(1) rp m(1,2)] list_all2_appendI)
qed

lemma conv_forward:
  assumes "conv_stages p v a" "conv_step p v v'"
  shows "\<exists>a'. pipe_step a a' \<and> conv_stages p v' a'"
  using assms(2)
proof cases
  case (client_send msg msgs)
  then have "map (call_front p) (pi_queue a) = msg # msgs" using assms(1) by (simp add: conv_stages_def client_stages_def)
  then obtain k ks where q: "pi_queue a = k # ks" by blast
  with client_send(1) client_send_stages [OF assms(1) q client_send(2)] pipe_step.to_wire [of a, OF q] show ?thesis by auto
next
  case (server_receive x now)
  have "unread (\<lambda>k m. m = call_text p k) (pi_up a) (length (se_received (cv_server v))) (bg_to_server (cv_background v))"
    using assms(1) by (simp add: conv_stages_def wire_stages_def)
  then obtain k ks where up: "pi_up a = k # ks" using server_receive(3) by (rule unread_some)
  have "wh_message_encryption (pa_halves p) = wsc_encryption (pa_cfg p)" using stages_calls(3) [OF assms(1)] by (simp add: working_parties_def)
  with server_receive(1,4) server_receive_stages [OF assms(1) up, of x now] pipe_step.to_task [of a, OF up] show ?thesis by auto
next
  case (server_handle ds d ds')
  with server_handle_stages [OF assms(1) server_handle(2)] show ?thesis by (metis pipe_step.task_ends)
next
  case (server_write m ms)
  then obtain k ks where c: "pi_channel a = k # ks" using assms(1) by (auto simp: conv_stages_def server_stages_def list_all2_Cons2)
  with server_write(1) server_write_stages [OF assms(1) server_write(3) c] pipe_step.to_socket [of a, OF c] show ?thesis by auto
next
  case (client_read y msg now)
  have "unread (served p) (pi_down a) (cv_read v) (se_written (cv_server v))" using assms(1) by (simp add: conv_stages_def wire_stages_def)
  then obtain k ks where down: "pi_down a = k # ks" using client_read(4) by (rule unread_some)
  with client_read(1) client_read_stages [OF assms(1) down client_read(5,6), of now] pipe_step.to_caller [of a, OF down] show ?thesis by auto
qed

lemma conv_enabled:
  assumes "conv_stages p v a" "pipe_step a a'"
  shows "\<exists>v'. conv_step p v v'"
  using assms(2)
proof cases
  case (to_wire k ks)
  then have "bg_queue (cv_background v) = call_front p k # map (call_front p) ks" using assms(1) by (simp add: conv_stages_def client_stages_def)
  with conv_step.client_send [of v _ _ p, OF this] assms(1) show ?thesis by (auto simp: both_alive_def is_connected_def conv_stages_def)
next
  case (to_task k ks)
  then have "unread (\<lambda>k m. m = call_text p k) (k # ks) (length (se_received (cv_server v))) (bg_to_server (cv_background v))"
    using assms(1) by (simp add: conv_stages_def wire_stages_def)
  note up = unread_pop [OF this]
  have "readable_call p (fst k)" using stages_calls(2) [OF assms(1)] to_task by (auto simp: pi_all_def pi_sent_def)
  from transport_seals [OF readable_text(4) [OF this]]
  obtain x where "seal (wh_message_encryption (pa_halves p)) (call_text p k) = Some x" .
  with up have "seal (wh_message_encryption (pa_halves p)) (bg_to_server (cv_background v) ! length (se_received (cv_server v))) = Some x" by simp
  with conv_step.server_receive [OF _ _ this] up assms(1) show ?thesis by (auto simp: both_alive_def conv_stages_def)
next
  case (task_ends ks k ks')
  then obtain ds d ds' where "wc_tasks (se_conn (cv_server v)) = ds @ d # ds'"
    using assms(1) by (auto simp: conv_stages_def server_stages_def list_all2_append1 list_all2_Cons1)
  from conv_step.server_handle [of v, OF this] show ?thesis by blast
next
  case (to_socket k ks)
  then obtain m ms where "cq_items (se_queue (cv_server v)) = m # ms" using assms(1) by (auto simp: conv_stages_def server_stages_def list_all2_Cons1)
  with conv_step.server_write [of v m ms p] assms(1) show ?thesis by (auto simp: both_alive_def conv_stages_def)
next
  case (to_caller k ks)
  then have "unread (served p) (k # ks) (cv_read v) (se_written (cv_server v))" using assms(1) by (simp add: conv_stages_def wire_stages_def)
  note down = unread_pop [OF this]
  note c = stages_calls [OF assms(1)]
  have r: "readable_call p (fst k)" using c(2) to_caller by (auto simp: pi_all_def pi_sent_def)
  note m = readable_answer [OF r c(3), of "se_written (cv_server v) ! cv_read v"]
  from m(4) down obtain y where y: "seal (wsc_encryption (pa_cfg p)) (se_written (cv_server v) ! cv_read v) = Some y" by blast
  have "wh_message_encryption (pa_halves p) = wsc_encryption (pa_cfg p)" "shared_cipher (wh_message_encryption (pa_halves p)) (pa_utf8 p)"
    using c(3) by (simp_all add: working_parties_def)
  with sealed_received [OF this(2), of "se_written (cv_server v) ! cv_read v" y] m(3) y down
  have "ClientReceiver_receive (pa_utf8 p) (pa_halves p) (Inr (IncText y)) = Inr (Text (se_written (cv_server v) ! cv_read v))" by simp
  from conv_step.client_read [OF _ _ _ y this] down assms(1) show ?thesis by (auto simp: both_alive_def conv_stages_def)
qed

interpretation conv: pipeline_system "conv_step p" "conv_stages p" for p
  using conv_forward conv_enabled by unfold_locales blast+

section \<open>The calls of a conversation\<close>

lemma start_stages:
  assumes "working_parties p"
  shows "conv_stages p (conv_start builder ch chk im now w socket)
    \<lparr>pi_queue = [], pi_up = [], pi_tasks = [], pi_channel = [], pi_down = [], pi_done = []\<rparr>"
  using assms
  by (simp add: stages_defs calls_ok_def conv_start_def Client_new_def bg_new_def client_new_def RequestManager_new_def session_start_def
      conn_queue_new_def pi_all_def pi_sent_def unread_def pending_calls_def)

lemma call_started:
  assumes "Client_request_start emit False tx name (Inr ps) c = (Inr req, c')"
  shows "req_id req = fst (next_request_id (cli_id_manager c))" "cli_id_manager c' = snd (next_request_id (cli_id_manager c))"
    "cli_background c' = (cli_background c)\<lparr>bg_queue := bg_queue (cli_background c) @
       [FRequest \<lparr>rm_raw = the (to_raw_value emit (Request_serialize req)), rm_id = req_id req, rm_send_back = Some tx\<rparr>]\<rparr>"
proof -
  let ?req = "Request_borrowed name ps (fst (next_request_id (cli_id_manager c)))"
  obtain raw where "to_raw_value emit (Request_serialize ?req) = Some raw"
    using assms by (cases "to_raw_value emit (Request_serialize ?req)")
      (simp_all add: Client_request_start_def take_id_eq queue_message_cases call_message_def)
  with assms show "req_id req = fst (next_request_id (cli_id_manager c))" "cli_id_manager c' = snd (next_request_id (cli_id_manager c))"
    "cli_background c' = (cli_background c)\<lparr>bg_queue := bg_queue (cli_background c) @
       [FRequest \<lparr>rm_raw = the (to_raw_value emit (Request_serialize req)), rm_id = req_id req, rm_send_back = Some tx\<rparr>]\<rparr>"
    by (auto simp: Client_request_start_def take_id_eq queue_message_cases call_message_def after_ids_def queued_def Request_borrowed_def
        split: if_splits)
qed

lemma call_stages:
  assumes "conv_stages p v a" "conv_call p v v'" "calls_ok p (cv_calls v')"
  shows "\<exists>a'. conv_stages p v' a'"
  using assms(2)
proof cases
  case (call tx name ps req c)
  let ?a = "a\<lparr>pi_queue := pi_queue a @ [(req, tx)]\<rparr>"
  have "pi_sent ?a = pi_sent a" "mset (pi_all ?a) = add_mset (req, tx) (mset (pi_all a))" by (simp_all add: pi_all_def pi_sent_def)
  with call(1) assms(1,3) call_started(3) [OF call(2)] have "conv_stages p v' ?a"
    by (simp add: stages_defs call_front_def call_text_def)
  then show ?thesis ..
qed

lemma step_frame:
  assumes "conv_step p v v'"
  shows "cv_calls v' = cv_calls v" "cli_id_manager (cv_client v') = cli_id_manager (cv_client v)"
  using assms by (cases; simp add: set_background_def)+

lemma call_frame:
  assumes "conv_call p v v'"
  obtains req tx where "cv_calls v' = cv_calls v @ [(req, tx)]" "tx \<notin> snd ` set (cv_calls v)"
    "req_id req = fst (next_request_id (cli_id_manager (cv_client v)))"
    "cli_id_manager (cv_client v') = snd (next_request_id (cli_id_manager (cv_client v)))"
  using assms
proof cases
  case (call tx name ps req c)
  with call_started(1,2) [OF call(2)] show ?thesis by (intro that [of req tx]) simp_all
qed

lemma take_ids_Suc: "take_ids (Suc n) im = take_ids n im @ [fst (next_request_id (((\<lambda>im. snd (next_request_id im)) ^^ n) im))]"
proof (induction n arbitrary: im)
  case (Suc n)
  obtain i im' where "next_request_id im = (i, im')" by fastforce
  with Suc.IH [of im'] funpow_swap1 [of "\<lambda>im. snd (next_request_id im)" n im] show ?case by simp
qed (simp split: prod.split)

lemma conversation_ids:
  assumes "conv_reachable p (conv_start builder ch chk im now w socket) v"
  shows "map (req_id \<circ> fst) (cv_calls v) = take_ids (length (cv_calls v)) im \<and> distinct (map snd (cv_calls v)) \<and>
    cli_id_manager (cv_client v) = ((\<lambda>im. snd (next_request_id im)) ^^ length (cv_calls v)) im"
  using assms
proof (induction rule: conv_reachable.induct)
  case start
  show ?case by (simp add: conv_start_def Client_new_def)
next
  case (step v v')
  with step_frame [OF step(2)] show ?case by simp
next
  case (call v v')
  from call(2) show ?case
  proof (rule call_frame)
    fix req tx assume "cv_calls v' = cv_calls v @ [(req, tx)]" "tx \<notin> snd ` set (cv_calls v)"
      "req_id req = fst (next_request_id (cli_id_manager (cv_client v)))"
      "cli_id_manager (cv_client v') = snd (next_request_id (cli_id_manager (cv_client v)))"
    with call.IH take_ids_Suc [of "length (cv_calls v)" im] show ?thesis by simp
  qed
qed

lemma reachable_stages:
  assumes "conv_reachable p (conv_start builder ch chk im now w socket) v" "calls_ok p (cv_calls v)"
  shows "\<exists>a. conv_stages p v a"
  using assms
proof (induction rule: conv_reachable.induct)
  case start
  then have "working_parties p" by (simp add: calls_ok_def)
  from start_stages [OF this] show ?case by (rule exI)
next
  case (step v v')
  then have "calls_ok p (cv_calls v)" by (simp add: step_frame)
  with step conv.forward show ?case by metis
next
  case (call v v')
  then have "calls_ok p (cv_calls v)" by (auto elim!: call_frame simp: calls_ok_def)
  with call call_stages show ?case by metis
qed

section \<open>Properties\<close>

text \<open>The steps that the tasks still have to take, until every call is answered.\<close>

definition conv_work :: "('c, 'u, 's) conversation \<Rightarrow> nat" where
  "conv_work v = 5 * length (bg_queue (cv_background v)) +
     4 * (length (bg_to_server (cv_background v)) - length (se_received (cv_server v))) + 3 * length (wc_tasks (se_conn (cv_server v))) +
     2 * length (cq_items (se_queue (cv_server v))) + (length (se_written (cv_server v)) - cv_read v)"

lemma unread_length: "unread R ks n ms \<Longrightarrow> length ks = length ms - n"
  by (auto simp: unread_def dest: list_all2_lengthD)

lemma stages_work: "conv_stages p v a \<Longrightarrow> conv_work v = pi_work a"
  by (auto simp: conv_stages_def client_stages_def server_stages_def wire_stages_def conv_work_def pi_work_def
      dest!: unread_length list_all2_lengthD)

definition all_answered :: "('c, 'u, 's, 'd) parties \<Rightarrow> ('c, 'u, 's) conversation \<Rightarrow> bool" where
  "all_answered p v \<longleftrightarrow> (\<exists>ks. mset ks = mset (cv_calls v) \<and> list_all2 (delivered p) ks (cl_outbox (bg_client (cv_background v)))) \<and>
     requests (cl_manager (bg_client (cv_background v))) = Map.empty"

lemma stages_answered:
  assumes "conv_stages p v a" "pi_work a = 0"
  shows "all_answered p v"
proof -
  let ?t = "requests (cl_manager (bg_client (cv_background v)))"
  have e: "pi_queue a = []" "pi_sent a = []" using assms(2) by (simp_all add: pipe_work_zero)
  have "?t i = None" for i
    using assms(1) e by (intro pending_fresh [of ?t "[]"]) (simp_all add: conv_stages_def client_stages_def)
  then have "?t = Map.empty" by blast
  moreover have "mset (pi_done a) = mset (cv_calls v)" "list_all2 (delivered p) (pi_done a) (cl_outbox (bg_client (cv_background v)))"
    using assms(1) e by (simp_all add: conv_stages_def client_stages_def pi_all_def)
  ultimately show ?thesis unfolding all_answered_def by blast
qed

text \<open>C1. A conversation between a client and a server, in which calls are started at any time and the tasks of both sides run in any
  order: no side disconnects or panics; every answer that was delivered went to the channel of a call, with the id of that call, and is what the
  service answers to its request, and no call was answered twice; whenever callers stop, every run of the tasks is finite, the tasks
  are never stuck before all calls are answered, and when no task can go on, every call was answered exactly once and the
  client has forgotten it. For fewer than \<open>2^64\<close> calls of a server with methods only, with or without encryption.\<close>

theorem conversation_answers_all:
  assumes "conv_reachable p (conv_start builder ch chk im now w socket) v" and "working_parties p"
    and "\<forall>(req, tx) \<in> set (cv_calls v). readable_call p req" and "length (cv_calls v) \<le> 2 ^ 64"
  shows "both_alive v \<and> distinct (cv_calls v) \<and>
    (\<exists>ks. distinct ks \<and> set ks \<subseteq> set (cv_calls v) \<and> list_all2 (delivered p) ks (cl_outbox (bg_client (cv_background v)))) \<and>
    (\<forall>n v'. (conv_step p ^^ n) v v' \<longrightarrow> both_alive v' \<and> n + conv_work v' = conv_work v \<and>
       (if conv_work v' = 0 then all_answered p v' else \<exists>v''. conv_step p v' v'')) \<and>
    (\<exists>v'. (conv_step p ^^ conv_work v) v v')"
proof -
  note ids = conversation_ids [OF assms(1)]
  have "distinct (map (req_id \<circ> fst) (cv_calls v))" using ids request_ids_distinct [OF assms(4)] by simp
  with assms(2,3) have "calls_ok p (cv_calls v)" by (auto simp: calls_ok_def)
  with reachable_stages [OF assms(1)] obtain a where a: "conv_stages p v a" by blast
  have d: "distinct (cv_calls v)" using ids distinct_map by blast
  from a have m: "mset (pi_all a) = mset (cv_calls v)" by (simp add: conv_stages_def)
  with d have "distinct (pi_done a)" "set (pi_done a) \<subseteq> set (cv_calls v)"
    using mset_eq_imp_distinct_iff [OF m] mset_eq_setD [OF m] by (auto simp: pi_all_def)
  moreover have "both_alive v'" "n + conv_work v' = conv_work v" "if conv_work v' = 0 then all_answered p v' else \<exists>v''. conv_step p v' v''"
    if "(conv_step p ^^ n) v v'" for n v'
  proof -
    from conv.runs_end [OF a that] obtain a' where a': "conv_stages p v' a'" "pi_work a = n + pi_work a'" by blast
    then show "both_alive v'" "n + conv_work v' = conv_work v" using stages_work [OF a] stages_work [OF a'(1)] by (simp_all add: conv_stages_def)
    show "if conv_work v' = 0 then all_answered p v' else \<exists>v''. conv_step p v' v''"
      using stages_answered [OF a'(1)] conv.not_stuck [OF a'(1)] stages_work [OF a'(1)] by simp
  qed
  moreover have "\<exists>v'. (conv_step p ^^ conv_work v) v v'" using conv.runs_to_end [OF a] stages_work [OF a] by simp
  ultimately show ?thesis using a d by (auto simp: conv_stages_def client_stages_def)
qed

text \<open>Two calls of the method \<open>m\<close>, with the ids 0 and 1; the client reads the id at the start of a response.\<close>

definition example_conv_call :: "u64 \<Rightarrow> Request" where
  "example_conv_call n = Request_borrowed ''m'' None (Number n)"

definition example_conv_text :: "u64 \<Rightarrow> string" where
  "example_conv_text n = json_text (Request_serialize (example_conv_call n))"

definition example_conv_response :: "string \<Rightarrow> RawResponse option" where
  "example_conv_response m = (if take 24 m = ''{\"jsonrpc\":\"2.0\",\"id\":0,'' then Some (Response_new (Success ''7'') (Number 0))
     else if take 24 m = ''{\"jsonrpc\":\"2.0\",\"id\":1,'' then Some (Response_new (Success ''7'') (Number 1)) else None)"

definition example_parties :: "(chan_store, unit, string list, unit) parties" where
  "example_parties = \<lparr>pa_env = example_env\<lparr>ce_emit := json_emit, ce_de_response := example_conv_response\<rparr>,
     pa_halves = \<lparr>wh_stream = PlainStream (), wh_max_message_size = 1000, wh_max_request_size = 1000, wh_message_encryption = None\<rparr>,
     pa_emit = json_emit, pa_utf8 = (\<lambda>_. True),
     pa_de = example_readers\<lparr>de_call := (\<lambda>x. if x = example_conv_text 0 then Some (example_conv_call 0)
       else if x = example_conv_text 1 then Some (example_conv_call 1) else None)\<rparr>,
     pa_valid = array_text, pa_cfg = example_ws_config\<lparr>wsc_encryption := None\<rparr>, pa_ping = None, pa_service = example_session_service,
     pa_ext = Map.empty, pa_sink = MethodSink_new 0, pa_socket = log_ops\<rparr>"

lemma example_conv_texts:
  "example_conv_text 0 = ''{\"jsonrpc\":\"2.0\",\"id\":0,\"method\":\"m\"}''" "example_conv_text 1 = ''{\"jsonrpc\":\"2.0\",\"id\":1,\"method\":\"m\"}''"
  by (simp_all add: example_conv_text_def example_conv_call_def json_eval)

lemma example_response_text:
  "\<exists>rest. json_text (Response_serialize (\<lambda>v. v) (Response_new payload (Number 0))) = ''{\"jsonrpc\":\"2.0\",\"id\":0,'' @ rest"
  "\<exists>rest. json_text (Response_serialize (\<lambda>v. v) (Response_new payload (Number 1))) = ''{\"jsonrpc\":\"2.0\",\"id\":1,'' @ rest"
  by (cases payload; simp add: json_eval)+

lemma example_answer_text:
  assumes "answer_text json_emit (Number n) m" "n = 0 \<or> n = 1"
  shows "m \<noteq> [] \<and> hd m = CHR ''{'' \<and> (\<exists>rp. example_conv_response m = Some rp \<and> rp_id rp = Number n)"
proof -
  obtain payload where "m = json_text (Response_serialize (\<lambda>v. v) (Response_new payload (Number n)))"
    using assms(1) by (auto simp: answer_text_def json_emit_def)
  moreover obtain r0 r1 where "json_text (Response_serialize (\<lambda>v. v) (Response_new payload (Number 0))) = ''{\"jsonrpc\":\"2.0\",\"id\":0,'' @ r0"
    "json_text (Response_serialize (\<lambda>v. v) (Response_new payload (Number 1))) = ''{\"jsonrpc\":\"2.0\",\"id\":1,'' @ r1"
    using example_response_text by blast
  ultimately show ?thesis using assms(2) by (auto simp: example_conv_response_def Response_new_def)
qed

lemma example_readable:
  assumes "n = 0 \<or> n = 1"
  shows "readable_call example_parties (example_conv_call n)"
proof -
  have "client_transport (pa_halves example_parties) (example_conv_text n) = Inr ()"
    using assms by (auto simp: client_transport_def ClientSender_send_def example_parties_def example_conv_texts send_and_flush_def working_socket_def)
  moreover have "de_call (pa_de example_parties) (example_conv_text n) = Some (example_conv_call n)"
    using assms by (auto simp: example_parties_def example_conv_texts)
  moreover have "example_conv_text n \<noteq> []" "hd (example_conv_text n) = CHR ''{''" using assms by (auto simp: example_conv_texts)
  moreover have "to_raw_value (ce_emit (pa_env example_parties)) (Request_serialize (example_conv_call n)) = Some (example_conv_text n)"
    by (simp add: example_parties_def example_env_def to_raw_value_def json_emit_def example_conv_text_def)
  moreover have "req_id (example_conv_call n) = Number n" by (simp add: example_conv_call_def Request_borrowed_def)
  ultimately show ?thesis
    using example_answer_text [OF _ assms] unfolding readable_call_def by (simp add: example_parties_def example_env_def seal_def)
qed

lemma example_working: "working_parties example_parties"
proof -
  have "register_method json_emit SU64 into_response_value ''m'' (\<lambda>_ _ _ w. (7, w)) (RpcModule_new ()) = (Inr (), example_session_module)"
    by (simp add: example_session_module_def register_method_def module_insert_def verify_and_insert_def RpcModule_new_def Methods_new_def)
  from registered_answers [OF this]
  have "\<forall>n c. callbacks (rm_methods example_session_module) n = Some c \<longrightarrow> callback_answers json_emit c"
    by (simp add: emits_errors_def json_emit_def RpcModule_new_def Methods_new_def)
  then show ?thesis
    by (simp add: working_parties_def example_parties_def plain.shared_cipher_axioms reliable_def send_message_def send_and_flush_def log_ops_def
        emits_errors_def json_emit_def example_session_service_def)
qed

definition example_conv_start :: "(chan_store, unit, string list) conversation" where
  "example_conv_start = conv_start ClientBuilder_default store_new Disabled (RequestIdManager_new IdNumber) 0 example_session_world []"

theorem conversation_answers_all_witness:
  "\<exists>v v'. conv_reachable example_parties example_conv_start v \<and> cv_calls v = [(example_conv_call 0, 5), (example_conv_call 1, 6)] \<and>
     (conv_step example_parties ^^ 10) v v' \<and> all_answered example_parties v'"
proof -
  let ?c = "\<lambda>n tx c. Client_request_start json_emit False tx ''m'' (Inr None) c = (Inr (example_conv_call n), c\<lparr>cli_id_manager := \<lparr>current_id = n + 1, id_kind = IdNumber\<rparr>,
      cli_background := (cli_background c)\<lparr>bg_queue := bg_queue (cli_background c) @ [call_front example_parties (example_conv_call n, tx)]\<rparr>\<rparr>)"
  have start: "?c n tx c" if "cli_id_manager c = \<lparr>current_id = n, id_kind = IdNumber\<rparr>" "is_connected c" for n tx c
    using that by (simp add: Client_request_start_def take_id_eq queue_message_cases call_message_def after_ids_def queued_def next_request_id_def
        CurrentId_next_def to_raw_value_def json_emit_def example_conv_call_def call_front_def call_text_def example_parties_def example_env_def
        Request_borrowed_def Let_def)
  define v1 where "v1 = example_conv_start\<lparr>cv_client := snd (Client_request_start json_emit False 5 ''m'' (Inr None) (cv_client example_conv_start)),
      cv_calls := [(example_conv_call 0, 5)]\<rparr>"
  define v2 where "v2 = v1\<lparr>cv_client := snd (Client_request_start json_emit False 6 ''m'' (Inr None) (cv_client v1)),
      cv_calls := [(example_conv_call 0, 5), (example_conv_call 1, 6)]\<rparr>"
  have e: "ce_emit (pa_env example_parties) = json_emit" by (simp add: example_parties_def)
  have c0: "cli_id_manager (cv_client example_conv_start) = \<lparr>current_id = 0, id_kind = IdNumber\<rparr>" "is_connected (cv_client example_conv_start)"
    "cv_calls example_conv_start = []" "bg_queue (cv_background example_conv_start) = []"
    by (simp_all add: example_conv_start_def conv_start_def Client_new_def RequestIdManager_new_def is_connected_def bg_new_def)
  note s1 = start [OF c0(1,2), of 5]
  then have call1: "conv_call example_parties example_conv_start v1"
    using conv_call.call [of example_parties 5 "''m''" None example_conv_start "example_conv_call 0"] by (simp add: e v1_def c0(3))
  have c1: "cli_id_manager (cv_client v1) = \<lparr>current_id = 1, id_kind = IdNumber\<rparr>" "is_connected (cv_client v1)"
    using c0(2) by (simp_all add: v1_def s1 is_connected_def)
  note s2 = start [OF c1, of 6]
  then have call2: "conv_call example_parties v1 v2"
    using conv_call.call [of example_parties 6 "''m''" None v1 "example_conv_call 1"] by (simp add: e v2_def, simp add: v1_def)
  from call1 call2 have "conv_reachable example_parties example_conv_start v2"
    by (blast intro: conv_reachable.intros)
  note r = this [unfolded example_conv_start_def]
  have calls: "cv_calls v2 = [(example_conv_call 0, 5), (example_conv_call 1, 6)]" by (simp add: v2_def)
  have "conv_work v2 = 10"
    using c0(4) by (simp add: conv_work_def v2_def s2) (simp add: v1_def s1, simp add: example_conv_start_def conv_start_def Client_new_def bg_new_def
      session_start_def conn_queue_new_def)
  note work = this
  have "\<forall>(req, tx) \<in> set (cv_calls v2). readable_call example_parties req" "length (cv_calls v2) \<le> 2 ^ 64"
    using example_readable by (simp_all add: calls)
  note all = conversation_answers_all [OF r example_working this]
  then obtain v' where v': "(conv_step example_parties ^^ 10) v2 v'" by (metis work)
  with all have "10 + conv_work v' = 10" "if conv_work v' = 0 then all_answered example_parties v' else \<exists>v''. conv_step example_parties v' v''"
    by (metis work)+
  then have "all_answered example_parties v'" by simp
  with v' r calls show ?thesis unfolding example_conv_start_def by blast
qed

end
