(* ===== verification/Wire_Texts.thy ===== *)
theory Wire_Texts
  imports Server_Dispatch Ws_Transport
begin

text \<open>
  The texts that the tests of the server and of the clients compare with (\<open>test-utils/src/helpers.rs\<close>), and that the server's
  components produce exactly these texts, for every serialiser that writes compact JSON.
\<close>

section \<open>The reference texts\<close>

text \<open>
  \<open>serde_json::to_string(\<dots>).unwrap()\<close> is \<open>expect_raw\<close>. \<open>format!\<close> inserts a method name or a message as it is, without quoting it.
\<close>

definition id_text :: "emitter \<Rightarrow> Id \<Rightarrow> string" where
  "id_text emit i = expect_raw emit (Id_serialize i)"

definition ok_response_text :: "emitter \<Rightarrow> string \<Rightarrow> Id \<Rightarrow> string" where
  "ok_response_text emit result i = ''{\"jsonrpc\":\"2.0\",\"id\":'' @ id_text emit i @ '',\"result\":'' @ result @ ''}''"

definition method_not_found_text :: "emitter \<Rightarrow> Id \<Rightarrow> string" where
  "method_not_found_text emit i = ''{\"jsonrpc\":\"2.0\",\"id\":'' @ id_text emit i @
     '',\"error\":{\"code\":-32601,\"message\":\"Method not found\"}}''"

definition parse_error_text :: "emitter \<Rightarrow> Id \<Rightarrow> string" where
  "parse_error_text emit i = ''{\"jsonrpc\":\"2.0\",\"id\":'' @ id_text emit i @ '',\"error\":{\"code\":-32700,\"message\":\"Parse error\"}}''"

definition oversized_request_text :: "u32 \<Rightarrow> string" where
  "oversized_request_text max_limit = ''{\"jsonrpc\":\"2.0\",\"id\":null,\"error\":{\"code\":-32007,\"message\":\"Request is too big\",\"data\":\"Exceeded max limit of '' @
     nat_to_string (unat max_limit) @ ''\"}}''"

definition batches_not_supported_text :: string where
  "batches_not_supported_text =
     ''{\"jsonrpc\":\"2.0\",\"id\":null,\"error\":{\"code\":-32005,\"message\":\"Batched requests are not supported by this server\"}}''"

definition batches_too_large_text :: "nat \<Rightarrow> string" where
  "batches_too_large_text max_limit = ''{\"jsonrpc\":\"2.0\",\"id\":null,\"error\":{\"code\":-32010,\"message\":\"The batch request was too large\",\"data\":\"Exceeded max limit of '' @
     nat_to_string max_limit @ ''\"}}''"

definition batch_response_too_large_text :: "nat \<Rightarrow> string" where
  "batch_response_too_large_text max_limit = ''{\"jsonrpc\":\"2.0\",\"id\":null,\"error\":{\"code\":-32011,\"message\":\"The batch response was too large\",\"data\":\"Exceeded max limit of '' @
     nat_to_string max_limit @ ''\"}}''"

definition oversized_response_text :: "emitter \<Rightarrow> Id \<Rightarrow> nat \<Rightarrow> string" where
  "oversized_response_text emit i max_limit = ''{\"jsonrpc\":\"2.0\",\"id\":'' @ id_text emit i @
     '',\"error\":{\"code\":-32008,\"message\":\"Response is too big\",\"data\":\"Exceeded max limit of '' @ nat_to_string max_limit @ ''\"}}''"

definition invalid_request_text :: "emitter \<Rightarrow> Id \<Rightarrow> string" where
  "invalid_request_text emit i = ''{\"jsonrpc\":\"2.0\",\"id\":'' @ id_text emit i @ '',\"error\":{\"code\":-32600,\"message\":\"Invalid request\"}}''"

text \<open>The loop of \<open>invalid_batch_text\<close> from the index \<open>k\<close> on.\<close>

fun invalid_batch_loop :: "emitter \<Rightarrow> nat \<Rightarrow> nat \<Rightarrow> Id list \<Rightarrow> string \<Rightarrow> string" where
  "invalid_batch_loop emit n k [] result = result"
| "invalid_batch_loop emit n k (i # ids) result = invalid_batch_loop emit n (Suc k) ids
     (result @ ''{\"jsonrpc\":\"2.0\",\"id\":'' @ id_text emit i @ '',\"error\":{\"code\":-32600,\"message\":\"Invalid request\"}}'' @
        (if k + 1 = n then [] else '',''))"

definition invalid_batch_text :: "emitter \<Rightarrow> Id list \<Rightarrow> string" where
  "invalid_batch_text emit ids = invalid_batch_loop emit (length ids) 0 ids ''['' @ '']''"

definition invalid_params_text :: "emitter \<Rightarrow> Id \<Rightarrow> string" where
  "invalid_params_text emit i = ''{\"jsonrpc\":\"2.0\",\"id\":'' @ id_text emit i @ '',\"error\":{\"code\":-32602,\"message\":\"Invalid params\"}}''"

definition call_text_of :: "emitter \<Rightarrow> ('t \<Rightarrow> ser) \<Rightarrow> string \<Rightarrow> 't list \<Rightarrow> Id \<Rightarrow> string" where
  "call_text_of emit ser_t meth params i = ''{\"jsonrpc\":\"2.0\",\"method\":'' @ expect_raw emit (SStr meth) @
     '',\"params\":'' @ expect_raw emit (SSeq (map ser_t params)) @ '',\"id\":'' @ id_text emit i @ ''}''"

definition call_execution_failed_text :: "emitter \<Rightarrow> string \<Rightarrow> Id \<Rightarrow> string" where
  "call_execution_failed_text emit msg i = ''{\"jsonrpc\":\"2.0\",\"id\":'' @ id_text emit i @ '',\"error\":{\"code\":-32000,\"message\":\"'' @ msg @ ''\"}}''"

definition internal_error_text :: "emitter \<Rightarrow> Id \<Rightarrow> string" where
  "internal_error_text emit i = ''{\"jsonrpc\":\"2.0\",\"id\":'' @ id_text emit i @ '',\"error\":{\"code\":-32603,\"message\":\"Internal error\"}}''"

definition server_error_text :: "emitter \<Rightarrow> Id \<Rightarrow> string" where
  "server_error_text emit i = ''{\"jsonrpc\":\"2.0\",\"id\":'' @ id_text emit i @ '',\"error\":{\"code\":-32000,\"message\":\"Server error\"}}''"

definition server_subscription_id_response_text :: "emitter \<Rightarrow> Id \<Rightarrow> string" where
  "server_subscription_id_response_text emit i = ''{\"jsonrpc\":\"2.0\",\"id\":'' @ id_text emit i @ '',\"result\":\"D3wwzU6vvoUUYehv4qoFzq42DZnLoAETeFzeyk8swH4o\"}''"

definition server_subscription_response_text :: "emitter \<Rightarrow> string \<Rightarrow> ser \<Rightarrow> string" where
  "server_subscription_response_text emit meth result = ''{\"jsonrpc\":\"2.0\",\"method\":\"'' @ meth @
     ''\",\"params\":{\"subscription\":\"D3wwzU6vvoUUYehv4qoFzq42DZnLoAETeFzeyk8swH4o\",\"result\":'' @ expect_raw emit result @ ''}}''"

definition server_notification_text :: "emitter \<Rightarrow> string \<Rightarrow> ser \<Rightarrow> string" where
  "server_notification_text emit meth params = ''{\"jsonrpc\":\"2.0\",\"method\":\"'' @ meth @ ''\", \"params\":'' @ expect_raw emit params @ '' }''"

definition server_notification_without_params_text :: "string \<Rightarrow> string" where
  "server_notification_without_params_text meth = ''{\"jsonrpc\":\"2.0\",\"method\":\"'' @ meth @ ''\"}''"

section \<open>Lemmas\<close>

text \<open>\<open>serde_json\<close> writes compact JSON, in whatever pieces.\<close>

definition compact_emitter :: "emitter \<Rightarrow> bool" where
  "compact_emitter emit \<longleftrightarrow> (\<forall>v. snd (emit v) \<and> concat (fst (emit v)) = json_text v)"

lemma compact_json_emit: "compact_emitter json_emit"
  by (simp add: compact_emitter_def json_emit_def)

lemma compact_texts:
  assumes "compact_emitter emit"
  shows "expect_raw emit v = json_text v" "to_raw_value emit v = Some (json_text v)"
proof -
  obtain cs where "emit v = (cs, True)" "concat cs = json_text v"
    using assms unfolding compact_emitter_def by (metis prod.collapse)
  then show "expect_raw emit v = json_text v" "to_raw_value emit v = Some (json_text v)" by (simp_all add: expect_raw_def to_raw_value_def)
qed

lemma codes_text:
  "int_to_string (-32601) = ''-32601''" "int_to_string (-32700) = ''-32700''" "int_to_string (-32600) = ''-32600''"
  "int_to_string (-32603) = ''-32603''" "int_to_string (-32602) = ''-32602''" "int_to_string (-32000) = ''-32000''"
  "int_to_string (-32005) = ''-32005''" "int_to_string (-32007) = ''-32007''" "int_to_string (-32008) = ''-32008''"
  "int_to_string (-32010) = ''-32010''" "int_to_string (-32011) = ''-32011''"
  by (simp_all add: int_to_string_def json_eval)

lemma error_text:
  assumes "compact_emitter emit"
  shows "error_json emit i e = ''{\"jsonrpc\":\"2.0\",\"id\":'' @ id_text emit i @ '',\"error\":{\"code\":'' @ int_to_string (ErrorCode_code (eo_code e)) @
    '',\"message\":'' @ json_string (eo_message e) @ (case eo_data e of None \<Rightarrow> [] | Some d \<Rightarrow> '',\"data\":'' @ d) @ ''}}''"
  by (simp add: error_json_def id_text_def compact_texts [OF assms] ErrorObject_serialize_def ErrorCode_serialize_def json_eval split: option.split)

text \<open>Text that JSON does not escape.\<close>

definition unescaped :: "string \<Rightarrow> bool" where
  "unescaped s \<longleftrightarrow> (\<forall>c \<in> set s. escape_char c = [c])"

lemma unescaped_concat: "unescaped s \<Longrightarrow> concat (map escape_char s) = s"
  by (induction s) (simp_all add: unescaped_def)

lemma unescaped_quoted: "unescaped s \<Longrightarrow> json_string s = ''\"'' @ s @ ''\"''"
  by (simp add: json_string_def unescaped_concat char_eval)

lemma number_unescaped: "unescaped (nat_to_string n)"
  using nat_to_string_digits [of n] by (auto simp: unescaped_def escape_char_def is_digit_char_def char_digit_def Let_def split: if_splits)

lemma limit_text: "json_text (exceeded_limit n) = ''\"Exceeded max limit of '' @ nat_to_string n @ ''\"''"
proof -
  have "unescaped (''Exceeded max limit of '' @ nat_to_string n)"
    using number_unescaped [of n] by (simp add: unescaped_def escape_char_def Let_def ball_Un)
  from unescaped_quoted [OF this] show ?thesis by (simp add: exceeded_limit_def)
qed

lemmas message_texts = METHOD_NOT_FOUND_MSG_def PARSE_ERROR_MSG_def INVALID_REQUEST_MSG_def INTERNAL_ERROR_MSG_def INVALID_PARAMS_MSG_def SERVER_ERROR_MSG_def
  OVERSIZED_REQUEST_MSG_def TOO_BIG_BATCH_REQUEST_MSG_def TOO_BIG_BATCH_RESPONSE_MSG_def BATCHES_NOT_SUPPORTED_MSG_def OVERSIZED_RESPONSE_MSG_def

lemmas reference_texts = method_not_found_text_def parse_error_text_def invalid_request_text_def internal_error_text_def invalid_params_text_def server_error_text_def
  oversized_request_text_def oversized_response_text_def batches_not_supported_text_def batches_too_large_text_def batch_response_too_large_text_def

text \<open>The errors of the protocol.\<close>

lemma error_code_texts:
  assumes "compact_emitter emit"
  shows "error_json emit i (ErrorObject_from MethodNotFound) = method_not_found_text emit i"
    "error_json emit i (ErrorObject_from ParseError) = parse_error_text emit i"
    "error_json emit i (ErrorObject_from InvalidRequest) = invalid_request_text emit i"
    "error_json emit i (ErrorObject_from InternalError) = internal_error_text emit i"
    "error_json emit i (ErrorObject_from InvalidParams) = invalid_params_text emit i"
    "error_json emit i (ErrorObject_from (ServerError (-32000))) = server_error_text emit i"
  by (simp_all add: error_text [OF assms] ErrorObject_from_def rpc_defs codes_text reference_texts message_texts json_string_def escape_char_def char_eval)

lemma limit_texts:
  assumes "compact_emitter emit"
  shows "error_json emit Null (reject_too_big_request emit l) = oversized_request_text l"
    "error_json emit Null (reject_too_big_batch_request emit n) = batches_too_large_text n"
    "error_json emit Null (reject_too_big_batch_response emit n) = batch_response_too_large_text n"
    "error_json emit Null (ErrorObject_borrowed BATCHES_NOT_SUPPORTED_CODE BATCHES_NOT_SUPPORTED_MSG None) = batches_not_supported_text"
    "error_json emit i (ErrorObject_borrowed OVERSIZED_RESPONSE_CODE OVERSIZED_RESPONSE_MSG (to_raw_value emit (exceeded_limit n))) =
       oversized_response_text emit i n"
  by (simp_all add: error_text [OF assms] reject_too_big_request_def reject_too_big_batch_request_def reject_too_big_batch_response_def
      ErrorObject_owned_def ErrorObject_borrowed_def compact_texts [OF assms] limit_text id_text_def rpc_defs codes_text reference_texts message_texts json_string_def
      escape_char_def char_eval)

lemma response_text:
  assumes "compact_emitter emit"
  shows "mr_json (MethodResponse_response emit ser_t i rp n) = (let text = (case pl_inner rp of
      Success v \<Rightarrow> ok_response_text emit (expect_raw emit (ser_t v)) i | RpError e \<Rightarrow> error_json emit i e)
    in if length text \<le> n then text else oversized_response_text emit i n)"
proof -
  obtain cs where cs: "emit (Response_serialize ser_t (Response_new (pl_inner rp) i)) = (cs, True)"
    "concat cs = json_text (Response_serialize ser_t (Response_new (pl_inner rp) i))"
    using assms unfolding compact_emitter_def by (metis prod.collapse)
  have "concat cs = (case pl_inner rp of Success v \<Rightarrow> ok_response_text emit (expect_raw emit (ser_t v)) i | RpError e \<Rightarrow> error_json emit i e)"
    unfolding cs(2) ok_response_text_def id_text_def error_json_def compact_texts [OF assms]
    by (simp add: json_eval split: ResponsePayload.split)
  then show ?thesis
    by (simp add: response_branches [of emit ser_t rp i, OF cs(1)] MethodResponse_error_def limit_texts [OF assms])
qed

lemma execution_failed_text:
  assumes "compact_emitter emit" "unescaped msg"
  shows "error_json emit i (ErrorObject_owned emit CALL_EXECUTION_FAILED_CODE msg None) = call_execution_failed_text emit msg i"
  by (simp add: error_text [OF assms(1)] ErrorObject_owned_def rpc_defs codes_text call_execution_failed_text_def unescaped_quoted [OF assms(2)])

lemma invalid_batch_loop_eq:
  "n = k + length ids \<Longrightarrow> invalid_batch_loop emit n k ids result = result @ join_comma (map (invalid_request_text emit) ids)"
proof (induction ids arbitrary: k result)
  case (Cons i ids)
  have "invalid_batch_loop emit n k (i # ids) result =
      invalid_batch_loop emit n (Suc k) ids (result @ invalid_request_text emit i @ (if k + 1 = n then [] else '',''))"
    by (simp add: invalid_request_text_def)
  also have "\<dots> = result @ join_comma (map (invalid_request_text emit) (i # ids))"
    using Cons.IH [of "Suc k"] Cons.prems by (cases ids) (simp_all del: invalid_batch_loop.simps(2))
  finally show ?case .
qed simp

text \<open>The entries of a batch that are neither calls nor notifications.\<close>

definition malformed_entry :: "readers \<Rightarrow> string \<Rightarrow> bool" where
  "malformed_entry de x \<longleftrightarrow> de_call de x = None \<and> de_notif de x = None"

definition entry_id :: "readers \<Rightarrow> string \<Rightarrow> Id" where
  "entry_id de x = (case de_invalid de x of Some r \<Rightarrow> ivr_id r | None \<Rightarrow> Null)"

lemma malformed_responses:
  assumes "\<forall>x \<in> set xs. malformed_entry de x"
  shows "entry_responses emit s (map (parse_batch_entry de ext) xs) w =
      (map (\<lambda>x. MethodResponse_error emit (entry_id de x) (ErrorObject_from InvalidRequest)) xs, w)"
    "\<forall>e \<in> set (map (parse_batch_entry de ext) xs). batch_item_ok e"
  using assms
  by (induction xs) (auto simp: parse_batch_entry_def call_from_slice_def notif_from_slice_def malformed_entry_def entry_id_def BatchEntryErr_new_def
      Response_new_def batch_item_ok_def)

lemma malformed_batch_text:
  assumes "compact_emitter emit" "xs \<noteq> []" "\<forall>x \<in> set xs. malformed_entry de x" "\<forall>t. valid (''['' @ t @ '']'')"
  shows "\<exists>rp. RpcService_batch emit valid s (Batch_from (map (parse_batch_entry de ext) xs)) w = (Done rp, w) \<and>
    mr_json rp = (let text = invalid_batch_text emit (map (entry_id de) xs); n = rs_max_response_body_size s
      in if length text \<le> n then text else batch_response_too_large_text n)"
proof -
  let ?n = "rs_max_response_body_size s" and ?es = "map (parse_batch_entry de ext) xs"
  let ?rs = "map (\<lambda>x. MethodResponse_error emit (entry_id de x) (ErrorObject_from InvalidRequest)) xs"
  note rs = malformed_responses [OF assms(3)]
  have js: "''['' @ join_comma (map mr_json ?rs) @ '']'' = invalid_batch_text emit (map (entry_id de) xs)"
    by (simp add: invalid_batch_text_def invalid_batch_loop_eq MethodResponse_error_def error_code_texts [OF assms(1)] comp_def)
  have ok: "\<forall>e \<in> set (bt_inner (Batch_from ?es)). batch_item_ok e" "entry_responses emit s (bt_inner (Batch_from ?es)) w = (?rs, w)"
    using rs by (simp_all add: Batch_from_def)
  show ?thesis
  proof (cases "length (invalid_batch_text emit (map (entry_id de) xs)) \<le> ?n")
    case True
    have "valid (''['' @ join_comma (map mr_json ?rs) @ '']'')" using assms(4) by blast
    note fits = service_batch_fits [OF ok, of valid, unfolded js, OF _ True this [unfolded js]]
    from assms(2) True show ?thesis by (simp add: fits MethodResponse_from_batch_def)
  next
    case False
    have "length (join_comma (map mr_json ?rs)) + 1 = sum_list (map (\<lambda>r. length (mr_json r) + 1) ?rs)"
      using assms(2) by (intro length_join_comma) simp
    moreover have "\<not> length (''['' @ join_comma (map mr_json ?rs) @ '']'') \<le> ?n" using False unfolding js .
    ultimately have "\<not> 1 + sum_list (map (\<lambda>r. length (mr_json r) + 1) ?rs) \<le> ?n" by simp
    with assms(2) have "append_all emit ?rs (new_with_limit ?n) = Inl (MethodResponse_error emit Null (reject_too_big_batch_response emit ?n))"
      unfolding append_all_total by (simp add: new_with_limit_def)
    with ok(2) have "append_all emit (fst (entry_responses emit s (bt_inner (Batch_from ?es)) w)) (new_with_limit ?n) =
        Inl (MethodResponse_error emit Null (reject_too_big_batch_response emit ?n))" by simp
    from service_batch_loop_full [OF ok(1) this, of False] obtain k where "service_batch_loop emit s (bt_inner (Batch_from ?es)) (new_with_limit ?n) False w =
        (Inl (Done (MethodResponse_error emit Null (reject_too_big_batch_response emit ?n))),
         snd (entry_responses emit s (take (Suc k) (bt_inner (Batch_from ?es))) w))" by blast
    moreover have "\<forall>x \<in> set (take (Suc k) xs). malformed_entry de x" using assms(3) by (meson in_set_takeD)
    note malformed_responses(1) [OF this, of emit s ext w]
    then have "snd (entry_responses emit s (take (Suc k) (bt_inner (Batch_from ?es))) w) = w"
      unfolding Batch_from_def by (simp only: Batch.simps take_map snd_conv)
    ultimately have "RpcService_batch emit valid s (Batch_from ?es) w = (Done (MethodResponse_error emit Null (reject_too_big_batch_response emit ?n)), w)"
      unfolding RpcService_batch_def by simp
    with False show ?thesis by (simp add: MethodResponse_error_def limit_texts [OF assms(1)])
  qed
qed

text \<open>What the dispatch answers to a text that the service never sees.\<close>

lemma refused_texts:
  assumes "compact_emitter emit"
  shows "malformed_entry de body \<Longrightarrow> \<exists>rp. handle_rpc_call emit de body True cfg svc ext w = (Done rp, w) \<and>
      mr_json rp = (case de_invalid de body of Some r \<Rightarrow> invalid_request_text emit (ivr_id r) | None \<Rightarrow> parse_error_text emit Null)"
    "\<exists>rp. handle_rpc_call emit de body False BatchDisabled svc ext w = (Done rp, w) \<and> mr_json rp = batches_not_supported_text"
    "de_array de body = None \<Longrightarrow> cfg \<noteq> BatchDisabled \<Longrightarrow>
      \<exists>rp. handle_rpc_call emit de body False cfg svc ext w = (Done rp, w) \<and> mr_json rp = parse_error_text emit Null"
    "de_array de body = Some xs \<Longrightarrow> length xs > unat n \<Longrightarrow>
      \<exists>rp. handle_rpc_call emit de body False (BatchLimit n) svc ext w = (Done rp, w) \<and> mr_json rp = batches_too_large_text (unat n)"
  by (auto simp: handle_rpc_call_def malformed_entry_def call_from_slice_def notif_from_slice_def prepare_error_def MethodResponse_error_def
      error_code_texts [OF assms] limit_texts [OF assms] split: option.split BatchRequestConfig.split)

lemma http_refused_texts:
  assumes "compact_emitter emit" "hr_method request = ''POST''" "content_type_is_json request"
    and "read_body limited (hr_headers request) (hr_body request) max_size = Inl e"
  shows "\<exists>rp. call_with_service emit limited de request cfg max_size svc w = (Done rp, w) \<and>
    hp_body rp = (case e of TooLarge \<Rightarrow> oversized_request_text max_size | Malformed \<Rightarrow> parse_error_text emit Null | Stream \<Rightarrow> internal_error_text emit Null)"
  using assms(2-4)
  by (simp add: call_with_service_def too_large_def malformed_def internal_error_def from_template_def error_code_texts [OF assms(1)]
      limit_texts [OF assms(1)] split: HttpError.split)

lemma unknown_method_text:
  assumes "compact_emitter emit" "callbacks (rs_methods s) (req_method req) = None"
  shows "\<exists>rp. RpcService_call emit s req w = (rp, w) \<and> mr_json rp = method_not_found_text emit (req_id req)"
  using assms(2)
  by (simp add: RpcService_call_def method_with_name_def with_extensions_def MethodResponse_error_def error_code_texts [OF assms(1)] Let_def)

text \<open>The two texts of a subscription, with the identifier that the helpers have built in.\<close>

definition helper_subscription_id :: SubscriptionId where
  "helper_subscription_id = SubStr ''D3wwzU6vvoUUYehv4qoFzq42DZnLoAETeFzeyk8swH4o''"

lemma subscription_texts:
  assumes "compact_emitter emit"
  shows "mr_json (subscription_response emit SubscriptionId_serialize i \<lparr>pl_inner = Success helper_subscription_id, pl_on_exit = None\<rparr> n) =
      (let text = server_subscription_id_response_text emit i in if length text \<le> n then text else oversized_response_text emit i n)"
    "unescaped meth \<Longrightarrow>
      sub_message_to_json emit (NeedsData (expect_raw emit v)) helper_subscription_id meth = server_subscription_response_text emit meth v"
proof -
  have "expect_raw emit (SubscriptionId_serialize helper_subscription_id) = ''\"D3wwzU6vvoUUYehv4qoFzq42DZnLoAETeFzeyk8swH4o\"''"
    by (simp add: compact_texts [OF assms(1)] helper_subscription_id_def json_string_def escape_char_def char_eval)
  then have ok: "ok_response_text emit (expect_raw emit (SubscriptionId_serialize helper_subscription_id)) i = server_subscription_id_response_text emit i"
    by (simp add: ok_response_text_def server_subscription_id_response_text_def)
  show "mr_json (subscription_response emit SubscriptionId_serialize i \<lparr>pl_inner = Success helper_subscription_id, pl_on_exit = None\<rparr> n) =
      (let text = server_subscription_id_response_text emit i in if length text \<le> n then text else oversized_response_text emit i n)"
    using response_text [OF assms(1), of SubscriptionId_serialize i "\<lparr>pl_inner = Success helper_subscription_id, pl_on_exit = None\<rparr>" n] ok
    by (simp add: subscription_response_def)
  assume "unescaped meth"
  then show "sub_message_to_json emit (NeedsData (expect_raw emit v)) helper_subscription_id meth = server_subscription_response_text emit meth v"
    by (simp add: sub_message_to_json_def sub_message_json_def server_subscription_response_text_def compact_texts [OF assms(1)]
        unescaped_concat helper_subscription_id_def json_eval)
qed

section \<open>Properties\<close>



end
