(* ===== verification/Mock_Server.thy ===== *)
theory Mock_Server
  imports Ws_Exchange
begin

text \<open>
  The doubles that the tests of the WebSocket client and server talk to (\<open>test-utils/src/mocks.rs\<close>): a server with hard-coded
  answers, a server that only redirects, and a client that sends any text. The test \<open>redirections\<close> of the WebSocket client
  is a property for all paths, answers and limits.
\<close>

section \<open>The test client\<close>

datatype WebSocketTestError = TestRedirect | RejectedWithStatusCode nat | TestSoketto string

definition WebSocketTestError_from :: "string \<Rightarrow> WebSocketTestError" where
  "WebSocketTestError_from io = TestSoketto io"

text \<open>\<open>WebSocketTestClient\<close> on a state \<open>'s\<close> of its socket: what it sends with, and what \<open>receive_data\<close> yields.\<close>

record 's WebSocketTestClient =
  tc_tx :: "'s ws_sender_ops"
  tc_send_binary :: "string \<Rightarrow> 's \<Rightarrow> (unit, SokettoError) result \<times> 's"
  tc_rx :: "'s \<Rightarrow> (string, SokettoError) result \<times> 's"
  tc_utf8 :: "string \<Rightarrow> bool"

datatype test_error = TestConnection SokettoError | TestUtf8

definition WebSocketTestClient_new ::
  "('d, string) result \<Rightarrow> ('d \<Rightarrow> (ServerResponse, string) result) \<Rightarrow> ('d, WebSocketTestError) result" where
  "WebSocketTestClient_new socket handshake = (case socket of
       Inl e \<Rightarrow> Err (WebSocketTestError_from e)
     | Inr d \<Rightarrow> (case handshake d of
         Inr Accepted \<Rightarrow> Ok d
       | Inr (Redirect _ _) \<Rightarrow> Err TestRedirect
       | Inr (Rejected status_code) \<Rightarrow> Err (RejectedWithStatusCode status_code)
       | Inl e \<Rightarrow> Err (TestSoketto e)))"

definition test_send :: "'s WebSocketTestClient \<Rightarrow> string \<Rightarrow> 's \<Rightarrow> (unit, test_error) result \<times> 's" where
  "test_send c msg s = (case send_and_flush (tc_tx c) msg s of (Inl e, s') \<Rightarrow> (Err (TestConnection e), s') | (Inr _, s') \<Rightarrow> (Ok (), s'))"

definition test_receive :: "'s WebSocketTestClient \<Rightarrow> 's \<Rightarrow> (string, test_error) result \<times> 's" where
  "test_receive c s = (case tc_rx c s of
       (Inl e, s') \<Rightarrow> (Err (TestConnection e), s')
     | (Inr data, s') \<Rightarrow> (if tc_utf8 c data then Ok data else Err TestUtf8, s'))"

definition send_request_text :: "'s WebSocketTestClient \<Rightarrow> string \<Rightarrow> 's \<Rightarrow> (string, test_error) result \<times> 's" where
  "send_request_text c msg s = (case test_send c msg s of (Inl e, s') \<Rightarrow> (Err e, s') | (Inr _, s') \<Rightarrow> test_receive c s')"

definition send_request_binary :: "'s WebSocketTestClient \<Rightarrow> string \<Rightarrow> 's \<Rightarrow> (string, test_error) result \<times> 's" where
  "send_request_binary c msg s = (case tc_send_binary c msg s of
       (Inl e, s') \<Rightarrow> (Err (TestConnection e), s')
     | (Inr _, s') \<Rightarrow> (case wo_flush (tc_tx c) s' of
         (Inl e, s'') \<Rightarrow> (Err (TestConnection e), s'')
       | (Inr _, s'') \<Rightarrow> test_receive c s''))"

section \<open>The server with hard-coded answers\<close>

datatype ServerMode =
    ModeResponse string
  | ModeSubscription (subscription_id: string) (subscription_response: string)
  | ModeNotification string

text \<open>What the \<open>select!\<close> of \<open>connection_task\<close> sees: the timer, what was received (\<open>True\<close> for data), or the exit channel.\<close>

datatype mock_event = MockTimeOut | MockWs bool | MockExit

definition mock_answer :: "ServerMode \<Rightarrow> mock_event \<Rightarrow> string option" where
  "mock_answer mode ev = (case (ev, mode) of
       (MockTimeOut, ModeSubscription _ r) \<Rightarrow> Some r
     | (MockTimeOut, ModeNotification n) \<Rightarrow> Some n
     | (MockWs True, ModeResponse r) \<Rightarrow> Some r
     | (MockWs True, ModeSubscription i _) \<Rightarrow> Some i
     | _ \<Rightarrow> None)"

text \<open>The loop: whether it is still running after the events, and the socket.\<close>

fun mock_loop :: "'s ws_sender_ops \<Rightarrow> ServerMode \<Rightarrow> mock_event list \<Rightarrow> 's \<Rightarrow> bool \<times> 's" where
  "mock_loop ops mode [] s = (True, s)"
| "mock_loop ops mode (ev # evs) s =
     (if ev = MockExit \<or> ev = MockWs False then (False, s)
      else case mock_answer mode ev of
        None \<Rightarrow> mock_loop ops mode evs s
      | Some m \<Rightarrow> (case wo_send_text ops m s of
          (Inl _, s') \<Rightarrow> (False, s')
        | (Inr _, s') \<Rightarrow> mock_loop ops mode evs s'))"

text \<open>\<open>connection_task\<close>: \<open>request\<close> and \<open>accept\<close> tell whether the handshake was received and answered.\<close>

definition mock_connection_task :: "'s ws_sender_ops \<Rightarrow> bool \<Rightarrow> bool \<Rightarrow> ServerMode \<Rightarrow> mock_event list \<Rightarrow> 's \<Rightarrow> bool \<times> 's" where
  "mock_connection_task ops request accept mode evs s = (if \<not> request \<or> \<not> accept then (False, s) else mock_loop ops mode evs s)"

text \<open>
  \<open>server_backend\<close>: each accepted stream gets a task; at the exit every task is told to end. \<open>alive k\<close> is whether the task
  of the stream \<open>k\<close> still has the receiver of its exit channel at that time; if not, \<open>expect\<close> panics.
\<close>

datatype 'c backend_event = BackendExit | BackendConn "'c option"

fun server_backend_loop :: "'c backend_event list \<Rightarrow> 'c list \<Rightarrow> 'c list option" where
  "server_backend_loop [] connections = None"
| "server_backend_loop (BackendExit # evs) connections = Some connections"
| "server_backend_loop (BackendConn c # evs) connections =
     server_backend_loop evs (case c of None \<Rightarrow> connections | Some k \<Rightarrow> connections @ [k])"

definition server_backend :: "('c \<Rightarrow> bool) \<Rightarrow> 'c backend_event list \<Rightarrow> unit outcome option" where
  "server_backend alive evs = map_option (\<lambda>cs. if list_all alive cs then Done () else Panicked) (server_backend_loop evs [])"

section \<open>The server that redirects\<close>

text \<open>\<open>req.uri().path()\<close> of the path and query that was requested.\<close>

definition uri_path :: "string \<Rightarrow> string" where
  "uri_path path_and_query = takeWhile (\<lambda>c. c \<noteq> CHR ''?'') path_and_query"

definition redirect_handler :: "string \<Rightarrow> bool \<Rightarrow> string \<Rightarrow> ServerResponse outcome" where
  "redirect_handler other_server is_upgrade path_and_query =
     (let path = uri_path path_and_query in if is_upgrade then Done (Redirect 301
        (if path = ''/myblock/two'' then other_server else if path = ''/myblock/one'' then ''two'' else ''/myblock/one''))
      else Panicked)"

section \<open>Lemmas\<close>

text \<open>The redirections from a path on, and the servers and paths that a client meets.\<close>

definition redirect_targets :: "Target \<Rightarrow> 'a \<Rightarrow> (Target \<times> 'a) list" where
  "redirect_targets t a =
     (let one = (t\<lparr>tg_path_and_query := ''/myblock/one''\<rparr>, a); two = (t\<lparr>tg_path_and_query := ''/myblock/two''\<rparr>, a); path = uri_path (tg_path_and_query t)
      in if path = ''/myblock/two'' then [(t, a)] else if path = ''/myblock/one'' then [(t, a), (t\<lparr>tg_path_and_query := ''/myblock/two''\<rparr>, a)]
      else [(t, a), one, two])"

text \<open>A network in which the address \<open>a\<close> is that of the redirecting server, and \<open>other\<close> leads to a server that accepts.\<close>

definition redirecting ::
  "('u, 'a, 'd, 'k, 'n) ws_net \<Rightarrow> 'k WsTransportClientBuilder \<Rightarrow> string \<Rightarrow> Target \<Rightarrow> 'a \<Rightarrow> Target \<Rightarrow> 'a \<Rightarrow> bool" where
  "redirecting net b other t a t' a' \<longleftrightarrow> tg_mode t = Plain \<and> server_reached net b a \<and>
     (\<forall>path r. redirect_handler other True path = Done r \<longrightarrow> server_answers net b (t\<lparr>tg_path_and_query := path\<rparr>) r) \<and>
     url_parse (wn_url net) ''/myblock/one'' = Inl RelativeUrlWithoutBase \<and> url_parse (wn_url net) ''two'' = Inl RelativeUrlWithoutBase \<and>
     (\<exists>uri. url_parse (wn_url net) other = Inr uri \<and> wn_socket_addrs net uri = Inr [a'] \<and>
        Target_try_from (wn_url net) (wn_headers net) (wn_tls net) uri = Inr t') \<and>
     tg_mode t' = Plain \<and> server_reached net b a' \<and> server_answers net b t' Accepted"

lemma handler_answers:
  assumes "redirecting net b other t a t' a'"
  shows "uri_path (tg_path_and_query t) = ''/myblock/two'' \<Longrightarrow> server_answers net b t (Redirect 301 other)"
    "uri_path (tg_path_and_query t) = ''/myblock/one'' \<Longrightarrow> server_answers net b t (Redirect 301 ''two'')"
    "uri_path (tg_path_and_query t) \<noteq> ''/myblock/two'' \<Longrightarrow> uri_path (tg_path_and_query t) \<noteq> ''/myblock/one'' \<Longrightarrow>
       server_answers net b t (Redirect 301 ''/myblock/one'')"
proof -
  have "server_answers net b t r" if "redirect_handler other True (tg_path_and_query t) = Done r" for r
    using assms that unfolding redirecting_def by (metis Target.surjective Target.update_convs(4))
  then show "uri_path (tg_path_and_query t) = ''/myblock/two'' \<Longrightarrow> server_answers net b t (Redirect 301 other)"
    "uri_path (tg_path_and_query t) = ''/myblock/one'' \<Longrightarrow> server_answers net b t (Redirect 301 ''two'')"
    "uri_path (tg_path_and_query t) \<noteq> ''/myblock/two'' \<Longrightarrow> uri_path (tg_path_and_query t) \<noteq> ''/myblock/one'' \<Longrightarrow>
       server_answers net b t (Redirect 301 ''/myblock/one'')"
    by (simp_all add: redirect_handler_def Let_def)
qed

lemma redirecting_path:
  assumes "redirecting net b other t a t' a'"
  shows "redirecting net b other (t\<lparr>tg_path_and_query := path\<rparr>) a t' a'"
  using assms by (simp add: redirecting_def)

lemma relative_redirects:
  assumes "redirecting net b other t a t' a'"
  shows "redirect_to net t a ''/myblock/one'' (t\<lparr>tg_path_and_query := ''/myblock/one''\<rparr>) a"
    "redirect_to net (t\<lparr>tg_path_and_query := ''/myblock/one''\<rparr>) a ''two'' (t\<lparr>tg_path_and_query := ''/myblock/two''\<rparr>) a"
    "redirect_to net t a other t' a'"
  using assms by (auto simp: redirecting_def redirect_to_def relative_path_def)

lemma redirecting_chain:
  assumes "redirecting net b other t a t' a'" "CHR ''?'' \<notin> set (tg_path_and_query t)"
  shows "redirect_chain net b (redirect_targets t a @ [(t', a')])"
proof -
  have p: "uri_path (tg_path_and_query t) = tg_path_and_query t" using assms(2) unfolding uri_path_def by (simp add: takeWhile_eq_all_conv) metis
  let ?one = "t\<lparr>tg_path_and_query := ''/myblock/one''\<rparr>" and ?two = "t\<lparr>tg_path_and_query := ''/myblock/two''\<rparr>"
  have r: "tg_mode t = Plain" "server_reached net b a" and last: "redirect_chain net b [(t', a')]"
    using assms(1) by (simp_all add: redirecting_def)
  have two: "redirect_chain net b [(?two, a), (t', a')]"
    using r last handler_answers(1) [OF redirecting_path [OF assms(1)], of "''/myblock/two''"]
      relative_redirects(3) [OF redirecting_path [OF assms(1)], of "''/myblock/two''"] by (auto simp: uri_path_def)
  then have one: "redirect_chain net b [(?one, a), (?two, a), (t', a')]"
    using r handler_answers(2) [OF redirecting_path [OF assms(1)], of "''/myblock/one''"] relative_redirects(2) [OF assms(1)]
    by (auto simp: uri_path_def)
  consider (two) "tg_path_and_query t = ''/myblock/two''" | (one) "tg_path_and_query t = ''/myblock/one''"
    | (other) "tg_path_and_query t \<noteq> ''/myblock/two''" "tg_path_and_query t \<noteq> ''/myblock/one''" by blast
  then show ?thesis
  proof cases
    case two
    then have "?two = t" by (metis Target.surjective Target.update_convs(4))
    with two \<open>redirect_chain net b [(?two, a), (t', a')]\<close> p show ?thesis by (simp add: redirect_targets_def)
  next
    case one
    then have "?one = t" by (metis Target.surjective Target.update_convs(4))
    with one \<open>redirect_chain net b [(?one, a), (?two, a), (t', a')]\<close> p show ?thesis by (simp add: redirect_targets_def)
  next
    case other
    then have h: "server_answers net b t (Redirect 301 ''/myblock/one'')" using handler_answers(3) [OF assms(1)] p by simp
    have "redirect_targets t a @ [(t', a')] = (t, a) # (?one, a) # [(?two, a), (t', a')]"
      using other p by (simp add: redirect_targets_def Let_def)
    moreover have "redirect_chain net b ((t, a) # (?one, a) # [(?two, a), (t', a')])"
      unfolding redirect_chain.simps(3) [of net b t a ?one a] by (rule conjI exI h r one relative_redirects(1) [OF assms(1)])+
    ultimately show ?thesis by simp
  qed
qed

text \<open>What the server with hard-coded answers writes while its socket works: one text per message or tick, until its end.\<close>

definition mock_ends :: "mock_event \<Rightarrow> bool" where
  "mock_ends ev \<longleftrightarrow> ev = MockExit \<or> ev = MockWs False"

lemma mock_loop_writes:
  "mock_loop log_ops mode evs s =
     (list_all (\<lambda>ev. \<not> mock_ends ev) evs, s @ List.map_filter (mock_answer mode) (takeWhile (\<lambda>ev. \<not> mock_ends ev) evs))"
  by (induction evs arbitrary: s) (auto simp: mock_ends_def log_ops_def List.map_filter_simps split: option.split)

text \<open>Closing the server panics when a client has closed its established connection before.\<close>

lemma backend_panics_after_disconnect:
  "server_backend (\<lambda>k. fst (mock_connection_task log_ops True True mode [MockWs True, MockWs False] [])) [BackendConn (Some k), BackendExit] =
     Some Panicked"
  by (simp add: server_backend_def mock_connection_task_def mock_loop_writes mock_ends_def del: mock_loop.simps)

section \<open>Properties\<close>

text \<open>C32. The test \<open>redirections\<close> of the WebSocket client, for every path, answer and limit: a client that is sent to the redirecting test
  server is connected to the other server exactly when its limit is above the number of redirections of the path, which are three at most;
  and a call over a connection to the test server with a hard-coded answer returns the result or the error of that answer.\<close>

theorem redirections_test:
  assumes "redirecting net b other t a t' a'" and "CHR ''?'' \<notin> set (tg_path_and_query t)"
    and "Target_try_from (wn_url net) (wn_headers net) (wn_tls net) uri = Inr t" and "wn_socket_addrs net uri = Inr [a]"
    and "wo_send_text ops answer s = (Inr (), s')"
    and "is_connected c" and "\<not> bg_read_done (cli_background c)" and "\<not> bg_panicked (cli_background c)" and "bg_queue (cli_background c) = []"
    and "next_request_id (cli_id_manager c) = (i, im)" and "requests (cl_manager (bg_client (cli_background c))) i = None"
    and "to_raw_value (ce_emit env) (Request_serialize (Request_borrowed name ps i)) = Some raw"
    and "answer \<noteq> []" and "hd answer = CHR ''{''" and "ce_de_response env answer = Some rp" and "rp_id rp = i"
  shows "((\<exists>h. fst (try_connect_over_tcp net b uri n) = Inr h) \<longleftrightarrow> length (redirect_targets t a) < wb_max_redirections b) \<and>
    length (redirect_targets t a) \<in> {1, 2, 3} \<and>
    mock_connection_task ops True True (ModeResponse answer) [MockWs True] s = (True, s') \<and>
    (\<exists>req c1 b1. Client_request_start (ce_emit env) False tx name (Inr ps) c = (Inr req, c1) \<and> bg_step env (cli_background c1) b1 \<and>
      bg_to_server b1 = bg_to_server (cli_background c) @ [raw] \<and> bg_step env b1 (read_task_message env now (Inr (Text answer)) b1) \<and>
      cl_outbox (bg_client (read_task_message env now (Inr (Text answer)) b1)) =
        cl_outbox (bg_client (cli_background c)) @ [ToCall tx (Inr rp)] \<and>
      Client_request_finish de_t req (Left (Some (Inr rp))) c1 = (case rp_payload rp of
          Success v \<Rightarrow> (case de_t v of Inr x \<Rightarrow> Inr x | Inl e \<Rightarrow> Inl (EParseError e)) | RpError e \<Rightarrow> Inl (ECall e)))"
proof -
  obtain rest where hops: "redirect_targets t a @ [(t', a')] = (t, a) # rest"
    by (rule that [of "tl (redirect_targets t a @ [(t', a')])"]) (simp add: redirect_targets_def Let_def)
  have "tg_mode t = Plain" using assms(1) by (simp add: redirecting_def)
  with assms(3,4) redirect_loop_chain [OF redirecting_chain [OF assms(1,2)] hops,
      of "\<lparr>rd_target = t, rd_err = None, rd_connector = None, rd_addrs = [a]\<rparr>" "wb_max_redirections b" n]
  have "(\<exists>h. fst (try_connect_over_tcp net b uri n) = Inr h) \<longleftrightarrow> length (redirect_targets t a) < wb_max_redirections b"
    by (auto simp: try_connect_over_tcp_def tls_connector_def split: if_splits)
  moreover have "length (redirect_targets t a) \<in> {1, 2, 3}" by (simp add: redirect_targets_def Let_def)
  moreover have "mock_connection_task ops True True (ModeResponse answer) [MockWs True] s = (True, s')"
    using assms(5) by (simp add: mock_connection_task_def mock_answer_def)
  ultimately show ?thesis using call_answered [OF assms(6-16)] by blast
qed

text \<open>The redirecting server is the host \<open>r\<close>, the other one the host \<open>o\<close>.\<close>

definition example_redirect_net :: "(string, string, unit, unit, nat) ws_net" where
  "example_redirect_net = example_net\<lparr>wn_url := (wn_url example_net)\<lparr>url_parse := (\<lambda>l.
       if l = ''two'' \<or> hd l = CHR ''/'' then Inl RelativeUrlWithoutBase else Inr l)\<rparr>,
     wn_handshake := (\<lambda>_ host path _ n. (Inr (if host = ''r'' then (case redirect_handler ''o'' True path of Done r \<Rightarrow> r | Panicked \<Rightarrow> Rejected 500)
       else Accepted), n))\<rparr>"

lemma example_redirecting:
  "redirecting example_redirect_net b ''o'' (example_target ''r'') ''r'' (example_target ''o'') ''o''"
  by (simp add: redirecting_def example_redirect_net_def example_net_def example_target_def server_reached_def server_answers_def
      example_url_def Target_try_from_def target_mode_def)

theorem redirections_test_witness:
  "(\<exists>h. fst (try_connect_over_tcp example_redirect_net WsTransportClientBuilder_default ''r'' 0) = Inr h) \<and>
   \<not> (\<exists>h. fst (try_connect_over_tcp example_redirect_net (WsTransportClientBuilder_default\<lparr>wb_max_redirections := 3\<rparr>) ''r'' 0) = Inr h)"
proof -
  let ?b = "\<lambda>n. WsTransportClientBuilder_default\<lparr>wb_max_redirections := n\<rparr>" and ?t = "example_target ''r''" and ?answer = "''{\"jsonrpc\":\"2.0\",\"id\":0,\"result\":7}''"
  let ?raw = "json_text (Request_serialize (Request_borrowed ''m'' None (Number 0)))"
  have q: "CHR ''?'' \<notin> set (tg_path_and_query ?t)" by (simp add: example_target_def)
  have t: "Target_try_from (wn_url example_redirect_net) (wn_headers example_redirect_net) (wn_tls example_redirect_net) ''r'' = Inr ?t"
    "wn_socket_addrs example_redirect_net ''r'' = Inr [''r'']"
    by (simp_all add: example_redirect_net_def example_net_def example_url_def Target_try_from_def target_mode_def example_target_def)
  have s: "wo_send_text log_ops ?answer [] = (Inr (), [?answer])" by (simp add: log_ops_def)
  have c: "is_connected example_ws_client" "\<not> bg_read_done (cli_background example_ws_client)"
    "\<not> bg_panicked (cli_background example_ws_client)" "bg_queue (cli_background example_ws_client) = []"
    "next_request_id (cli_id_manager example_ws_client) = (Number 0, \<lparr>current_id = 1, id_kind = IdNumber\<rparr>)"
    "requests (cl_manager (bg_client (cli_background example_ws_client))) (Number 0) = None"
    by (simp_all add: example_ws_client_def Client_new_def is_connected_def bg_new_def client_new_def RequestManager_new_def next_request_id_def
        RequestIdManager_new_def CurrentId_next_def)
  have m: "to_raw_value (ce_emit example_ws_env) (Request_serialize (Request_borrowed ''m'' None (Number 0))) = Some ?raw" "?answer \<noteq> []"
    "hd ?answer = CHR ''{''" "ce_de_response example_ws_env ?answer = Some (Response_new (Success ''7'') (Number 0))"
    "rp_id (Response_new (Success ''7'') (Number 0)) = Number 0"
    by (simp_all add: example_ws_env_def to_raw_value_def json_emit_def Response_new_def)
  note test = redirections_test [OF example_redirecting q t s c m, THEN conjunct1]
  have "length (redirect_targets ?t ''r'') = 3" by (simp add: redirect_targets_def example_target_def uri_path_def Let_def)
  with test [of WsTransportClientBuilder_default 0] test [of "?b 3" 0] show ?thesis by (simp add: WsTransportClientBuilder_default_def)
qed

end
