(* ===== verification/Client_Polling.thy ===== *)
theory Client_Polling
  imports Async_Client
begin

text \<open>
  \<open>core/src/client/async_client/utils.rs\<close> and the \<open>select!\<close> loops of \<open>send_task\<close> and \<open>read_task\<close>: which of the
  events of a turn is taken, and what a task leaves behind when it goes to sleep. \<open>Async_Client\<close> has the
  tasks as the relation \<open>bg_step\<close>, in which a message of the read task simply waits for room in the
  queue; here these messages are futures in a \<open>MaybePendingFutures\<close>, and each turn is shown to be a step.

  \<open>FuturesUnordered\<close> of \<open>futures_util\<close> is a parameter on an abstract state, and polling a future can change
  the state \<open>'q\<close> it works on. A waker is a number.
\<close>

section \<open>Streams (utils.rs)\<close>

type_synonym waker = nat

datatype 's ClientIntervalStream = ClientIntervalStream "'s option"

definition ClientIntervalStream_pending :: "'s ClientIntervalStream" where
  "ClientIntervalStream_pending = ClientIntervalStream None"

definition ClientIntervalStream_new :: "'s \<Rightarrow> 's ClientIntervalStream" where
  "ClientIntervalStream_new s = ClientIntervalStream (Some s)"

text \<open>\<open>poll\<close> is \<open>poll_next\<close> of the stream inside.\<close>

fun ClientIntervalStream_poll_next ::
  "(waker \<Rightarrow> 's \<Rightarrow> 'i option poll \<times> 's) \<Rightarrow> waker \<Rightarrow> 's ClientIntervalStream \<Rightarrow> unit option poll \<times> 's ClientIntervalStream" where
  "ClientIntervalStream_poll_next poll wk (ClientIntervalStream (Some s)) = (case poll wk s of
       (Pending, s') \<Rightarrow> (Pending, ClientIntervalStream (Some s'))
     | (Ready (Some _), s') \<Rightarrow> (Ready (Some ()), ClientIntervalStream (Some s'))
     | (Ready None, s') \<Rightarrow> (Ready None, ClientIntervalStream (Some s')))"
| "ClientIntervalStream_poll_next poll wk (ClientIntervalStream None) = (Pending, ClientIntervalStream None)"

record ('f, 'v, 's, 'q) futures_ops =
  fu_new :: 's
  fu_push :: "'f \<Rightarrow> 's \<Rightarrow> 's"
  fu_is_empty :: "'s \<Rightarrow> bool"
  fu_poll_next :: "waker \<Rightarrow> 's \<Rightarrow> 'q \<Rightarrow> 'v option poll \<times> 's \<times> 'q"

record 's MaybePendingFutures =
  mp_futs :: 's
  mp_waker :: "waker option"

definition MaybePendingFutures_new :: "('f, 'v, 's, 'q) futures_ops \<Rightarrow> 's MaybePendingFutures" where
  "MaybePendingFutures_new ops = \<lparr>mp_futs = fu_new ops, mp_waker = None\<rparr>"

text \<open>\<open>push\<close>; the first component is the waker that is woken.\<close>

definition MaybePendingFutures_push ::
  "('f, 'v, 's, 'q) futures_ops \<Rightarrow> 'f \<Rightarrow> 's MaybePendingFutures \<Rightarrow> waker option \<times> 's MaybePendingFutures" where
  "MaybePendingFutures_push ops fut m =
     (let m1 = m\<lparr>mp_futs := fu_push ops fut (mp_futs m)\<rparr> in
      case mp_waker m1 of
        Some w \<Rightarrow> (Some w, m1\<lparr>mp_waker := None\<rparr>)
      | None \<Rightarrow> (None, m1))"

definition MaybePendingFutures_poll_next ::
  "('f, 'v, 's, 'q) futures_ops \<Rightarrow> waker \<Rightarrow> 's MaybePendingFutures \<Rightarrow> 'q \<Rightarrow> 'v option poll \<times> 's MaybePendingFutures \<times> 'q" where
  "MaybePendingFutures_poll_next ops wk m q =
     (if fu_is_empty ops (mp_futs m) then (Pending, m\<lparr>mp_waker := Some wk\<rparr>, q)
      else (case fu_poll_next ops wk (mp_futs m) q of (r, futs, q') \<Rightarrow> (r, m\<lparr>mp_futs := futs\<rparr>, q')))"

section \<open>The loops of the tasks (mod.rs)\<close>

text \<open>\<open>backend_event\<close>: the stream made of the transport's \<open>receive\<close> has no end.\<close>

definition backend_event :: "'m poll \<Rightarrow> 'm option poll" where
  "backend_event p = (case p of Pending \<Rightarrow> Pending | Ready res \<Rightarrow> Ready (Some res))"

text \<open>
  \<open>rl_unsubscribes\<close> replaces \<open>bg_to_send\<close> of the background. A turn is one evaluation of \<open>select!\<close>, which polls
  its arms in order (\<open>biased\<close>) until one is ready.
\<close>

record ('c, 's, 'i) read_loop =
  rl_background :: "'c background"
  rl_unsubscribes :: "'s MaybePendingFutures"
  rl_inactivity :: "'i ClientIntervalStream"

datatype turn = Slept | Continues | Ended

fun push_messages ::
  "(FrontToBack, 'v, 's, 'q) futures_ops \<Rightarrow> FrontToBack list \<Rightarrow> 's MaybePendingFutures \<Rightarrow> 's MaybePendingFutures" where
  "push_messages ops [] m = m"
| "push_messages ops (msg # msgs) m = push_messages ops msgs (snd (MaybePendingFutures_push ops msg m))"

definition read_task_turn ::
  "'c client_env \<Rightarrow> (FrontToBack, 'v, 's, 'c background) futures_ops \<Rightarrow> (waker \<Rightarrow> 'i \<Rightarrow> 'j option poll \<times> 'i) \<Rightarrow> waker \<Rightarrow> nat \<Rightarrow>
     bool \<Rightarrow> (ReceivedMessage, string) result option poll \<Rightarrow> ('c, 's, 'i) read_loop \<Rightarrow> turn \<times> ('c, 's, 'i) read_loop"
where
  "read_task_turn env ops poll wk now closed received l =
     (if closed then (Ended, l\<lparr>rl_background := read_task_end (Ok ()) (rl_background l)\<rparr>)
      else case MaybePendingFutures_poll_next ops wk (rl_unsubscribes l) (rl_background l) of
        (Ready _, m, b) \<Rightarrow> (Continues, l\<lparr>rl_background := b, rl_unsubscribes := m\<rparr>)
      | (Pending, m, b) \<Rightarrow> (case received of
          Ready None \<Rightarrow>
            (Ended, l\<lparr>rl_background := read_task_end (Ok ()) (b\<lparr>bg_check := mark_as_active now (bg_check b)\<rparr>), rl_unsubscribes := m\<rparr>)
        | Ready (Some msg) \<Rightarrow>
            (case handle_backend_messages env (Some msg) (bg_client b) of (res, c) \<Rightarrow>
               let b1 = b\<lparr>bg_client := c, bg_check := mark_as_active now (bg_check b)\<rparr>
               in case res of
                 Done (Inr messages) \<Rightarrow> (Continues, l\<lparr>rl_background := b1, rl_unsubscribes := push_messages ops messages m\<rparr>)
               | Done (Inl e) \<Rightarrow> (Ended, l\<lparr>rl_background := read_task_end (Err e) b1, rl_unsubscribes := m\<rparr>)
               | Panicked \<Rightarrow> (Ended, l\<lparr>rl_background := b1\<lparr>bg_panicked := True\<rparr>, rl_unsubscribes := m\<rparr>))
        | Pending \<Rightarrow> (case ClientIntervalStream_poll_next poll wk (rl_inactivity l) of
            (Pending, s) \<Rightarrow> (Slept, l\<lparr>rl_background := b, rl_unsubscribes := m, rl_inactivity := s\<rparr>)
          | (Ready _, s) \<Rightarrow> (case is_inactive now (bg_check b) of
              (True, chk) \<Rightarrow> (Ended, l\<lparr>rl_background := read_task_end (Err (ETransport ''WebSocket ping/pong inactive'')) (b\<lparr>bg_check := chk\<rparr>),
                rl_unsubscribes := m, rl_inactivity := s\<rparr>)
            | (False, chk) \<Rightarrow> (Continues, l\<lparr>rl_background := b\<lparr>bg_check := chk\<rparr>, rl_unsubscribes := m, rl_inactivity := s\<rparr>)))))"

text \<open>\<open>frontend_gone\<close> says that every sender of the queue is dropped, \<open>ping\<close> is the result of \<open>send_ping\<close>.\<close>

definition send_task_turn ::
  "'c client_env \<Rightarrow> (string \<Rightarrow> (unit, string) result) \<Rightarrow> (unit, string) result \<Rightarrow> (waker \<Rightarrow> 'i \<Rightarrow> 'j option poll \<times> 'i) \<Rightarrow> waker \<Rightarrow>
     bool \<Rightarrow> bool \<Rightarrow> 'c background \<times> 'i ClientIntervalStream \<Rightarrow> turn \<times> 'c background \<times> 'i ClientIntervalStream"
where
  "send_task_turn env send ping poll wk closed frontend_gone st = (case st of (b, intervals) \<Rightarrow>
     if closed then (Ended, send_task_end (Ok ()) b, intervals)
     else case bg_queue b of
       msg # msgs \<Rightarrow> (let b1 = send_task_message env send msg (b\<lparr>bg_queue := msgs\<rparr>) in
         (if bg_send_done b1 \<or> bg_panicked b1 then Ended else Continues, b1, intervals))
     | [] \<Rightarrow>
         if frontend_gone then (Ended, send_task_end (Ok ()) b, intervals)
         else (case ClientIntervalStream_poll_next poll wk intervals of
           (Pending, s) \<Rightarrow> (Slept, b, s)
         | (Ready _, s) \<Rightarrow> (case ping of
             Inl e \<Rightarrow> (Ended, send_task_end (Err (ETransport e)) b, s)
           | Inr _ \<Rightarrow> (Continues, b, s))))"

section \<open>Lemmas\<close>

text \<open>A task that waits for its futures: for the next push while there are none, for a future to wake it otherwise.\<close>

definition waits :: "('s \<Rightarrow> 'f list) \<Rightarrow> ('s \<Rightarrow> waker \<Rightarrow> bool) \<Rightarrow> 's MaybePendingFutures \<Rightarrow> waker \<Rightarrow> bool" where
  "waits members registered m wk \<longleftrightarrow> (if members (mp_futs m) = [] then mp_waker m = Some wk else registered (mp_futs m) wk)"

text \<open>
  What \<open>FuturesUnordered\<close> documents: it yields the result of some future that is complete, or is pending with
  the waker known to its futures, and only the empty collection is at its end. \<open>completes f q q'\<close> says that
  the future \<open>f\<close> completes and takes the state from \<open>q\<close> to \<open>q'\<close>.
\<close>

locale futures_unordered =
  fixes ops :: "('f, 'v, 's, 'q) futures_ops"
    and members :: "'s \<Rightarrow> 'f list"
    and registered :: "'s \<Rightarrow> waker \<Rightarrow> bool"
    and completes :: "'f \<Rightarrow> 'q \<Rightarrow> 'q \<Rightarrow> bool"
  assumes new_members: "members (fu_new ops) = []"
    and push_members: "members (fu_push ops f s) = members s @ [f]"
    and is_empty: "fu_is_empty ops s \<longleftrightarrow> members s = []"
    and poll_ready: "fu_poll_next ops wk s q = (Ready (Some v), s', q') \<Longrightarrow>
      \<exists>xs f ys. members s = xs @ f # ys \<and> members s' = xs @ ys \<and> completes f q q'"
    and poll_pending: "fu_poll_next ops wk s q = (Pending, s', q') \<Longrightarrow> members s' = members s \<and> q' = q \<and> registered s' wk"
    and poll_none: "fu_poll_next ops wk s q = (Ready None, s', q') \<Longrightarrow> members s = []"
begin

text \<open>The wrapper waits where the collection would end; whoever pushes then wakes the task that waits.\<close>

lemma maybe_pending_cases:
  assumes "MaybePendingFutures_poll_next ops wk m q = (r, m', q')"
  obtains (ready) v xs f ys where "r = Ready (Some v)" "members (mp_futs m) = xs @ f # ys" "members (mp_futs m') = xs @ ys" "completes f q q'"
  | (pending) "r = Pending" "members (mp_futs m') = members (mp_futs m)" "q' = q" "waits members registered m' wk"
proof (cases "members (mp_futs m) = []")
  case True
  with assms show ?thesis by (intro pending) (auto simp: MaybePendingFutures_poll_next_def is_empty waits_def)
next
  case False
  with assms obtain futs where p: "fu_poll_next ops wk (mp_futs m) q = (r, futs, q')" "m' = m\<lparr>mp_futs := futs\<rparr>"
    by (auto simp: MaybePendingFutures_poll_next_def is_empty split: prod.splits)
  show ?thesis
  proof (cases r)
    case Pending
    with poll_pending [OF p(1) [unfolded Pending]] False p(2) show ?thesis by (intro pending) (auto simp: waits_def)
  next
    case (Ready x)
    show ?thesis
    proof (cases x)
      case None
      with Ready p(1) poll_none False show ?thesis by blast
    next
      case (Some v)
      with Ready p poll_ready [of wk "mp_futs m" q v futs q'] show ?thesis by (auto intro: ready)
    qed
  qed
qed

lemma push_wakes:
  assumes "waits members registered m wk" "members (mp_futs m) = []"
  shows "fst (MaybePendingFutures_push ops f m) = Some wk \<and> fst (MaybePendingFutures_push ops g (snd (MaybePendingFutures_push ops f m))) = None"
  using assms by (simp add: waits_def MaybePendingFutures_push_def Let_def)

end

text \<open>The futures of the read task: sending a message to the queue of the send task, which may be closed.\<close>

definition sent :: "FrontToBack \<Rightarrow> 'c background \<Rightarrow> 'c background \<Rightarrow> bool" where
  "sent msg b b' \<longleftrightarrow> b' = (if bg_send_done b then b else b\<lparr>bg_queue := bg_queue b @ [msg]\<rparr>)"

definition loop_background :: "('s \<Rightarrow> FrontToBack list) \<Rightarrow> ('c, 's, 'i) read_loop \<Rightarrow> 'c background" where
  "loop_background members l = (rl_background l)\<lparr>bg_to_send := members (mp_futs (rl_unsubscribes l))\<rparr>"

text \<open>Updates of the other fields pass the update of \<open>bg_to_send\<close>.\<close>

lemma to_send_last:
  "b\<lparr>bg_to_send := x, bg_queue := q\<rparr> = b\<lparr>bg_queue := q, bg_to_send := x\<rparr>"
  "b\<lparr>bg_to_send := x, bg_client := c\<rparr> = b\<lparr>bg_client := c, bg_to_send := x\<rparr>"
  "b\<lparr>bg_to_send := x, bg_check := chk\<rparr> = b\<lparr>bg_check := chk, bg_to_send := x\<rparr>"
  "b\<lparr>bg_to_send := x, bg_panicked := p\<rparr> = b\<lparr>bg_panicked := p, bg_to_send := x\<rparr>"
  "read_task_end r (b\<lparr>bg_to_send := x\<rparr>) = (read_task_end r b)\<lparr>bg_to_send := x\<rparr>"
  by (simp_all add: read_task_end_def)

lemma read_task_end_fields [simp]:
  "bg_read_done (read_task_end r b)" "bg_to_send (read_task_end r b) = bg_to_send b"
  by (simp_all add: read_task_end_def)

locale send_futures = futures_unordered ops members registered sent
  for ops :: "(FrontToBack, 'v, 's, 'c background) futures_ops" and members :: "'s \<Rightarrow> FrontToBack list" and registered
begin

lemma push_messages_members: "members (mp_futs (push_messages ops msgs m)) = members (mp_futs m) @ msgs"
  by (induction msgs arbitrary: m) (auto simp: MaybePendingFutures_push_def push_members Let_def split: option.split)

lemma read_turn_received:
  assumes "handle_backend_messages env (Some msg) (bg_client b) = (res, c)" "\<not> bg_read_done b" "\<not> bg_panicked b"
    and "b1 = b\<lparr>bg_client := c, bg_check := mark_as_active now (bg_check b)\<rparr>"
  shows "bg_step env b (case res of Done (Inr messages) \<Rightarrow> b1\<lparr>bg_to_send := bg_to_send b @ messages\<rparr>
    | Done (Inl e) \<Rightarrow> read_task_end (Err e) b1 | Panicked \<Rightarrow> b1\<lparr>bg_panicked := True\<rparr>)"
  using bg_step.read_message [OF assms(2,3), of env now msg] unfolding assms(4) by (simp add: read_task_message_def assms(1) Let_def)

lemma read_turn_step:
  assumes "read_task_turn env ops poll wk now closed (backend_event received) l = (t, l')"
    and "\<not> bg_read_done (rl_background l)" "\<not> bg_panicked (rl_background l)"
  shows "if t = Slept then loop_background members l' = loop_background members l \<and> waits members registered (rl_unsubscribes l') wk \<and>
      \<not> closed \<and> received = Pending
    else bg_step env (loop_background members l) (loop_background members l') \<and>
      (t = Ended \<longleftrightarrow> bg_read_done (rl_background l') \<or> bg_panicked (rl_background l'))"
proof (cases closed)
  case True
  with assms bg_step.read_end [of "loop_background members l" env] show ?thesis
    by (auto simp: read_task_turn_def loop_background_def to_send_last)
next
  case not_closed: False
  obtain r m b where p: "MaybePendingFutures_poll_next ops wk (rl_unsubscribes l) (rl_background l) = (r, m, b)" by (cases "MaybePendingFutures_poll_next ops wk (rl_unsubscribes l) (rl_background l)") auto
  from p show ?thesis
  proof (cases rule: maybe_pending_cases)
    case (ready v xs f ys)
    show ?thesis
    proof (cases "bg_send_done (rl_background l)")
      case True
      with ready not_closed p assms bg_step.pending_refused [of "loop_background members l" xs f ys env] show ?thesis
        by (auto simp: read_task_turn_def loop_background_def sent_def to_send_last)
    next
      case False
      with ready not_closed p assms bg_step.pending_unsubscribe [of "loop_background members l" xs f ys env] show ?thesis
        by (auto simp: read_task_turn_def loop_background_def sent_def to_send_last)
    qed
  next
    case pending
    show ?thesis
    proof (cases received)
      case (Ready msg)
      obtain res c where h: "handle_backend_messages env (Some msg) (bg_client (rl_background l)) = (res, c)" by fastforce
      have "bg_client (loop_background members l) = bg_client (rl_background l)" by (simp add: loop_background_def)
      with read_turn_received [OF h [folded this] _ _ refl, of now] assms(2,3) not_closed p pending Ready h assms(1) show ?thesis
        by (auto simp: read_task_turn_def loop_background_def backend_event_def to_send_last push_messages_members Let_def
            split: outcome.splits sum.splits)
    next
      case Pending
      with pending not_closed p assms bg_step.read_tick [of "loop_background members l" env now] show ?thesis
        by (auto simp: read_task_turn_def loop_background_def backend_event_def read_task_tick_def to_send_last
            split: prod.splits poll.splits bool.splits)
    qed
  qed
qed

end

lemma send_turn_step:
  assumes "send_task_turn env send ping poll wk closed gone (b, intervals) = (t, b', intervals')"
    and "\<not> bg_send_done b" "\<not> bg_panicked b"
  shows "if t = Slept then b' = b \<and> bg_queue b = [] \<and> \<not> closed \<and> \<not> gone
    else ((bg_step env)\<^sup>=\<^sup>= b b' \<and> (t = Ended \<longleftrightarrow> bg_send_done b' \<or> bg_panicked b'))"
proof (cases "closed \<or> bg_queue b = []")
  case True
  with assms bg_step.send_closed [of b env] bg_step.send_ping_failed [of b env] show ?thesis
    by (auto simp: send_task_turn_def send_task_end_def split: list.splits if_splits prod.splits poll.splits sum.splits)
next
  case False
  then obtain msg msgs where "bg_queue b = msg # msgs" by (cases "bg_queue b") auto
  with False assms bg_step.send_message [of b msg msgs env send] show ?thesis
    by (auto simp: send_task_turn_def Let_def split: if_splits)
qed

text \<open>The futures of \<open>to_send_task.send\<close> on a queue with room for \<open>n\<close> messages, the first one polled first.\<close>

record send_queue =
  sq_messages :: "FrontToBack list"
  sq_waker :: "waker option"

definition send_queue_ops :: "nat \<Rightarrow> (FrontToBack, unit, send_queue, 'c background) futures_ops" where
  "send_queue_ops n = \<lparr>fu_new = \<lparr>sq_messages = [], sq_waker = None\<rparr>,
     fu_push = (\<lambda>msg s. s\<lparr>sq_messages := sq_messages s @ [msg]\<rparr>), fu_is_empty = (\<lambda>s. sq_messages s = []),
     fu_poll_next = (\<lambda>wk s b. case sq_messages s of
         [] \<Rightarrow> (Ready None, s, b)
       | msg # msgs \<Rightarrow>
           if bg_send_done b then (Ready (Some ()), s\<lparr>sq_messages := msgs\<rparr>, b)
           else if length (bg_queue b) < n then (Ready (Some ()), s\<lparr>sq_messages := msgs\<rparr>, b\<lparr>bg_queue := bg_queue b @ [msg]\<rparr>)
           else (Pending, s\<lparr>sq_waker := Some wk\<rparr>, b))\<rparr>"

interpretation send_queue: send_futures "send_queue_ops n" sq_messages "\<lambda>s wk. sq_waker s = Some wk" for n
proof unfold_locales
  fix wk s and q q' :: "'a background" and v s'
  assume "fu_poll_next (send_queue_ops n) wk s q = (Ready (Some v), s', q')"
  then show "\<exists>xs f ys. sq_messages s = xs @ f # ys \<and> sq_messages s' = xs @ ys \<and> sent f q q'"
    by (intro exI [of _ "[]"]) (auto simp: send_queue_ops_def sent_def split: list.splits if_splits)
qed (auto simp: send_queue_ops_def split: list.splits if_splits)

text \<open>A client whose two tasks take turns, in any order and with any events, while the front end queues messages.\<close>

inductive client_run ::
  "'c client_env \<Rightarrow> (FrontToBack, 'v, 's, 'c background) futures_ops \<Rightarrow> (waker \<Rightarrow> 'i \<Rightarrow> 'j option poll \<times> 'i) \<Rightarrow>
     ('c, 's, 'i) read_loop \<Rightarrow> 'i ClientIntervalStream \<Rightarrow> bool" for env ops poll where
  start: "client_run env ops poll \<lparr>rl_background = bg_new ch chk, rl_unsubscribes = MaybePendingFutures_new ops, rl_inactivity = inactivity\<rparr> pings"
| queue: "client_run env ops poll l pings \<Longrightarrow> front_ok msg \<Longrightarrow> \<not> bg_send_done (rl_background l) \<Longrightarrow>
    client_run env ops poll (l\<lparr>rl_background := (rl_background l)\<lparr>bg_queue := bg_queue (rl_background l) @ [msg]\<rparr>\<rparr>) pings"
| read: "client_run env ops poll l pings \<Longrightarrow> \<not> bg_read_done (rl_background l) \<Longrightarrow> \<not> bg_panicked (rl_background l) \<Longrightarrow>
    read_task_turn env ops poll wk now closed (backend_event received) l = (t, l') \<Longrightarrow> client_run env ops poll l' pings"
| send: "client_run env ops poll l pings \<Longrightarrow> \<not> bg_send_done (rl_background l) \<Longrightarrow> \<not> bg_panicked (rl_background l) \<Longrightarrow>
    send_task_turn env send ping poll wk closed gone (rl_background l, pings) = (t, b, pings') \<Longrightarrow>
    client_run env ops poll (l\<lparr>rl_background := b\<rparr>) pings'"

lemma send_turn_to_send:
  assumes "send_task_turn env send ping poll wk closed gone (b, pings) = (t, b', pings')"
  shows "send_task_turn env send ping poll wk closed gone (b\<lparr>bg_to_send := x\<rparr>, pings) = (t, b'\<lparr>bg_to_send := x\<rparr>, pings')"
proof -
  have "send_task_end r (c\<lparr>bg_to_send := x\<rparr>) = (send_task_end r c)\<lparr>bg_to_send := x\<rparr>" for r and c :: "'a background"
    by (simp add: send_task_end_def)
  moreover have "send_task_message env send msg (c\<lparr>bg_to_send := x\<rparr>) = (send_task_message env send msg c)\<lparr>bg_to_send := x\<rparr>" for msg and c :: "'a background"
    by (auto simp: send_task_message_def send_task_end_def Let_def split: prod.splits outcome.splits sum.splits)
  ultimately show ?thesis using assms
    by (auto simp: send_task_turn_def to_send_last Let_def split: list.splits if_splits prod.splits poll.splits sum.splits)
qed

lemma client_run_reachable:
  assumes "send_futures ops members registered" "client_run env ops poll l pings"
  shows "bg_reachable env (loop_background members l)"
  using assms(2)
proof induction
  case (start ch chk inactivity pings)
  have "loop_background members \<lparr>rl_background = bg_new ch chk, rl_unsubscribes = MaybePendingFutures_new ops, rl_inactivity = inactivity\<rparr> = bg_new ch chk"
    using futures_unordered.new_members [OF send_futures.axioms [OF assms(1)]]
    by (simp add: loop_background_def MaybePendingFutures_new_def bg_new_def)
  then show ?case by (metis bg_reachable.start)
next
  case (queue l pings msg)
  from bg_reachable.step [OF queue.IH bg_step.enqueue [OF queue.hyps(2)]] show ?case by (simp add: loop_background_def to_send_last)
next
  case (read l pings wk now closed received t l')
  from send_futures.read_turn_step [OF assms(1) read.hyps(4,2,3)] read.IH show ?case
    by (auto split: if_splits intro: bg_reachable.step)
next
  case (send l pings send ping wk closed gone t b pings')
  from send_turn_step [OF send_turn_to_send [OF send.hyps(4), of "members (mp_futs (rl_unsubscribes l))"]] send.hyps(2,3)
  have "(bg_step env)\<^sup>=\<^sup>= (loop_background members l) (loop_background members (l\<lparr>rl_background := b\<rparr>))"
    by (simp add: loop_background_def split: if_splits)
  with send.IH show ?case by (auto intro: bg_reachable.step)
qed

section \<open>Properties\<close>

text \<open>C6. The loops of the client's tasks refine their step relation: however the turns of the two \<open>select!\<close> loops interleave, with any messages,
  timers and front-end calls, the state they reach is one that the step relation reaches, the futures of the
  read task being the messages that wait for room in the queue. No event is slept through: the read
  task sleeps only when it was not told to stop, nothing was received and its waker is with its
  futures, or with the wrapper when there are none; the send task only when its queue is empty.\<close>

theorem client_tasks_refine:
  assumes "send_futures ops members registered" and "client_run env ops poll l pings"
  shows "bg_reachable env (loop_background members l) \<and>
    (\<not> bg_read_done (rl_background l) \<longrightarrow> \<not> bg_panicked (rl_background l) \<longrightarrow>
      read_task_turn env ops poll wk now closed (backend_event received) l = (Slept, l') \<longrightarrow>
      \<not> closed \<and> received = Pending \<and> waits members registered (rl_unsubscribes l') wk \<and>
      loop_background members l' = loop_background members l) \<and>
    (\<not> bg_send_done (rl_background l) \<longrightarrow> \<not> bg_panicked (rl_background l) \<longrightarrow>
      send_task_turn env send ping poll wk closed gone (rl_background l, pings) = (Slept, b, pings') \<longrightarrow>
      \<not> closed \<and> \<not> gone \<and> bg_queue (rl_background l) = [] \<and> b = rl_background l)"
  by (intro conjI impI client_run_reachable [OF assms]) (use send_futures.read_turn_step [OF assms(1), of env poll wk now closed received l Slept l']
    send_turn_step [of env send ping poll wk closed gone "rl_background l" pings Slept b pings'] in simp_all)

definition example_sends :: "(FrontToBack, unit, send_queue, chan_store background) futures_ops" where
  "example_sends = send_queue_ops 4"

definition example_loop :: "(chan_store, send_queue, unit) read_loop" where
  "example_loop = \<lparr>rl_background = bg_new store_new Disabled, rl_unsubscribes = MaybePendingFutures_new example_sends,
     rl_inactivity = ClientIntervalStream_pending\<rparr>"

theorem client_tasks_refine_witness:
  "let (t, l') = read_task_turn example_env example_sends (\<lambda>_ s. (Pending :: unit option poll, s)) 9 0 False (backend_event Pending) example_loop
   in bg_reachable example_env (loop_background sq_messages example_loop) \<and> t = Slept \<and>
      waits sq_messages (\<lambda>s wk. sq_waker s = Some wk) (rl_unsubscribes l') 9"
proof -
  let ?poll = "\<lambda>_ s. (Pending :: unit option poll, s)"
  let ?turn = "read_task_turn example_env example_sends ?poll 9 0 False (backend_event Pending) example_loop"
  have turn: "?turn = (Slept, snd ?turn)"
    by (simp add: read_task_turn_def MaybePendingFutures_poll_next_def MaybePendingFutures_new_def send_queue_ops_def backend_event_def
        ClientIntervalStream_pending_def example_loop_def example_sends_def)
  have run: "client_run example_env example_sends ?poll example_loop ClientIntervalStream_pending"
    unfolding example_loop_def by (rule client_run.start)
  have sends: "send_futures example_sends sq_messages (\<lambda>s wk. sq_waker s = Some wk)"
    unfolding example_sends_def by (rule send_queue.send_futures_axioms)
  have "\<not> bg_read_done (rl_background example_loop)" "\<not> bg_panicked (rl_background example_loop)"
    by (simp_all add: example_loop_def bg_new_def)
  with client_tasks_refine [OF sends run, of 9 0 False Pending "snd ?turn"] turn
  show ?thesis by (simp add: split_beta prod_eq_iff)
qed

end
