(* ===== verification/Server_Low_Level.thy ===== *)
theory Server_Low_Level
  imports Ws_Session
begin

text \<open>
  How connections come into being: building a server (\<open>server/src/server.rs\<close>), the parameters of the task of a
  WebSocket connection as the server's own service makes them, and the low-level functions \<open>ws::connect\<close> and
  \<open>http::call_with_service_builder\<close> (\<open>server/src/transport\<close>) with which a user serves connections without it.
  The listener, the handshake and the upgrade are parameters.
\<close>

section \<open>Servers (server.rs)\<close>

record ('l, 'c, 'u, 'r, 'h) Server =
  srv_listener :: 'l
  srv_server_cfg :: "('c, 'u) ServerConfig"
  srv_rpc_middleware :: "'r RpcServiceBuilder"
  srv_http_middleware :: "'h layer"

definition Server_builder :: "(('c, 'u) server_world \<Rightarrow> u64) \<Rightarrow> ('c, 'u, 'r, 'h) Builder" where
  "Server_builder random = Builder_default random"

definition Server_local_addr :: "('l \<Rightarrow> ('a, 'e) result) \<Rightarrow> ('l, 'c, 'u, 'r, 'h) Server \<Rightarrow> ('a, 'e) result" where
  "Server_local_addr local_addr s = local_addr (srv_listener s)"

definition Builder_build ::
  "('a \<Rightarrow> ('l, 'e) result) \<Rightarrow> 'a \<Rightarrow> ('c, 'u, 'r, 'h) Builder \<Rightarrow> (('l, 'c, 'u, 'r, 'h) Server, 'e) result" where
  "Builder_build bind addrs b = (case bind addrs of
       Inl e \<Rightarrow> Err e
     | Inr listener \<Rightarrow> Ok \<lparr>srv_listener = listener, srv_server_cfg = bu_server_cfg b,
         srv_rpc_middleware = bu_rpc_middleware b, srv_http_middleware = bu_http_middleware b\<rparr>)"

definition Builder_build_from_tcp ::
  "('t \<Rightarrow> ('l, 'e) result) \<Rightarrow> 't \<Rightarrow> ('c, 'u, 'r, 'h) Builder \<Rightarrow> (('l, 'c, 'u, 'r, 'h) Server, 'e) result" where
  "Builder_build_from_tcp from_std listener b = (case from_std listener of
       Inl e \<Rightarrow> Err e
     | Inr listener \<Rightarrow> Ok \<lparr>srv_listener = listener, srv_server_cfg = bu_server_cfg b,
         srv_rpc_middleware = bu_rpc_middleware b, srv_http_middleware = bu_http_middleware b\<rparr>)"

definition TowerServiceBuilder_set_rpc_middleware ::
  "'s RpcServiceBuilder \<Rightarrow> ('c, 'u, 'r, 'h) TowerServiceBuilder \<Rightarrow> ('c, 'u, 's, 'h) TowerServiceBuilder" where
  "TowerServiceBuilder_set_rpc_middleware rpc b = \<lparr>tsb_server_cfg = tsb_server_cfg b, tsb_rpc_middleware = rpc,
     tsb_http_middleware = tsb_http_middleware b, tsb_conn_id = tsb_conn_id b, tsb_conn_guard = tsb_conn_guard b\<rparr>"

definition TowerServiceBuilder_set_http_middleware ::
  "'g layer \<Rightarrow> ('c, 'u, 'r, 'h) TowerServiceBuilder \<Rightarrow> ('c, 'u, 'r, 'g) TowerServiceBuilder" where
  "TowerServiceBuilder_set_http_middleware http b = \<lparr>tsb_server_cfg = tsb_server_cfg b, tsb_rpc_middleware = tsb_rpc_middleware b,
     tsb_http_middleware = http, tsb_conn_id = tsb_conn_id b, tsb_conn_guard = tsb_conn_guard b\<rparr>"

text \<open>The configuration and its builder have the same fields; the runtime handle is not modelled.\<close>

type_synonym ('c, 'u) ServerConfigBuilder = "('c, 'u) ServerConfig"

definition ServerConfigBuilder_new :: "(('c, 'u) server_world \<Rightarrow> u64) \<Rightarrow> ('c, 'u) ServerConfigBuilder" where
  "ServerConfigBuilder_new random = ServerConfigBuilder_default random"

definition ServerConfig_builder :: "(('c, 'u) server_world \<Rightarrow> u64) \<Rightarrow> ('c, 'u) ServerConfigBuilder" where
  "ServerConfig_builder random = ServerConfigBuilder_default random"

definition ServerConfigBuilder_build :: "('c, 'u) ServerConfigBuilder \<Rightarrow> ('c, 'u) ServerConfig" where
  "ServerConfigBuilder_build b = \<lparr>sc_max_request_body_size = sc_max_request_body_size b,
     sc_max_response_body_size = sc_max_response_body_size b, sc_max_connections = sc_max_connections b,
     sc_max_subscriptions_per_connection = sc_max_subscriptions_per_connection b,
     sc_batch_requests_config = sc_batch_requests_config b, sc_enable_http = sc_enable_http b, sc_enable_ws = sc_enable_ws b,
     sc_message_buffer_capacity = sc_message_buffer_capacity b, sc_ping_config = sc_ping_config b,
     sc_id_provider = sc_id_provider b, sc_tcp_no_delay = sc_tcp_no_delay b, sc_message_encryption = sc_message_encryption b,
     sc_message_crypto_error_policy = sc_message_crypto_error_policy b, sc_connection_manager = sc_connection_manager b\<rparr>"

definition ServerConfig_default :: "(('c, 'u) server_world \<Rightarrow> u64) \<Rightarrow> ('c, 'u) ServerConfig" where
  "ServerConfig_default random = ServerConfigBuilder_build (ServerConfig_builder random)"

text \<open>\<open>deserialize_with_ext\<close> of \<open>utils.rs\<close> on text.\<close>

definition call_from_str :: "readers \<Rightarrow> string \<Rightarrow> extensions \<Rightarrow> Request option" where
  "call_from_str de data ext = (case de_call de data of
       None \<Rightarrow> None
     | Some req \<Rightarrow> Some (req\<lparr>req_extensions := ext\<rparr>))"

definition notif_from_str :: "readers \<Rightarrow> string \<Rightarrow> extensions \<Rightarrow> ServerNotification option" where
  "notif_from_str de data ext = (case de_notif de data of
       None \<Rightarrow> None
     | Some n \<Rightarrow> Some (n\<lparr>ntf_extensions := ext\<rparr>))"

section \<open>Timers of a connection (ws.rs)\<close>

text \<open>\<open>tokio::time::interval\<close> ticks at once, \<open>interval_at\<close> not before its start; a tick that was missed comes immediately.\<close>

record interval =
  iv_next :: nat
  iv_period :: nat

definition interval_tick :: "nat \<Rightarrow> interval \<Rightarrow> unit poll \<times> interval" where
  "interval_tick now i = (if iv_next i \<le> now then (Ready (), i\<lparr>iv_next := iv_next i + iv_period i\<rparr>) else (Pending, i))"

definition send_task_pings :: "nat \<Rightarrow> ServerPingConfig option \<Rightarrow> interval IntervalStream" where
  "send_task_pings now ping_config = (case ping_config of
       None \<Rightarrow> IntervalStream_pending
     | Some p \<Rightarrow> IntervalStream_new \<lparr>iv_next = now, iv_period = spc_ping_interval p\<rparr>)"

definition inactivity_checks :: "nat \<Rightarrow> ServerPingConfig option \<Rightarrow> interval IntervalStream" where
  "inactivity_checks now ping_config = (case ping_config of
       Some p \<Rightarrow> IntervalStream_new \<lparr>iv_next = now + spc_ping_interval p, iv_period = spc_ping_interval p\<rparr>
     | None \<Rightarrow> IntervalStream_pending)"

section \<open>The task of a connection\<close>

text \<open>The permit of a \<open>ConnectionState\<close> is counted in the guard.\<close>

record ConnectionState =
  cn_stop_handle :: StopHandle
  cn_conn_id :: u32

definition ConnectionState_new :: "StopHandle \<Rightarrow> u32 \<Rightarrow> ConnectionState" where
  "ConnectionState_new stop_handle conn_id = \<lparr>cn_stop_handle = stop_handle, cn_conn_id = conn_id\<rparr>"

text \<open>\<open>'s\<close> is the service of the connection, with its middleware; \<open>bp_max_message_size\<close> the limit that the receiver was given.\<close>

record ('c, 'u, 's) BackgroundTaskParams =
  bp_server_cfg :: "('c, 'u) ServerConfig"
  bp_conn :: ConnectionState
  bp_max_message_size :: nat
  bp_rpc_service :: 's
  bp_sink :: MethodSink
  bp_on_session_close :: "SessionClose option"
  bp_extensions :: extensions
  bp_message_encryption :: "MessageEncryption option"

definition params_config :: "('c, 'u, 's) BackgroundTaskParams \<Rightarrow> ws_config" where
  "params_config p = \<lparr>wsc_batch_requests_config = sc_batch_requests_config (bp_server_cfg p),
     wsc_max_request_body_size = sc_max_request_body_size (bp_server_cfg p),
     wsc_policy = sc_message_crypto_error_policy (bp_server_cfg p), wsc_encryption = bp_message_encryption p\<rparr>"

text \<open>\<open>background_task\<close>: the session, and what follows it: the connection's state is dropped and the user is told.\<close>

definition background_task ::
  "emitter \<Rightarrow> (string \<Rightarrow> bool) \<Rightarrow> readers \<Rightarrow> 'k ws_sender_ops \<Rightarrow>
     (conn_queue, 'u, (conn_queue, 'u) server_world rpc_service_t) BackgroundTaskParams \<Rightarrow> ('u, 'k) ws_session \<Rightarrow> ('u, 'k) ws_session \<Rightarrow> bool" where
  "background_task emit utf8 de sops p s s' \<longleftrightarrow>
     session_steps emit utf8 de (params_config p) (sc_ping_config (bp_server_cfg p)) (bp_rpc_service p) (bp_extensions p) (bp_sink p) sops s s' \<and>
     se_phase s' = SsClosed"

definition background_task_end :: "('c, 'u, 's) BackgroundTaskParams \<Rightarrow> ConnectionGuard \<Rightarrow> SessionClose option \<times> ConnectionGuard" where
  "background_task_end p g = (map_option SessionClose_close (bp_on_session_close p), release_connection g)"

text \<open>The future around it: it registers the connection, waits for the upgrade, runs and unregisters.\<close>

definition connection_begin :: "('c, 'u, 's) BackgroundTaskParams \<Rightarrow> ConnectionManager \<Rightarrow> ConnectionManager" where
  "connection_begin p m = (if sc_connection_manager (bp_server_cfg p)
     then register_connection (unat (cn_conn_id (bp_conn p))) (bp_sink p) m else m)"

definition connection_end :: "('c, 'u, 's) BackgroundTaskParams \<Rightarrow> ConnectionManager \<Rightarrow> ConnectionManager" where
  "connection_end p m = (if sc_connection_manager (bp_server_cfg p)
     then unregister_connection (unat (cn_conn_id (bp_conn p))) m else m)"

text \<open>The service that the middleware is put around.\<close>

definition RpcService_new ::
  "('c, 'u) server_world Methods \<Rightarrow> nat \<Rightarrow> nat \<Rightarrow> RpcServiceCfg \<Rightarrow> (('c, 'u) server_world \<Rightarrow> SubscriptionId) \<Rightarrow> ('c, 'u) RpcService" where
  "RpcService_new methods max_size conn_id cfg id_provider = \<lparr>rs_conn_id = conn_id, rs_methods = methods,
     rs_max_response_body_size = max_size, rs_cfg = cfg, rs_id_provider = id_provider\<rparr>"

definition ws_service :: "('c, 'u) ServerConfig \<Rightarrow> ('c, 'u) server_world Methods \<Rightarrow> u32 \<Rightarrow> MethodSink \<Rightarrow> ('c, 'u) RpcService" where
  "ws_service cfg methods conn_id sink = RpcService_new methods (unat (sc_max_response_body_size cfg)) (unat conn_id)
     (CallsAndSubscriptions (sc_max_subscriptions_per_connection cfg) sink) (sc_id_provider cfg)"

text \<open>What \<open>TowerServiceNoHttp::call\<close> gives to its task, for the request with the extensions it has inserted.\<close>

definition tower_params ::
  "(('c, 'u) RpcService \<Rightarrow> 's) \<Rightarrow> 's RpcServiceBuilder \<Rightarrow> ('c, 'u) ServerConfig \<Rightarrow> ('c, 'u) server_world Methods \<Rightarrow> ConnectionState \<Rightarrow>
     SessionClose option \<Rightarrow> nat \<Rightarrow> HttpRequest \<Rightarrow> ('c, 'u, 's) BackgroundTaskParams" where
  "tower_params impl rpc_middleware cfg methods conn on_session_close tx request =
     \<lparr>bp_server_cfg = cfg, bp_conn = conn, bp_max_message_size = unat (sc_max_request_body_size cfg),
      bp_rpc_service = RpcServiceBuilder_service rpc_middleware (impl (ws_service cfg methods (cn_conn_id conn) (MethodSink_new tx))),
      bp_sink = MethodSink_new tx, bp_on_session_close = on_session_close, bp_extensions = hr_extensions request,
      bp_message_encryption = sc_message_encryption cfg\<rparr>"

text \<open>The service of one connection, without HTTP middleware. It gives its notice of the end of a session away with the
  first request, whatever becomes of that request. The result is the response and the task that is spawned.\<close>

record ('c, 'u, 'r) TowerServiceNoHttp =
  nh_inner :: "('c, 'u) ServiceData"
  nh_rpc_middleware :: "'r RpcServiceBuilder"
  nh_on_session_close :: "SessionClose option"

definition TowerServiceNoHttp_call ::
  "emitter \<Rightarrow> (nat \<Rightarrow> Frame list \<Rightarrow> Frame list) \<Rightarrow> readers \<Rightarrow> (HttpRequest \<Rightarrow> bool) \<Rightarrow> (HttpRequest \<Rightarrow> (HttpResponse, string) result) \<Rightarrow>
     (('c, 'u) RpcService \<Rightarrow> 'w rpc_service_t) \<Rightarrow> nat \<Rightarrow> HttpRequest \<Rightarrow> ('c, 'u, 'w rpc_service_t) TowerServiceNoHttp \<Rightarrow> 'w \<Rightarrow>
     (HttpResponse outcome \<times> ('c, 'u, 'w rpc_service_t) BackgroundTaskParams option) \<times> ('c, 'u, 'w rpc_service_t) TowerServiceNoHttp \<times> 'w"
where
  "TowerServiceNoHttp_call emit limited de is_upgrade receive_request impl tx request s w =
     (let inner = nh_inner s;
          cfg = sd_server_cfg inner;
          g = sd_conn_guard inner;
          after = (\<lambda>g'. s\<lparr>nh_on_session_close := None, nh_inner := inner\<lparr>sd_conn_guard := g'\<rparr>\<rparr>)
      in case tower_call is_upgrade receive_request cfg (sd_methods inner) (sd_conn_id inner) tx request g of
        (TrReply rp, g') \<Rightarrow> ((Done rp, None), after g', w)
      | (TrWebSocket rp svc ext, g') \<Rightarrow>
          ((Done rp, Some (tower_params impl (nh_rpc_middleware s) cfg (sd_methods inner)
              (ConnectionState_new (sd_stop_handle inner) (sd_conn_id inner)) (nh_on_session_close s) tx
              (request\<lparr>hr_extensions := ext\<rparr>))), after g', w)
      | (TrHttpCall svc req, g') \<Rightarrow>
          (let (rp, w') = call_with_service emit limited de req (sc_batch_requests_config cfg) (sc_max_request_body_size cfg)
                 (RpcServiceBuilder_service (nh_rpc_middleware s) (impl svc)) w
           in ((rp, None), after (release_connection g'), w')))"

section \<open>The low-level functions (transport/ws.rs, transport/http.rs)\<close>

definition connect_failed :: "string \<Rightarrow> HttpResponse" where
  "connect_failed e = \<lparr>hp_status = 200, hp_body = ''WS upgrade handshake failed: '' @ e, hp_content_type = [], hp_extensions = Map.empty\<rparr>"

text \<open>\<open>ws::connect\<close>: the response and the parameters of the future that drives the connection; without a future the
  connection's state is dropped.\<close>

definition low_level_connect ::
  "(HttpRequest \<Rightarrow> (HttpResponse, string) result) \<Rightarrow> (('c, 'u) RpcService \<Rightarrow> 's) \<Rightarrow> HttpRequest \<Rightarrow> ('c, 'u) ServerConfig \<Rightarrow>
     ('c, 'u) server_world Methods \<Rightarrow> ConnectionState \<Rightarrow> 's RpcServiceBuilder \<Rightarrow> nat \<Rightarrow> ConnectionGuard \<Rightarrow>
     (HttpResponse \<times> ('c, 'u, 's) BackgroundTaskParams, HttpResponse) result \<times> ConnectionGuard"
where
  "low_level_connect receive_request impl req cfg methods conn rpc_middleware tx g = (case receive_request req of
       Inr response \<Rightarrow>
         (let sink = MethodSink_new tx;
              rpc_service = RpcServiceBuilder_service rpc_middleware (impl (ws_service cfg methods (cn_conn_id conn) sink))
          in (Ok (response, \<lparr>bp_server_cfg = cfg, bp_conn = conn, bp_max_message_size = unat (sc_max_response_body_size cfg),
                bp_rpc_service = rpc_service, bp_sink = sink, bp_on_session_close = None, bp_extensions = hr_extensions req,
                bp_message_encryption = sc_message_encryption cfg\<rparr>), g))
     | Inl e \<Rightarrow> (Err (connect_failed e), release_connection g))"

definition call_with_service_builder ::
  "emitter \<Rightarrow> (nat \<Rightarrow> Frame list \<Rightarrow> Frame list) \<Rightarrow> readers \<Rightarrow> (('c, 'u) RpcService \<Rightarrow> 'w rpc_service_t) \<Rightarrow> HttpRequest \<Rightarrow>
     ('c, 'u) ServerConfig \<Rightarrow> ConnectionState \<Rightarrow> ('c, 'u) server_world Methods \<Rightarrow> 'w rpc_service_t RpcServiceBuilder \<Rightarrow> 'w \<Rightarrow>
     ConnectionGuard \<Rightarrow> HttpResponse outcome \<times> 'w \<times> ConnectionGuard"
where
  "call_with_service_builder emit limited de impl request cfg conn methods rpc_service w g =
     (let svc = RpcServiceBuilder_service rpc_service (impl (RpcService_new methods (unat (sc_max_response_body_size cfg))
            (unat (cn_conn_id conn)) OnlyCalls (sc_id_provider cfg)));
          (rp, w') = call_with_service emit limited de request (sc_batch_requests_config cfg) (sc_max_request_body_size cfg) svc w
      in (rp, w', release_connection g))"

section \<open>Lemmas\<close>

text \<open>What the server's service inserts into the extensions of a request.\<close>

definition with_connection :: "u32 \<Rightarrow> ConnectionGuard \<Rightarrow> HttpRequest \<Rightarrow> HttpRequest" where
  "with_connection conn_id g request = request\<lparr>hr_extensions := (hr_extensions request)
     (''ConnectionGuard'' \<mapsto> nat_to_string (cg_max g), ''ConnectionId'' \<mapsto> nat_to_string (unat conn_id))\<rparr>"

text \<open>A service driven by hand agrees with the server's own: for a request that the server would upgrade, \<open>connect\<close> with the
  same configuration and a request with the same extensions starts a task with the same service, sink, extensions and cipher, and for one
  that it would execute, the HTTP call is the same. The one difference is the limit of incoming messages.\<close>

lemma connect_agrees:
  assumes "tower_call is_upgrade receive_request cfg methods conn_id tx request g = (TrWebSocket rp svc ext, g1)"
    and "req = with_connection conn_id g request" and "conn = ConnectionState_new h conn_id"
  shows "low_level_connect receive_request impl req cfg methods conn layers tx g1 =
      (Inr (rp, (tower_params impl layers cfg methods conn None tx req)\<lparr>bp_max_message_size := unat (sc_max_response_body_size cfg)\<rparr>), g1) \<and>
    bp_rpc_service (tower_params impl layers cfg methods conn None tx req) = RpcServiceBuilder_service layers (impl svc) \<and>
    bp_extensions (tower_params impl layers cfg methods conn None tx req) = ext"
  using assms
  by (auto simp: tower_call_def ConnectionGuard_try_acquire_def Let_def low_level_connect_def tower_params_def with_connection_def
      ws_service_def RpcService_new_def ConnectionState_new_def split: if_splits sum.splits)

lemma low_level_call_agrees:
  assumes "tower_call is_upgrade receive_request cfg methods conn_id tx request g = (TrHttpCall svc req, g1)"
    and "conn = ConnectionState_new h conn_id"
  shows "call_with_service_builder emit limited de impl (with_connection conn_id g request) cfg conn methods layers w g1 =
    (let (rp, w') = call_with_service emit limited de req (sc_batch_requests_config cfg) (sc_max_request_body_size cfg)
        (RpcServiceBuilder_service layers (impl svc)) w in (rp, w', release_connection g1))"
  using assms
  by (auto simp: tower_call_def ConnectionGuard_try_acquire_def Let_def call_with_service_builder_def with_connection_def
      RpcService_new_def ConnectionState_new_def split: if_splits sum.splits)

text \<open>A request to the service of a connection holds a permit exactly as long as a task runs for it, and is refused when none
  is free; only the task of the first request is told to give notice of its end.\<close>

lemma service_call_permits:
  assumes "TowerServiceNoHttp_call emit limited de is_upgrade receive_request impl tx request s w = ((rp, task), s', w')"
  shows "cg_available (sd_conn_guard (nh_inner s')) + (if task = None then 0 else 1) = cg_available (sd_conn_guard (nh_inner s))"
    and "cg_available (sd_conn_guard (nh_inner s)) = 0 \<Longrightarrow> rp = Done too_many_requests \<and> task = None \<and> w' = w"
    and "nh_on_session_close s' = None" and "task = Some p \<Longrightarrow> bp_on_session_close p = nh_on_session_close s \<and> w' = w"
proof -
  let ?g = "sd_conn_guard (nh_inner s)"
  obtain r g' where r: "tower_call is_upgrade receive_request (sd_server_cfg (nh_inner s)) (sd_methods (nh_inner s))
      (sd_conn_id (nh_inner s)) tx request ?g = (r, g')" by fastforce
  note guard = tower_call_guard [OF r]
  have none: "r = TrReply too_many_requests" if "cg_available ?g = 0"
    using r that by (simp add: tower_call_def ConnectionGuard_try_acquire_def)
  show "cg_available (sd_conn_guard (nh_inner s')) + (if task = None then 0 else 1) = cg_available ?g"
    "nh_on_session_close s' = None" "task = Some p \<Longrightarrow> bp_on_session_close p = nh_on_session_close s \<and> w' = w"
    using assms guard by (auto simp: TowerServiceNoHttp_call_def r tower_params_def release_connection_def Let_def split_beta
        split: tower_result.splits)
  show "rp = Done too_many_requests \<and> task = None \<and> w' = w" if "cg_available ?g = 0"
    using assms none [OF that] by (simp add: TowerServiceNoHttp_call_def r Let_def)
qed

text \<open>A configuration survives its builder; text and bytes are read alike.\<close>

lemma build_config: "ServerConfigBuilder_build b = b"
  by (simp add: ServerConfigBuilder_build_def)

lemma from_str_from_slice: "call_from_str de = call_from_slice de" "notif_from_str de = notif_from_slice de"
  by (auto simp: call_from_str_def call_from_slice_def notif_from_str_def notif_from_slice_def fun_eq_iff split: option.split)

text \<open>The timers: the sending task pings at once, the first check of the pongs comes one interval later.\<close>

lemma first_ticks:
  assumes "0 < spc_ping_interval p"
  shows "fst (IntervalStream_poll_next (interval_tick now) (send_task_pings now (Some p))) = Ready () \<and>
    fst (IntervalStream_poll_next (interval_tick now) (inactivity_checks now (Some p))) = Pending \<and>
    fst (IntervalStream_poll_next (interval_tick (now + spc_ping_interval p)) (inactivity_checks now (Some p))) = Ready () \<and>
    fst (IntervalStream_poll_next (interval_tick later) (send_task_pings now None)) = Pending"
  using assms
  by (simp add: send_task_pings_def inactivity_checks_def IntervalStream_new_def IntervalStream_pending_def interval_tick_def)

text \<open>A user who asked to be told about the end of a session is told when its task has ended.\<close>

lemma session_end_observed:
  assumes "on_session_closed s = (fut, s')" and "bp_on_session_close p = tw_on_session_close s'"
  shows "\<exists>n. fst (background_task_end p g) = Some n \<and> SessionClosedFuture_poll fut n = Ready () \<and>
    cg_available (snd (background_task_end p g)) = cg_available g + 1"
  using assms
  by (auto simp: on_session_closed_def background_task_end_def session_close_def SessionClose_closed_def SessionClose_close_def
      SessionClosedFuture_poll_def release_connection_def split: option.splits)

end
