(* ===== verification/Http_Middleware.thy ===== *)
theory Http_Middleware
  imports Server_Dispatch
begin

text \<open>
  The HTTP middleware of the server (\<open>server/src/middleware/http/\<close>): the authority of a request, the
  filter of allowed hosts, and the proxy of GET requests to methods.

  Parsing of URIs (\<open>http::Uri\<close>) and the choice of a route (\<open>route_recognizer\<close>) are parameters, and so
  is the inner service.
\<close>

section \<open>Authorities (authority.rs)\<close>

datatype Port = DefaultPort | AnyPort | FixedPort u16

record Authority =
  au_host :: string
  au_port :: Port

datatype AuthorityError = InvalidUri | InvalidPort | MissingHost

text \<open>A parsed URI: its scheme, and of its authority the text and the host in it.\<close>

record Uri =
  uri_scheme :: "string option"
  uri_authority :: "(string \<times> string) option"

type_synonym uri_parser = "string \<Rightarrow> Uri option"

definition default_port :: "string option \<Rightarrow> u16 option" where
  "default_port scheme =
     (if scheme = Some ''http'' \<or> scheme = Some ''ws'' then Some 80
      else if scheme = Some ''https'' \<or> scheme = Some ''wss'' then Some 443
      else if scheme = Some ''ftp'' then Some 21 else None)"

text \<open>\<open>str::split_once\<close>: what follows the first colon.\<close>

fun after_colon :: "string \<Rightarrow> string option" where
  "after_colon [] = None"
| "after_colon (c # cs) = (if c = CHR '':'' then Some cs else after_colon cs)"

definition inner_from_str :: "uri_parser \<Rightarrow> string \<Rightarrow> (Authority, AuthorityError) result" where
  "inner_from_str parse value = (case parse value of
       None \<Rightarrow> Err InvalidUri
     | Some uri \<Rightarrow> (case uri_authority uri of
         None \<Rightarrow> Err MissingHost
       | Some (authority, host) \<Rightarrow>
           (let maybe_port = drop (length host) authority in
            case after_colon maybe_port of
              None \<Rightarrow> Ok \<lparr>au_host = host, au_port = DefaultPort\<rparr>
            | Some p \<Rightarrow>
                if p = ''*'' then Ok \<lparr>au_host = host, au_port = AnyPort\<rparr>
                else (case parse_unsigned (2 ^ 16) p of
                  None \<Rightarrow> Err InvalidPort
                | Some n \<Rightarrow>
                    (let port_u16 = of_nat n in
                     Ok \<lparr>au_host = host, au_port = (if default_port (uri_scheme uri) = Some port_u16
                          then DefaultPort else FixedPort port_u16)\<rparr>)))))"

text \<open>Requests with the parts of their URI that the middleware reads.\<close>

record UriRequest = HttpRequest +
  hr_path :: string
  hr_query :: "string option"
  hr_authority :: "string option"

definition from_http_request :: "uri_parser \<Rightarrow> UriRequest \<Rightarrow> Authority option" where
  "from_http_request parse request =
     (let host_header = map_option (inner_from_str parse) (read_header_value (hr_headers request) ''host'');
          uri = map_option (inner_from_str parse) (hr_authority request)
      in case (host_header, uri) of
        (Some (Inr a1), Some (Inr a2)) \<Rightarrow> if a1 = a2 then Some a1 else None
      | (Some (Inr a), _) \<Rightarrow> Some a
      | (_, Some (Inr a)) \<Rightarrow> Some a
      | _ \<Rightarrow> None)"

section \<open>The host filter (host_filter.rs)\<close>

text \<open>The routes of the router in the order of the \<open>BTreeMap\<close> that collects the ports of each host.\<close>

type_synonym WhitelistedHosts = "(string \<times> Port list) list"

fun add_port :: "Authority \<Rightarrow> WhitelistedHosts \<Rightarrow> WhitelistedHosts" where
  "add_port a [] = [(au_host a, [au_port a])]"
| "add_port a ((host, ports) # rest) =
     (if au_host a = host then (host, ports @ [au_port a]) # rest
      else if au_host a < host then (au_host a, [au_port a]) # (host, ports) # rest
      else (host, ports) # add_port a rest)"

definition WhitelistedHosts_from :: "Authority list \<Rightarrow> WhitelistedHosts" where
  "WhitelistedHosts_from auths = fold add_port auths []"

fun port_allowed :: "Port \<Rightarrow> Port \<Rightarrow> bool" where
  "port_allowed AnyPort _ = True"
| "port_allowed DefaultPort DefaultPort = True"
| "port_allowed (FixedPort p1) (FixedPort p2) = (p1 = p2)"
| "port_allowed _ _ = False"

text \<open>\<open>best_match\<close> is the pattern the router selects for a host among those that were added.\<close>

definition recognize :: "(string list \<Rightarrow> string \<Rightarrow> string option) \<Rightarrow> WhitelistedHosts \<Rightarrow> Authority \<Rightarrow> bool" where
  "recognize best_match hosts other = (case best_match (map fst hosts) (au_host other) of
       None \<Rightarrow> False
     | Some pattern \<Rightarrow> (case map_of hosts pattern of
         None \<Rightarrow> False
       | Some ports \<Rightarrow> list_ex (\<lambda>p. port_allowed p (au_port other)) ports))"

type_synonym HostFilterLayer = "WhitelistedHosts option"

fun parse_authorities :: "uri_parser \<Rightarrow> string list \<Rightarrow> (Authority list, AuthorityError) result" where
  "parse_authorities parse [] = Ok []"
| "parse_authorities parse (a # as) = (case inner_from_str parse a of
     Inl e \<Rightarrow> Err e
   | Inr x \<Rightarrow> (case parse_authorities parse as of Inl e \<Rightarrow> Err e | Inr xs \<Rightarrow> Ok (x # xs)))"

definition HostFilterLayer_new :: "uri_parser \<Rightarrow> string list \<Rightarrow> (HostFilterLayer, AuthorityError) result" where
  "HostFilterLayer_new parse allow_only = (case parse_authorities parse allow_only of
       Inl e \<Rightarrow> Err e
     | Inr auths \<Rightarrow> Ok (Some (WhitelistedHosts_from auths)))"

definition HostFilterLayer_disable :: HostFilterLayer where
  "HostFilterLayer_disable = None"

type_synonym 's http_service = "UriRequest \<Rightarrow> 's \<Rightarrow> HttpResponse outcome \<times> 's"

definition HostFilter_call ::
  "emitter \<Rightarrow> uri_parser \<Rightarrow> (string list \<Rightarrow> string \<Rightarrow> string option) \<Rightarrow> HostFilterLayer \<Rightarrow> 's http_service \<Rightarrow> 's http_service"
where
  "HostFilter_call emit parse best_match filter_hosts inner request s =
     (case from_http_request parse request of
        None \<Rightarrow> (Done (malformed emit), s)
      | Some authority \<Rightarrow>
          if (case filter_hosts of None \<Rightarrow> True | Some f \<Rightarrow> recognize best_match f authority)
          then inner request s
          else (Done host_not_allowed, s))"

section \<open>The GET proxy (proxy_get_request.rs)\<close>

datatype ProxyGetRequestError = DuplicatedPath string | InvalidPath string

type_synonym ProxyGetRequestLayer = "string \<rightharpoonup> string"

fun proxy_insert_all ::
  "(string \<times> string) list \<Rightarrow> (string \<rightharpoonup> string) \<Rightarrow> (ProxyGetRequestLayer, ProxyGetRequestError) result" where
  "proxy_insert_all [] methods = Ok methods"
| "proxy_insert_all ((path, meth) # pairs) methods =
     (if path = [] \<or> hd path \<noteq> CHR ''/'' then Err (InvalidPath path)
      else (case methods path of
        Some old \<Rightarrow> Err (DuplicatedPath old)
      | None \<Rightarrow> proxy_insert_all pairs (methods(path \<mapsto> meth))))"

definition ProxyGetRequestLayer_new ::
  "(string \<times> string) list \<Rightarrow> (ProxyGetRequestLayer, ProxyGetRequestError) result" where
  "ProxyGetRequestLayer_new pairs = proxy_insert_all pairs Map.empty"

text \<open>\<open>HeaderMap::insert\<close> replaces all values of a header.\<close>

definition header_insert :: "string \<Rightarrow> string \<Rightarrow> HeaderMap \<Rightarrow> HeaderMap" where
  "header_insert name value headers = filter (\<lambda>h. fst h \<noteq> name) headers @ [(name, value)]"

definition proxy_request :: "emitter \<Rightarrow> string \<Rightarrow> UriRequest \<Rightarrow> UriRequest" where
  "proxy_request emit meth req =
     req\<lparr>hr_method := ''POST'', hr_path := ''/'', hr_authority := None,
         hr_headers := header_insert ''accept'' ''application/json''
           (header_insert ''content-type'' ''application/json'' (hr_headers req)),
         hr_body := [DataFrame (expect_raw emit (Request_serialize (Request_borrowed meth None (Number 0))))]\<rparr>"

text \<open>\<open>de_result\<close> and \<open>de_error\<close> read the member \<open>result\<close> or \<open>error\<close> of a response.\<close>

definition internal_proxy_error :: "emitter \<Rightarrow> (string \<Rightarrow> ErrorObject option) \<Rightarrow> string \<Rightarrow> HttpResponse" where
  "internal_proxy_error emit de_error bytes =
     (let error = (case de_error bytes of Some e \<Rightarrow> e | None \<Rightarrow> ErrorObject_from InternalError) in
      from_template 500 (expect_raw emit (ErrorObject_serialize error)) ''application/json; charset=utf-8'')"

definition proxy_response ::
  "emitter \<Rightarrow> (string \<Rightarrow> string option) \<Rightarrow> (string \<Rightarrow> ErrorObject option) \<Rightarrow> HttpResponse \<Rightarrow> HttpResponse" where
  "proxy_response emit de_result de_error res =
     (let response = (case de_result (hp_body res) of
            Some result \<Rightarrow> ok_response result
          | None \<Rightarrow> internal_proxy_error emit de_error (hp_body res))
      in response\<lparr>hp_extensions := hp_extensions response ++ hp_extensions res\<rparr>)"

definition ProxyGetRequest_call ::
  "emitter \<Rightarrow> (string \<Rightarrow> string option) \<Rightarrow> (string \<Rightarrow> ErrorObject option) \<Rightarrow> ProxyGetRequestLayer \<Rightarrow>
     's http_service \<Rightarrow> 's http_service"
where
  "ProxyGetRequest_call emit de_result de_error methods inner req s =
     (case (methods (hr_path req), hr_method req = ''GET'') of
        (Some meth, True) \<Rightarrow> (case inner (proxy_request emit meth req) s of
            (Done res, s') \<Rightarrow> (Done (proxy_response emit de_result de_error res), s')
          | (Panicked, s') \<Rightarrow> (Panicked, s'))
      | _ \<Rightarrow> inner req s)"

section \<open>Lemmas\<close>

lemma add_port_keys: "set (map fst (add_port a hosts)) = insert (au_host a) (set (map fst hosts))"
  by (induction a hosts rule: add_port.induct) auto

lemma add_port_sorted: "sorted_wrt (<) (map fst hosts) \<Longrightarrow> sorted_wrt (<) (map fst (add_port a hosts))"
proof (induction a hosts rule: add_port.induct)
  case (2 a host ports rest)
  then show ?case using add_port_keys [of a rest] by (auto simp: less_le_trans)
qed simp

lemma add_port_map_of:
  assumes "sorted_wrt (<) (map fst hosts)"
  shows "map_of (add_port a hosts) h =
    (if h = au_host a then Some ((case map_of hosts h of None \<Rightarrow> [] | Some ps \<Rightarrow> ps) @ [au_port a]) else map_of hosts h)"
  using assms
proof (induction a hosts rule: add_port.induct)
  case (2 a host ports rest)
  then have "map_of rest (au_host a) = None" if "au_host a < host"
    using that by (force simp: map_of_eq_None_iff)
  with 2 show ?case by auto
qed simp

lemma WhitelistedHosts_map_of:
  "map_of (WhitelistedHosts_from auths) h =
     (let ps = map au_port (filter (\<lambda>a. au_host a = h) auths) in if ps = [] then None else Some ps) \<and>
   sorted_wrt (<) (map fst (WhitelistedHosts_from auths))"
proof (induction auths rule: rev_induct)
  case Nil
  show ?case by (simp add: WhitelistedHosts_from_def)
next
  case (snoc a auths)
  then have "WhitelistedHosts_from (auths @ [a]) = add_port a (WhitelistedHosts_from auths)"
    by (simp add: WhitelistedHosts_from_def)
  with snoc show ?case by (auto simp: add_port_map_of add_port_sorted Let_def)
qed

lemma recognize_iff:
  "recognize best_match (WhitelistedHosts_from auths) other \<longleftrightarrow>
     (\<exists>a \<in> set auths. best_match (map fst (WhitelistedHosts_from auths)) (au_host other) = Some (au_host a) \<and>
        port_allowed (au_port a) (au_port other))"
  using conjunct1 [OF WhitelistedHosts_map_of [of auths]]
  by (auto simp: recognize_def Let_def list_ex_iff filter_empty_conv split: option.splits if_splits) metis

lemma get_all_header_insert:
  "get_all (header_insert n v headers) m = (if m = n then [v] else get_all headers m)"
  by (induction headers) (auto simp: get_all_def header_insert_def)

section \<open>Properties\<close>

text \<open>C38. The host filter passes a request on exactly when its authority is known and one of the
  configured authorities has the host pattern that the router selects and a port that admits the
  request's; several entries for one host all count. Everything else is answered 400 or 403 without
  reaching the inner service.\<close>

theorem host_filter_spec:
  "HostFilter_call emit parse best_match (Some (WhitelistedHosts_from auths)) inner request s =
     (case from_http_request parse request of
        None \<Rightarrow> (Done (malformed emit), s)
      | Some x \<Rightarrow>
          if \<exists>a \<in> set auths. best_match (map fst (WhitelistedHosts_from auths)) (au_host x) = Some (au_host a) \<and>
               port_allowed (au_port a) (au_port x)
          then inner request s else (Done host_not_allowed, s)) \<and>
   set (map fst (WhitelistedHosts_from auths)) = au_host ` set auths \<and>
   hp_status (malformed emit) = 400 \<and> hp_status host_not_allowed = 403"
proof -
  have "set (map fst (fold add_port auths hosts)) = au_host ` set auths \<union> set (map fst hosts)" for hosts
    by (induction auths arbitrary: hosts) (auto simp: add_port_keys simp del: set_map)
  from this [of "[]"] have "set (map fst (WhitelistedHosts_from auths)) = au_host ` set auths"
    by (simp add: WhitelistedHosts_from_def)
  then show ?thesis
    by (simp add: HostFilter_call_def recognize_iff malformed_def host_not_allowed_def from_template_def split: option.split)
qed

text \<open>A disabled host filter still refuses requests without an authority, or with two that differ.\<close>

lemma disabled_filter_refuses:
  "HostFilter_call emit parse best_match HostFilterLayer_disable inner request s =
     (if from_http_request parse request = None then (Done (malformed emit), s) else inner request s) \<and>
   from_http_request parse \<lparr>hr_method = ''POST'', hr_headers = [], hr_body = body, hr_extensions = Map.empty,
     hr_path = ''/'', hr_query = None, hr_authority = None\<rparr> = None"
  by (auto simp: HostFilter_call_def HostFilterLayer_disable_def from_http_request_def read_header_value_def get_all_def
      split: option.split)

text \<open>A duplicate path is refused, but the error carries the method that was registered for it
  instead of the path its message speaks of.\<close>

lemma proxy_duplicate_reports_method:
  assumes "hd path = CHR ''/''" and "path \<noteq> []"
  shows "ProxyGetRequestLayer_new [(path, m1), (path, m2)] = Inl (DuplicatedPath m1)"
  using assms by (simp add: ProxyGetRequestLayer_new_def)

text \<open>The port of an authority with user information is cut out at the wrong place, so that an
  authority that has none is refused as having an invalid one.\<close>

lemma authority_with_userinfo:
  assumes "parse value = Some \<lparr>uri_scheme = None, uri_authority = Some (user @ '':'' @ password @ ''@'' @ host, host)\<rparr>"
    and "length host \<le> length user" and "CHR '':'' \<notin> set user"
  shows "inner_from_str parse value = Inl InvalidPort"
proof -
  have no_colon: "after_colon (xs @ CHR '':'' # ys) = Some ys" if "CHR '':'' \<notin> set xs" for xs ys
    using that by (induction xs) auto
  have bad: "digits_value acc xs = None" if "CHR ''@'' \<in> set xs" for acc xs
    using that by (induction acc xs rule: digits_value.induct) (auto simp: char_digit_def split: option.split)
  have "parse_unsigned (2 ^ 16) (password @ ''@'' @ host) = None"
    using bad [of "password @ ''@'' @ host" 0] bad [of "tl password @ ''@'' @ host" 0]
    by (cases password) (auto simp: parse_unsigned_def char_digit_def Let_def)
  moreover have "after_colon (drop (length host) (user @ '':'' @ password @ ''@'' @ host)) = Some (password @ ''@'' @ host)"
    using assms(2,3) no_colon [of "drop (length host) user"] by (auto dest: in_set_dropD)
  moreover have "password @ ''@'' @ host \<noteq> ''*''" by (cases password) auto
  ultimately show ?thesis using assms(1) by (simp add: inner_from_str_def Let_def)
qed

text \<open>The HTTP transport as the inner service.\<close>

definition http_inner ::
  "emitter \<Rightarrow> (nat \<Rightarrow> Frame list \<Rightarrow> Frame list) \<Rightarrow> readers \<Rightarrow> BatchRequestConfig \<Rightarrow> u32 \<Rightarrow> 'w rpc_service_t \<Rightarrow> 'w http_service" where
  "http_inner emit limited de cfg max_size svc req w =
     call_with_service emit limited de (HttpRequest.truncate req) cfg max_size svc w"

lemma read_body_single_frame:
  assumes "limits limited" "length (CHR ''{'' # rest) \<le> unat max_size" "read_header_content_length headers = None"
  shows "read_body limited headers [DataFrame (CHR ''{'' # rest)] max_size = Inr (CHR ''{'' # rest, True)"
proof -
  have "limited (unat max_size) [DataFrame (CHR ''{'' # rest)] = [DataFrame (CHR ''{'' # rest)]"
    using assms(1,2) unfolding limits_def by (metis append_Nil2 body_data.simps(1,2))
  moreover have "first_non_whitespace 128 0 (CHR ''{'' # rest) = Some (0, CHR ''{'')"
    using first_non_whitespace.simps(3) [of 127 0 "CHR ''{''" rest] by (simp add: is_ascii_whitespace_def)
  ultimately show ?thesis using assms(3) by (simp add: read_body_def)
qed

text \<open>C39. A GET request for a proxied path calls the method without parameters through the HTTP
  transport and is answered with the bare result of the call, status 200 and the extensions of the
  method's response; with its error object and status 500 when the call failed. Other requests
  reach the inner service unchanged.\<close>

theorem proxy_get_returns_result:
  assumes "limits limited" and "read_header_content_length (hr_headers req) = None"
    and "expect_raw emit (Request_serialize (Request_borrowed name None (Number 0))) = CHR ''{'' # rest"
    and "length (CHR ''{'' # rest) \<le> unat max_size"
    and "de_call de (CHR ''{'' # rest) = Some (Request_borrowed name None (Number 0))"
    and "svc_call svc ((Request_borrowed name None (Number 0))\<lparr>req_extensions := hr_extensions req\<rparr>) w = (rp, w')"
  shows "let inner = http_inner emit limited de cfg max_size svc;
      call = ProxyGetRequest_call emit de_result de_error methods inner req w
    in if methods (hr_path req) = Some name \<and> hr_method req = ''GET''
       then \<exists>response. call = (Done response, w') \<and> hp_extensions response = mr_extensions rp \<and>
         (case de_result (mr_json rp) of
            Some result \<Rightarrow> hp_status response = 200 \<and> hp_body response = result
          | None \<Rightarrow> hp_status response = 500 \<and> hp_body response = expect_raw emit (ErrorObject_serialize
              (case de_error (mr_json rp) of Some e \<Rightarrow> e | None \<Rightarrow> ErrorObject_from InternalError)))
       else methods (hr_path req) = None \<or> hr_method req \<noteq> ''GET'' \<longrightarrow> call = inner req w"
proof -
  let ?req = "HttpRequest.truncate (proxy_request emit name req)"
  have json: "content_type_is_json ?req"
    by (simp add: content_type_is_json_def is_json_def to_str_def proxy_request_def HttpRequest.defs get_all_header_insert
        eq_ignore_ascii_case_def)
  have len: "read_header_content_length (hr_headers ?req) = None"
    using assms(2)
    by (simp add: read_header_content_length_def read_header_value_def proxy_request_def HttpRequest.defs get_all_header_insert)
  have body: "read_body limited (hr_headers ?req) (hr_body ?req) max_size = Inr (CHR ''{'' # rest, True)"
    using read_body_single_frame [OF assms(1,4) len] assms(3) by (simp add: proxy_request_def HttpRequest.defs)
  have "hr_method ?req = ''POST''" "hr_extensions ?req = hr_extensions req"
    by (simp_all add: proxy_request_def HttpRequest.defs)
  with json body assms(5,6)
  have "http_inner emit limited de cfg max_size svc (proxy_request emit name req) w = (Done (from_method_response rp), w')"
    by (simp add: http_inner_def call_with_service_def handle_rpc_call_def call_from_slice_def)
  then show ?thesis
    by (auto simp: ProxyGetRequest_call_def proxy_response_def from_method_response_def from_template_def ok_response_def
        internal_proxy_error_def Let_def split: option.split)
qed

definition example_get :: UriRequest where
  "example_get = \<lparr>hr_method = ''GET'', hr_headers = [], hr_body = [], hr_extensions = Map.empty,
     hr_path = ''/h'', hr_query = None, hr_authority = None\<rparr>"

theorem proxy_get_returns_result_witness:
  "\<exists>response. ProxyGetRequest_call (\<lambda>_. ([''{}''], True)) (\<lambda>_. Some ''7'') (\<lambda>_. None) [''/h'' \<mapsto> ''m'']
     (http_inner (\<lambda>_. ([''{}''], True)) limited_ref
        \<lparr>de_call = \<lambda>_. Some (Request_borrowed ''m'' None (Number 0)), de_notif = \<lambda>_. None, de_invalid = \<lambda>_. None, de_array = \<lambda>_. None\<rparr>
        BatchUnlimited 10 \<lparr>svc_call = \<lambda>_ u. (MethodResponse_notification, u), svc_batch = \<lambda>_ u. (Panicked, u),
          svc_notification = \<lambda>_ u. (MethodResponse_notification, u)\<rparr>) example_get () = (Done response, ()) \<and> hp_body response = ''7''"
  using proxy_get_returns_result [of limited_ref example_get "\<lambda>_. ([''{}''], True)" "''m''" "''}''" 10
    "\<lparr>de_call = \<lambda>_. Some (Request_borrowed ''m'' None (Number 0)), de_notif = \<lambda>_. None, de_invalid = \<lambda>_. None, de_array = \<lambda>_. None\<rparr>"
    "\<lparr>svc_call = \<lambda>_ u. (MethodResponse_notification, u), svc_batch = \<lambda>_ u. (Panicked, u),
      svc_notification = \<lambda>_ u. (MethodResponse_notification, u)\<rparr>" "()" MethodResponse_notification "()" BatchUnlimited
    "\<lambda>_. Some ''7''" "\<lambda>_. None" "[''/h'' \<mapsto> ''m'']"]
  by (simp add: limits_ref example_get_def read_header_content_length_def read_header_value_def get_all_def expect_raw_def) blast

end
