(* ===== verification/Rpc_Macro.thy ===== *)
theory Rpc_Macro
  imports Prelude
begin

text \<open>
  The attribute macro \<open>rpc\<close> (\<open>proc-macros/src\<close>): reading and checking of the trait it is applied to.
  \<open>attributes.rs\<close> splits the arguments of attributes, \<open>rpc_macro.rs\<close> makes a description of the methods and
  subscriptions, \<open>visitor.rs\<close> and \<open>helpers.rs\<close> look through types.

  The syntax trees of \<open>syn\<close> are datatypes with the parts the macro looks at. Token streams are lists of
  tokens, where a group with its delimiter is one token. \<open>SynError\<close> is an error that \<open>syn\<close> itself
  reports, \<open>Message\<close> one with a text of the macro.
\<close>

section \<open>Syntax trees\<close>

datatype token = TIdent string | TLitStr string | TPunct char | TGroup char "token list" | TOther string

datatype MacroError = SynError | Message string

datatype rust_type =
    TyArray rust_type
  | TyBareFn "rust_type list" "rust_type option"
  | TyGroup rust_type
  | TyImplTrait "type_bound list"
  | TyMacro rust_path
  | TyParen rust_type
  | TyPath "rust_type option" rust_path
  | TyPtr rust_type
  | TyReference rust_type
  | TySlice rust_type
  | TyTraitObject "type_bound list"
  | TyTuple "rust_type list"
  | TyOther
and rust_path = Path bool "segment list"
and segment = Segment string path_args
and path_args = NoArgs | AngleBracketed "generic_arg list" | Parenthesized "rust_type list" "rust_type option"
and generic_arg = ArgType rust_type | ArgAssocType string rust_type | ArgOther
and type_bound = TraitBound rust_path | OtherBound

text \<open>\<open>MetaNameValue\<close> has the value of a string literal; attributes of a single identifier are known by it.\<close>

datatype Meta = MetaPath | MetaList "token list" | MetaNameValue "string option"

record Attribute =
  at_path :: string
  at_meta :: Meta

datatype Pat = PatIdent string | PatWild | PatOther string

datatype FnArg = Receiver | Typed Pat "Attribute list" rust_type

record TraitFn =
  tf_attrs :: "Attribute list"
  tf_ident :: string
  tf_async :: bool
  tf_type_params :: "string list"
  tf_inputs :: "FnArg list"
  tf_output :: "rust_type option"

datatype TraitItem = ItemFn TraitFn | ItemOther

text \<open>Bounds of predicates are texts.\<close>

datatype where_predicate = WhereType rust_type "string list" | WhereOther string

record ItemTrait =
  it_ident :: string
  it_attrs :: "Attribute list"
  it_type_params :: "string list"
  it_where :: "where_predicate list option"
  it_items :: "TraitItem list"

text \<open>\<open>?\<close> on results, and on results of code that may panic.\<close>

definition and_then :: "('a, 'e) result \<Rightarrow> ('a \<Rightarrow> ('b, 'e) result) \<Rightarrow> ('b, 'e) result" where
  "and_then r f = (case r of Inl e \<Rightarrow> Err e | Inr a \<Rightarrow> f a)"

definition and_then_outcome :: "('a, 'e) result outcome \<Rightarrow> ('a \<Rightarrow> ('b, 'e) result outcome) \<Rightarrow> ('b, 'e) result outcome" where
  "and_then_outcome r f = (case r of Panicked \<Rightarrow> Panicked | Done (Inl e) \<Rightarrow> Done (Err e) | Done (Inr a) \<Rightarrow> f a)"

lemma and_then_Ok [simp]: "and_then r f = Inr b \<longleftrightarrow> (\<exists>a. r = Inr a \<and> f a = Inr b)"
  by (cases r) (simp_all add: and_then_def)

lemma and_then_outcome_Ok [simp]: "and_then_outcome r f = Done (Inr b) \<longleftrightarrow> (\<exists>a. r = Done (Inr a) \<and> f a = Done (Inr b))"
  by (cases r) (auto simp: and_then_outcome_def split: sum.splits)

section \<open>Arguments of attributes (attributes.rs)\<close>

record Argument =
  ar_label :: string
  ar_tokens :: "token list"

text \<open>The tokens up to a comma outside angle brackets.\<close>

fun argument_tokens :: "nat \<Rightarrow> token list \<Rightarrow> token list \<times> token list" where
  "argument_tokens scope [] = ([], [])"
| "argument_tokens scope (t # ts) =
     (if scope = 0 \<and> t = TPunct (CHR '','') then ([], t # ts)
      else let scope' = (if t = TPunct (CHR ''<'') then scope + 1
                         else if t = TPunct (CHR ''>'') then scope - 1 else scope);
               (a, rest) = argument_tokens scope' ts
           in (t # a, rest))"

lemma argument_tokens_split: "argument_tokens n ts = (a, rest) \<Longrightarrow> ts = a @ rest \<and> (rest = [] \<or> hd rest = TPunct (CHR '',''))"
  by (induction n ts arbitrary: a rest rule: argument_tokens.induct) (auto simp: Let_def split: if_splits prod.splits)

definition Argument_parse :: "token list \<Rightarrow> (Argument \<times> token list, MacroError) result" where
  "Argument_parse ts = (case ts of
       TIdent label # rest \<Rightarrow> (let (a, rest') = argument_tokens 0 rest in Ok (\<lparr>ar_label = label, ar_tokens = a\<rparr>, rest'))
     | _ \<Rightarrow> Err SynError)"

lemma Argument_parse_shorter:
  assumes "Argument_parse ts = Inr (a, c # rest)"
  shows "length rest < length ts"
proof -
  from assms obtain label ts' where ts: "ts = TIdent label # ts'" "snd (argument_tokens 0 ts') = c # rest"
    by (auto simp: Argument_parse_def Let_def split: list.splits token.splits prod.splits)
  with argument_tokens_split [of 0 ts' "fst (argument_tokens 0 ts')" "c # rest"] have "ts' = fst (argument_tokens 0 ts') @ c # rest"
    by (metis prod.collapse)
  then have "length ts' = length (fst (argument_tokens 0 ts')) + Suc (length rest)" by (metis length_append length_Cons)
  with ts(1) show ?thesis by simp
qed

text \<open>\<open>parse_terminated\<close> at a comma: elements, each but the last followed by a comma.\<close>

function parse_arguments :: "token list \<Rightarrow> (Argument list, MacroError) result" where
  "parse_arguments ts = (if ts = [] then Ok []
     else case Argument_parse ts of
       Inl e \<Rightarrow> Err e
     | Inr (a, []) \<Rightarrow> Ok [a]
     | Inr (a, c # rest) \<Rightarrow> and_then (parse_arguments rest) (\<lambda>as. Ok (a # as)))"
  by pat_completeness auto
termination
  by (relation "measure length") (auto dest: Argument_parse_shorter)

declare parse_arguments.simps [simp del]

text \<open>\<open>parse_args_with\<close> wants a list in parentheses.\<close>

definition AttributeMeta_parse :: "Attribute \<Rightarrow> (Argument list, MacroError) result" where
  "AttributeMeta_parse attr = (case at_meta attr of MetaList ts \<Rightarrow> parse_arguments ts | _ \<Rightarrow> Err SynError)"

fun position :: "('a \<Rightarrow> bool) \<Rightarrow> 'a list \<Rightarrow> nat option" where
  "position P [] = None"
| "position P (x # xs) = (if P x then Some 0 else map_option Suc (position P xs))"

definition backquoted :: "string \<Rightarrow> string" where
  "backquoted s = [CHR 0x60] @ s @ [CHR 0x60]"

definition quoted :: "string \<Rightarrow> string" where
  "quoted s = [CHR 0x27] @ s @ [CHR 0x27]"

definition unknown_argument :: "string list \<Rightarrow> string \<Rightarrow> MacroError" where
  "unknown_argument allowed label = Message (''Unknown argument '' @ backquoted label @ '', expected one of: '' @
     backquoted (hd allowed @ concat (map (\<lambda>l. [CHR 0x60] @ '', '' @ [CHR 0x60] @ l) (tl allowed))))"

text \<open>\<open>retain\<close>: an argument per allowed name; a name that is missing stays \<open>None\<close> (\<open>MissingArgument\<close>). All callers pass names.\<close>

fun retain_loop :: "string list \<Rightarrow> Argument list \<Rightarrow> Argument option list \<Rightarrow> (Argument option list, MacroError) result" where
  "retain_loop allowed [] result = Ok result"
| "retain_loop allowed (a # as) result = (case position (\<lambda>probe. ar_label a = probe) allowed of
     None \<Rightarrow> Err (unknown_argument allowed (ar_label a))
   | Some idx \<Rightarrow> (case result ! idx of
       Some old \<Rightarrow> Err (Message (''Duplicate argument '' @ backquoted (ar_label old)))
     | None \<Rightarrow> retain_loop allowed as (result[idx := Some a])))"

definition retain :: "string list \<Rightarrow> Argument list \<Rightarrow> (Argument option list, MacroError) result" where
  "retain allowed args = retain_loop allowed args (replicate (length allowed) None)"

definition MissingArgument :: "string \<Rightarrow> MacroError" where
  "MissingArgument name = Message (''Missing argument '' @ backquoted name)"

definition required :: "string \<Rightarrow> Argument option \<Rightarrow> (Argument, MacroError) result" where
  "required name a = (case a of None \<Rightarrow> Err (MissingArgument name) | Some x \<Rightarrow> Ok x)"

definition Argument_flag :: "Argument \<Rightarrow> (unit, MacroError) result" where
  "Argument_flag a = (if ar_tokens a = [] then Ok () else Err (Message ''Expected a flag argument''))"

text \<open>\<open>parse\<close> reads all remaining tokens.\<close>

definition Argument_value :: "(token list \<Rightarrow> ('t, MacroError) result) \<Rightarrow> Argument \<Rightarrow> ('t, MacroError) result" where
  "Argument_value parse a = (case ar_tokens a of
       TPunct c # ts \<Rightarrow> if c = CHR ''='' then parse ts else Err SynError
     | _ \<Rightarrow> Err SynError)"

definition Argument_group :: "(token list \<Rightarrow> ('t list, MacroError) result) \<Rightarrow> Argument \<Rightarrow> ('t list, MacroError) result" where
  "Argument_group parse_terminated a = (case ar_tokens a of
       [TGroup c ts] \<Rightarrow> if c = CHR ''('' then parse_terminated ts else Err SynError
     | _ \<Rightarrow> Err SynError)"

fun parse_lit :: "token list \<Rightarrow> (string, MacroError) result" where
  "parse_lit [TLitStr s] = Ok s"
| "parse_lit _ = Err SynError"

fun parse_ident :: "token list \<Rightarrow> (string, MacroError) result" where
  "parse_ident [TIdent s] = Ok s"
| "parse_ident _ = Err SynError"

definition Argument_string :: "Argument \<Rightarrow> (string, MacroError) result" where
  "Argument_string a = Argument_value parse_lit a"

record NameMapping =
  nm_name :: string
  nm_mapped :: "string option"

definition NameMapping_parse :: "token list \<Rightarrow> (NameMapping, MacroError) result" where
  "NameMapping_parse ts = (case ts of
       [TLitStr name] \<Rightarrow> Ok \<lparr>nm_name = name, nm_mapped = None\<rparr>
     | [TLitStr name, p, q, TLitStr mapped] \<Rightarrow>
         if p = TPunct (CHR ''='') \<and> q = TPunct (CHR ''>'') then Ok \<lparr>nm_name = name, nm_mapped = Some mapped\<rparr> else Err SynError
     | _ \<Rightarrow> Err SynError)"

text \<open>\<open>Bracketed<LitStr>\<close>.\<close>

fun parse_lits :: "token list \<Rightarrow> (string list, MacroError) result" where
  "parse_lits [] = Ok []"
| "parse_lits [TLitStr s] = Ok [s]"
| "parse_lits (TLitStr s # c # ts) =
     (if c = TPunct (CHR '','') then and_then (parse_lits ts) (\<lambda>ss. Ok (s # ss)) else Err SynError)"
| "parse_lits _ = Err SynError"

definition Aliases_parse :: "token list \<Rightarrow> (string list, MacroError) result" where
  "Aliases_parse ts = (case ts of
       [TGroup c content] \<Rightarrow> if c = CHR ''['' then parse_lits content else Err SynError
     | _ \<Rightarrow> Err SynError)"

definition optional_arg :: "Argument option \<Rightarrow> (Argument \<Rightarrow> ('t, MacroError) result) \<Rightarrow> ('t option, MacroError) result" where
  "optional_arg arg transform = (case arg of None \<Rightarrow> Ok None | Some a \<Rightarrow> and_then (transform a) (\<lambda>t. Ok (Some t)))"

datatype ParamKind = KindArray | KindMap | KindObject

definition parse_param_kind :: "Argument option \<Rightarrow> (ParamKind, MacroError) result" where
  "parse_param_kind arg = and_then (optional_arg arg (Argument_value parse_ident)) (\<lambda>kind. case kind of
       None \<Rightarrow> Ok KindArray
     | Some i \<Rightarrow> if i = ''array'' then Ok KindArray else if i = ''map'' then Ok KindMap
         else if i = ''object'' then Ok KindObject
         else Err (Message (''param_kind must be either '' @ backquoted ''array'' @ '', '' @ backquoted ''map'' @ '', or '' @ backquoted ''object'')))"

section \<open>The description of a trait (rpc\_macro.rs)\<close>

definition find_attr :: "Attribute list \<Rightarrow> string \<Rightarrow> Attribute option" where
  "find_attr attrs ident = List.find (\<lambda>a. at_path a = ident) attrs"

definition parse_aliases :: "Argument option \<Rightarrow> (string list, MacroError) result" where
  "parse_aliases arg = and_then (optional_arg arg (Argument_value Aliases_parse)) (\<lambda>aliases.
     Ok (case aliases of None \<Rightarrow> [] | Some l \<Rightarrow> l))"

definition parse_subscribe :: "Argument option \<Rightarrow> (string option, MacroError) result" where
  "parse_subscribe arg = optional_arg arg Argument_string"

definition build_unsubscribe_method :: "string \<Rightarrow> string option" where
  "build_unsubscribe_method method =
     (let p = ''subscribe'' in
      if take (length p) method = p then Some (''unsubscribe'' @ drop (length p) method) else None)"

record RpcFnArg =
  arg_pat :: string
  rename_to :: "string option"
  arg_ty :: rust_type

definition RpcFnArg_from_arg_attrs ::
  "string \<Rightarrow> rust_type \<Rightarrow> Attribute list \<Rightarrow> (RpcFnArg \<times> Attribute list, MacroError) result" where
  "RpcFnArg_from_arg_attrs pat ty attrs =
     and_then (case find_attr attrs ''argument'' of
         None \<Rightarrow> Ok None
       | Some attr \<Rightarrow> and_then (AttributeMeta_parse attr) (\<lambda>args. and_then (retain [''rename''] args) (\<lambda>r.
           optional_arg (r ! 0) Argument_string)))
       (\<lambda>rename. Ok (\<lparr>arg_pat = pat, rename_to = rename, arg_ty = ty\<rparr>,
          filter (\<lambda>attr. at_path attr \<noteq> ''argument'') attrs))"

definition RpcFnArg_name :: "RpcFnArg \<Rightarrow> string" where
  "RpcFnArg_name a = (case rename_to a of Some r \<Rightarrow> r | None \<Rightarrow> arg_pat a)"

text \<open>The arguments of a method and its inputs without the attribute \<open>argument\<close>.\<close>

fun method_params :: "FnArg list \<Rightarrow> (RpcFnArg list \<times> FnArg list, MacroError) result" where
  "method_params [] = Ok ([], [])"
| "method_params (Receiver # as) = and_then (method_params as) (\<lambda>(ps, ins). Ok (ps, Receiver # ins))"
| "method_params (Typed (PatIdent name) attrs ty # as) =
     and_then (RpcFnArg_from_arg_attrs name ty attrs) (\<lambda>(p, attrs').
       and_then (method_params as) (\<lambda>(ps, ins). Ok (p # ps, Typed (PatIdent name) attrs' ty # ins)))"
| "method_params (Typed PatWild attrs ty # as) =
     Err (Message (''Method argument names must be valid Rust identifiers; got '' @ backquoted ''_'' @ '' instead''))"
| "method_params (Typed (PatOther debug) attrs ty # as) =
     Err (Message (''Unexpected method signature input; got '' @ debug @ '' ''))"

fun subscription_params :: "FnArg list \<Rightarrow> (RpcFnArg list \<times> FnArg list, MacroError) result outcome" where
  "subscription_params [] = Done (Ok ([], []))"
| "subscription_params (Receiver # as) =
     and_then_outcome (subscription_params as) (\<lambda>(ps, ins). Done (Ok (ps, Receiver # ins)))"
| "subscription_params (Typed (PatIdent name) attrs ty # as) =
     and_then_outcome (Done (RpcFnArg_from_arg_attrs name ty attrs)) (\<lambda>(p, attrs').
       and_then_outcome (subscription_params as) (\<lambda>(ps, ins). Done (Ok (p # ps, Typed (PatIdent name) attrs' ty # ins))))"
| "subscription_params (Typed _ attrs ty # as) = Panicked"

text \<open>Attributes with documentation.\<close>

definition extract_doc_comments :: "Attribute list \<Rightarrow> Attribute list" where
  "extract_doc_comments attrs = filter (\<lambda>attr. case at_meta attr of
       MetaNameValue (Some _) \<Rightarrow> at_path attr = ''doc'' | _ \<Rightarrow> False) attrs"

record RpcMethod =
  me_name :: string
  me_blocking :: bool
  me_docs :: "Attribute list"
  me_deprecated :: "Attribute option"
  me_params :: "RpcFnArg list"
  me_param_kind :: ParamKind
  me_returns :: "rust_type option"
  me_signature :: TraitFn
  me_aliases :: "string list"
  me_with_extensions :: bool

definition object_error :: MacroError where
  "object_error = Message ''param_kind = object can only be used with exactly one parameter''"

definition RpcMethod_from_item :: "Attribute \<Rightarrow> TraitFn \<Rightarrow> (RpcMethod, MacroError) result" where
  "RpcMethod_from_item attr method =
     and_then (AttributeMeta_parse attr) (\<lambda>args.
     and_then (retain [''aliases'', ''blocking'', ''name'', ''param_kind'', ''with_extensions''] args) (\<lambda>r.
     and_then (parse_aliases (r ! 0)) (\<lambda>aliases.
     and_then (optional_arg (r ! 1) Argument_flag) (\<lambda>blocking.
     and_then (and_then (required ''name'' (r ! 2)) Argument_string) (\<lambda>name.
     and_then (parse_param_kind (r ! 3)) (\<lambda>kind.
     and_then (optional_arg (r ! 4) Argument_flag) (\<lambda>ext.
       if blocking \<noteq> None \<and> tf_async method then Err (Message ''Blocking method must be synchronous'')
       else and_then (method_params (tf_inputs method)) (\<lambda>(params, inputs).
         if kind = KindObject \<and> length params \<noteq> 1 then Err object_error
         else Ok \<lparr>me_name = name, me_blocking = blocking \<noteq> None, me_docs = extract_doc_comments (tf_attrs method),
                me_deprecated = find_attr (tf_attrs method) ''deprecated'', me_params = params, me_param_kind = kind,
                me_returns = tf_output method, me_signature = method\<lparr>tf_inputs := inputs, tf_attrs := []\<rparr>,
                me_aliases = aliases, me_with_extensions = ext \<noteq> None\<rparr>))))))))"

record RpcSubscription =
  su_name :: string
  su_notif_name_override :: "string option"
  su_docs :: "Attribute list"
  su_unsubscribe :: string
  su_params :: "RpcFnArg list"
  su_param_kind :: ParamKind
  su_item :: rust_type
  su_signature :: TraitFn
  su_aliases :: "string list"
  su_unsubscribe_aliases :: "string list"
  su_with_extensions :: bool

text \<open>\<open>parse_type\<close> and \<open>parse_predicates\<close> are the parsers of types and of predicates separated by commas.\<close>

definition subscription_unsubscribe :: "Argument option \<Rightarrow> string \<Rightarrow> (string, MacroError) result outcome" where
  "subscription_unsubscribe unsubscribe name = (case parse_subscribe unsubscribe of
       Inl e \<Rightarrow> Done (Err e)
     | Inr (Some unsub) \<Rightarrow> Done (Ok unsub)
     | Inr None \<Rightarrow> (case build_unsubscribe_method name of Some unsub \<Rightarrow> Done (Ok unsub) | None \<Rightarrow> Panicked))"

definition RpcSubscription_from_item ::
  "(token list \<Rightarrow> (rust_type, MacroError) result) \<Rightarrow> Attribute \<Rightarrow> TraitFn \<Rightarrow> (RpcSubscription, MacroError) result outcome" where
  "RpcSubscription_from_item parse_type attr sub =
     and_then_outcome (Done (
       and_then (AttributeMeta_parse attr) (\<lambda>args.
       and_then (retain [''aliases'', ''item'', ''name'', ''param_kind'', ''unsubscribe'', ''unsubscribe_aliases'',
                         ''with_extensions''] args) (\<lambda>r.
       and_then (parse_aliases (r ! 0)) (\<lambda>aliases.
       and_then (and_then (required ''name'' (r ! 2)) (Argument_value NameMapping_parse)) (\<lambda>mapping.
       and_then (and_then (required ''item'' (r ! 1)) (Argument_value parse_type)) (\<lambda>item.
       and_then (parse_param_kind (r ! 3)) (\<lambda>kind.
       and_then (parse_aliases (r ! 5)) (\<lambda>unsub_aliases.
       and_then (optional_arg (r ! 6) Argument_flag) (\<lambda>ext.
         Ok (r ! 4, aliases, mapping, item, kind, unsub_aliases, ext)))))))))))
     (\<lambda>(unsubscribe, aliases, mapping, item, kind, unsub_aliases, ext).
       and_then_outcome (subscription_unsubscribe unsubscribe (nm_name mapping)) (\<lambda>unsub.
       and_then_outcome (subscription_params (tf_inputs sub)) (\<lambda>(params, inputs).
         Done (if kind = KindObject \<and> length params \<noteq> 1 then Err object_error
           else Ok \<lparr>su_name = nm_name mapping, su_notif_name_override = nm_mapped mapping,
                  su_docs = extract_doc_comments (tf_attrs sub), su_unsubscribe = unsub, su_params = params,
                  su_param_kind = kind, su_item = item, su_signature = sub\<lparr>tf_inputs := inputs, tf_attrs := []\<rparr>,
                  su_aliases = aliases, su_unsubscribe_aliases = unsub_aliases, su_with_extensions = ext \<noteq> None\<rparr>))))"

text \<open>\<open>crate_name\<close> of the package \<open>proc-macro-crate\<close> looks a dependency up; its errors are texts.\<close>

datatype FoundCrate = FoundItself | FoundName string

type_synonym crate_lookup = "string \<Rightarrow> (FoundCrate, string) result"

fun find_crate_loop :: "crate_lookup \<Rightarrow> string list \<Rightarrow> MacroError option \<Rightarrow> (string, MacroError) result outcome" where
  "find_crate_loop crate_name [] err = (case err of Some e \<Rightarrow> Done (Err e) | None \<Rightarrow> Panicked)"
| "find_crate_loop crate_name (name # names) err = (case crate_name name of
     Inr (FoundName n) \<Rightarrow> Done (Ok n)
   | Inr FoundItself \<Rightarrow> find_crate_loop crate_name names
       (Some (Message (''Deriving rpc methods in any of the '' @ backquoted ''jsonrpsee'' @ '' crates is not supported'')))
   | Inl e \<Rightarrow> find_crate_loop crate_name names (Some (Message e)))"

definition find_jsonrpsee_crate :: "crate_lookup \<Rightarrow> string list \<Rightarrow> (string, MacroError) result outcome" where
  "find_jsonrpsee_crate crate_name crate_names = (case crate_name ''jsonrpsee'' of
       Inr (FoundName name) \<Rightarrow> Done (Ok name)
     | Inr FoundItself \<Rightarrow> Panicked
     | Inl _ \<Rightarrow> find_crate_loop crate_name crate_names None)"

definition find_jsonrpsee_client_crate :: "crate_lookup \<Rightarrow> (string, MacroError) result outcome" where
  "find_jsonrpsee_client_crate crate_name =
     find_jsonrpsee_crate crate_name [''jsonrpsee-http-client'', ''jsonrpsee-ws-client'', ''jsonrpsee-wasm-client'']"

definition find_jsonrpsee_server_crate :: "crate_lookup \<Rightarrow> (string, MacroError) result outcome" where
  "find_jsonrpsee_server_crate crate_name = find_jsonrpsee_crate crate_name [''jsonrpsee-server'']"

text \<open>\<open>ok()\<close>\<close>

definition crate_ok :: "(string, MacroError) result outcome \<Rightarrow> (string option, MacroError) result outcome" where
  "crate_ok r = (case r of Panicked \<Rightarrow> Panicked | Done (Inr n) \<Rightarrow> Done (Ok (Some n)) | Done (Inl _) \<Rightarrow> Done (Ok None))"

record RpcDescription =
  jsonrpsee_client_path :: "string option"
  jsonrpsee_server_path :: "string option"
  needs_server :: bool
  needs_client :: bool
  namespace :: "string option"
  namespace_separator :: "string option"
  trait_def :: ItemTrait
  de_methods :: "RpcMethod list"
  de_subscriptions :: "RpcSubscription list"
  client_bounds :: "where_predicate list option"
  server_bounds :: "where_predicate list option"

text \<open>One function of the trait: a method or a subscription.\<close>

definition trait_fn_entry ::
  "(token list \<Rightarrow> (rust_type, MacroError) result) \<Rightarrow> TraitFn \<Rightarrow> (RpcMethod + RpcSubscription, MacroError) result outcome" where
  "trait_fn_entry parse_type f =
     (if take 1 (tf_inputs f) \<noteq> [Receiver]
      then Done (Err (Message (''First argument of the trait must be '' @ quoted ''&self'')))
      else case find_attr (tf_attrs f) ''method'' of
        Some attr \<Rightarrow> Done (and_then (RpcMethod_from_item attr f) (\<lambda>method.
          if find_attr (tf_attrs f) ''subscription'' \<noteq> None
          then Err (Message ''Element cannot be both subscription and method at the same time'')
          else Ok (Inl method)))
      | None \<Rightarrow> (case find_attr (tf_attrs f) ''subscription'' of
          Some attr \<Rightarrow> and_then_outcome (RpcSubscription_from_item parse_type attr f) (\<lambda>sub. Done (Ok (Inr sub)))
        | None \<Rightarrow> Done (Err (Message (''Methods must have either '' @ quoted ''method'' @ '' or '' @
            quoted ''subscription'' @ '' attribute'')))))"

fun collect_items ::
  "(token list \<Rightarrow> (rust_type, MacroError) result) \<Rightarrow> TraitItem list \<Rightarrow> RpcMethod list \<Rightarrow> RpcSubscription list \<Rightarrow>
     (RpcMethod list \<times> RpcSubscription list, MacroError) result outcome"
where
  "collect_items parse_type [] methods subs = Done (Ok (methods, subs))"
| "collect_items parse_type (ItemOther # items) methods subs = Done (Err (Message ''Only methods allowed in RPC traits''))"
| "collect_items parse_type (ItemFn f # items) methods subs =
     and_then_outcome (trait_fn_entry parse_type f) (\<lambda>entry. case entry of
       Inl m \<Rightarrow> collect_items parse_type items (methods @ [m]) subs
     | Inr s \<Rightarrow> collect_items parse_type items methods (subs @ [s]))"

text \<open>The checks on the attribute of the trait itself.\<close>

definition bounds_attr ::
  "(token list \<Rightarrow> (where_predicate list, MacroError) result) \<Rightarrow> Attribute \<Rightarrow> (RpcDescription, MacroError) result" where
  "bounds_attr parse_predicates attr =
     and_then (AttributeMeta_parse attr) (\<lambda>args.
     and_then (retain [''client'', ''server'', ''namespace'', ''namespace_separator'', ''client_bounds'', ''server_bounds''] args) (\<lambda>r.
     and_then (optional_arg (r ! 1) Argument_flag) (\<lambda>server.
     and_then (optional_arg (r ! 0) Argument_flag) (\<lambda>client.
     and_then (optional_arg (r ! 2) Argument_string) (\<lambda>ns.
     and_then (optional_arg (r ! 3) Argument_string) (\<lambda>sep.
     and_then (optional_arg (r ! 4) (Argument_group parse_predicates)) (\<lambda>cb.
     and_then (optional_arg (r ! 5) (Argument_group parse_predicates)) (\<lambda>sb.
       if server = None \<and> client = None
       then Err (Message (''Either '' @ quoted ''server'' @ '' or '' @ quoted ''client'' @ '' attribute must be applied''))
       else if cb \<noteq> None \<and> client = None
       then Err (Message (''Attribute '' @ quoted ''client'' @ '' must be specified with '' @ quoted ''client_bounds''))
       else if sb \<noteq> None \<and> server = None
       then Err (Message (''Attribute '' @ quoted ''server'' @ '' must be specified with '' @ quoted ''server_bounds''))
       else Ok \<lparr>jsonrpsee_client_path = None, jsonrpsee_server_path = None, needs_server = server \<noteq> None,
              needs_client = client \<noteq> None, namespace = ns, namespace_separator = sep,
              trait_def = \<lparr>it_ident = [], it_attrs = [], it_type_params = [], it_where = None, it_items = []\<rparr>,
              de_methods = [], de_subscriptions = [], client_bounds = cb, server_bounds = sb\<rparr>))))))))"

definition RpcDescription_from_item ::
  "crate_lookup \<Rightarrow> (token list \<Rightarrow> (rust_type, MacroError) result) \<Rightarrow>
     (token list \<Rightarrow> (where_predicate list, MacroError) result) \<Rightarrow> Attribute \<Rightarrow> ItemTrait \<Rightarrow>
     (RpcDescription, MacroError) result outcome"
where
  "RpcDescription_from_item crate_name parse_type parse_predicates attr item =
     and_then_outcome (Done (bounds_attr parse_predicates attr)) (\<lambda>d.
     and_then_outcome (crate_ok (find_jsonrpsee_client_crate crate_name)) (\<lambda>client_path.
     and_then_outcome (crate_ok (find_jsonrpsee_server_crate crate_name)) (\<lambda>server_path.
       if needs_client d \<and> client_path = None
       then Done (Err (Message (''Unable to locate '' @ quoted ''jsonrpsee'' @ '' client dependency'')))
       else if needs_server d \<and> server_path = None
       then Done (Err (Message (''Unable to locate '' @ quoted ''jsonrpsee'' @ '' server dependency'')))
       else and_then_outcome (collect_items parse_type (it_items item) [] []) (\<lambda>(methods, subs).
         Done (if methods = [] \<and> subs = [] then Err (Message ''RPC cannot be empty'')
           else Ok (d\<lparr>jsonrpsee_client_path := client_path, jsonrpsee_server_path := server_path,
                  trait_def := item\<lparr>it_attrs := []\<rparr>, de_methods := methods, de_subscriptions := subs\<rparr>))))))"

definition rpc_identifier :: "RpcDescription \<Rightarrow> string \<Rightarrow> string" where
  "rpc_identifier d method = (case namespace d of
       Some ns \<Rightarrow> ns @ (case namespace_separator d of Some sep \<Rightarrow> sep | None \<Rightarrow> ''_'') @ method
     | None \<Rightarrow> method)"

section \<open>Looking through types (visitor.rs, helpers.rs)\<close>

text \<open>
  \<open>FindSubscriptionParams\<close>: the generic parameters of the trait (\<open>all_type_params\<close>) that occur as paths in a type.
\<close>

fun visit_type :: "string set \<Rightarrow> rust_type \<Rightarrow> string set"
  and visit_types :: "string set \<Rightarrow> rust_type list \<Rightarrow> string set"
  and visit_return_type :: "string set \<Rightarrow> rust_type option \<Rightarrow> string set"
  and visit_path :: "string set \<Rightarrow> rust_path \<Rightarrow> string set"
  and visit_path_segments :: "string set \<Rightarrow> segment list \<Rightarrow> string set"
  and visit_path_arguments :: "string set \<Rightarrow> path_args \<Rightarrow> string set"
  and visit_generic_args :: "string set \<Rightarrow> generic_arg list \<Rightarrow> string set"
  and visit_type_param_bounds :: "string set \<Rightarrow> type_bound list \<Rightarrow> string set"
where
  "visit_type all (TyArray ty) = visit_type all ty"
| "visit_type all (TyBareFn inputs output) = visit_types all inputs \<union> visit_return_type all output"
| "visit_type all (TyGroup ty) = visit_type all ty"
| "visit_type all (TyImplTrait bounds) = visit_type_param_bounds all bounds"
| "visit_type all (TyMacro mac) = {}"
| "visit_type all (TyParen ty) = visit_type all ty"
| "visit_type all (TyPath qself path) = visit_return_type all qself \<union> visit_path all path"
| "visit_type all (TyPtr ty) = visit_type all ty"
| "visit_type all (TyReference ty) = visit_type all ty"
| "visit_type all (TySlice ty) = visit_type all ty"
| "visit_type all (TyTraitObject bounds) = visit_type_param_bounds all bounds"
| "visit_type all (TyTuple elems) = visit_types all elems"
| "visit_type all TyOther = {}"
| "visit_types all [] = {}"
| "visit_types all (ty # tys) = visit_type all ty \<union> visit_types all tys"
| "visit_return_type all None = {}"
| "visit_return_type all (Some output) = visit_type all output"
| "visit_path all (Path leading_colon segments) =
     (case segments of
        [Segment ident _] \<Rightarrow> if \<not> leading_colon \<and> ident \<in> all then {ident} else {}
      | _ \<Rightarrow> {}) \<union> visit_path_segments all segments"
| "visit_path_segments all [] = {}"
| "visit_path_segments all (Segment _ arguments # segments) =
     visit_path_arguments all arguments \<union> visit_path_segments all segments"
| "visit_path_arguments all NoArgs = {}"
| "visit_path_arguments all (AngleBracketed args) = visit_generic_args all args"
| "visit_path_arguments all (Parenthesized inputs output) = visit_types all inputs \<union> visit_return_type all output"
| "visit_generic_args all [] = {}"
| "visit_generic_args all (ArgType ty # args) = visit_type all ty \<union> visit_generic_args all args"
| "visit_generic_args all (ArgAssocType _ ty # args) = visit_type all ty \<union> visit_generic_args all args"
| "visit_generic_args all (ArgOther # args) = visit_generic_args all args"
| "visit_type_param_bounds all [] = {}"
| "visit_type_param_bounds all (TraitBound path # bounds) = visit_path all path \<union> visit_type_param_bounds all bounds"
| "visit_type_param_bounds all (OtherBound # bounds) = visit_type_param_bounds all bounds"

definition FindSubscriptionParams_visit :: "string set \<Rightarrow> rust_type list \<Rightarrow> string set" where
  "FindSubscriptionParams_visit all_type_params tys = visit_types all_type_params tys"

text \<open>
  \<open>FindAllParams\<close> goes through the whole trait with the traversal of \<open>syn::visit\<close>, which hands every identifier to
  \<open>visit_ident\<close>. Lifetimes, constant expressions and the names of arguments in bare function types are left out.
\<close>

record FindAllParams =
  fp_trait_generics :: "string set"
  fp_input_params :: "string set"
  fp_ret_params :: "string set"
  fp_sub_params :: "string set"
  fp_visiting_return_type :: bool
  fp_visiting_fn_arg :: bool

definition FindAllParams_new :: "string set \<Rightarrow> FindAllParams" where
  "FindAllParams_new sub_params = \<lparr>fp_trait_generics = {}, fp_input_params = {}, fp_ret_params = {},
     fp_sub_params = sub_params, fp_visiting_return_type = False, fp_visiting_fn_arg = False\<rparr>"

definition visit_type_param :: "string \<Rightarrow> FindAllParams \<Rightarrow> FindAllParams" where
  "visit_type_param ident v = v\<lparr>fp_trait_generics := insert ident (fp_trait_generics v)\<rparr>"

definition visit_ident :: "string \<Rightarrow> FindAllParams \<Rightarrow> FindAllParams" where
  "visit_ident ident v =
     (if ident \<notin> fp_trait_generics v then v
      else v\<lparr>fp_ret_params := (if fp_visiting_return_type v then insert ident (fp_ret_params v) else fp_ret_params v),
             fp_input_params := (if fp_visiting_fn_arg v then insert ident (fp_input_params v) else fp_input_params v)\<rparr>)"

fun all_type :: "rust_type \<Rightarrow> FindAllParams \<Rightarrow> FindAllParams"
  and all_types :: "rust_type list \<Rightarrow> FindAllParams \<Rightarrow> FindAllParams"
  and all_qself :: "rust_type option \<Rightarrow> FindAllParams \<Rightarrow> FindAllParams"
  and all_return_type :: "rust_type option \<Rightarrow> FindAllParams \<Rightarrow> FindAllParams"
  and all_path :: "rust_path \<Rightarrow> FindAllParams \<Rightarrow> FindAllParams"
  and all_segments :: "segment list \<Rightarrow> FindAllParams \<Rightarrow> FindAllParams"
  and all_path_arguments :: "path_args \<Rightarrow> FindAllParams \<Rightarrow> FindAllParams"
  and all_generic_args :: "generic_arg list \<Rightarrow> FindAllParams \<Rightarrow> FindAllParams"
  and all_bounds :: "type_bound list \<Rightarrow> FindAllParams \<Rightarrow> FindAllParams"
where
  "all_type (TyArray ty) v = all_type ty v"
| "all_type (TyBareFn inputs output) v = all_return_type output (all_types inputs v)"
| "all_type (TyGroup ty) v = all_type ty v"
| "all_type (TyImplTrait bounds) v = all_bounds bounds v"
| "all_type (TyMacro mac) v = all_path mac v"
| "all_type (TyParen ty) v = all_type ty v"
| "all_type (TyPath qself path) v = all_path path (all_qself qself v)"
| "all_type (TyPtr ty) v = all_type ty v"
| "all_type (TyReference ty) v = all_type ty v"
| "all_type (TySlice ty) v = all_type ty v"
| "all_type (TyTraitObject bounds) v = all_bounds bounds v"
| "all_type (TyTuple elems) v = all_types elems v"
| "all_type TyOther v = v"
| "all_types [] v = v"
| "all_types (ty # tys) v = all_types tys (all_type ty v)"
| "all_qself None v = v"
| "all_qself (Some ty) v = all_type ty v"
| "all_return_type None v = v\<lparr>fp_visiting_return_type := False\<rparr>"
| "all_return_type (Some output) v =
     (all_type output (v\<lparr>fp_visiting_return_type := True\<rparr>))\<lparr>fp_visiting_return_type := False\<rparr>"
| "all_path (Path _ segments) v = all_segments segments v"
| "all_segments [] v = v"
| "all_segments (Segment ident arguments # segments) v =
     all_segments segments (all_path_arguments arguments (visit_ident ident v))"
| "all_path_arguments NoArgs v = v"
| "all_path_arguments (AngleBracketed args) v = all_generic_args args v"
| "all_path_arguments (Parenthesized inputs output) v = all_return_type output (all_types inputs v)"
| "all_generic_args [] v = v"
| "all_generic_args (ArgType ty # args) v = all_generic_args args (all_type ty v)"
| "all_generic_args (ArgAssocType ident ty # args) v = all_generic_args args (all_type ty (visit_ident ident v))"
| "all_generic_args (ArgOther # args) v = all_generic_args args v"
| "all_bounds [] v = v"
| "all_bounds (TraitBound path # bounds) v = all_bounds bounds (all_path path v)"
| "all_bounds (OtherBound # bounds) v = all_bounds bounds v"

fun visit_fn_arg :: "FnArg \<Rightarrow> FindAllParams \<Rightarrow> FindAllParams" where
  "visit_fn_arg Receiver v = v\<lparr>fp_visiting_fn_arg := False\<rparr>"
| "visit_fn_arg (Typed pat attrs ty) v =
     (let v1 = v\<lparr>fp_visiting_fn_arg := True\<rparr>;
          v2 = (case pat of PatIdent ident \<Rightarrow> visit_ident ident v1 | _ \<Rightarrow> v1)
      in (all_type ty v2)\<lparr>fp_visiting_fn_arg := False\<rparr>)"

definition visit_trait_item :: "TraitItem \<Rightarrow> FindAllParams \<Rightarrow> FindAllParams" where
  "visit_trait_item item v = (case item of
       ItemOther \<Rightarrow> v
     | ItemFn f \<Rightarrow> all_return_type (tf_output f) (fold visit_fn_arg (tf_inputs f)
         (fold visit_type_param (tf_type_params f) (visit_ident (tf_ident f) v))))"

definition visit_trait :: "ItemTrait \<Rightarrow> rust_type list \<Rightarrow> FindAllParams" where
  "visit_trait item sub_tys =
     (let subs = FindSubscriptionParams_visit (set (it_type_params item)) sub_tys
      in fold visit_trait_item (it_items item)
           (fold visit_type_param (it_type_params item) (visit_ident (it_ident item) (FindAllParams_new subs))))"

definition is_option :: "rust_type \<Rightarrow> bool" where
  "is_option ty = (case ty of
       TyPath _ (Path _ segments) \<Rightarrow> (case rev segments of Segment ident _ # _ \<Rightarrow> ident = ''Option'' | [] \<Rightarrow> False)
     | _ \<Rightarrow> False)"

definition ident_type :: "string \<Rightarrow> rust_type" where
  "ident_type ident = TyPath None (Path False [Segment ident NoArgs])"

definition type_param_bounds :: "FindAllParams \<Rightarrow> bool \<Rightarrow> string \<Rightarrow> string list" where
  "type_param_bounds v is_client ty = [''Send'', ''Sync'', [CHR 0x27] @ ''static''] @
     (if is_client then
        (if ty \<in> fp_input_params v then [''jsonrpsee::core::Serialize''] else []) @
        (if ty \<in> fp_ret_params v \<or> ty \<in> fp_sub_params v then [''jsonrpsee::core::DeserializeOwned''] else [])
      else
        (if ty \<in> fp_input_params v then [''jsonrpsee::core::DeserializeOwned''] else []) @
        (if ty \<in> fp_ret_params v then [''std::clone::Clone''] else []) @
        (if ty \<in> fp_ret_params v \<or> ty \<in> fp_sub_params v then [''jsonrpsee::core::Serialize''] else []))"

fun where_bounds :: "rust_type \<Rightarrow> where_predicate list \<Rightarrow> string list" where
  "where_bounds ty [] = []"
| "where_bounds ty (WhereType bounded bounds # ps) = (if bounded = ty then bounds else []) @ where_bounds ty ps"
| "where_bounds ty (WhereOther _ # ps) = where_bounds ty ps"

definition generate_where_clause ::
  "ItemTrait \<Rightarrow> rust_type list \<Rightarrow> bool \<Rightarrow> where_predicate list option \<Rightarrow> where_predicate list" where
  "generate_where_clause item sub_tys is_client bounds =
     (let visitor = visit_trait item sub_tys;
          additional = (case it_where item of None \<Rightarrow> [] | Some ps \<Rightarrow> ps)
      in case bounds of
        Some custom \<Rightarrow> additional @ custom
      | None \<Rightarrow> map (\<lambda>ty. WhereType (ident_type ty)
          (type_param_bounds visitor is_client ty @ where_bounds (ident_type ty) additional)) (it_type_params item))"

section \<open>What the macro accepts\<close>

lemma position_Some: "position P xs = Some i \<Longrightarrow> i < length xs \<and> P (xs ! i)"
  by (induction xs arbitrary: i) (auto split: if_splits)

lemma position_None: "position P xs = None \<longleftrightarrow> (\<forall>x \<in> set xs. \<not> P x)"
  by (induction xs) auto

text \<open>The argument with a name.\<close>

definition argument_named :: "Argument list \<Rightarrow> string \<Rightarrow> Argument option" where
  "argument_named args name = List.find (\<lambda>a. ar_label a = name) args"

lemma find_append: "List.find P (xs @ ys) = (case List.find P xs of None \<Rightarrow> List.find P ys | Some x \<Rightarrow> Some x)"
  by (induction xs) auto

lemma argument_named_snoc:
  "argument_named (args @ [a]) name =
     (case argument_named args name of None \<Rightarrow> (if ar_label a = name then Some a else None) | Some b \<Rightarrow> Some b)"
  by (simp add: argument_named_def find_append split: option.split)

lemma argument_named_None: "argument_named args name = None \<longleftrightarrow> name \<notin> ar_label ` set args"
  by (auto simp: argument_named_def find_None_iff)

lemma retain_loop_spec:
  assumes "distinct allowed" "distinct (map ar_label done)" "ar_label ` set done \<subseteq> set allowed"
  shows "(\<exists>r. retain_loop allowed args (map (argument_named done) allowed) = Inr r) \<longleftrightarrow>
      distinct (map ar_label (done @ args)) \<and> ar_label ` set args \<subseteq> set allowed"
    and "retain_loop allowed args (map (argument_named done) allowed) = Inr r \<Longrightarrow>
      r = map (argument_named (done @ args)) allowed"
proof -
  have "((\<exists>r. retain_loop allowed args (map (argument_named done) allowed) = Inr r) \<longleftrightarrow>
      distinct (map ar_label (done @ args)) \<and> ar_label ` set args \<subseteq> set allowed) \<and>
    (\<forall>r. retain_loop allowed args (map (argument_named done) allowed) = Inr r \<longrightarrow>
      r = map (argument_named (done @ args)) allowed)"
    using assms(2,3)
  proof (induction args arbitrary: "done")
    case (Cons a args)
    show ?case
    proof (cases "position (\<lambda>probe. ar_label a = probe) allowed")
      case None
      then have "ar_label a \<notin> set allowed" by (auto simp: position_None)
      with None show ?thesis by simp
    next
      case (Some i)
      then have i: "i < length allowed" "allowed ! i = ar_label a" by (auto dest: position_Some)
      show ?thesis
      proof (cases "ar_label a \<in> ar_label ` set done")
        case True
        then obtain old where "argument_named done (ar_label a) = Some old"
          using argument_named_None [of "done" "ar_label a"] by auto
        with Some i True show ?thesis by auto
      next
        case False
        then have "(map (argument_named done) allowed)[i := Some a] = map (argument_named (done @ [a])) allowed"
          using i assms(1) argument_named_None [of "done" "ar_label a"]
          by (intro nth_equalityI) (auto simp: nth_list_update argument_named_snoc nth_eq_iff_index_eq split: option.splits)
        moreover have "map (argument_named done) allowed ! i = None"
          using i False by (simp add: argument_named_None)
        moreover have "ar_label a \<in> set allowed" using i by (metis nth_mem)
        ultimately show ?thesis
          using Cons.IH [of "done @ [a]"] Cons.prems Some False by auto
      qed
    qed
  qed simp
  then show "(\<exists>r. retain_loop allowed args (map (argument_named done) allowed) = Inr r) \<longleftrightarrow>
      distinct (map ar_label (done @ args)) \<and> ar_label ` set args \<subseteq> set allowed"
    and "retain_loop allowed args (map (argument_named done) allowed) = Inr r \<Longrightarrow>
      r = map (argument_named (done @ args)) allowed" by blast+
qed

lemma retain_spec:
  assumes "distinct allowed"
  shows "retain allowed args = Inr r \<longleftrightarrow>
    distinct (map ar_label args) \<and> ar_label ` set args \<subseteq> set allowed \<and> r = map (argument_named args) allowed"
proof -
  have "map (argument_named []) allowed = replicate (length allowed) None"
    by (intro nth_equalityI) (simp_all add: argument_named_def)
  with retain_loop_spec [OF assms, of "[]" args] show ?thesis
    by (auto simp: retain_def)
qed

text \<open>The identifiers of the typed inputs (\<open>render_client.rs\<close>).\<close>

fun extract_param_names :: "FnArg list \<Rightarrow> string list" where
  "extract_param_names [] = []"
| "extract_param_names (Typed (PatIdent ident) _ _ # as) = ident # extract_param_names as"
| "extract_param_names (_ # as) = extract_param_names as"

lemma from_arg_attrs_pat: "RpcFnArg_from_arg_attrs pat ty attrs = Inr (p, attrs') \<Longrightarrow> arg_pat p = pat \<and> arg_ty p = ty"
  by (auto simp: RpcFnArg_from_arg_attrs_def)

lemma method_params_spec:
  "method_params as = Inr (ps, ins) \<Longrightarrow> map arg_pat ps = extract_param_names as \<and> extract_param_names ins = extract_param_names as \<and>
     length ins = length as"
  by (induction as arbitrary: ps ins rule: method_params.induct) (auto dest: from_arg_attrs_pat)

lemma subscription_params_spec:
  "subscription_params as = Done (Inr (ps, ins)) \<Longrightarrow> map arg_pat ps = extract_param_names as \<and> extract_param_names ins = extract_param_names as \<and>
     length ins = length as"
  by (induction as arbitrary: ps ins rule: subscription_params.induct) (auto dest: from_arg_attrs_pat)

text \<open>A method of a description made from a function of the trait.\<close>

definition method_of :: "TraitFn \<Rightarrow> RpcMethod \<Rightarrow> bool" where
  "method_of f m \<longleftrightarrow> tf_ident (me_signature m) = tf_ident f \<and> tf_async (me_signature m) = tf_async f \<and>
     me_returns m = tf_output f \<and> map arg_pat (me_params m) = extract_param_names (tf_inputs f) \<and>
     \<not> (me_blocking m \<and> tf_async f) \<and> (me_param_kind m = KindObject \<longrightarrow> length (me_params m) = 1)"

definition subscription_of :: "TraitFn \<Rightarrow> RpcSubscription \<Rightarrow> bool" where
  "subscription_of f s \<longleftrightarrow> tf_ident (su_signature s) = tf_ident f \<and> tf_async (su_signature s) = tf_async f \<and>
     map arg_pat (su_params s) = extract_param_names (tf_inputs f) \<and>
     (su_param_kind s = KindObject \<longrightarrow> length (su_params s) = 1)"

lemma RpcMethod_from_item_ok: "RpcMethod_from_item attr f = Inr m \<Longrightarrow> method_of f m"
  by (auto simp: RpcMethod_from_item_def method_of_def dest: method_params_spec split: if_splits prod.splits)

lemma RpcSubscription_from_item_ok: "RpcSubscription_from_item parse_type attr f = Done (Inr s) \<Longrightarrow> subscription_of f s"
  by (auto simp: RpcSubscription_from_item_def subscription_of_def dest: subscription_params_spec split: if_splits prod.splits)

text \<open>The functions of a trait with their entries, in order.\<close>

inductive entries_of :: "TraitItem list \<Rightarrow> RpcMethod list \<Rightarrow> RpcSubscription list \<Rightarrow> bool" where
  none: "entries_of [] [] []"
| is_method: "method_of f m \<Longrightarrow> take 1 (tf_inputs f) = [Receiver] \<Longrightarrow> find_attr (tf_attrs f) ''subscription'' = None \<Longrightarrow>
    entries_of items ms ss \<Longrightarrow> entries_of (ItemFn f # items) (m # ms) ss"
| is_sub: "subscription_of f s \<Longrightarrow> take 1 (tf_inputs f) = [Receiver] \<Longrightarrow> find_attr (tf_attrs f) ''method'' = None \<Longrightarrow>
    entries_of items ms ss \<Longrightarrow> entries_of (ItemFn f # items) ms (s # ss)"

lemma trait_fn_entry_ok:
  assumes "trait_fn_entry parse_type f = Done (Inr e)"
  shows "take 1 (tf_inputs f) = [Receiver]"
    and "e = Inl m \<Longrightarrow> method_of f m \<and> find_attr (tf_attrs f) ''subscription'' = None"
    and "e = Inr s \<Longrightarrow> subscription_of f s \<and> find_attr (tf_attrs f) ''method'' = None"
  using assms
  by (auto simp: trait_fn_entry_def dest: RpcMethod_from_item_ok RpcSubscription_from_item_ok
        split: if_splits option.splits)

lemma collect_items_ok:
  "collect_items parse_type items ms ss = Done (Inr (ms', ss')) \<Longrightarrow>
     \<exists>ms1 ss1. ms' = ms @ ms1 \<and> ss' = ss @ ss1 \<and> entries_of items ms1 ss1"
proof (induction parse_type items ms ss rule: collect_items.induct)
  case (1 parse_type ms ss)
  then show ?case by (auto intro: entries_of.none)
next
  case (3 parse_type f items ms ss)
  then obtain e where e: "trait_fn_entry parse_type f = Done (Inr e)"
    and rest: "(case e of Inl m \<Rightarrow> collect_items parse_type items (ms @ [m]) ss
                | Inr s \<Rightarrow> collect_items parse_type items ms (ss @ [s])) = Done (Inr (ms', ss'))" by auto
  show ?case
  proof (cases e)
    case (Inl m)
    with 3(1) rest obtain ms1 ss1 where "ms' = ms @ m # ms1" "ss' = ss @ ss1" "entries_of items ms1 ss1" by fastforce
    with trait_fn_entry_ok [OF e] Inl show ?thesis by (metis entries_of.is_method)
  next
    case (Inr s)
    with 3(2) rest obtain ms1 ss1 where "ms' = ms @ ms1" "ss' = ss @ s # ss1" "entries_of items ms1 ss1" by fastforce
    with trait_fn_entry_ok [OF e] Inr show ?thesis by (metis entries_of.is_sub)
  qed
qed simp

lemma bounds_attr_ok:
  "bounds_attr parse_predicates attr = Inr d \<Longrightarrow> (needs_server d \<or> needs_client d) \<and>
     (client_bounds d \<noteq> None \<longrightarrow> needs_client d) \<and> (server_bounds d \<noteq> None \<longrightarrow> needs_server d)"
  by (auto simp: bounds_attr_def split: if_splits)

text \<open>C27. A description the macro accepts has a server or a client, each with its crate found and bounds only where
  they apply; and it has exactly one entry per function of the trait, in order, each function with a receiver first and
  one of the two attributes: its identifier, its arguments and its return type, a blocking method not async, and one
  argument when it is an object.\<close>

theorem rpc_trait_accepted:
  assumes "RpcDescription_from_item crate_name parse_type parse_predicates attr item = Done (Inr d)"
  shows "(needs_server d \<or> needs_client d) \<and>
    (needs_server d \<longrightarrow> jsonrpsee_server_path d \<noteq> None) \<and> (needs_client d \<longrightarrow> jsonrpsee_client_path d \<noteq> None) \<and>
    (client_bounds d \<noteq> None \<longrightarrow> needs_client d) \<and> (server_bounds d \<noteq> None \<longrightarrow> needs_server d) \<and>
    entries_of (it_items item) (de_methods d) (de_subscriptions d) \<and>
    \<not> (de_methods d = [] \<and> de_subscriptions d = [])"
  using assms
  by (auto simp: RpcDescription_from_item_def dest!: bounds_attr_ok collect_items_ok split: if_splits prod.splits)

definition example_fn :: TraitFn where
  "example_fn = \<lparr>tf_attrs = [\<lparr>at_path = ''method'', at_meta = MetaList
       [TIdent ''name'', TPunct (CHR ''=''), TLitStr ''get'', TPunct (CHR '',''), TIdent ''blocking'']\<rparr>],
     tf_ident = ''get'', tf_async = False, tf_type_params = [],
     tf_inputs = [Receiver, Typed (PatIdent ''key'') [] (ident_type ''u64'')], tf_output = Some (ident_type ''R'')\<rparr>"

definition example_trait :: ItemTrait where
  "example_trait = \<lparr>it_ident = ''Store'', it_attrs = [], it_type_params = [], it_where = None, it_items = [ItemFn example_fn]\<rparr>"

definition example_crate :: crate_lookup where
  "example_crate n = (if n = ''jsonrpsee-server'' then Ok (FoundName n) else Err ''no dependency'')"

definition example_rpc_attr :: Attribute where
  "example_rpc_attr = \<lparr>at_path = ''rpc'', at_meta = MetaList [TIdent ''server'']\<rparr>"

theorem rpc_trait_accepted_witness:
  "\<exists>d. RpcDescription_from_item example_crate (\<lambda>_. Err SynError) (\<lambda>_. Err SynError) example_rpc_attr example_trait =
      Done (Inr d) \<and> entries_of (it_items example_trait) (de_methods d) (de_subscriptions d) \<and>
      map me_name (de_methods d) = [''get''] \<and> map me_blocking (de_methods d) = [True]"
proof -
  let ?r = "RpcDescription_from_item example_crate (\<lambda>_. Err SynError) (\<lambda>_. Err SynError) example_rpc_attr example_trait"
  have "case ?r of Done (Inr d) \<Rightarrow> map me_name (de_methods d) = [''get''] \<and> map me_blocking (de_methods d) = [True]
      | _ \<Rightarrow> False" by code_simp
  then obtain d where d: "?r = Done (Inr d)" "map me_name (de_methods d) = [''get'']" "map me_blocking (de_methods d) = [True]"
    by (auto split: outcome.splits sum.splits)
  with rpc_trait_accepted [OF d(1)] show ?thesis by (intro exI [of _ d] conjI) simp_all
qed

text \<open>
  The scope of a comma counts every \<open>>\<close>, also the one of \<open>->\<close>, so a comma in the brackets of \<open>item = Map<fn() -> A, B>\<close>
  ends the argument.
\<close>

lemma arrow_ends_scope:
  "map_sum id (map ar_label) (parse_arguments
     [TIdent ''item'', TPunct (CHR ''=''), TIdent ''Map'', TPunct (CHR ''<''), TIdent ''fn'', TGroup (CHR ''('') [],
      TPunct (CHR ''-''), TPunct (CHR ''>''), TIdent ''A'', TPunct (CHR '',''), TIdent ''B'', TPunct (CHR ''>'')]) =
   Inr [''item'', ''B'']"
  by code_simp

text \<open>
  A return type inside a return type ends it for \<open>FindAllParams\<close>: in \<open>Result<fn() -> u8, T>\<close> the parameter \<open>T\<close> is not found,
  and the generated bounds lack \<open>Serialize\<close>.
\<close>

lemma nested_return_type_ends_search:
  "fp_ret_params (all_return_type (Some (TyPath None (Path False [Segment ''Result'' (AngleBracketed
      [ArgType (TyBareFn [] (Some (ident_type ''u8''))), ArgType (ident_type ''T'')])])))
      (visit_type_param ''T'' (FindAllParams_new {}))) = {} \<and>
   fp_ret_params (all_return_type (Some (TyPath None (Path False [Segment ''Result'' (AngleBracketed
      [ArgType (ident_type ''u8''), ArgType (ident_type ''T'')])])))
      (visit_type_param ''T'' (FindAllParams_new {}))) = {''T''}"
  by (simp add: ident_type_def visit_ident_def visit_type_param_def FindAllParams_new_def)

text \<open>Only parameters of the trait are found.\<close>

lemma visit_type_subset:
  "visit_type all ty \<subseteq> all" "visit_types all tys \<subseteq> all" "visit_return_type all out \<subseteq> all" "visit_path all path \<subseteq> all"
  "visit_path_segments all segs \<subseteq> all" "visit_path_arguments all pa \<subseteq> all" "visit_generic_args all gas \<subseteq> all"
  "visit_type_param_bounds all bs \<subseteq> all"
  by (induction all ty and all tys and all out and all path and all segs and all pa and all gas and all bs
        rule: visit_type_visit_types_visit_return_type_visit_path_visit_path_segments_visit_path_arguments_visit_generic_args_visit_type_param_bounds.induct)
     (auto split: list.splits segment.splits if_splits)

text \<open>Arguments without a comma outside brackets are split as they were written.\<close>

fun comma_free :: "nat \<Rightarrow> token list \<Rightarrow> bool" where
  "comma_free scope [] \<longleftrightarrow> scope = 0"
| "comma_free scope (t # ts) \<longleftrightarrow> \<not> (scope = 0 \<and> t = TPunct (CHR '','')) \<and>
     comma_free (if t = TPunct (CHR ''<'') then scope + 1 else if t = TPunct (CHR ''>'') then scope - 1 else scope) ts"

lemma argument_tokens_comma_free:
  "comma_free n ts \<Longrightarrow> rest = [] \<or> hd rest = TPunct (CHR '','') \<Longrightarrow> argument_tokens n (ts @ rest) = (ts, rest)"
proof (induction n ts rule: comma_free.induct)
  case (1 scope)
  then show ?case by (cases rest) auto
qed (auto simp: Let_def)

fun attribute_tokens :: "Argument list \<Rightarrow> token list" where
  "attribute_tokens [] = []"
| "attribute_tokens [a] = TIdent (ar_label a) # ar_tokens a"
| "attribute_tokens (a # as) = TIdent (ar_label a) # ar_tokens a @ TPunct (CHR '','') # attribute_tokens as"

lemma attribute_tokens_roundtrip:
  "\<forall>a \<in> set as. comma_free 0 (ar_tokens a) \<Longrightarrow> parse_arguments (attribute_tokens as) = Inr as"
proof (induction as rule: attribute_tokens.induct)
  case 1
  show ?case by (subst parse_arguments.simps) simp
next
  case (2 a)
  then show ?case
    using argument_tokens_comma_free [of 0 "ar_tokens a" "[]"] by (subst parse_arguments.simps) (simp add: Argument_parse_def)
next
  case (3 a b as)
  then show ?case
    using argument_tokens_comma_free [of 0 "ar_tokens a" "TPunct (CHR '','') # attribute_tokens (b # as)"]
    by (subst parse_arguments.simps) (simp add: Argument_parse_def)
qed

end
