(* ===== verification/Rpc_Macro_Render.thy ===== *)
theory Rpc_Macro_Render
  imports Rpc_Macro Rpc_Module
begin

text \<open>
  The code the macro \<open>rpc\<close> generates (\<open>proc-macros/src/render_server.rs\<close>, \<open>render_client.rs\<close>). A generated piece of
  code is a value that says what it does (an encoding of arguments, a decoding, a registration), and the meaning of
  each is a function: the client stub writes its arguments with the builders of parameters, the server stub reads them
  back and calls the user's function, and \<open>into_rpc\<close> registers the stubs on a module.

  Arguments are values of one type \<open>'v\<close>, with the options told apart, since a stub reads them with another function.
  What \<open>serde\<close> does with them is given by a record of readers.
\<close>

section \<open>The trait for servers and the trait for clients\<close>

definition jrps_item :: "string option \<Rightarrow> string list \<Rightarrow> rust_type" where
  "jrps_item path item = TyPath None (Path False (map (\<lambda>s. Segment s NoArgs) (the path # item)))"

definition render_methods :: "RpcDescription \<Rightarrow> TraitFn list" where
  "render_methods d =
     (let ext = Typed (PatIdent ''ext'') [] (TyReference (jrps_item (jsonrpsee_server_path d) [''Extensions'']));
          sink = Typed (PatIdent ''subscription_sink'') [] (jrps_item (jsonrpsee_server_path d) [''PendingSubscriptionSink''])
      in map (\<lambda>m. (me_signature m)\<lparr>tf_attrs := me_docs m,
             tf_inputs := (let ins = tf_inputs (me_signature m) in
               if me_with_extensions m then hd ins # ext # tl ins else ins)\<rparr>) (de_methods d) @
         map (\<lambda>s. (su_signature s)\<lparr>tf_attrs := su_docs s,
             tf_inputs := (let ins = tf_inputs (su_signature s) in
               hd ins # sink # (if su_with_extensions s then [ext] else []) @ tl ins)\<rparr>) (de_subscriptions d))"

text \<open>\<open>return_result_type\<close>: a type, or the text of a \<open>compile_error\<close>.\<close>

definition result_of :: "generic_arg \<Rightarrow> rust_type \<Rightarrow> rust_type" where
  "result_of ret_ty err_ty = TyPath None (Path False [Segment ''core'' NoArgs, Segment ''result'' NoArgs,
     Segment ''Result'' (AngleBracketed [ret_ty, ArgType err_ty])])"

definition return_result_type :: "RpcDescription \<Rightarrow> rust_type \<Rightarrow> (rust_type, string) result" where
  "return_result_type d ty =
     (let err_ty = jrps_item (jsonrpsee_client_path d) [''core'', ''client'', ''Error''] in
      case ty of
        TyPath qself (Path colon segments) \<Rightarrow>
          (if segments = [] then Err (''Expecting this path to end in something like '' @ quoted ''Result<Foo, Err>'')
           else case last segments of
             Segment ident (AngleBracketed args) \<Rightarrow>
               if ident = ''Result'' then
                 (if length args \<noteq> 2 then Err ''Result must be have two arguments''
                  else Ok (TyPath qself (Path colon (butlast segments @
                         [Segment ident (AngleBracketed (butlast args @ [ArgType err_ty]))]))))
               else if ident = ''RpcResult'' then
                 (if length args \<noteq> 1 then Err ''RpcResult must have one argument''
                  else Ok (result_of (last args) err_ty))
               else if ident = ''ResponsePayload'' then
                 (if length args \<noteq> 2 then Err ''ResponsePayload must have exactly two arguments''
                  else Ok (result_of (last args) err_ty))
               else Err (''The return type must be Result<T, Error>, RpcResult<T> or ResponsePayload<'' @ [CHR 0x27] @ ''static, T>'')
           | _ \<Rightarrow> Err (''Expecting something like '' @ quoted ''Result<Foo, Err>'' @
               '' here, but got no generic args (eg no '' @ quoted ''<Foo,Err>'' @ '').''))
      | _ \<Rightarrow> Err (''Expecting something like '' @ quoted ''Result<Foo, Err>'' @ '' here. (1)''))"

section \<open>Arguments in client stubs\<close>

datatype param_encoding =
    EncodeNothing
  | EncodeObject string
  | EncodeMap "(string \<times> string) list"
  | EncodeArray "string list"

definition ILLEGAL_PARAM_NAME :: string where
  "ILLEGAL_PARAM_NAME = ''__RpcParams__''"

definition encode_params :: "RpcFnArg list \<Rightarrow> ParamKind \<Rightarrow> TraitFn \<Rightarrow> param_encoding outcome" where
  "encode_params params kind sig =
     (if params = [] then Done EncodeNothing
      else if \<exists>arg \<in> set params. arg_pat arg = ILLEGAL_PARAM_NAME then Panicked
      else case kind of
        KindObject \<Rightarrow> Done (if length params \<noteq> 1 then EncodeNothing else EncodeObject (arg_pat (hd params)))
      | KindMap \<Rightarrow> if ILLEGAL_PARAM_NAME \<in> set (extract_param_names (tf_inputs sig)) then Panicked
          else Done (EncodeMap (map (\<lambda>arg. (RpcFnArg_name arg, arg_pat arg)) params))
      | KindArray \<Rightarrow> Done (EncodeArray (map arg_pat params)))"

datatype 'v arg_value = Plain 'v | Optional "'v option"

fun arg_ser :: "('v \<Rightarrow> ser) \<Rightarrow> 'v arg_value \<Rightarrow> ser" where
  "arg_ser ser_v (Plain v) = ser_v v"
| "arg_ser ser_v (Optional None) = SNull"
| "arg_ser ser_v (Optional (Some v)) = ser_v v"

text \<open>What an encoding does: \<open>env\<close> are the arguments of the stub by name; an insertion that fails is a panic.\<close>

fun insert_args :: "emitter \<Rightarrow> ser list \<Rightarrow> ParamsBuilder \<Rightarrow> ParamsBuilder outcome" where
  "insert_args emit [] b = Done b"
| "insert_args emit (v # vs) b = (case ParamsBuilder_insert emit v b of
     (True, b') \<Rightarrow> insert_args emit vs b'
   | (False, _) \<Rightarrow> Panicked)"

fun insert_named_args :: "emitter \<Rightarrow> (string \<times> ser) list \<Rightarrow> ParamsBuilder \<Rightarrow> ParamsBuilder outcome" where
  "insert_named_args emit [] b = Done b"
| "insert_named_args emit ((n, v) # vs) b = (case insert_named emit n v b of
     (True, b') \<Rightarrow> insert_named_args emit vs b'
   | (False, _) \<Rightarrow> Panicked)"

definition build_params :: "(string \<Rightarrow> bool) \<Rightarrow> ParamsBuilder outcome \<Rightarrow> string option outcome" where
  "build_params valid_json b = (case b of Panicked \<Rightarrow> Panicked | Done b' \<Rightarrow> ParamsBuilder_build valid_json b')"

fun run_encoding ::
  "emitter \<Rightarrow> (string \<Rightarrow> bool) \<Rightarrow> ('v \<Rightarrow> ser) \<Rightarrow> (string \<Rightarrow> 'v arg_value) \<Rightarrow> param_encoding \<Rightarrow> string option outcome" where
  "run_encoding emit valid_json ser_v env EncodeNothing = ParamsBuilder_build valid_json positional"
| "run_encoding emit valid_json ser_v env (EncodeObject x) = (case to_raw_value emit (arg_ser ser_v (env x)) of
     Some raw \<Rightarrow> Done (Some raw)
   | None \<Rightarrow> Panicked)"
| "run_encoding emit valid_json ser_v env (EncodeMap xs) =
     build_params valid_json (insert_named_args emit (map (\<lambda>(n, x). (n, arg_ser ser_v (env x))) xs) named)"
| "run_encoding emit valid_json ser_v env (EncodeArray xs) =
     build_params valid_json (insert_args emit (map (\<lambda>x. arg_ser ser_v (env x)) xs) positional)"

text \<open>The stubs: which operation of the client they call with which names.\<close>

datatype client_call = CallRequest | CallNotification | CallSubscribe string

record ClientStub =
  cs_fn :: string
  cs_inputs :: "FnArg list"
  cs_attrs :: "Attribute list"
  cs_call :: client_call
  cs_rpc_name :: string
  cs_returns :: "(rust_type, string) result"
  cs_encoding :: param_encoding

definition map_outcome :: "('a \<Rightarrow> 'b) \<Rightarrow> 'a outcome \<Rightarrow> 'b outcome" where
  "map_outcome f r = (case r of Panicked \<Rightarrow> Panicked | Done a \<Rightarrow> Done (f a))"

definition unit_result :: "RpcDescription \<Rightarrow> rust_type" where
  "unit_result d = TyPath None (Path False [Segment ''Result'' (AngleBracketed [ArgType (TyTuple []),
     ArgType (jrps_item (jsonrpsee_client_path d) [''core'', ''client'', ''Error''])])])"

definition render_method :: "RpcDescription \<Rightarrow> RpcMethod \<Rightarrow> ClientStub outcome" where
  "render_method d m = map_outcome (\<lambda>enc.
     \<lparr>cs_fn = tf_ident (me_signature m), cs_inputs = tf_inputs (me_signature m),
      cs_attrs = me_docs m @ (case me_deprecated m of Some a \<Rightarrow> [a] | None \<Rightarrow> []),
      cs_call = (if me_returns m = None then CallNotification else CallRequest),
      cs_rpc_name = rpc_identifier d (me_name m),
      cs_returns = (case me_returns m of Some ty \<Rightarrow> return_result_type d ty | None \<Rightarrow> Ok (unit_result d)),
      cs_encoding = enc\<rparr>) (encode_params (me_params m) (me_param_kind m) (me_signature m))"

definition subscription_type :: "RpcDescription \<Rightarrow> rust_type \<Rightarrow> rust_type" where
  "subscription_type d item =
     (let err = jrps_item (jsonrpsee_client_path d) [''core'', ''client'', ''Error''];
          sub = TyPath None (Path False (map (\<lambda>s. Segment s NoArgs) [the (jsonrpsee_client_path d), ''core'', ''client''] @
                  [Segment ''Subscription'' (AngleBracketed [ArgType item])]))
      in TyPath None (Path False [Segment ''Result'' (AngleBracketed [ArgType sub, ArgType err])]))"

definition render_sub :: "RpcDescription \<Rightarrow> RpcSubscription \<Rightarrow> ClientStub outcome" where
  "render_sub d s = map_outcome (\<lambda>enc.
     \<lparr>cs_fn = tf_ident (su_signature s), cs_inputs = tf_inputs (su_signature s), cs_attrs = su_docs s,
      cs_call = CallSubscribe (rpc_identifier d (su_unsubscribe s)), cs_rpc_name = rpc_identifier d (su_name s),
      cs_returns = Ok (subscription_type d (su_item s)), cs_encoding = enc\<rparr>)
     (encode_params (su_params s) (su_param_kind s) (su_signature s))"

fun all_done :: "'a outcome list \<Rightarrow> 'a list outcome" where
  "all_done [] = Done []"
| "all_done (Panicked # rs) = Panicked"
| "all_done (Done a # rs) = map_outcome ((#) a) (all_done rs)"

record ClientTrait =
  ct_name :: string
  ct_super :: string
  ct_where :: "where_predicate list"
  ct_stubs :: "ClientStub list"

definition render_client :: "RpcDescription \<Rightarrow> ClientTrait outcome" where
  "render_client d = map_outcome (\<lambda>stubs.
     \<lparr>ct_name = it_ident (trait_def d) @ ''Client'',
      ct_super = (if de_subscriptions d = [] then ''ClientT'' else ''SubscriptionClientT''),
      ct_where = generate_where_clause (trait_def d) (map su_item (de_subscriptions d)) True (client_bounds d),
      ct_stubs = stubs\<rparr>)
     (all_done (map (render_method d) (de_methods d) @ map (render_sub d) (de_subscriptions d)))"

section \<open>Arguments in server stubs\<close>

datatype param_decoding = DecodeNothing | DecodeObject RpcFnArg | DecodeParams "RpcFnArg list"

definition render_params_decoding :: "RpcFnArg list \<Rightarrow> ParamKind \<Rightarrow> param_decoding" where
  "render_params_decoding params kind =
     (if params = [] then DecodeNothing
      else if kind = KindObject then (if length params \<noteq> 1 then DecodeNothing else DecodeObject (hd params))
      else DecodeParams params)"

text \<open>
  The readers of \<open>serde\<close> and \<open>serde_json\<close> for the types of arguments: \<open>next\<close> values of a stream, a whole text, the raw
  members of an object, the value of a member that is missing (an option has one), the text of an error; and the
  conversions of names of \<open>heck\<close>.
\<close>

record 'v arg_readers =
  rd_next :: "rust_type \<Rightarrow> 'v stream_reader"
  rd_optional :: "rust_type \<Rightarrow> 'v option stream_reader"
  rd_parse :: "rust_type \<Rightarrow> string \<Rightarrow> ('v arg_value, string) result"
  rd_members :: "string \<Rightarrow> ((string \<times> string) list, string) result"
  rd_missing :: "rust_type \<Rightarrow> 'v arg_value option"
  rd_error :: "de_error \<Rightarrow> string"
  to_snake_case :: "string \<Rightarrow> string"
  to_lower_camel_case :: "string \<Rightarrow> string"

definition next_arg ::
  "emitter \<Rightarrow> 'v arg_readers \<Rightarrow> rust_type \<Rightarrow> ParamsSequence \<Rightarrow> ('v arg_value, ErrorObject) result \<times> ParamsSequence" where
  "next_arg emit rd ty seq =
     (if is_option ty then (case optional_next emit (rd_optional rd ty) seq of
          (Inr v, seq') \<Rightarrow> (Ok (Optional v), seq') | (Inl e, seq') \<Rightarrow> (Err e, seq'))
      else (case ParamsSequence_next emit (rd_next rd ty) seq of
          (Inr v, seq') \<Rightarrow> (Ok (Plain v), seq') | (Inl e, seq') \<Rightarrow> (Err e, seq')))"

fun decode_array ::
  "emitter \<Rightarrow> 'v arg_readers \<Rightarrow> RpcFnArg list \<Rightarrow> ParamsSequence \<Rightarrow> ('v arg_value list, ErrorObject) result" where
  "decode_array emit rd [] seq = Ok []"
| "decode_array emit rd (p # ps) seq = (case next_arg emit rd (arg_ty p) seq of
     (Inl e, _) \<Rightarrow> Err e
   | (Inr v, seq') \<Rightarrow> and_then (decode_array emit rd ps seq') (\<lambda>vs. Ok (v # vs)))"

text \<open>The derived \<open>Deserialize\<close> of \<open>ParamsObject\<close>: every member goes to the first field with that name or alias.\<close>

definition field_names :: "'v arg_readers \<Rightarrow> RpcFnArg \<Rightarrow> string list" where
  "field_names rd p = [RpcFnArg_name p, to_snake_case rd (RpcFnArg_name p), to_lower_camel_case rd (RpcFnArg_name p)]"

fun read_members ::
  "'v arg_readers \<Rightarrow> RpcFnArg list \<Rightarrow> (string \<times> string) list \<Rightarrow> 'v arg_value option list \<Rightarrow> ('v arg_value option list, string) result" where
  "read_members rd ps [] acc = Ok acc"
| "read_members rd ps ((k, raw) # ms) acc = (case position (\<lambda>p. k \<in> set (field_names rd p)) ps of
     None \<Rightarrow> read_members rd ps ms acc
   | Some i \<Rightarrow> if acc ! i \<noteq> None then Err (rd_error rd (DuplicateField (RpcFnArg_name (ps ! i))))
       else and_then (rd_parse rd (arg_ty (ps ! i)) raw) (\<lambda>v. read_members rd ps ms (acc[i := Some v])))"

fun fill_missing :: "'v arg_readers \<Rightarrow> RpcFnArg list \<Rightarrow> 'v arg_value option list \<Rightarrow> ('v arg_value list, string) result" where
  "fill_missing rd (p # ps) (v # vs) =
     and_then (case v of Some x \<Rightarrow> Ok x | None \<Rightarrow> (case rd_missing rd (arg_ty p) of
         Some x \<Rightarrow> Ok x | None \<Rightarrow> Err (rd_error rd (MissingField (RpcFnArg_name p)))))
       (\<lambda>x. and_then (fill_missing rd ps vs) (\<lambda>xs. Ok (x # xs)))"
| "fill_missing rd _ _ = Ok []"

definition ParamsObject_from_str :: "'v arg_readers \<Rightarrow> RpcFnArg list \<Rightarrow> string \<Rightarrow> ('v arg_value list, string) result" where
  "ParamsObject_from_str rd ps text =
     and_then (rd_members rd text) (\<lambda>ms.
     and_then (read_members rd ps ms (replicate (length ps) None)) (fill_missing rd ps))"

fun run_decoding ::
  "emitter \<Rightarrow> 'v arg_readers \<Rightarrow> param_decoding \<Rightarrow> Params \<Rightarrow> ('v arg_value list, ErrorObject) result" where
  "run_decoding emit rd DecodeNothing params = Ok []"
| "run_decoding emit rd (DecodeObject p) params =
     and_then (Params_parse emit (rd_parse rd (arg_ty p)) params) (\<lambda>v. Ok [v])"
| "run_decoding emit rd (DecodeParams ps) params =
     (if is_object params then Params_parse emit (ParamsObject_from_str rd ps) params
      else decode_array emit rd ps (Params_sequence params))"

section \<open>Registration (into\_rpc)\<close>

text \<open>
  The user's implementation of the trait: its functions by name, with extensions where the macro passes them. A
  blocking function that returns nothing has panicked.
\<close>

record ('ctx, 'v, 'r, 'c, 'u) trait_impl =
  im_call :: "'ctx \<Rightarrow> string \<Rightarrow> extensions option \<Rightarrow> 'v arg_value list \<Rightarrow> ('c, 'u) server_world \<Rightarrow> 'r \<times> ('c, 'u) server_world"
  im_blocking :: "'ctx \<Rightarrow> string \<Rightarrow> extensions option \<Rightarrow> 'v arg_value list \<Rightarrow> ('c, 'u) server_world \<Rightarrow> 'r option \<times> ('c, 'u) server_world"
  im_subscribe :: "'ctx \<Rightarrow> string \<Rightarrow> PendingSubscriptionSink \<Rightarrow> extensions option \<Rightarrow> 'v arg_value list \<Rightarrow>
     ('c, 'u) server_world \<Rightarrow> ('c, 'u) server_world"

record ('ctx, 'v, 'r, 't, 'c, 'u) stub_env =
  en_emit :: emitter
  en_readers :: "'v arg_readers"
  en_impl :: "('ctx, 'v, 'r, 'c, 'u) trait_impl"
  en_into :: "'r \<Rightarrow> 't ServerPayload"
  en_ser :: "'t \<Rightarrow> ser"
  en_sinks :: "'c sink_ops"
  en_de_id :: "string \<Rightarrow> (SubscriptionId list, string) result"

definition ext_arg :: "bool \<Rightarrow> extensions \<Rightarrow> extensions option" where
  "ext_arg with_ext ext = (if with_ext then Some ext else None)"

definition method_stub ::
  "('ctx, 'v, 'r, 't, 'c, 'u) stub_env \<Rightarrow> RpcMethod \<Rightarrow> Params \<Rightarrow> 'ctx \<Rightarrow> extensions \<Rightarrow> ('c, 'u) server_world \<Rightarrow>
     't ServerPayload \<times> ('c, 'u) server_world" where
  "method_stub env m params ctx ext w =
     (case run_decoding (en_emit env) (en_readers env) (render_params_decoding (me_params m) (me_param_kind m)) params of
       Inl e \<Rightarrow> (payload_error e, w)
     | Inr args \<Rightarrow> (let (r, w') = im_call (en_impl env) ctx (tf_ident (me_signature m)) (ext_arg (me_with_extensions m) ext) args w
         in (en_into env r, w')))"

definition blocking_stub ::
  "('ctx, 'v, 'r, 't, 'c, 'u) stub_env \<Rightarrow> RpcMethod \<Rightarrow> Params \<Rightarrow> 'ctx \<Rightarrow> extensions \<Rightarrow> ('c, 'u) server_world \<Rightarrow>
     't ServerPayload option \<times> ('c, 'u) server_world" where
  "blocking_stub env m params ctx ext w =
     (case run_decoding (en_emit env) (en_readers env) (render_params_decoding (me_params m) (me_param_kind m)) params of
       Inl e \<Rightarrow> (Some (payload_error e), w)
     | Inr args \<Rightarrow> (let (r, w') = im_blocking (en_impl env) ctx (tf_ident (me_signature m)) (ext_arg (me_with_extensions m) ext) args w
         in (map_option (en_into env) r, w')))"

text \<open>Arguments that cannot be read reject the pending subscription, in a task of its own.\<close>

definition subscription_stub ::
  "('ctx, 'v, 'r, 't, 'c, 'u) stub_env \<Rightarrow> nat \<Rightarrow> RpcSubscription \<Rightarrow> Params \<Rightarrow> PendingSubscriptionSink \<Rightarrow> 'ctx \<Rightarrow> extensions \<Rightarrow>
     ('c, 'u) server_world \<Rightarrow> ('c, 'u) server_world" where
  "subscription_stub env t s params p ctx ext w =
     (case run_decoding (en_emit env) (en_readers env) (render_params_decoding (su_params s) (su_param_kind s)) params of
       Inl e \<Rightarrow> table_put t (PendingSubscriptionSink_reject (en_emit env) (en_sinks env) p e (table_get t w)) w
     | Inr args \<Rightarrow> im_subscribe (en_impl env) ctx (tf_ident (su_signature s)) p (ext_arg (su_with_extensions s) ext) args w)"

datatype registration =
    RegMethod string RpcMethod
  | RegSubscription string string string RpcSubscription
  | RegAlias string string

definition method_registration :: "RpcDescription \<Rightarrow> RpcMethod \<Rightarrow> registration" where
  "method_registration d m = RegMethod (rpc_identifier d (me_name m)) m"

definition notif_name :: "RpcDescription \<Rightarrow> RpcSubscription \<Rightarrow> string" where
  "notif_name d s = (case su_notif_name_override s of Some n \<Rightarrow> rpc_identifier d n | None \<Rightarrow> rpc_identifier d (su_name s))"

definition subscription_registration :: "RpcDescription \<Rightarrow> RpcSubscription \<Rightarrow> registration" where
  "subscription_registration d s = RegSubscription (rpc_identifier d (su_name s)) (notif_name d s)
     (rpc_identifier d (su_unsubscribe s)) s"

text \<open>The names in the order \<open>check_name\<close> sees them, and the errors it reports.\<close>

definition checked_names :: "RpcDescription \<Rightarrow> string list" where
  "checked_names d =
     map (\<lambda>m. rpc_identifier d (me_name m)) (de_methods d) @
     concat (map (\<lambda>s. [rpc_identifier d (su_name s), rpc_identifier d (su_unsubscribe s)] @
       (case su_notif_name_override s of Some n \<Rightarrow> [rpc_identifier d n] | None \<Rightarrow> [])) (de_subscriptions d)) @
     concat (map me_aliases (de_methods d)) @
     concat (map (\<lambda>s. su_aliases s @ su_unsubscribe_aliases s) (de_subscriptions d))"

fun check_names :: "string set \<Rightarrow> string list \<Rightarrow> string list" where
  "check_names registered [] = []"
| "check_names registered (name # names) =
     (if name \<in> registered then (debug_str name @ '' is already defined'') # check_names registered names
      else check_names (insert name registered) names)"

definition render_into_rpc :: "RpcDescription \<Rightarrow> string list \<times> registration list" where
  "render_into_rpc d =
     (check_names {} (checked_names d),
      map (method_registration d) (de_methods d) @
      map (subscription_registration d) (de_subscriptions d) @
      concat (map (\<lambda>m. map (\<lambda>alias. RegAlias alias (rpc_identifier d (me_name m))) (me_aliases m)) (de_methods d)) @
      concat (map (\<lambda>s. map (\<lambda>alias. RegAlias alias (rpc_identifier d (su_name s))) (su_aliases s) @
        map (\<lambda>alias. RegAlias alias (rpc_identifier d (su_unsubscribe s))) (su_unsubscribe_aliases s)) (de_subscriptions d)))"

text \<open>What a registration does; \<open>t\<close> is the address of the table of subscribers it would allocate.\<close>

fun run_registration ::
  "('ctx, 'v, 'r, 't, 'c, 'u) stub_env \<Rightarrow> nat \<Rightarrow> registration \<Rightarrow> ('ctx, ('c, 'u) server_world) RpcModule \<Rightarrow>
     (unit, RegisterMethodError) result \<times> ('ctx, ('c, 'u) server_world) RpcModule"
where
  "run_registration env t (RegMethod name m) rpc =
     (if tf_async (me_signature m)
      then register_async_method (en_emit env) (en_ser env) into_response_self name (method_stub env m) rpc
      else if me_blocking m
      then register_blocking_method (en_emit env) (en_ser env) into_response_self name (blocking_stub env m) rpc
      else register_method (en_emit env) (en_ser env) into_response_self name (method_stub env m) rpc)"
| "run_registration env t (RegSubscription name notif unsub s) rpc =
     (if tf_async (su_signature s)
      then register_subscription (en_emit env) (en_de_id env) t name notif unsub (subscription_stub env t s) rpc
      else register_subscription_raw (en_emit env) (en_de_id env) t name notif unsub (subscription_stub env t s) rpc)"
| "run_registration env t (RegAlias alias name) rpc = register_alias alias name rpc"

text \<open>\<open>handle_register_result\<close>: an error is a panic in debug builds, otherwise it is ignored.\<close>

fun run_registrations ::
  "bool \<Rightarrow> ('ctx, 'v, 'r, 't, 'c, 'u) stub_env \<Rightarrow> nat \<Rightarrow> registration list \<Rightarrow> ('ctx, ('c, 'u) server_world) RpcModule \<Rightarrow>
     ('ctx, ('c, 'u) server_world) RpcModule outcome"
where
  "run_registrations debug env t [] rpc = Done rpc"
| "run_registrations debug env t (r # rs) rpc = (case run_registration env t r rpc of
     (Inl _, rpc') \<Rightarrow> if debug then Panicked else run_registrations debug env (t + 1) rs rpc'
   | (Inr _, rpc') \<Rightarrow> run_registrations debug env (t + 1) rs rpc')"

definition into_rpc ::
  "bool \<Rightarrow> ('ctx, 'v, 'r, 't, 'c, 'u) stub_env \<Rightarrow> nat \<Rightarrow> RpcDescription \<Rightarrow> 'ctx \<Rightarrow> ('ctx, ('c, 'u) server_world) RpcModule outcome" where
  "into_rpc debug env t d ctx = run_registrations debug env t (snd (render_into_rpc d)) (RpcModule_new ctx)"

record ServerTrait =
  st_name :: string
  st_fns :: "TraitFn list"
  st_where :: "where_predicate list"
  st_into_rpc :: "string list \<times> registration list"

definition render_server :: "RpcDescription \<Rightarrow> ServerTrait" where
  "render_server d = \<lparr>st_name = it_ident (trait_def d) @ ''Server'', st_fns = render_methods d,
     st_where = generate_where_clause (trait_def d) (map su_item (de_subscriptions d)) False (server_bounds d),
     st_into_rpc = render_into_rpc d\<rparr>"

definition render :: "RpcDescription \<Rightarrow> (ServerTrait option \<times> ClientTrait option) outcome" where
  "render d = map_outcome (\<lambda>client. (if needs_server d then Some (render_server d) else None, client))
     (if needs_client d then map_outcome Some (render_client d) else Done None)"

text \<open>\<open>rpc\<close>: the macro itself, on a trait that \<open>syn\<close> has parsed.\<close>

definition rpc_impl ::
  "crate_lookup \<Rightarrow> (token list \<Rightarrow> (rust_type, MacroError) result) \<Rightarrow>
     (token list \<Rightarrow> (where_predicate list, MacroError) result) \<Rightarrow> token list \<Rightarrow> ItemTrait \<Rightarrow>
     (ServerTrait option \<times> ClientTrait option, MacroError) result outcome"
where
  "rpc_impl crate_name parse_type parse_predicates attr item =
     and_then_outcome (RpcDescription_from_item crate_name parse_type parse_predicates
         \<lparr>at_path = ''rpc'', at_meta = MetaList attr\<rparr> item)
       (\<lambda>d. map_outcome Ok (render d))"

section \<open>Registration of distinct names\<close>

lemma check_names_empty: "check_names registered names = [] \<longleftrightarrow> distinct names \<and> registered \<inter> set names = {}"
  by (induction registered names rule: check_names.induct) auto

text \<open>The callbacks that registration makes from the stubs.\<close>

definition method_cb ::
  "('ctx, 'v, 'r, 't, 'c, 'u) stub_env \<Rightarrow> 'ctx \<Rightarrow> RpcMethod \<Rightarrow> ('c, 'u) server_world MethodCallback" where
  "method_cb env ctx m =
     (let answer = (\<lambda>i n ext (rp, w). (with_extensions ext (MethodResponse_response (en_emit env) (en_ser env) i rp n), w)) in
      if tf_async (me_signature m) then AsyncCb (\<lambda>i params _ n ext w. answer i n ext (method_stub env m params ctx ext w))
      else if me_blocking m then AsyncCb (\<lambda>i params _ n ext w. case blocking_stub env m params ctx ext w of
          (Some rp, w') \<Rightarrow> answer i n ext (rp, w')
        | (None, w') \<Rightarrow> (with_extensions ext (MethodResponse_error (en_emit env) Null (ErrorObject_from InternalError)), w'))
      else SyncCb (\<lambda>i params n ext w. answer i n ext (method_stub env m params ctx ext w)))"

definition subscribe_cb ::
  "('ctx, 'v, 'r, 't, 'c, 'u) stub_env \<Rightarrow> 'ctx \<Rightarrow> nat \<Rightarrow> string \<Rightarrow> RpcSubscription \<Rightarrow> ('c, 'u) server_world MethodCallback" where
  "subscribe_cb env ctx t notif s =
     (if tf_async (su_signature s) then subscription_callback else subscription_callback_raw) (en_emit env) notif
       (\<lambda>params p ext. subscription_stub env t s params p ctx ext)"

fun reg_names :: "registration \<Rightarrow> string list" where
  "reg_names (RegMethod name _) = [name]"
| "reg_names (RegSubscription name _ unsub _) = [name, unsub]"
| "reg_names (RegAlias alias _) = [alias]"

fun reg_target :: "registration \<Rightarrow> string set" where
  "reg_target (RegAlias _ name) = {name}"
| "reg_target _ = {}"

text \<open>A registration has taken effect in a table.\<close>

fun in_effect ::
  "('ctx, 'v, 'r, 't, 'c, 'u) stub_env \<Rightarrow> 'ctx \<Rightarrow> registration \<Rightarrow> (string \<rightharpoonup> ('c, 'u) server_world MethodCallback) \<Rightarrow> bool" where
  "in_effect env ctx (RegMethod name m) cbs \<longleftrightarrow> cbs name = Some (method_cb env ctx m)"
| "in_effect env ctx (RegSubscription name notif unsub s) cbs \<longleftrightarrow>
     (\<exists>t. cbs name = Some (subscribe_cb env ctx t notif s) \<and> cbs unsub = Some (unsubscribe_callback (en_emit env) (en_de_id env) t))"
| "in_effect env ctx (RegAlias alias name) cbs \<longleftrightarrow> cbs alias = cbs name"

lemma in_effect_cong:
  "in_effect env ctx r cbs \<Longrightarrow> \<forall>n \<in> set (reg_names r) \<union> reg_target r. cbs' n = cbs n \<Longrightarrow> in_effect env ctx r cbs'"
  by (cases r) auto

lemma register_subscription_raw_result:
  "register_subscription_raw emit de_id t sub notif unsub cb m =
     (if sub = unsub then (Inl (SubscriptionNameConflict sub), m)
      else if callbacks (rm_methods m) sub \<noteq> None then (Inl (AlreadyRegistered sub), m)
      else if callbacks (rm_methods m) unsub \<noteq> None then (Inl (AlreadyRegistered unsub), m)
      else (Inr (), m\<lparr>rm_methods := (rm_methods m)\<lparr>callbacks := (callbacks (rm_methods m))
        (unsub \<mapsto> unsubscribe_callback emit de_id t,
         sub \<mapsto> subscription_callback_raw emit notif (\<lambda>params p ext. cb params p (rm_ctx m) ext))\<rparr>\<rparr>))"
  by (simp add: register_subscription_raw_def verify_and_register_unsubscribe_def verify_method_name_def
      module_insert_def verify_and_insert_def)

lemma run_registration_method:
  "run_registration env t (RegMethod name m) rpc = module_insert name (method_cb env (rm_ctx rpc) m) rpc"
  by (simp add: register_method_def register_async_method_def register_blocking_method_def method_cb_def
      into_response_self_def split_beta Let_def cong: option.case_cong)

lemma run_registration_fresh:
  assumes "distinct (reg_names r)" and "\<forall>n \<in> set (reg_names r). callbacks (rm_methods rpc) n = None"
    and "reg_target r \<subseteq> dom (callbacks (rm_methods rpc))"
  obtains rpc' where "run_registration env t r rpc = (Inr (), rpc')" "rm_ctx rpc' = rm_ctx rpc"
    "in_effect env (rm_ctx rpc) r (callbacks (rm_methods rpc'))"
    "\<forall>n. n \<notin> set (reg_names r) \<longrightarrow> callbacks (rm_methods rpc') n = callbacks (rm_methods rpc) n"
    "dom (callbacks (rm_methods rpc')) = dom (callbacks (rm_methods rpc)) \<union> set (reg_names r)"
proof (cases r)
  case (RegMethod name m)
  then have free: "callbacks (rm_methods rpc) name = None" using assms(2) by simp
  note ins = module_insert_callbacks [OF free, of "method_cb env (rm_ctx rpc) m"]
  show thesis
    by (rule that [of "snd (module_insert name (method_cb env (rm_ctx rpc) m) rpc)"])
       (simp_all add: RegMethod run_registration_method ins prod_eq_iff del: run_registration.simps)
next
  case (RegSubscription name notif unsub s)
  with assms show thesis
    by (intro that [of "rpc\<lparr>rm_methods := (rm_methods rpc)\<lparr>callbacks := (callbacks (rm_methods rpc))
          (unsub \<mapsto> unsubscribe_callback (en_emit env) (en_de_id env) t,
           name \<mapsto> subscribe_cb env (rm_ctx rpc) t notif s)\<rparr>\<rparr>"])
       (auto simp: register_subscription_result register_subscription_raw_result subscribe_cb_def)
next
  case (RegAlias al name)
  with assms obtain cb where "callbacks (rm_methods rpc) name = Some cb" by auto
  with RegAlias assms show thesis
    by (intro that [of "rpc\<lparr>rm_methods := (rm_methods rpc)\<lparr>callbacks := (callbacks (rm_methods rpc))(al \<mapsto> cb)\<rparr>\<rparr>"])
       (auto simp: register_alias_def verify_method_name_def)
qed

fun targets_known :: "string set \<Rightarrow> registration list \<Rightarrow> bool" where
  "targets_known known [] \<longleftrightarrow> True"
| "targets_known known (r # rs) \<longleftrightarrow> reg_target r \<subseteq> known \<and> targets_known (known \<union> set (reg_names r)) rs"

lemma targets_known_append:
  "targets_known known (rs @ rs') \<longleftrightarrow> targets_known known rs \<and> targets_known (known \<union> (\<Union>r \<in> set rs. set (reg_names r))) rs'"
  by (induction rs arbitrary: known) (auto simp: Un_assoc)

lemma targets_known_all: "\<forall>r \<in> set rs. reg_target r \<subseteq> known \<Longrightarrow> targets_known known rs"
  by (induction rs arbitrary: known) (auto simp: subset_iff)

lemma run_registrations_fresh:
  assumes "distinct (concat (map reg_names rs))"
    and "\<forall>n \<in> set (concat (map reg_names rs)). callbacks (rm_methods rpc) n = None"
    and "targets_known (dom (callbacks (rm_methods rpc))) rs"
  shows "\<exists>rpc'. run_registrations debug env t rs rpc = Done rpc' \<and> rm_ctx rpc' = rm_ctx rpc \<and>
    (\<forall>r \<in> set rs. in_effect env (rm_ctx rpc) r (callbacks (rm_methods rpc'))) \<and>
    (\<forall>n \<in> dom (callbacks (rm_methods rpc)). callbacks (rm_methods rpc') n = callbacks (rm_methods rpc) n) \<and>
    dom (callbacks (rm_methods rpc')) = dom (callbacks (rm_methods rpc)) \<union> set (concat (map reg_names rs))"
  using assms
proof (induction rs arbitrary: t rpc)
  case (Cons r rs)
  have fresh: "distinct (reg_names r)" "\<forall>n \<in> set (reg_names r). callbacks (rm_methods rpc) n = None"
    "reg_target r \<subseteq> dom (callbacks (rm_methods rpc))" using Cons.prems by auto
  obtain rpc1 where r: "run_registration env t r rpc = (Inr (), rpc1)" "rm_ctx rpc1 = rm_ctx rpc"
    "in_effect env (rm_ctx rpc) r (callbacks (rm_methods rpc1))"
    "\<forall>n. n \<notin> set (reg_names r) \<longrightarrow> callbacks (rm_methods rpc1) n = callbacks (rm_methods rpc) n"
    "dom (callbacks (rm_methods rpc1)) = dom (callbacks (rm_methods rpc)) \<union> set (reg_names r)"
    by (rule run_registration_fresh [OF fresh])
  have "\<forall>n \<in> set (concat (map reg_names rs)). callbacks (rm_methods rpc1) n = None"
  proof
    fix n assume n: "n \<in> set (concat (map reg_names rs))"
    with Cons.prems(1) have "n \<notin> set (reg_names r)" by auto
    with n r(4) Cons.prems(2) show "callbacks (rm_methods rpc1) n = None" by simp
  qed
  with Cons.IH [of rpc1 "t + 1"] Cons.prems(1,3) obtain rpc' where
    rs: "run_registrations debug env (t + 1) rs rpc1 = Done rpc'" "rm_ctx rpc' = rm_ctx rpc1"
      "\<forall>r \<in> set rs. in_effect env (rm_ctx rpc1) r (callbacks (rm_methods rpc'))"
      "\<forall>n \<in> dom (callbacks (rm_methods rpc1)). callbacks (rm_methods rpc') n = callbacks (rm_methods rpc1) n"
      "dom (callbacks (rm_methods rpc')) = dom (callbacks (rm_methods rpc1)) \<union> set (concat (map reg_names rs))"
    by (auto simp: r(5))
  have "set (reg_names r) \<union> reg_target r \<subseteq> dom (callbacks (rm_methods rpc1))" using Cons.prems(3) r(5) by auto
  then have "in_effect env (rm_ctx rpc) r (callbacks (rm_methods rpc'))"
    using in_effect_cong [OF r(3)] rs(4) by blast
  moreover have "\<forall>n \<in> dom (callbacks (rm_methods rpc)). callbacks (rm_methods rpc') n = callbacks (rm_methods rpc) n"
    using rs(4) r(4,5) Cons.prems(2) by (metis UnCI domIff in_set_conv_decomp concat.simps(2) list.simps(9) set_append)
  ultimately show ?case using r rs by (auto simp: Un_assoc)
qed simp

section \<open>Arguments from stub to stub\<close>

text \<open>Every name leads to its own field.\<close>

definition unambiguous :: "'v arg_readers \<Rightarrow> (string \<Rightarrow> bool) \<Rightarrow> RpcFnArg list \<Rightarrow> bool" where
  "unambiguous rd good_name ps \<longleftrightarrow> (\<forall>i < length ps. good_name (RpcFnArg_name (ps ! i)) \<and>
     position (\<lambda>p. RpcFnArg_name (ps ! i) \<in> set (field_names rd p)) ps = Some i)"

text \<open>
  What the stubs need of \<open>serde_json\<close>: a printed argument is read back at its type, from the front of a text, from a
  whole text, and as a member of an object.
\<close>

locale typed_json =
  fixes emit :: emitter and ser_v :: "'v \<Rightarrow> ser" and rd :: "'v arg_readers" and valid_json :: "string \<Rightarrow> bool"
    and printed :: "'v arg_value \<Rightarrow> string" and name_text :: "string \<Rightarrow> string"
    and has_type :: "rust_type \<Rightarrow> 'v arg_value \<Rightarrow> bool" and good_name :: "string \<Rightarrow> bool"
  assumes emit_printed: "emit (arg_ser ser_v a) = (cs, ok) \<Longrightarrow> ok \<and> concat cs = printed a"
    and emit_name: "emit (SStr n) = (cs, ok) \<Longrightarrow> ok \<and> concat cs = name_text n"
    and printed_ne: "printed a \<noteq> []"
    and printed_trim: "trim (printed a) = printed a"
    and option_type: "has_type ty a \<Longrightarrow> is_option ty \<longleftrightarrow> (\<exists>v. a = Optional v)"
    and next_printed: "has_type ty (Plain v) \<Longrightarrow> d \<in> {CHR '','', CHR '']''} \<Longrightarrow>
      rd_next rd ty (printed (Plain v) @ d # rest) = Some (Inr v, length (printed (Plain v)))"
    and optional_printed: "has_type ty (Optional x) \<Longrightarrow> d \<in> {CHR '','', CHR '']''} \<Longrightarrow>
      rd_optional rd ty (printed (Optional x) @ d # rest) = Some (Inr x, length (printed (Optional x)))"
    and parse_printed: "has_type ty a \<Longrightarrow> rd_parse rd ty (printed a) = Inr a"
    and members_printed: "ms \<noteq> [] \<Longrightarrow> \<forall>(n, a) \<in> set ms. good_name n \<Longrightarrow>
      rd_members rd (''{'' @ join_comma (map (\<lambda>(n, a). name_text n @ '':'' @ printed a) ms) @ ''}'') =
        Inr (map (\<lambda>(n, a). (n, printed a)) ms)"
    and valid_array: "as \<noteq> [] \<Longrightarrow> valid_json (''['' @ join_comma (map printed as) @ '']'')"
    and valid_object: "ms \<noteq> [] \<Longrightarrow> valid_json (''{'' @ join_comma (map (\<lambda>(n, a). name_text n @ '':'' @ printed a) ms) @ ''}'')"
begin

lemma emit_arg: "\<exists>cs. emit (arg_ser ser_v a) = (cs, True) \<and> concat cs = printed a"
  using emit_printed [of a] by (metis surj_pair)

lemma emit_name_text: "\<exists>cs. emit (SStr n) = (cs, True) \<and> concat cs = name_text n"
  using emit_name [of n] by (metis surj_pair)

lemma insert_arg:
  "ParamsBuilder_insert emit (arg_ser ser_v a) b =
     (True, (maybe_initialize b)\<lparr>pb_bytes := pb_bytes (maybe_initialize b) @ printed a @ '',''\<rparr>)"
  using emit_arg [of a] by (auto simp: ParamsBuilder_insert_def write_value_def push_bytes_def)

lemma insert_member:
  "insert_named emit n (arg_ser ser_v a) b =
     (True, (maybe_initialize b)\<lparr>pb_bytes := pb_bytes (maybe_initialize b) @ name_text n @ '':'' @ printed a @ '',''\<rparr>)"
  using emit_arg [of a] emit_name_text [of n] by (auto simp: insert_named_def write_value_def push_bytes_def)

lemma insert_args_bytes:
  "pb_bytes b \<noteq> [] \<Longrightarrow> insert_args emit (map (arg_ser ser_v) as) b =
     Done (b\<lparr>pb_bytes := pb_bytes b @ concat (map (\<lambda>a. printed a @ '','') as)\<rparr>)"
  by (induction as arbitrary: b) (simp_all add: insert_arg maybe_initialize_def)

lemma insert_members_bytes:
  "pb_bytes b \<noteq> [] \<Longrightarrow> insert_named_args emit (map (\<lambda>(n, a). (n, arg_ser ser_v a)) ms) b =
     Done (b\<lparr>pb_bytes := pb_bytes b @ concat (map (\<lambda>(n, a). name_text n @ '':'' @ printed a @ '','') ms)\<rparr>)"
  by (induction ms arbitrary: b) (auto simp: insert_member maybe_initialize_def)

lemma array_text_built:
  assumes "as \<noteq> []"
  shows "build_params valid_json (insert_args emit (map (arg_ser ser_v) as) positional) =
    Done (Some (''['' @ join_comma (map printed as) @ '']''))"
proof -
  obtain x xs where as: "as = x # xs" using assms by (cases as) auto
  have "insert_args emit (map (arg_ser ser_v) as) positional =
      Done (positional\<lparr>pb_bytes := ''['' @ concat (map (\<lambda>a. printed a @ '','') as)\<rparr>)"
    by (simp add: as insert_arg insert_args_bytes maybe_initialize_def positional_def ParamsBuilder_new_def)
  with valid_array [OF assms] show ?thesis
    by (simp add: build_params_def ParamsBuilder_build_def ParamsBuilder_text_def join_comma_concat [OF assms]
        butlast_append positional_def ParamsBuilder_new_def)
qed

lemma object_text_built:
  assumes "ms \<noteq> []"
  shows "build_params valid_json (insert_named_args emit (map (\<lambda>(n, a). (n, arg_ser ser_v a)) ms) named) =
    Done (Some (''{'' @ join_comma (map (\<lambda>(n, a). name_text n @ '':'' @ printed a) ms) @ ''}''))"
proof -
  obtain n a xs where ms: "ms = (n, a) # xs" using assms by (cases ms) auto
  have "insert_named_args emit (map (\<lambda>(n, a). (n, arg_ser ser_v a)) ms) named =
      Done (named\<lparr>pb_bytes := ''{'' @ concat (map (\<lambda>(n, a). name_text n @ '':'' @ printed a @ '','') ms)\<rparr>)"
    by (simp add: ms insert_member insert_members_bytes maybe_initialize_def named_def ParamsBuilder_new_def)
  moreover have "concat (map (\<lambda>(n, a). name_text n @ '':'' @ printed a @ '','') ms) =
      join_comma (map (\<lambda>(n, a). name_text n @ '':'' @ printed a) ms) @ '',''"
    using join_comma_concat [OF assms, of "\<lambda>(n, a). name_text n @ '':'' @ printed a"] by (simp add: split_def)
  ultimately show ?thesis using valid_object [OF assms]
    by (simp add: build_params_def ParamsBuilder_build_def ParamsBuilder_text_def butlast_append named_def ParamsBuilder_new_def)
qed

lemma next_arg_printed:
  assumes "has_type ty a" "c \<in> {CHR ''['', CHR '',''}" "d \<in> {CHR '','', CHR '']''}"
  shows "next_arg emit rd ty (c # printed a @ d # rest) = (Inr a, d # rest)"
proof -
  have t: "trim_start (d # rest) = d # rest" using assms(3) by auto
  show ?thesis
  proof (cases a)
    case (Plain v)
    with assms t next_printed [of ty v d rest] option_type [OF assms(1)] show ?thesis
      by (auto simp: next_arg_def ParamsSequence_next_def next_inner_def)
  next
    case (Optional x)
    with assms t optional_printed [of ty x d rest] option_type [OF assms(1)] show ?thesis
      by (auto simp: next_arg_def optional_next_def next_inner_def)
  qed
qed

lemma decode_array_printed:
  assumes "as \<noteq> []" "c \<in> {CHR ''['', CHR '',''}" "list_all2 (\<lambda>p a. has_type (arg_ty p) a) ps as"
  shows "decode_array emit rd ps (c # join_comma (map printed as) @ '']'') = Inr as"
  using assms
proof (induction as arbitrary: c ps rule: induct_list012)
  case (2 a)
  then obtain p where "ps = [p]" "has_type (arg_ty p) a" by (auto simp: list_all2_Cons2)
  with 2 next_arg_printed [of "arg_ty p" a c "CHR '']''" "[]"] show ?case by (simp add: and_then_def)
next
  case (3 a b as)
  then obtain p qs where ps: "ps = p # qs" "has_type (arg_ty p) a" "list_all2 (\<lambda>p a. has_type (arg_ty p) a) qs (b # as)"
    by (auto simp: list_all2_Cons2)
  with 3(2) [of "CHR '',''" qs] 3(4)
    next_arg_printed [OF ps(2) 3(4), of "CHR '',''" "join_comma (map printed (b # as)) @ '']''"]
  show ?case by (simp add: and_then_def)
qed simp

lemma read_members_printed:
  assumes "unambiguous rd good_name ps" "list_all2 (\<lambda>p a. has_type (arg_ty p) a) ps as" "k \<le> length ps"
  shows "read_members rd ps (map (\<lambda>(n, a). (n, printed a)) (drop k (zip (map RpcFnArg_name ps) as)))
    (map Some (take k as) @ replicate (length ps - k) None) = Inr (map Some as)"
  using assms(3)
proof (induction "length ps - k" arbitrary: k)
  case 0
  with list_all2_lengthD [OF assms(2)] show ?case by simp
next
  case (Suc j)
  then have k: "k < length ps" by simp
  note len = list_all2_lengthD [OF assms(2)]
  from k len have d: "drop k (zip (map RpcFnArg_name ps) as) = (RpcFnArg_name (ps ! k), as ! k) # drop (Suc k) (zip (map RpcFnArg_name ps) as)"
    by (subst Cons_nth_drop_Suc [symmetric]) auto
  have acc: "(map Some (take k as) @ replicate (length ps - k) None)[k := Some (as ! k)] =
      map Some (take (Suc k) as) @ replicate (length ps - Suc k) None"
    using k len by (simp add: take_Suc_conv_app_nth list_update_append Suc_diff_Suc [symmetric])
  have "rd_parse rd (arg_ty (ps ! k)) (printed (as ! k)) = Inr (as ! k)"
    using assms(2) k by (intro parse_printed) (auto simp: list_all2_conv_all_nth)
  moreover have "position (\<lambda>p. RpcFnArg_name (ps ! k) \<in> set (field_names rd p)) ps = Some k"
    using assms(1) k by (simp add: unambiguous_def)
  ultimately show ?case using Suc(1) [of "Suc k"] Suc(2) k acc len
    by (simp add: d nth_append and_then_def)
qed

lemma fill_missing_all: "length ps = length as \<Longrightarrow> fill_missing rd ps (map Some as) = Inr as"
  by (induction ps as rule: list_induct2) (simp_all add: and_then_def)

end

context typed_json
begin

lemma array_decoded:
  assumes "as \<noteq> []" "list_all2 (\<lambda>p a. has_type (arg_ty p) a) ps as"
  shows "run_decoding emit rd (DecodeParams ps) (Params_new (Some (''['' @ join_comma (map printed as) @ '']''))) = Inr as"
proof -
  let ?s = "''['' @ join_comma (map printed as) @ '']''"
  have "?s \<noteq> ''[]''" using assms(1) printed_ne by (cases as rule: remdups_adj.cases) auto
  moreover have "Params_new (Some ?s) = Some ?s" using trim_brackets [of "join_comma (map printed as)"] by (simp add: Params_new_def)
  ultimately show ?thesis
    using decode_array_printed [OF assms(1) _ assms(2), of "CHR ''[''"] by (simp add: is_object_def Params_sequence_def)
qed

lemma object_decoded:
  assumes "as \<noteq> []" "list_all2 (\<lambda>p a. has_type (arg_ty p) a) ps as" "unambiguous rd good_name ps"
  shows "run_decoding emit rd (DecodeParams ps) (Params_new (Some (''{'' @
    join_comma (map (\<lambda>(n, a). name_text n @ '':'' @ printed a) (zip (map RpcFnArg_name ps) as)) @ ''}''))) = Inr as"
proof -
  let ?ms = "zip (map RpcFnArg_name ps) as"
  let ?s = "''{'' @ join_comma (map (\<lambda>(n, a). name_text n @ '':'' @ printed a) ?ms) @ ''}''"
  note len = list_all2_lengthD [OF assms(2)]
  have "\<forall>(n, a) \<in> set ?ms. good_name n"
    using assms(3) by (auto simp: unambiguous_def in_set_zip in_set_conv_nth)
  moreover have "?ms \<noteq> []" using assms(1) len by (cases as; cases ps) auto
  ultimately have "rd_members rd ?s = Inr (map (\<lambda>(n, a). (n, printed a)) ?ms)" by (intro members_printed) auto
  then have "ParamsObject_from_str rd ps ?s = Inr as"
    using read_members_printed [OF assms(3,2), of 0] fill_missing_all [OF len] by (simp add: ParamsObject_from_str_def and_then_def)
  moreover have "Params_new (Some ?s) = Some ?s"
    using trim_braces [of "join_comma (map (\<lambda>(n, a). name_text n @ '':'' @ printed a) ?ms)"] by (simp add: Params_new_def)
  ultimately show ?thesis by (simp add: is_object_def Params_parse_def)
qed

lemma arguments_arrive:
  assumes enc: "encode_params ps kind sig = Done enc"
    and one: "kind = KindObject \<longrightarrow> length ps = 1" and unamb: "kind = KindMap \<longrightarrow> unambiguous rd good_name ps"
    and typed: "list_all2 (\<lambda>p a. has_type (arg_ty p) a) ps as" and env: "map (\<lambda>p. env (arg_pat p)) ps = as"
  shows "\<exists>raw. run_encoding emit valid_json ser_v env enc = Done raw \<and>
    run_decoding emit rd (render_params_decoding ps kind) (Params_new raw) = Inr as"
proof (cases "ps = []")
  case True
  with enc env show ?thesis
    by (auto simp: encode_params_def render_params_decoding_def ParamsBuilder_build_def positional_def ParamsBuilder_new_def)
next
  case False
  with env have ne: "as \<noteq> []" by auto
  have e: "encode_params ps kind sig = Done enc \<longleftrightarrow> enc = (case kind of KindObject \<Rightarrow> EncodeObject (arg_pat (hd ps))
      | KindMap \<Rightarrow> EncodeMap (map (\<lambda>arg. (RpcFnArg_name arg, arg_pat arg)) ps) | KindArray \<Rightarrow> EncodeArray (map arg_pat ps))"
    using enc one False by (auto simp: encode_params_def split: if_splits ParamKind.splits)
  show ?thesis
  proof (cases kind)
    case KindArray
    have m: "map (\<lambda>x. arg_ser ser_v (env x)) (map arg_pat ps) = map (arg_ser ser_v) as" by (simp flip: env)
    show ?thesis using enc e KindArray False array_text_built [OF ne] array_decoded [OF ne typed]
      by (simp add: m render_params_decoding_def del: map_map)
  next
    case KindMap
    have m: "map (\<lambda>(n, x). (n, arg_ser ser_v (env x))) (map (\<lambda>arg. (RpcFnArg_name arg, arg_pat arg)) ps) =
        map (\<lambda>(n, a). (n, arg_ser ser_v a)) (zip (map RpcFnArg_name ps) as)"
      by (simp flip: env add: zip_map_map zip_same_conv_map)
    have "zip (map RpcFnArg_name ps) as \<noteq> []" using False ne by (cases ps; cases as) auto
    from object_text_built [OF this] object_decoded [OF ne typed] unamb KindMap enc e False show ?thesis
      by (simp add: m render_params_decoding_def del: map_map)
  next
    case KindObject
    with one obtain p where p: "ps = [p]" by (cases ps) auto
    then have "has_type (arg_ty p) (env (arg_pat p))" using typed env by auto
    then have "rd_parse rd (arg_ty p) (printed (env (arg_pat p))) = Inr (env (arg_pat p))" by (rule parse_printed)
    with emit_arg [of "env (arg_pat p)"] enc e KindObject p env show ?thesis
      by (auto simp: render_params_decoding_def to_raw_value_def Params_new_def printed_trim Params_parse_def and_then_def)
  qed
qed

end

section \<open>An instance: unsigned integers and options of them\<close>

definition arg_text :: "u64 arg_value \<Rightarrow> string" where
  "arg_text a = json_text (arg_ser SU64 a)"

definition u64_option_reader :: "u64 option stream_reader" where
  "u64_option_reader s = (if take 4 s = ''null'' then Some (Inr None, 4)
     else map_option (\<lambda>(r, off). (map_sum id Some r, off)) (u64_reader s))"

definition u64_arg_parse :: "rust_type \<Rightarrow> string \<Rightarrow> (u64 arg_value, string) result" where
  "u64_arg_parse ty s =
     (if is_option ty \<and> s = ''null'' then Ok (Optional None)
      else case parse_u64 s of
        Some n \<Rightarrow> Ok (if is_option ty then Optional (Some n) else Plain n)
      | None \<Rightarrow> Err ''invalid number'')"

text \<open>The members of a flat object.\<close>

fun split_comma :: "string \<Rightarrow> string list" where
  "split_comma [] = [[]]"
| "split_comma (c # s) = (if c = CHR '','' then [] # split_comma s
     else case split_comma s of t # ts \<Rightarrow> (c # t) # ts | [] \<Rightarrow> [])"

definition flat_member :: "string \<Rightarrow> string \<times> string" where
  "flat_member s = (let n = takeWhile (\<lambda>c. c \<noteq> CHR 0x22) (tl s) in (n, drop (length n + 3) s))"

definition flat_members :: "string \<Rightarrow> ((string \<times> string) list, string) result" where
  "flat_members s = Ok (map flat_member (split_comma (butlast (tl s))))"

definition u64_args :: "u64 arg_readers" where
  "u64_args = \<lparr>rd_next = (\<lambda>_. u64_reader), rd_optional = (\<lambda>_. u64_option_reader), rd_parse = u64_arg_parse,
     rd_members = flat_members, rd_missing = (\<lambda>ty. if is_option ty then Some (Optional None) else None),
     rd_error = (\<lambda>_. ''invalid members''), to_snake_case = id, to_lower_camel_case = id\<rparr>"

definition arg_type :: "rust_type \<Rightarrow> u64 arg_value \<Rightarrow> bool" where
  "arg_type ty a = (is_option ty = (case a of Optional _ \<Rightarrow> True | Plain _ \<Rightarrow> False))"

definition plain_name :: "string \<Rightarrow> bool" where
  "plain_name n = list_all (\<lambda>c. escape_char c = [c] \<and> c \<noteq> CHR '','') n"

lemma split_comma_ne: "split_comma s \<noteq> []"
  by (induction s) (auto split: list.split)

lemma split_comma_piece: "CHR '','' \<notin> set s \<Longrightarrow> split_comma s = [s]"
  by (induction s) auto

lemma split_comma_append: "CHR '','' \<notin> set s \<Longrightarrow> split_comma (s @ CHR '','' # t) = s # split_comma t"
  by (induction s) auto

lemma split_comma_join: "ss \<noteq> [] \<Longrightarrow> \<forall>s \<in> set ss. CHR '','' \<notin> set s \<Longrightarrow> split_comma (join_comma ss) = ss"
  by (induction ss rule: join_comma.induct) (auto simp: split_comma_piece split_comma_append)

lemma json_string_plain:
  assumes "plain_name n"
  shows "json_string n = CHR 0x22 # n @ [CHR 0x22]" and "CHR 0x22 \<notin> set n" and "CHR '','' \<notin> set n"
proof -
  have "concat (map escape_char n) = n" using assms by (induction n) (auto simp: plain_name_def)
  moreover have "char_of (34::nat) = CHR 0x22" by (simp add: char_eval)
  ultimately show "json_string n = CHR 0x22 # n @ [CHR 0x22]" unfolding json_string_def by simp
  have "escape_char (CHR 0x22) \<noteq> [CHR 0x22]" by (simp add: escape_char_def)
  with assms show "CHR 0x22 \<notin> set n" by (auto simp: plain_name_def list_all_iff)
  from assms show "CHR '','' \<notin> set n" by (auto simp: plain_name_def list_all_iff)
qed

lemma arg_value_cases:
  obtains (plain) v where "a = Plain v" | (missing) "a = Optional None" | (present) v where "a = Optional (Some v)"
  by (metis arg_value.exhaust option.exhaust)

lemma digits_of_u64: "c \<in> set (u64_to_string v) \<Longrightarrow> of_char c \<in> {48..57::nat}"
  using nat_to_string_digits [of "unat v"]
  by (auto simp: u64_to_string_def is_digit_char_def char_digit_def Let_def split: if_split_asm dest!: bspec)

lemma arg_text_cases: "arg_text a = ''null'' \<or> (\<exists>v. arg_text a = u64_to_string v)"
  by (cases a rule: arg_value_cases) (auto simp: arg_text_def)

lemma arg_text_chars: "c \<in> set (arg_text a) \<Longrightarrow> of_char c \<in> {33..127::nat} \<and> c \<noteq> CHR '',''"
  using arg_text_cases [of a] by (auto dest!: digits_of_u64)

lemma arg_text_ne: "arg_text a \<noteq> []"
  using arg_text_cases [of a] by (auto simp: u64_to_string_ne)

lemma flat_member_printed:
  assumes "plain_name n"
  shows "flat_member (json_string n @ '':'' @ raw) = (n, raw)"
proof -
  have "takeWhile (\<lambda>c. c \<noteq> CHR 0x22) (n @ CHR 0x22 # '':'' @ raw) = n"
    using json_string_plain(2) [OF assms] by (subst takeWhile_append2) auto
  then show ?thesis by (simp add: flat_member_def json_string_plain(1) [OF assms] Let_def numeral_3_eq_3)
qed

lemma digits_not_null: "take 4 (u64_to_string v @ s) \<noteq> ''null''"
proof
  assume "take 4 (u64_to_string v @ s) = ''null''"
  moreover obtain c t where "u64_to_string v = c # t" using u64_to_string_ne by (cases "u64_to_string v") auto
  ultimately have "CHR ''n'' \<in> set (u64_to_string v)" by simp
  from digits_of_u64 [OF this] show False by simp
qed

interpretation u64_arguments: typed_json json_emit SU64 u64_args "\<lambda>_. True" arg_text json_string arg_type plain_name
proof
  fix ty and a :: "u64 arg_value"
  show "arg_text a \<noteq> []" by (rule arg_text_ne)
  show "trim (arg_text a) = arg_text a"
    using arg_text_ne [of a] arg_text_chars [of "hd (arg_text a)" a] arg_text_chars [of "last (arg_text a)" a]
    by (intro trim_solid) auto
  show "arg_type ty a \<Longrightarrow> is_option ty \<longleftrightarrow> (\<exists>v. a = Optional v)" by (cases a) (auto simp: arg_type_def)
  have "u64_to_string v \<noteq> ''null''" for v using digits_not_null [of v "[]"] by auto
  then show "arg_type ty a \<Longrightarrow> rd_parse u64_args ty (arg_text a) = Inr a"
    by (cases a rule: arg_value_cases) (auto simp: u64_args_def u64_arg_parse_def arg_type_def arg_text_def)
next
  fix ty x d rest
  assume "d \<in> {CHR '','', CHR '']''}"
  then show "rd_optional u64_args ty (arg_text (Optional x) @ d # rest) = Some (Inr x, length (arg_text (Optional x)))"
    using digits_not_null by (cases x) (simp_all add: u64_args_def u64_option_reader_def arg_text_def u64_reader_printed)
next
  fix ms :: "(string \<times> u64 arg_value) list"
  assume ms: "ms \<noteq> []" "\<forall>(n, a) \<in> set ms. plain_name n"
  have "CHR '','' \<notin> set (json_string n @ '':'' @ arg_text a)" if "(n, a) \<in> set ms" for n a
  proof -
    have n: "plain_name n" using that ms(2) by blast
    have "CHR '','' \<notin> set (json_string n)" unfolding json_string_plain(1) [OF n] using json_string_plain(3) [OF n] by simp
    moreover have "CHR '','' \<notin> set (arg_text a)" using arg_text_chars by blast
    ultimately show ?thesis by simp
  qed
  then have "split_comma (join_comma (map (\<lambda>(n, a). json_string n @ '':'' @ arg_text a) ms)) =
      map (\<lambda>(n, a). json_string n @ '':'' @ arg_text a) ms"
    using ms(1) by (intro split_comma_join) auto
  then show "rd_members u64_args (''{'' @ join_comma (map (\<lambda>(n, a). json_string n @ '':'' @ arg_text a) ms) @ ''}'') =
      Inr (map (\<lambda>(n, a). (n, arg_text a)) ms)"
    using ms(2) flat_member_printed by (auto simp: u64_args_def flat_members_def butlast_append)
qed (simp_all add: json_emit_def arg_text_def u64_args_def u64_reader_printed)

section \<open>Properties\<close>

lemma distinct_concat_parts:
  "distinct (concat (map (\<lambda>x. f x @ g x) xs)) \<Longrightarrow> distinct (concat (map f xs))"
  by (induction xs) auto

lemma registrations_names:
  "concat (map reg_names (snd (render_into_rpc d))) =
     map (\<lambda>m. rpc_identifier d (me_name m)) (de_methods d) @
     concat (map (\<lambda>s. [rpc_identifier d (su_name s), rpc_identifier d (su_unsubscribe s)]) (de_subscriptions d)) @
     concat (map me_aliases (de_methods d)) @
     concat (map (\<lambda>s. su_aliases s @ su_unsubscribe_aliases s) (de_subscriptions d))"
proof -
  have a: "concat (map reg_names (concat (map (\<lambda>m. map (\<lambda>a. RegAlias a (rpc_identifier d (me_name m))) (me_aliases m)) ms))) =
      concat (map me_aliases ms)" for ms
    by (induction ms) (simp_all add: comp_def)
  have b: "concat (map reg_names (concat (map (\<lambda>s. map (\<lambda>a. RegAlias a (rpc_identifier d (su_name s))) (su_aliases s) @
      map (\<lambda>a. RegAlias a (rpc_identifier d (su_unsubscribe s))) (su_unsubscribe_aliases s)) ss))) =
      concat (map (\<lambda>s. su_aliases s @ su_unsubscribe_aliases s) ss)" for ss
    by (induction ss) (simp_all add: comp_def)
  have c: "concat (map reg_names (map (method_registration d) ms)) = map (\<lambda>m. rpc_identifier d (me_name m)) ms" for ms
    by (induction ms) (simp_all add: method_registration_def)
  have e: "concat (map reg_names (map (subscription_registration d) ss)) =
      concat (map (\<lambda>s. [rpc_identifier d (su_name s), rpc_identifier d (su_unsubscribe s)]) ss)" for ss
    by (induction ss) (simp_all add: subscription_registration_def)
  show ?thesis unfolding render_into_rpc_def snd_conv map_append concat_append a c e b ..
qed

lemma registrations_distinct:
  assumes "fst (render_into_rpc d) = []"
  shows "distinct (concat (map reg_names (snd (render_into_rpc d))))"
proof -
  let ?f = "\<lambda>s. [rpc_identifier d (su_name s), rpc_identifier d (su_unsubscribe s)]"
  let ?g = "\<lambda>s. case su_notif_name_override s of Some n \<Rightarrow> [rpc_identifier d n] | None \<Rightarrow> []"
  have d: "distinct (checked_names d)" using assms by (simp add: render_into_rpc_def check_names_empty)
  then have "distinct (concat (map (\<lambda>s. ?f s @ ?g s) (de_subscriptions d)))"
    unfolding checked_names_def by (simp only: distinct_append)
  from distinct_concat_parts [OF this] have "distinct (concat (map ?f (de_subscriptions d)))" .
  moreover have "set (concat (map ?f xs)) \<subseteq> set (concat (map (\<lambda>s. ?f s @ ?g s) xs))" for xs by auto
  ultimately show ?thesis using d unfolding registrations_names checked_names_def distinct_append set_append by blast
qed

lemma registrations_targets: "targets_known {} (snd (render_into_rpc d))"
proof -
  let ?ms = "map (method_registration d) (de_methods d)" and ?ss = "map (subscription_registration d) (de_subscriptions d)"
  have "targets_known {} (?ms @ ?ss)"
    by (intro targets_known_all) (auto simp: method_registration_def subscription_registration_def)
  moreover have "(\<Union>r \<in> set (?ms @ ?ss). set (reg_names r)) =
      (\<lambda>m. rpc_identifier d (me_name m)) ` set (de_methods d) \<union>
      (\<Union>s \<in> set (de_subscriptions d). {rpc_identifier d (su_name s), rpc_identifier d (su_unsubscribe s)})"
    by (auto simp: method_registration_def subscription_registration_def)
  ultimately show ?thesis
    unfolding render_into_rpc_def snd_conv append_assoc [symmetric]
    by (subst append_assoc, subst targets_known_append) (auto intro!: targets_known_all)
qed

lemma into_rpc_done:
  assumes "fst (render_into_rpc d) = []"
  obtains rpc where "into_rpc debug env t d ctx = Done rpc"
    "\<forall>r \<in> set (snd (render_into_rpc d)). in_effect env ctx r (callbacks (rm_methods rpc))"
    "method_names (rm_methods rpc) = set (concat (map reg_names (snd (render_into_rpc d))))"
proof -
  have e: "callbacks (rm_methods (RpcModule_new ctx)) = Map.empty" "rm_ctx (RpcModule_new ctx) = ctx"
    by (simp_all add: RpcModule_new_def Methods_new_def)
  have "targets_known (dom (callbacks (rm_methods (RpcModule_new ctx)))) (snd (render_into_rpc d))"
    using registrations_targets [of d] by (simp add: e)
  note regs = run_registrations_fresh [OF registrations_distinct [OF assms] _ this, of debug env t]
  obtain rpc' where r: "run_registrations debug env t (snd (render_into_rpc d)) (RpcModule_new ctx) = Done rpc'"
    "\<forall>r \<in> set (snd (render_into_rpc d)). in_effect env ctx r (callbacks (rm_methods rpc'))"
    "dom (callbacks (rm_methods rpc')) = set (concat (map reg_names (snd (render_into_rpc d))))"
    using regs by (auto simp: e)
  show thesis by (rule that [of rpc']) (simp_all add: into_rpc_def method_names_def r del: set_concat)
qed

lemma alias_registrations:
  "m \<in> set (de_methods d) \<Longrightarrow> a \<in> set (me_aliases m) \<Longrightarrow>
     RegAlias a (rpc_identifier d (me_name m)) \<in> set (snd (render_into_rpc d))"
  "s \<in> set (de_subscriptions d) \<Longrightarrow> a \<in> set (su_aliases s) \<Longrightarrow>
     RegAlias a (rpc_identifier d (su_name s)) \<in> set (snd (render_into_rpc d))"
  "s \<in> set (de_subscriptions d) \<Longrightarrow> a \<in> set (su_unsubscribe_aliases s) \<Longrightarrow>
     RegAlias a (rpc_identifier d (su_unsubscribe s)) \<in> set (snd (render_into_rpc d))"
  unfolding render_into_rpc_def snd_conv by force+

text \<open>C26. When the macro reports no name twice, \<open>into_rpc\<close> registers everything, in debug builds without a panic: a
  method answers under its name and every alias, a subscription and its unsubscription under theirs, both on one table
  of subscribers; and no other name is registered.\<close>

theorem into_rpc_registers:
  assumes "fst (render_into_rpc d) = []"
  shows "\<exists>rpc. into_rpc debug env t d ctx = Done rpc \<and>
    (\<forall>m \<in> set (de_methods d). \<forall>n \<in> {rpc_identifier d (me_name m)} \<union> set (me_aliases m).
       callbacks (rm_methods rpc) n = Some (method_cb env ctx m)) \<and>
    (\<forall>s \<in> set (de_subscriptions d). \<exists>t.
       (\<forall>n \<in> {rpc_identifier d (su_name s)} \<union> set (su_aliases s).
          callbacks (rm_methods rpc) n = Some (subscribe_cb env ctx t (notif_name d s) s)) \<and>
       (\<forall>n \<in> {rpc_identifier d (su_unsubscribe s)} \<union> set (su_unsubscribe_aliases s).
          callbacks (rm_methods rpc) n = Some (unsubscribe_callback (en_emit env) (en_de_id env) t))) \<and>
    method_names (rm_methods rpc) =
      (\<Union>m \<in> set (de_methods d). {rpc_identifier d (me_name m)} \<union> set (me_aliases m)) \<union>
      (\<Union>s \<in> set (de_subscriptions d). {rpc_identifier d (su_name s), rpc_identifier d (su_unsubscribe s)} \<union>
         set (su_aliases s) \<union> set (su_unsubscribe_aliases s))"
proof -
  obtain rpc where rpc: "into_rpc debug env t d ctx = Done rpc"
    and eff: "\<forall>r \<in> set (snd (render_into_rpc d)). in_effect env ctx r (callbacks (rm_methods rpc))"
    and names: "method_names (rm_methods rpc) = set (concat (map reg_names (snd (render_into_rpc d))))"
    by (rule into_rpc_done [OF assms])
  let ?cb = "callbacks (rm_methods rpc)"
  have m: "?cb n = Some (method_cb env ctx m)" if "m \<in> set (de_methods d)" "n \<in> {rpc_identifier d (me_name m)} \<union> set (me_aliases m)" for m n
  proof -
    have "?cb (rpc_identifier d (me_name m)) = Some (method_cb env ctx m)"
      using that(1) eff by (force simp: render_into_rpc_def method_registration_def)
    moreover have "?cb a = ?cb (rpc_identifier d (me_name m))" if "a \<in> set (me_aliases m)" for a
      using alias_registrations(1) [OF \<open>m \<in> set (de_methods d)\<close> that] eff by fastforce
    ultimately show ?thesis using that(2) by auto
  qed
  have s: "\<exists>t. (\<forall>n \<in> {rpc_identifier d (su_name s)} \<union> set (su_aliases s). ?cb n = Some (subscribe_cb env ctx t (notif_name d s) s)) \<and>
       (\<forall>n \<in> {rpc_identifier d (su_unsubscribe s)} \<union> set (su_unsubscribe_aliases s).
          ?cb n = Some (unsubscribe_callback (en_emit env) (en_de_id env) t))" if s: "s \<in> set (de_subscriptions d)" for s
  proof -
    have "in_effect env ctx (subscription_registration d s) ?cb" using s eff by (auto simp: render_into_rpc_def)
    moreover have "?cb a = ?cb (rpc_identifier d (su_name s))" if "a \<in> set (su_aliases s)" for a
      using alias_registrations(2) [OF s that] eff by fastforce
    moreover have "?cb a = ?cb (rpc_identifier d (su_unsubscribe s))" if "a \<in> set (su_unsubscribe_aliases s)" for a
      using alias_registrations(3) [OF s that] eff by fastforce
    ultimately show ?thesis by (fastforce simp: subscription_registration_def)
  qed
  have "set (concat (map reg_names (snd (render_into_rpc d)))) =
      (\<Union>m \<in> set (de_methods d). {rpc_identifier d (me_name m)} \<union> set (me_aliases m)) \<union>
      (\<Union>s \<in> set (de_subscriptions d). {rpc_identifier d (su_name s), rpc_identifier d (su_unsubscribe s)} \<union>
         set (su_aliases s) \<union> set (su_unsubscribe_aliases s))"
    unfolding registrations_names by auto
  with rpc m s names show ?thesis by (intro exI [of _ rpc] conjI) auto
qed

text \<open>What the user's function returns, and a call of a callback.\<close>

definition user_result ::
  "('ctx, 'v, 'r, 't, 'c, 'u) stub_env \<Rightarrow> RpcMethod \<Rightarrow> 'ctx \<Rightarrow> extensions \<Rightarrow> 'v arg_value list \<Rightarrow> ('c, 'u) server_world \<Rightarrow>
     'r option \<times> ('c, 'u) server_world" where
  "user_result env m ctx ext args w =
     (let f = tf_ident (me_signature m); e = ext_arg (me_with_extensions m) ext in
      if me_blocking m \<and> \<not> tf_async (me_signature m) then im_blocking (en_impl env) ctx f e args w
      else map_prod Some id (im_call (en_impl env) ctx f e args w))"

fun call_cb :: "'w MethodCallback \<Rightarrow> Id \<Rightarrow> Params \<Rightarrow> nat \<Rightarrow> nat \<Rightarrow> extensions \<Rightarrow> 'w \<Rightarrow> (MethodResponse \<times> 'w) option" where
  "call_cb (SyncCb f) i params conn n ext w = Some (f i params n ext w)"
| "call_cb (AsyncCb f) i params conn n ext w = Some (f i params conn n ext w)"
| "call_cb _ i params conn n ext w = None"

lemma method_cb_called:
  assumes "run_decoding (en_emit env) (en_readers env) (render_params_decoding (me_params m) (me_param_kind m)) params = Inr args"
    and "user_result env m ctx ext args w = (Some r, w')"
  shows "call_cb (method_cb env ctx m) i params conn n ext w =
    Some (with_extensions ext (MethodResponse_response (en_emit env) (en_ser env) i (en_into env r) n), w')"
  using assms
  by (auto simp: method_cb_def method_stub_def blocking_stub_def user_result_def Let_def map_prod_def split: if_splits prod.splits)


section \<open>Witnesses\<close>

definition example_arg :: "string \<Rightarrow> rust_type \<Rightarrow> RpcFnArg" where
  "example_arg n ty = \<lparr>arg_pat = n, rename_to = None, arg_ty = ty\<rparr>"

definition example_method :: RpcMethod where
  "example_method = \<lparr>me_name = ''add'', me_blocking = False, me_docs = [], me_deprecated = None,
     me_params = [example_arg ''a'' (ident_type ''u64''), example_arg ''b'' (ident_type ''Option'')],
     me_param_kind = KindMap, me_returns = Some (ident_type ''R''),
     me_signature = \<lparr>tf_attrs = [], tf_ident = ''add'', tf_async = True, tf_type_params = [],
       tf_inputs = [Receiver, Typed (PatIdent ''a'') [] (ident_type ''u64''), Typed (PatIdent ''b'') [] (ident_type ''Option'')],
       tf_output = Some (ident_type ''R'')\<rparr>,
     me_aliases = [''plus''], me_with_extensions = False\<rparr>"

definition example_subscription :: RpcSubscription where
  "example_subscription = \<lparr>su_name = ''subscribe'', su_notif_name_override = None, su_docs = [], su_unsubscribe = ''unsubscribe'',
     su_params = [], su_param_kind = KindArray, su_item = ident_type ''u64'',
     su_signature = \<lparr>tf_attrs = [], tf_ident = ''watch'', tf_async = True, tf_type_params = [], tf_inputs = [Receiver], tf_output = None\<rparr>,
     su_aliases = [], su_unsubscribe_aliases = [''stop''], su_with_extensions = False\<rparr>"

definition example_description :: RpcDescription where
  "example_description = \<lparr>jsonrpsee_client_path = Some ''jsonrpsee'', jsonrpsee_server_path = Some ''jsonrpsee'',
     needs_server = True, needs_client = True, namespace = Some ''calc'', namespace_separator = None,
     trait_def = \<lparr>it_ident = ''Calc'', it_attrs = [], it_type_params = [], it_where = None, it_items = []\<rparr>,
     de_methods = [example_method], de_subscriptions = [example_subscription], client_bounds = None, server_bounds = None\<rparr>"

definition example_stub_env :: "(unit, u64, u64, u64, unit, unit) stub_env" where
  "example_stub_env = \<lparr>en_emit = json_emit, en_readers = u64_args,
     en_impl = \<lparr>im_call = (\<lambda>_ _ _ args w. (case args of [Plain a, Optional (Some b)] \<Rightarrow> a + b | _ \<Rightarrow> 0, w)),
       im_blocking = (\<lambda>_ _ _ _ w. (None, w)), im_subscribe = (\<lambda>_ _ _ _ _ w. w)\<rparr>,
     en_into = into_response_value, en_ser = SU64,
     en_sinks = null_ops,
     en_de_id = (\<lambda>_. Err [])\<rparr>"

lemma example_names_distinct: "fst (render_into_rpc example_description) = []"
  by code_simp

theorem into_rpc_registers_witness:
  "\<exists>rpc. into_rpc True example_stub_env 0 example_description () = Done rpc \<and>
     callbacks (rm_methods rpc) ''calc_add'' = Some (method_cb example_stub_env () example_method) \<and>
     callbacks (rm_methods rpc) ''plus'' = Some (method_cb example_stub_env () example_method) \<and>
     method_names (rm_methods rpc) = {''calc_add'', ''plus'', ''calc_subscribe'', ''calc_unsubscribe'', ''stop''}"
  using into_rpc_registers [OF example_names_distinct, of True example_stub_env 0 "()"]
  by (force simp: example_description_def example_method_def example_subscription_def rpc_identifier_def)


text \<open>
  The documentation of the macro shows methods that return \<open>u16\<close>; for a trait with a client that is a compile error.
\<close>

lemma plain_return_type_refused:
  "return_result_type d (ident_type ''u16'') = Inl (''Expecting something like '' @ quoted ''Result<Foo, Err>'' @
     '' here, but got no generic args (eg no '' @ quoted ''<Foo,Err>'' @ '').'')"
  by (simp add: return_result_type_def ident_type_def)

text \<open>Aliases are a list in brackets; a string, of which the documentation speaks, is refused.\<close>

lemma alias_string_refused:
  "parse_aliases (Some \<lparr>ar_label = ''aliases'', ar_tokens = [TPunct (CHR ''=''), TLitStr s]\<rparr>) = Inl SynError"
  by (simp add: parse_aliases_def optional_arg_def Argument_value_def Aliases_parse_def and_then_def)

text \<open>A subscription need not be asynchronous.\<close>

lemma sync_subscription_accepted:
  "\<exists>s. RpcSubscription_from_item (\<lambda>_. Ok TyOther) \<lparr>at_path = ''subscription'', at_meta = MetaList
       [TIdent ''name'', TPunct (CHR ''=''), TLitStr ''subscribe'', TPunct (CHR '',''), TIdent ''item'', TPunct (CHR ''=''), TIdent ''u64'']\<rparr>
     \<lparr>tf_attrs = [], tf_ident = ''watch'', tf_async = False, tf_type_params = [], tf_inputs = [Receiver], tf_output = None\<rparr> = Done (Inr s)"
proof -
  have "case RpcSubscription_from_item (\<lambda>_. Ok TyOther) \<lparr>at_path = ''subscription'', at_meta = MetaList
       [TIdent ''name'', TPunct (CHR ''=''), TLitStr ''subscribe'', TPunct (CHR '',''), TIdent ''item'', TPunct (CHR ''=''), TIdent ''u64'']\<rparr>
     \<lparr>tf_attrs = [], tf_ident = ''watch'', tf_async = False, tf_type_params = [], tf_inputs = [Receiver], tf_output = None\<rparr> of
     Done (Inr _) \<Rightarrow> True | _ \<Rightarrow> False" by code_simp
  then show ?thesis by (auto split: outcome.splits sum.splits)
qed

text \<open>
  Two arguments whose names are the same in snake case share a field: every object with both is refused, also the one
  the client stub sends.
\<close>

lemma colliding_names_refused:
  assumes "to_snake_case rd ''fooBar'' = ''foo_bar''"
  shows "read_members rd [example_arg ''fooBar'' ty, example_arg ''foo_bar'' ty]
      [(''fooBar'', raw), (''foo_bar'', raw')] [None, None] =
    and_then (rd_parse rd ty raw) (\<lambda>v. Inl (rd_error rd (DuplicateField ''fooBar'')))"
  using assms by (simp add: example_arg_def RpcFnArg_name_def field_names_def and_then_def)

end
