(* ===== verification/Spec2Isabelle.thy ===== *)
theory Spec2Isabelle
  imports Ws_Subscription Ws_Batch Conversation Wire_Texts Mock_Server Client_Polling Server_Low_Level Http_Middleware Rpc_Macro_Render
begin

text \<open>
  \<^bold>\<open>jsonrpsee: a model of the JSON-RPC client and server\<close>

  jsonrpsee is a JSON-RPC 2.0 library in Rust. A \<^emph>\<open>client\<close> turns calls into messages, keeps a table of
  what it waits for and distributes what the server sends back; a \<^emph>\<open>server\<close> reads messages from HTTP or
  WebSocket connections, dispatches them to registered methods and answers. Both use the same
  message types. The theories follow the crates:

  \<^item> \<open>Prelude\<close>: results, panics, polling, machine integers, text; the contracts \<open>insert_table\<close> and
    \<open>pending_table\<close> of tables that refuse to overwrite an entry.
  \<^item> \<open>Rpc_Types\<close> (\<open>types/src\<close>): error codes and objects, ids, requests, notifications, responses with
    their serializer and the hand-written deserializer of \<open>response.rs\<close>. \<open>response_codec\<close> is the
    contract between a serializer and the readers of its members.
  \<^item> \<open>Params_Seq\<close> (\<open>types/src/params.rs\<close>, \<open>core/src/params.rs\<close>): building and reading parameters;
    \<open>value_stream\<close> is the contract of the value reader of \<open>serde_json\<close>.

  The client (\<open>core/src/client\<close>):

  \<^item> \<open>Request_Manager\<close> (\<open>async_client/manager.rs\<close>): the tables of pending calls, batches, subscriptions
    and notification handlers, their invariant, and the refinement to a single table of entries.
  \<^item> \<open>Client_Helpers\<close> (\<open>async_client/helpers.rs\<close>): processing of responses, batches, subscription
    notifications and closes; channels are given by the contract \<open>bounded_channels\<close>.
  \<^item> \<open>Async_Client\<close> (\<open>async_client/mod.rs\<close>, \<open>client/mod.rs\<close>): request ids, messages from the front end
    and from the server, and the two background tasks as a step relation \<open>bg_step\<close>.
  \<^item> \<open>Client_Polling\<close> (\<open>async_client/utils.rs\<close>, the loops of \<open>async_client/mod.rs\<close>): the turns of the tasks' \<open>select!\<close> loops over
    the streams they poll, as a refinement of \<open>bg_step\<close>; \<open>futures_unordered\<close> and \<open>send_futures\<close> are the contracts of
    the futures in between.
  \<^item> \<open>Client_Frontend\<close>: the service of the client, batches, subscriptions and builder options.
  \<^item> \<open>Rpc_Middleware\<close> (\<open>core/src/middleware/layer\<close>): stacks of layers around a service, the optional layer and
    the logger.
  \<^item> \<open>Http_Client\<close> (\<open>client/http-client/src\<close>): the HTTP client, its transport and their builders.
  \<^item> \<open>Client_Transport\<close> (\<open>client/transport/src\<close>, \<open>client/ws-client\<close>, \<open>client/wasm-client\<close>): connecting over WebSocket
    with its redirections, sending and receiving, the web transport, the builders. \<open>shared_cipher\<close> is the
    contract of the encryption both ends use.
  \<^item> \<open>Client_Api\<close> (\<open>async_client/mod.rs\<close>, \<open>client/mod.rs\<close>): what the operations of a client do, from the call to
    the queue of the background task and from the answer to the caller.

  The server (\<open>core/src/server\<close>, \<open>core/src/middleware\<close>, \<open>server/src\<close>):

  \<^item> \<open>Method_Response\<close> (\<open>method_response.rs\<close>): responses, the writer that bounds their size, the builder of
    batch responses, completion notices; \<open>prepare_error\<close> and the id providers.
  \<^item> \<open>Subscription_Server\<close> (\<open>subscription.rs\<close>, \<open>helpers.rs\<close>, \<open>error.rs\<close>): sinks, pending and accepted
    subscriptions, permits; \<open>sub_step\<close> interleaves what user code and clients do with them.
  \<^item> \<open>Rpc_Module\<close> (\<open>rpc_module.rs\<close>, \<open>mod.rs\<close>): the table of methods, registration and the callbacks
    it builds, calls without a server. All callbacks work on one state \<open>server_world\<close>; the part a
    subscription method sees of it is given by \<open>part_of_state\<close>.
  \<^item> \<open>Module_Subscription\<close> (\<open>subscription.rs\<close>, \<open>helpers.rs\<close>, \<open>error.rs\<close>, \<open>rpc_module.rs\<close>): capacities and ends of sinks, the
    errors of sending, subscriptions on a module without a server; \<open>sink_channels\<close> is the contract of bounded channels.
  \<^item> \<open>Rpc_Service\<close> (\<open>core/src/middleware/mod.rs\<close>, \<open>server/src/middleware/rpc.rs\<close>): batches and the service
    that executes calls, batches and notifications.
  \<^item> \<open>Server_Dispatch\<close> (\<open>core/src/http_helpers.rs\<close>, \<open>utils.rs\<close>, \<open>handle_rpc_call\<close> of \<open>server.rs\<close>,
    \<open>transport/http.rs\<close>): from bytes to the service and back, over HTTP.
  \<^item> \<open>Ws_Transport\<close> (\<open>transport/ws.rs\<close>): the tasks of a WebSocket connection, encryption, pings; \<open>ws_step\<close>
    interleaves the receiving task with the tasks of the messages.
  \<^item> \<open>Http_Middleware\<close> (\<open>middleware/http\<close>): authorities, the host filter, the GET proxy.
  \<^item> \<open>Server_Connection\<close> (\<open>server.rs\<close>, \<open>future.rs\<close>, \<open>connection_manager.rs\<close>): configuration, the limit of
    connections, the decision on a request, the life of connections (\<open>sv_step\<close>), broadcasts.
  \<^item> \<open>Server_Lifecycle\<close> (\<open>server.rs\<close>, \<open>future.rs\<close>, \<open>utils.rs\<close>): builders, the accept loop, the stop channel and
    session notices; \<open>lc_step\<close> interleaves accepting, serving, WebSocket tasks and \<open>stop\<close>.
  \<^item> \<open>Ws_Session\<close> (\<open>transport/ws.rs\<close>): one WebSocket connection with its receiving task, the tasks of its messages and its
    sending task around one channel, up to the end of its graceful shutdown (\<open>session_step\<close>).
  \<^item> \<open>Server_Low_Level\<close> (\<open>server.rs\<close>, \<open>transport/ws.rs\<close>, \<open>transport/http.rs\<close>): building a server, the parameters of the task of
    a connection, its timers, and the functions \<open>ws::connect\<close> and \<open>call_with_service_builder\<close> for servers built by hand.

  Client and server together, and the macro that generates both:

  \<^item> \<open>Http_Exchange\<close>, \<open>Ws_Exchange\<close>: a call goes through all components of the client, over the wire, through
    all components of the server to the registered handler, and its answer back; \<open>faithful_wire\<close> is what is
    assumed of HTTP in between.
  \<^item> \<open>Ws_Batch\<close>: a batch of calls, from the client's builder to the entries its caller gets.
  \<^item> \<open>Ws_Subscription\<close>: a subscription over WebSocket from \<open>subscribe\<close> over its items to \<open>unsubscribe\<close>.
  \<^item> \<open>Conversation\<close>: a client and a server with any number of calls under way as one transition system of both sides' tasks and the
    wire (\<open>conv_step\<close>), refined from a pipeline; \<open>pipeline_system\<close> is the contract between the two.
  \<^item> \<open>Wire_Texts\<close> (\<open>test-utils/src/helpers.rs\<close>): the reference texts of the tests, and that the server writes them.
  \<^item> \<open>Mock_Server\<close> (\<open>test-utils/src/mocks.rs\<close>): the test servers with hard-coded answers and redirections, and a test of the client against them.
  \<^item> \<open>Rpc_Macro\<close> (\<open>proc-macros/src/attributes.rs\<close>, \<open>rpc_macro.rs\<close>, \<open>visitor.rs\<close>, \<open>helpers.rs\<close>): reading and checking of
    a trait with the attribute \<open>rpc\<close>, over datatypes for the syntax trees of \<open>syn\<close>.
  \<^item> \<open>Rpc_Macro_Render\<close> (\<open>render_client.rs\<close>, \<open>render_server.rs\<close>): the generated stubs as values with a meaning on
    the models of parameters and modules; \<open>typed_json\<close> is the contract of the readers of their arguments.

  \<^bold>\<open>Correspondence.\<close> Structs are records and enums datatypes with the source's fields and constructors
  (prefixed where a name is taken); every function is one definition on an explicit state. \<open>Result\<close> is a
  sum with \<open>Ok\<close> for \<open>Inr\<close>; a function that can panic (\<open>expect\<close>, \<open>assert!\<close>, \<open>unreachable!\<close>) returns an
  \<open>outcome\<close>, a call that may wait for ever an \<open>awaited\<close>. Ids and limits that are \<open>u16\<close>, \<open>u32\<close> or \<open>u64\<close> are
  words of that width, sizes of buffers naturals, error codes integers. Text is its UTF-8 bytes.
  Channels, oneshots and tables behind an \<open>Arc\<close> are numbers that the state maps to their contents.
  An awaited future is its final outcome; where the interleaving of tasks matters it is a step
  relation with one rule per task action, and the properties are invariants of its reachable states.
  Hash maps are partial functions, and an iteration over one has its order as an argument.

  \<^bold>\<open>Parameters.\<close> Code outside the repository is a parameter: \<open>serde_json\<close> as an \<open>emitter\<close> (the pieces it
  writes for a value and whether the value could be serialized) and as readers; \<open>tokio\<close> channels as
  records of operations; \<open>soketto\<close>, \<open>hyper\<close>, \<open>http::Uri\<close>, \<open>http_body_util::Limited\<close> and \<open>route_recognizer\<close>
  likewise; the user's handlers and random numbers. Properties name what they rely on as hypotheses,
  such as \<open>limits\<close> for \<open>Limited\<close>. \<open>json_emit\<close> is a concrete emitter, used to evaluate examples.

  \<^bold>\<open>What is shown.\<close> End to end: a call of the HTTP client or the WebSocket client returns the result of the
  handler that was registered at the server, a batch returns the entries of its calls in order, a call through a generated client stub reaches the user's
  function with the same arguments, the items that a handler sends on a subscription arrive in order at the client, and
  unsubscribing closes the handler's sink. In a conversation with many calls, whatever the order in which the tasks of both sides run, every
  call is answered exactly once, with what the service answers to it, and no run goes on for ever. For the client: the background tasks never panic; their loops refine the
  step relation and sleep through no event; answers of batches are
  delivered in the order of the requests whatever the order they arrive in, and HTTP and WebSocket clients read
  them alike; the request manager refines its specification; connecting follows
  redirections and ends; every operation queues exactly its message. For the messages: responses and parameters
  survive writing and reading, messages survive encryption, and the server writes the reference texts of the tests to the letter. For the server: batches are answered with one
  response per call in order and within the size limit; a subscribe call has exactly one answer on the wire;
  subscriptions and connections stay within their limits in all interleavings; every received message is handled
  once; a sink gives back what its channel has no room for; subscriptions on a module deliver their items; stopping is
  safe and always possible, and a connection that is stopped gracefully has answered all it received; layers run in order; the
  HTTP transport, the host filter, the GET proxy and broadcasts do what they promise. For the macro: what an
  accepted trait satisfies, and that \<open>into_rpc\<close> registers exactly the described names. Some properties and
  lemmas describe behaviour that differs from what comments and documentation say.

  \<^bold>\<open>Termination.\<close> All definitions are total functions, by structural recursion on lists of entries, frames
  or events, or with a measure on the text that is left; there is no fuel.

  \<^bold>\<open>Not modelled.\<close> TLS and sockets, the glue to \<open>hyper\<close>, \<open>tokio\<close> runtimes and listeners, tower's own layers,
  the text of the code the macro generates (only what it does), formatting for \<open>Debug\<close>, conversions between borrowed and
  owned data, the re-exports of the facade crate, tests and examples. A spawned
  clean-up task of a broadcast runs at once, and accepting a subscription is one step. In \<open>Ws_Session\<close> the channel of
  a connection has no bound: a task that waits for room does so before its step.
  \<open>Conversation\<close> has calls of methods only, without batches, notifications, subscriptions, timers and failures of the socket, which
  the systems of either side have (\<open>bg_step\<close>, \<open>session_step\<close>).
\<close>

end
